(* ===== verification/Prelude.thy ===== *)
theory Prelude
  imports Main "HOL-Library.State_Monad" "HOL-Library.Char_ord" "HOL-Library.List_Lexorder"
    "HOL-Library.Multiset"
begin

text \<open>
  What every component theory shares.

  \<^item> Go's errors as a datatype, and the operations of Go's standard library the operator uses on
    strings and slices (\<^verbatim>\<open>strings.Join\<close>, \<^verbatim>\<open>slices.Contains\<close>, \<^verbatim>\<open>slices.Sort\<close>,
    \<^verbatim>\<open>slices.Equal\<close>).
  \<^item> Effects. An operation that talks to the API server is a value of the state monad whose state
    is the history of calls made so far. The reasoning about such operations rests on three notions:
    \<open>emits P m\<close> (every call \<open>m\<close> makes satisfies \<open>P\<close>, and \<open>m\<close> only appends to the
    history), \<open>obeys m acc Q\<close> (the result and the calls made, after \<open>acc\<close>, satisfy \<open>Q\<close>,
    whatever the answers) and \<open>wp m Q\<close> (the weakest precondition of \<open>m\<close> for \<open>Q\<close>), with
    one rule per construct, collected in \<open>emits_rules\<close>, \<open>obeys_rules\<close> and \<open>wp_simps\<close>.
\<close>

named_theorems emits_rules \<open>introduction rules for emits, one per program construct\<close>
named_theorems obeys_rules \<open>introduction rules for obeys, one per program construct\<close>
named_theorems wp_simps \<open>equations for wp, one per program construct\<close>

section \<open>Errors\<close>

text \<open>
  The reasons the operator tells apart in an API server's answer
  (\<^verbatim>\<open>apierrors.IsNotFound\<close>, \<^verbatim>\<open>apierrors.IsAlreadyExists\<close>), and everything else.
  \<open>EMsg\<close> and \<open>EWrap\<close> are \<^verbatim>\<open>fmt.Errorf\<close> without and with an inner error; \<open>EPanic\<close> is
  a Go panic (a nil dereference, \<^verbatim>\<open>template.Must\<close>).
\<close>

datatype api_error = NotFound | AlreadyExists | OtherApi string

datatype goerror = EApi api_error | EMsg string | EWrap string goerror | EPanic string

definition IsNotFound :: "goerror \<Rightarrow> bool" where
  "IsNotFound e \<longleftrightarrow> e = EApi NotFound"

definition IsAlreadyExists :: "goerror \<Rightarrow> bool" where
  "IsAlreadyExists e \<longleftrightarrow> e = EApi AlreadyExists"

text \<open>\<^verbatim>\<open>fmt.Errorf(msg + "%v", err)\<close>. A panic unwinds past the statement that would wrap it.\<close>

fun errorf :: "string \<Rightarrow> goerror \<Rightarrow> goerror" where
  "errorf msg (EPanic p) = EPanic p"
| "errorf msg e = EWrap msg e"

section \<open>Strings and slices\<close>

text \<open>\<^verbatim>\<open>strings.Join\<close>.\<close>

fun strings_Join :: "string list \<Rightarrow> string \<Rightarrow> string" where
  "strings_Join [] sep = ''''"
| "strings_Join [x] sep = x"
| "strings_Join (x # y # xs) sep = x @ sep @ strings_Join (y # xs) sep"

text \<open>\<^verbatim>\<open>strings.Split\<close> for a one-byte separator.\<close>

fun split_acc :: "char \<Rightarrow> string \<Rightarrow> string \<Rightarrow> string list" where
  "split_acc c acc [] = [rev acc]"
| "split_acc c acc (x # xs) = (if x = c then rev acc # split_acc c [] xs else split_acc c (x # acc) xs)"

definition strings_Split :: "string \<Rightarrow> char \<Rightarrow> string list" where
  "strings_Split s c = split_acc c [] s"

definition slices_Contains :: "'a list \<Rightarrow> 'a \<Rightarrow> bool" where
  "slices_Contains xs x \<longleftrightarrow> List.member xs x"

text \<open>\<^verbatim>\<open>slices.Sort\<close> on strings: Go compares strings bytewise, as the lexicographic order on
  lists of characters does.\<close>

definition slices_Sort :: "string list \<Rightarrow> string list" where
  "slices_Sort xs = sort xs"

definition slices_Equal :: "'a list \<Rightarrow> 'a list \<Rightarrow> bool" where
  "slices_Equal xs ys \<longleftrightarrow> xs = ys"

text \<open>Go's \<^verbatim>\<open>if err != nil { return err }\<close> on a result of type \<open>goerror + 'a\<close>.\<close>

definition ebind :: "'e + 'a \<Rightarrow> ('a \<Rightarrow> 'e + 'b) \<Rightarrow> 'e + 'b" where
  "ebind x f = (case x of Inl e \<Rightarrow> Inl e | Inr v \<Rightarrow> f v)"

definition map_error :: "('e \<Rightarrow> 'f) \<Rightarrow> 'e + 'a \<Rightarrow> 'f + 'a" where
  "map_error h x = (case x of Inl e \<Rightarrow> Inl (h e) | Inr v \<Rightarrow> Inr v)"

section \<open>Effects: histories of calls\<close>

type_synonym ('ev, 'a) io = "('ev list, 'a) state"

text \<open>One call: the environment answers from the history, and the call is recorded with its answer.\<close>

definition call :: "('ev list \<Rightarrow> 'r) \<Rightarrow> ('r \<Rightarrow> 'ev) \<Rightarrow> ('ev, 'r) io" where
  "call answer ev = State (\<lambda>tr. let r = answer tr in (r, tr @ [ev r]))"

definition wp :: "('ev, 'a) io \<Rightarrow> ('a \<Rightarrow> 'ev list \<Rightarrow> bool) \<Rightarrow> 'ev list \<Rightarrow> bool" where
  "wp m Q tr = (case run_state m tr of (r, tr') \<Rightarrow> Q r tr')"

definition emits :: "('ev \<Rightarrow> bool) \<Rightarrow> ('ev, 'a) io \<Rightarrow> bool" where
  "emits P m \<longleftrightarrow> (\<forall>tr. \<exists>new. snd (run_state m tr) = tr @ new \<and> list_all P new)"

text \<open>
  Whatever the history and the answers, running \<open>m\<close> when the calls \<open>acc\<close> have been made since some
  starting point ends in a result and a record of calls that satisfy \<open>Q\<close>.
\<close>

definition obeys :: "('ev, 'a) io \<Rightarrow> 'ev list \<Rightarrow> ('a \<Rightarrow> 'ev list \<Rightarrow> bool) \<Rightarrow> bool" where
  "obeys m acc Q \<longleftrightarrow>
     (\<forall>tr. \<exists>new. snd (run_state m tr) = tr @ new \<and> Q (fst (run_state m tr)) (acc @ new))"

text \<open>Every call of \<open>evs\<close> that satisfies \<open>P\<close> comes after a record of calls that satisfies \<open>G\<close>.\<close>

definition only_after :: "('e \<Rightarrow> bool) \<Rightarrow> ('e list \<Rightarrow> bool) \<Rightarrow> 'e list \<Rightarrow> bool" where
  "only_after P G evs \<longleftrightarrow> (\<forall>i<length evs. P (evs ! i) \<longrightarrow> G (take i evs))"

text \<open>Calls that satisfy the predicates, one after the other.\<close>

fun in_order :: "('e \<Rightarrow> bool) list \<Rightarrow> 'e list \<Rightarrow> bool" where
  "in_order [] evs \<longleftrightarrow> True"
| "in_order (P # Ps) [] \<longleftrightarrow> False"
| "in_order (P # Ps) (e # evs) \<longleftrightarrow> P e \<and> in_order Ps evs \<or> in_order (P # Ps) evs"

text \<open>The calls \<open>m\<close> makes when it runs after the history \<open>tr\<close>, and its result.\<close>

definition calls :: "('ev, 'a) io \<Rightarrow> 'ev list \<Rightarrow> 'ev list" where
  "calls m tr = drop (length tr) (snd (run_state m tr))"

definition result :: "('ev, 'a) io \<Rightarrow> 'ev list \<Rightarrow> 'a" where
  "result m tr = fst (run_state m tr)"

text \<open>The history only grows.\<close>

definition appends :: "('ev, 'a) io \<Rightarrow> bool" where
  "appends m \<longleftrightarrow> emits (\<lambda>_. True) m"

lemma IsNotFound_simps [simp]:
  "IsNotFound (EApi NotFound)" "\<not> IsNotFound (EApi AlreadyExists)" "\<not> IsNotFound (EApi (OtherApi s))"
  "\<not> IsNotFound (EMsg m)" "\<not> IsNotFound (EWrap m e)" "\<not> IsNotFound (EPanic p)"
  by (simp_all add: IsNotFound_def)

lemma IsAlreadyExists_simps [simp]:
  "IsAlreadyExists (EApi AlreadyExists)" "\<not> IsAlreadyExists (EApi NotFound)"
  "\<not> IsAlreadyExists (EApi (OtherApi s))" "\<not> IsAlreadyExists (EMsg m)"
  "\<not> IsAlreadyExists (EWrap m e)" "\<not> IsAlreadyExists (EPanic p)"
  by (simp_all add: IsAlreadyExists_def)

lemma ebind_simps [simp]: "ebind (Inl e) f = Inl e" "ebind (Inr v) f = f v"
  by (simp_all add: ebind_def)

lemma ebind_cong [fundef_cong]:
  "x = y \<Longrightarrow> (\<And>v. y = Inr v \<Longrightarrow> f v = g v) \<Longrightarrow> ebind x f = ebind y g"
  by (cases y) simp_all

lemma ebind_eq_Inr: "ebind x f = Inr r \<longleftrightarrow> (\<exists>v. x = Inr v \<and> f v = Inr r)"
  by (cases x) simp_all

lemma map_error_simps [simp]: "map_error h (Inl e) = Inl (h e)" "map_error h (Inr v) = Inr v"
  by (simp_all add: map_error_def)

lemma map_error_eq_Inr [simp]: "map_error h x = Inr v \<longleftrightarrow> x = Inr v"
  by (cases x) simp_all

lemma slices_Contains_iff [simp]: "slices_Contains xs x \<longleftrightarrow> x \<in> set xs"
  by (simp add: slices_Contains_def)

lemma slices_Sort_props [simp]:
  "set (slices_Sort xs) = set xs" "mset (slices_Sort xs) = mset xs" "sorted (slices_Sort xs)"
  "length (slices_Sort xs) = length xs" "slices_Sort [] = []"
  by (simp_all add: slices_Sort_def)

lemma slices_Sort_eq_Nil [simp]: "slices_Sort xs = [] \<longleftrightarrow> xs = []"
  by (metis length_0_conv slices_Sort_props(4))

lemma slices_Sort_idem [simp]: "slices_Sort (slices_Sort xs) = slices_Sort xs"
  by (simp add: slices_Sort_def sorted_sort_id)

lemma sort_mset_eq: "mset xs = mset ys \<Longrightarrow> sort xs = sort (ys :: 'a :: linorder list)"
  by (metis sorted_list_of_multiset_mset)

lemma slices_Sort_eq_iff: "slices_Sort xs = slices_Sort ys \<longleftrightarrow> mset xs = mset ys"
  by (metis slices_Sort_def slices_Sort_props(2) sorted_list_of_multiset_mset)

lemma split_acc_nonempty [simp]: "split_acc c acc s \<noteq> []"
  by (induction s arbitrary: acc) auto

lemma strings_Join_Cons: "xs \<noteq> [] \<Longrightarrow> strings_Join (x # xs) sep = x @ sep @ strings_Join xs sep"
  by (cases xs) simp_all

lemma split_acc_join: "strings_Join (split_acc c acc s) [c] = rev acc @ s"
  by (induction s arbitrary: acc) (simp_all add: strings_Join_Cons)

lemma strings_Join_Split: "strings_Join (strings_Split s c) [c] = s"
  by (simp add: strings_Split_def split_acc_join)

lemma split_acc_prefix: "c \<notin> set x \<Longrightarrow> split_acc c acc (x @ s) = split_acc c (rev x @ acc) s"
  by (induction x arbitrary: acc) auto

lemma strings_Split_Join:
  assumes "xs \<noteq> []" and "list_all (\<lambda>x. c \<notin> set x) xs"
  shows "strings_Split (strings_Join xs [c]) c = xs"
  using assms
proof (induction xs)
  case (Cons x xs)
  have "split_acc c [] x = [x]" using split_acc_prefix [of c x "[]" "[]"] Cons.prems by simp
  with Cons show ?case by (cases "xs = []") (simp_all add: strings_Split_def strings_Join_Cons split_acc_prefix)
qed simp

subsection \<open>Rules for histories\<close>

lemma run_call [simp]: "run_state (call answer ev) tr = (answer tr, tr @ [ev (answer tr)])"
  by (simp add: call_def Let_def)

lemma wp_return [wp_simps]: "wp (State_Monad.return x) Q tr = Q x tr"
  by (simp add: wp_def)

lemma wp_bind [wp_simps]: "wp (State_Monad.bind m f) Q tr = wp m (\<lambda>r. wp (f r) Q) tr"
  by (simp add: wp_def split: prod.split)

lemma wp_call [wp_simps]: "wp (call answer ev) Q tr = Q (answer tr) (tr @ [ev (answer tr)])"
  by (simp add: wp_def)

lemma wp_if [wp_simps]: "wp (if b then m else n) Q tr = (if b then wp m Q tr else wp n Q tr)"
  by simp

lemma wp_iff: "wp m Q tr \<longleftrightarrow> Q (result m tr) (snd (run_state m tr))"
  by (simp add: wp_def result_def split: prod.split)

lemma wp_mono: "wp m Q tr \<Longrightarrow> (\<And>r tr'. Q r tr' \<Longrightarrow> Q' r tr') \<Longrightarrow> wp m Q' tr"
  by (simp add: wp_iff)

lemma emits_return [emits_rules]: "emits P (State_Monad.return x)"
  by (simp add: emits_def)

lemma emits_call [emits_rules]: "(\<And>r. P (ev r)) \<Longrightarrow> emits P (call answer ev)"
  by (simp add: emits_def)

lemma emits_bind [emits_rules]:
  assumes "emits P m" and "\<And>r. emits P (f r)"
  shows "emits P (State_Monad.bind m f)"
  unfolding emits_def
proof
  fix tr
  obtain r tr' where run: "run_state m tr = (r, tr')" by fastforce
  with assms(1) obtain new where "tr' = tr @ new" "list_all P new"
    by (metis emits_def snd_conv)
  moreover from assms(2) obtain new' where "snd (run_state (f r) tr') = tr' @ new'" "list_all P new'"
    by (metis emits_def)
  ultimately show "\<exists>new. snd (run_state (State_Monad.bind m f) tr) = tr @ new \<and> list_all P new"
    using run by (intro exI [of _ "new @ new'"]) simp
qed

lemma emits_if [emits_rules]: "emits P m \<Longrightarrow> emits P n \<Longrightarrow> emits P (if b then m else n)"
  by simp

lemma emits_let [emits_rules]: "(\<And>x. emits P (f x)) \<Longrightarrow> emits P (Let t f)"
  by (simp add: Let_def)

lemma emits_case_sum [emits_rules]:
  "(\<And>e. emits P (f e)) \<Longrightarrow> (\<And>v. emits P (g v)) \<Longrightarrow> emits P (case x of Inl e \<Rightarrow> f e | Inr v \<Rightarrow> g v)"
  by (cases x) simp_all

lemma emits_case_option [emits_rules]:
  "emits P m \<Longrightarrow> (\<And>v. emits P (g v)) \<Longrightarrow> emits P (case x of None \<Rightarrow> m | Some v \<Rightarrow> g v)"
  by (cases x) simp_all

lemma emits_case_prod [emits_rules]:
  "(\<And>a b. emits P (f a b)) \<Longrightarrow> emits P (case x of (a, b) \<Rightarrow> f a b)"
  by (cases x) simp

lemma emits_case_list [emits_rules]:
  "emits P m \<Longrightarrow> (\<And>y ys. emits P (g y ys)) \<Longrightarrow> emits P (case xs of [] \<Rightarrow> m | y # ys \<Rightarrow> g y ys)"
  by (cases xs) simp_all

lemma emits_mono: "emits P m \<Longrightarrow> (\<And>e. P e \<Longrightarrow> Q e) \<Longrightarrow> emits Q m"
  unfolding emits_def by (metis (mono_tags, lifting) list.pred_mono_strong)

lemma emits_calls: "emits P m \<Longrightarrow> e \<in> set (calls m tr) \<Longrightarrow> P e"
  unfolding emits_def calls_def by (metis append_eq_conv_conj list_all_iff)

lemma emits_history: "emits P m \<Longrightarrow> snd (run_state m tr) = tr @ calls m tr"
  unfolding emits_def calls_def by (metis append_eq_conv_conj)

subsection \<open>Rules for the calls made\<close>

lemma obeys_return [obeys_rules]: "Q x acc \<Longrightarrow> obeys (State_Monad.return x) acc Q"
  by (simp add: obeys_def)

lemma obeys_call [obeys_rules]: "(\<And>r. Q r (acc @ [ev r])) \<Longrightarrow> obeys (call answer ev) acc Q"
  by (simp add: obeys_def)

lemma obeys_bind [obeys_rules]:
  assumes "obeys m acc (\<lambda>r acc'. obeys (f r) acc' Q)"
  shows "obeys (State_Monad.bind m f) acc Q"
  unfolding obeys_def
proof
  fix tr
  obtain r tr' where run: "run_state m tr = (r, tr')" by fastforce
  with assms obtain new where new: "tr' = tr @ new" "obeys (f r) (acc @ new) Q"
    by (metis fst_conv obeys_def snd_conv)
  then obtain new' where "snd (run_state (f r) tr') = tr' @ new'"
      "Q (fst (run_state (f r) tr')) ((acc @ new) @ new')"
    unfolding obeys_def by blast
  with run new show "\<exists>new. snd (run_state (State_Monad.bind m f) tr) = tr @ new \<and>
      Q (fst (run_state (State_Monad.bind m f) tr)) (acc @ new)"
    by (intro exI [of _ "new @ new'"]) simp
qed

lemma obeys_mono: "obeys m acc Q \<Longrightarrow> (\<And>r new. Q r new \<Longrightarrow> Q' r new) \<Longrightarrow> obeys m acc Q'"
  unfolding obeys_def by blast

text \<open>A property proved from the empty record is used after any other one.\<close>

lemma obeys_frame:
  "obeys m [] P \<Longrightarrow> (\<And>r new. P r new \<Longrightarrow> Q r (acc @ new)) \<Longrightarrow> obeys m acc Q"
  unfolding obeys_def by (metis append_Nil)

lemma obeys_conj:
  "obeys m acc P \<Longrightarrow> obeys m acc Q \<Longrightarrow> obeys m acc (\<lambda>r new. P r new \<and> Q r new)"
  unfolding obeys_def by (metis same_append_eq)

lemma obeysD: "obeys m [] Q \<Longrightarrow> Q (result m tr) (calls m tr)"
  unfolding obeys_def result_def calls_def by (metis append_Nil append_eq_conv_conj)

lemma obeys_if [obeys_rules]:
  "(b \<Longrightarrow> obeys m acc Q) \<Longrightarrow> (\<not> b \<Longrightarrow> obeys n acc Q) \<Longrightarrow> obeys (if b then m else n) acc Q"
  by simp

lemma obeys_let [obeys_rules]: "(\<And>x. x = t \<Longrightarrow> obeys (f x) acc Q) \<Longrightarrow> obeys (Let t f) acc Q"
  by (simp add: Let_def)

lemma obeys_case_sum [obeys_rules]:
  "(\<And>e. x = Inl e \<Longrightarrow> obeys (f e) acc Q) \<Longrightarrow> (\<And>v. x = Inr v \<Longrightarrow> obeys (g v) acc Q) \<Longrightarrow>
   obeys (case x of Inl e \<Rightarrow> f e | Inr v \<Rightarrow> g v) acc Q"
  by (cases x) simp_all

lemma obeys_case_option [obeys_rules]:
  "(x = None \<Longrightarrow> obeys m acc Q) \<Longrightarrow> (\<And>v. x = Some v \<Longrightarrow> obeys (g v) acc Q) \<Longrightarrow>
   obeys (case x of None \<Rightarrow> m | Some v \<Rightarrow> g v) acc Q"
  by (cases x) simp_all

lemma obeys_case_prod [obeys_rules]:
  "(\<And>a b. x = (a, b) \<Longrightarrow> obeys (f a b) acc Q) \<Longrightarrow> obeys (case x of (a, b) \<Rightarrow> f a b) acc Q"
  by (cases x) simp

lemma emits_obeys: "emits P m \<longleftrightarrow> obeys m [] (\<lambda>_. list_all P)"
  by (simp add: emits_def obeys_def)

lemma obeys_history: "obeys m [] Q \<Longrightarrow> snd (run_state m tr) = tr @ calls m tr"
  unfolding obeys_def calls_def by (metis append_eq_conv_conj)

lemma obeysI: "(\<And>tr. wp m (\<lambda>r tr'. \<exists>new. tr' = tr @ new \<and> Q r (acc @ new)) tr) \<Longrightarrow> obeys m acc Q"
  by (auto simp: obeys_def wp_iff result_def)

subsection \<open>Order of calls\<close>

lemma only_afterD: "only_after P G (xs @ e # ys) \<Longrightarrow> P e \<Longrightarrow> G xs"
  unfolding only_after_def by (drule spec [of _ "length xs"]) simp

lemma only_after_none: "list_all (\<lambda>e. \<not> P e) evs \<Longrightarrow> only_after P G evs"
  by (auto simp: only_after_def list_all_length)

lemma only_after_append:
  assumes "only_after P G xs" and "list_all (\<lambda>e. \<not> P e) ys \<or> (\<forall>zs. G (xs @ zs))"
  shows "only_after P G (xs @ ys)"
  unfolding only_after_def
proof (intro allI impI)
  fix i assume i: "i < length (xs @ ys)" and P: "P ((xs @ ys) ! i)"
  show "G (take i (xs @ ys))"
  proof (cases "i < length xs")
    case True
    with assms(1) P show ?thesis by (simp add: only_after_def nth_append)
  next
    case False
    with assms(2) P i show ?thesis by (auto simp: nth_append list_all_length)
  qed
qed

lemma only_after_prepend:
  assumes "list_all (\<lambda>e. \<not> P e) acc" and "only_after P G' new" and "\<And>xs. G' xs \<Longrightarrow> G (acc @ xs)"
  shows "only_after P G (acc @ new)"
  using assms by (auto simp: only_after_def nth_append list_all_length)

lemma only_after_cong: "(\<And>es. G es \<longleftrightarrow> G' es) \<Longrightarrow> only_after P G evs \<longleftrightarrow> only_after P G' evs"
  by (simp add: only_after_def)

lemma in_order_Cons: "in_order Ps evs \<Longrightarrow> in_order Ps (e # evs)"
  by (cases Ps) simp_all

lemma in_order_prepend: "in_order Ps evs \<Longrightarrow> in_order Ps (xs @ evs)"
  by (induction xs) (simp_all add: in_order_Cons)

lemma in_order_append: "in_order Ps xs \<Longrightarrow> in_order Qs ys \<Longrightarrow> in_order (Ps @ Qs) (xs @ ys)"
  by (induction Ps xs rule: in_order.induct) (auto intro: in_order_prepend in_order_Cons)

lemma in_order_extend: "in_order Ps xs \<Longrightarrow> in_order Ps (xs @ ys)"
  using in_order_append [of Ps xs "[]" ys] by simp

lemma only_after_guard:
  "list_all (\<lambda>e. \<not> P e) xs \<Longrightarrow> (\<And>zs. G (xs @ zs)) \<Longrightarrow> only_after P G (xs @ ys)"
  by (simp add: only_after_append only_after_none)

subsection \<open>Calls and results of composed programs\<close>

lemma emits_appends: "emits P m \<Longrightarrow> appends m"
  unfolding appends_def by (erule emits_mono) simp

lemma obeys_appends: "obeys m [] Q \<Longrightarrow> appends m"
  by (auto simp: appends_def emits_def obeys_def list_all_iff)

lemma appends_return [simp]: "appends (State_Monad.return x)"
  and appends_call [simp]: "appends (call answer ev)"
  by (simp_all add: appends_def emits_rules)

lemma appends_bind: "appends m \<Longrightarrow> (\<And>r. appends (f r)) \<Longrightarrow> appends (State_Monad.bind m f)"
  unfolding appends_def by (rule emits_bind)

lemma result_bind: "result (State_Monad.bind m f) tr = result (f (result m tr)) (snd (run_state m tr))"
  by (simp add: result_def split: prod.split)

lemma calls_bind_call:
  assumes "appends (f (answer tr))"
  shows "calls (State_Monad.bind (call answer ev) f) tr
       = ev (answer tr) # calls (f (answer tr)) (tr @ [ev (answer tr)])"
proof -
  from assms obtain new where "snd (run_state (f (answer tr)) (tr @ [ev (answer tr)])) = (tr @ [ev (answer tr)]) @ new"
    unfolding appends_def emits_def by blast
  then show ?thesis by (simp add: calls_def)
qed

lemma result_bind_call:
  "result (State_Monad.bind (call answer ev) f) tr = result (f (answer tr)) (tr @ [ev (answer tr)])"
  by (simp add: result_def)

lemma result_call [simp]: "result (call answer ev) tr = answer tr"
  by (simp add: result_def)

lemma calls_call [simp]: "calls (call answer ev) tr = [ev (answer tr)]"
  by (simp add: calls_def)

lemma calls_bind:
  assumes "appends m" and "appends (f (result m tr))"
  shows "calls (State_Monad.bind m f) tr = calls m tr @ calls (f (result m tr)) (snd (run_state m tr))"
proof -
  obtain r tr' where run: "run_state m tr = (r, tr')" by fastforce
  from assms(1) run obtain xs where xs: "tr' = tr @ xs"
    by (metis appends_def emits_def snd_conv)
  from assms(2) run obtain ys where "snd (run_state (f r) tr') = tr' @ ys"
    by (metis appends_def emits_def fst_conv result_def)
  with run xs show ?thesis by (simp add: calls_def result_def)
qed

lemma calls_return [simp]: "calls (State_Monad.return x) tr = []" "result (State_Monad.return x) tr = x"
  by (simp_all add: calls_def result_def)

lemma calls_bind_return [simp]:
  "calls (State_Monad.bind m (\<lambda>x. State_Monad.return (f x))) tr = calls m tr"
  "result (State_Monad.bind m (\<lambda>x. State_Monad.return (f x))) tr = f (result m tr)"
  by (simp_all add: calls_def result_def split: prod.split)

section \<open>Programs that read and then act\<close>

text \<open>
  A reconcile reads an object and then acts on what it read. \<open>fetch_then\<close> is that shape;
  the locale says what follows from bounds on the calls of its two branches.
\<close>

definition fetch_then ::
    "('ev list \<Rightarrow> 'e + 'o) \<Rightarrow> ('e + 'o \<Rightarrow> 'ev) \<Rightarrow> ('e \<Rightarrow> ('ev, 'a) io) \<Rightarrow> ('o \<Rightarrow> ('ev, 'a) io) \<Rightarrow> ('ev, 'a) io" where
  "fetch_then fetch fetched fail act = do {
     r \<leftarrow> call fetch fetched;
     case r of Inl err \<Rightarrow> fail err | Inr ob \<Rightarrow> act ob
   }"

locale reader =
  fixes fetch :: "'ev list \<Rightarrow> 'e + 'o"
    and fetched :: "'e + 'o \<Rightarrow> 'ev"
    and fail :: "'e \<Rightarrow> ('ev, 'a) io"
    and act :: "'o \<Rightarrow> ('ev, 'a) io"
    and fail_allows :: "'e \<Rightarrow> 'ev \<Rightarrow> bool"
    and act_allows :: "'o \<Rightarrow> 'ev \<Rightarrow> bool"
  assumes fail_calls: "emits (fail_allows err) (fail err)"
    and act_calls: "emits (act_allows ob) (act ob)"
begin

lemma calls_fetch_then:
  "calls (fetch_then fetch fetched fail act) tr = fetched (fetch tr) #
     (case fetch tr of
        Inl err \<Rightarrow> calls (fail err) (tr @ [fetched (Inl err)])
      | Inr ob \<Rightarrow> calls (act ob) (tr @ [fetched (Inr ob)]))"
  unfolding fetch_then_def
  by (subst calls_bind_call)
     (auto split: sum.split intro: emits_appends [OF fail_calls] emits_appends [OF act_calls])

lemma result_fetch_then:
  "result (fetch_then fetch fetched fail act) tr =
     (case fetch tr of
        Inl err \<Rightarrow> result (fail err) (tr @ [fetched (Inl err)])
      | Inr ob \<Rightarrow> result (act ob) (tr @ [fetched (Inr ob)]))"
  by (simp add: fetch_then_def result_bind_call split: sum.split)

lemma fetch_then_allowed:
  assumes "e \<in> set (calls (fetch_then fetch fetched fail act) tr)"
  shows "e = fetched (fetch tr) \<or>
    (case fetch tr of Inl err \<Rightarrow> fail_allows err e | Inr ob \<Rightarrow> act_allows ob e)"
  using assms emits_calls [OF fail_calls] emits_calls [OF act_calls]
  by (auto simp: calls_fetch_then split: sum.splits)

lemma fetch_then_appends: "appends (fetch_then fetch fetched fail act)"
  unfolding appends_def fetch_then_def
  by (intro emits_rules emits_appends [OF fail_calls, unfolded appends_def]
      emits_appends [OF act_calls, unfolded appends_def]) simp

end

end
