(* ===== verification/Api_Types.thy ===== *)
theory Api_Types
  imports Prelude
begin

text \<open>
  The API group of the operator, \<^verbatim>\<open>api/v1/configuration_types.go\<close> and
  \<^verbatim>\<open>groupversion_info.go\<close>: the \<^verbatim>\<open>Configuration\<close> resource with its whole specification and
  its status, the constants of the package, and the operations on status conditions.

  The structs with pointers or slices are records whose type parameters stand for the representation of
  \<^verbatim>\<open>*bool\<close>, \<^verbatim>\<open>[]string\<close>, \<^verbatim>\<open>[]metav1.Condition\<close> and \<^verbatim>\<open>[]ObjectReference\<close>: the controllers work on
  values, where these are options and lists; \<open>Deep_Copy\<close> uses the same records with addresses.

  A Go \<^verbatim>\<open>*bool\<close> is a \<open>bool option\<close>, an \<^verbatim>\<open>int\<close> an \<open>int\<close>, a
  \<^verbatim>\<open>resource.Quantity\<close> the string it serialises to. Where two Go structs use one field name the
  record fields carry a prefix. A \<^verbatim>\<open>metav1.Time\<close> is an \<open>int\<close>: nanoseconds since the Unix
  epoch. \<^verbatim>\<open>metav1.Now()\<close> is a reading of the clock and an argument of the operations that call it.

  The lemmas show that \<^verbatim>\<open>SetCondition\<close> is an update of the condition list seen as a finite map,
  which keeps the condition types distinct; the locale \<open>condition_store\<close> states the laws its
  clients (the controllers) rely on.
\<close>

type_synonym quantity = string

section \<open>The specification\<close>

record VlanSpec =
  ProviderName :: string
  VlanInterface :: string
  VlanName :: string
  VlanID :: int

record 'b NetworkingSpec_repr =
  NetStack :: string
  EnableSSL :: 'b
  NetworkType :: string
  TunnelType :: string
  Interface :: string
  DpdkTunnelInterface :: string
  ExcludeIPS :: string
  PodNicType :: string
  Vlan :: VlanSpec
  ExchangeLinkName :: 'b
  EnableEIPSNAT :: 'b
  DefaultSubnet :: string
  DefaultVPC :: string
  NodeSubnet :: string
  EnableECMP :: 'b
  EnableMetrics :: 'b
  NodeLocalDNSIPS :: string
  ProbeInterval :: int
  OvnNorthdProbeInterval :: int
  OvnLeaderProbeInterval :: int
  OvnRemoteProbeInterval :: int
  OvnRemoteOpenflowInterval :: int
  OvnNorthdNThreads :: int
  EnableCompact :: 'b
  SkipConnTrackDstCIDRs :: string
  ExternalGatewayConfigNS :: string

type_synonym NetworkingSpec = "(bool option) NetworkingSpec_repr"

record U2OFeatures =
  OverlayOnlyRouting :: bool

record 'b ComponentSpec_repr =
  EnableLB :: 'b
  EnableNP :: 'b
  EnableExternalVPC :: 'b
  HardwareOffload :: 'b
  EnableLBSVC :: 'b
  EnableKeepVMIP :: 'b
  LsDnatModDlDst :: 'b
  LsCtSkipOstLportIPS :: 'b
  CheckGateway :: 'b
  LogicalGateway :: 'b
  EnableBindLocalIP :: 'b
  SecureServing :: 'b
  U2OFeaturesField :: U2OFeatures
  U2OInterconnection :: 'b
  EnableTProxy :: 'b
  EnableIC :: 'b
  EnableNATGateway :: 'b
  EnableOVNIPSec :: 'b
  EnableANP :: 'b
  SetVLANTxOff :: 'b
  OVSDBConTimeout :: int
  OVSDBInactivityTimeout :: int
  EnableLiveMigrationOptimize :: 'b
  NPEnforcement :: string
  EnableDNSNameResolver :: 'b
  EnableOVNLBPreferLocal :: 'b

type_synonym ComponentSpec = "(bool option) ComponentSpec_repr"

record KubeOVNImageSpec =
  Repository :: string
  Tag :: string
  DpdkRepository :: string
  VpcRepository :: string

record NATGatewayImageSpec =
  NATRepository :: string
  NATTag :: string

record ImageDetails =
  KubeOVNImage :: KubeOVNImageSpec
  NATGatewayImage :: NATGatewayImageSpec

record 's RegistrySpec_repr =
  Address :: string
  ImagePullSecrets :: 's

type_synonym RegistrySpec = "(string list) RegistrySpec_repr"

record 's GlobalSpec_repr =
  Registry :: "'s RegistrySpec_repr"
  Images :: ImageDetails

type_synonym GlobalSpec = "(string list) GlobalSpec_repr"

record NetworkStackSpec =
  PodCIDR :: string
  PodGateway :: string
  ServiceCIDR :: string
  JoinCIDR :: string
  PingerExternalAddress :: string
  PingerExternalDomain :: string

record PerformanceSpec =
  GCInterval :: int
  InspectInterval :: int
  OVSVSCtlConcurrency :: int

record 'b DebugSpec_repr =
  EnableMirror :: 'b
  MirrorInterface :: string

type_synonym DebugSpec = "(bool option) DebugSpec_repr"

record 'b CNIConfSpec_repr =
  CNIConfigPriority :: string
  CNIConfigDir :: string
  MountCNIConfDir :: string
  CNIBinDir :: string
  CNIConfFile :: string
  LocalBinDir :: string
  MountLocalBinDir :: 'b
  NonPrimaryCNI :: 'b

type_synonym CNIConfSpec = "(bool option) CNIConfSpec_repr"

record KubeletConfigSpec =
  KubeletDir :: string

record LogConfigSpec =
  LogDir :: string

record CPUMemSpec =
  CPU :: quantity
  Memory :: quantity
  EphemeralStorage :: quantity

record ResourceSpec =
  Requests :: CPUMemSpec
  Limits :: CPUMemSpec

record ('b, 's) ConfigurationSpec_repr =
  Global :: "'s GlobalSpec_repr"
  ImagePullPolicy :: string
  MasterNodesLabel :: string
  Networking :: "'b NetworkingSpec_repr"
  Component :: "'b ComponentSpec_repr"
  IPv4 :: NetworkStackSpec
  IPv6 :: NetworkStackSpec
  DualStack :: NetworkStackSpec
  Performance :: PerformanceSpec
  Debug :: "'b DebugSpec_repr"
  CNIConf :: "'b CNIConfSpec_repr"
  KubeletConfig :: KubeletConfigSpec
  LogConfig :: LogConfigSpec
  OpenVSwitchDir :: string
  OVNIPSecKeysDir :: string
  OVNDir :: string
  DisableModulesManagement :: 'b
  HybridDPDK :: 'b
  HugepageSizeType :: string
  HugePages :: quantity
  DPDKImageTag :: string
  DPDKCPU :: quantity
  DPDKMemory :: quantity
  OVNCentral :: ResourceSpec
  OVSOVN :: ResourceSpec
  KubeOVNController :: ResourceSpec
  KubeOVNCNI :: ResourceSpec
  KubeOVNPinger :: ResourceSpec
  KubeOVNMonitor :: ResourceSpec

type_synonym ConfigurationSpec = "(bool option, string list) ConfigurationSpec_repr"

section \<open>Status and the resource\<close>

record Condition =
  CondType :: string
  CondStatus :: string
  ObservedGeneration :: int
  LastTransitionTime :: int
  Reason :: string
  Message :: string

record GroupVersionKind =
  Group :: string
  Version :: string
  GVKKind :: string

record ObjectReference =
  GVK :: GroupVersionKind
  RefName :: string

record ('s, 'c, 'r) ConfigurationStatus_repr =
  MatchingNodeAddresses :: 's
  Conditions :: 'c
  StatusText :: string
  ManagedObjects :: 'r

type_synonym ConfigurationStatus = "(string list, Condition list, ObjectReference list) ConfigurationStatus_repr"

text \<open>Of \<^verbatim>\<open>metav1.ObjectMeta\<close>, the fields the operator reads or writes.\<close>

record OwnerReference =
  OwnerAPIVersion :: string
  OwnerKind :: string
  OwnerName :: string

record ObjectMeta =
  Name :: string
  Namespace :: string
  Generation :: int
  DeletionTimestamp :: "int option"
  Finalizers :: "string list"
  OwnerReferences :: "OwnerReference list"

record ('b, 's, 'c, 'r) Configuration_repr =
  Meta :: ObjectMeta
  Spec :: "('b, 's) ConfigurationSpec_repr"
  Status :: "('s, 'c, 'r) ConfigurationStatus_repr"

type_synonym Configuration = "(bool option, string list, Condition list, ObjectReference list) Configuration_repr"

section \<open>Zero values\<close>

text \<open>Go's zero values of the specification types. The zero quantity prints as \<^verbatim>\<open>0\<close>.\<close>

definition zero_VlanSpec :: VlanSpec where
  "zero_VlanSpec = \<lparr>
    ProviderName = '''', VlanInterface = '''', VlanName = '''', VlanID = 0\<rparr>"

definition zero_NetworkingSpec :: NetworkingSpec where
  "zero_NetworkingSpec = \<lparr>
    NetStack = '''', EnableSSL = None, NetworkType = '''', TunnelType = '''', Interface = '''',
    DpdkTunnelInterface = '''', ExcludeIPS = '''', PodNicType = '''', Vlan = zero_VlanSpec,
    ExchangeLinkName = None, EnableEIPSNAT = None, DefaultSubnet = '''', DefaultVPC = '''',
    NodeSubnet = '''', EnableECMP = None, EnableMetrics = None, NodeLocalDNSIPS = '''',
    ProbeInterval = 0, OvnNorthdProbeInterval = 0, OvnLeaderProbeInterval = 0,
    OvnRemoteProbeInterval = 0, OvnRemoteOpenflowInterval = 0, OvnNorthdNThreads = 0,
    EnableCompact = None, SkipConnTrackDstCIDRs = '''', ExternalGatewayConfigNS = ''''\<rparr>"

definition zero_U2OFeatures :: U2OFeatures where
  "zero_U2OFeatures = \<lparr>
    OverlayOnlyRouting = False\<rparr>"

definition zero_ComponentSpec :: ComponentSpec where
  "zero_ComponentSpec = \<lparr>
    EnableLB = None, EnableNP = None, EnableExternalVPC = None, HardwareOffload = None,
    EnableLBSVC = None, EnableKeepVMIP = None, LsDnatModDlDst = None, LsCtSkipOstLportIPS =
    None, CheckGateway = None, LogicalGateway = None, EnableBindLocalIP = None, SecureServing =
    None, U2OFeaturesField = zero_U2OFeatures, U2OInterconnection = None, EnableTProxy = None,
    EnableIC = None, EnableNATGateway = None, EnableOVNIPSec = None, EnableANP = None,
    SetVLANTxOff = None, OVSDBConTimeout = 0, OVSDBInactivityTimeout = 0,
    EnableLiveMigrationOptimize = None, NPEnforcement = '''', EnableDNSNameResolver = None,
    EnableOVNLBPreferLocal = None\<rparr>"

definition zero_KubeOVNImageSpec :: KubeOVNImageSpec where
  "zero_KubeOVNImageSpec = \<lparr>
    Repository = '''', Tag = '''', DpdkRepository = '''', VpcRepository = ''''\<rparr>"

definition zero_NATGatewayImageSpec :: NATGatewayImageSpec where
  "zero_NATGatewayImageSpec = \<lparr>
    NATRepository = '''', NATTag = ''''\<rparr>"

definition zero_ImageDetails :: ImageDetails where
  "zero_ImageDetails = \<lparr>
    KubeOVNImage = zero_KubeOVNImageSpec, NATGatewayImage = zero_NATGatewayImageSpec\<rparr>"

definition zero_RegistrySpec :: RegistrySpec where
  "zero_RegistrySpec = \<lparr>
    Address = '''', ImagePullSecrets = []\<rparr>"

definition zero_GlobalSpec :: GlobalSpec where
  "zero_GlobalSpec = \<lparr>
    Registry = zero_RegistrySpec, Images = zero_ImageDetails\<rparr>"

definition zero_NetworkStackSpec :: NetworkStackSpec where
  "zero_NetworkStackSpec = \<lparr>
    PodCIDR = '''', PodGateway = '''', ServiceCIDR = '''', JoinCIDR = '''',
    PingerExternalAddress = '''', PingerExternalDomain = ''''\<rparr>"

definition zero_PerformanceSpec :: PerformanceSpec where
  "zero_PerformanceSpec = \<lparr>
    GCInterval = 0, InspectInterval = 0, OVSVSCtlConcurrency = 0\<rparr>"

definition zero_DebugSpec :: DebugSpec where
  "zero_DebugSpec = \<lparr>
    EnableMirror = None, MirrorInterface = ''''\<rparr>"

definition zero_CNIConfSpec :: CNIConfSpec where
  "zero_CNIConfSpec = \<lparr>
    CNIConfigPriority = '''', CNIConfigDir = '''', MountCNIConfDir = '''', CNIBinDir = '''',
    CNIConfFile = '''', LocalBinDir = '''', MountLocalBinDir = None, NonPrimaryCNI = None\<rparr>"

definition zero_KubeletConfigSpec :: KubeletConfigSpec where
  "zero_KubeletConfigSpec = \<lparr>
    KubeletDir = ''''\<rparr>"

definition zero_LogConfigSpec :: LogConfigSpec where
  "zero_LogConfigSpec = \<lparr>
    LogDir = ''''\<rparr>"

definition zero_CPUMemSpec :: CPUMemSpec where
  "zero_CPUMemSpec = \<lparr>
    CPU = ''0'', Memory = ''0'', EphemeralStorage = ''0''\<rparr>"

definition zero_ResourceSpec :: ResourceSpec where
  "zero_ResourceSpec = \<lparr>
    Requests = zero_CPUMemSpec, Limits = zero_CPUMemSpec\<rparr>"

definition zero_ConfigurationSpec :: ConfigurationSpec where
  "zero_ConfigurationSpec = \<lparr>
    Global = zero_GlobalSpec, ImagePullPolicy = '''', MasterNodesLabel = '''', Networking =
    zero_NetworkingSpec, Component = zero_ComponentSpec, IPv4 = zero_NetworkStackSpec, IPv6 =
    zero_NetworkStackSpec, DualStack = zero_NetworkStackSpec, Performance =
    zero_PerformanceSpec, Debug = zero_DebugSpec, CNIConf = zero_CNIConfSpec, KubeletConfig =
    zero_KubeletConfigSpec, LogConfig = zero_LogConfigSpec, OpenVSwitchDir = '''',
    OVNIPSecKeysDir = '''', OVNDir = '''', DisableModulesManagement = None, HybridDPDK = None,
    HugepageSizeType = '''', HugePages = ''0'', DPDKImageTag = '''', DPDKCPU = ''0'', DPDKMemory
    = ''0'', OVNCentral = zero_ResourceSpec, OVSOVN = zero_ResourceSpec, KubeOVNController =
    zero_ResourceSpec, KubeOVNCNI = zero_ResourceSpec, KubeOVNPinger = zero_ResourceSpec,
    KubeOVNMonitor = zero_ResourceSpec\<rparr>"

definition zero_ConfigurationStatus :: ConfigurationStatus where
  "zero_ConfigurationStatus = \<lparr>
    MatchingNodeAddresses = [], Conditions = [], StatusText = '''', ManagedObjects = []\<rparr>"

definition zero_ObjectMeta :: ObjectMeta where
  "zero_ObjectMeta = \<lparr>
    Name = '''', Namespace = '''', Generation = 0, DeletionTimestamp = None, Finalizers = [],
    OwnerReferences = []\<rparr>"

definition zero_Configuration :: Configuration where
  "zero_Configuration = \<lparr>
    Meta = zero_ObjectMeta, Spec = zero_ConfigurationSpec, Status = zero_ConfigurationStatus\<rparr>"

section \<open>Constants\<close>

definition ConfigurationStatusDeploying :: string where "ConfigurationStatusDeploying = ''Deploying''"
definition ConfigurationStatusDeployed :: string where "ConfigurationStatusDeployed = ''Deployed''"
definition DefaultConfigurationName :: string where "DefaultConfigurationName = ''kubeovn''"
definition WaitingForMatchignNodesCondition :: string where
  "WaitingForMatchignNodesCondition = ''waitingForMatchignNodes''"
definition OVNNBLeaderFound :: string where "OVNNBLeaderFound = ''ovnNorthDBLeaderFound''"
definition OVNSBLeaderFound :: string where "OVNSBLeaderFound = ''ovnSouthDBLeaderFound''"
definition OVNNBDBHealth :: string where "OVNNBDBHealth = ''ovnNBDBHealth''"
definition OVNSBDBHealth :: string where "OVNSBDBHealth = ''ovnSBDBHealth''"
definition KubeOVNFakeNamespace :: string where "KubeOVNFakeNamespace = ''kubeovn-owner-namespace''"
definition KubeOVNConfigurationFinalizer :: string where
  "KubeOVNConfigurationFinalizer = ''finalizer.kubeovn.io/configuration''"
definition KubeOVNNodeFinalizer :: string where "KubeOVNNodeFinalizer = ''finalizer.kubeovn.io/node''"
definition SBLeaderLabel :: string where "SBLeaderLabel = ''ovn-sb-leader=true''"
definition NBLeaderLabel :: string where "NBLeaderLabel = ''ovn-nb-leader=true''"
definition OVNCentralContainerName :: string where "OVNCentralContainerName = ''ovn-central''"
definition NBCheckScript :: string where
  "NBCheckScript = ''ovs-appctl -t /var/run/ovn/ovnnb_db.ctl cluster/status OVN_Northbound''"
definition SBCheckScript :: string where
  "SBCheckScript = ''ovs-appctl -t /var/run/ovn/ovnsb_db.ctl cluster/status OVN_Southbound''"
definition NodesFoundReason :: string where "NodesFoundReason = ''NodesFound''"
definition NodesNotFoundReason :: string where "NodesNotFoundReason = ''NodesNotFound''"
definition ConditionUnknownReason :: string where "ConditionUnknownReason = ''ConditionUnknown''"
definition LeaderFound :: string where "LeaderFound = ''LeaderFound''"
definition LeaderNotFound :: string where "LeaderNotFound = ''LeaderNotFound''"
definition DBHealth :: string where "DBHealth = ''DBHealth''"
definition KubeOVNOperatorWebhookCertSecret :: string where
  "KubeOVNOperatorWebhookCertSecret = ''webhook-certs''"

definition GroupVersion :: "string \<times> string" where "GroupVersion = (''kubeovn.io'', ''v1'')"

text \<open>\<^verbatim>\<open>fmt.Sprintf("%s/%s", GroupVersion.Group, GroupVersion.Version)\<close>.\<close>

definition APIVersion :: string where "APIVersion = fst GroupVersion @ ''/'' @ snd GroupVersion"
definition Kind :: string where "Kind = ''Configuration''"

text \<open>The condition states of \<^verbatim>\<open>metav1\<close>, and the zero time of Go (the first of January of year 1).\<close>

definition metav1_ConditionTrue :: string where "metav1_ConditionTrue = ''True''"
definition metav1_ConditionFalse :: string where "metav1_ConditionFalse = ''False''"
definition metav1_ConditionUnknown :: string where "metav1_ConditionUnknown = ''Unknown''"
definition zero_time :: int where "zero_time = - 62135596800 * 1000000000"

section \<open>Conditions\<close>

text \<open>The loop of \<^verbatim>\<open>SetCondition\<close>: overwrite the first condition of the type, or append one.\<close>

fun set_condition_in :: "Condition list \<Rightarrow> Condition \<Rightarrow> Condition list" where
  "set_condition_in [] new = [new]"
| "set_condition_in (c # cs) new =
     (if CondType c = CondType new
      then c\<lparr>CondStatus := CondStatus new, Message := Message new, Reason := Reason new,
             LastTransitionTime := LastTransitionTime new,
             ObservedGeneration := ObservedGeneration new\<rparr> # cs
      else c # set_condition_in cs new)"

definition SetCondition ::
    "Configuration \<Rightarrow> string \<Rightarrow> string \<Rightarrow> string \<Rightarrow> string \<Rightarrow> int \<Rightarrow> Configuration" where
  "SetCondition c conditionType conditionStatus message reason now =
     c\<lparr>Status := (Status c)\<lparr>Conditions := set_condition_in (Conditions (Status c))
         \<lparr>CondType = conditionType, CondStatus = conditionStatus,
          ObservedGeneration = Generation (Meta c), LastTransitionTime = now,
          Reason = reason, Message = message\<rparr>\<rparr>\<rparr>"

definition zero_Condition :: Condition where
  "zero_Condition = \<lparr>CondType = '''', CondStatus = '''', ObservedGeneration = 0,
     LastTransitionTime = zero_time, Reason = '''', Message = ''''\<rparr>"

fun lookup_condition_in :: "Condition list \<Rightarrow> string \<Rightarrow> Condition" where
  "lookup_condition_in [] t = zero_Condition"
| "lookup_condition_in (c # cs) t = (if CondType c = t then c else lookup_condition_in cs t)"

definition LookupCondition :: "Configuration \<Rightarrow> string \<Rightarrow> Condition" where
  "LookupCondition c conditionType = lookup_condition_in (Conditions (Status c)) conditionType"

definition ConditionTrue :: "Configuration \<Rightarrow> string \<Rightarrow> bool" where
  "ConditionTrue c t \<longleftrightarrow> CondStatus (LookupCondition c t) = metav1_ConditionTrue"

definition ConditionFalse :: "Configuration \<Rightarrow> string \<Rightarrow> bool" where
  "ConditionFalse c t \<longleftrightarrow> CondStatus (LookupCondition c t) = metav1_ConditionFalse"

definition ConditionUnknown :: "Configuration \<Rightarrow> string \<Rightarrow> bool" where
  "ConditionUnknown c t \<longleftrightarrow> CondStatus (LookupCondition c t) = metav1_ConditionUnknown"

fun condition_exists_in :: "Condition list \<Rightarrow> string \<Rightarrow> bool" where
  "condition_exists_in [] t = False"
| "condition_exists_in (c # cs) t = (if CondType c = t then True else condition_exists_in cs t)"

definition ConditionExists :: "Configuration \<Rightarrow> string \<Rightarrow> bool" where
  "ConditionExists c conditionType = condition_exists_in (Conditions (Status c)) conditionType"

text \<open>The well-formedness the operations keep: at most one condition per type.\<close>

definition conditions_distinct :: "Configuration \<Rightarrow> bool" where
  "conditions_distinct c \<longleftrightarrow> distinct (map CondType (Conditions (Status c)))"

text \<open>The abstract contents of the condition list: an association list from types to conditions.\<close>

definition condition_map :: "Configuration \<Rightarrow> (string \<rightharpoonup> Condition)" where
  "condition_map c = map_of (map (\<lambda>x. (CondType x, x)) (Conditions (Status c)))"

section \<open>The laws of the condition list\<close>

locale condition_store =
  fixes put :: "'c \<Rightarrow> string \<Rightarrow> string \<Rightarrow> string \<Rightarrow> string \<Rightarrow> int \<Rightarrow> 'c"
    and look :: "'c \<Rightarrow> string \<Rightarrow> Condition"
    and has :: "'c \<Rightarrow> string \<Rightarrow> bool"
    and wf :: "'c \<Rightarrow> bool"
  assumes look_put_same: "CondStatus (look (put c t s m r now) t) = s"
    and look_put_message: "Message (look (put c t s m r now) t) = m"
    and look_put_reason: "Reason (look (put c t s m r now) t) = r"
    and look_put_time: "LastTransitionTime (look (put c t s m r now) t) = now"
    and look_put_other: "t' \<noteq> t \<Longrightarrow> look (put c t s m r now) t' = look c t'"
    and has_put: "has (put c t s m r now) t' \<longleftrightarrow> t' = t \<or> has c t'"
    and look_absent: "\<not> has c t \<Longrightarrow> look c t = zero_Condition"
    and wf_put: "wf (put c t s m r now) \<longleftrightarrow> wf c"
begin

text \<open>Adding a condition only when it is missing, as \<^verbatim>\<open>initializeConditions\<close> does for each type.\<close>

definition put_missing :: "'c \<Rightarrow> string \<Rightarrow> string \<Rightarrow> string \<Rightarrow> string \<Rightarrow> int \<Rightarrow> 'c" where
  "put_missing c t s m r now = (if has c t then c else put c t s m r now)"

lemma has_put_missing: "has (put_missing c t s m r now) t' \<longleftrightarrow> t' = t \<or> has c t'"
  by (auto simp: put_missing_def has_put)

lemma look_put_missing:
  "look (put_missing c t s m r now) t' = (if t' = t \<and> \<not> has c t then look (put c t s m r now) t else look c t')"
  by (auto simp: put_missing_def look_put_other)

lemma wf_put_missing: "wf (put_missing c t s m r now) \<longleftrightarrow> wf c"
  by (simp add: put_missing_def wf_put)

text \<open>Adding every missing condition of a list of types, each with its own time.\<close>

definition put_all_missing :: "string \<Rightarrow> string \<Rightarrow> string \<Rightarrow> (string \<times> int) list \<Rightarrow> 'c \<Rightarrow> 'c" where
  "put_all_missing s m r ts c = fold (\<lambda>(t, now) c. put_missing c t s m r now) ts c"

lemma has_put_all_missing: "has (put_all_missing s m r ts c) t \<longleftrightarrow> t \<in> fst ` set ts \<or> has c t"
  by (induction ts arbitrary: c) (auto simp: put_all_missing_def has_put_missing)

lemma look_put_all_missing_present: "has c t \<Longrightarrow> look (put_all_missing s m r ts c) t = look c t"
  by (induction ts arbitrary: c) (auto simp: put_all_missing_def has_put_missing look_put_missing)

lemma look_put_all_missing_absent:
  assumes "\<not> has c t" and "t \<in> fst ` set ts"
  shows "CondStatus (look (put_all_missing s m r ts c) t) = s"
  using assms
proof (induction ts arbitrary: c)
  case (Cons x ts)
  obtain t' now where x: "x = (t', now)" by (cases x)
  show ?case
  proof (cases "t' = t")
    case True
    have "look (put_all_missing s m r ts (put_missing c t s m r now)) t = look (put_missing c t s m r now) t"
      by (simp add: look_put_all_missing_present has_put_missing)
    with Cons.prems True show ?thesis
      by (simp add: x put_all_missing_def look_put_missing look_put_same)
  next
    case False
    with Cons.prems have "\<not> has (put_missing c t' s m r now) t" "t \<in> fst ` set ts"
      by (auto simp: x has_put_missing)
    from Cons.IH [OF this] show ?thesis by (simp add: x put_all_missing_def)
  qed
qed simp

lemma wf_put_all_missing: "wf (put_all_missing s m r ts c) \<longleftrightarrow> wf c"
  by (induction ts arbitrary: c) (simp_all add: put_all_missing_def wf_put_missing split_beta)

lemmas store_simps = look_put_same look_put_message look_put_reason look_put_time look_put_other has_put
  has_put_missing look_put_missing

end

lemma lookup_set_condition_same:
  "lookup_condition_in (set_condition_in cs n) (CondType n) =
     (if condition_exists_in cs (CondType n)
      then (lookup_condition_in cs (CondType n))\<lparr>CondStatus := CondStatus n, Message := Message n,
             Reason := Reason n, LastTransitionTime := LastTransitionTime n,
             ObservedGeneration := ObservedGeneration n\<rparr>
      else n)"
  by (induction cs) auto

lemma lookup_set_condition_other:
  "t \<noteq> CondType n \<Longrightarrow> lookup_condition_in (set_condition_in cs n) t = lookup_condition_in cs t"
  by (induction cs) auto

lemma exists_set_condition:
  "condition_exists_in (set_condition_in cs n) t \<longleftrightarrow> t = CondType n \<or> condition_exists_in cs t"
  by (induction cs) auto

lemma lookup_absent: "\<not> condition_exists_in cs t \<Longrightarrow> lookup_condition_in cs t = zero_Condition"
  by (induction cs) (auto split: if_splits)

lemma condition_exists_in_iff: "condition_exists_in cs t \<longleftrightarrow> t \<in> CondType ` set cs"
  by (induction cs) auto

lemma types_set_condition:
  "map CondType (set_condition_in cs n) =
     map CondType cs @ (if CondType n \<in> CondType ` set cs then [] else [CondType n])"
  by (induction cs) auto

lemma SetCondition_frame [simp]:
  "Meta (SetCondition c t s m r now) = Meta c" "Spec (SetCondition c t s m r now) = Spec c"
  "MatchingNodeAddresses (Status (SetCondition c t s m r now)) = MatchingNodeAddresses (Status c)"
  "StatusText (Status (SetCondition c t s m r now)) = StatusText (Status c)"
  "ManagedObjects (Status (SetCondition c t s m r now)) = ManagedObjects (Status c)"
  by (simp_all add: SetCondition_def)

interpretation cond: condition_store SetCondition LookupCondition ConditionExists conditions_distinct
proof unfold_locales
  fix c :: Configuration and t s m r now t'
  let ?n = "\<lparr>CondType = t, CondStatus = s, ObservedGeneration = Generation (Meta c),
    LastTransitionTime = now, Reason = r, Message = m\<rparr>"
  have same: "LookupCondition (SetCondition c t s m r now) t =
     (if ConditionExists c t
      then (LookupCondition c t)\<lparr>CondStatus := s, Message := m, Reason := r,
             LastTransitionTime := now, ObservedGeneration := Generation (Meta c)\<rparr> else ?n)"
    using lookup_set_condition_same [of "Conditions (Status c)" ?n]
    by (simp add: LookupCondition_def SetCondition_def ConditionExists_def)
  show "CondStatus (LookupCondition (SetCondition c t s m r now) t) = s" by (simp add: same)
  show "Message (LookupCondition (SetCondition c t s m r now) t) = m" by (simp add: same)
  show "Reason (LookupCondition (SetCondition c t s m r now) t) = r" by (simp add: same)
  show "LastTransitionTime (LookupCondition (SetCondition c t s m r now) t) = now" by (simp add: same)
  show "LookupCondition (SetCondition c t s m r now) t' = LookupCondition c t'" if "t' \<noteq> t"
    using that by (simp add: LookupCondition_def SetCondition_def lookup_set_condition_other)
  show "ConditionExists (SetCondition c t s m r now) t' \<longleftrightarrow> t' = t \<or> ConditionExists c t'"
    by (simp add: ConditionExists_def SetCondition_def exists_set_condition)
  show "LookupCondition c t = zero_Condition" if "\<not> ConditionExists c t"
    using that by (simp add: ConditionExists_def LookupCondition_def lookup_absent)
  show "conditions_distinct (SetCondition c t s m r now) \<longleftrightarrow> conditions_distinct c"
    by (simp add: conditions_distinct_def SetCondition_def types_set_condition)
qed

text \<open>The condition types are pairwise different strings.\<close>

lemma condition_types_distinct:
  "distinct [WaitingForMatchignNodesCondition, OVNNBLeaderFound, OVNSBLeaderFound, OVNNBDBHealth, OVNSBDBHealth]"
  by (simp add: WaitingForMatchignNodesCondition_def OVNNBLeaderFound_def OVNSBLeaderFound_def
      OVNNBDBHealth_def OVNSBDBHealth_def)

lemma condition_types_neq [simp]:
  "WaitingForMatchignNodesCondition \<noteq> OVNNBLeaderFound"
  "WaitingForMatchignNodesCondition \<noteq> OVNSBLeaderFound"
  "WaitingForMatchignNodesCondition \<noteq> OVNNBDBHealth"
  "WaitingForMatchignNodesCondition \<noteq> OVNSBDBHealth"
  "OVNNBLeaderFound \<noteq> WaitingForMatchignNodesCondition"
  "OVNNBLeaderFound \<noteq> OVNSBLeaderFound"
  "OVNNBLeaderFound \<noteq> OVNNBDBHealth"
  "OVNNBLeaderFound \<noteq> OVNSBDBHealth"
  "OVNSBLeaderFound \<noteq> WaitingForMatchignNodesCondition"
  "OVNSBLeaderFound \<noteq> OVNNBLeaderFound"
  "OVNSBLeaderFound \<noteq> OVNNBDBHealth"
  "OVNSBLeaderFound \<noteq> OVNSBDBHealth"
  "OVNNBDBHealth \<noteq> WaitingForMatchignNodesCondition"
  "OVNNBDBHealth \<noteq> OVNNBLeaderFound"
  "OVNNBDBHealth \<noteq> OVNSBLeaderFound"
  "OVNNBDBHealth \<noteq> OVNSBDBHealth"
  "OVNSBDBHealth \<noteq> WaitingForMatchignNodesCondition"
  "OVNSBDBHealth \<noteq> OVNNBLeaderFound"
  "OVNSBDBHealth \<noteq> OVNSBLeaderFound"
  "OVNSBDBHealth \<noteq> OVNNBDBHealth"
  using condition_types_distinct by auto

section \<open>Properties\<close>

lemma CondType_lookup: "condition_exists_in cs t \<Longrightarrow> CondType (lookup_condition_in cs t) = t"
  by (induction cs) (auto split: if_splits)

lemma LookupCondition_SetCondition:
  "LookupCondition (SetCondition c t s m r now) t' =
     (if t' = t then \<lparr>CondType = t, CondStatus = s, ObservedGeneration = Generation (Meta c),
        LastTransitionTime = now, Reason = r, Message = m\<rparr>
      else LookupCondition c t')"
proof -
  let ?n = "\<lparr>CondType = t, CondStatus = s, ObservedGeneration = Generation (Meta c),
    LastTransitionTime = now, Reason = r, Message = m\<rparr>"
  have "LookupCondition (SetCondition c t s m r now) t = ?n"
    using lookup_set_condition_same [of "Conditions (Status c)" ?n] CondType_lookup [of "Conditions (Status c)" t]
    by (auto simp: LookupCondition_def SetCondition_def ConditionExists_def)
  then show ?thesis by (simp add: cond.look_put_other)
qed

lemma condition_map_in:
  "map_of (map (\<lambda>x. (CondType x, x)) cs) t = (if condition_exists_in cs t then Some (lookup_condition_in cs t) else None)"
  by (induction cs) auto

lemma condition_map_eq: "condition_map c t = (if ConditionExists c t then Some (LookupCondition c t) else None)"
  by (simp add: condition_map_def ConditionExists_def LookupCondition_def condition_map_in)

text \<open>
  C28: the list of conditions, read as an association list, implements a map from condition types to conditions:
  \<^verbatim>\<open>SetCondition\<close> is the update of that map with the new condition, which carries every field as given
  and the generation of the resource; \<^verbatim>\<open>ConditionExists\<close> tests its domain, and
  \<^verbatim>\<open>LookupCondition\<close> reads it, with the zero condition for a type that is not there.
\<close>

theorem conditions_refine_a_map:
  "condition_map (SetCondition c t s m r now) =
     (condition_map c)(t \<mapsto> \<lparr>CondType = t, CondStatus = s, ObservedGeneration = Generation (Meta c),
        LastTransitionTime = now, Reason = r, Message = m\<rparr>) \<and>
   (ConditionExists c t' \<longleftrightarrow> t' \<in> dom (condition_map c)) \<and>
   LookupCondition c t' = (case condition_map c t' of None \<Rightarrow> zero_Condition | Some x \<Rightarrow> x)"
proof (intro conjI ext)
  fix u
  show "condition_map (SetCondition c t s m r now) u =
     ((condition_map c)(t \<mapsto> \<lparr>CondType = t, CondStatus = s, ObservedGeneration = Generation (Meta c),
        LastTransitionTime = now, Reason = r, Message = m\<rparr>)) u"
    by (simp add: condition_map_eq LookupCondition_SetCondition cond.has_put)
qed (auto simp: condition_map_eq cond.look_absent split: if_splits)

text \<open>
  C29: \<^verbatim>\<open>SetCondition\<close> keeps the types and the order of the conditions that exist and appends the type
  only when it is missing, so the list holds at most one condition per type exactly if it did before;
  it changes nothing but the conditions.
\<close>

theorem SetCondition_keeps_types:
  "map CondType (Conditions (Status (SetCondition c t s m r now))) =
     map CondType (Conditions (Status c)) @ (if ConditionExists c t then [] else [t]) \<and>
   (conditions_distinct (SetCondition c t s m r now) \<longleftrightarrow> conditions_distinct c) \<and>
   (SetCondition c t s m r now)\<lparr>Status := (Status (SetCondition c t s m r now))\<lparr>Conditions := cs\<rparr>\<rparr> =
     c\<lparr>Status := (Status c)\<lparr>Conditions := cs\<rparr>\<rparr>"
  unfolding cond.wf_put
  by (simp add: SetCondition_def types_set_condition ConditionExists_def condition_exists_in_iff)

end
