(* ===== verification/Go_Template.thy ===== *)
theory Go_Template
  imports Prelude
begin

text \<open>
  Go's \<^verbatim>\<open>text/template\<close>, as far as the operator's templates use it. The standard library is
  part of the language, so its behaviour is modelled, not assumed: the values templates work on, how
  \<^verbatim>\<open>fmt\<close> prints them, the built-in functions \<open>eq\<close>, \<open>ne\<close>, \<open>gt\<close>, \<open>not\<close>,
  \<open>or\<close>, \<open>index\<close> and \<open>len\<close>, field access with the default \<^verbatim>\<open>missingkey\<close> behaviour,
  variables and their scopes, \<open>if\<close>/\<open>else if\<close>/\<open>else\<close>, \<open>with\<close>, \<open>range\<close>,
  and the parser's trimming of white space (\<^verbatim>\<open>{{-\<close> and \<^verbatim>\<open>-}}\<close>) and nesting of blocks.
  All other functions come from the function map, a parameter.

  A template is written as its tokens: text as its source lines, and each action with its two trim
  markers. \<open>template_Parse\<close> builds the tree, \<open>template_Execute\<close> renders it.
\<close>

section \<open>Values\<close>

text \<open>
  \<open>VNil\<close> is the invalid \<^verbatim>\<open>reflect.Value\<close> (a missing map key, a nil interface).
  \<open>VFloat m e\<close> is the \<^verbatim>\<open>float64\<close> whose shortest decimal representation is \<open>m * 10 ^ e\<close>;
  JSON numbers decode to it, so an integer \<open>n\<close> of the configuration is \<open>VFloat n 0\<close> (exact
  up to \<open>2 ^ 53\<close>). \<open>VStruct\<close> is a Go struct, whose fields are fixed, \<open>VMap\<close> a
  \<^verbatim>\<open>map[string]interface{}\<close>, with distinct keys.
\<close>

datatype gval =
    VNil
  | VBool bool
  | VStr string
  | VInt int
  | VFloat int int
  | VMap "(string \<times> gval) list"
  | VStruct "(string \<times> gval) list"
  | VList "gval list"

text \<open>Decimal digits, and \<^verbatim>\<open>strconv.FormatFloat(x, 'g', -1, 64)\<close>, which \<^verbatim>\<open>%v\<close> uses.\<close>

definition digit :: "nat \<Rightarrow> char" where
  "digit n = char_of (48 + n)"

fun show_nat :: "nat \<Rightarrow> string" where
  "show_nat n = (if n < 10 then [digit n] else show_nat (n div 10) @ [digit (n mod 10)])"

declare show_nat.simps [simp del]

definition show_int :: "int \<Rightarrow> string" where
  "show_int i = (if i < 0 then ''-'' @ show_nat (nat (- i)) else show_nat (nat i))"

definition strip_zeros :: "string \<Rightarrow> string" where
  "strip_zeros ds = rev (dropWhile (\<lambda>c. c = CHR ''0'') (rev ds))"

text \<open>\<open>ds\<close> are the significant digits and \<open>dp\<close> the position of the decimal point.\<close>

definition format_e :: "string \<Rightarrow> int \<Rightarrow> string" where
  "format_e ds dp = (let ex = dp - 1; a = show_nat (nat \<bar>ex\<bar>) in
     take 1 ds @ (if length ds > 1 then ''.'' @ drop 1 ds else '''') @ ''e'' @
     (if ex < 0 then ''-'' else ''+'') @ (if length a < 2 then ''0'' @ a else a))"

definition format_f :: "string \<Rightarrow> int \<Rightarrow> string" where
  "format_f ds dp =
     (if dp \<le> 0 then ''0.'' @ replicate (nat (- dp)) (CHR ''0'') @ ds
      else if int (length ds) \<le> dp then ds @ replicate (nat (dp - int (length ds))) (CHR ''0'')
      else take (nat dp) ds @ ''.'' @ drop (nat dp) ds)"

definition show_float :: "int \<Rightarrow> int \<Rightarrow> string" where
  "show_float m e =
     (if m = 0 then ''0''
      else let all = show_nat (nat \<bar>m\<bar>); ds = strip_zeros all; dp = int (length all) + e;
               body = (if dp - 1 < -4 \<or> dp - 1 \<ge> 6 then format_e ds dp else format_f ds dp)
           in (if m < 0 then ''-'' @ body else body))"

text \<open>\<^verbatim>\<open>fmt.Fprint\<close>: maps in key order, and \<^verbatim>\<open><nil>\<close> for a nil inside a container.\<close>

fun show_value :: "gval \<Rightarrow> string" where
  "show_value VNil = ''<nil>''"
| "show_value (VBool b) = (if b then ''true'' else ''false'')"
| "show_value (VStr s) = s"
| "show_value (VInt i) = show_int i"
| "show_value (VFloat m e) = show_float m e"
| "show_value (VMap kvs) = ''map['' @ strings_Join
     (map (\<lambda>(k, s). k @ '':'' @ s) (sort_key fst (map (\<lambda>(k, v). (k, show_value v)) kvs))) '' '' @ '']''"
| "show_value (VStruct kvs) = ''{'' @ strings_Join (map (\<lambda>(k, v). show_value v) kvs) '' '' @ ''}''"
| "show_value (VList vs) = ''['' @ strings_Join (map show_value vs) '' '' @ '']''"

text \<open>What an action prints: the template engine's own text for an invalid value.\<close>

fun print_value :: "gval \<Rightarrow> string" where
  "print_value VNil = ''<no value>''"
| "print_value v = show_value v"

text \<open>\<^verbatim>\<open>template.IsTrue\<close>.\<close>

fun truth :: "gval \<Rightarrow> bool" where
  "truth VNil = False"
| "truth (VBool b) = b"
| "truth (VStr s) = (s \<noteq> [])"
| "truth (VInt i) = (i \<noteq> 0)"
| "truth (VFloat m e) = (m \<noteq> 0)"
| "truth (VMap kvs) = (kvs \<noteq> [])"
| "truth (VStruct kvs) = True"
| "truth (VList vs) = (vs \<noteq> [])"

text \<open>One step of a field chain (\<^verbatim>\<open>evalField\<close>), and the whole chain.\<close>

fun evalField :: "gval \<Rightarrow> string \<Rightarrow> goerror + gval" where
  "evalField VNil k = Inr VNil"
| "evalField (VMap m) k = Inr (case map_of m k of None \<Rightarrow> VNil | Some v \<Rightarrow> v)"
| "evalField (VStruct m) k = (case map_of m k of None \<Rightarrow> Inl (EMsg ''can't evaluate field'') | Some v \<Rightarrow> Inr v)"
| "evalField v k = Inl (EMsg ''can't evaluate field'')"

fun evalFieldChain :: "gval \<Rightarrow> string list \<Rightarrow> goerror + gval" where
  "evalFieldChain v [] = Inr v"
| "evalFieldChain v (k # ks) = ebind (evalField v k) (\<lambda>w. evalFieldChain w ks)"

section \<open>Built-in functions\<close>

datatype basic_kind = boolKind | stringKind | intKind | floatKind

fun basicKind :: "gval \<Rightarrow> basic_kind option" where
  "basicKind (VBool b) = Some boolKind"
| "basicKind (VStr s) = Some stringKind"
| "basicKind (VInt i) = Some intKind"
| "basicKind (VFloat m e) = Some floatKind"
| "basicKind v = None"

text \<open>\<open>eq\<close> of two arguments: an invalid argument equals nothing valid and raises no error.\<close>

definition template_eq :: "gval \<Rightarrow> gval \<Rightarrow> goerror + bool" where
  "template_eq a b =
     (if a = VNil \<or> b = VNil then Inr (a = VNil \<and> b = VNil)
      else case (basicKind a, basicKind b) of
        (Some k, Some l) \<Rightarrow> (if k = l then Inr (a = b) else Inl (EMsg ''incompatible types for comparison''))
      | _ \<Rightarrow> Inl (EMsg ''non-comparable types''))"

fun template_index :: "gval \<Rightarrow> gval list \<Rightarrow> goerror + gval" where
  "template_index v [] = Inr v"
| "template_index (VMap m) (VStr k # is) = template_index (case map_of m k of None \<Rightarrow> VNil | Some v \<Rightarrow> v) is"
| "template_index VNil (i # is) = Inl (EMsg ''index of nil pointer'')"
| "template_index (VList vs) (VInt i # is) =
     (if 0 \<le> i \<and> nat i < length vs then template_index (vs ! nat i) is else Inl (EMsg ''index out of range''))"
| "template_index v (i # is) = Inl (EMsg ''can't index item'')"

definition builtin :: "string \<Rightarrow> (gval list \<Rightarrow> goerror + gval) option" where
  "builtin f =
     (if f = ''eq'' then Some (\<lambda>vs. case vs of [a, b] \<Rightarrow> ebind (template_eq a b) (\<lambda>r. Inr (VBool r))
                                   | _ \<Rightarrow> Inl (EMsg ''missing argument for comparison''))
      else if f = ''ne'' then Some (\<lambda>vs. case vs of [a, b] \<Rightarrow> ebind (template_eq a b) (\<lambda>r. Inr (VBool (\<not> r)))
                                   | _ \<Rightarrow> Inl (EMsg ''missing argument for comparison''))
      else if f = ''gt'' then Some (\<lambda>vs. case vs of [VInt a, VInt b] \<Rightarrow> Inr (VBool (a > b))
                                   | _ \<Rightarrow> Inl (EMsg ''incompatible types for comparison''))
      else if f = ''not'' then Some (\<lambda>vs. case vs of [a] \<Rightarrow> Inr (VBool (\<not> truth a))
                                   | _ \<Rightarrow> Inl (EMsg ''wrong number of args for not''))
      else if f = ''index'' then Some (\<lambda>vs. case vs of
                                     [] \<Rightarrow> Inl (EMsg ''wrong number of args for index'')
                                   | v # is \<Rightarrow> (if v = VNil then Inl (EMsg ''index of untyped nil'')
                                               else template_index v is))
      else if f = ''len'' then Some (\<lambda>vs. case vs of
                                     [VStr s] \<Rightarrow> Inr (VInt (int (length s)))
                                   | [VList l] \<Rightarrow> Inr (VInt (int (length l)))
                                   | [VMap m] \<Rightarrow> Inr (VInt (int (length m)))
                                   | _ \<Rightarrow> Inl (EMsg ''len of type''))
      else None)"

section \<open>Pipelines\<close>

text \<open>
  An operand is the dot, a field chain of the dot, a variable with a field chain, a literal, or a
  pipeline in parentheses; a command is an operand or a function with its arguments, to which a
  pipeline adds the previous command's value as the last one.
\<close>

datatype arg =
    ADot
  | AField "string list"
  | AVar string "string list"
  | AStr string
  | ANum int
  | ANil
  | APipe "cmd list"
and cmd =
    CArg arg
  | CFun string "arg list"

type_synonym pipe = "cmd list"
type_synonym funcmap = "string \<Rightarrow> (gval list \<Rightarrow> goerror + gval) option"
type_synonym vars = "(string \<times> gval) list"

fun eval_arg :: "funcmap \<Rightarrow> gval \<Rightarrow> vars \<Rightarrow> arg \<Rightarrow> goerror + gval"
  and eval_args :: "funcmap \<Rightarrow> gval \<Rightarrow> vars \<Rightarrow> arg list \<Rightarrow> goerror + gval list"
  and eval_or :: "funcmap \<Rightarrow> gval \<Rightarrow> vars \<Rightarrow> arg list \<Rightarrow> gval \<Rightarrow> goerror + gval"
  and eval_cmd :: "funcmap \<Rightarrow> gval \<Rightarrow> vars \<Rightarrow> cmd \<Rightarrow> gval list \<Rightarrow> goerror + gval"
  and eval_pipe :: "funcmap \<Rightarrow> gval \<Rightarrow> vars \<Rightarrow> pipe \<Rightarrow> gval list \<Rightarrow> goerror + gval" where
  "eval_arg F dot vs ADot = Inr dot"
| "eval_arg F dot vs (AField ks) = evalFieldChain dot ks"
| "eval_arg F dot vs (AVar x ks) = (case map_of vs x of
      None \<Rightarrow> Inl (EMsg ''undefined variable'') | Some v \<Rightarrow> evalFieldChain v ks)"
| "eval_arg F dot vs (AStr s) = Inr (VStr s)"
| "eval_arg F dot vs (ANum n) = Inr (VInt n)"
| "eval_arg F dot vs ANil = Inr VNil"
| "eval_arg F dot vs (APipe p) = eval_pipe F dot vs p []"
| "eval_args F dot vs [] = Inr []"
| "eval_args F dot vs (a # as) =
     ebind (eval_arg F dot vs a) (\<lambda>v. ebind (eval_args F dot vs as) (\<lambda>ws. Inr (v # ws)))"
| "eval_or F dot vs [] v = Inr v"
| "eval_or F dot vs (a # as) v = (if truth v then Inr v
     else ebind (eval_arg F dot vs a) (\<lambda>w. eval_or F dot vs as w))"
| "eval_cmd F dot vs (CArg a) final =
     (if final \<noteq> [] then Inl (EMsg ''can't give argument to non-function'') else eval_arg F dot vs a)"
| "eval_cmd F dot vs (CFun f as) final =
     (if f = ''or'' then ebind (eval_or F dot vs as VNil) (\<lambda>v. if truth v then Inr v
                             else (case final of [] \<Rightarrow> Inr v | w # _ \<Rightarrow> Inr w))
      else case builtin f of
        Some b \<Rightarrow> ebind (eval_args F dot vs as) (\<lambda>ws. b (ws @ final))
      | None \<Rightarrow> (case F f of
          Some g \<Rightarrow> ebind (eval_args F dot vs as) (\<lambda>ws. g (ws @ final))
        | None \<Rightarrow> Inl (EMsg ''function not defined'')))"
| "eval_pipe F dot vs [] final = (case final of [] \<Rightarrow> Inr VNil | v # _ \<Rightarrow> Inr v)"
| "eval_pipe F dot vs (c # cs) final = ebind (eval_cmd F dot vs c final) (\<lambda>v. eval_pipe F dot vs cs [v])"

section \<open>Trees and their execution\<close>

datatype node =
    NText string
  | NAct pipe
  | NDecl string pipe
  | NAssign string pipe
  | NIf pipe "node list" "node list"
  | NWith pipe "node list" "node list"
  | NRange string string pipe "node list" "node list"

text \<open>Assignment changes the innermost variable of that name; a block forgets what it declared.\<close>

fun assign_var :: "vars \<Rightarrow> string \<Rightarrow> gval \<Rightarrow> goerror + vars" where
  "assign_var [] x v = Inl (EMsg ''undefined variable'')"
| "assign_var ((y, w) # vs) x v = (if y = x then Inr ((y, v) # vs)
     else ebind (assign_var vs x v) (\<lambda>vs'. Inr ((y, w) # vs')))"

definition pop :: "vars \<Rightarrow> vars \<Rightarrow> vars" where
  "pop vs vs' = drop (length vs' - length vs) vs'"

definition in_scope :: "vars \<Rightarrow> goerror + (string \<times> vars) \<Rightarrow> goerror + (string \<times> vars)" where
  "in_scope vs r = ebind r (\<lambda>(out, vs'). Inr (out, pop vs vs'))"

fun loop_range :: "('v \<Rightarrow> 's \<Rightarrow> goerror + (string \<times> 's)) \<Rightarrow> 'v list \<Rightarrow> 's \<Rightarrow> goerror + (string \<times> 's)" where
  "loop_range f [] s = Inr ('''', s)"
| "loop_range f (v # vs) s = ebind (f v s) (\<lambda>(o1, s1). ebind (loop_range f vs s1) (\<lambda>(o2, s2). Inr (o1 @ o2, s2)))"

lemma loop_range_cong [fundef_cong]:
  "xs = ys \<Longrightarrow> s = t \<Longrightarrow> (\<And>x u. x \<in> set ys \<Longrightarrow> f x u = g x u) \<Longrightarrow> loop_range f xs s = loop_range g ys t"
proof (induction xs arbitrary: ys s t)
  case (Cons x xs)
  then show ?case by (auto intro!: ebind_cong)
qed simp

fun exec_node :: "funcmap \<Rightarrow> gval \<Rightarrow> vars \<Rightarrow> node \<Rightarrow> goerror + (string \<times> vars)"
  and exec_nodes :: "funcmap \<Rightarrow> gval \<Rightarrow> vars \<Rightarrow> node list \<Rightarrow> goerror + (string \<times> vars)" where
  "exec_node F dot vs (NText s) = Inr (s, vs)"
| "exec_node F dot vs (NAct p) = ebind (eval_pipe F dot vs p []) (\<lambda>v. Inr (print_value v, vs))"
| "exec_node F dot vs (NDecl x p) = ebind (eval_pipe F dot vs p []) (\<lambda>v. Inr ('''', (x, v) # vs))"
| "exec_node F dot vs (NAssign x p) =
     ebind (eval_pipe F dot vs p []) (\<lambda>v. ebind (assign_var vs x v) (\<lambda>vs'. Inr ('''', vs')))"
| "exec_node F dot vs (NIf p th el) = ebind (eval_pipe F dot vs p []) (\<lambda>v.
     in_scope vs (if truth v then exec_nodes F dot vs th else exec_nodes F dot vs el))"
| "exec_node F dot vs (NWith p th el) = ebind (eval_pipe F dot vs p []) (\<lambda>v.
     in_scope vs (if truth v then exec_nodes F v vs th else exec_nodes F dot vs el))"
| "exec_node F dot vs (NRange i x p body el) = ebind (eval_pipe F dot vs p []) (\<lambda>v.
     case v of
       VNil \<Rightarrow> in_scope vs (exec_nodes F dot vs el)
     | VList ws \<Rightarrow> (if ws = [] then in_scope vs (exec_nodes F dot vs el)
         else loop_range (\<lambda>(n, w) us. in_scope us (exec_nodes F w ((x, w) # (i, VInt (int n)) # us) body))
                (enumerate 0 ws) vs)
     | _ \<Rightarrow> Inl (EMsg ''range can't iterate over''))"
| "exec_nodes F dot vs [] = Inr ('''', vs)"
| "exec_nodes F dot vs (n # ns) = ebind (exec_node F dot vs n) (\<lambda>(o1, vs1).
     ebind (exec_nodes F dot vs1 ns) (\<lambda>(o2, vs2). Inr (o1 @ o2, vs2)))"

text \<open>\<^verbatim>\<open>tmpl.Execute\<close>: the data is the dot and the variable \<open>$\<close>.\<close>

definition template_Execute :: "funcmap \<Rightarrow> node list \<Rightarrow> gval \<Rightarrow> goerror + string" where
  "template_Execute F ns data = ebind (exec_nodes F data [(''$'', data)] ns) (\<lambda>(out, _). Inr out)"

section \<open>Source tokens and the parser\<close>

datatype action =
    Pipe pipe
  | Decl string pipe
  | Assign string pipe
  | If pipe
  | With pipe
  | Range string string pipe
  | ElseIf pipe
  | Else
  | End

text \<open>
  \<open>Txt\<close> holds the source lines of a piece of text; \<open>Act l r a\<close> is an action whose left
  (right) delimiter carries a trim marker when \<open>l\<close> (\<open>r\<close>) holds.
\<close>

datatype tok = Txt "string list" | Act bool bool action

datatype ptok = PText string | PAct action

definition newline :: string where "newline = [CHR 0x0A]"

definition is_space :: "char \<Rightarrow> bool" where
  "is_space c \<longleftrightarrow> c = CHR '' '' \<or> c = CHR 0x09 \<or> c = CHR 0x0D \<or> c = CHR 0x0A"

definition ltrim :: "string \<Rightarrow> string" where "ltrim s = dropWhile is_space s"

definition rtrim :: "string \<Rightarrow> string" where "rtrim s = rev (dropWhile is_space (rev s))"

fun trims_left :: "tok list \<Rightarrow> bool" where
  "trims_left (Act l r a # ts) = l"
| "trims_left _ = False"

fun trim_toks :: "bool \<Rightarrow> tok list \<Rightarrow> ptok list" where
  "trim_toks pending [] = []"
| "trim_toks pending (Txt ls # ts) = PText (
     let s = strings_Join ls newline; s1 = (if pending then ltrim s else s)
     in (if trims_left ts then rtrim s1 else s1)) # trim_toks False ts"
| "trim_toks pending (Act l r a # ts) = PAct a # trim_toks r ts"

text \<open>
  The parser keeps a stack of open blocks: what opened the block, whether an \<open>else if\<close> opened it
  (then one \<open>end\<close> closes it together with the block around it), the finished first branch once
  \<open>else\<close> was read, the nodes of the enclosing list read so far (latest first), and the variables that
  were known when the block was opened, to which its \<open>end\<close> goes back.
\<close>

datatype opener = OIf pipe | OWith pipe | ORange string string pipe

record frame =
  fopener :: opener
  fchained :: bool
  fthen :: "node list option"
  fouter :: "node list"
  fvars :: "string list"

fun close_block :: "opener \<Rightarrow> node list option \<Rightarrow> node list \<Rightarrow> node" where
  "close_block (OIf p) th cur = (case th of None \<Rightarrow> NIf p cur [] | Some t \<Rightarrow> NIf p t cur)"
| "close_block (OWith p) th cur = (case th of None \<Rightarrow> NWith p cur [] | Some t \<Rightarrow> NWith p t cur)"
| "close_block (ORange i x p) th cur = (case th of None \<Rightarrow> NRange i x p cur [] | Some t \<Rightarrow> NRange i x p t cur)"

fun opens_if :: "opener \<Rightarrow> bool" where
  "opens_if (OIf p) = True"
| "opens_if _ = False"

fun close_frames :: "frame list \<Rightarrow> node list \<Rightarrow> (frame list \<times> node list \<times> string list) option" where
  "close_frames [] cur = None"
| "close_frames (f # fs) cur =
     (let cur' = close_block (fopener f) (fthen f) (rev cur) # fouter f
      in if fchained f then close_frames fs cur' else Some (fs, cur', fvars f))"

definition open_block :: "opener \<Rightarrow> bool \<Rightarrow> node list \<Rightarrow> string list \<Rightarrow> frame" where
  "open_block b chained outer vs = \<lparr>fopener = b, fchained = chained, fthen = None, fouter = outer, fvars = vs\<rparr>"

text \<open>
  What the parser demands of a pipeline, with the defined functions \<open>d\<close> and the known variables
  \<open>vs\<close>: there is a command (\<^verbatim>\<open>missing value\<close>), only the first one may be a constant or the dot
  (\<^verbatim>\<open>non executable command in pipeline stage\<close>), every function is defined and every variable that is
  read is known (\<^verbatim>\<open>undefined variable\<close>); and the same inside parentheses.
\<close>

fun constant_cmd :: "cmd \<Rightarrow> bool" where
  "constant_cmd (CArg ADot) = True"
| "constant_cmd (CArg (AStr s)) = True"
| "constant_cmd (CArg (ANum n)) = True"
| "constant_cmd (CArg ANil) = True"
| "constant_cmd _ = False"

fun pipe_ok :: "(string \<Rightarrow> bool) \<Rightarrow> string list \<Rightarrow> pipe \<Rightarrow> bool"
  and stages_ok :: "(string \<Rightarrow> bool) \<Rightarrow> string list \<Rightarrow> pipe \<Rightarrow> bool"
  and cmd_ok :: "(string \<Rightarrow> bool) \<Rightarrow> string list \<Rightarrow> cmd \<Rightarrow> bool"
  and arg_ok :: "(string \<Rightarrow> bool) \<Rightarrow> string list \<Rightarrow> arg \<Rightarrow> bool"
  and args_ok :: "(string \<Rightarrow> bool) \<Rightarrow> string list \<Rightarrow> arg list \<Rightarrow> bool" where
  "pipe_ok d vs [] = False"
| "pipe_ok d vs (c # cs) = (cmd_ok d vs c \<and> stages_ok d vs cs)"
| "stages_ok d vs [] = True"
| "stages_ok d vs (c # cs) = (\<not> constant_cmd c \<and> cmd_ok d vs c \<and> stages_ok d vs cs)"
| "cmd_ok d vs (CArg a) = arg_ok d vs a"
| "cmd_ok d vs (CFun f as) = (d f \<and> args_ok d vs as)"
| "arg_ok d vs (APipe p) = pipe_ok d vs p"
| "arg_ok d vs (AVar x ks) = (x \<in> set vs)"
| "arg_ok d vs _ = True"
| "args_ok d vs [] = True"
| "args_ok d vs (a # as) = (arg_ok d vs a \<and> args_ok d vs as)"

text \<open>
  As in Go's \<^verbatim>\<open>Tree.pipeline\<close>, a declared variable, and an assigned one too, is added to the known
  variables (\<^verbatim>\<open>t.vars\<close>) before the commands of its pipeline are read; that an assignment needs a declared
  variable is checked only when the template runs (\<^verbatim>\<open>setVar\<close>, \<open>assign_var\<close> above). The variables of a
  block stay known in its \<open>else\<close> branch and are forgotten at its \<open>end\<close> (\<^verbatim>\<open>popVars\<close> in
  \<^verbatim>\<open>parseControl\<close>). Only an \<open>if\<close> can have an \<open>else if\<close>.
\<close>

fun parse_toks :: "(string \<Rightarrow> bool) \<Rightarrow> string list \<Rightarrow> ptok list \<Rightarrow> frame list \<Rightarrow> node list \<Rightarrow> node list option" where
  "parse_toks d vs [] [] cur = Some (rev cur)"
| "parse_toks d vs [] (f # fs) cur = None"
| "parse_toks d vs (PText s # ts) fs cur = parse_toks d vs ts fs (NText s # cur)"
| "parse_toks d vs (PAct (Pipe p) # ts) fs cur =
     (if pipe_ok d vs p then parse_toks d vs ts fs (NAct p # cur) else None)"
| "parse_toks d vs (PAct (Decl x p) # ts) fs cur =
     (if pipe_ok d (x # vs) p then parse_toks d (x # vs) ts fs (NDecl x p # cur) else None)"
| "parse_toks d vs (PAct (Assign x p) # ts) fs cur =
     (if pipe_ok d (x # vs) p then parse_toks d (x # vs) ts fs (NAssign x p # cur) else None)"
| "parse_toks d vs (PAct (If p) # ts) fs cur =
     (if pipe_ok d vs p then parse_toks d vs ts (open_block (OIf p) False cur vs # fs) [] else None)"
| "parse_toks d vs (PAct (With p) # ts) fs cur =
     (if pipe_ok d vs p then parse_toks d vs ts (open_block (OWith p) False cur vs # fs) [] else None)"
| "parse_toks d vs (PAct (Range i x p) # ts) fs cur =
     (if pipe_ok d (x # i # vs) p
      then parse_toks d (x # i # vs) ts (open_block (ORange i x p) False cur vs # fs) [] else None)"
| "parse_toks d vs (PAct Else # ts) fs cur = (case fs of
      [] \<Rightarrow> None
    | f # fs' \<Rightarrow> (if fthen f = None then parse_toks d vs ts (f\<lparr>fthen := Some (rev cur)\<rparr> # fs') [] else None))"
| "parse_toks d vs (PAct (ElseIf p) # ts) fs cur = (case fs of
      [] \<Rightarrow> None
    | f # fs' \<Rightarrow> (if fthen f = None \<and> opens_if (fopener f) \<and> pipe_ok d vs p
         then parse_toks d vs ts (open_block (OIf p) True [] vs # f\<lparr>fthen := Some (rev cur)\<rparr> # fs') [] else None))"
| "parse_toks d vs (PAct End # ts) fs cur = (case close_frames fs cur of
      None \<Rightarrow> None | Some (fs', cur', vs') \<Rightarrow> parse_toks d vs' ts fs' cur')"

definition func_defined :: "funcmap \<Rightarrow> string \<Rightarrow> bool" where
  "func_defined F f \<longleftrightarrow> f = ''or'' \<or> builtin f \<noteq> None \<or> F f \<noteq> None"

text \<open>
  \<^verbatim>\<open>template.New(...).Funcs(f).Parse(input)\<close>: \<open>None\<close> is the parse error. At the start only the
  variable \<open>$\<close> is known.
\<close>

definition template_Parse :: "funcmap \<Rightarrow> tok list \<Rightarrow> node list option" where
  "template_Parse F ts = parse_toks (func_defined F) [''$''] (trim_toks False ts) [] []"

end
