(* ===== verification/Cluster.thy ===== *)
theory Cluster
  imports Api_Types Go_Template
begin

text \<open>
  The world of the controllers. Nothing of Kubernetes is implemented in the repository, so none of it
  is defined here: the API server, the pods' shells, the clock and the libraries are parameters.

  \<^item> An \<open>env\<close> answers every call a controller can make. An answer may depend on the whole
    history of calls, so an arbitrary \<open>env\<close> covers every behaviour of the API server, of other
    clients and of the nodes between two calls; a theorem that quantifies over \<open>env\<close> holds
    whatever they do.
  \<^item> Every call is an \<open>event\<close> that records the request and the answer; a controller's
    behaviour is its result and the events it adds to the history.
  \<^item> \<open>libs\<close> holds the third-party functions that only compute. What the code relies on is
    stated as hypotheses (\<open>finalizer_laws\<close> and so on), each of which \<open>ref_libs\<close> satisfies.
\<close>

section \<open>Objects\<close>

type_synonym nsname = "string \<times> string"  \<comment> \<open>\<^verbatim>\<open>types.NamespacedName\<close>: namespace and name\<close>
type_synonym labelset = "(string \<times> string) list"
type_synonym selector = string

record Node =
  NodeMeta :: ObjectMeta
  Addresses :: "(string \<times> string) list"  \<comment> \<open>type and address\<close>

record Pod =
  PodName :: string
  PodNamespace :: string

text \<open>The object types the operator manages, and any other type.\<close>

datatype objkind =
    CustomResourceDefinition | Secret | ServiceAccount | RoleBinding | ClusterRole | Role
  | ClusterRoleBinding | ConfigMap | Deployment | DaemonSet | Service
  | ValidatingWebhookConfiguration | OtherKind string

datatype crd_scope = NamespaceScoped | ClusterScoped

record CRDSpec =
  CRDGroup :: string
  CRDPlural :: string
  CRDScope :: crd_scope
  CRDVersions :: "string list"

text \<open>A decoded object: its type, its metadata, the CRD fields the operator reads, and the rest.\<close>

record kobject =
  ObjKind :: objkind
  ObjMeta :: ObjectMeta
  ObjCRD :: "CRDSpec option"
  ObjBody :: string

record DynObject =
  DynNamespace :: string
  DynName :: string
  DynDeletionTimestamp :: "int option"

type_synonym gvr = "string \<times> string \<times> string"  \<comment> \<open>group, version, resource\<close>

datatype owner = OwnerConfig Configuration | OwnerNamespace ObjectMeta

section \<open>Calls\<close>

datatype event =
    EvGetConfiguration nsname "goerror + Configuration"
  | EvGetNode string "goerror + Node"
  | EvGetNamespace string "goerror + ObjectMeta"
  | EvGetSecret nsname "goerror + (string \<times> string) list"
  | EvGetConfigMap nsname "goerror + (string \<times> string) list"
  | EvListNodes labelset "goerror + Node list"
  | EvListPods selector string "goerror + Pod list"
  | EvIsNamespaced objkind "goerror + bool"
  | EvNewDynamicClient "goerror option"
  | EvListDynamic gvr "goerror + DynObject list"
  | EvDeleteDynamic gvr "string option" string "goerror option"  \<comment> \<open>namespace of the request, name\<close>
  | EvCreateNamespace string "goerror option"
  | EvDeleteNamespace string "goerror option"
  | EvCreateConfiguration Configuration "goerror option"
  | EvPatchConfiguration Configuration Configuration "goerror option"  \<comment> \<open>new, base\<close>
  | EvPatchConfigurationStatus Configuration Configuration "goerror option"
  | EvPatchNode Node Node "goerror option"
  | EvApply kobject "goerror option"
  | EvNewExecutor Pod "goerror option"
  | EvExec Pod string "string list" "string \<times> string \<times> goerror option"  \<comment> \<open>container, command; stdout, stderr, error\<close>
  | EvRecorderEvent string string string string  \<comment> \<open>object, type, reason, message\<close>
  | EvNow int

type_synonym trace = "event list"
type_synonym 'a cio = "(event, 'a) io"

record env =
  apiGetConfiguration :: "trace \<Rightarrow> nsname \<Rightarrow> goerror + Configuration"
  apiGetNode :: "trace \<Rightarrow> string \<Rightarrow> goerror + Node"
  apiGetNamespace :: "trace \<Rightarrow> string \<Rightarrow> goerror + ObjectMeta"
  apiGetSecret :: "trace \<Rightarrow> nsname \<Rightarrow> goerror + (string \<times> string) list"
  apiGetConfigMap :: "trace \<Rightarrow> nsname \<Rightarrow> goerror + (string \<times> string) list"
  apiListNodes :: "trace \<Rightarrow> labelset \<Rightarrow> goerror + Node list"
  apiListPods :: "trace \<Rightarrow> selector \<Rightarrow> string \<Rightarrow> goerror + Pod list"
  apiIsNamespaced :: "trace \<Rightarrow> objkind \<Rightarrow> goerror + bool"
  apiNewDynamicClient :: "trace \<Rightarrow> goerror option"
  apiListDynamic :: "trace \<Rightarrow> gvr \<Rightarrow> goerror + DynObject list"
  apiDeleteDynamic :: "trace \<Rightarrow> gvr \<Rightarrow> string option \<Rightarrow> string \<Rightarrow> goerror option"
  apiCreateNamespace :: "trace \<Rightarrow> string \<Rightarrow> goerror option"
  apiDeleteNamespace :: "trace \<Rightarrow> string \<Rightarrow> goerror option"
  apiCreateConfiguration :: "trace \<Rightarrow> Configuration \<Rightarrow> goerror option"
  apiPatchConfiguration :: "trace \<Rightarrow> Configuration \<Rightarrow> Configuration \<Rightarrow> goerror option"
  apiPatchConfigurationStatus :: "trace \<Rightarrow> Configuration \<Rightarrow> Configuration \<Rightarrow> goerror option"
  apiPatchNode :: "trace \<Rightarrow> Node \<Rightarrow> Node \<Rightarrow> goerror option"
  apiApply :: "trace \<Rightarrow> kobject \<Rightarrow> goerror option"
  apiNewExecutor :: "trace \<Rightarrow> Pod \<Rightarrow> goerror option"
  apiExec :: "trace \<Rightarrow> Pod \<Rightarrow> string \<Rightarrow> string list \<Rightarrow> string \<times> string \<times> goerror option"
  clockNow :: "trace \<Rightarrow> int"
  templateFuncs :: "trace \<Rightarrow> funcmap"  \<comment> \<open>sprig's functions and Helm's \<open>lookup\<close>, which reads the cluster\<close>

definition GetConfiguration :: "env \<Rightarrow> nsname \<Rightarrow> (goerror + Configuration) cio" where
  "GetConfiguration E nn = call (\<lambda>tr. apiGetConfiguration E tr nn) (EvGetConfiguration nn)"

definition GetNode :: "env \<Rightarrow> string \<Rightarrow> (goerror + Node) cio" where
  "GetNode E n = call (\<lambda>tr. apiGetNode E tr n) (EvGetNode n)"

definition GetNamespaceObj :: "env \<Rightarrow> string \<Rightarrow> (goerror + ObjectMeta) cio" where
  "GetNamespaceObj E n = call (\<lambda>tr. apiGetNamespace E tr n) (EvGetNamespace n)"

definition GetSecret :: "env \<Rightarrow> nsname \<Rightarrow> (goerror + (string \<times> string) list) cio" where
  "GetSecret E nn = call (\<lambda>tr. apiGetSecret E tr nn) (EvGetSecret nn)"

definition GetConfigMap :: "env \<Rightarrow> nsname \<Rightarrow> (goerror + (string \<times> string) list) cio" where
  "GetConfigMap E nn = call (\<lambda>tr. apiGetConfigMap E tr nn) (EvGetConfigMap nn)"

definition ListNodes :: "env \<Rightarrow> labelset \<Rightarrow> (goerror + Node list) cio" where
  "ListNodes E ls = call (\<lambda>tr. apiListNodes E tr ls) (EvListNodes ls)"

definition ListPods :: "env \<Rightarrow> selector \<Rightarrow> string \<Rightarrow> (goerror + Pod list) cio" where
  "ListPods E sel ns = call (\<lambda>tr. apiListPods E tr sel ns) (EvListPods sel ns)"

definition IsObjectNamespaced :: "env \<Rightarrow> objkind \<Rightarrow> (goerror + bool) cio" where
  "IsObjectNamespaced E k = call (\<lambda>tr. apiIsNamespaced E tr k) (EvIsNamespaced k)"

definition NewDynamicClient :: "env \<Rightarrow> (goerror option) cio" where
  "NewDynamicClient E = call (\<lambda>tr. apiNewDynamicClient E tr) EvNewDynamicClient"

definition ListDynamic :: "env \<Rightarrow> gvr \<Rightarrow> (goerror + DynObject list) cio" where
  "ListDynamic E g = call (\<lambda>tr. apiListDynamic E tr g) (EvListDynamic g)"

definition DeleteDynamic :: "env \<Rightarrow> gvr \<Rightarrow> string option \<Rightarrow> string \<Rightarrow> (goerror option) cio" where
  "DeleteDynamic E g ns n = call (\<lambda>tr. apiDeleteDynamic E tr g ns n) (EvDeleteDynamic g ns n)"

definition CreateNamespace :: "env \<Rightarrow> string \<Rightarrow> (goerror option) cio" where
  "CreateNamespace E n = call (\<lambda>tr. apiCreateNamespace E tr n) (EvCreateNamespace n)"

definition DeleteNamespace :: "env \<Rightarrow> string \<Rightarrow> (goerror option) cio" where
  "DeleteNamespace E n = call (\<lambda>tr. apiDeleteNamespace E tr n) (EvDeleteNamespace n)"

definition CreateConfiguration :: "env \<Rightarrow> Configuration \<Rightarrow> (goerror option) cio" where
  "CreateConfiguration E c = call (\<lambda>tr. apiCreateConfiguration E tr c) (EvCreateConfiguration c)"

text \<open>\<^verbatim>\<open>Patch(ctx, new, client.MergeFrom(base))\<close>, on the object and on its status subresource.\<close>

definition PatchConfiguration :: "env \<Rightarrow> Configuration \<Rightarrow> Configuration \<Rightarrow> (goerror option) cio" where
  "PatchConfiguration E new base =
     call (\<lambda>tr. apiPatchConfiguration E tr new base) (EvPatchConfiguration new base)"

definition PatchConfigurationStatus :: "env \<Rightarrow> Configuration \<Rightarrow> Configuration \<Rightarrow> (goerror option) cio" where
  "PatchConfigurationStatus E new base =
     call (\<lambda>tr. apiPatchConfigurationStatus E tr new base) (EvPatchConfigurationStatus new base)"

definition PatchNode :: "env \<Rightarrow> Node \<Rightarrow> Node \<Rightarrow> (goerror option) cio" where
  "PatchNode E new base = call (\<lambda>tr. apiPatchNode E tr new base) (EvPatchNode new base)"

text \<open>\<^verbatim>\<open>Patch(ctx, obj, client.Apply, client.ForceOwnership, client.FieldOwner("kubeovn-operator"))\<close>.\<close>

definition ApplyObject :: "env \<Rightarrow> kobject \<Rightarrow> (goerror option) cio" where
  "ApplyObject E ob = call (\<lambda>tr. apiApply E tr ob) (EvApply ob)"

definition NewExecutorClient :: "env \<Rightarrow> Pod \<Rightarrow> (goerror option) cio" where
  "NewExecutorClient E p = call (\<lambda>tr. apiNewExecutor E tr p) (EvNewExecutor p)"

definition ExecPod :: "env \<Rightarrow> Pod \<Rightarrow> string \<Rightarrow> string list \<Rightarrow> (string \<times> string \<times> goerror option) cio" where
  "ExecPod E p c cmd = call (\<lambda>tr. apiExec E tr p c cmd) (EvExec p c cmd)"

definition RecorderEvent :: "string \<Rightarrow> string \<Rightarrow> string \<Rightarrow> string \<Rightarrow> unit cio" where
  "RecorderEvent ob ty reason msg = call (\<lambda>tr. ()) (\<lambda>_. EvRecorderEvent ob ty reason msg)"

definition Now :: "env \<Rightarrow> int cio" where
  "Now E = call (\<lambda>tr. clockNow E tr) EvNow"

definition TemplateFuncs :: "env \<Rightarrow> funcmap cio" where
  "TemplateFuncs E = State (\<lambda>tr. (templateFuncs E tr, tr))"

section \<open>Third-party functions that only compute\<close>

record libs =
  libConvertSelectorToLabelsMap :: "string \<Rightarrow> goerror + labelset"
  libLabelsParse :: "string \<Rightarrow> goerror + selector"
  libContainsFinalizer :: "string list \<Rightarrow> string \<Rightarrow> bool"
  libAddFinalizer :: "string list \<Rightarrow> string \<Rightarrow> string list"
  libRemoveFinalizer :: "string list \<Rightarrow> string \<Rightarrow> string list"
  libSetControllerReference :: "owner \<Rightarrow> kobject \<Rightarrow> goerror + kobject"
  libToUnstructured :: "kobject \<Rightarrow> goerror + kobject"
  libYamlUnmarshal :: "objkind \<Rightarrow> string \<Rightarrow> goerror + kobject"
  libYamlSpec :: "string \<Rightarrow> goerror + ConfigurationSpec"
  libSetNestedField :: "gval \<Rightarrow> gval \<Rightarrow> string list \<Rightarrow> goerror + gval"
  libNestedFieldCopy :: "gval \<Rightarrow> string list \<Rightarrow> gval"

text \<open>The documented behaviour of \<^verbatim>\<open>controllerutil\<close>'s finalizer functions.\<close>

definition finalizer_laws :: "libs \<Rightarrow> bool" where
  "finalizer_laws L \<longleftrightarrow>
     (\<forall>fs f. libContainsFinalizer L fs f \<longleftrightarrow> f \<in> set fs) \<and>
     (\<forall>fs f. set (libAddFinalizer L fs f) = insert f (set fs)) \<and>
     (\<forall>fs f. set (libRemoveFinalizer L fs f) = set fs - {f})"

text \<open>
  The documented behaviour of \<^verbatim>\<open>controllerutil.SetControllerReference\<close>: a reference to the owner, with
  the owner's type, is added to the object.
\<close>

fun owner_reference :: "owner \<Rightarrow> OwnerReference" where
  "owner_reference (OwnerConfig c) = \<lparr>OwnerAPIVersion = APIVersion, OwnerKind = Kind, OwnerName = Name (Meta c)\<rparr>"
| "owner_reference (OwnerNamespace ns) = \<lparr>OwnerAPIVersion = ''v1'', OwnerKind = ''Namespace'', OwnerName = Name ns\<rparr>"

definition owner_reference_laws :: "libs \<Rightarrow> bool" where
  "owner_reference_laws L \<longleftrightarrow>
     (\<forall>ow ob ob'. libSetControllerReference L ow ob = Inr ob' \<longrightarrow>
        owner_reference ow \<in> set (OwnerReferences (ObjMeta ob')) \<and>
        set (OwnerReferences (ObjMeta ob')) \<subseteq> insert (owner_reference ow) (set (OwnerReferences (ObjMeta ob))))"

text \<open>
  \<^verbatim>\<open>unstructured.SetNestedField\<close> stores a value under a path of map keys;
  \<^verbatim>\<open>unstructured.NestedFieldCopy\<close> reads one, and yields nil where the path leads nowhere. Only
  paths whose inner nodes are maps are used, so the laws are stated for these.
\<close>

fun has_map_path :: "gval \<Rightarrow> string list \<Rightarrow> bool" where
  "has_map_path v [] = False"
| "has_map_path (VMap m) [k] = True"
| "has_map_path (VMap m) (k # ks) = (case map_of m k of Some w \<Rightarrow> has_map_path w ks | None \<Rightarrow> False)"
| "has_map_path v ks = False"

fun path_value :: "gval \<Rightarrow> string list \<Rightarrow> gval option" where
  "path_value v [] = Some v"
| "path_value (VMap m) (k # ks) = (case map_of m k of Some w \<Rightarrow> path_value w ks | None \<Rightarrow> None)"
| "path_value v (k # ks) = None"

fun map_set :: "(string \<times> 'v) list \<Rightarrow> string \<Rightarrow> 'v \<Rightarrow> (string \<times> 'v) list" where
  "map_set [] k v = [(k, v)]"
| "map_set ((k', v') # kvs) k v = (if k' = k then (k, v) # kvs else (k', v') # map_set kvs k v)"

fun set_path :: "gval \<Rightarrow> gval \<Rightarrow> string list \<Rightarrow> gval" where
  "set_path (VMap m) x [k] = VMap (map_set m k x)"
| "set_path (VMap m) x (k # ks) =
     VMap (map_set m k (set_path (case map_of m k of Some w \<Rightarrow> w | None \<Rightarrow> VNil) x ks))"
| "set_path v x ks = v"

definition nested_field_laws :: "libs \<Rightarrow> bool" where
  "nested_field_laws L \<longleftrightarrow>
     (\<forall>v x ks. has_map_path v ks \<longrightarrow> libSetNestedField L v x ks = Inr (set_path v x ks)) \<and>
     (\<forall>v ks. libNestedFieldCopy L v ks = (case path_value v ks of Some w \<Rightarrow> w | None \<Rightarrow> VNil))"

section \<open>A reference instance of the libraries\<close>

text \<open>Used by the witnesses only: it shows that the hypotheses can hold together.\<close>

definition ref_libs :: libs where
  "ref_libs = \<lparr>
     libConvertSelectorToLabelsMap = (\<lambda>s. case strings_Split s (CHR ''='') of
         [k, v] \<Rightarrow> Inr [(k, v)] | _ \<Rightarrow> Inl (EMsg ''invalid selector'')),
     libLabelsParse = (\<lambda>s. Inr s),
     libContainsFinalizer = (\<lambda>fs f. List.member fs f),
     libAddFinalizer = (\<lambda>fs f. if List.member fs f then fs else fs @ [f]),
     libRemoveFinalizer = (\<lambda>fs f. filter (\<lambda>g. g \<noteq> f) fs),
     libSetControllerReference = (\<lambda>ow ob. Inr ob),
     libToUnstructured = Inr,
     libYamlUnmarshal = (\<lambda>k s. Inr \<lparr>ObjKind = k, ObjMeta = \<lparr>Name = ''object'', Namespace = ''kube-system'',
         Generation = 0, DeletionTimestamp = None, Finalizers = [], OwnerReferences = []\<rparr>,
         ObjCRD = None, ObjBody = s\<rparr>),
     libYamlSpec = (\<lambda>s. Inl (EMsg ''yaml'')),
     libSetNestedField = (\<lambda>v x ks. Inr (set_path v x ks)),
     libNestedFieldCopy = (\<lambda>v ks. case path_value v ks of Some w \<Rightarrow> w | None \<Rightarrow> VNil)\<rparr>"

text \<open>An environment that finds nothing and accepts everything; the witnesses override its answers.\<close>

definition ref_env :: env where
  "ref_env = \<lparr>
     apiGetConfiguration = (\<lambda>_ _. Inl (EApi NotFound)),
     apiGetNode = (\<lambda>_ _. Inl (EApi NotFound)),
     apiGetNamespace = (\<lambda>_ _. Inl (EApi NotFound)),
     apiGetSecret = (\<lambda>_ _. Inl (EApi NotFound)),
     apiGetConfigMap = (\<lambda>_ _. Inl (EApi NotFound)),
     apiListNodes = (\<lambda>_ _. Inl (EApi NotFound)),
     apiListPods = (\<lambda>_ _ _. Inl (EApi NotFound)),
     apiIsNamespaced = (\<lambda>_ _. Inl (EApi NotFound)),
     apiNewDynamicClient = (\<lambda>_. None),
     apiListDynamic = (\<lambda>_ _. Inl (EApi NotFound)),
     apiDeleteDynamic = (\<lambda>_ _ _ _. None),
     apiCreateNamespace = (\<lambda>_ _. None),
     apiDeleteNamespace = (\<lambda>_ _. None),
     apiCreateConfiguration = (\<lambda>_ _. None),
     apiPatchConfiguration = (\<lambda>_ _ _. None),
     apiPatchConfigurationStatus = (\<lambda>_ _ _. None),
     apiPatchNode = (\<lambda>_ _ _. None),
     apiApply = (\<lambda>_ _. None),
     apiNewExecutor = (\<lambda>_ _. None),
     apiExec = (\<lambda>_ _ _ _. ('''', '''', None)),
     clockNow = (\<lambda>_. 0),
     templateFuncs = (\<lambda>_ _. None)\<rparr>"

section \<open>Rules for the calls\<close>

lemma ref_libs_finalizer_laws: "finalizer_laws ref_libs"
  by (auto simp: finalizer_laws_def ref_libs_def)

lemma ref_libs_nested_field_laws: "nested_field_laws ref_libs"
  by (simp add: nested_field_laws_def ref_libs_def)

lemma finalizer_lawsD:
  assumes "finalizer_laws L"
  shows "libContainsFinalizer L fs f \<longleftrightarrow> f \<in> set fs"
    and "set (libAddFinalizer L fs f) = insert f (set fs)"
    and "set (libRemoveFinalizer L fs f) = set fs - {f}"
  using assms by (auto simp: finalizer_laws_def)

lemma map_of_map_set [simp]: "map_of (map_set m k v) j = (if j = k then Some v else map_of m j)"
  by (induction m) auto

lemmas call_defs = GetConfiguration_def GetNode_def GetNamespaceObj_def GetSecret_def GetConfigMap_def
  ListNodes_def ListPods_def IsObjectNamespaced_def NewDynamicClient_def ListDynamic_def DeleteDynamic_def
  CreateNamespace_def DeleteNamespace_def CreateConfiguration_def PatchConfiguration_def
  PatchConfigurationStatus_def PatchNode_def ApplyObject_def NewExecutorClient_def ExecPod_def
  RecorderEvent_def Now_def

lemma run_TemplateFuncs [simp]: "run_state (TemplateFuncs E) tr = (templateFuncs E tr, tr)"
  by (simp add: TemplateFuncs_def)

lemma wp_TemplateFuncs [wp_simps]: "wp (TemplateFuncs E) Q tr = Q (templateFuncs E tr) tr"
  by (simp add: wp_def)

lemma emits_TemplateFuncs [emits_rules]: "emits P (TemplateFuncs E)"
  by (simp add: emits_def)

lemma calls_TemplateFuncs_bind [simp]:
  "calls (State_Monad.bind (TemplateFuncs E) f) tr = calls (f (templateFuncs E tr)) tr"
  "result (State_Monad.bind (TemplateFuncs E) f) tr = result (f (templateFuncs E tr)) tr"
  by (simp_all add: calls_def result_def TemplateFuncs_def)

lemma obeys_TemplateFuncs [obeys_rules]: "(\<And>tr. Q (templateFuncs E tr) acc) \<Longrightarrow> obeys (TemplateFuncs E) acc Q"
  by (simp add: obeys_def)

end
