(* ===== verification/Templates_Small.thy ===== *)
theory Templates_Small
  imports Go_Template
begin

text \<open>
  The short templates of \<^verbatim>\<open>internal/templates\<close>: secrets, service accounts, roles, bindings, config maps, services, the validating webhook, and the three clean-up scripts of \<^verbatim>\<open>cleanup.go\<close>.
  Each constant is the Go string constant of the same name as template tokens: text by source lines, actions
  with their trim markers. A constant of more than 140 lines is given in parts.
\<close>

section \<open>\<^verbatim>\<open>cleanup.go\<close>\<close>

definition CleanupNBDB :: "tok list" where
  \<open>CleanupNBDB = [
Txt [''export nbstatus=$(ovs-appctl -t /var/run/ovn/ovnnb_db.ctl cluster/status OVN_Northbound)'',
''echo "current northbound status"'',
''echo "$nbstatus"'',
''echo "searching for node ''],
Act False False (Pipe [CArg (AField [''NodeAddress''])]),
Txt [''"'',
''nodeID=$(ovs-appctl -t /var/run/ovn/ovnnb_db.ctl cluster/status OVN_Northbound | grep '' @ [CHR 0x27]],
Act False False (Pipe [CArg (AField [''NodeAddress''])]),
Txt [[CHR 0x27] @ '' | awk '{print $1}')'',
''if [ -n "$nodeID" ]'',
''then'',
''  echo "removing node with id $nodeID"'',
''  ovs-appctl -t /var/run/ovn/ovnnb_db.ctl cluster/kick OVN_Northbound $nodeID'',
''  echo "removed node id $nodeID with address ''],
Act False False (Pipe [CArg (AField [''NodeAddress''])]),
Txt [''"'',
''  echo "current northbound status"'',
''  ovs-appctl -t /var/run/ovn/ovnnb_db.ctl cluster/status OVN_Northbound'',
''fi'']]\<close>

definition CleanupSBDB :: "tok list" where
  \<open>CleanupSBDB = [
Txt [''export sbstatus=$(ovs-appctl -t /var/run/ovn/ovnsb_db.ctl cluster/status OVN_Southbound)'',
''echo "current southbound status"'',
''echo "$sbstatus"'',
''nodeID=$(ovs-appctl -t /var/run/ovn/ovnsb_db.ctl cluster/status OVN_Southbound| grep '' @ [CHR 0x27]],
Act False False (Pipe [CArg (AField [''NodeAddress''])]),
Txt [[CHR 0x27] @ '' | awk '{print $1}')'',
''if [ -n "$nodeID" ]'',
''then'',
''  ovs-appctl -t /var/run/ovn/ovnsb_db.ctl cluster/kick OVN_Southbound $nodeID'',
''  echo "removed node id $nodeID with address ''],
Act False False (Pipe [CArg (AField [''NodeAddress''])]),
Txt [''"'',
''  echo "current southbound status"'',
''  ovs-appctl -t /var/run/ovn/ovnsb_db.ctl cluster/status OVN_Southbound'',
''fi'']]\<close>

definition CleanupChassis :: "tok list" where
  \<open>CleanupChassis = [
Txt [''chassis=$(ovn-sbctl --columns=name find  chassis hostname=''],
Act False False (Pipe [CArg (AField [''Hostname''])]),
Txt ['' | awk -F ":" '{print $2}' | tr -d '"')'',
''if [ -n "$chassis" ]'',
''then'',
''  ovn-sbctl chassis-del $chassis'',
''fi'',
''ovn-sbctl show'']]\<close>

section \<open>\<^verbatim>\<open>configmaps.go\<close>\<close>

definition ovn_vpc_nat_config :: "tok list" where
  \<open>ovn_vpc_nat_config = [
Txt [''kind: ConfigMap'',
''apiVersion: v1'',
''metadata:'',
''  name: ovn-vpc-nat-config'',
''  namespace: ''],
Act False False (Pipe [CArg (AField [''Values'', ''namespace''])]),
Txt ['''',
''  annotations:'',
''    kubernetes.io/description: |'',
''      kube-ovn vpc-nat common config'',
''data:'',
''  image: ''],
Act False False (Pipe [CArg (AField [''Values'', ''global'', ''registry'', ''address''])]),
Txt [''/''],
Act False False (Pipe [CArg (AField [''Values'', ''global'', ''images'', ''natgateway'', ''repository''])]),
Txt ['':''],
Act False False (Pipe [CFun ''or'' [AField [''Values'', ''global'', ''images'', ''natgateway'', ''tag''], AField [''Values'', ''global'', ''images'', ''kubeovn'', ''tag'']]])]\<close>

definition ovn_vpc_nat_gw_config :: "tok list" where
  \<open>ovn_vpc_nat_gw_config = [
Txt [''kind: ConfigMap'',
''apiVersion: v1'',
''metadata:'',
''  name: ovn-vpc-nat-gw-config'',
''  namespace: ''],
Act False False (Pipe [CArg (AField [''Values'', ''namespace''])]),
Txt ['''',
''data:'',
''  enable-vpc-nat-gw: "''],
Act False False (Pipe [CArg (AField [''Values'', ''components'', ''enableNATGateway''])]),
Txt [''"'']]\<close>

definition ConfigMapList :: "tok list list" where
  "ConfigMapList = [ovn_vpc_nat_config,
     ovn_vpc_nat_gw_config]"

section \<open>\<^verbatim>\<open>roles.go\<close>\<close>

definition system_ovn_ipsec_role :: "tok list" where
  \<open>system_ovn_ipsec_role = [
Txt [''apiVersion: rbac.authorization.k8s.io/v1'',
''kind: Role'',
''metadata:'',
''  name: secret-reader-ovn-ipsec'',
''  namespace: ''],
Act False False (Pipe [CArg (AField [''Values'', ''namespace''])]),
Txt ['''',
''rules:'',
''- apiGroups:'',
''    - ""'',
''  resources:'',
''    - "secrets"'',
''  resourceNames:'',
''    - "ovn-ipsec-ca"'',
''  verbs:'',
''    - "get"'',
''    - "list"'',
''    - "watch"'']]\<close>

definition RoleList :: "tok list list" where
  "RoleList = [system_ovn_ipsec_role]"

section \<open>\<^verbatim>\<open>secrets.go\<close>\<close>

definition kube_ovn_tls_secret :: "tok list" where
  \<open>kube_ovn_tls_secret = [
Act True False (If [CArg (AField [''Values'', ''networking'', ''enableSSL''])]),
Txt ['''',
''''],
Act True True (Decl ''$cn'' [CArg (AStr ''ovn'')]),
Txt ['''',
''''],
Act True True (Decl ''$ca'' [CFun ''genCA'' [AStr ''ovn-ca'', ANum 3650]]),
Txt ['''',
''---'',
''apiVersion: v1'',
''kind: Secret'',
''metadata:'',
''  name: kube-ovn-tls'',
''  namespace: ''],
Act False False (Pipe [CArg (AField [''Values'', ''namespace''])]),
Txt ['''',
''data:'',
''''],
Act True False (Decl ''$existingSecret'' [CFun ''lookup'' [AStr ''v1'', AStr ''Secret'', AField [''Values'', ''namespace''], AStr ''kube-ovn-tls'']]),
Txt ['''',
''  ''],
Act True False (If [CArg (AVar ''$existingSecret'' [])]),
Txt ['''',
''  cacert: ''],
Act False False (Pipe [CFun ''index'' [AVar ''$existingSecret'' [''data''], AStr ''cacert'']]),
Txt ['''',
''  cert: ''],
Act False False (Pipe [CFun ''index'' [AVar ''$existingSecret'' [''data''], AStr ''cert'']]),
Txt ['''',
''  key: ''],
Act False False (Pipe [CFun ''index'' [AVar ''$existingSecret'' [''data''], AStr ''key'']]),
Txt ['''',
''  ''],
Act True False (Else),
Txt ['''',
''  ''],
Act True False (With [CFun ''genSignedCert'' [AVar ''$cn'' [], ANil, ANil, ANum 3650, AVar ''$ca'' []]]),
Txt ['''',
''  cacert: ''],
Act False False (Pipe [CFun ''b64enc'' [AVar ''$ca'' [''Cert'']]]),
Txt ['''',
''  cert: ''],
Act False False (Pipe [CFun ''b64enc'' [AField [''Cert'']]]),
Txt ['''',
''  key: ''],
Act False False (Pipe [CFun ''b64enc'' [AField [''Key'']]]),
Txt ['''',
''  ''],
Act True False (End),
Txt ['''',
''  ''],
Act True False (End),
Txt ['''',
''''],
Act True False (End)]\<close>

definition SecretList :: "tok list list" where
  "SecretList = [kube_ovn_tls_secret]"

section \<open>\<^verbatim>\<open>serviceaccounts.go\<close>\<close>

definition ovn_sa_template :: "tok list" where
  \<open>ovn_sa_template = [
Txt [''apiVersion: v1'',
''kind: ServiceAccount'',
''metadata:'',
''  name: ovn'',
''  namespace: ''],
Act False False (Pipe [CArg (AField [''Values'', ''namespace''])]),
Txt ['''',
''automountServiceAccountToken: false'',
''''],
Act True False (If [CArg (AField [''Values'', ''global'', ''registry'', ''imagePullSecrets''])]),
Txt ['''',
''imagePullSecrets:'',
''''],
Act True False (Range ''$index'' ''$secret'' [CArg (AField [''Values'', ''global'', ''registry'', ''imagePullSecrets''])]),
Txt ['''',
''''],
Act True False (If [CArg (AVar ''$secret'' [])]),
Txt ['''',
''- name: ''],
Act False False (Pipe [CArg (AVar ''$secret'' []), CFun ''quote'' []]),
Txt ['''',
''''],
Act True False (End),
Txt ['''',
''''],
Act True False (End),
Txt ['''',
''''],
Act True False (End),
Txt ['''',
'''']]\<close>

definition ovn_ovs_template :: "tok list" where
  \<open>ovn_ovs_template = [
Txt [''apiVersion: v1'',
''kind: ServiceAccount'',
''metadata:'',
''  name: ovn-ovs'',
''  namespace: ''],
Act False False (Pipe [CArg (AField [''Values'', ''namespace''])]),
Txt ['''',
''automountServiceAccountToken: false'',
''''],
Act True False (If [CArg (AField [''Values'', ''global'', ''registry'', ''imagePullSecrets''])]),
Txt ['''',
''imagePullSecrets:'',
''''],
Act True False (Range ''$index'' ''$secret'' [CArg (AField [''Values'', ''global'', ''registry'', ''imagePullSecrets''])]),
Txt ['''',
''''],
Act True False (If [CArg (AVar ''$secret'' [])]),
Txt ['''',
''- name: ''],
Act False False (Pipe [CArg (AVar ''$secret'' []), CFun ''quote'' []]),
Txt ['''',
''''],
Act True False (End),
Txt ['''',
''''],
Act True False (End),
Txt ['''',
''''],
Act True False (End)]\<close>

definition kube_ovn_cni :: "tok list" where
  \<open>kube_ovn_cni = [
Txt [''apiVersion: v1'',
''kind: ServiceAccount'',
''metadata:'',
''  name: kube-ovn-cni'',
''  namespace: ''],
Act False False (Pipe [CArg (AField [''Values'', ''namespace''])]),
Txt ['''',
''automountServiceAccountToken: false'',
''''],
Act True False (If [CArg (AField [''Values'', ''global'', ''registry'', ''imagePullSecrets''])]),
Txt ['''',
''imagePullSecrets:'',
''''],
Act True False (Range ''$index'' ''$secret'' [CArg (AField [''Values'', ''global'', ''registry'', ''imagePullSecrets''])]),
Txt ['''',
''''],
Act True False (If [CArg (AVar ''$secret'' [])]),
Txt ['''',
''- name: ''],
Act False False (Pipe [CArg (AVar ''$secret'' []), CFun ''quote'' []]),
Txt ['''',
''''],
Act True False (End),
Txt ['''',
''''],
Act True False (End),
Txt ['''',
''''],
Act True False (End)]\<close>

definition kube_ovn_app_template :: "tok list" where
  \<open>kube_ovn_app_template = [
Txt [''apiVersion: v1'',
''kind: ServiceAccount'',
''metadata:'',
''  name: kube-ovn-app'',
''  namespace: ''],
Act False False (Pipe [CArg (AField [''Values'', ''namespace''])]),
Txt ['''',
''automountServiceAccountToken: false'',
''''],
Act True False (If [CArg (AField [''Values'', ''global'', ''registry'', ''imagePullSecrets''])]),
Txt ['''',
''imagePullSecrets:'',
''''],
Act True False (Range ''$index'' ''$secret'' [CArg (AField [''Values'', ''global'', ''registry'', ''imagePullSecrets''])]),
Txt ['''',
''''],
Act True False (If [CArg (AVar ''$secret'' [])]),
Txt ['''',
''- name: ''],
Act False False (Pipe [CArg (AVar ''$secret'' []), CFun ''quote'' []]),
Txt ['''',
''''],
Act True False (End),
Txt ['''',
''''],
Act True False (End),
Txt ['''',
''''],
Act True False (End)]\<close>

definition ServiceAccountList :: "tok list list" where
  "ServiceAccountList = [ovn_sa_template,
     ovn_ovs_template,
     kube_ovn_cni,
     kube_ovn_app_template]"

section \<open>\<^verbatim>\<open>clusterrolebindings.go\<close>\<close>

definition system_ovn_clusterrolebinding :: "tok list" where
  \<open>system_ovn_clusterrolebinding = [
Txt [''apiVersion: rbac.authorization.k8s.io/v1'',
''kind: ClusterRoleBinding'',
''metadata:'',
''  name: ovn'',
''roleRef:'',
''  name: system:ovn'',
''  kind: ClusterRole'',
''  apiGroup: rbac.authorization.k8s.io'',
''subjects:'',
''  - kind: ServiceAccount'',
''    name: ovn'',
''    namespace: ''],
Act False False (Pipe [CArg (AField [''Values'', ''namespace''])])]\<close>

definition ovn_ovs_clusterrolebinding :: "tok list" where
  \<open>ovn_ovs_clusterrolebinding = [
Txt [''apiVersion: rbac.authorization.k8s.io/v1'',
''kind: ClusterRoleBinding'',
''metadata:'',
''  name: ovn-ovs'',
''roleRef:'',
''  name: system:ovn-ovs'',
''  kind: ClusterRole'',
''  apiGroup: rbac.authorization.k8s.io'',
''subjects:'',
''  - kind: ServiceAccount'',
''    name: ovn-ovs'',
''    namespace: ''],
Act False False (Pipe [CArg (AField [''Values'', ''namespace''])])]\<close>

definition system_kube_ovn_cni_clusterrolebinding :: "tok list" where
  \<open>system_kube_ovn_cni_clusterrolebinding = [
Txt [''apiVersion: rbac.authorization.k8s.io/v1'',
''kind: ClusterRoleBinding'',
''metadata:'',
''  name: kube-ovn-cni'',
''roleRef:'',
''  name: system:kube-ovn-cni'',
''  kind: ClusterRole'',
''  apiGroup: rbac.authorization.k8s.io'',
''subjects:'',
''  - kind: ServiceAccount'',
''    name: kube-ovn-cni'',
''    namespace: ''],
Act False False (Pipe [CArg (AField [''Values'', ''namespace''])])]\<close>

definition system_kube_ovn_app_clusterrolebinding :: "tok list" where
  \<open>system_kube_ovn_app_clusterrolebinding = [
Txt [''apiVersion: rbac.authorization.k8s.io/v1'',
''kind: ClusterRoleBinding'',
''metadata:'',
''  name: kube-ovn-app'',
''roleRef:'',
''  name: system:kube-ovn-app'',
''  kind: ClusterRole'',
''  apiGroup: rbac.authorization.k8s.io'',
''subjects:'',
''  - kind: ServiceAccount'',
''    name: kube-ovn-app'',
''    namespace: ''],
Act False False (Pipe [CArg (AField [''Values'', ''namespace''])])]\<close>

definition ClusterRoleBindingList :: "tok list list" where
  "ClusterRoleBindingList = [system_ovn_clusterrolebinding,
     ovn_ovs_clusterrolebinding,
     system_kube_ovn_cni_clusterrolebinding,
     system_kube_ovn_app_clusterrolebinding]"

section \<open>\<^verbatim>\<open>rolebindings.go\<close>\<close>

definition kube_ovn_app_rolebinding :: "tok list" where
  \<open>kube_ovn_app_rolebinding = [
Txt [''apiVersion: rbac.authorization.k8s.io/v1'',
''kind: RoleBinding'',
''metadata:'',
''  name: kube-ovn-app'',
''  namespace: ''],
Act False False (Pipe [CArg (AField [''Values'', ''namespace''])]),
Txt ['''',
''roleRef:'',
''  apiGroup: rbac.authorization.k8s.io'',
''  kind: Role'',
''  name: extension-apiserver-authentication-reader'',
''subjects:'',
''  - kind: ServiceAccount'',
''    name: kube-ovn-app'',
''    namespace: ''],
Act False False (Pipe [CArg (AField [''Values'', ''namespace''])])]\<close>

definition kube_ovn_cni_rolebinding :: "tok list" where
  \<open>kube_ovn_cni_rolebinding = [
Txt [''apiVersion: rbac.authorization.k8s.io/v1'',
''kind: RoleBinding'',
''metadata:'',
''  name: kube-ovn-cni'',
''  namespace: ''],
Act False False (Pipe [CArg (AField [''Values'', ''namespace''])]),
Txt ['''',
''roleRef:'',
''  apiGroup: rbac.authorization.k8s.io'',
''  kind: Role'',
''  name: extension-apiserver-authentication-reader'',
''subjects:'',
''  - kind: ServiceAccount'',
''    name: kube-ovn-cni'',
''    namespace: ''],
Act False False (Pipe [CArg (AField [''Values'', ''namespace''])])]\<close>

definition kube_ovn_cni_secret_reader_rolebinding :: "tok list" where
  \<open>kube_ovn_cni_secret_reader_rolebinding = [
Txt [''apiVersion: rbac.authorization.k8s.io/v1'',
''kind: RoleBinding'',
''metadata:'',
''  name: kube-ovn-cni-secret-reader'',
''  namespace: ''],
Act False False (Pipe [CArg (AField [''Values'', ''namespace''])]),
Txt ['''',
''subjects:'',
''  - kind: ServiceAccount'',
''    name: kube-ovn-cni'',
''    namespace: ''],
Act False False (Pipe [CArg (AField [''Values'', ''namespace''])]),
Txt ['''',
''roleRef:'',
''  kind: Role'',
''  name: secret-reader-ovn-ipsec'',
''  apiGroup: rbac.authorization.k8s.io'']]\<close>

definition ovn_rolebinding :: "tok list" where
  \<open>ovn_rolebinding = [
Txt [''apiVersion: rbac.authorization.k8s.io/v1'',
''kind: RoleBinding'',
''metadata:'',
''  name: ovn'',
''  namespace: ''],
Act False False (Pipe [CArg (AField [''Values'', ''namespace''])]),
Txt ['''',
''roleRef:'',
''  apiGroup: rbac.authorization.k8s.io'',
''  kind: Role'',
''  name: extension-apiserver-authentication-reader'',
''subjects:'',
''  - kind: ServiceAccount'',
''    name: ovn'',
''    namespace: ''],
Act False False (Pipe [CArg (AField [''Values'', ''namespace''])])]\<close>

definition ovn_ipsec_rolebinding :: "tok list" where
  \<open>ovn_ipsec_rolebinding = [
Txt [''apiVersion: rbac.authorization.k8s.io/v1'',
''kind: RoleBinding'',
''metadata:'',
''  name: kube-ovn-cni-secret-reader'',
''  namespace: ''],
Act False False (Pipe [CArg (AField [''Values'', ''namespace''])]),
Txt ['''',
''subjects:'',
''- kind: ServiceAccount'',
''  name: kube-ovn-cni'',
''  namespace: ''],
Act False False (Pipe [CArg (AField [''Values'', ''namespace''])]),
Txt ['''',
''roleRef:'',
''  kind: Role'',
''  name: secret-reader-ovn-ipsec'',
''  apiGroup: rbac.authorization.k8s.io'']]\<close>

definition RoleBindingList :: "tok list list" where
  "RoleBindingList = [kube_ovn_cni_rolebinding,
     kube_ovn_app_rolebinding,
     kube_ovn_cni_secret_reader_rolebinding,
     ovn_rolebinding,
     ovn_ipsec_rolebinding]"

section \<open>\<^verbatim>\<open>services.go\<close>\<close>

definition kube_ovn_controller_service :: "tok list" where
  \<open>kube_ovn_controller_service = [
Txt [''kind: Service'',
''apiVersion: v1'',
''metadata:'',
''  name: kube-ovn-controller'',
''  namespace: ''],
Act False False (Pipe [CArg (AField [''Values'', ''namespace''])]),
Txt ['''',
''  labels:'',
''    app: kube-ovn-controller'',
''spec:'',
''  selector:'',
''    app: kube-ovn-controller'',
''  ports:'',
''    - port: 10660'',
''      name: metrics'',
''  ''],
Act True False (If [CFun ''eq'' [AField [''Values'', ''networking'', ''netStack''], AStr ''dual_stack'']]),
Txt ['''',
''  ipFamilyPolicy: PreferDualStack'',
''  ''],
Act True False (End)]\<close>

definition kube_ovn_monitor_service :: "tok list" where
  \<open>kube_ovn_monitor_service = [
Txt [''kind: Service'',
''apiVersion: v1'',
''metadata:'',
''  name: kube-ovn-monitor'',
''  namespace: ''],
Act False False (Pipe [CArg (AField [''Values'', ''namespace''])]),
Txt ['''',
''  labels:'',
''    app: kube-ovn-monitor'',
''spec:'',
''  ports:'',
''    - name: metrics'',
''      port: 10661'',
''  type: ClusterIP'',
''  selector:'',
''    app: kube-ovn-monitor'',
''  sessionAffinity: None'',
''  ''],
Act True False (If [CFun ''eq'' [AField [''Values'', ''networking'', ''netStack''], AStr ''dual_stack'']]),
Txt ['''',
''  ipFamilyPolicy: PreferDualStack'',
''  ''],
Act True False (End)]\<close>

definition ovn_nb_service :: "tok list" where
  \<open>ovn_nb_service = [
Txt [''kind: Service'',
''apiVersion: v1'',
''metadata:'',
''  name: ovn-nb'',
''  namespace: ''],
Act False False (Pipe [CArg (AField [''Values'', ''namespace''])]),
Txt ['''',
''spec:'',
''  ports:'',
''    - name: ovn-nb'',
''      protocol: TCP'',
''      port: 6641'',
''      targetPort: 6641'',
''  type: ClusterIP'',
''  ''],
Act True False (If [CFun ''eq'' [AField [''Values'', ''networking'', ''NET_STACK''], AStr ''dual_stack'']]),
Txt ['''',
''  ipFamilyPolicy: PreferDualStack'',
''  ''],
Act True False (End),
Txt ['''',
''  selector:'',
''    app: ovn-central'',
''    ovn-nb-leader: "true"'',
''  sessionAffinity: None'']]\<close>

definition ovn_northd_service :: "tok list" where
  \<open>ovn_northd_service = [
Txt [''kind: Service'',
''apiVersion: v1'',
''metadata:'',
''  name: ovn-northd'',
''  namespace: ''],
Act False False (Pipe [CArg (AField [''Values'', ''namespace''])]),
Txt ['''',
''spec:'',
''  ports:'',
''    - name: ovn-northd'',
''      protocol: TCP'',
''      port: 6643'',
''      targetPort: 6643'',
''  type: ClusterIP'',
''  ''],
Act True False (If [CFun ''eq'' [AField [''Values'', ''networking'', ''NET_STACK''], AStr ''dual_stack'']]),
Txt ['''',
''  ipFamilyPolicy: PreferDualStack'',
''  ''],
Act True False (End),
Txt ['''',
''  selector:'',
''    app: ovn-central'',
''    ovn-northd-leader: "true"'',
''  sessionAffinity: None'']]\<close>

definition kube_ovn_cni_service :: "tok list" where
  \<open>kube_ovn_cni_service = [
Txt [''kind: Service'',
''apiVersion: v1'',
''metadata:'',
''  name: kube-ovn-cni'',
''  namespace: ''],
Act False False (Pipe [CArg (AField [''Values'', ''namespace''])]),
Txt ['''',
''  labels:'',
''    app: kube-ovn-cni'',
''spec:'',
''  selector:'',
''    app: kube-ovn-cni'',
''  ports:'',
''    - port: 10665'',
''      name: metrics'',
''  ''],
Act True False (If [CFun ''eq'' [AField [''Values'', ''networking'', ''NET_STACK''], AStr ''dual_stack'']]),
Txt ['''',
''  ipFamilyPolicy: PreferDualStack'',
''  ''],
Act True False (End)]\<close>

definition kube_ovn_pinger_service :: "tok list" where
  \<open>kube_ovn_pinger_service = [
Txt [''kind: Service'',
''apiVersion: v1'',
''metadata:'',
''  name: kube-ovn-pinger'',
''  namespace: ''],
Act False False (Pipe [CArg (AField [''Values'', ''namespace''])]),
Txt ['''',
''  labels:'',
''    app: kube-ovn-pinger'',
''spec:'',
''  selector:'',
''    app: kube-ovn-pinger'',
''  ports:'',
''    - port: 8080'',
''      name: metrics'',
''  ''],
Act True False (If [CFun ''eq'' [AField [''Values'', ''networking'', ''NET_STACK''], AStr ''dual_stack'']]),
Txt ['''',
''  ipFamilyPolicy: PreferDualStack'',
''  ''],
Act True False (End)]\<close>

definition ovn_sb_service :: "tok list" where
  \<open>ovn_sb_service = [
Txt [''kind: Service'',
''apiVersion: v1'',
''metadata:'',
''  name: ovn-sb'',
''  namespace: ''],
Act False False (Pipe [CArg (AField [''Values'', ''namespace''])]),
Txt ['''',
''spec:'',
''  ports:'',
''    - name: ovn-sb'',
''      protocol: TCP'',
''      port: 6642'',
''      targetPort: 6642'',
''  type: ClusterIP'',
''  ''],
Act True False (If [CFun ''eq'' [AField [''Values'', ''networking'', ''NET_STACK''], AStr ''dual_stack'']]),
Txt ['''',
''  ipFamilyPolicy: PreferDualStack'',
''  ''],
Act True False (End),
Txt ['''',
''  selector:'',
''    app: ovn-central'',
''    ovn-sb-leader: "true"'',
''  sessionAffinity: None'']]\<close>

definition kubeovn_webhook_service :: "tok list" where
  \<open>kubeovn_webhook_service = [
Txt [''kind: Service'',
''apiVersion: v1'',
''metadata:'',
''  name: kube-ovn-webhook'',
''  namespace: ''],
Act False False (Pipe [CArg (AField [''Values'', ''namespace''])]),
Txt ['''',
''spec:'',
''  ports:'',
''    - name: kube-ovn-webhook'',
''      protocol: TCP'',
''      port: 443'',
''      targetPort: 8443'',
''  type: ClusterIP'',
''  selector:'',
''    app: kube-ovn-webhook'',
''  sessionAffinity: None'',
''  '']]\<close>

definition ServicesList :: "tok list list" where
  "ServicesList = [kube_ovn_controller_service,
     kube_ovn_monitor_service,
     ovn_nb_service,
     ovn_northd_service,
     kube_ovn_cni_service,
     kube_ovn_pinger_service,
     ovn_sb_service,
     kubeovn_webhook_service]"

section \<open>\<^verbatim>\<open>validatingwebhookconfigurations.go\<close>\<close>

definition kubeovn_validatingwebhook_configuration :: "tok list" where
  \<open>kubeovn_validatingwebhook_configuration = [
Txt [''apiVersion: admissionregistration.k8s.io/v1'',
''kind: ValidatingWebhookConfiguration'',
''metadata:'',
''  name: kube-ovn-webhook'',
''webhooks:'',
''- name: pod-ip-validating.kube-ovn.io'',
''  rules:'',
''    - operations:'',
''        - CREATE'',
''      apiGroups:'',
''        - "apps"'',
''      apiVersions:'',
''        - v1'',
''      resources:'',
''        - deployments'',
''        - statefulsets'',
''        - daemonsets'',
''    - operations:'',
''        - CREATE'',
''      apiGroups:'',
''        - "batch"'',
''      apiVersions:'',
''        - v1'',
''      resources:'',
''        - jobs'',
''        - cronjobs'',
''    - operations:'',
''        - CREATE'',
''      apiGroups:'',
''        - ""'',
''      apiVersions:'',
''        - v1'',
''      resources:'',
''        - pods'',
''    - operations:'',
''        - CREATE'',
''        - UPDATE'',
''        - DELETE'',
''      apiGroups:'',
''        - "kubeovn.io"'',
''      apiVersions:'',
''        - v1'',
''      resources:'',
''        - subnets'',
''        - vpcs'',
''        - vips'',
''        - vpc-nat-gateways'',
''        - iptables-eips'',
''        - iptables-dnat-rules'',
''        - iptables-snat-rules'',
''        - iptables-fip-rules'',
''  objectSelector:'',
''    matchExpressions:'',
''      - key: app.kubernetes.io/name'',
''        operator: NotIn'',
''        values:'',
''          - kube-ovn-webhook     '',
''  failurePolicy: Ignore'',
''  admissionReviewVersions: ["v1", "v1beta1"]'',
''  sideEffects: None'',
''  timeoutSeconds: 5'',
''  clientConfig:'',
''    caBundle: ''],
Act False False (Pipe [CArg (AField [''Values'', ''caCert'']), CFun ''b64enc'' []]),
Txt ['''',
''    service:'',
''      namespace: kube-system'',
''      name: kube-ovn-webhook'',
''      path: /validating'',
''      port: 443'']]\<close>

definition ValidatingWebhookConfigurationList :: "tok list list" where
  "ValidatingWebhookConfigurationList = [kubeovn_validatingwebhook_configuration]"

end
