(* ===== verification/Templates_ClusterRoles.thy ===== *)
theory Templates_ClusterRoles
  imports Go_Template
begin

text \<open>
  The cluster roles of \<^verbatim>\<open>internal/templates/clusterroles.go\<close>.
  Each constant is the Go string constant of the same name as template tokens: text by source lines, actions
  with their trim markers. A constant of more than 140 lines is given in parts.
\<close>

section \<open>\<^verbatim>\<open>clusterroles.go\<close>\<close>

definition system_ovn_clusterrole :: "tok list" where
  \<open>system_ovn_clusterrole = [
Txt [''apiVersion: rbac.authorization.k8s.io/v1'',
''kind: ClusterRole'',
''metadata:'',
''  annotations:'',
''    rbac.authorization.k8s.io/system-only: "true"'',
''  name: system:ovn'',
''rules:'',
''  - apiGroups:'',
''      - "kubeovn.io"'',
''    resources:'',
''      - vpcs'',
''      - vpcs/status'',
''      - vpc-nat-gateways'',
''      - vpc-nat-gateways/status'',
''      - vpc-egress-gateways'',
''      - vpc-egress-gateways/status'',
''      - subnets'',
''      - subnets/status'',
''      - ippools'',
''      - ippools/status'',
''      - ips'',
''      - vips'',
''      - vips/status'',
''      - vlans'',
''      - vlans/status'',
''      - provider-networks'',
''      - provider-networks/status'',
''      - security-groups'',
''      - security-groups/status'',
''      - iptables-eips'',
''      - iptables-fip-rules'',
''      - iptables-dnat-rules'',
''      - iptables-snat-rules'',
''      - iptables-eips/status'',
''      - iptables-fip-rules/status'',
''      - iptables-dnat-rules/status'',
''      - iptables-snat-rules/status'',
''      - ovn-eips'',
''      - ovn-fips'',
''      - ovn-snat-rules'',
''      - ovn-eips/status'',
''      - ovn-fips/status'',
''      - ovn-snat-rules/status'',
''      - ovn-dnat-rules'',
''      - ovn-dnat-rules/status'',
''      - switch-lb-rules'',
''      - switch-lb-rules/status'',
''      - vpc-dnses'',
''      - vpc-dnses/status'',
''      - dnsnameresolvers'',
''      - dnsnameresolvers/status'',
''      - qos-policies'',
''      - qos-policies/status'',
''      - bgp-confs'',
''      - evpn-confs'',
''    verbs:'',
''      - create'',
''      - get'',
''      - list'',
''      - update'',
''      - patch'',
''      - watch'',
''      - delete'',
''  - apiGroups:'',
''      - ""'',
''    resources:'',
''      - pods'',
''      - namespaces'',
''    verbs:'',
''      - get'',
''      - list'',
''      - patch'',
''      - watch'',
''  - apiGroups:'',
''      - ""'',
''    resources:'',
''      - nodes'',
''    verbs:'',
''      - get'',
''      - list'',
''      - patch'',
''      - update'',
''      - watch'',
''  - apiGroups:'',
''      - ""'',
''    resources:'',
''      - pods/exec'',
''    verbs:'',
''      - create'',
''  - apiGroups:'',
''      - "k8s.cni.cncf.io"'',
''    resources:'',
''      - network-attachment-definitions'',
''    verbs:'',
''      - get'',
''      - list'',
''      - watch'',
''  - apiGroups:'',
''      - ""'',
''      - networking.k8s.io'',
''    resources:'',
''      - networkpolicies'',
''      - configmaps'',
''    verbs:'',
''      - get'',
''      - list'',
''      - watch'',
''  - apiGroups:'',
''      - apps'',
''    resources:'',
''      - daemonsets'',
''    verbs:'',
''      - get'',
''  - apiGroups:'',
''      - apps'',
''    resources:'',
''      - deployments'',
''      - deployments/scale'',
''    verbs:'',
''      - get'',
''      - list'',
''      - watch'',
''      - create'',
''      - update'',
''      - delete'',
''  - apiGroups:'',
''      - ""'',
''    resources:'',
''      - services'',
''      - services/status'',
''    verbs:'',
''      - get'',
''      - list'',
''      - update'',
''      - patch'',
''      - create'',
''      - delete'',
''      - watch'',
''  - apiGroups:'',
''      - ""'',
''    resources:'',
''      - endpoints'',
''    verbs:'',
''      - create'',
''      - update'',
''      - get'',
''      - list'',
''      - watch'',
''  - apiGroups:'',
''      - discovery.k8s.io'',
''    resources:'',
''      - endpointslices'',
''    verbs:'',
''      - get'',
''      - list'',
''      - watch'',
''  - apiGroups:'',
''      - apps'',
''    resources:'',
''      - statefulsets'',
''    verbs:'',
''      - get'',
''      - list'',
''      - create'',
''      - delete'',
''      - update'',
''  - apiGroups:'',
''      - ""'',
''    resources:'',
''      - events'',
''    verbs:'',
''      - create'',
''      - patch'',
''      - update'',
''  - apiGroups:'',
''      - coordination.k8s.io'',
''    resources:'',
''      - leases'',
''    verbs:'',
''      - create'',
''      - update'',
''      - patch'',
''      - get'',
''      - watch'',
''  - apiGroups:'',
''      - "kubevirt.io"'',
''    resources:'',
''      - virtualmachines'',
''      - virtualmachineinstances'',
''    verbs:'',
''      - get'',
''      - list'',
''      - watch'',
''  - apiGroups:'',
''      - "policy.networking.k8s.io"'',
''    resources:'',
''      - adminnetworkpolicies'',
''      - baselineadminnetworkpolicies'',
''      - clusternetworkpolicies'',
''    verbs:'',
''      - get'',
''      - list'',
''      - watch'',
''  - apiGroups:'',
''      - authentication.k8s.io'',
''    resources:'',
''      - tokenreviews'',
''    verbs:'',
''      - create'',
''  - apiGroups:'',
''      - authorization.k8s.io'',
''    resources:'',
''      - subjectaccessreviews'',
''    verbs:'',
''      - create'',
''  - apiGroups:'',
''      - "certificates.k8s.io"'',
''    resources:'',
''      - "certificatesigningrequests"'',
''    verbs:'',
''      - "get"'',
''      - "list"'',
''      - "watch"'',
''  - apiGroups:'',
''    - certificates.k8s.io'',
''    resources:'',
''    - certificatesigningrequests/status'',
''    - certificatesigningrequests/approval'',
''    verbs:'',
''    - update'',
''  - apiGroups:'',
''    - ""'',
''    resources:'',
''    - secrets'',
''    verbs:'',
''    - get'',
''    - create'',
''  - apiGroups:'',
''    - certificates.k8s.io'',
''    resourceNames:'',
''    - kubeovn.io/signer'',
''    resources:'',
''    - signers'',
''    verbs:'',
''    - approve'',
''    - sign'',
''  - apiGroups:'',
''      - kubevirt.io'',
''    resources:'',
''      - virtualmachineinstancemigrations'',
''    verbs:'',
''      - "list"'',
''      - "watch"'',
''      - "get"'',
''  - apiGroups:'',
''      - apiextensions.k8s.io'',
''    resources:'',
''      - customresourcedefinitions'',
''    verbs:'',
''      - get'']]\<close>

definition system_ovn_ovs_clusterrole :: "tok list" where
  \<open>system_ovn_ovs_clusterrole = [
Txt [''apiVersion: rbac.authorization.k8s.io/v1'',
''kind: ClusterRole'',
''metadata:'',
''  annotations:'',
''    rbac.authorization.k8s.io/system-only: "true"'',
''  name: system:ovn-ovs'',
''rules:'',
''  - apiGroups:'',
''      - ""'',
''    resources:'',
''      - pods'',
''    verbs:'',
''      - get'',
''      - patch'',
''  - apiGroups:'',
''      - ""'',
''    resources:'',
''      - services'',
''    verbs:'',
''      - get'',
''  - apiGroups:'',
''      - discovery.k8s.io'',
''    resources:'',
''      - endpointslices'',
''    verbs:'',
''      - list'',
''  - apiGroups:'',
''      - apps'',
''    resources:'',
''      - controllerrevisions'',
''    verbs:'',
''      - get'',
''      - list'']]\<close>

definition system_kube_ovn_cni_clusterrole :: "tok list" where
  \<open>system_kube_ovn_cni_clusterrole = [
Txt [''apiVersion: rbac.authorization.k8s.io/v1'',
''kind: ClusterRole'',
''metadata:'',
''  annotations:'',
''    rbac.authorization.k8s.io/system-only: "true"'',
''  name: system:kube-ovn-cni'',
''rules:'',
''  - apiGroups:'',
''      - "kubeovn.io"'',
''    resources:'',
''      - subnets'',
''      - vlans'',
''      - provider-networks'',
''    verbs:'',
''      - get'',
''      - list'',
''      - watch'',
''  - apiGroups:'',
''      - ""'',
''      - "kubeovn.io"'',
''    resources:'',
''      - ovn-eips'',
''      - ovn-eips/status'',
''      - nodes'',
''      - nodes/status'',
''      - pods'',
''      - services'',
''    verbs:'',
''      - get'',
''      - list'',
''      - patch'',
''      - watch'',
''  - apiGroups:'',
''      - "kubeovn.io"'',
''    resources:'',
''      - ips'',
''    verbs:'',
''      - get'',
''      - update'',
''  - apiGroups:'',
''      - ""'',
''    resources:'',
''      - events'',
''    verbs:'',
''      - create'',
''      - patch'',
''      - update'',
''  - apiGroups:'',
''      - ""'',
''    resources:'',
''      - configmaps'',
''    verbs:'',
''      - get'',
''      - list'',
''      - watch'',
''  - apiGroups:'',
''      - authentication.k8s.io'',
''    resources:'',
''      - tokenreviews'',
''    verbs:'',
''      - create'',
''  - apiGroups:'',
''      - authorization.k8s.io'',
''    resources:'',
''      - subjectaccessreviews'',
''    verbs:'',
''      - create'',
''  - apiGroups:'',
''      - "certificates.k8s.io"'',
''    resources:'',
''      - "certificatesigningrequests"'',
''    verbs:'',
''      - "create"'',
''      - "get"'',
''      - "list"'',
''      - "watch"'',
''      - "delete"'']]\<close>

definition system_kube_ovn_app_clusterrole :: "tok list" where
  \<open>system_kube_ovn_app_clusterrole = [
Txt [''apiVersion: rbac.authorization.k8s.io/v1'',
''kind: ClusterRole'',
''metadata:'',
''  annotations:'',
''    rbac.authorization.k8s.io/system-only: "true"'',
''  name: system:kube-ovn-app'',
''rules:'',
''  - apiGroups:'',
''      - ""'',
''    resources:'',
''      - pods'',
''      - nodes'',
''    verbs:'',
''      - get'',
''      - list'',
''  - apiGroups:'',
''      - apps'',
''    resources:'',
''      - daemonsets'',
''    verbs:'',
''      - get'',
''  - apiGroups:'',
''      - authentication.k8s.io'',
''    resources:'',
''      - tokenreviews'',
''    verbs:'',
''      - create'',
''  - apiGroups:'',
''      - authorization.k8s.io'',
''    resources:'',
''      - subjectaccessreviews'',
''    verbs:'',
''      - create'']]\<close>

definition ClusterRoleList :: "tok list list" where
  "ClusterRoleList = [system_ovn_clusterrole,
     system_ovn_ovs_clusterrole,
     system_kube_ovn_cni_clusterrole,
     system_kube_ovn_app_clusterrole]"

end
