(* ===== verification/Templates_Deployments.thy ===== *)
theory Templates_Deployments
  imports Go_Template
begin

text \<open>
  The deployments of \<^verbatim>\<open>internal/templates/deployments.go\<close>.
  Each constant is the Go string constant of the same name as template tokens: text by source lines, actions
  with their trim markers. A constant of more than 140 lines is given in parts.
\<close>

section \<open>\<^verbatim>\<open>deployments.go\<close>\<close>

definition ovn_central_deployment_part1 :: "tok list" where
  \<open>ovn_central_deployment_part1 = [
Txt [''kind: Deployment'',
''apiVersion: apps/v1'',
''metadata:'',
''  name: ovn-central'',
''  namespace: ''],
Act False False (Pipe [CArg (AField [''Values'', ''namespace''])]),
Txt ['''',
''  annotations:'',
''    kubernetes.io/description: |'',
''      OVN components: northd, nb and sb.'',
''spec:'',
''  replicas: ''],
Act False False (Pipe [CFun ''include'' [AStr ''kubeovn.nodeCount'', ADot]]),
Txt ['''',
''  strategy:'',
''    rollingUpdate:'',
''      maxSurge: 0'',
''      maxUnavailable: 1'',
''    type: RollingUpdate'',
''  selector:'',
''    matchLabels:'',
''      app: ovn-central'',
''  template:'',
''    metadata:'',
''      labels:'',
''        app: ovn-central'',
''        component: network'',
''        type: infra'',
''    spec:'',
''      tolerations:'',
''        - effect: NoSchedule'',
''          operator: Exists'',
''        - effect: NoExecute'',
''          operator: Exists'',
''        - key: CriticalAddonsOnly'',
''          operator: Exists'',
''      affinity:'',
''        podAntiAffinity:'',
''          requiredDuringSchedulingIgnoredDuringExecution:'',
''            - labelSelector:'',
''                matchLabels:'',
''                  app: ovn-central'',
''              topologyKey: kubernetes.io/hostname'',
''        ''],
Act True False (Pipe [CFun ''include'' [AStr ''kubeovn.masterNodeAffinity'', ADot], CFun ''nindent'' [ANum 8]]),
Txt [''      '',
''      priorityClassName: system-cluster-critical'',
''      serviceAccountName: ovn-ovs'',
''      automountServiceAccountToken: true'',
''      hostNetwork: true'',
''      securityContext:'',
''        seccompProfile:'',
''          type: RuntimeDefault'',
''      initContainers:'',
''        - name: hostpath-init'',
''          image: ''],
Act False False (Pipe [CArg (AField [''Values'', ''global'', ''registry'', ''address''])]),
Txt [''/''],
Act False False (Pipe [CArg (AField [''Values'', ''global'', ''images'', ''kubeovn'', ''repository''])]),
Txt ['':''],
Act False False (Pipe [CArg (AField [''Values'', ''global'', ''images'', ''kubeovn'', ''tag''])]),
Txt ['''',
''          imagePullPolicy: ''],
Act False False (Pipe [CArg (AField [''Values'', ''imagePullPolicy''])]),
Txt ['''',
''          command:'',
''            - sh'',
''            - -c'',
''            - "chown -R nobody: /var/run/ovn /etc/ovn /var/log/ovn"'',
''          securityContext:'',
''            allowPrivilegeEscalation: true'',
''            capabilities:'',
''              drop:'',
''                - ALL'',
''            privileged: true'',
''            runAsUser: 0'',
''          volumeMounts:'',
''            - mountPath: /var/run/ovn'',
''              name: host-run-ovn'',
''            - mountPath: /etc/ovn'',
''              name: host-config-ovn'',
''            - mountPath: /var/log/ovn'',
''              name: host-log-ovn'',
''      containers:'',
''        - name: ovn-central'',
''          image: ''],
Act False False (Pipe [CArg (AField [''Values'', ''global'', ''registry'', ''address''])]),
Txt [''/''],
Act False False (Pipe [CArg (AField [''Values'', ''global'', ''images'', ''kubeovn'', ''repository''])]),
Txt ['':''],
Act False False (Pipe [CArg (AField [''Values'', ''global'', ''images'', ''kubeovn'', ''tag''])]),
Txt ['''',
''          imagePullPolicy: ''],
Act False False (Pipe [CArg (AField [''Values'', ''imagePullPolicy''])]),
Txt ['''',
''          command:'',
''          - bash'',
''          - /kube-ovn/start-db.sh'',
''          securityContext:'',
''            runAsUser: ''],
Act False False (Pipe [CFun ''include'' [AStr ''kubeovn.runAsUser'', ADot]]),
Txt ['''',
''            privileged: false'',
''            capabilities:'',
''              add:'',
''                - NET_BIND_SERVICE'',
''                - SYS_NICE'',
''          env:'',
''            - name: ENABLE_SSL'',
''              value: "''],
Act False False (Pipe [CArg (AField [''Values'', ''networking'', ''enableSSL''])]),
Txt [''"'',
''            - name: NODE_IPS'',
''              value: "''],
Act False False (Pipe [CArg (AField [''Values'', ''MASTER_NODES'']), CFun ''default'' [APipe [CFun ''include'' [AStr ''kubeovn.nodeIPs'', ADot]]]]),
Txt [''"'',
''            - name: POD_IP'',
''              valueFrom:'',
''                fieldRef:'',
''                  fieldPath: status.podIP'',
''            - name: POD_NAME'',
''              valueFrom:'',
''                fieldRef:'',
''                  fieldPath: metadata.name'',
''            - name: POD_NAMESPACE'',
''              valueFrom:'',
''                fieldRef:'',
''                  fieldPath: metadata.namespace'',
''            - name: POD_IPS'',
''              valueFrom:'',
''                fieldRef:'',
''                  fieldPath: status.podIPs'',
''            - name: ENABLE_BIND_LOCAL_IP'',
''              value: "''],
Act True False (Pipe [CArg (AField [''Values'', ''components'', ''enableBindLocalIP''])]),
Txt [''"'',
''            - name: PROBE_INTERVAL'',
''              value: "''],
Act False False (Pipe [CArg (AField [''Values'', ''networking'', ''probeInterval''])]),
Txt [''"'',
''            - name: OVN_NORTHD_PROBE_INTERVAL'',
''              value: "''],
Act False False (Pipe [CArg (AField [''Values'', ''networking'', ''ovnNorthdProbeInterval''])]),
Txt [''"'',
''            - name: OVN_LEADER_PROBE_INTERVAL'',
''              value: "''],
Act False False (Pipe [CArg (AField [''Values'', ''networking'', ''ovnLeaderProbeInterval''])]),
Txt [''"'',
''            - name: OVN_NORTHD_N_THREADS'',
''              value: "''],
Act False False (Pipe [CArg (AField [''Values'', ''networking'', ''ovnNorthdNThreads''])]),
Txt [''"'',
''            - name: ENABLE_COMPACT'',
''              value: "''],
Act False False (Pipe [CArg (AField [''Values'', ''networking'', ''enableCompact''])]),
Txt [''"'',
''            - name: OVN_VERSION_COMPATIBILITY'',
''              value: '' @ [CHR 0x27]],
Act False False (Pipe [CFun ''include'' [AStr ''kubeovn.ovn.versionCompatibility'', ADot]]),
Txt [[CHR 0x27],
''          resources:'',
''            requests:'',
''              cpu: ''],
Act False False (Pipe [CFun ''index'' [AField [''Values''], AStr ''ovnCentral'', AStr ''requests'', AStr ''cpu'']]),
Txt ['''',
''              memory: ''],
Act False False (Pipe [CFun ''index'' [AField [''Values''], AStr ''ovnCentral'', AStr ''requests'', AStr ''memory'']]),
Txt ['''',
''            limits:'',
''              cpu: ''],
Act False False (Pipe [CFun ''index'' [AField [''Values''], AStr ''ovnCentral'', AStr ''limits'', AStr ''cpu'']]),
Txt ['''',
''              memory: ''],
Act False False (Pipe [CFun ''index'' [AField [''Values''], AStr ''ovnCentral'', AStr ''limits'', AStr ''memory'']]),
Txt ['''',
''              ephemeral-storage: ''],
Act False False (Pipe [CFun ''index'' [AField [''Values''], AStr ''ovnCentral'', AStr ''limits'', AStr ''ephemeralStorage'']])]\<close>

definition ovn_central_deployment_part2 :: "tok list" where
  \<open>ovn_central_deployment_part2 = [
Txt ['''',
''          volumeMounts:'',
''            - mountPath: /var/run/ovn'',
''              name: host-run-ovn'',
''            - mountPath: /etc/ovn'',
''              name: host-config-ovn'',
''            - mountPath: /var/log/ovn'',
''              name: host-log-ovn'',
''            - mountPath: /etc/localtime'',
''              name: localtime'',
''              readOnly: true'',
''            - mountPath: /var/run/tls'',
''              name: kube-ovn-tls'',
''          readinessProbe:'',
''            exec:'',
''              command:'',
''                - bash'',
''                - /kube-ovn/ovn-healthcheck.sh'',
''            periodSeconds: 15'',
''            timeoutSeconds: 45'',
''          livenessProbe:'',
''            exec:'',
''              command:'',
''                - bash'',
''                - /kube-ovn/ovn-healthcheck.sh'',
''            initialDelaySeconds: 30'',
''            periodSeconds: 15'',
''            failureThreshold: 5'',
''            timeoutSeconds: 45'',
''      nodeSelector:'',
''        kubernetes.io/os: "linux"'',
''      volumes:'',
''        - name: host-run-ovn'',
''          hostPath:'',
''            path: /run/ovn'',
''        - name: host-config-ovn'',
''          hostPath:'',
''            path: ''],
Act False False (Pipe [CArg (AField [''Values'', ''ovnDir''])]),
Txt ['''',
''        - name: host-log-ovn'',
''          hostPath:'',
''            path: ''],
Act False False (Pipe [CArg (AField [''Values'', ''logConfig'', ''logDir''])]),
Txt [''/ovn'',
''        - name: localtime'',
''          hostPath:'',
''            path: /etc/localtime'',
''        - name: kube-ovn-tls'',
''          secret:'',
''            optional: true'',
''            secretName: kube-ovn-tls'']]\<close>

definition ovn_central_deployment :: "tok list" where
  "ovn_central_deployment = ovn_central_deployment_part1 @ ovn_central_deployment_part2"

definition kube_ovn_controller_deployment_part1 :: "tok list" where
  \<open>kube_ovn_controller_deployment_part1 = [
Txt [''kind: Deployment'',
''apiVersion: apps/v1'',
''metadata:'',
''  name: kube-ovn-controller'',
''  namespace: ''],
Act False False (Pipe [CArg (AField [''Values'', ''namespace''])]),
Txt ['''',
''  annotations:'',
''    kubernetes.io/description: |'',
''      kube-ovn controller'',
''spec:'',
''  replicas: ''],
Act False False (Pipe [CFun ''include'' [AStr ''kubeovn.nodeCount'', ADot]]),
Txt ['''',
''  selector:'',
''    matchLabels:'',
''      app: kube-ovn-controller'',
''  strategy:'',
''    rollingUpdate:'',
''      maxSurge: 0%'',
''      maxUnavailable: 100%'',
''    type: RollingUpdate'',
''  template:'',
''    metadata:'',
''      labels:'',
''        app: kube-ovn-controller'',
''        component: network'',
''        type: infra'',
''    spec:'',
''      tolerations:'',
''        - effect: NoSchedule'',
''          operator: Exists'',
''        - key: CriticalAddonsOnly'',
''          operator: Exists'',
''      affinity:'',
''        nodeAffinity:'',
''          preferredDuringSchedulingIgnoredDuringExecution:'',
''            - preference:'',
''                matchExpressions:'',
''                  - key: "ovn.kubernetes.io/ic-gw"'',
''                    operator: NotIn'',
''                    values:'',
''                      - "true"'',
''              weight: 100'',
''        podAntiAffinity:'',
''          requiredDuringSchedulingIgnoredDuringExecution:'',
''            - labelSelector:'',
''                matchLabels:'',
''                  app: kube-ovn-controller'',
''              topologyKey: kubernetes.io/hostname'',
''      priorityClassName: system-cluster-critical'',
''      serviceAccountName: ovn'',
''      automountServiceAccountToken: true'',
''      hostNetwork: true'',
''      securityContext:'',
''        seccompProfile:'',
''          type: RuntimeDefault'',
''      initContainers:'',
''        - name: hostpath-init'',
''          image: ''],
Act False False (Pipe [CArg (AField [''Values'', ''global'', ''registry'', ''address''])]),
Txt [''/''],
Act False False (Pipe [CArg (AField [''Values'', ''global'', ''images'', ''kubeovn'', ''repository''])]),
Txt ['':''],
Act False False (Pipe [CArg (AField [''Values'', ''global'', ''images'', ''kubeovn'', ''tag''])]),
Txt ['''',
''          imagePullPolicy: ''],
Act False False (Pipe [CArg (AField [''Values'', ''imagePullPolicy''])]),
Txt ['''',
''          command:'',
''            - sh'',
''            - -c'',
''            - "chown -R nobody: /var/log/kube-ovn"'',
''          securityContext:'',
''            allowPrivilegeEscalation: true'',
''            capabilities:'',
''              drop:'',
''                - ALL'',
''            privileged: true'',
''            runAsUser: 0'',
''          volumeMounts:'',
''            - name: kube-ovn-log'',
''              mountPath: /var/log/kube-ovn'',
''      containers:'',
''        - name: kube-ovn-controller'',
''          image: ''],
Act False False (Pipe [CArg (AField [''Values'', ''global'', ''registry'', ''address''])]),
Txt [''/''],
Act False False (Pipe [CArg (AField [''Values'', ''global'', ''images'', ''kubeovn'', ''repository''])]),
Txt ['':''],
Act False False (Pipe [CArg (AField [''Values'', ''global'', ''images'', ''kubeovn'', ''tag''])]),
Txt ['''',
''          imagePullPolicy: ''],
Act False False (Pipe [CArg (AField [''Values'', ''imagePullPolicy''])]),
Txt ['''',
''          args:'',
''          - /kube-ovn/start-controller.sh'',
''          - --non-primary-cni-mode=''],
Act False False (Pipe [CArg (AField [''Values'', ''cniConf'', ''nonPrimaryCNI''])]),
Txt ['''',
''          - --default-ls=''],
Act False False (Pipe [CArg (AField [''Values'', ''networking'', ''defaultSubnet''])]),
Txt ['''',
''          - --default-cidr='',
''          ''],
Act True True (If [CFun ''eq'' [AField [''Values'', ''networking'', ''netStack''], AStr ''dual_stack'']]),
Txt ['''',
''          ''],
Act False False (Pipe [CArg (AField [''Values'', ''dualStack'', ''podCIDR''])]),
Txt ['''',
''          ''],
Act True True (ElseIf [CFun ''eq'' [AField [''Values'', ''networking'', ''netStack''], AStr ''ipv4'']]),
Txt ['''',
''          ''],
Act False False (Pipe [CArg (AField [''Values'', ''ipv4'', ''podCIDR''])]),
Txt ['''',
''          ''],
Act True True (ElseIf [CFun ''eq'' [AField [''Values'', ''networking'', ''netStack''], AStr ''ipv6'']]),
Txt ['''',
''          ''],
Act False False (Pipe [CArg (AField [''Values'', ''ipv6'', ''podCIDR''])]),
Txt ['''',
''          ''],
Act True False (End),
Txt ['''',
''          - --default-gateway='',
''          ''],
Act True True (If [CFun ''eq'' [AField [''Values'', ''networking'', ''netStack''], AStr ''dual_stack'']]),
Txt ['''',
''          ''],
Act False False (Pipe [CArg (AField [''Values'', ''dualStack'', ''podGateway''])]),
Txt ['''',
''          ''],
Act True True (ElseIf [CFun ''eq'' [AField [''Values'', ''networking'', ''netStack''], AStr ''ipv4'']]),
Txt ['''',
''          ''],
Act False False (Pipe [CArg (AField [''Values'', ''ipv4'', ''podGateway''])]),
Txt ['''',
''          ''],
Act True True (ElseIf [CFun ''eq'' [AField [''Values'', ''networking'', ''netStack''], AStr ''ipv6'']]),
Txt ['''',
''          ''],
Act False False (Pipe [CArg (AField [''Values'', ''ipv6'', ''podGateway''])]),
Txt ['''',
''          ''],
Act True False (End),
Txt ['''',
''          - --default-gateway-check=''],
Act True False (Pipe [CArg (AField [''Values'', ''components'', ''checkGateway''])]),
Txt ['''',
''          - --default-logical-gateway=''],
Act True False (Pipe [CArg (AField [''Values'', ''components'', ''logicalGateway''])]),
Txt ['''',
''          - --default-u2o-interconnection=''],
Act True False (Pipe [CArg (AField [''Values'', ''components'', ''u2oInterconnection''])]),
Txt ['''',
''          - --default-exclude-ips=''],
Act True False (Pipe [CArg (AField [''Values'', ''networking'', ''excludeIPS'']), CFun ''default'' [AStr '''']]),
Txt ['''',
''          - --cluster-router=''],
Act False False (Pipe [CArg (AField [''Values'', ''networking'', ''defaultVPC''])]),
Txt ['''',
''          - --node-switch=''],
Act False False (Pipe [CArg (AField [''Values'', ''networking'', ''nodeSubnet''])]),
Txt ['''',
''          - --node-switch-cidr='',
''          ''],
Act True True (If [CFun ''eq'' [AField [''Values'', ''networking'', ''netStack''], AStr ''dual_stack'']]),
Txt ['''',
''          ''],
Act False False (Pipe [CArg (AField [''Values'', ''dualStack'', ''joinCIDR''])]),
Txt ['''',
''          ''],
Act True True (ElseIf [CFun ''eq'' [AField [''Values'', ''networking'', ''netStack''], AStr ''ipv4'']]),
Txt ['''',
''          ''],
Act False False (Pipe [CArg (AField [''Values'', ''ipv4'', ''joinCIDR''])]),
Txt ['''',
''          ''],
Act True True (ElseIf [CFun ''eq'' [AField [''Values'', ''networking'', ''netStack''], AStr ''ipv6'']]),
Txt ['''',
''          ''],
Act False False (Pipe [CArg (AField [''Values'', ''ipv6'', ''joinCIDR''])]),
Txt ['''',
''          ''],
Act True False (End),
Txt ['''',
''          - --service-cluster-ip-range='',
''          ''],
Act True True (If [CFun ''eq'' [AField [''Values'', ''networking'', ''netStack''], AStr ''dual_stack'']]),
Txt ['''',
''          ''],
Act False False (Pipe [CArg (AField [''Values'', ''dualStack'', ''serviceCIDR''])]),
Txt ['''',
''          ''],
Act True True (ElseIf [CFun ''eq'' [AField [''Values'', ''networking'', ''netStack''], AStr ''ipv4'']]),
Txt ['''',
''          ''],
Act False False (Pipe [CArg (AField [''Values'', ''ipv4'', ''serviceCIDR''])]),
Txt ['''',
''          ''],
Act True True (ElseIf [CFun ''eq'' [AField [''Values'', ''networking'', ''netStack''], AStr ''ipv6'']]),
Txt ['''',
''          ''],
Act False False (Pipe [CArg (AField [''Values'', ''ipv6'', ''serviceCIDR''])]),
Txt ['''',
''          ''],
Act True False (End),
Txt ['''',
''          - --network-type=''],
Act True False (Pipe [CArg (AField [''Values'', ''networking'', ''networkType''])]),
Txt ['''',
''          - --default-provider-name=''],
Act False False (Pipe [CArg (AField [''Values'', ''networking'', ''vlan'', ''providerName''])]),
Txt ['''',
''          ''],
Act False True (If [CArg (AField [''Values'', ''networking'', ''vlan'', ''vlanInterface''])]),
Txt ['''',
''          - --default-interface-name=''],
Act True False (Pipe [CArg (AField [''Values'', ''networking'', ''vlan'', ''vlanInterface''])]),
Txt ['''',
''          ''],
Act True False (End),
Txt ['''',
''          - --default-exchange-link-name=''],
Act True False (Pipe [CArg (AField [''Values'', ''networking'', ''exchangeLinkName''])]),
Txt ['''',
''          - --default-vlan-name=''],
Act True False (Pipe [CArg (AField [''Values'', ''networking'', ''vlan'', ''vlanName''])]),
Txt ['''',
''          - --default-vlan-id=''],
Act True False (Pipe [CArg (AField [''Values'', ''networking'', ''vlan'', ''vlanId''])]),
Txt ['''',
''          - --ls-dnat-mod-dl-dst=''],
Act True False (Pipe [CArg (AField [''Values'', ''components'', ''lsDnatModDlDst''])]),
Txt ['''',
''          - --ls-ct-skip-dst-lport-ips=''],
Act True False (Pipe [CArg (AField [''Values'', ''components'', ''lsCtSkipOstLportIPS''])]),
Txt ['''',
''          - --pod-nic-type=''],
Act True False (Pipe [CArg (AField [''Values'', ''networking'', ''podNicType''])]),
Txt ['''',
''          - --enable-lb=''],
Act True False (Pipe [CArg (AField [''Values'', ''components'', ''enableLB''])]),
Txt ['''',
''          - --enable-np=''],
Act True False (Pipe [CArg (AField [''Values'', ''components'', ''enableNP''])]),
Txt ['''',
''          - --enable-eip-snat=''],
Act True False (Pipe [CArg (AField [''Values'', ''networking'', ''enableEIPSNAT''])]),
Txt ['''',
''          ''],
Act True False (If [CArg (AField [''Values'', ''networking'', ''externalGatewayConfigNS''])]),
Txt ['''',
''          - --external-gateway-config-ns=''],
Act True False (Pipe [CArg (AField [''Values'', ''networking'', ''externalGatewayConfigNS''])]),
Txt ['''',
''          ''],
Act True False (End),
Txt ['''',
''          - --enable-external-vpc=''],
Act True False (Pipe [CArg (AField [''Values'', ''components'', ''enableExternalVPC''])]),
Txt ['''',
''          - --enable-ecmp=''],
Act True False (Pipe [CArg (AField [''Values'', ''networking'', ''enableECMP''])]),
Txt ['''',
''          - --logtostderr=false'',
''          - --alsologtostderr=true'',
''          - --gc-interval=''],
Act True False (Pipe [CArg (AField [''Values'', ''performance'', ''gcInterval''])]),
Txt ['''',
''          - --inspect-interval=''],
Act True False (Pipe [CArg (AField [''Values'', ''performance'', ''inspectInterval''])])]\<close>

definition kube_ovn_controller_deployment_part2 :: "tok list" where
  \<open>kube_ovn_controller_deployment_part2 = [
Txt ['''',
''          - --log_file=/var/log/kube-ovn/kube-ovn-controller.log'',
''          - --log_file_max_size=200'',
''          - --enable-lb-svc=''],
Act True False (Pipe [CArg (AField [''Values'', ''components'', ''enableLBSVC''])]),
Txt ['''',
''          - --keep-vm-ip=''],
Act True False (Pipe [CArg (AField [''Values'', ''components'', ''enableKeepVMIP''])]),
Txt ['''',
''          - --enable-metrics=''],
Act True False (Pipe [CArg (AField [''Values'', ''networking'', ''enableMetrics''])]),
Txt ['''',
''          ''],
Act False True (If [CArg (AField [''Values'', ''networking'', ''nodeLocalDNSIPS''])]),
Txt ['''',
''          - --node-local-dns-ip=''],
Act True False (Pipe [CArg (AField [''Values'', ''networking'', ''nodeLocalDNSIPS''])]),
Txt ['''',
''          ''],
Act True False (End),
Txt ['''',
''          - --secure-serving=''],
Act True False (Pipe [CArg (AField [''Values'', ''components'', ''secureServing''])]),
Txt ['''',
''          - --enable-ovn-ipsec=''],
Act True False (Pipe [CArg (AField [''Values'', ''components'', ''enableOVNIPSec''])]),
Txt ['''',
''          - --enable-anp=''],
Act True False (Pipe [CArg (AField [''Values'', ''components'', ''enableANP''])]),
Txt ['''',
''          - --ovsdb-con-timeout=''],
Act True False (Pipe [CArg (AField [''Values'', ''components'', ''OVSDBConTimeout''])]),
Txt ['''',
''          - --ovsdb-inactivity-timeout=''],
Act True False (Pipe [CArg (AField [''Values'', ''components'', ''OVSDBInactivityTimeout''])]),
Txt ['''',
''          - --np-enforcement=''],
Act True False (Pipe [CArg (AField [''Values'', ''components'', ''npEnforcement''])]),
Txt ['''',
''          - --enable-live-migration-optimize=''],
Act True False (Pipe [CArg (AField [''Values'', ''components'', ''enableLiveMigrationOptimize''])]),
Txt ['''',
''          - --enable-ovn-lb-prefer-local=''],
Act True False (Pipe [CArg (AField [''Values'', ''components'', ''enableOVNLBPreferLocal''])]),
Txt ['''',
''          - --image=''],
Act False False (Pipe [CArg (AField [''Values'', ''global'', ''registry'', ''address''])]),
Txt [''/''],
Act False False (Pipe [CArg (AField [''Values'', ''global'', ''images'', ''kubeovn'', ''repository''])]),
Txt ['':''],
Act False False (Pipe [CArg (AField [''Values'', ''global'', ''images'', ''kubeovn'', ''tag''])]),
Txt ['''',
''          - --skip-conntrack-dst-cidrs=''],
Act True False (Pipe [CArg (AField [''Values'', ''networking'', ''skipConnTrackDstCIDRs'']), CFun ''default'' [AStr '''']]),
Txt ['''',
''          - --enable-dns-name-resolver=''],
Act True False (Pipe [CArg (AField [''Values'', ''components'', ''enableDNSNameResolver''])]),
Txt ['''',
''          securityContext:'',
''            runAsUser: ''],
Act False False (Pipe [CFun ''include'' [AStr ''kubeovn.runAsUser'', ADot]]),
Txt ['''',
''            privileged: false'',
''            capabilities:'',
''              add:'',
''                - NET_BIND_SERVICE'',
''                - NET_RAW'',
''          env:'',
''            - name: ENABLE_SSL'',
''              value: "''],
Act False False (Pipe [CArg (AField [''Values'', ''networking'', ''enableSSL''])]),
Txt [''"'',
''            - name: POD_NAME'',
''              valueFrom:'',
''                fieldRef:'',
''                  fieldPath: metadata.name'',
''            - name: POD_NAMESPACE'',
''              valueFrom:'',
''                fieldRef:'',
''                  fieldPath: metadata.namespace'',
''            - name: NODE_NAME'',
''              valueFrom:'',
''                fieldRef:'',
''                  fieldPath: spec.nodeName'',
''            - name: OVN_DB_IPS'',
''              value: "''],
Act False False (Pipe [CArg (AField [''Values'', ''MASTER_NODES'']), CFun ''default'' [APipe [CFun ''include'' [AStr ''kubeovn.nodeIPs'', ADot]]]]),
Txt [''"'',
''            - name: POD_IP'',
''              valueFrom:'',
''                fieldRef:'',
''                  fieldPath: status.podIP'',
''            - name: POD_IPS'',
''              valueFrom:'',
''                fieldRef:'',
''                  fieldPath: status.podIPs'',
''            - name: ENABLE_BIND_LOCAL_IP'',
''              value: "''],
Act True False (Pipe [CArg (AField [''Values'', ''components'', ''enableBindLocalIP''])]),
Txt [''"'',
''          volumeMounts:'',
''            - mountPath: /etc/localtime'',
''              name: localtime'',
''              readOnly: true'',
''            - mountPath: /var/log/kube-ovn'',
''              name: kube-ovn-log'',
''            # ovn-ic log directory'',
''            - mountPath: /var/log/ovn'',
''              name: ovn-log'',
''            - mountPath: /var/run/tls'',
''              name: kube-ovn-tls'',
''          readinessProbe:'',
''            httpGet:'',
''              port: 10660'',
''              path: /readyz'',
''              scheme: '' @ [CHR 0x27]],
Act False False (Pipe [CFun ''ternary'' [AStr ''HTTPS'', AStr ''HTTP'', AField [''Values'', ''components'', ''secureServing'']]]),
Txt [[CHR 0x27],
''            periodSeconds: 3'',
''            timeoutSeconds: 5'',
''          livenessProbe:'',
''            httpGet:'',
''              port: 10660'',
''              path: /livez'',
''              scheme: '' @ [CHR 0x27]],
Act False False (Pipe [CFun ''ternary'' [AStr ''HTTPS'', AStr ''HTTP'', AField [''Values'', ''components'', ''secureServing'']]]),
Txt [[CHR 0x27],
''            initialDelaySeconds: 300'',
''            periodSeconds: 7'',
''            failureThreshold: 5'',
''            timeoutSeconds: 5'',
''          resources:'',
''            requests:'',
''              cpu: ''],
Act False False (Pipe [CFun ''index'' [AField [''Values''], AStr ''kubeOvnController'', AStr ''requests'', AStr ''cpu'']]),
Txt ['''',
''              memory: ''],
Act False False (Pipe [CFun ''index'' [AField [''Values''], AStr ''kubeOvnController'', AStr ''requests'', AStr ''memory'']]),
Txt ['''',
''            limits:'',
''              cpu: ''],
Act False False (Pipe [CFun ''index'' [AField [''Values''], AStr ''kubeOvnController'', AStr ''limits'', AStr ''cpu'']]),
Txt ['''',
''              memory: ''],
Act False False (Pipe [CFun ''index'' [AField [''Values''], AStr ''kubeOvnController'', AStr ''limits'', AStr ''memory'']]),
Txt ['''',
''              ephemeral-storage: ''],
Act False False (Pipe [CFun ''index'' [AField [''Values''], AStr ''kubeOvnController'', AStr ''limits'', AStr ''ephemeralStorage'']]),
Txt ['''',
''      nodeSelector:'',
''        kubernetes.io/os: "linux"'',
''      volumes:'',
''        - name: localtime'',
''          hostPath:'',
''            path: /etc/localtime'',
''        - name: kube-ovn-log'',
''          hostPath:'',
''            path: ''],
Act False False (Pipe [CArg (AField [''Values'', ''logConfig'', ''logDir''])]),
Txt [''/kube-ovn'',
''        - name: ovn-log'',
''          hostPath:'',
''            path: ''],
Act False False (Pipe [CArg (AField [''Values'', ''logConfig'', ''logDir''])]),
Txt [''/ovn'',
''        - name: kube-ovn-tls'',
''          secret:'',
''            optional: true'',
''            secretName: kube-ovn-tls'']]\<close>

definition kube_ovn_controller_deployment :: "tok list" where
  "kube_ovn_controller_deployment = kube_ovn_controller_deployment_part1 @ kube_ovn_controller_deployment_part2"

definition ovn_ic_controller_deployment :: "tok list" where
  \<open>ovn_ic_controller_deployment = [
Act True False (If [CArg (AField [''Values'', ''components'', ''enableIC''])]),
Txt ['''',
''kind: Deployment'',
''apiVersion: apps/v1'',
''metadata:'',
''  name: ovn-ic-controller'',
''  namespace: kube-system'',
''  annotations:'',
''    kubernetes.io/description: |'',
''      OVN IC Client'',
''spec:'',
''  replicas: 1'',
''  strategy:'',
''    rollingUpdate:'',
''      maxSurge: 0'',
''      maxUnavailable: 1'',
''    type: RollingUpdate'',
''  selector:'',
''    matchLabels:'',
''      app: ovn-ic-controller'',
''  template:'',
''    metadata:'',
''      labels:'',
''        app: ovn-ic-controller'',
''        component: network'',
''        type: infra'',
''    spec:'',
''      tolerations:'',
''        - effect: NoSchedule'',
''          operator: Exists'',
''        - effect: NoExecute'',
''          operator: Exists'',
''        - key: CriticalAddonsOnly'',
''          operator: Exists'',
''      affinity:'',
''        podAntiAffinity:'',
''          requiredDuringSchedulingIgnoredDuringExecution:'',
''            - labelSelector:'',
''                matchLabels:'',
''                  app: ovn-ic-controller'',
''              topologyKey: kubernetes.io/hostname'',
''        ''],
Act True False (Pipe [CFun ''include'' [AStr ''kubeovn.masterNodeAffinity'', ADot], CFun ''nindent'' [ANum 8]]),
Txt [''      '',
''      priorityClassName: system-cluster-critical'',
''      serviceAccountName: ovn'',
''      automountServiceAccountToken: true'',
''      hostNetwork: true'',
''      securityContext:'',
''        seccompProfile:'',
''          type: RuntimeDefault'',
''      initContainers:'',
''        - name: hostpath-init'',
''          image: ''],
Act False False (Pipe [CArg (AField [''Values'', ''global'', ''registry'', ''address''])]),
Txt [''/''],
Act False False (Pipe [CArg (AField [''Values'', ''global'', ''images'', ''kubeovn'', ''repository''])]),
Txt ['':''],
Act False False (Pipe [CArg (AField [''Values'', ''global'', ''images'', ''kubeovn'', ''tag''])]),
Txt ['''',
''          imagePullPolicy: ''],
Act False False (Pipe [CArg (AField [''Values'', ''imagePullPolicy''])]),
Txt ['''',
''          command:'',
''            - sh'',
''            - -c'',
''            - "chown -R nobody: /var/run/ovn /var/log/ovn /var/log/kube-ovn"'',
''          securityContext:'',
''            allowPrivilegeEscalation: true'',
''            capabilities:'',
''              drop:'',
''                - ALL'',
''            privileged: true'',
''            runAsUser: 0'',
''          volumeMounts:'',
''            - mountPath: /var/run/ovn'',
''              name: host-run-ovn'',
''            - mountPath: /var/log/ovn'',
''              name: host-log-ovn'',
''            - name: kube-ovn-log'',
''              mountPath: /var/log/kube-ovn'',
''      containers:'',
''        - name: ovn-ic-controller'',
''          image: ''],
Act False False (Pipe [CArg (AField [''Values'', ''global'', ''registry'', ''address''])]),
Txt [''/''],
Act False False (Pipe [CArg (AField [''Values'', ''global'', ''images'', ''kubeovn'', ''repository''])]),
Txt ['':''],
Act False False (Pipe [CArg (AField [''Values'', ''global'', ''images'', ''kubeovn'', ''tag''])]),
Txt ['''',
''          imagePullPolicy: ''],
Act False False (Pipe [CArg (AField [''Values'', ''imagePullPolicy''])]),
Txt ['''',
''          command: ["/kube-ovn/start-ic-controller.sh"]'',
''          args:'',
''          - --log_file=/var/log/kube-ovn/kube-ovn-ic-controller.log'',
''          - --log_file_max_size=200'',
''          - --logtostderr=false'',
''          - --alsologtostderr=true'',
''          securityContext:'',
''            runAsUser: ''],
Act False False (Pipe [CFun ''include'' [AStr ''kubeovn.runAsUser'', ADot]]),
Txt ['''',
''            privileged: false'',
''            capabilities:'',
''              add:'',
''                - NET_BIND_SERVICE'',
''                - SYS_NICE'',
''          env:'',
''            - name: ENABLE_SSL'',
''              value: "''],
Act False False (Pipe [CArg (AField [''Values'', ''networking'', ''enableSSL''])]),
Txt [''"'',
''            - name: POD_NAMESPACE'',
''              valueFrom:'',
''                fieldRef:'',
''                  fieldPath: metadata.namespace'',
''            - name: OVN_DB_IPS'',
''              value: "''],
Act False False (Pipe [CArg (AField [''Values'', ''MASTER_NODES'']), CFun ''default'' [APipe [CFun ''include'' [AStr ''kubeovn.nodeIPs'', ADot]]]]),
Txt [''"'',
''          resources:'',
''            requests:'',
''              cpu: 300m'',
''              memory: 200Mi'',
''            limits:'',
''              cpu: 3'',
''              memory: 1Gi'',
''              ephemeral-storage: 1Gi'',
''          volumeMounts:'',
''            - mountPath: /var/run/ovn'',
''              name: host-run-ovn'',
''            - mountPath: /var/log/ovn'',
''              name: host-log-ovn'',
''            - mountPath: /etc/localtime'',
''              name: localtime'',
''            - mountPath: /var/run/tls'',
''              name: kube-ovn-tls'',
''            - mountPath: /var/log/kube-ovn'',
''              name: kube-ovn-log'',
''      nodeSelector:'',
''        kubernetes.io/os: "linux"'',
''      volumes:'',
''        - name: host-run-ovn'',
''          hostPath:'',
''            path: /run/ovn'',
''        - name: host-log-ovn'',
''          hostPath:'',
''            path: /var/log/ovn'',
''        - name: localtime'',
''          hostPath:'',
''            path: /etc/localtime'',
''        - name: kube-ovn-log'',
''          hostPath:'',
''            path: /var/log/kube-ovn'',
''        - name: kube-ovn-tls'',
''          secret:'',
''            optional: true'',
''            secretName: kube-ovn-tls'',
''''],
Act True False (End)]\<close>

definition kube_ovn_monitor_deployment_part1 :: "tok list" where
  \<open>kube_ovn_monitor_deployment_part1 = [
Txt [''kind: Deployment'',
''apiVersion: apps/v1'',
''metadata:'',
''  name: kube-ovn-monitor'',
''  namespace: ''],
Act False False (Pipe [CArg (AField [''Values'', ''namespace''])]),
Txt ['''',
''  annotations:'',
''    kubernetes.io/description: |'',
''      Metrics for OVN components: northd, nb and sb.'',
''spec:'',
''  replicas: 1'',
''  strategy:'',
''    rollingUpdate:'',
''      maxSurge: 1'',
''      maxUnavailable: 1'',
''    type: RollingUpdate'',
''  selector:'',
''    matchLabels:'',
''      app: kube-ovn-monitor'',
''  template:'',
''    metadata:'',
''      labels:'',
''        app: kube-ovn-monitor'',
''        component: network'',
''        type: infra'',
''    spec:'',
''      tolerations:'',
''        - effect: NoSchedule'',
''          operator: Exists'',
''        - key: CriticalAddonsOnly'',
''          operator: Exists'',
''      affinity:'',
''        podAntiAffinity:'',
''          requiredDuringSchedulingIgnoredDuringExecution:'',
''            - labelSelector:'',
''                matchLabels:'',
''                  app: kube-ovn-monitor'',
''              topologyKey: kubernetes.io/hostname'',
''        ''],
Act True False (Pipe [CFun ''include'' [AStr ''kubeovn.masterNodeAffinity'', ADot], CFun ''nindent'' [ANum 8]]),
Txt [''      '',
''      priorityClassName: system-cluster-critical'',
''      serviceAccountName: kube-ovn-app'',
''      automountServiceAccountToken: true'',
''      hostNetwork: true'',
''      securityContext:'',
''        seccompProfile:'',
''          type: RuntimeDefault'',
''      initContainers:'',
''        - name: hostpath-init'',
''          image: ''],
Act False False (Pipe [CArg (AField [''Values'', ''global'', ''registry'', ''address''])]),
Txt [''/''],
Act False False (Pipe [CArg (AField [''Values'', ''global'', ''images'', ''kubeovn'', ''repository''])]),
Txt ['':''],
Act False False (Pipe [CArg (AField [''Values'', ''global'', ''images'', ''kubeovn'', ''tag''])]),
Txt ['''',
''          imagePullPolicy: ''],
Act False False (Pipe [CArg (AField [''Values'', ''imagePullPolicy''])]),
Txt ['''',
''          command:'',
''            - sh'',
''            - -c'',
''            - "chown -R nobody: /var/log/kube-ovn"'',
''          securityContext:'',
''            allowPrivilegeEscalation: true'',
''            capabilities:'',
''              drop:'',
''                - ALL'',
''            privileged: true'',
''            runAsUser: 0'',
''          volumeMounts:'',
''            - name: kube-ovn-log'',
''              mountPath: /var/log/kube-ovn'',
''      containers:'',
''        - name: kube-ovn-monitor'',
''          image: ''],
Act False False (Pipe [CArg (AField [''Values'', ''global'', ''registry'', ''address''])]),
Txt [''/''],
Act False False (Pipe [CArg (AField [''Values'', ''global'', ''images'', ''kubeovn'', ''repository''])]),
Txt ['':''],
Act False False (Pipe [CArg (AField [''Values'', ''global'', ''images'', ''kubeovn'', ''tag''])]),
Txt ['''',
''          imagePullPolicy: ''],
Act False False (Pipe [CArg (AField [''Values'', ''imagePullPolicy''])]),
Txt ['''',
''          command: ["/kube-ovn/start-ovn-monitor.sh"]'',
''          args:'',
''          - --secure-serving=''],
Act True False (Pipe [CArg (AField [''Values'', ''components'', ''secureServing''])]),
Txt ['''',
''          - --log_file=/var/log/kube-ovn/kube-ovn-monitor.log'',
''          - --logtostderr=false'',
''          - --alsologtostderr=true'',
''          - --log_file_max_size=200'',
''          - --enable-metrics=''],
Act True False (Pipe [CArg (AField [''Values'', ''networking'', ''enableMetrics''])]),
Txt ['''',
''          securityContext:'',
''            runAsUser: ''],
Act False False (Pipe [CFun ''include'' [AStr ''kubeovn.runAsUser'', ADot]]),
Txt ['''',
''            privileged: false'',
''            capabilities:'',
''              add:'',
''                - NET_BIND_SERVICE'',
''          env:'',
''            - name: ENABLE_SSL'',
''              value: "''],
Act False False (Pipe [CArg (AField [''Values'', ''networking'', ''enableSSL''])]),
Txt [''"'',
''            - name: NODE_NAME'',
''              valueFrom:'',
''                fieldRef:'',
''                  fieldPath: spec.nodeName'',
''            - name: POD_NAMESPACE'',
''              valueFrom:'',
''                fieldRef:'',
''                  fieldPath: metadata.namespace'',
''            - name: POD_NAME'',
''              valueFrom:'',
''                fieldRef:'',
''                  fieldPath: metadata.name'',
''            - name: POD_IP'',
''              valueFrom:'',
''                fieldRef:'',
''                  fieldPath: status.podIP'',
''            - name: POD_IPS'',
''              valueFrom:'',
''                fieldRef:'',
''                  fieldPath: status.podIPs'',
''            - name: ENABLE_BIND_LOCAL_IP'',
''              value: "''],
Act True False (Pipe [CArg (AField [''Values'', ''components'', ''enableBindLocalIP''])]),
Txt [''"'',
''          resources:'',
''            requests:'',
''              cpu: ''],
Act False False (Pipe [CFun ''index'' [AField [''Values''], AStr ''kubeOvnMonitor'', AStr ''requests'', AStr ''cpu'']]),
Txt ['''',
''              memory: ''],
Act False False (Pipe [CFun ''index'' [AField [''Values''], AStr ''kubeOvnMonitor'', AStr ''requests'', AStr ''memory'']]),
Txt ['''',
''            limits:'',
''              cpu: ''],
Act False False (Pipe [CFun ''index'' [AField [''Values''], AStr ''kubeOvnMonitor'', AStr ''limits'', AStr ''cpu'']]),
Txt ['''',
''              memory: ''],
Act False False (Pipe [CFun ''index'' [AField [''Values''], AStr ''kubeOvnMonitor'', AStr ''limits'', AStr ''memory'']]),
Txt ['''',
''              ephemeral-storage: ''],
Act False False (Pipe [CFun ''index'' [AField [''Values''], AStr ''kubeOvnMonitor'', AStr ''limits'', AStr ''ephemeralStorage'']]),
Txt ['''',
''          volumeMounts:'',
''            - mountPath: /var/run/ovn'',
''              name: host-run-ovn'',
''            - mountPath: /etc/ovn'',
''              name: host-config-ovn'',
''            - mountPath: /var/log/ovn'',
''              name: host-log-ovn'',
''              readOnly: true'',
''            - mountPath: /etc/localtime'',
''              name: localtime'',
''              readOnly: true'',
''            - mountPath: /var/run/tls'',
''              name: kube-ovn-tls'',
''            - mountPath: /var/log/kube-ovn'',
''              name: kube-ovn-log'',
''          livenessProbe:'',
''            failureThreshold: 3'',
''            initialDelaySeconds: 30'',
''            periodSeconds: 7'',
''            successThreshold: 1'',
''            httpGet:'',
''              port: 10661'',
''              path: /livez'',
''              scheme: '' @ [CHR 0x27]],
Act False False (Pipe [CFun ''ternary'' [AStr ''HTTPS'', AStr ''HTTP'', AField [''Values'', ''components'', ''secureServing'']]])]\<close>

definition kube_ovn_monitor_deployment_part2 :: "tok list" where
  \<open>kube_ovn_monitor_deployment_part2 = [
Txt [[CHR 0x27],
''            timeoutSeconds: 5'',
''          readinessProbe:'',
''            failureThreshold: 3'',
''            initialDelaySeconds: 30'',
''            periodSeconds: 7'',
''            successThreshold: 1'',
''            httpGet:'',
''              port: 10661'',
''              path: /readyz'',
''              scheme: '' @ [CHR 0x27]],
Act False False (Pipe [CFun ''ternary'' [AStr ''HTTPS'', AStr ''HTTP'', AField [''Values'', ''components'', ''secureServing'']]]),
Txt [[CHR 0x27],
''            timeoutSeconds: 5'',
''      nodeSelector:'',
''        kubernetes.io/os: "linux"'',
''      volumes:'',
''        - name: host-run-ovn'',
''          hostPath:'',
''            path: /run/ovn'',
''        - name: host-config-ovn'',
''          hostPath:'',
''            path: ''],
Act False False (Pipe [CArg (AField [''Values'', ''ovnDir''])]),
Txt ['''',
''        - name: host-log-ovn'',
''          hostPath:'',
''            path: ''],
Act False False (Pipe [CArg (AField [''Values'', ''logConfig'', ''logDir''])]),
Txt [''/ovn'',
''        - name: localtime'',
''          hostPath:'',
''            path: /etc/localtime'',
''        - name: kube-ovn-tls'',
''          secret:'',
''            optional: true'',
''            secretName: kube-ovn-tls'',
''        - name: kube-ovn-log'',
''          hostPath:'',
''            path: ''],
Act False False (Pipe [CArg (AField [''Values'', ''logConfig'', ''logDir''])]),
Txt [''/kube-ovn'',
'''']]\<close>

definition kube_ovn_monitor_deployment :: "tok list" where
  "kube_ovn_monitor_deployment = kube_ovn_monitor_deployment_part1 @ kube_ovn_monitor_deployment_part2"

definition kubeovn_webhook_deployment :: "tok list" where
  \<open>kubeovn_webhook_deployment = [
Txt [''kind: Deployment'',
''apiVersion: apps/v1'',
''metadata:'',
''  name: kube-ovn-webhook'',
''  namespace: kube-system'',
''spec:'',
''  replicas: 1'',
''  selector:'',
''    matchLabels:'',
''      app: kube-ovn-webhook'',
''  strategy:'',
''    rollingUpdate:'',
''      maxSurge: 25%'',
''      maxUnavailable: 100%'',
''    type: RollingUpdate'',
''  template:'',
''    metadata:'',
''      labels:'',
''        app: kube-ovn-webhook'',
''    spec:'',
''      tolerations:'',
''        - operator: Exists'',
''          effect: NoSchedule'',
''      affinity:'',
''        podAntiAffinity:'',
''          requiredDuringSchedulingIgnoredDuringExecution:'',
''            - labelSelector:'',
''                matchLabels:'',
''                  app: kube-ovn-webhook'',
''              topologyKey: kubernetes.io/hostname'',
''      priorityClassName: system-cluster-critical        '',
''      serviceAccountName: ovn'',
''      automountServiceAccountToken: true'',
''      securityContext:'',
''        seccompProfile:'',
''          type: RuntimeDefault'',
''      containers:'',
''        - name: kube-ovn-webhook'',
''          image: ''],
Act False False (Pipe [CArg (AField [''Values'', ''global'', ''registry'', ''address''])]),
Txt [''/''],
Act False False (Pipe [CArg (AField [''Values'', ''global'', ''images'', ''kubeovn'', ''repository''])]),
Txt ['':''],
Act False False (Pipe [CArg (AField [''Values'', ''global'', ''images'', ''kubeovn'', ''tag''])]),
Txt ['''',
''          imagePullPolicy: ''],
Act False False (Pipe [CArg (AField [''Values'', ''imagePullPolicy''])]),
Txt ['''',
''          command:'',
''            - /kube-ovn/kube-ovn-webhook'',
''          args:'',
''            - --port=8443'',
''            - --health-probe-port=8080'',
''            - --v=3'',
''          env:'',
''            - name: POD_IP'',
''              valueFrom:'',
''                fieldRef:'',
''                  apiVersion: v1'',
''                  fieldPath: status.podIP'',
''          volumeMounts:'',
''            - mountPath: /tmp/k8s-webhook-server/serving-certs'',
''              name: cert'',
''              readOnly: true'',
''          ports:'',
''          - containerPort: 8443'',
''            name: https'',
''            protocol: TCP'',
''          - containerPort: 8080'',
''            name: health-probe'',
''            protocol: TCP'',
''          livenessProbe:'',
''            failureThreshold: 3'',
''            httpGet:'',
''              path: /healthz'',
''              port: 8080'',
''            initialDelaySeconds: 60'',
''            periodSeconds: 10'',
''            successThreshold: 1'',
''            timeoutSeconds: 1'',
''          readinessProbe:'',
''            failureThreshold: 3'',
''            httpGet:'',
''              path: /readyz'',
''              port: 8080'',
''            initialDelaySeconds: 5'',
''            periodSeconds: 5'',
''            successThreshold: 1'',
''            timeoutSeconds: 1'',
''      volumes:'',
''        - name: cert'',
''          secret:'',
''            defaultMode: 420'',
''            secretName: webhook-certs'',
''      nodeSelector:'',
''        kubernetes.io/os: "linux"'']]\<close>

definition DeploymentList :: "tok list list" where
  "DeploymentList = [ovn_central_deployment,
     kube_ovn_controller_deployment,
     ovn_ic_controller_deployment,
     kube_ovn_monitor_deployment,
     kubeovn_webhook_deployment]"

end
