(* ===== verification/Templates_Daemonsets.thy ===== *)
theory Templates_Daemonsets
  imports Go_Template
begin

text \<open>
  The daemon sets of \<^verbatim>\<open>internal/templates/daemonsets.go\<close>.
  Each constant is the Go string constant of the same name as template tokens: text by source lines, actions
  with their trim markers. A constant of more than 140 lines is given in parts.
\<close>

section \<open>\<^verbatim>\<open>daemonsets.go\<close>\<close>

definition ovs_ovn_dpdk_daemonset_part1 :: "tok list" where
  \<open>ovs_ovn_dpdk_daemonset_part1 = [
Act True False (If [CArg (AField [''Values'', ''hybridDPDK''])]),
Txt ['''',
''kind: DaemonSet'',
''apiVersion: apps/v1'',
''metadata:'',
''  name: ovs-ovn-dpdk'',
''  namespace: ''],
Act False False (Pipe [CArg (AField [''Values'', ''namespace''])]),
Txt ['''',
''  annotations:'',
''    kubernetes.io/description: |'',
''      This daemon set launches the openvswitch daemon.'',
''spec:'',
''  selector:'',
''    matchLabels:'',
''      app: ovs-dpdk'',
''  updateStrategy:'',
''    type: RollingUpdate'',
''    rollingUpdate:'',
''      maxSurge: 1'',
''      maxUnavailable: 0'',
''  template:'',
''    metadata:'',
''      labels:'',
''        app: ovs-dpdk'',
''        component: network'',
''        type: infra'',
''    spec:'',
''      tolerations:'',
''      - operator: Exists'',
''      priorityClassName: system-node-critical'',
''      serviceAccountName: ovn-ovs'',
''      automountServiceAccountToken: true'',
''      hostNetwork: true'',
''      hostPID: true'',
''      securityContext:'',
''        seccompProfile:'',
''          type: RuntimeDefault'',
''      containers:'',
''        - name: openvswitch'',
''          image: ''],
Act False False (Pipe [CArg (AField [''Values'', ''global'', ''registry'', ''address''])]),
Txt [''/''],
Act False False (Pipe [CArg (AField [''Values'', ''global'', ''images'', ''kubeovn'', ''repository''])]),
Txt ['':''],
Act False False (Pipe [CArg (AField [''Values'', ''dpdkImageTag''])]),
Txt ['''',
''          imagePullPolicy: ''],
Act False False (Pipe [CArg (AField [''Values'', ''imagePullPolicy''])]),
Txt ['''',
''          command: ["/kube-ovn/start-ovs-dpdk-v2.sh"]'',
''          securityContext:'',
''            runAsUser: 0'',
''            privileged: true'',
''          env:'',
''            - name: ENABLE_SSL'',
''              value: "''],
Act False False (Pipe [CArg (AField [''Values'', ''networking'', ''enableSSL''])]),
Txt [''"'',
''            - name: POD_IP'',
''              valueFrom:'',
''                fieldRef:'',
''                  fieldPath: status.podIP'',
''            - name: HW_OFFLOAD'',
''              value: "''],
Act True False (Pipe [CArg (AField [''Values'', ''components'', ''hardwareOffload''])]),
Txt [''"'',
''            - name: TUNNEL_TYPE'',
''              value: "''],
Act True False (Pipe [CArg (AField [''Values'', ''networking'', ''tunnelType''])]),
Txt [''"'',
''            - name: DPDK_TUNNEL_IFACE'',
''              value: "''],
Act True False (Pipe [CArg (AField [''Values'', ''networking'', ''dpdkTunnelInterface''])]),
Txt [''"'',
''            - name: NODE_NAME'',
''              valueFrom:'',
''                fieldRef:'',
''                  fieldPath: spec.nodeName'',
''            - name: OVN_DB_IPS'',
''              value: "''],
Act False False (Pipe [CArg (AField [''Values'', ''MASTER_NODES'']), CFun ''default'' [APipe [CFun ''include'' [AStr ''kubeovn.nodeIPs'', ADot]]]]),
Txt [''"'',
''            - name: OVN_REMOTE_PROBE_INTERVAL'',
''              value: "''],
Act False False (Pipe [CArg (AField [''Values'', ''networking'', ''ovnRemoteProbeInterval''])]),
Txt [''"'',
''            - name: OVN_REMOTE_OPENFLOW_INTERVAL'',
''              value: "''],
Act False False (Pipe [CArg (AField [''Values'', ''networking'', ''ovnRemoteOpenflowInterval''])]),
Txt [''"'',
''          volumeMounts:'',
''            - mountPath: /opt/ovs-config'',
''              name: host-config-ovs'',
''            - name: shareddir'',
''              mountPath: ''],
Act False False (Pipe [CArg (AField [''Values'', ''kubeletConfig'', ''kubeletDir''])]),
Txt [''/pods'',
''            - name: hugepage'',
''              mountPath: /dev/hugepages'',
''            - mountPath: /lib/modules'',
''              name: host-modules'',
''              readOnly: true'',
''            - mountPath: /var/run/openvswitch'',
''              name: host-run-ovs'',
''              mountPropagation: HostToContainer'',
''            - mountPath: /var/run/ovn'',
''              name: host-run-ovn'',
''            - mountPath: /sys'',
''              name: host-sys'',
''            - mountPath: /etc/openvswitch'',
''              name: host-config-openvswitch'',
''            - mountPath: /etc/ovn'',
''              name: host-config-ovn'',
''            - mountPath: /var/log/openvswitch'',
''              name: host-log-ovs'',
''            - mountPath: /var/log/ovn'',
''              name: host-log-ovn'',
''            - mountPath: /etc/localtime'',
''              name: localtime'',
''              readOnly: true'',
''            - mountPath: /var/run/tls'',
''              name: kube-ovn-tls'',
''          readinessProbe:'',
''            exec:'',
''              command:'',
''                - bash'',
''                - /kube-ovn/ovs-healthcheck.sh'',
''            periodSeconds: 5'',
''            timeoutSeconds: 45'',
''          livenessProbe:'',
''            exec:'',
''              command:'',
''                - bash'',
''                - /kube-ovn/ovs-healthcheck.sh'',
''            initialDelaySeconds: 60'',
''            periodSeconds: 5'',
''            failureThreshold: 5'',
''            timeoutSeconds: 45'',
''          resources:'',
''            requests:'',
''              cpu: ''],
Act False False (Pipe [CFun ''index'' [AField [''Values''], AStr ''ovsOVN'', AStr ''requests'', AStr ''cpu'']]),
Txt ['''',
''              memory: ''],
Act False False (Pipe [CFun ''index'' [AField [''Values''], AStr ''ovsOVN'', AStr ''requests'', AStr ''memory'']]),
Txt ['''',
''            limits:'',
''              cpu: ''],
Act False False (Pipe [CFun ''index'' [AField [''Values''], AStr ''ovsOVN'', AStr ''limits'', AStr ''cpu'']]),
Txt ['''',
''              ''],
Act False False (Pipe [CArg (AField [''Values'', ''hugepageSizeType''])]),
Txt ['': ''],
Act False False (Pipe [CArg (AField [''Values'', ''hugePages''])]),
Txt ['''',
''              memory: ''],
Act False False (Pipe [CFun ''index'' [AField [''Values''], AStr ''ovsOVN'', AStr ''limits'', AStr ''memory'']]),
Txt ['''',
''      nodeSelector:'',
''        kubernetes.io/os: "linux"'',
''        ovn.kubernetes.io/ovs_dp_type: "userspace"'',
''      volumes:'',
''        - name: host-config-ovs'',
''          hostPath:'',
''            path: /opt/ovs-config'',
''            type: DirectoryOrCreate'',
''        - name: shareddir'',
''          hostPath:'',
''            path: ''],
Act False False (Pipe [CArg (AField [''Values'', ''kubeletConfig'', ''kubeletDir''])])]\<close>

definition ovs_ovn_dpdk_daemonset_part2 :: "tok list" where
  \<open>ovs_ovn_dpdk_daemonset_part2 = [
Txt [''/pods'',
''            type: '' @ [CHR 0x27] @ [CHR 0x27],
''        - name: hugepage'',
''          emptyDir:'',
''            medium: HugePages'',
''        - name: host-modules'',
''          hostPath:'',
''            path: /lib/modules'',
''        - name: host-run-ovs'',
''          hostPath:'',
''            path: /run/openvswitch'',
''        - name: host-run-ovn'',
''          hostPath:'',
''            path: /run/ovn'',
''        - name: host-sys'',
''          hostPath:'',
''            path: /sys'',
''        - name: host-config-openvswitch'',
''          hostPath:'',
''            path: ''],
Act False False (Pipe [CArg (AField [''Values'', ''openVSwitchDir''])]),
Txt ['''',
''        - name: host-config-ovn'',
''          hostPath:'',
''            path: ''],
Act False False (Pipe [CArg (AField [''Values'', ''ovnDir''])]),
Txt ['''',
''        - name: host-log-ovs'',
''          hostPath:'',
''            path: ''],
Act False False (Pipe [CArg (AField [''Values'', ''logConfig'', ''logDir''])]),
Txt [''/openvswitch'',
''        - name: host-log-ovn'',
''          hostPath:'',
''            path: ''],
Act False False (Pipe [CArg (AField [''Values'', ''logConfig'', ''logDir''])]),
Txt [''/ovn'',
''        - name: localtime'',
''          hostPath:'',
''            path: /etc/localtime'',
''        - name: kube-ovn-tls'',
''          secret:'',
''            optional: true'',
''            secretName: kube-ovn-tls'',
''''],
Act True False (End)]\<close>

definition ovs_ovn_dpdk_daemonset :: "tok list" where
  "ovs_ovn_dpdk_daemonset = ovs_ovn_dpdk_daemonset_part1 @ ovs_ovn_dpdk_daemonset_part2"

definition kube_ovn_cni_daemonset_part1 :: "tok list" where
  \<open>kube_ovn_cni_daemonset_part1 = [
Txt [''kind: DaemonSet'',
''apiVersion: apps/v1'',
''metadata:'',
''  name: kube-ovn-cni'',
''  namespace: ''],
Act False False (Pipe [CArg (AField [''Values'', ''namespace''])]),
Txt ['''',
''  annotations:'',
''    kubernetes.io/description: |'',
''      This daemon set launches the kube-ovn cni daemon.'',
''spec:'',
''  selector:'',
''    matchLabels:'',
''      app: kube-ovn-cni'',
''  template:'',
''    metadata:'',
''      labels:'',
''        app: kube-ovn-cni'',
''        component: network'',
''        type: infra'',
''    spec:'',
''      tolerations:'',
''        - effect: NoSchedule'',
''          operator: Exists'',
''        - effect: NoExecute'',
''          operator: Exists'',
''        - key: CriticalAddonsOnly'',
''          operator: Exists'',
''      priorityClassName: system-node-critical'',
''      serviceAccountName: kube-ovn-cni'',
''      automountServiceAccountToken: true'',
''      hostNetwork: true'',
''      hostPID: true'',
''      securityContext:'',
''        seccompProfile:'',
''          type: RuntimeDefault'',
''      initContainers:'',
''      - name: hostpath-init'',
''        image: ''],
Act False False (Pipe [CArg (AField [''Values'', ''global'', ''registry'', ''address''])]),
Txt [''/''],
Act False False (Pipe [CArg (AField [''Values'', ''global'', ''images'', ''kubeovn'', ''repository''])]),
Txt ['':''],
Act False False (Pipe [CArg (AField [''Values'', ''global'', ''images'', ''kubeovn'', ''tag''])]),
Txt ['''',
''        imagePullPolicy: ''],
Act False False (Pipe [CArg (AField [''Values'', ''imagePullPolicy''])]),
Txt ['''',
''        command:'',
''          - sh'',
''          - -xec'',
''          - |'',
''            chmod +t /usr/local/sbin'',
''            iptables -V'',
''        securityContext:'',
''          allowPrivilegeEscalation: true'',
''          capabilities:'',
''            drop:'',
''              - ALL'',
''          privileged: true'',
''          runAsUser: 0'',
''          runAsGroup: 0'',
''        volumeMounts:'',
''          - name: usr-local-sbin'',
''            mountPath: /usr/local/sbin'',
''          - mountPath: /run/xtables.lock'',
''            name: xtables-lock'',
''            readOnly: false'',
''          - mountPath: /var/run/netns'',
''            name: host-ns'',
''            readOnly: false'',
''          - name: kube-ovn-log'',
''            mountPath: /var/log/kube-ovn'',
''      - name: install-cni'',
''        image: ''],
Act False False (Pipe [CArg (AField [''Values'', ''global'', ''registry'', ''address''])]),
Txt [''/''],
Act False False (Pipe [CArg (AField [''Values'', ''global'', ''images'', ''kubeovn'', ''repository''])]),
Txt ['':''],
Act False False (Pipe [CArg (AField [''Values'', ''global'', ''images'', ''kubeovn'', ''tag''])]),
Txt ['''',
''        imagePullPolicy: ''],
Act False False (Pipe [CArg (AField [''Values'', ''imagePullPolicy''])]),
Txt ['''',
''        command:'',
''          - /kube-ovn/install-cni.sh'',
''          - --cni-conf-dir=''],
Act False False (Pipe [CArg (AField [''Values'', ''cniConf'', ''cniConfigDir''])]),
Txt ['''',
''          - --cni-conf-file=''],
Act False False (Pipe [CArg (AField [''Values'', ''cniConf'', ''cniConfFile''])]),
Txt ['''',
''          - --cni-conf-name=''],
Act True True (Pipe [CArg (AField [''Values'', ''cniConf'', ''cniConfigPriority''])]),
Txt [''-kube-ovn.conflist'',
''        env:'',
''          - name: POD_IPS'',
''            valueFrom:'',
''              fieldRef:'',
''                fieldPath: status.podIPs'',
''        securityContext:'',
''          runAsUser: 0'',
''          privileged: true'',
''        volumeMounts:'',
''          - mountPath: /opt/cni/bin'',
''            name: cni-bin'',
''          - mountPath: ''],
Act False False (Pipe [CArg (AField [''Values'', ''cniConf'', ''mountCNIConfDir''])]),
Txt ['''',
''            name: cni-conf'',
''          ''],
Act True False (If [CArg (AField [''Values'', ''cniConf'', ''mountLocalBinDir''])]),
Txt ['''',
''          - mountPath: /usr/local/bin'',
''            name: local-bin'',
''          ''],
Act True False (End),
Txt ['''',
''      containers:'',
''      - name: cni-server'',
''        image: ''],
Act False False (Pipe [CArg (AField [''Values'', ''global'', ''registry'', ''address''])]),
Txt [''/''],
Act False False (Pipe [CArg (AField [''Values'', ''global'', ''images'', ''kubeovn'', ''repository''])]),
Txt ['':''],
Act False False (Pipe [CArg (AField [''Values'', ''global'', ''images'', ''kubeovn'', ''tag''])]),
Txt ['''',
''        imagePullPolicy: ''],
Act False False (Pipe [CArg (AField [''Values'', ''imagePullPolicy''])]),
Txt ['''',
''        command:'',
''          - bash'',
''          - /kube-ovn/start-cniserver.sh'',
''        args:'',
''          - --enable-mirror=''],
Act True False (Pipe [CArg (AField [''Values'', ''debug'', ''enableMirror'']), CFun ''default'' [AStr ''false'']]),
Txt ['''',
''          - --mirror-iface=''],
Act True False (Pipe [CArg (AField [''Values'', ''debug'', ''mirrorInterface''])]),
Txt ['''',
''          - --node-switch=''],
Act False False (Pipe [CArg (AField [''Values'', ''networking'', ''nodeSubnet''])]),
Txt ['''',
''          - --encap-checksum=true'',
''          - --service-cluster-ip-range='',
''          ''],
Act True True (If [CFun ''eq'' [AField [''Values'', ''networking'', ''netStack''], AStr ''dual_stack'']]),
Txt ['''',
''          ''],
Act False False (Pipe [CArg (AField [''Values'', ''dual_stack'', ''serviceCIDR''])]),
Txt ['''',
''          ''],
Act True True (ElseIf [CFun ''eq'' [AField [''Values'', ''networking'', ''netStack''], AStr ''ipv4'']]),
Txt ['''',
''          ''],
Act False False (Pipe [CArg (AField [''Values'', ''ipv4'', ''serviceCIDR''])]),
Txt ['''',
''          ''],
Act True True (ElseIf [CFun ''eq'' [AField [''Values'', ''networking'', ''netStack''], AStr ''ipv6'']]),
Txt ['''',
''          ''],
Act False False (Pipe [CArg (AField [''Values'', ''ipv6'', ''serviceCIDR''])]),
Txt ['''',
''          ''],
Act True False (End),
Txt ['''',
''          ''],
Act True False (If [CFun ''eq'' [AField [''Values'', ''networking'', ''networkType''], AStr ''vlan'']]),
Txt ['''',
''          - --iface='',
''          ''],
Act True False (Else),
Txt ['''',
''          - --iface=''],
Act True False (Pipe [CArg (AField [''Values'', ''networking'', ''interface'']), CFun ''default'' [AStr '''']]),
Txt ['''',
''          ''],
Act True False (End),
Txt ['''',
''          - --dpdk-tunnel-iface=''],
Act True False (Pipe [CArg (AField [''Values'', ''networking'', ''dpdkTunnelInterface'']), CFun ''default'' [AStr ''br-phy'']]),
Txt ['''',
''          - --network-type=''],
Act True False (Pipe [CArg (AField [''Values'', ''networking'', ''tunnelType''])]),
Txt ['''',
''          - --default-interface-name=''],
Act True False (Pipe [CArg (AField [''Values'', ''networking'', ''vlan'', ''vlanInterface'']), CFun ''default'' [AStr '''']]),
Txt ['''',
''          - --logtostderr=false'',
''          - --alsologtostderr=true'',
''          - --log_file=/var/log/kube-ovn/kube-ovn-cni.log'',
''          - --log_file_max_size=200'',
''          - --enable-metrics=''],
Act True False (Pipe [CArg (AField [''Values'', ''networking'', ''enableMetrics''])]),
Txt ['''',
''          - --kubelet-dir=''],
Act False False (Pipe [CArg (AField [''Values'', ''kubeletConfig'', ''kubeletDir''])]),
Txt ['''',
''          - --enable-tproxy=''],
Act False False (Pipe [CArg (AField [''Values'', ''components'', ''enableTProxy''])]),
Txt ['''',
''          - --ovs-vsctl-concurrency=''],
Act False False (Pipe [CArg (AField [''Values'', ''performance'', ''ovsVSCtlConcurrency''])]),
Txt ['''',
''          - --secure-serving=''],
Act True False (Pipe [CArg (AField [''Values'', ''components'', ''secureServing''])]),
Txt ['''',
''          - --enable-ovn-ipsec=''],
Act True False (Pipe [CArg (AField [''Values'', ''components'', ''enableOVNIPSec''])]),
Txt ['''',
''          - --set-vxlan-tx-off=''],
Act True False (Pipe [CArg (AField [''Values'', ''components'', ''setVLANTxOff''])]),
Txt ['''',
''          - --non-primary-cni-mode=''],
Act True False (Pipe [CArg (AField [''Values'', ''cniConf'', ''nonPrimaryCNI''])])]\<close>

definition kube_ovn_cni_daemonset_part2 :: "tok list" where
  \<open>kube_ovn_cni_daemonset_part2 = [
Txt ['''',
''        securityContext:'',
''          runAsUser: 0'',
''          privileged: false'',
''          capabilities:'',
''            add:'',
''              - NET_ADMIN'',
''              - NET_BIND_SERVICE'',
''              - NET_RAW'',
''              - SYS_ADMIN'',
''              - SYS_PTRACE'',
''              - SYS_NICE'',
''        env:'',
''          - name: ENABLE_SSL'',
''            value: "''],
Act False False (Pipe [CArg (AField [''Values'', ''networking'', ''enableSSL''])]),
Txt [''"'',
''          - name: POD_IP'',
''            valueFrom:'',
''              fieldRef:'',
''                fieldPath: status.podIP'',
''          - name: NODE_NAME'',
''            valueFrom:'',
''              fieldRef:'',
''                fieldPath: spec.nodeName'',
''          - name: POD_NAME'',
''            valueFrom:'',
''              fieldRef:'',
''                fieldPath: metadata.name'',
''          - name: POD_NAMESPACE'',
''            valueFrom:'',
''              fieldRef:'',
''                fieldPath: metadata.namespace'',
''          - name: POD_IPS'',
''            valueFrom:'',
''              fieldRef:'',
''                fieldPath: status.podIPs'',
''          - name: ENABLE_BIND_LOCAL_IP'',
''            value: "''],
Act True False (Pipe [CArg (AField [''Values'', ''components'', ''enableBindLocalIP''])]),
Txt [''"'',
''          - name: DBUS_SYSTEM_BUS_ADDRESS'',
''            value: "unix:path=/host/var/run/dbus/system_bus_socket"'',
''        volumeMounts:'',
''          - name: usr-local-sbin'',
''            mountPath: /usr/local/sbin'',
''          - name: host-modules'',
''            mountPath: /lib/modules'',
''            readOnly: true'',
''          - mountPath: /run/xtables.lock'',
''            name: xtables-lock'',
''            readOnly: false'',
''          - name: shared-dir'',
''            mountPath: ''],
Act False False (Pipe [CArg (AField [''Values'', ''kubeletConfig'', ''kubeletDir''])]),
Txt [''/pods'',
''          - mountPath: /etc/openvswitch'',
''            name: systemid'',
''            readOnly: true'',
''          - mountPath: /run/openvswitch'',
''            name: host-run-ovs'',
''            mountPropagation: HostToContainer'',
''          - mountPath: /run/ovn'',
''            name: host-run-ovn'',
''          - mountPath: /host/var/run/dbus'',
''            name: host-dbus'',
''            mountPropagation: HostToContainer'',
''          - mountPath: /var/run/netns'',
''            name: host-ns'',
''            mountPropagation: HostToContainer'',
''          - mountPath: /var/log/kube-ovn'',
''            name: kube-ovn-log'',
''          - mountPath: /var/log/openvswitch'',
''            name: host-log-ovs'',
''          - mountPath: /var/log/ovn'',
''            name: host-log-ovn'',
''          - mountPath: /etc/localtime'',
''            name: localtime'',
''            readOnly: true'',
''        ''],
Act True False (If [CArg (AField [''Values'', ''components'', ''enableOVNIPSec''])]),
Txt ['''',
''          - mountPath: /etc/ovs_ipsec_keys'',
''            name: ovs-ipsec-keys'',
''        ''],
Act True False (End),
Txt ['''',
''        readinessProbe:'',
''          failureThreshold: 3'',
''          periodSeconds: 7'',
''          successThreshold: 1'',
''          httpGet:'',
''            port: 10665'',
''            path: /readyz'',
''            scheme: '' @ [CHR 0x27]],
Act False False (Pipe [CFun ''ternary'' [AStr ''HTTPS'', AStr ''HTTP'', AField [''Values'', ''components'', ''secureServing'']]]),
Txt [[CHR 0x27],
''          timeoutSeconds: 5'',
''        livenessProbe:'',
''          failureThreshold: 3'',
''          initialDelaySeconds: 30'',
''          periodSeconds: 7'',
''          successThreshold: 1'',
''          httpGet:'',
''            port: 10665'',
''            path: /livez'',
''            scheme: '' @ [CHR 0x27]],
Act False False (Pipe [CFun ''ternary'' [AStr ''HTTPS'', AStr ''HTTP'', AField [''Values'', ''components'', ''secureServing'']]]),
Txt [[CHR 0x27],
''          timeoutSeconds: 5'',
''        resources:'',
''          requests:'',
''            cpu: ''],
Act False False (Pipe [CFun ''index'' [AField [''Values''], AStr ''kubeOvnCNI'', AStr ''requests'', AStr ''cpu'']]),
Txt ['''',
''            memory: ''],
Act False False (Pipe [CFun ''index'' [AField [''Values''], AStr ''kubeOvnCNI'', AStr ''requests'', AStr ''memory'']]),
Txt ['''',
''          limits:'',
''            cpu: ''],
Act False False (Pipe [CFun ''index'' [AField [''Values''], AStr ''kubeOvnCNI'', AStr ''limits'', AStr ''cpu'']]),
Txt ['''',
''            memory: ''],
Act False False (Pipe [CFun ''index'' [AField [''Values''], AStr ''kubeOvnCNI'', AStr ''limits'', AStr ''memory'']]),
Txt ['''',
''            ephemeral-storage: ''],
Act False False (Pipe [CFun ''index'' [AField [''Values''], AStr ''kubeOvnCNI'', AStr ''limits'', AStr ''ephemeralStorage'']]),
Txt ['''',
''      nodeSelector:'',
''        kubernetes.io/os: "linux"'',
''      volumes:'',
''        - name: usr-local-sbin'',
''          emptyDir: {}'',
''        - name: host-modules'',
''          hostPath:'',
''            path: /lib/modules'',
''        - name: xtables-lock'',
''          hostPath:'',
''            path: /run/xtables.lock'',
''            type: FileOrCreate'',
''        - name: shared-dir'',
''          hostPath:'',
''            path: ''],
Act False False (Pipe [CArg (AField [''Values'', ''kubeletConfig'', ''kubeletDir''])]),
Txt [''/pods'',
''        - name: systemid'',
''          hostPath:'',
''            path: ''],
Act False False (Pipe [CArg (AField [''Values'', ''openVSwitchDir''])]),
Txt ['''',
''        - name: host-run-ovs'',
''          hostPath:'',
''            path: /run/openvswitch'',
''        - name: host-run-ovn'',
''          hostPath:'',
''            path: /run/ovn'',
''        - name: cni-conf'',
''          hostPath:'',
''            path: ''],
Act False False (Pipe [CArg (AField [''Values'', ''cniConf'', ''cniConfigDir''])]),
Txt ['''',
''        - name: cni-bin'',
''          hostPath:'',
''            path: ''],
Act False False (Pipe [CArg (AField [''Values'', ''cniConf'', ''cniBinDir''])])]\<close>

definition kube_ovn_cni_daemonset_part3 :: "tok list" where
  \<open>kube_ovn_cni_daemonset_part3 = [
Txt ['''',
''        - name: host-ns'',
''          hostPath:'',
''            path: /var/run/netns'',
''        - name: host-dbus'',
''          hostPath:'',
''            path: /var/run/dbus'',
''        - name: kube-ovn-log'',
''          hostPath:'',
''            path: ''],
Act False False (Pipe [CArg (AField [''Values'', ''logConfig'', ''logDir''])]),
Txt [''/kube-ovn'',
''        - name: localtime'',
''          hostPath:'',
''            path: /etc/localtime'',
''        - name: host-log-ovs'',
''          hostPath:'',
''            path: ''],
Act False False (Pipe [CArg (AField [''Values'', ''logConfig'', ''logDir''])]),
Txt [''/openvswitch'',
''        - name: host-log-ovn'',
''          hostPath:'',
''            path: ''],
Act False False (Pipe [CArg (AField [''Values'', ''logConfig'', ''logDir''])]),
Txt [''/ovn'',
''        ''],
Act True False (If [CArg (AField [''Values'', ''cniConf'', ''mountLocalBinDir''])]),
Txt ['''',
''        - name: local-bin'',
''          hostPath:'',
''            path: ''],
Act False False (Pipe [CArg (AField [''Values'', ''cniConfig'', ''mountLocalBinDir''])]),
Txt ['''',
''        ''],
Act True False (End),
Txt ['''',
''        ''],
Act True False (If [CArg (AField [''Values'', ''components'', ''enableOVNIPSec''])]),
Txt ['''',
''        - name: ovs-ipsec-keys'',
''          hostPath:'',
''            path: ''],
Act False False (Pipe [CArg (AField [''Values'', ''ovnIPSecKeysDir''])]),
Txt ['''',
''        ''],
Act True False (End)]\<close>

definition kube_ovn_cni_daemonset :: "tok list" where
  "kube_ovn_cni_daemonset = kube_ovn_cni_daemonset_part1 @ kube_ovn_cni_daemonset_part2 @ kube_ovn_cni_daemonset_part3"

definition ovs_ovn_daemonset_part1 :: "tok list" where
  \<open>ovs_ovn_daemonset_part1 = [
Txt [''kind: DaemonSet'',
''apiVersion: apps/v1'',
''metadata:'',
''  name: ovs-ovn'',
''  namespace: ''],
Act False False (Pipe [CArg (AField [''Values'', ''namespace''])]),
Txt ['''',
''  annotations:'',
''    kubernetes.io/description: |'',
''      This daemon set launches the openvswitch daemon.'',
''    chart-version: "''],
Act False False (Pipe [CArg (AField [''Chart'', ''Name''])]),
Txt [''-''],
Act False False (Pipe [CArg (AField [''Chart'', ''Version''])]),
Txt [''"'',
''spec:'',
''  selector:'',
''    matchLabels:'',
''      app: ovs'',
''  ''],
Act True False (Decl ''$updateStrategyType'' [CFun ''include'' [AStr ''kubeovn.ovs-ovn.updateStrategy'', ADot], CFun ''trim'' []]),
Txt [''    '',
''  updateStrategy:'',
''    type: ''],
Act False False (Pipe [CArg (AVar ''$updateStrategyType'' [])]),
Txt ['''',
''    ''],
Act True False (If [CFun ''eq'' [AVar ''$updateStrategyType'' [], AStr ''RollingUpdate'']]),
Txt ['''',
''    rollingUpdate:'',
''      maxSurge: 1'',
''      maxUnavailable: 0'',
''    ''],
Act True False (End),
Txt ['''',
''  template:'',
''    metadata:'',
''      labels:'',
''        app: ovs'',
''        component: network'',
''        type: infra'',
''      annotations:'',
''        chart-version: "''],
Act False False (Pipe [CArg (AField [''Chart'', ''Name''])]),
Txt [''-''],
Act False False (Pipe [CArg (AField [''Chart'', ''Version''])]),
Txt [''"'',
''    spec:'',
''      tolerations:'',
''        - effect: NoSchedule'',
''          operator: Exists'',
''        - effect: NoExecute'',
''          operator: Exists'',
''        - key: CriticalAddonsOnly'',
''          operator: Exists'',
''      priorityClassName: system-node-critical'',
''      serviceAccountName: ovn-ovs'',
''      automountServiceAccountToken: true'',
''      hostNetwork: true'',
''      hostPID: true'',
''      securityContext:'',
''        seccompProfile:'',
''          type: RuntimeDefault'',
''      initContainers:'',
''        - name: hostpath-init'',
''          image: ''],
Act False False (Pipe [CArg (AField [''Values'', ''global'', ''registry'', ''address''])]),
Txt [''/''],
Act False False (Pipe [CArg (AField [''Values'', ''global'', ''images'', ''kubeovn'', ''repository''])]),
Txt ['':''],
Act False False (Pipe [CArg (AField [''Values'', ''global'', ''images'', ''kubeovn'', ''tag''])]),
Txt ['''',
''          imagePullPolicy: ''],
Act False False (Pipe [CArg (AField [''Values'', ''imagePullPolicy''])]),
Txt ['''',
''          command:'',
''            - sh'',
''            - -xec'',
''            - |'',
''              chmod +t /usr/local/sbin'',
''              chown -R nobody: /var/run/ovn /var/log/ovn /etc/openvswitch /var/run/openvswitch /var/log/openvswitch'',
''              iptables -V'',
''              ''],
Act True False (If [CFun ''not'' [AField [''Values'', ''disableModulesManagement'']]]),
Txt ['''',
''              /usr/share/openvswitch/scripts/ovs-ctl load-kmod'',
''              ''],
Act True False (Else),
Txt ['''',
''              ln -sf /bin/true /usr/local/sbin/modprobe'',
''              ln -sf /bin/true /usr/local/sbin/modinfo'',
''              ln -sf /bin/true /usr/local/sbin/rmmod'',
''              ''],
Act True False (End),
Txt ['''',
''          securityContext:'',
''            allowPrivilegeEscalation: true'',
''            capabilities:'',
''              drop:'',
''                - ALL'',
''            privileged: true'',
''            runAsUser: 0'',
''          volumeMounts:'',
''            - mountPath: /lib/modules'',
''              name: host-modules'',
''              readOnly: true'',
''            - mountPath: /usr/local/sbin'',
''              name: usr-local-sbin'',
''            - mountPath: /var/log/ovn'',
''              name: host-log-ovn'',
''            - mountPath: /var/run/ovn'',
''              name: host-run-ovn'',
''            - mountPath: /etc/openvswitch'',
''              name: host-config-openvswitch'',
''            - mountPath: /var/run/openvswitch'',
''              name: host-run-ovs'',
''            - mountPath: /var/log/openvswitch'',
''              name: host-log-ovs'',
''      containers:'',
''        - name: openvswitch'',
''          image: ''],
Act False False (Pipe [CArg (AField [''Values'', ''global'', ''registry'', ''address''])]),
Txt [''/''],
Act False False (Pipe [CArg (AField [''Values'', ''global'', ''images'', ''kubeovn'', ''repository''])]),
Txt ['':''],
Act False False (Pipe [CArg (AField [''Values'', ''global'', ''images'', ''kubeovn'', ''tag''])]),
Txt ['''',
''          imagePullPolicy: ''],
Act False False (Pipe [CArg (AField [''Values'', ''imagePullPolicy''])]),
Txt ['''',
''          command: ["/kube-ovn/start-ovs.sh"]'',
''          securityContext:'',
''            runAsUser: ''],
Act False False (Pipe [CFun ''include'' [AStr ''kubeovn.runAsUser'', ADot]]),
Txt ['''',
''            privileged: false'',
''            capabilities:'',
''              add:'',
''                - NET_ADMIN'',
''                - NET_BIND_SERVICE'',
''                - NET_RAW'',
''                - SYS_NICE'',
''                - SYS_ADMIN'',
''          env:'',
''            - name: ENABLE_SSL'',
''              value: "''],
Act False False (Pipe [CArg (AField [''Values'', ''networking'', ''enableSSL''])]),
Txt [''"'',
''            - name: POD_IP'',
''              valueFrom:'',
''                fieldRef:'',
''                  fieldPath: status.podIP'',
''            - name: POD_NAME'',
''              valueFrom:'',
''                fieldRef:'',
''                  fieldPath: metadata.name'',
''            - name: POD_NAMESPACE'',
''              valueFrom:'',
''                fieldRef:'',
''                  fieldPath: metadata.namespace'',
''            - name: HW_OFFLOAD'',
''              value: "''],
Act True False (Pipe [CArg (AField [''Values'', ''components'', ''hardwareOffload''])]),
Txt [''"'',
''            - name: TUNNEL_TYPE'',
''              value: "''],
Act True False (Pipe [CArg (AField [''Values'', ''networking'', ''tunnelType''])]),
Txt [''"'',
''            - name: NODE_NAME'',
''              valueFrom:'',
''                fieldRef:'',
''                  fieldPath: spec.nodeName'',
''            - name: OVN_DB_IPS'',
''              value: "''],
Act False False (Pipe [CArg (AField [''Values'', ''MASTER_NODES'']), CFun ''default'' [APipe [CFun ''include'' [AStr ''kubeovn.nodeIPs'', ADot]]]]),
Txt [''"'',
''            - name: OVN_REMOTE_PROBE_INTERVAL'',
''              value: "''],
Act False False (Pipe [CArg (AField [''Values'', ''networking'', ''ovnRemoteProbeInterval''])]),
Txt [''"'',
''            - name: OVN_REMOTE_OPENFLOW_INTERVAL'',
''              value: "''],
Act False False (Pipe [CArg (AField [''Values'', ''networking'', ''ovnRemoteOpenFlowInterval''])])]\<close>

definition ovs_ovn_daemonset_part2 :: "tok list" where
  \<open>ovs_ovn_daemonset_part2 = [
Txt [''"'',
''          volumeMounts:'',
''            - mountPath: /usr/local/sbin'',
''              name: usr-local-sbin'',
''            - mountPath: /lib/modules'',
''              name: host-modules'',
''              readOnly: true'',
''            - mountPath: /var/run/openvswitch'',
''              name: host-run-ovs'',
''            - mountPath: /var/run/ovn'',
''              name: host-run-ovn'',
''            - mountPath: /etc/openvswitch'',
''              name: host-config-openvswitch'',
''            - mountPath: /var/log/openvswitch'',
''              name: host-log-ovs'',
''            - mountPath: /var/log/ovn'',
''              name: host-log-ovn'',
''            - mountPath: /etc/localtime'',
''              name: localtime'',
''              readOnly: true'',
''            - mountPath: /var/run/tls'',
''              name: kube-ovn-tls'',
''            - mountPath: /var/run/containerd'',
''              name: cruntime'',
''              readOnly: true'',
''          readinessProbe:'',
''            exec:'',
''              command:'',
''                - bash'',
''                - /kube-ovn/ovs-healthcheck.sh'',
''            initialDelaySeconds: 10'',
''            periodSeconds: 5'',
''            timeoutSeconds: 45'',
''          livenessProbe:'',
''            exec:'',
''              command:'',
''                - bash'',
''                - /kube-ovn/ovs-healthcheck.sh'',
''            initialDelaySeconds: 60'',
''            periodSeconds: 5'',
''            failureThreshold: 5'',
''            timeoutSeconds: 45'',
''          resources:'',
''            requests:'',
''              cpu: ''],
Act False False (Pipe [CFun ''index'' [AField [''Values''], AStr ''ovsOVN'', AStr ''requests'', AStr ''cpu'']]),
Txt ['''',
''              memory: ''],
Act False False (Pipe [CFun ''index'' [AField [''Values''], AStr ''ovsOVN'', AStr ''requests'', AStr ''memory'']]),
Txt ['''',
''            limits:'',
''              cpu: ''],
Act False False (Pipe [CFun ''index'' [AField [''Values''], AStr ''ovsOVN'', AStr ''limits'', AStr ''cpu'']]),
Txt ['''',
''              memory: ''],
Act False False (Pipe [CFun ''index'' [AField [''Values''], AStr ''ovsOVN'', AStr ''limits'', AStr ''memory'']]),
Txt ['''',
''              ephemeral-storage: ''],
Act False False (Pipe [CFun ''index'' [AField [''Values''], AStr ''ovsOVN'', AStr ''limits'', AStr ''ephemeralStorage'']]),
Txt ['''',
''      nodeSelector:'',
''        kubernetes.io/os: "linux"'',
''      volumes:'',
''        - name: usr-local-sbin'',
''          emptyDir: {}'',
''        - name: host-modules'',
''          hostPath:'',
''            path: /lib/modules'',
''        - name: host-run-ovs'',
''          hostPath:'',
''            path: /run/openvswitch'',
''        - name: host-run-ovn'',
''          hostPath:'',
''            path: /run/ovn'',
''        - name: host-config-openvswitch'',
''          hostPath:'',
''            path: ''],
Act False False (Pipe [CArg (AField [''Values'', ''openVSwitchDir''])]),
Txt ['''',
''        - name: host-log-ovs'',
''          hostPath:'',
''            path: ''],
Act False False (Pipe [CArg (AField [''Values'', ''logConfig'', ''logDir''])]),
Txt [''/openvswitch'',
''        - name: host-log-ovn'',
''          hostPath:'',
''            path: ''],
Act False False (Pipe [CArg (AField [''Values'', ''logConfig'', ''logDir''])]),
Txt [''/ovn'',
''        - name: localtime'',
''          hostPath:'',
''            path: /etc/localtime'',
''        - name: kube-ovn-tls'',
''          secret:'',
''            optional: true'',
''            secretName: kube-ovn-tls'',
''        - hostPath:'',
''            path: /var/run/containerd'',
''          name: cruntime'']]\<close>

definition ovs_ovn_daemonset :: "tok list" where
  "ovs_ovn_daemonset = ovs_ovn_daemonset_part1 @ ovs_ovn_daemonset_part2"

definition kube_ovn_pinger_daemonsets_part1 :: "tok list" where
  \<open>kube_ovn_pinger_daemonsets_part1 = [
Txt [''kind: DaemonSet'',
''apiVersion: apps/v1'',
''metadata:'',
''  name: kube-ovn-pinger'',
''  namespace: ''],
Act False False (Pipe [CArg (AField [''Values'', ''namespace''])]),
Txt ['''',
''  annotations:'',
''    kubernetes.io/description: |'',
''      This daemon set launches the openvswitch daemon.'',
''spec:'',
''  selector:'',
''    matchLabels:'',
''      app: kube-ovn-pinger'',
''  updateStrategy:'',
''    type: RollingUpdate'',
''  template:'',
''    metadata:'',
''      labels:'',
''        app: kube-ovn-pinger'',
''        component: network'',
''        type: infra'',
''    spec:'',
''      priorityClassName: system-node-critical'',
''      tolerations:'',
''        - effect: NoSchedule'',
''          operator: Exists'',
''        - effect: NoExecute'',
''          operator: Exists'',
''        - key: CriticalAddonsOnly'',
''          operator: Exists'',
''      serviceAccountName: kube-ovn-app'',
''      automountServiceAccountToken: true'',
''      hostPID: false'',
''      securityContext:'',
''        seccompProfile:'',
''          type: RuntimeDefault'',
''      initContainers:'',
''        - name: hostpath-init'',
''          image: ''],
Act False False (Pipe [CArg (AField [''Values'', ''global'', ''registry'', ''address''])]),
Txt [''/''],
Act False False (Pipe [CArg (AField [''Values'', ''global'', ''images'', ''kubeovn'', ''repository''])]),
Txt ['':''],
Act False False (Pipe [CArg (AField [''Values'', ''global'', ''images'', ''kubeovn'', ''tag''])]),
Txt ['''',
''          imagePullPolicy: ''],
Act False False (Pipe [CArg (AField [''Values'', ''imagePullPolicy''])]),
Txt ['''',
''          command:'',
''            - sh'',
''            - -c'',
''            - "chown -R nobody: /var/log/kube-ovn"'',
''          securityContext:'',
''            allowPrivilegeEscalation: true'',
''            capabilities:'',
''              drop:'',
''                - ALL'',
''            privileged: true'',
''            runAsUser: 0'',
''          volumeMounts:'',
''            - name: kube-ovn-log'',
''              mountPath: /var/log/kube-ovn'',
''      containers:'',
''        - name: pinger'',
''          image: ''],
Act False False (Pipe [CArg (AField [''Values'', ''global'', ''registry'', ''address''])]),
Txt [''/''],
Act False False (Pipe [CArg (AField [''Values'', ''global'', ''images'', ''kubeovn'', ''repository''])]),
Txt ['':''],
Act False False (Pipe [CArg (AField [''Values'', ''global'', ''images'', ''kubeovn'', ''tag''])]),
Txt ['''',
''          command:'',
''          - /kube-ovn/kube-ovn-pinger'',
''          args:'',
''          - --external-address='',
''          ''],
Act True True (If [CFun ''eq'' [AField [''Values'', ''networking'', ''netStack''], AStr ''dual_stack'']]),
Txt ['''',
''          ''],
Act False False (Pipe [CArg (AField [''Values'', ''dualStack'', ''pingerExternalAddress''])]),
Txt ['''',
''          ''],
Act True True (ElseIf [CFun ''eq'' [AField [''Values'', ''networking'', ''netStack''], AStr ''ipv4'']]),
Txt ['''',
''          ''],
Act False False (Pipe [CArg (AField [''Values'', ''ipv4'', ''pingerExternalAddress''])]),
Txt ['''',
''          ''],
Act True True (ElseIf [CFun ''eq'' [AField [''Values'', ''networking'', ''netStack''], AStr ''ipv6'']]),
Txt ['''',
''          ''],
Act False False (Pipe [CArg (AField [''Values'', ''ipv6'', ''pingerExternalAddress''])]),
Txt ['''',
''          ''],
Act True False (End),
Txt ['''',
''          - --external-dns='',
''          ''],
Act True True (If [CFun ''eq'' [AField [''Values'', ''networking'', ''netStack''], AStr ''dual_stack'']]),
Txt ['''',
''          ''],
Act False False (Pipe [CArg (AField [''Values'', ''dualStack'', ''pingerExternalDomain''])]),
Txt ['''',
''          ''],
Act True True (ElseIf [CFun ''eq'' [AField [''Values'', ''networking'', ''netStack''], AStr ''ipv4'']]),
Txt ['''',
''          ''],
Act False False (Pipe [CArg (AField [''Values'', ''ipv4'', ''pingerExternalDomain''])]),
Txt ['''',
''          ''],
Act True True (ElseIf [CFun ''eq'' [AField [''Values'', ''networking'', ''netStack''], AStr ''ipv6'']]),
Txt ['''',
''          ''],
Act False False (Pipe [CArg (AField [''Values'', ''ipv6'', ''pingerExternalDomain''])]),
Txt ['''',
''          ''],
Act True False (End),
Txt ['''',
''          - --logtostderr=false'',
''          - --alsologtostderr=true'',
''          - --log_file=/var/log/kube-ovn/kube-ovn-pinger.log'',
''          - --log_file_max_size=200'',
''          - --enable-metrics=''],
Act True False (Pipe [CArg (AField [''Values'', ''networking'', ''enableMetrics''])]),
Txt ['''',
''          imagePullPolicy: ''],
Act False False (Pipe [CArg (AField [''Values'', ''imagePullPolicy''])]),
Txt ['''',
''          securityContext:'',
''            runAsUser: ''],
Act False False (Pipe [CFun ''include'' [AStr ''kubeovn.runAsUser'', ADot]]),
Txt ['''',
''            privileged: false'',
''            capabilities:'',
''              add:'',
''                - NET_BIND_SERVICE'',
''                - NET_RAW'',
''          env:'',
''            - name: ENABLE_SSL'',
''              value: "''],
Act False False (Pipe [CArg (AField [''Values'', ''networking'', ''enableSSL''])]),
Txt [''"'',
''            - name: POD_IP'',
''              valueFrom:'',
''                fieldRef:'',
''                  fieldPath: status.podIP'',
''            - name: HOST_IP'',
''              valueFrom:'',
''                fieldRef:'',
''                  fieldPath: status.hostIP'',
''            - name: POD_NAME'',
''              valueFrom:'',
''                fieldRef:'',
''                  fieldPath: metadata.name'',
''            - name: POD_NAMESPACE'',
''              valueFrom:'',
''                fieldRef:'',
''                  fieldPath: metadata.namespace'',
''            - name: NODE_NAME'',
''              valueFrom:'',
''                fieldRef:'',
''                  fieldPath: spec.nodeName'',
''          volumeMounts:'',
''            - mountPath: /var/run/openvswitch'',
''              name: host-run-ovs'',
''            - mountPath: /var/run/ovn'',
''              name: host-run-ovn'',
''            - mountPath: /etc/openvswitch'',
''              name: host-config-openvswitch'',
''            - mountPath: /var/log/openvswitch'',
''              name: host-log-ovs'',
''              readOnly: true'',
''            - mountPath: /var/log/ovn'',
''              name: host-log-ovn'',
''              readOnly: true'',
''            - mountPath: /var/log/kube-ovn'',
''              name: kube-ovn-log'',
''            - mountPath: /etc/localtime'',
''              name: localtime'',
''              readOnly: true'',
''            - mountPath: /var/run/tls'',
''              name: kube-ovn-tls'',
''          resources:'',
''            requests:'',
''              cpu: ''],
Act False False (Pipe [CFun ''index'' [AField [''Values''], AStr ''kubeOvnPinger'', AStr ''requests'', AStr ''cpu'']]),
Txt ['''',
''              memory: ''],
Act False False (Pipe [CFun ''index'' [AField [''Values''], AStr ''kubeOvnPinger'', AStr ''requests'', AStr ''memory'']]),
Txt ['''',
''            limits:'',
''              cpu: ''],
Act False False (Pipe [CFun ''index'' [AField [''Values''], AStr ''kubeOvnPinger'', AStr ''limits'', AStr ''cpu'']]),
Txt ['''',
''              memory: ''],
Act False False (Pipe [CFun ''index'' [AField [''Values''], AStr ''kubeOvnPinger'', AStr ''limits'', AStr ''memory'']]),
Txt ['''',
''              ephemeral-storage: ''],
Act False False (Pipe [CFun ''index'' [AField [''Values''], AStr ''kubeOvnPinger'', AStr ''limits'', AStr ''ephemeralStorage'']])]\<close>

definition kube_ovn_pinger_daemonsets_part2 :: "tok list" where
  \<open>kube_ovn_pinger_daemonsets_part2 = [
Txt ['''',
''          livenessProbe:'',
''            httpGet:'',
''              path: /metrics'',
''              port: 8080'',
''            initialDelaySeconds: 15'',
''            periodSeconds: 20'',
''          readinessProbe:'',
''            httpGet:'',
''              path: /metrics'',
''              port: 8080'',
''            initialDelaySeconds: 5'',
''            periodSeconds: 10'',
''      nodeSelector:'',
''        kubernetes.io/os: "linux"'',
''      volumes:'',
''        - name: host-run-ovs'',
''          hostPath:'',
''            path: /run/openvswitch'',
''        - name: host-run-ovn'',
''          hostPath:'',
''            path: /run/ovn'',
''        - name: host-config-openvswitch'',
''          hostPath:'',
''            path: ''],
Act False False (Pipe [CArg (AField [''Values'', ''openVSwitchDir''])]),
Txt ['''',
''        - name: host-log-ovs'',
''          hostPath:'',
''            path: ''],
Act False False (Pipe [CArg (AField [''Values'', ''logConfig'', ''logDir''])]),
Txt [''/openvswitch'',
''        - name: kube-ovn-log'',
''          hostPath:'',
''            path: ''],
Act False False (Pipe [CArg (AField [''Values'', ''logConfig'', ''logDir''])]),
Txt [''/kube-ovn'',
''        - name: host-log-ovn'',
''          hostPath:'',
''            path: ''],
Act False False (Pipe [CArg (AField [''Values'', ''logConfig'', ''logDir''])]),
Txt [''/ovn'',
''        - name: localtime'',
''          hostPath:'',
''            path: /etc/localtime'',
''        - name: kube-ovn-tls'',
''          secret:'',
''            optional: true'',
''            secretName: kube-ovn-tls'']]\<close>

definition kube_ovn_pinger_daemonsets :: "tok list" where
  "kube_ovn_pinger_daemonsets = kube_ovn_pinger_daemonsets_part1 @ kube_ovn_pinger_daemonsets_part2"

definition DaemonsetList :: "tok list list" where
  "DaemonsetList = [ovs_ovn_dpdk_daemonset,
     kube_ovn_cni_daemonset,
     ovs_ovn_daemonset,
     kube_ovn_pinger_daemonsets]"

end
