(* ===== verification/Templates.thy ===== *)
theory Templates
  imports Cluster Templates_Small Templates_ClusterRoles Templates_Deployments Templates_Daemonsets
begin

text \<open>
  \<^verbatim>\<open>internal/templates/objects.go\<close>: which templates belong to which object type. The Go variable is
  a map, so its iteration order is not the order of the source; an iteration is an arbitrary
  permutation of the list below (\<open>map_iteration\<close>). The list of CRD texts is a parameter: the
  operator only hands these texts on to the YAML decoder.
\<close>

definition OrderedObjectList :: "tok list list \<Rightarrow> (objkind \<times> tok list list) list" where
  "OrderedObjectList CRDList = [
     (CustomResourceDefinition, CRDList),
     (Secret, SecretList),
     (ServiceAccount, ServiceAccountList),
     (RoleBinding, RoleBindingList),
     (ClusterRole, ClusterRoleList),
     (Role, RoleList),
     (ClusterRoleBinding, ClusterRoleBindingList),
     (ConfigMap, ConfigMapList),
     (Deployment, DeploymentList),
     (DaemonSet, DaemonsetList),
     (Service, ServicesList),
     (ValidatingWebhookConfiguration, ValidatingWebhookConfigurationList)]"

definition map_iteration :: "tok list list \<Rightarrow> (objkind \<times> tok list list) list \<Rightarrow> bool" where
  "map_iteration CRDList order \<longleftrightarrow> mset order = mset (OrderedObjectList CRDList)"

lemma map_iteration_set: "map_iteration crds order \<Longrightarrow> set order = set (OrderedObjectList crds)"
  unfolding map_iteration_def by (metis set_mset_mset)

end
