(* ===== verification/Render.thy ===== *)
theory Render
  imports Templates
begin

text \<open>
  \<^verbatim>\<open>internal/render/render.go\<close>: from a \<^verbatim>\<open>Configuration\<close> to the objects to apply. The
  configuration's specification becomes the value tree the templates read (\<open>generateMap\<close>, which is
  JSON encoding with \<^verbatim>\<open>omitempty\<close> followed by decoding), some computed values are added, and every
  template of a type is rendered and decoded (\<open>generateObject\<close>, \<open>GenerateObjects\<close>). The three
  clean-up scripts the node controller runs are rendered by \<open>generateScript\<close> and
  \<open>GenerateChassisCleanupScript\<close>.
\<close>

section \<open>JSON encoding with omitempty\<close>

definition j_str :: "string \<Rightarrow> string \<Rightarrow> (string \<times> gval) list" where
  "j_str k s = (if s = '''' then [] else [(k, VStr s)])"

definition j_ptr :: "string \<Rightarrow> bool option \<Rightarrow> (string \<times> gval) list" where
  "j_ptr k p = (case p of None \<Rightarrow> [] | Some b \<Rightarrow> [(k, VBool b)])"

definition j_bool :: "string \<Rightarrow> bool \<Rightarrow> (string \<times> gval) list" where
  "j_bool k b = (if b then [(k, VBool True)] else [])"

definition j_int :: "string \<Rightarrow> int \<Rightarrow> (string \<times> gval) list" where
  "j_int k n = (if n = 0 then [] else [(k, VFloat n 0)])"

definition j_strs :: "string \<Rightarrow> string list \<Rightarrow> (string \<times> gval) list" where
  "j_strs k xs = (if xs = [] then [] else [(k, VList (map VStr xs))])"

text \<open>A struct is never empty for \<^verbatim>\<open>omitempty\<close>; a quantity encodes itself as a string.\<close>

definition j_struct :: "string \<Rightarrow> (string \<times> gval) list \<Rightarrow> (string \<times> gval) list" where
  "j_struct k m = [(k, VMap m)]"

definition j_quantity :: "string \<Rightarrow> quantity \<Rightarrow> (string \<times> gval) list" where
  "j_quantity k q = [(k, VStr q)]"

definition json_CPUMemSpec :: "CPUMemSpec \<Rightarrow> (string \<times> gval) list" where
  "json_CPUMemSpec r = concat [j_quantity ''cpu'' (CPU r), j_quantity ''memory'' (Memory r),
     j_quantity ''ephemeralStorage'' (EphemeralStorage r)]"

definition json_ResourceSpec :: "ResourceSpec \<Rightarrow> (string \<times> gval) list" where
  "json_ResourceSpec r = concat [j_struct ''requests'' (json_CPUMemSpec (Requests r)),
     j_struct ''limits'' (json_CPUMemSpec (Limits r))]"

definition json_NetworkStackSpec :: "NetworkStackSpec \<Rightarrow> (string \<times> gval) list" where
  "json_NetworkStackSpec n = concat [j_str ''podCIDR'' (PodCIDR n), j_str ''podGateway'' (PodGateway n),
     j_str ''serviceCIDR'' (ServiceCIDR n), j_str ''joinCIDR'' (JoinCIDR n),
     j_str ''pingerExternalAddress'' (PingerExternalAddress n),
     j_str ''pingerExternalDomain'' (PingerExternalDomain n)]"

definition json_VlanSpec :: "VlanSpec \<Rightarrow> (string \<times> gval) list" where
  "json_VlanSpec v = concat [j_str ''providerName'' (ProviderName v), j_str ''vlanInterface'' (VlanInterface v),
     j_str ''vlanName'' (VlanName v), j_int ''vlanId'' (VlanID v)]"

definition json_NetworkingSpec :: "NetworkingSpec \<Rightarrow> (string \<times> gval) list" where
  "json_NetworkingSpec n = concat [
     j_str ''netStack'' (NetStack n), j_ptr ''enableSSL'' (EnableSSL n), j_str ''networkType'' (NetworkType n),
     j_str ''tunnelType'' (TunnelType n), j_str ''interface'' (Interface n),
     j_str ''dpdkTunnelInterface'' (DpdkTunnelInterface n), j_str ''excludeIPS'' (ExcludeIPS n),
     j_str ''podNicType'' (PodNicType n), j_struct ''vlan'' (json_VlanSpec (Vlan n)),
     j_ptr ''exchangeLinkName'' (ExchangeLinkName n), j_ptr ''enableEIPSNAT'' (EnableEIPSNAT n),
     j_str ''defaultSubnet'' (DefaultSubnet n), j_str ''defaultVPC'' (DefaultVPC n),
     j_str ''nodeSubnet'' (NodeSubnet n), j_ptr ''enableECMP'' (EnableECMP n),
     j_ptr ''enableMetrics'' (EnableMetrics n), j_str ''nodeLocalDNSIPS'' (NodeLocalDNSIPS n),
     j_int ''probeInterval'' (ProbeInterval n), j_int ''ovnNorthdProbeInterval'' (OvnNorthdProbeInterval n),
     j_int ''ovnLeaderProbeInterval'' (OvnLeaderProbeInterval n),
     j_int ''ovnRemoteProbeInterval'' (OvnRemoteProbeInterval n),
     j_int ''ovnRemoteOpenflowInterval'' (OvnRemoteOpenflowInterval n),
     j_int ''ovnNorthdNThreads'' (OvnNorthdNThreads n), j_ptr ''enableCompact'' (EnableCompact n),
     j_str ''skipConnTrackDstCIDRs'' (SkipConnTrackDstCIDRs n),
     j_str ''externalGatewayConfigNS'' (ExternalGatewayConfigNS n)]"

definition json_ComponentSpec :: "ComponentSpec \<Rightarrow> (string \<times> gval) list" where
  "json_ComponentSpec c = concat [
     j_ptr ''enableLB'' (EnableLB c), j_ptr ''enableNP'' (EnableNP c),
     j_ptr ''enableExternalVPC'' (EnableExternalVPC c), j_ptr ''hardwareOffload'' (HardwareOffload c),
     j_ptr ''enableLBSVC'' (EnableLBSVC c), j_ptr ''enableKeepVMIP'' (EnableKeepVMIP c),
     j_ptr ''lsDnatModDlDst'' (LsDnatModDlDst c), j_ptr ''lsCtSkipOstLportIPS'' (LsCtSkipOstLportIPS c),
     j_ptr ''checkGateway'' (CheckGateway c), j_ptr ''logicalGateway'' (LogicalGateway c),
     j_ptr ''enableBindLocalIP'' (EnableBindLocalIP c), j_ptr ''secureServing'' (SecureServing c),
     j_struct ''u2oFeatures'' (j_bool ''overlayOnlyRouting'' (OverlayOnlyRouting (U2OFeaturesField c))),
     j_ptr ''u2oInterconnection'' (U2OInterconnection c), j_ptr ''enableTProxy'' (EnableTProxy c),
     j_ptr ''enableIC'' (EnableIC c), j_ptr ''enableNATGateway'' (EnableNATGateway c),
     j_ptr ''enableOVNIPSec'' (EnableOVNIPSec c), j_ptr ''enableANP'' (EnableANP c),
     j_ptr ''setVLANTxOff'' (SetVLANTxOff c), j_int ''OVSDBConTimeout'' (OVSDBConTimeout c),
     j_int ''OVSDBInactivityTimeout'' (OVSDBInactivityTimeout c),
     j_ptr ''enableLiveMigrationOptimize'' (EnableLiveMigrationOptimize c),
     j_str ''npEnforcement'' (NPEnforcement c), j_ptr ''enableDNSNameResolver'' (EnableDNSNameResolver c),
     j_ptr ''enableOVNLBPreferLocal'' (EnableOVNLBPreferLocal c)]"

definition json_GlobalSpec :: "GlobalSpec \<Rightarrow> (string \<times> gval) list" where
  "json_GlobalSpec g = concat [
     j_struct ''registry'' (concat [j_str ''address'' (Address (Registry g)),
        j_strs ''imagePullSecrets'' (ImagePullSecrets (Registry g))]),
     j_struct ''images'' (concat [
        j_struct ''kubeovn'' (concat [j_str ''repository'' (Repository (KubeOVNImage (Images g))),
           j_str ''tag'' (Tag (KubeOVNImage (Images g))),
           j_str ''dpdkRepository'' (DpdkRepository (KubeOVNImage (Images g))),
           j_str ''vpcRepository'' (VpcRepository (KubeOVNImage (Images g)))]),
        j_struct ''natgateway'' (concat [j_str ''repository'' (NATRepository (NATGatewayImage (Images g))),
           j_str ''tag'' (NATTag (NATGatewayImage (Images g)))])])]"

definition json_CNIConfSpec :: "CNIConfSpec \<Rightarrow> (string \<times> gval) list" where
  "json_CNIConfSpec c = concat [
     j_str ''cniConfigPriority'' (CNIConfigPriority c), j_str ''cniConfigDir'' (CNIConfigDir c),
     j_str ''mountCNIConfDir'' (MountCNIConfDir c), j_str ''cniBinDir'' (CNIBinDir c),
     j_str ''cniConfFile'' (CNIConfFile c), j_str ''localBinDir'' (LocalBinDir c),
     j_ptr ''mountLocalBinDir'' (MountLocalBinDir c), j_ptr ''nonPrimaryCNI'' (NonPrimaryCNI c)]"

definition json_ConfigurationSpec :: "ConfigurationSpec \<Rightarrow> (string \<times> gval) list" where
  "json_ConfigurationSpec s = concat [
     j_struct ''global'' (json_GlobalSpec (Global s)),
     j_str ''imagePullPolicy'' (ImagePullPolicy s),
     j_str ''masterNodesLabel'' (MasterNodesLabel s),
     j_struct ''networking'' (json_NetworkingSpec (Networking s)),
     j_struct ''components'' (json_ComponentSpec (Component s)),
     j_struct ''ipv4'' (json_NetworkStackSpec (IPv4 s)),
     j_struct ''ipv6'' (json_NetworkStackSpec (IPv6 s)),
     j_struct ''dualStack'' (json_NetworkStackSpec (DualStack s)),
     j_struct ''performance'' (concat [j_int ''gcInterval'' (GCInterval (Performance s)),
        j_int ''inspectInterval'' (InspectInterval (Performance s)),
        j_int ''ovsVSCtlConcurrency'' (OVSVSCtlConcurrency (Performance s))]),
     j_struct ''debug'' (concat [j_ptr ''enableMirror'' (EnableMirror (Debug s)),
        j_str ''mirrorInterface'' (MirrorInterface (Debug s))]),
     j_struct ''cniConf'' (json_CNIConfSpec (CNIConf s)),
     j_struct ''kubeletConfig'' (j_str ''kubeletDir'' (KubeletDir (KubeletConfig s))),
     j_struct ''logConfig'' (j_str ''logDir'' (LogDir (LogConfig s))),
     j_str ''openVSwitchDir'' (OpenVSwitchDir s),
     j_str ''ovnIPSecKeysDir'' (OVNIPSecKeysDir s),
     j_str ''ovnDir'' (OVNDir s),
     j_ptr ''disableModulesManagement'' (DisableModulesManagement s),
     j_ptr ''hybridDPDK'' (HybridDPDK s),
     j_str ''hugepageSizeType'' (HugepageSizeType s),
     j_quantity ''hugePages'' (HugePages s),
     j_str ''dpdkImageTag'' (DPDKImageTag s),
     j_quantity ''dpdkCPU'' (DPDKCPU s),
     j_quantity ''dpdkMEMORY'' (DPDKMemory s),
     j_struct ''ovnCentral'' (json_ResourceSpec (OVNCentral s)),
     j_struct ''ovsOVN'' (json_ResourceSpec (OVSOVN s)),
     j_struct ''kubeOvnController'' (json_ResourceSpec (KubeOVNController s)),
     j_struct ''kubeOvnCNI'' (json_ResourceSpec (KubeOVNCNI s)),
     j_struct ''kubeOvnPinger'' (json_ResourceSpec (KubeOVNPinger s)),
     j_struct ''kubeOvnMonitor'' (json_ResourceSpec (KubeOVNMonitor s))]"

section \<open>The value tree\<close>

definition generateMap :: "Configuration \<Rightarrow> gval" where
  "generateMap config = VMap [(''Values'', VMap (json_ConfigurationSpec (Spec config)))]"

text \<open>
  The values Helm's \<^verbatim>\<open>_helpers.tpl\<close> computes. The code dereferences the pointer
  \<^verbatim>\<open>EnableOVNIPSec\<close>, so a configuration without that field makes it panic.
\<close>

definition generateIncludeValues :: "Configuration \<Rightarrow> goerror + (string \<times> gval) list" where
  "generateIncludeValues config =
     (case EnableOVNIPSec (Component (Spec config)) of
        None \<Rightarrow> Inl (EPanic ''nil pointer dereference'')
      | Some ipsec \<Rightarrow> Inr [
          (''nodeCount'', VInt (int (length (MatchingNodeAddresses (Status config))))),
          (''nodeIPs'', VStr (strings_Join (MatchingNodeAddresses (Status config)) '','')),
          (''ovs-ovn'', VMap [(''updateStrategy'', VStr ''RollingUpdate'')]),
          (''ovn'', VMap [(''versionCompatibility'', VFloat 2403 (-2))]),
          (''runAsUser'', VInt (if ipsec then 0 else 65534))])"

definition podAffinityTemplate :: "tok list" where
  \<open>podAffinityTemplate = [
Act True True (Decl ''$parts'' [CFun ''splitList'' [AStr ''='', AField [''Spec'', ''MasterNodesLabel'']]]),
Txt ['''',
''''],
Act True True (Decl ''$key'' [CFun ''index'' [AVar ''$parts'' [], ANum 0]]),
Txt ['''',
''''],
Act True True (Decl ''$val'' [CArg (AStr '''')]),
Txt ['''',
''''],
Act True True (If [CFun ''gt'' [APipe [CFun ''len'' [AVar ''$parts'' []]], ANum 1]]),
Txt ['''',
''  ''],
Act True True (Assign ''$val'' [CFun ''join'' [AStr ''='', APipe [CFun ''rest'' [AVar ''$parts'' []]]]]),
Txt ['''',
''''],
Act True True (End),
Txt ['''',
''nodeAffinity:'',
''  requiredDuringSchedulingIgnoredDuringExecution:'',
''    nodeSelectorTerms:'',
''      - matchExpressions:'',
''          - key: ''],
Act False False (Pipe [CArg (AVar ''$key'' [])]),
Txt ['''',
''          ''],
Act True False (If [CFun ''ne'' [AVar ''$val'' [], AStr '''']]),
Txt ['''',
''            operator: In'',
''            values:'',
''              - ''],
Act False False (Pipe [CArg (AVar ''$val'' []), CFun ''quote'' []]),
Txt ['''',
''          ''],
Act True False (Else),
Txt ['''',
''            operator: Exists'',
''          ''],
Act True False (End)]\<close>

text \<open>The template's data is the \<^verbatim>\<open>Configuration\<close> itself, of which it reads one field.\<close>

definition generateMasterNodeAffinity :: "funcmap \<Rightarrow> Configuration \<Rightarrow> goerror + string" where
  "generateMasterNodeAffinity F config =
     (if MasterNodesLabel (Spec config) = '''' then Inr ''''
      else case template_Parse F podAffinityTemplate of
        None \<Rightarrow> Inl (EMsg ''error parsing master node affinity template'')
      | Some ns \<Rightarrow> map_error (errorf ''error during master node affinity template execution'')
          (template_Execute F ns
             (VStruct [(''Spec'', VStruct [(''MasterNodesLabel'', VStr (MasterNodesLabel (Spec config)))])])))"

section \<open>Objects\<close>

fun InitialiseNewObject :: "objkind \<Rightarrow> objkind option" where
  "InitialiseNewObject Deployment = Some Deployment"
| "InitialiseNewObject CustomResourceDefinition = Some CustomResourceDefinition"
| "InitialiseNewObject Secret = Some Secret"
| "InitialiseNewObject ServiceAccount = Some ServiceAccount"
| "InitialiseNewObject ConfigMap = Some ConfigMap"
| "InitialiseNewObject RoleBinding = Some RoleBinding"
| "InitialiseNewObject ClusterRole = Some ClusterRole"
| "InitialiseNewObject Role = Some Role"
| "InitialiseNewObject ClusterRoleBinding = Some ClusterRoleBinding"
| "InitialiseNewObject DaemonSet = Some DaemonSet"
| "InitialiseNewObject Service = Some Service"
| "InitialiseNewObject ValidatingWebhookConfiguration = Some ValidatingWebhookConfiguration"
| "InitialiseNewObject (OtherKind k) = None"

text \<open>\<^verbatim>\<open>include\<close>: the key's dotted path in the data; a path that leads nowhere yields nil.\<close>

definition include_field :: "libs \<Rightarrow> gval list \<Rightarrow> goerror + gval" where
  "include_field L args = (case args of
     [VStr key, VMap data] \<Rightarrow> Inr (libNestedFieldCopy L (VMap data) (strings_Split key (CHR ''.'')))
   | _ \<Rightarrow> Inl (EMsg ''wrong type of argument for include''))"

text \<open>The function map of \<^verbatim>\<open>generateObject\<close>: sprig and \<open>lookup\<close> (a parameter), and \<open>include\<close>.\<close>

definition object_funcs :: "libs \<Rightarrow> funcmap \<Rightarrow> funcmap" where
  "object_funcs L F = F(''include'' := Some (include_field L))"

definition generateObject ::
    "libs \<Rightarrow> funcmap \<Rightarrow> tok list \<Rightarrow> gval \<Rightarrow> objkind \<Rightarrow> goerror + kobject option" where
  "generateObject L F input valuesObj kind =
     (case InitialiseNewObject kind of
        None \<Rightarrow> Inl (EMsg ''could not initialise new object for type'')
      | Some newObj \<Rightarrow>
          (case template_Parse (object_funcs L F) input of
             None \<Rightarrow> Inl (EPanic ''template.Must'')
           | Some tmpl \<Rightarrow>
               (case template_Execute (object_funcs L F) tmpl valuesObj of
                  Inl e \<Rightarrow> Inl (errorf ''error rending template'' e)
                | Inr output \<Rightarrow>
                    if output = '''' then Inr None
                    else (case libYamlUnmarshal L newObj output of
                            Inl e \<Rightarrow> Inl e
                          | Inr ob \<Rightarrow> Inr (Some ob)))))"

fun generate_all ::
    "libs \<Rightarrow> funcmap \<Rightarrow> tok list list \<Rightarrow> gval \<Rightarrow> objkind \<Rightarrow> goerror + kobject list" where
  "generate_all L F [] valsObj kind = Inr []"
| "generate_all L F (t # ts) valsObj kind =
     (case generateObject L F t valsObj kind of
        Inl e \<Rightarrow> Inl (errorf ''error returned from generateTemplate'' e)
      | Inr ob \<Rightarrow> (case generate_all L F ts valsObj kind of
          Inl e \<Rightarrow> Inl e
        | Inr obs \<Rightarrow> Inr (case ob of None \<Rightarrow> obs | Some x \<Rightarrow> x # obs)))"

text \<open>The version given to the operator replaces the image tag of the caller's configuration.\<close>

definition patch_version :: "Configuration \<Rightarrow> string \<Rightarrow> Configuration" where
  "patch_version config version = config\<lparr>Spec := (Spec config)\<lparr>Global := (Global (Spec config))\<lparr>Images :=
     (Images (Global (Spec config)))\<lparr>KubeOVNImage :=
       (KubeOVNImage (Images (Global (Spec config))))\<lparr>Tag := version\<rparr>\<rparr>\<rparr>\<rparr>\<rparr>"

text \<open>The values all templates of one call are rendered with.\<close>

definition template_values :: "libs \<Rightarrow> funcmap \<Rightarrow> Configuration \<Rightarrow> string \<Rightarrow> goerror + gval" where
  "template_values L F config caCert =
     ebind (map_error (errorf ''failed to set namespace field in values map'')
              (libSetNestedField L (generateMap config) (VStr (Namespace (Meta config))) [''Values'', ''namespace'']))
     (\<lambda>v1. ebind (map_error (errorf ''failed to set caCert field in values map'')
              (libSetNestedField L v1 (VStr caCert) [''Values'', ''caCert'']))
     (\<lambda>v2. ebind (generateIncludeValues config)
     (\<lambda>kubeovn. let v3 = (case v2 of VMap m \<Rightarrow> VMap (map_set m ''kubeovn'' (VMap kubeovn)) | v \<Rightarrow> v) in
       ebind (map_error (errorf ''failed to set field MASTER_NODES in values map'')
              (libSetNestedField L v3 (VStr (strings_Join (MatchingNodeAddresses (Status config)) '',''))
                 [''Values'', ''MASTER_NODES'']))
     (\<lambda>v4. ebind (map_error (errorf ''failed to generate master node affinity'')
              (generateMasterNodeAffinity F config))
     (\<lambda>affinity. if affinity = '''' then Inr v4
        else map_error (errorf ''failed to set field masterNodeAffinity in values map'')
               (libSetNestedField L v4 (VStr affinity) [''kubeovn'', ''masterNodeAffinity'']))))))"

text \<open>\<^verbatim>\<open>GenerateObjects\<close> changes the configuration it is given, so it returns it as well.\<close>

definition GenerateObjects ::
    "libs \<Rightarrow> funcmap \<Rightarrow> tok list list \<Rightarrow> Configuration \<Rightarrow> objkind \<Rightarrow> string \<Rightarrow> string \<Rightarrow>
     Configuration \<times> (goerror + kobject list)" where
  "GenerateObjects L F templates config kind version caCert =
     (let config' = patch_version config version in
      (config', ebind (template_values L F config' caCert) (\<lambda>vals. generate_all L F templates vals kind)))"

section \<open>Scripts\<close>

definition no_funcs :: funcmap where "no_funcs f = None"

definition generateScript :: "string \<Rightarrow> tok list \<Rightarrow> goerror + string" where
  "generateScript nodeAddress script =
     (case template_Parse no_funcs script of
        None \<Rightarrow> Inl (EMsg ''error parsing template'')
      | Some tmpl \<Rightarrow> map_error (errorf ''error during template execution'')
          (template_Execute no_funcs tmpl (VMap [(''NodeAddress'', VStr nodeAddress)])))"

definition GenerateNorthBoundCleanupScript :: "string \<Rightarrow> goerror + string" where
  "GenerateNorthBoundCleanupScript nodeAddress = generateScript nodeAddress CleanupNBDB"

definition GenerateSouthBoundCleanupScript :: "string \<Rightarrow> goerror + string" where
  "GenerateSouthBoundCleanupScript nodeAddress = generateScript nodeAddress CleanupSBDB"

definition GenerateChassisCleanupScript :: "string \<Rightarrow> goerror + string" where
  "GenerateChassisCleanupScript hostname =
     (case template_Parse no_funcs CleanupChassis of
        None \<Rightarrow> Inl (EMsg ''error parsing chassis cleanup template'')
      | Some tmpl \<Rightarrow> map_error (errorf ''error during template execution'')
          (template_Execute no_funcs tmpl (VMap [(''Hostname'', VStr hostname)])))"

end
