(* ===== verification/Config_Controller.thy ===== *)
theory Config_Controller
  imports Render
begin

text \<open>
  \<^verbatim>\<open>internal/controller/configuration_controller.go\<close>: the reconciler of the \<^verbatim>\<open>Configuration\<close>
  resource. A reconcile reads the resource, adds the operator's finalizer, and then runs four steps
  (conditions, the owner namespace of cluster-scoped objects, the master nodes, the objects), or, for a
  resource being deleted, removes the custom resources, the owner namespace and the finalizers.
  A step is given the working copy of the resource and returns it changed, with an error if there
  is one.
\<close>

section \<open>Helpers\<close>

fun internal_ip :: "(string \<times> string) list \<Rightarrow> string" where
  "internal_ip [] = ''''"
| "internal_ip ((ty, ad) # as) = (if ty = ''InternalIP'' then ad else internal_ip as)"

definition nodeInternalIP :: "Node \<Rightarrow> string" where
  "nodeInternalIP node = internal_ip (Addresses node)"

text \<open>
  \<^verbatim>\<open>slices.Sort\<close> sorts in place, so the caller's two slices come back sorted.
\<close>

definition addressArrayEqual :: "string list \<Rightarrow> string list \<Rightarrow> string list \<times> string list \<times> bool" where
  "addressArrayEqual existing discovered =
     (slices_Sort existing, slices_Sort discovered,
      slices_Equal (slices_Sort existing) (slices_Sort discovered))"

definition set_addresses :: "Configuration \<Rightarrow> string list \<Rightarrow> Configuration" where
  "set_addresses config as = config\<lparr>Status := (Status config)\<lparr>MatchingNodeAddresses := as\<rparr>\<rparr>"

definition set_status :: "Configuration \<Rightarrow> string \<Rightarrow> Configuration" where
  "set_status config s = config\<lparr>Status := (Status config)\<lparr>StatusText := s\<rparr>\<rparr>"

definition set_finalizers :: "Configuration \<Rightarrow> string list \<Rightarrow> Configuration" where
  "set_finalizers config fs = config\<lparr>Meta := (Meta config)\<lparr>Finalizers := fs\<rparr>\<rparr>"

definition set_node_finalizers :: "Node \<Rightarrow> string list \<Rightarrow> Node" where
  "set_node_finalizers node fs = node\<lparr>NodeMeta := (NodeMeta node)\<lparr>Finalizers := fs\<rparr>\<rparr>"

section \<open>The steps of a reconcile\<close>

definition init_condition :: "env \<Rightarrow> string \<Rightarrow> Configuration \<Rightarrow> Configuration cio" where
  "init_condition E t config =
     (if ConditionExists config t then State_Monad.return config
      else do {
        now \<leftarrow> Now E;
        State_Monad.return (SetCondition config t metav1_ConditionUnknown ''Unknown'' ConditionUnknownReason now)
      })"

definition initializeConditions :: "env \<Rightarrow> Configuration \<Rightarrow> (goerror option \<times> Configuration) cio" where
  "initializeConditions E config = do {
     config \<leftarrow> init_condition E WaitingForMatchignNodesCondition config;
     config \<leftarrow> init_condition E OVNNBLeaderFound config;
     config \<leftarrow> init_condition E OVNSBLeaderFound config;
     config \<leftarrow> init_condition E OVNNBDBHealth config;
     config \<leftarrow> init_condition E OVNSBDBHealth config;
     State_Monad.return (None, config)
   }"

definition reconcileClusterScopedReference ::
    "env \<Rightarrow> Configuration \<Rightarrow> (goerror option \<times> Configuration) cio" where
  "reconcileClusterScopedReference E config = do {
     r \<leftarrow> GetNamespaceObj E KubeOVNFakeNamespace;
     case r of
       Inl err \<Rightarrow> (if IsNotFound err then do {
            e \<leftarrow> CreateNamespace E KubeOVNFakeNamespace;
            State_Monad.return (e, config)
          } else State_Monad.return (Some err, config))
     | Inr ns \<Rightarrow> State_Monad.return (None, config)
   }"

definition findMasterNodes :: "env \<Rightarrow> libs \<Rightarrow> Configuration \<Rightarrow> (goerror option \<times> Configuration) cio" where
  "findMasterNodes E L config =
     (case libConvertSelectorToLabelsMap L (MasterNodesLabel (Spec config)) of
        Inl e \<Rightarrow> State_Monad.return (Some (EMsg ''error parsing label selector''), config)
      | Inr labels \<Rightarrow> do {
          r \<leftarrow> ListNodes E labels;
          case r of
            Inl e \<Rightarrow> State_Monad.return (Some (errorf ''error listing nodes'' e), config)
          | Inr items \<Rightarrow>
             let nodeAddresses = filter (\<lambda>a. a \<noteq> '''') (map nodeInternalIP items) in
             if nodeAddresses = [] \<and> \<not> ConditionTrue config WaitingForMatchignNodesCondition then do {
               _ \<leftarrow> RecorderEvent (Name (Meta config)) ''Warning'' ''ReconcilePaused''
                      ''no nodes matching master node labels found'';
               now \<leftarrow> Now E;
               State_Monad.return (None, SetCondition config WaitingForMatchignNodesCondition
                 metav1_ConditionTrue ''Waiting for matching nodes'' NodesNotFoundReason now)
             }
             else case addressArrayEqual nodeAddresses (MatchingNodeAddresses (Status config)) of
               (found, current, equal) \<Rightarrow>
                 let config = set_addresses config current in
                 if \<not> equal then do {
                   now \<leftarrow> Now E;
                   let config = SetCondition config WaitingForMatchignNodesCondition metav1_ConditionFalse
                                  (''found nodes '' @ strings_Join found '','') NodesFoundReason now;
                   State_Monad.return (None, set_addresses config found)
                 }
                 else State_Monad.return (None, config)
        })"

text \<open>\<^verbatim>\<open>reconcileObject\<close>: server-side apply of the object.\<close>

definition reconcileObject :: "env \<Rightarrow> libs \<Rightarrow> kobject \<Rightarrow> (goerror option) cio" where
  "reconcileObject E L ob =
     (case libToUnstructured L ob of
        Inl e \<Rightarrow> State_Monad.return (Some (errorf ''error convering new object to unstructured object'' e))
      | Inr u \<Rightarrow> ApplyObject E u)"

fun apply_objects :: "env \<Rightarrow> libs \<Rightarrow> owner \<Rightarrow> kobject list \<Rightarrow> (goerror option) cio" where
  "apply_objects E L ownerObj [] = State_Monad.return None"
| "apply_objects E L ownerObj (ob # obs) =
     (case libSetControllerReference L ownerObj ob of
        Inl e \<Rightarrow> State_Monad.return (Some (errorf ''error setting controller reference on object'' e))
      | Inr ob' \<Rightarrow> do {
          err \<leftarrow> reconcileObject E L ob';
          case err of
            Some e \<Rightarrow> State_Monad.return (Some (errorf ''error reconcilling object'' e))
          | None \<Rightarrow> apply_objects E L ownerObj obs
        })"

fun apply_types ::
    "env \<Rightarrow> libs \<Rightarrow> string \<Rightarrow> ObjectMeta \<Rightarrow> string \<Rightarrow> (objkind \<times> tok list list) list \<Rightarrow> Configuration \<Rightarrow>
     (goerror option \<times> Configuration) cio" where
  "apply_types E L version fakeNS caCert [] config = State_Monad.return (None, config)"
| "apply_types E L version fakeNS caCert ((objectType, objectList) # rest) config = do {
     r \<leftarrow> IsObjectNamespaced E objectType;
     case r of
       Inl e \<Rightarrow> State_Monad.return (Some (errorf ''unable to identify if objecttype is namedspaced'' e), config)
     | Inr namespaced \<Rightarrow> do {
         F \<leftarrow> TemplateFuncs E;
         case GenerateObjects L F objectList config objectType version caCert of
           (config, objs) \<Rightarrow>
             (case objs of
                Inl e \<Rightarrow> State_Monad.return (Some (errorf ''error during object generation'' e), config)
              | Inr obs \<Rightarrow> do {
                  err \<leftarrow> apply_objects E L (if namespaced then OwnerConfig config else OwnerNamespace fakeNS) obs;
                  case err of
                    Some e \<Rightarrow> State_Monad.return (Some e, config)
                  | None \<Rightarrow> apply_types E L version fakeNS caCert rest config
                })
       }
   }"

definition applyObject ::
    "env \<Rightarrow> libs \<Rightarrow> string \<Rightarrow> string \<Rightarrow> (objkind \<times> tok list list) list \<Rightarrow> Configuration \<Rightarrow>
     (goerror option \<times> Configuration) cio" where
  "applyObject E L namespace version order config =
     (if MatchingNodeAddresses (Status config) = [] then State_Monad.return (None, config)
      else if StatusText (Status config) = ConfigurationStatusDeploying then State_Monad.return (None, config)
      else do {
        r \<leftarrow> GetNamespaceObj E KubeOVNFakeNamespace;
        case r of
          Inl e \<Rightarrow> State_Monad.return (Some (errorf ''error looking up fake namespaced object'' e), config)
        | Inr fakeNS \<Rightarrow> do {
            s \<leftarrow> GetSecret E (namespace, KubeOVNOperatorWebhookCertSecret);
            case s of
              Inl e \<Rightarrow> State_Monad.return (Some (errorf ''error fetching secret'' e), config)
            | Inr data \<Rightarrow>
               (case map_of data ''ca.crt'' of
                  None \<Rightarrow> State_Monad.return (Some (EMsg ''no key found for ca.crt in secret''), config)
                | Some caCert \<Rightarrow> do {
                    (err, config) \<leftarrow> apply_types E L version fakeNS caCert order config;
                    case err of
                      Some e \<Rightarrow> State_Monad.return (Some e, config)
                    | None \<Rightarrow> State_Monad.return (None, set_status config ConfigurationStatusDeployed)
                  })
          }
      })"

section \<open>Deletion\<close>

fun delete_items :: "env \<Rightarrow> gvr \<Rightarrow> string option \<Rightarrow> DynObject list \<Rightarrow> (goerror option) cio" where
  "delete_items E g ns [] = State_Monad.return None"
| "delete_items E g ns (v # vs) =
     (if DynDeletionTimestamp v \<noteq> None then delete_items E g ns vs
      else do {
        err \<leftarrow> DeleteDynamic E g ns (DynName v);
        case err of
          Some e \<Rightarrow> State_Monad.return (Some (errorf ''error deleting resource'' e))
        | None \<Rightarrow> delete_items E g ns vs
      })"

text \<open>For a namespaced type the code asks for the resource interface of the namespace \<^verbatim>\<open>""\<close>.\<close>

definition resource_namespace :: "CRDSpec \<Rightarrow> string option" where
  "resource_namespace crd = (if CRDScope crd = NamespaceScoped then Some '''' else None)"

fun cleanup_versions :: "env \<Rightarrow> CRDSpec \<Rightarrow> string list \<Rightarrow> nat \<Rightarrow> (goerror + nat) cio" where
  "cleanup_versions E crd [] objectCount = State_Monad.return (Inr objectCount)"
| "cleanup_versions E crd (version # vs) objectCount = do {
     r \<leftarrow> ListDynamic E (CRDGroup crd, version, CRDPlural crd);
     case r of
       Inl err \<Rightarrow> (if IsNotFound err then cleanup_versions E crd vs objectCount
          else State_Monad.return (Inl (errorf ''error checking getting list of objects'' err)))
     | Inr items \<Rightarrow> do {
         err \<leftarrow> delete_items E (CRDGroup crd, version, CRDPlural crd) (resource_namespace crd) items;
         case err of
           Some e \<Rightarrow> State_Monad.return (Inl e)
         | None \<Rightarrow> cleanup_versions E crd vs (objectCount + length items)
       }
   }"

fun cleanup_crds :: "env \<Rightarrow> kobject list \<Rightarrow> nat \<Rightarrow> (goerror + nat) cio" where
  "cleanup_crds E [] objectCount = State_Monad.return (Inr objectCount)"
| "cleanup_crds E (ob # obs) objectCount =
     (case ObjCRD ob of
        None \<Rightarrow> cleanup_crds E obs objectCount
      | Some crd \<Rightarrow> do {
          r \<leftarrow> cleanup_versions E crd (CRDVersions crd) objectCount;
          case r of
            Inl e \<Rightarrow> State_Monad.return (Inl e)
          | Inr n \<Rightarrow> cleanup_crds E obs n
        })"

definition ensureCRDObjectCleanup :: "env \<Rightarrow> kobject list \<Rightarrow> (goerror option) cio" where
  "ensureCRDObjectCleanup E objs = do {
     err \<leftarrow> NewDynamicClient E;
     case err of
       Some e \<Rightarrow> State_Monad.return (Some (errorf ''error generating dynamic client'' e))
     | None \<Rightarrow> do {
         r \<leftarrow> cleanup_crds E objs 0;
         State_Monad.return (case r of
           Inl e \<Rightarrow> Some e
         | Inr objectCount \<Rightarrow> (if objectCount > 0
             then Some (EMsg (show_nat objectCount @ '' objects still exist in the cluster'')) else None))
       }
   }"

fun remove_node_finalizers :: "env \<Rightarrow> libs \<Rightarrow> Node list \<Rightarrow> (goerror option) cio" where
  "remove_node_finalizers E L [] = State_Monad.return None"
| "remove_node_finalizers E L (node # nodes) =
     (if libContainsFinalizer L (Finalizers (NodeMeta node)) KubeOVNNodeFinalizer then do {
        err \<leftarrow> PatchNode E (set_node_finalizers node
                 (libRemoveFinalizer L (Finalizers (NodeMeta node)) KubeOVNNodeFinalizer)) node;
        case err of
          Some e \<Rightarrow> State_Monad.return (Some (errorf ''error patching node'' e))
        | None \<Rightarrow> remove_node_finalizers E L nodes
      }
      else remove_node_finalizers E L nodes)"

text \<open>What follows the clean-up of the custom resources and of the owner namespace.\<close>

definition release_finalizers :: "env \<Rightarrow> libs \<Rightarrow> Configuration \<Rightarrow> (goerror option) cio" where
  "release_finalizers E L config =
     (if libContainsFinalizer L (Finalizers (Meta config)) KubeOVNConfigurationFinalizer
      then PatchConfiguration E (set_finalizers config
             (libRemoveFinalizer L (Finalizers (Meta config)) KubeOVNConfigurationFinalizer)) config
      else do {
        r \<leftarrow> ListNodes E [];
        case r of
          Inl e \<Rightarrow> State_Monad.return (Some (errorf ''error fetching node list during configuration deletion'' e))
        | Inr nodes \<Rightarrow> remove_node_finalizers E L nodes
      })"

text \<open>The owner namespace is deleted if it is there.\<close>

definition delete_owner_namespace :: "env \<Rightarrow> (goerror option) cio" where
  "delete_owner_namespace E = do {
     r \<leftarrow> GetNamespaceObj E KubeOVNFakeNamespace;
     case r of
       Inl e \<Rightarrow> State_Monad.return (if IsNotFound e then None else Some e)
     | Inr ns \<Rightarrow> DeleteNamespace E KubeOVNFakeNamespace
   }"

text \<open>The part of \<^verbatim>\<open>deleteClusterScopedReference\<close> after the CRDs were rendered.\<close>

definition delete_rendered :: "env \<Rightarrow> libs \<Rightarrow> Configuration \<Rightarrow> kobject list \<Rightarrow> (goerror option) cio" where
  "delete_rendered E L config objs = do {
     err \<leftarrow> ensureCRDObjectCleanup E objs;
     case err of
       Some e \<Rightarrow> State_Monad.return (Some (errorf ''error cleaning objects'' e))
     | None \<Rightarrow> do {
         err \<leftarrow> delete_owner_namespace E;
         case err of
           Some e \<Rightarrow> State_Monad.return (Some e)
         | None \<Rightarrow> release_finalizers E L config
       }
   }"

definition deleteClusterScopedReference ::
    "env \<Rightarrow> libs \<Rightarrow> tok list list \<Rightarrow> string \<Rightarrow> Configuration \<Rightarrow> (goerror option) cio" where
  "deleteClusterScopedReference E L CRDList version config = do {
     F \<leftarrow> TemplateFuncs E;
     case GenerateObjects L F CRDList config CustomResourceDefinition version '''' of
       (config, crdObjs) \<Rightarrow>
         (case crdObjs of
            Inl e \<Rightarrow> State_Monad.return (Some (errorf ''error rendering CRDs during configuration cleanup'' e))
          | Inr objs \<Rightarrow> delete_rendered E L config objs)
   }"

section \<open>Reconcile\<close>

record ctrl_Result =
  RequeueAfter :: int

definition no_requeue :: ctrl_Result where "no_requeue = \<lparr>RequeueAfter = 0\<rparr>"

type_synonym reconcile_step = "Configuration \<Rightarrow> (goerror option \<times> Configuration) cio"

fun run_steps :: "reconcile_step list \<Rightarrow> reconcile_step" where
  "run_steps [] config = State_Monad.return (None, config)"
| "run_steps (v # vs) config = do {
     (err, config) \<leftarrow> v config;
     case err of
       Some e \<Rightarrow> State_Monad.return (Some e, config)
     | None \<Rightarrow> run_steps vs config
   }"

text \<open>\<open>order\<close> is the order in which this run iterates over the Go map \<^verbatim>\<open>OrderedObjectList\<close>.\<close>

definition reconcile_steps ::
    "env \<Rightarrow> libs \<Rightarrow> string \<Rightarrow> string \<Rightarrow> (objkind \<times> tok list list) list \<Rightarrow> reconcile_step list" where
  "reconcile_steps E L namespace version order =
     [initializeConditions E, reconcileClusterScopedReference E, findMasterNodes E L,
      applyObject E L namespace version order]"

text \<open>The part of \<^verbatim>\<open>Reconcile\<close> after the resource was read.\<close>

definition reconcile_config ::
    "env \<Rightarrow> libs \<Rightarrow> string \<Rightarrow> string \<Rightarrow> tok list list \<Rightarrow> (objkind \<times> tok list list) list \<Rightarrow> Configuration \<Rightarrow>
     (ctrl_Result \<times> goerror option) cio" where
  "reconcile_config E L namespace version CRDList order configObj =
     (if DeletionTimestamp (Meta configObj) \<noteq> None then do {
        err \<leftarrow> deleteClusterScopedReference E L CRDList version configObj;
        State_Monad.return (no_requeue, err)
      }
      else if \<not> libContainsFinalizer L (Finalizers (Meta configObj)) KubeOVNConfigurationFinalizer then do {
        err \<leftarrow> PatchConfiguration E (set_finalizers configObj
                 (libAddFinalizer L (Finalizers (Meta configObj)) KubeOVNConfigurationFinalizer)) configObj;
        State_Monad.return (no_requeue, err)
      }
      else do {
        (err, config) \<leftarrow> run_steps (reconcile_steps E L namespace version order) configObj;
        case err of
          Some e \<Rightarrow> State_Monad.return (no_requeue, Some e)
        | None \<Rightarrow>
           (if Status configObj = Status config then State_Monad.return (no_requeue, None)
            else do {
              err \<leftarrow> PatchConfigurationStatus E config configObj;
              State_Monad.return (no_requeue, err)
            })
      })"

definition ConfigurationReconcile ::
    "env \<Rightarrow> libs \<Rightarrow> string \<Rightarrow> string \<Rightarrow> tok list list \<Rightarrow> (objkind \<times> tok list list) list \<Rightarrow> nsname \<Rightarrow>
     (ctrl_Result \<times> goerror option) cio" where
  "ConfigurationReconcile E L namespace version CRDList order req = do {
     r \<leftarrow> GetConfiguration E req;
     case r of
       Inl err \<Rightarrow> State_Monad.return (no_requeue, if IsNotFound err then None else Some err)
     | Inr configObj \<Rightarrow> reconcile_config E L namespace version CRDList order configObj
   }"

section \<open>Watches\<close>

text \<open>\<^verbatim>\<open>filterObject\<close>: the requests a changed object triggers.\<close>

definition filterObject :: "string \<Rightarrow> ObjectMeta \<Rightarrow> nsname list" where
  "filterObject namespace ob =
     map (\<lambda>v. (namespace, OwnerName v))
       (filter (\<lambda>v. OwnerKind v = Kind \<and> OwnerAPIVersion v = APIVersion) (OwnerReferences ob))"

text \<open>
  The predicate of \<^verbatim>\<open>AddWatches\<close>: creations, deletions and generic events pass, and an update does
  unless only the managed fields changed.
\<close>

record 'a watched =
  ManagedFields :: "string list"
  WatchedRest :: 'a

datatype 'a watch_event = WatchCreate 'a | WatchUpdate 'a 'a | WatchDelete 'a | WatchGeneric 'a

fun updatePred :: "'a watched watch_event \<Rightarrow> bool" where
  "updatePred (WatchUpdate old new) \<longleftrightarrow> old\<lparr>ManagedFields := []\<rparr> \<noteq> new\<lparr>ManagedFields := []\<rparr>"
| "updatePred (WatchCreate ob) \<longleftrightarrow> True"
| "updatePred (WatchDelete ob) \<longleftrightarrow> True"
| "updatePred (WatchGeneric ob) \<longleftrightarrow> True"

text \<open>The watches: for every managed type, the map from a changed object to requests, and the predicate.\<close>

definition AddWatches :: "string \<Rightarrow> tok list list \<Rightarrow>
    (objkind \<times> (ObjectMeta \<Rightarrow> nsname list) \<times> ('a watched watch_event \<Rightarrow> bool)) list" where
  "AddWatches namespace CRDList =
     map (\<lambda>(key, _). (key, filterObject namespace, updatePred)) (OrderedObjectList CRDList)"

end
