(* ===== verification/Config_Properties.thy ===== *)
theory Config_Properties
  imports Config_Controller
begin

text \<open>
  The correctness of the \<^verbatim>\<open>Configuration\<close> reconciler (theory \<open>Config_Controller\<close>): the calls
  it may make in each phase of the resource, the conditions and addresses it computes, the application
  of the objects, and the order and the progress of a deletion.
\<close>

section \<open>Specification\<close>

fun cleanup_call :: "event \<Rightarrow> bool" where
  "cleanup_call (EvListDynamic g r) = True"
| "cleanup_call (EvDeleteDynamic g ns n r) = True"
| "cleanup_call (EvNewDynamicClient r) = True"
| "cleanup_call _ = False"

text \<open>The calls that let go of the cluster-scoped objects, of the configuration and of the nodes.\<close>

fun release_call :: "event \<Rightarrow> bool" where
  "release_call (EvDeleteNamespace n r) = True"
| "release_call (EvPatchConfiguration new base r) = True"
| "release_call (EvPatchNode new base r) = True"
| "release_call _ = False"

fun release_phase_call :: "event \<Rightarrow> bool" where
  "release_phase_call (EvGetNamespace n r) = True"
| "release_phase_call (EvListNodes ls r) = True"
| "release_phase_call e = release_call e"

text \<open>A listing of a resource type that found no object: an empty list, or no such type.\<close>

fun empty_listing :: "gvr \<Rightarrow> event \<Rightarrow> bool" where
  "empty_listing g (EvListDynamic g' (Inr items)) \<longleftrightarrow> g' = g \<and> items = []"
| "empty_listing g (EvListDynamic g' (Inl e)) \<longleftrightarrow> g' = g \<and> IsNotFound e"
| "empty_listing g _ \<longleftrightarrow> False"

definition crd_gone :: "trace \<Rightarrow> CRDSpec \<Rightarrow> bool" where
  "crd_gone evs crd \<longleftrightarrow> list_all (\<lambda>v. list_ex (empty_listing (CRDGroup crd, v, CRDPlural crd)) evs) (CRDVersions crd)"

definition crds_gone :: "kobject list \<Rightarrow> trace \<Rightarrow> bool" where
  "crds_gone objs evs \<longleftrightarrow> list_all (\<lambda>ob. pred_option (crd_gone evs) (ObjCRD ob)) objs"

text \<open>Equal except for the status and the image tag.\<close>

definition same_object :: "Configuration \<Rightarrow> Configuration \<Rightarrow> bool" where
  "same_object c c' \<longleftrightarrow> Meta c' = Meta c \<and> Spec (patch_version c' '''') = Spec (patch_version c '''')"

text \<open>The calls of the four steps.\<close>

fun step_call :: "event \<Rightarrow> bool" where
  "step_call (EvNow t) = True"
| "step_call (EvGetNamespace n r) = True"
| "step_call (EvCreateNamespace n r) \<longleftrightarrow> n = KubeOVNFakeNamespace"
| "step_call (EvListNodes ls r) = True"
| "step_call (EvRecorderEvent ob ty reason msg) = True"
| "step_call (EvGetSecret nn r) = True"
| "step_call (EvIsNamespaced k r) = True"
| "step_call (EvApply ob r) = True"
| "step_call e = False"

definition permitted :: "libs \<Rightarrow> Configuration \<Rightarrow> event \<Rightarrow> bool" where
  "permitted L c e \<longleftrightarrow>
     (if DeletionTimestamp (Meta c) \<noteq> None then
        cleanup_call e \<or>
        (case e of
           EvPatchConfiguration new base r \<Rightarrow>
             libContainsFinalizer L (Finalizers (Meta c)) KubeOVNConfigurationFinalizer \<and> same_object c base \<and>
             new = set_finalizers base (libRemoveFinalizer L (Finalizers (Meta c)) KubeOVNConfigurationFinalizer)
         | EvPatchNode new base r \<Rightarrow>
             \<not> libContainsFinalizer L (Finalizers (Meta c)) KubeOVNConfigurationFinalizer \<and>
             new = set_node_finalizers base (libRemoveFinalizer L (Finalizers (NodeMeta base)) KubeOVNNodeFinalizer)
         | EvListNodes ls r \<Rightarrow> \<not> libContainsFinalizer L (Finalizers (Meta c)) KubeOVNConfigurationFinalizer
         | EvGetNamespace n r \<Rightarrow> True
         | EvDeleteNamespace n r \<Rightarrow> n = KubeOVNFakeNamespace
         | _ \<Rightarrow> False)
      else if \<not> libContainsFinalizer L (Finalizers (Meta c)) KubeOVNConfigurationFinalizer then
        (case e of
           EvPatchConfiguration new base r \<Rightarrow> base = c \<and>
             new = set_finalizers c (libAddFinalizer L (Finalizers (Meta c)) KubeOVNConfigurationFinalizer)
         | _ \<Rightarrow> False)
      else
        step_call e \<or>
        (case e of
           EvPatchConfigurationStatus new base r \<Rightarrow> base = c \<and> same_object c new \<and> Status new \<noteq> Status c \<and>
             (conditions_distinct new \<longleftrightarrow> conditions_distinct c)
         | _ \<Rightarrow> False))"

definition baseline_conditions :: "string list" where
  "baseline_conditions = [WaitingForMatchignNodesCondition, OVNNBLeaderFound, OVNSBLeaderFound, OVNNBDBHealth, OVNSBDBHealth]"

definition found_addresses :: "Node list \<Rightarrow> string list" where
  "found_addresses items = filter (\<lambda>a. a \<noteq> '''') (map nodeInternalIP items)"

text \<open>The object, with its owner set, was applied and the API server accepted it.\<close>

definition applied :: "libs \<Rightarrow> owner \<Rightarrow> trace \<Rightarrow> kobject \<Rightarrow> bool" where
  "applied L ownerObj evs ob \<longleftrightarrow>
     (case libSetControllerReference L ownerObj ob of
        Inl e \<Rightarrow> False
      | Inr ob' \<Rightarrow> (case libToUnstructured L ob' of Inl e \<Rightarrow> False | Inr u \<Rightarrow> EvApply u None \<in> set evs))"

text \<open>
  Every template of the type was rendered and every object that came out was applied, with the
  owner that the scope of the type asks for.
\<close>

definition type_applied ::
    "env \<Rightarrow> libs \<Rightarrow> string \<Rightarrow> ObjectMeta \<Rightarrow> string \<Rightarrow> Configuration \<Rightarrow> trace \<Rightarrow> objkind \<times> tok list list \<Rightarrow> bool" where
  "type_applied E L version fakeNS caCert c evs = (\<lambda>(k, ts).
     \<exists>h namespaced config objs. EvIsNamespaced k (Inr namespaced) \<in> set evs \<and>
       GenerateObjects L (templateFuncs E h) ts c k version caCert = (config, Inr objs) \<and>
       list_all (applied L (if namespaced then OwnerConfig config else OwnerNamespace fakeNS) evs) objs)"

fun failed_apply :: "event \<Rightarrow> bool" where
  "failed_apply (EvApply ob (Some e)) = True"
| "failed_apply e = False"

fun is_status_patch :: "event \<Rightarrow> bool" where
  "is_status_patch (EvPatchConfigurationStatus new base r) = True"
| "is_status_patch e = False"

text \<open>Every type of the iteration order was applied, owned as the namespace that was read says.\<close>

definition all_applied ::
    "env \<Rightarrow> libs \<Rightarrow> string \<Rightarrow> (objkind \<times> tok list list) list \<Rightarrow> Configuration \<Rightarrow> trace \<Rightarrow> bool" where
  "all_applied E L version order c evs \<longleftrightarrow>
     (\<exists>fakeNS caCert. EvGetNamespace KubeOVNFakeNamespace (Inr fakeNS) \<in> set evs \<and>
        list_all (type_applied E L version fakeNS caCert c evs) order)"

definition may_apply :: "Configuration \<Rightarrow> bool" where
  "may_apply c \<longleftrightarrow> MatchingNodeAddresses (Status c) \<noteq> [] \<and> StatusText (Status c) \<noteq> ConfigurationStatusDeploying"

definition step_ok :: "Configuration \<Rightarrow> goerror option \<times> Configuration \<Rightarrow> trace \<Rightarrow> bool" where
  "step_ok c out new \<longleftrightarrow> list_all step_call new \<and> same_object c (snd out) \<and>
     (conditions_distinct (snd out) \<longleftrightarrow> conditions_distinct c)"

text \<open>The API server has no custom resource left, and it accepts the requests of a deletion.\<close>

definition nothing_left :: "env \<Rightarrow> bool" where
  "nothing_left E \<longleftrightarrow>
     (\<forall>tr. apiNewDynamicClient E tr = None) \<and>
     (\<forall>tr g. apiListDynamic E tr g = Inr [] \<or> apiListDynamic E tr g = Inl (EApi NotFound)) \<and>
     (\<forall>tr n. apiGetNamespace E tr n = Inl (EApi NotFound) \<or>
        (\<exists>ns. apiGetNamespace E tr n = Inr ns) \<and> (\<forall>tr. apiDeleteNamespace E tr n = None)) \<and>
     (\<forall>tr new base. apiPatchConfiguration E tr new base = None)"

fun delete_justified :: "kobject list \<Rightarrow> trace \<Rightarrow> event \<Rightarrow> bool" where
  "delete_justified objs evs (EvDeleteDynamic g ns n r) \<longleftrightarrow>
     (\<exists>ob\<in>set objs. \<exists>crd. ObjCRD ob = Some crd \<and> ns = resource_namespace crd \<and>
        (\<exists>v\<in>set (CRDVersions crd). g = (CRDGroup crd, v, CRDPlural crd)) \<and>
        (\<exists>items. EvListDynamic g (Inr items) \<in> set evs \<and>
           (\<exists>item\<in>set items. DynName item = n \<and> DynDeletionTimestamp item = None)))"
| "delete_justified objs evs e \<longleftrightarrow> True"

fun deletes_one_of :: "gvr \<Rightarrow> string option \<Rightarrow> DynObject list \<Rightarrow> event \<Rightarrow> bool" where
  "deletes_one_of g ns items (EvDeleteDynamic g' ns' n r) \<longleftrightarrow> g' = g \<and> ns' = ns \<and>
     (\<exists>item\<in>set items. DynName item = n \<and> DynDeletionTimestamp item = None)"
| "deletes_one_of g ns items e \<longleftrightarrow> False"

section \<open>Deletion\<close>

lemma crd_gone_mono: "crd_gone xs crd \<Longrightarrow> set xs \<subseteq> set ys \<Longrightarrow> crd_gone ys crd"
  by (auto simp: crd_gone_def list_all_iff list_ex_iff)

lemma crds_gone_mono: "crds_gone objs xs \<Longrightarrow> set xs \<subseteq> set ys \<Longrightarrow> crds_gone objs ys"
  by (auto simp: crds_gone_def list_all_iff pred_option_def intro: crd_gone_mono)

lemma crds_gone_Cons: "crds_gone (ob # objs) evs \<longleftrightarrow> pred_option (crd_gone evs) (ObjCRD ob) \<and> crds_gone objs evs"
  by (simp add: crds_gone_def)

lemma cleanup_not_release: "cleanup_call e \<Longrightarrow> \<not> release_call e"
  by (cases e) simp_all

lemma delete_items_calls: "emits cleanup_call (delete_items E g ns items)"
  by (induction items) (auto intro!: emits_rules simp: call_defs)

lemma cleanup_versions_obeys:
  "obeys (cleanup_versions E crd vs n) [] (\<lambda>r new. list_all cleanup_call new \<and>
     (\<forall>n'. r = Inr n' \<longrightarrow> n \<le> n' \<and>
        (n' = n \<longrightarrow> list_all (\<lambda>v. list_ex (empty_listing (CRDGroup crd, v, CRDPlural crd)) new) vs)))"
proof (induction vs arbitrary: n)
  case Nil
  show ?case by (auto intro!: obeys_rules)
next
  case (Cons v vs)
  show ?case
    unfolding cleanup_versions.simps ListDynamic_def
    apply (intro obeys_rules)
       apply (rule obeys_frame [OF Cons.IH], force simp: list_all_iff)
      apply simp
    apply (rule obeys_frame [OF delete_items_calls [unfolded emits_obeys]])
    apply (intro obeys_rules)
     apply (rule obeys_frame [OF Cons.IH], force simp: list_all_iff)
    apply simp
    done
qed

lemma cleanup_crds_obeys:
  "obeys (cleanup_crds E objs n) [] (\<lambda>r new. list_all cleanup_call new \<and>
     (\<forall>n'. r = Inr n' \<longrightarrow> n \<le> n' \<and> (n' = n \<longrightarrow> crds_gone objs new)))"
proof (induction objs arbitrary: n)
  case Nil
  show ?case by (auto intro!: obeys_rules simp: crds_gone_def)
next
  case (Cons ob objs)
  show ?case
    unfolding cleanup_crds.simps
    apply (intro obeys_rules)
     apply (rule obeys_frame [OF Cons.IH], force simp: crds_gone_def)
    apply (rule obeys_frame [OF cleanup_versions_obeys [of E crd "CRDVersions crd" n for E crd n, folded crd_gone_def]])
    apply (intro obeys_rules)
     apply simp
    apply (rule obeys_frame [OF Cons.IH])
    apply (auto simp: crds_gone_Cons intro: crd_gone_mono crds_gone_mono)
    done
qed

lemma ensureCRDObjectCleanup_obeys:
  "obeys (ensureCRDObjectCleanup E objs) []
     (\<lambda>r new. list_all cleanup_call new \<and> (r = None \<longrightarrow> crds_gone objs new))"
  unfolding ensureCRDObjectCleanup_def NewDynamicClient_def
  apply (intro obeys_rules)
   apply (rule obeys_frame [OF cleanup_crds_obeys])
   apply (rule obeys_return)
   apply (auto split: sum.splits if_splits elim!: crds_gone_mono)
  done

lemma remove_node_finalizers_calls: "emits release_phase_call (remove_node_finalizers E L nodes)"
  by (induction nodes) (auto intro!: emits_rules simp: call_defs)

lemma release_phase_calls:
  "emits release_phase_call (release_finalizers E L config)"
  "emits release_phase_call (delete_owner_namespace E)"
  by (auto intro!: emits_rules remove_node_finalizers_calls
      simp: call_defs release_finalizers_def delete_owner_namespace_def)

lemma delete_rendered_obeys:
  "obeys (delete_rendered E L config objs) [] (\<lambda>r new. only_after release_call (crds_gone objs) new)"
  unfolding delete_rendered_def
  apply (rule obeys_bind)
  apply (rule obeys_mono [OF ensureCRDObjectCleanup_obeys])
  apply (intro obeys_rules)
   apply (rule obeys_frame [OF release_phase_calls(2) [unfolded emits_obeys]])
   apply (intro obeys_rules)
    apply (rule obeys_frame [OF release_phase_calls(1) [unfolded emits_obeys]])
    apply (auto intro!: only_after_guard intro: only_after_none
      simp: list_all_iff cleanup_not_release elim: crds_gone_mono)
  done

lemma deleteClusterScopedReference_calls:
  "calls (deleteClusterScopedReference E L CRDList version config) tr =
     (case GenerateObjects L (templateFuncs E tr) CRDList config CustomResourceDefinition version '''' of
        (config, crdObjs) \<Rightarrow> (case crdObjs of Inl e \<Rightarrow> [] | Inr objs \<Rightarrow> calls (delete_rendered E L config objs) tr))"
  by (simp add: deleteClusterScopedReference_def split: prod.split sum.split)

lemma deleteClusterScopedReference_appends: "appends (deleteClusterScopedReference E L CRDList version config)"
  unfolding appends_def deleteClusterScopedReference_def
  by (intro emits_rules obeys_appends [OF delete_rendered_obeys, unfolded appends_def])

section \<open>What a reconcile may do\<close>

lemma same_object_refl [simp]: "same_object c c"
  by (simp add: same_object_def)

lemma same_object_trans: "same_object a b \<Longrightarrow> same_object b c \<Longrightarrow> same_object a c"
  by (simp add: same_object_def)

lemma same_object_updates [simp]:
  "same_object c (SetCondition c' t s m r now) \<longleftrightarrow> same_object c c'"
  "same_object c (set_addresses c' as) \<longleftrightarrow> same_object c c'"
  "same_object c (set_status c' st) \<longleftrightarrow> same_object c c'"
  "same_object c (patch_version c' v) \<longleftrightarrow> same_object c c'"
  "same_object (patch_version c v) c' \<longleftrightarrow> same_object c c'"
  by (simp_all add: same_object_def SetCondition_def set_addresses_def set_status_def patch_version_def)

lemma conditions_distinct_updates [simp]:
  "conditions_distinct (SetCondition c t s m r now) \<longleftrightarrow> conditions_distinct c"
  "conditions_distinct (set_addresses c as) \<longleftrightarrow> conditions_distinct c"
  "conditions_distinct (set_status c st) \<longleftrightarrow> conditions_distinct c"
  "conditions_distinct (patch_version c v) \<longleftrightarrow> conditions_distinct c"
  by (rule cond.wf_put) (simp_all add: conditions_distinct_def set_addresses_def set_status_def patch_version_def)

lemma fst_GenerateObjects [simp]: "fst (GenerateObjects L F ts config k v ca) = patch_version config v"
  by (simp add: GenerateObjects_def Let_def)

lemma Meta_patch_version [simp]: "Meta (patch_version c v) = Meta c" "Status (patch_version c v) = Status c"
  by (simp_all add: patch_version_def)

lemma initializeConditions_step: "obeys (initializeConditions E c) [] (step_ok c)"
  unfolding initializeConditions_def init_condition_def Now_def
  by (intro obeys_rules) (simp_all add: step_ok_def)

lemma reconcileClusterScopedReference_step: "obeys (reconcileClusterScopedReference E c) [] (step_ok c)"
  unfolding reconcileClusterScopedReference_def call_defs
  by (intro obeys_rules) (simp_all add: step_ok_def)

lemma findMasterNodes_step: "obeys (findMasterNodes E L c) [] (step_ok c)"
  unfolding findMasterNodes_def call_defs
  by (intro obeys_rules) (simp_all add: step_ok_def)

lemma apply_objects_calls: "emits step_call (apply_objects E L ownerObj obs)"
  by (induction obs) (auto intro!: emits_rules simp: reconcileObject_def call_defs)

lemma apply_types_step: "obeys (apply_types E L version fakeNS caCert order c) [] (step_ok c)"
proof (induction order arbitrary: c)
  case Nil
  show ?case by (simp add: obeys_return step_ok_def)
next
  case (Cons entry order)
  obtain k ts where entry: "entry = (k, ts)" by (cases entry)
  show ?case
    unfolding entry apply_types.simps call_defs
    apply (intro obeys_rules)
      apply (simp add: step_ok_def)
     apply (auto simp: step_ok_def GenerateObjects_def Let_def intro!: obeys_return) [1]
    apply (rule obeys_frame [OF apply_objects_calls [unfolded emits_obeys]])
    apply (intro obeys_rules)
     apply (rule obeys_frame [OF Cons.IH])
     apply (auto simp: step_ok_def GenerateObjects_def Let_def intro: same_object_trans)
    done
qed

lemma applyObject_step: "obeys (applyObject E L namespace version order c) [] (step_ok c)"
  unfolding applyObject_def call_defs
  apply (intro obeys_rules)
       apply (simp_all add: step_ok_def)
  apply (rule obeys_frame [OF apply_types_step])
  apply (intro obeys_rules)
   apply (auto simp: step_ok_def)
  done

lemma run_steps_ok:
  assumes "\<And>v c. v \<in> set vs \<Longrightarrow> obeys (v c) [] (step_ok c)"
  shows "obeys (run_steps vs c) [] (step_ok c)"
  using assms
proof (induction vs arbitrary: c)
  case Nil
  show ?case by (simp add: obeys_return step_ok_def)
next
  case (Cons v vs)
  have "obeys (v c) [] (step_ok c)" by (simp add: Cons.prems)
  then show ?case
    unfolding run_steps.simps
    apply (intro obeys_bind)
    apply (rule obeys_mono)
     apply assumption
    apply (intro obeys_rules)
     apply (rule obeys_frame [OF Cons.IH])
      apply (simp add: Cons.prems)
     apply (auto simp: step_ok_def intro: same_object_trans)
    done
qed

lemma reconcile_steps_ok: "obeys (run_steps (reconcile_steps E L namespace version order) c) [] (step_ok c)"
  by (rule run_steps_ok)
     (auto simp: reconcile_steps_def initializeConditions_step reconcileClusterScopedReference_step
        findMasterNodes_step applyObject_step)

lemma remove_node_finalizers_permitted:
  assumes "DeletionTimestamp (Meta c) \<noteq> None"
    and "\<not> libContainsFinalizer L (Finalizers (Meta c)) KubeOVNConfigurationFinalizer"
  shows "emits (permitted L c) (remove_node_finalizers E L nodes)"
  using assms by (induction nodes) (auto intro!: emits_rules simp: call_defs permitted_def)

lemma cleanup_permitted: "DeletionTimestamp (Meta c) \<noteq> None \<Longrightarrow> cleanup_call e \<Longrightarrow> permitted L c e"
  by (simp add: permitted_def)

lemma release_finalizers_permitted:
  assumes "DeletionTimestamp (Meta c) \<noteq> None" and "same_object c c'"
  shows "emits (permitted L c) (release_finalizers E L c')"
proof -
  have "Meta c' = Meta c" using assms(2) by (simp add: same_object_def)
  with assms show ?thesis
    unfolding release_finalizers_def call_defs
    by (auto intro!: emits_rules remove_node_finalizers_permitted simp: permitted_def)
qed

lemma deleteClusterScopedReference_permitted:
  assumes "DeletionTimestamp (Meta c) \<noteq> None"
  shows "emits (permitted L c) (deleteClusterScopedReference E L CRDList version c)"
proof -
  have cleanup: "emits (permitted L c) (ensureCRDObjectCleanup E objs)" for objs
    unfolding emits_obeys using assms
    by (intro obeys_mono [OF ensureCRDObjectCleanup_obeys]) (simp add: list_all_iff cleanup_permitted)
  have ns: "emits (permitted L c) (delete_owner_namespace E)"
    using assms by (auto intro!: emits_rules simp: delete_owner_namespace_def call_defs permitted_def)
  show ?thesis
    unfolding deleteClusterScopedReference_def delete_rendered_def GenerateObjects_def Let_def prod.case
    by (intro emits_rules cleanup ns release_finalizers_permitted assms) simp
qed

lemma reconcile_config_steady:
  assumes "DeletionTimestamp (Meta c) = None"
    and "libContainsFinalizer L (Finalizers (Meta c)) KubeOVNConfigurationFinalizer"
  shows "emits (permitted L c) (reconcile_config E L namespace version CRDList order c)"
proof -
  from assms have step: "step_call e \<Longrightarrow> permitted L c e" for e
    by (simp add: permitted_def)
  show ?thesis
    unfolding emits_obeys reconcile_config_def if_not_P [of "DeletionTimestamp (Meta c) \<noteq> None"]
    apply (simp only: assms simp_thms if_False)
    apply (rule obeys_bind)
    apply (rule obeys_mono [OF reconcile_steps_ok])
    apply (unfold PatchConfigurationStatus_def)
    apply (intro obeys_rules)
      apply (use assms in \<open>auto simp: step_ok_def list_all_iff step permitted_def\<close>)
    done
qed

lemma reconcile_config_permitted: "emits (permitted L c) (reconcile_config E L namespace version CRDList order c)"
proof (cases "DeletionTimestamp (Meta c) = None \<and> libContainsFinalizer L (Finalizers (Meta c)) KubeOVNConfigurationFinalizer")
  case False
  then show ?thesis
    unfolding reconcile_config_def
    by (auto intro!: emits_rules deleteClusterScopedReference_permitted simp: permitted_def call_defs)
qed (simp add: reconcile_config_steady)

interpretation cfg: reader "\<lambda>tr. apiGetConfiguration E tr req" "EvGetConfiguration req"
    "\<lambda>err. State_Monad.return (no_requeue, if IsNotFound err then None else Some err)"
    "reconcile_config E L namespace version CRDList order" "\<lambda>err e. False" "permitted L"
  for E req L namespace version CRDList order
  by unfold_locales (simp_all add: emits_return reconcile_config_permitted)

lemma ConfigurationReconcile_fetch_then:
  "ConfigurationReconcile E L namespace version CRDList order req =
     fetch_then (\<lambda>tr. apiGetConfiguration E tr req) (EvGetConfiguration req)
       (\<lambda>err. State_Monad.return (no_requeue, if IsNotFound err then None else Some err))
       (reconcile_config E L namespace version CRDList order)"
  by (simp add: ConfigurationReconcile_def fetch_then_def GetConfiguration_def)

section \<open>Conditions\<close>

lemma result_init_condition:
  "result (init_condition E t c) tr =
     cond.put_missing c t metav1_ConditionUnknown ''Unknown'' ConditionUnknownReason (clockNow E tr)"
  by (simp add: init_condition_def cond.put_missing_def Now_def)

text \<open>The step adds every missing condition of the baseline, whatever the clock says at each.\<close>

lemma initializeConditions_result:
  "\<exists>nows. length nows = length baseline_conditions \<and> result (initializeConditions E c) tr = (None,
     cond.put_all_missing metav1_ConditionUnknown ''Unknown'' ConditionUnknownReason (zip baseline_conditions nows) c)"
  unfolding initializeConditions_def baseline_conditions_def cond.put_all_missing_def
  apply (rule exI [where x = "[n1, n2, n3, n4, n5]" for n1 n2 n3 n4 n5])
  apply (rule conjI, simp)
  apply (simp only: result_bind result_init_condition calls_return zip_Cons_Cons zip_Nil fold_simps prod.case)
  done

section \<open>Master nodes\<close>

lemma addressArrayEqual_mset:
  "addressArrayEqual xs ys = (sort xs, sort ys, mset xs = mset ys)"
  by (simp add: addressArrayEqual_def slices_Equal_def slices_Sort_eq_iff) (simp add: slices_Sort_def)

lemma LookupCondition_set_addresses [simp]:
  "LookupCondition (set_addresses c as) t = LookupCondition c t"
  "ConditionExists (set_addresses c as) t = ConditionExists c t"
  by (simp_all add: LookupCondition_def set_addresses_def ConditionExists_def)

lemma findMasterNodes_result:
  assumes "libConvertSelectorToLabelsMap L (MasterNodesLabel (Spec c)) = Inr labels"
    and "apiListNodes E tr labels = Inr items"
  shows "\<exists>now. result (findMasterNodes E L c) tr = (None,
    if found_addresses items = [] \<and> \<not> ConditionTrue c WaitingForMatchignNodesCondition
    then SetCondition c WaitingForMatchignNodesCondition metav1_ConditionTrue ''Waiting for matching nodes''
           NodesNotFoundReason now
    else if mset (found_addresses items) = mset (MatchingNodeAddresses (Status c))
    then set_addresses c (sort (MatchingNodeAddresses (Status c)))
    else set_addresses (SetCondition (set_addresses c (sort (MatchingNodeAddresses (Status c))))
           WaitingForMatchignNodesCondition metav1_ConditionFalse
           (''found nodes '' @ strings_Join (sort (found_addresses items)) '','') NodesFoundReason now)
           (sort (found_addresses items)))"
    (is "\<exists>now. ?r = (None, if ?paused then _ else if ?same then _ else _)")
proof -
  note run = findMasterNodes_def ListNodes_def RecorderEvent_def Now_def assms(1) sum.case
    addressArrayEqual_mset Let_def found_addresses_def [symmetric]
  consider "?paused" | "\<not> ?paused" "?same" | "\<not> ?paused" "\<not> ?same" by blast
  then show ?thesis
  proof cases
    case 1
    then show ?thesis unfolding run by (auto simp: result_bind_call assms(2))
  next
    case 2
    then show ?thesis unfolding run by (auto simp: result_bind_call assms(2))
  next
    case 3
    then show ?thesis unfolding run by (auto simp: result_bind_call assms(2))
  qed
qed

lemma MatchingNodeAddresses_set_addresses [simp]: "MatchingNodeAddresses (Status (set_addresses c as)) = as"
  by (simp add: set_addresses_def)

section \<open>Application of the objects\<close>

lemma patch_version_idem [simp]: "patch_version (patch_version c v) w = patch_version c w"
  by (simp add: patch_version_def)

lemma GenerateObjects_patch_version [simp]:
  "GenerateObjects L F ts (patch_version c v) k w ca = GenerateObjects L F ts c k w ca"
  by (simp add: GenerateObjects_def)

lemma appliedI:
  "libSetControllerReference L ow ob = Inr ob' \<Longrightarrow> libToUnstructured L ob' = Inr u \<Longrightarrow> EvApply u None \<in> set evs \<Longrightarrow>
   applied L ow evs ob"
  by (simp add: applied_def)

lemma GenerateObjects_config: "GenerateObjects L F ts c k v ca = (c', r) \<Longrightarrow> c' = patch_version c v"
  by (metis fst_GenerateObjects fst_conv)

lemma applied_mono: "applied L ow xs ob \<Longrightarrow> set xs \<subseteq> set ys \<Longrightarrow> applied L ow ys ob"
  by (auto simp: applied_def split: sum.splits)

lemma type_appliedI:
  assumes "EvIsNamespaced k (Inr namespaced) \<in> set ys"
    and "GenerateObjects L (templateFuncs E h) ts c k version caCert = (config, Inr objs)"
    and "list_all (applied L (if namespaced then OwnerConfig config else OwnerNamespace fakeNS) xs) objs"
    and "set xs \<subseteq> set ys"
  shows "type_applied E L version fakeNS caCert c ys (k, ts)"
proof -
  have "list_all (applied L (if namespaced then OwnerConfig config else OwnerNamespace fakeNS) ys) objs"
    using assms(3,4) unfolding list_all_iff by (blast intro: applied_mono)
  with assms(1,2) show ?thesis unfolding type_applied_def prod.case by blast
qed

lemma type_applied_mono:
  assumes "type_applied E L version fakeNS caCert c xs kts" and "set xs \<subseteq> set ys"
  shows "type_applied E L version fakeNS caCert c ys kts"
proof -
  obtain k ts where kts: "kts = (k, ts)" by (cases kts)
  from assms(1) obtain h namespaced config objs where "EvIsNamespaced k (Inr namespaced) \<in> set xs"
    "GenerateObjects L (templateFuncs E h) ts c k version caCert = (config, Inr objs)"
    "list_all (applied L (if namespaced then OwnerConfig config else OwnerNamespace fakeNS) xs) objs"
    unfolding type_applied_def kts prod.case by blast
  with assms(2) show ?thesis unfolding kts by (blast intro: type_appliedI)
qed

lemma type_applied_patch_version [simp]:
  "type_applied E L version fakeNS caCert (patch_version c version) evs =
   type_applied E L version fakeNS caCert c evs"
  by (simp add: type_applied_def)

lemma apply_objects_applied:
  "obeys (apply_objects E L ownerObj obs) [] (\<lambda>r new. r = None \<longrightarrow>
     list_all (applied L ownerObj new) obs \<and> list_all (\<lambda>e. \<not> failed_apply e) new)"
proof (induction obs)
  case Nil
  show ?case by (simp add: obeys_return)
next
  case (Cons ob obs)
  show ?case
    unfolding apply_objects.simps reconcileObject_def ApplyObject_def
    apply (intro obeys_rules)
       apply simp_all
    apply (rule obeys_frame [OF Cons.IH])
    apply (auto simp: list_all_iff intro: appliedI applied_mono)
    done
qed

lemma types_applied_mono:
  "list_all (type_applied E L version fakeNS caCert c xs) order \<Longrightarrow> set xs \<subseteq> set ys \<Longrightarrow>
   list_all (type_applied E L version fakeNS caCert c ys) order"
  unfolding list_all_iff by (blast intro: type_applied_mono)

lemma types_applied_Cons:
  assumes "GenerateObjects L (templateFuncs E h) ts c k version caCert = (config, Inr objs)"
    and "list_all (applied L (if namespaced then OwnerConfig config else OwnerNamespace fakeNS) xs) objs"
    and "list_all (type_applied E L version fakeNS caCert config ys) order"
  shows "list_all (type_applied E L version fakeNS caCert c ((acc @ EvIsNamespaced k (Inr namespaced) # xs) @ ys))
           ((k, ts) # order)"
proof -
  have "type_applied E L version fakeNS caCert c ((acc @ EvIsNamespaced k (Inr namespaced) # xs) @ ys) (k, ts)"
    by (rule type_appliedI [OF _ assms(1,2)]) auto
  moreover have "list_all (type_applied E L version fakeNS caCert c ys) order"
    using assms(3) GenerateObjects_config [OF assms(1)] by simp
  ultimately show ?thesis
    by (auto simp: list_all_iff intro: type_applied_mono)
qed

lemma apply_types_applied:
  "obeys (apply_types E L version fakeNS caCert order c) []
     (\<lambda>r new. Status (snd r) = Status c \<and> (fst r = None \<longrightarrow>
        list_all (type_applied E L version fakeNS caCert c new) order \<and> list_all (\<lambda>e. \<not> failed_apply e) new))"
proof (induction order arbitrary: c)
  case Nil
  show ?case by (simp add: obeys_return)
next
  case (Cons entry order)
  obtain k ts where entry: "entry = (k, ts)" by (cases entry)
  show ?case
    unfolding entry apply_types.simps IsObjectNamespaced_def
    apply (intro obeys_rules)
      apply simp
     apply (auto dest: GenerateObjects_config) [1]
    apply (rule obeys_frame [OF apply_objects_applied])
    apply (intro obeys_rules)
     apply (rule obeys_frame [OF Cons.IH])
     apply (use types_applied_Cons [where acc = "[]"] in \<open>simp_all del: list.pred_inject\<close>)
     apply (auto dest: GenerateObjects_config)
    done
qed

lemma applyObject_outcome:
  "obeys (applyObject E L namespace version order c) [] (\<lambda>(err, c') new.
     (\<not> may_apply c \<longrightarrow> err = None \<and> c' = c \<and> new = []) \<and>
     (may_apply c \<and> err = None \<longrightarrow> Status c' = (Status c)\<lparr>StatusText := ConfigurationStatusDeployed\<rparr> \<and>
        all_applied E L version order c new \<and> list_all (\<lambda>e. \<not> failed_apply e) new))"
  unfolding applyObject_def GetNamespaceObj_def GetSecret_def all_applied_def
  apply (intro obeys_rules)
       apply (simp_all add: may_apply_def)
  apply (rule obeys_frame [OF apply_types_applied])
  apply (intro obeys_rules)
   apply (simp_all add: set_status_def)
  apply (rule_tac x = fakeNS in exI, simp)
  apply (rule_tac x = caCert in exI, elim conjE, erule types_applied_mono, auto)
  done

text \<open>The contract all steps of a reconcile share.\<close>

definition no_failed_apply :: "goerror option \<times> Configuration \<Rightarrow> trace \<Rightarrow> bool" where
  "no_failed_apply out new \<longleftrightarrow> (fst out = None \<longrightarrow> list_all (\<lambda>e. \<not> failed_apply e) new)"

locale config_step =
  fixes step :: "Configuration \<Rightarrow> (goerror option \<times> Configuration) cio"
  assumes step_ok: "obeys (step c) [] (step_ok c)"
    and step_fails: "obeys (step c) [] no_failed_apply"
begin

lemma step_calls: "e \<in> set (calls (step c) tr) \<Longrightarrow> step_call e"
  using obeysD [OF step_ok] by (auto simp: step_ok_def list_all_iff)

lemma step_same_object: "same_object c (snd (result (step c) tr))"
  using obeysD [OF step_ok] by (simp add: step_ok_def)

lemma step_both: "obeys (step c) [] (\<lambda>out new. step_ok c out new \<and> no_failed_apply out new)"
  by (rule obeys_conj [OF step_ok step_fails])

end

interpretation init_step: config_step "initializeConditions E" for E
proof
  show "obeys (initializeConditions E c) [] no_failed_apply" for c
    unfolding initializeConditions_def init_condition_def Now_def
    by (intro obeys_rules) (simp_all add: no_failed_apply_def)
qed (rule initializeConditions_step)

interpretation namespace_step: config_step "reconcileClusterScopedReference E" for E
proof
  show "obeys (reconcileClusterScopedReference E c) [] no_failed_apply" for c
    unfolding reconcileClusterScopedReference_def call_defs
    by (intro obeys_rules) (simp_all add: no_failed_apply_def)
qed (rule reconcileClusterScopedReference_step)

interpretation nodes_step: config_step "findMasterNodes E L" for E L
proof
  show "obeys (findMasterNodes E L c) [] no_failed_apply" for c
    unfolding findMasterNodes_def call_defs
    by (intro obeys_rules) (simp_all add: no_failed_apply_def)
qed (rule findMasterNodes_step)

interpretation apply_step: config_step "applyObject E L namespace version order" for E L namespace version order
proof
  show "obeys (applyObject E L namespace version order c) [] no_failed_apply" for c
    by (rule obeys_mono [OF applyObject_outcome]) (auto simp: no_failed_apply_def split: prod.splits)
qed (rule applyObject_step)

text \<open>A sequence of steps is a step.\<close>

lemma run_steps_config_step:
  assumes "\<And>v. v \<in> set vs \<Longrightarrow> config_step v"
  shows "config_step (run_steps vs)"
  using assms
proof (induction vs)
  case Nil
  show ?case by unfold_locales (simp_all add: obeys_return step_ok_def no_failed_apply_def)
next
  case (Cons v vs)
  have v: "config_step v" and vs: "config_step (run_steps vs)"
    using Cons by simp_all
  have "obeys (run_steps (v # vs) c) [] (\<lambda>out new. step_ok c out new \<and> no_failed_apply out new)" for c
    unfolding run_steps.simps
    apply (rule obeys_bind)
    apply (rule obeys_mono [OF config_step.step_both [OF v]])
    apply (intro obeys_rules)
     apply (rule obeys_frame [OF config_step.step_both [OF vs]])
     apply (auto simp: step_ok_def no_failed_apply_def intro: same_object_trans)
    done
  then show ?case
    by unfold_locales (blast intro: obeys_mono)+
qed

interpretation all_steps: config_step "run_steps (reconcile_steps E L namespace version order)"
  for E L namespace version order
  by (rule run_steps_config_step)
     (auto simp: reconcile_steps_def init_step.config_step_axioms namespace_step.config_step_axioms
        nodes_step.config_step_axioms apply_step.config_step_axioms)

text \<open>Only the last step touches the status text.\<close>

lemma early_steps_keep_text:
  "obeys (initializeConditions E c) [] (\<lambda>out new. StatusText (Status (snd out)) = StatusText (Status c))"
  "obeys (reconcileClusterScopedReference E c) [] (\<lambda>out new. StatusText (Status (snd out)) = StatusText (Status c))"
  "obeys (findMasterNodes E L c) [] (\<lambda>out new. StatusText (Status (snd out)) = StatusText (Status c))"
  unfolding initializeConditions_def init_condition_def reconcileClusterScopedReference_def findMasterNodes_def call_defs
  by (intro obeys_rules; simp add: set_addresses_def)+

lemmas early_steps =
  obeys_conj [OF init_step.step_ok early_steps_keep_text(1)]
  obeys_conj [OF namespace_step.step_ok early_steps_keep_text(2)]
  obeys_conj [OF nodes_step.step_ok early_steps_keep_text(3)]

lemma all_applied_mono: "all_applied E L version order c xs \<Longrightarrow> set xs \<subseteq> set ys \<Longrightarrow> all_applied E L version order c ys"
  unfolding all_applied_def by (blast intro: types_applied_mono)

lemma run_steps_deployed:
  "obeys (run_steps (reconcile_steps E L namespace version order) c) [] (\<lambda>(err, c'') new.
     err = None \<and> StatusText (Status c) \<noteq> ConfigurationStatusDeployed \<and>
     StatusText (Status c'') = ConfigurationStatusDeployed \<longrightarrow>
     (\<exists>c'. same_object c c' \<and> may_apply c' \<and>
        Status c'' = (Status c')\<lparr>StatusText := ConfigurationStatusDeployed\<rparr> \<and> all_applied E L version order c' new))"
  unfolding reconcile_steps_def run_steps.simps
  apply (rule obeys_bind, rule obeys_mono [OF early_steps(1)], intro obeys_rules, simp_all)
  apply (rule obeys_frame [OF early_steps(2)], intro obeys_rules, simp_all)
  apply (rule obeys_frame [OF early_steps(3)], intro obeys_rules, simp_all)
  apply (rule obeys_frame [OF applyObject_outcome], intro obeys_rules, simp_all)
  apply (intro impI, rule_tac x = configb in exI)
  apply (intro conjI)
     apply (auto simp: step_ok_def intro: same_object_trans) [1]
    apply auto [1]
   apply auto [1]
  apply (rule all_applied_mono [where xs = newc for newc], auto)
  done

lemma reconcile_config_status_patch:
  "obeys (reconcile_config E L namespace version CRDList order c) [] (\<lambda>out new.
     (list_ex failed_apply new \<longrightarrow> snd out \<noteq> None \<and> list_all (\<lambda>e. \<not> is_status_patch e) new) \<and>
     (\<forall>c'' base r. EvPatchConfigurationStatus c'' base r \<in> set new \<longrightarrow>
        StatusText (Status c) \<noteq> ConfigurationStatusDeployed \<longrightarrow> StatusText (Status c'') = ConfigurationStatusDeployed \<longrightarrow>
        (\<exists>c'. same_object c c' \<and> may_apply c' \<and>
           Status c'' = (Status c')\<lparr>StatusText := ConfigurationStatusDeployed\<rparr> \<and> all_applied E L version order c' new)))"
proof (cases "DeletionTimestamp (Meta c) = None \<and> libContainsFinalizer L (Finalizers (Meta c)) KubeOVNConfigurationFinalizer")
  case False
  then have "\<not> permitted L c e" if "failed_apply e \<or> is_status_patch e" for e
    using that by (cases e) (auto simp: permitted_def elim: failed_apply.elims)
  then have none: "permitted L c e \<Longrightarrow> \<not> failed_apply e \<and> \<not> is_status_patch e" for e
    by blast
  show ?thesis
    by (rule obeys_mono [OF reconcile_config_permitted [unfolded emits_obeys]])
       (auto simp: list_all_iff list_ex_iff dest!: none)
next
  case True
  have "\<not> is_status_patch e" if "step_call e" for e
    using that by (cases e) simp_all
  then have calls: "EvPatchConfigurationStatus c'' base r \<notin> set new" "list_all (\<lambda>e. \<not> is_status_patch e) new"
    if "list_all step_call new" for c'' base r new
    using that by (auto simp: list_all_iff)
  have fails: "\<not> list_ex failed_apply new" if "list_all (\<lambda>e. \<not> failed_apply e) new" for new
    using that by (auto simp: list_all_iff list_ex_iff)
  have grow: "all_applied E L version order c' xs \<Longrightarrow> all_applied E L version order c' (xs @ ys)" for c' xs ys
    by (erule all_applied_mono) auto
  show ?thesis
    unfolding reconcile_config_def PatchConfigurationStatus_def
    apply (simp only: True simp_thms if_False if_True)
    apply (rule obeys_bind)
    apply (rule obeys_mono [OF obeys_conj [OF all_steps.step_both run_steps_deployed]])
    apply (intro obeys_rules)
      apply (simp_all add: step_ok_def no_failed_apply_def calls fails)
    apply (blast intro: grow)
    done
qed


section \<open>Progress of a deletion\<close>

lemma cleanup_versions_nothing_left:
  "nothing_left E \<Longrightarrow> result (cleanup_versions E crd vs n) tr = Inr n"
proof (induction vs arbitrary: tr)
  case (Cons v vs)
  let ?g = "(CRDGroup crd, v, CRDPlural crd)"
  have "apiListDynamic E tr ?g = Inr [] \<or> apiListDynamic E tr ?g = Inl (EApi NotFound)"
    using Cons.prems by (simp add: nothing_left_def)
  then show ?case
    by (elim disjE) (simp_all add: ListDynamic_def result_bind Cons)
qed simp

lemma cleanup_crds_nothing_left:
  "nothing_left E \<Longrightarrow> result (cleanup_crds E objs n) tr = Inr n"
  by (induction objs arbitrary: tr) (simp_all add: result_bind cleanup_versions_nothing_left split: option.split)

lemma ensureCRDObjectCleanup_nothing_left:
  "nothing_left E \<Longrightarrow> result (ensureCRDObjectCleanup E objs) tr = None"
  by (simp add: ensureCRDObjectCleanup_def NewDynamicClient_def result_bind_call cleanup_crds_nothing_left nothing_left_def)

lemma delete_owner_namespace_nothing_left:
  assumes "nothing_left E" shows "result (delete_owner_namespace E) tr = None"
proof -
  have "apiGetNamespace E tr KubeOVNFakeNamespace = Inl (EApi NotFound) \<or>
      (\<exists>ns. apiGetNamespace E tr KubeOVNFakeNamespace = Inr ns) \<and> (\<forall>tr. apiDeleteNamespace E tr KubeOVNFakeNamespace = None)"
    using assms by (simp add: nothing_left_def)
  then show ?thesis
    by (auto simp: delete_owner_namespace_def GetNamespaceObj_def DeleteNamespace_def result_bind_call)
qed

lemma release_appends:
  "appends (ensureCRDObjectCleanup E objs)" "appends (delete_owner_namespace E)" "appends (release_finalizers E L c)"
  by (rule obeys_appends [OF ensureCRDObjectCleanup_obeys] emits_appends [OF release_phase_calls(2)]
      emits_appends [OF release_phase_calls(1)])+

lemma delete_rendered_nothing_left:
  assumes "nothing_left E"
    and "libContainsFinalizer L (Finalizers (Meta c)) KubeOVNConfigurationFinalizer"
  shows "result (delete_rendered E L c objs) tr = None"
    and "\<exists>xs. calls (delete_rendered E L c objs) tr = xs @
      [EvPatchConfiguration (set_finalizers c
         (libRemoveFinalizer L (Finalizers (Meta c)) KubeOVNConfigurationFinalizer)) c None]"
proof -
  note free = ensureCRDObjectCleanup_nothing_left [OF assms(1)] delete_owner_namespace_nothing_left [OF assms(1)]
  have patch: "apiPatchConfiguration E tr new base = None" for tr new base
    using assms(1) by (simp add: nothing_left_def)
  show "result (delete_rendered E L c objs) tr = None"
    by (simp add: delete_rendered_def result_bind free release_finalizers_def assms(2) PatchConfiguration_def patch)
  have release: "calls (release_finalizers E L c) tr = [EvPatchConfiguration (set_finalizers c
      (libRemoveFinalizer L (Finalizers (Meta c)) KubeOVNConfigurationFinalizer)) c None]" for tr
    by (simp add: release_finalizers_def assms(2) PatchConfiguration_def patch)
  have "appends (do { err \<leftarrow> delete_owner_namespace E;
      case err of Some e \<Rightarrow> State_Monad.return (Some e) | None \<Rightarrow> release_finalizers E L c })"
    unfolding appends_def by (intro emits_rules release_appends [unfolded appends_def])
  then show "\<exists>xs. calls (delete_rendered E L c objs) tr = xs @
      [EvPatchConfiguration (set_finalizers c
         (libRemoveFinalizer L (Finalizers (Meta c)) KubeOVNConfigurationFinalizer)) c None]"
    unfolding delete_rendered_def by (simp add: calls_bind release_appends free release)
qed

lemma calls_deleting:
  assumes "DeletionTimestamp (Meta c) \<noteq> None"
  shows "calls (reconcile_config E L namespace version CRDList order c) tr
           = calls (deleteClusterScopedReference E L CRDList version c) tr"
    and "result (reconcile_config E L namespace version CRDList order c) tr
           = (no_requeue, result (deleteClusterScopedReference E L CRDList version c) tr)"
  using assms by (simp_all add: reconcile_config_def)

lemma release_waits_for_cleanup:
  assumes "apiGetConfiguration E tr req = Inr c" and "DeletionTimestamp (Meta c) \<noteq> None"
    and "cs = calls (ConfigurationReconcile E L namespace version CRDList order req) tr"
    and "i < length cs" and "release_call (cs ! i)"
  shows "\<exists>objs. snd (GenerateObjects L (templateFuncs E (tr @ [EvGetConfiguration req (Inr c)])) CRDList c
      CustomResourceDefinition version '''') = Inr objs \<and> crds_gone objs (take i cs)"
proof -
  let ?gen = "GenerateObjects L (templateFuncs E (tr @ [EvGetConfiguration req (Inr c)])) CRDList c
    CustomResourceDefinition version ''''"
  have cs: "cs = EvGetConfiguration req (Inr c) #
      calls (deleteClusterScopedReference E L CRDList version c) (tr @ [EvGetConfiguration req (Inr c)])"
    unfolding assms(3) ConfigurationReconcile_fetch_then cfg.calls_fetch_then
    using assms(1,2) by (simp add: calls_deleting)
  with assms(4,5) obtain j where j: "i = Suc j" by (cases i) simp_all
  with cs assms(4,5) obtain c' objs where gen: "?gen = (c', Inr objs)" and
      cs': "cs = EvGetConfiguration req (Inr c) #
        calls (delete_rendered E L c' objs) (tr @ [EvGetConfiguration req (Inr c)])"
    by (cases ?gen) (auto simp: deleteClusterScopedReference_calls split: sum.splits)
  have "only_after release_call (crds_gone objs)
      (calls (delete_rendered E L c' objs) (tr @ [EvGetConfiguration req (Inr c)]))"
    by (rule obeysD [OF delete_rendered_obeys])
  with assms(4,5) have "crds_gone objs (take j (calls (delete_rendered E L c' objs) (tr @ [EvGetConfiguration req (Inr c)])))"
    by (simp add: only_after_def cs' j)
  then have "crds_gone objs (take i cs)"
    by (rule crds_gone_mono) (auto simp: cs' j)
  with gen show ?thesis by auto
qed

section \<open>What a deletion deletes\<close>

lemma delete_justified_mono:
  "delete_justified objs xs e \<Longrightarrow> set xs \<subseteq> set ys \<Longrightarrow> set objs \<subseteq> set objs' \<Longrightarrow> delete_justified objs' ys e"
  by (cases e) (simp_all, blast)

lemma deletes_one_of_Cons: "deletes_one_of g ns items e \<Longrightarrow> deletes_one_of g ns (it # items) e"
  by (cases e) auto

lemma delete_items_one_of: "emits (deletes_one_of g ns items) (delete_items E g ns items)"
proof (induction items)
  case (Cons it items)
  have "emits (deletes_one_of g ns (it # items)) (delete_items E g ns items)"
    using Cons.IH by (rule emits_mono) (rule deletes_one_of_Cons)
  then show ?case by (auto intro!: emits_rules simp: DeleteDynamic_def)
qed (simp add: emits_return)

lemma cleanup_versions_justified:
  assumes "ObjCRD ob = Some crd" and "set vs \<subseteq> set (CRDVersions crd)"
  shows "obeys (cleanup_versions E crd vs n) [] (\<lambda>r new. list_all (delete_justified [ob] new) new)"
  using assms(2)
proof (induction vs arbitrary: n)
  case Nil
  show ?case by (simp add: obeys_return)
next
  case (Cons v vs)
  let ?g = "(CRDGroup crd, v, CRDPlural crd)"
  have one: "delete_justified [ob] evs e"
    if "deletes_one_of ?g (resource_namespace crd) items e" "EvListDynamic ?g (Inr items) \<in> set evs" for e items evs
    using that assms(1) Cons.prems by (cases e) auto
  have widen: "delete_justified [ob] xs e \<Longrightarrow> delete_justified [ob] (x # ys @ xs) e" for x xs ys e
    by (erule delete_justified_mono) auto
  have rest: "obeys (cleanup_versions E crd vs m) [] (\<lambda>r new. list_all (delete_justified [ob] new) new)" for m
    using Cons by simp
  show ?case
    unfolding cleanup_versions.simps ListDynamic_def
    apply (intro obeys_rules)
       apply (rule obeys_frame [OF rest], force simp: list_all_iff elim: delete_justified_mono)
      apply simp
    apply (rule obeys_frame [OF delete_items_one_of [unfolded emits_obeys]])
    apply (intro obeys_rules)
     apply (rule obeys_frame [OF rest])
     apply (auto simp: list_all_iff intro: one widen)
    done
qed

lemma cleanup_crds_justified:
  "obeys (cleanup_crds E objs n) [] (\<lambda>r new. list_all (delete_justified objs new) new)"
proof (induction objs arbitrary: n)
  case Nil
  show ?case by (simp add: obeys_return)
next
  case (Cons ob objs)
  have widen: "delete_justified objs xs e \<Longrightarrow> delete_justified (ob # objs) (ys @ xs) e"
    "delete_justified [ob] xs e \<Longrightarrow> delete_justified (ob # objs) (xs @ ys) e" for xs ys e
    by (auto elim: delete_justified_mono)
  show ?case
    unfolding cleanup_crds.simps
    apply (intro obeys_rules)
     apply (rule obeys_frame [OF Cons.IH], use widen(1) [where ys = "[]"] in \<open>simp add: list_all_iff\<close>)
    apply (rule obeys_frame [OF cleanup_versions_justified [OF _ subset_refl]], assumption)
    apply (intro obeys_rules)
     apply (use widen(2) [where ys = "[]"] in \<open>simp add: list_all_iff\<close>)
    apply (rule obeys_frame [OF Cons.IH])
    apply (auto simp: list_all_iff widen)
    done
qed


section \<open>Properties\<close>

text \<open>Data for the witnesses.\<close>

definition demo_owned :: "owner \<Rightarrow> kobject" where
  "demo_owned ow = \<lparr>ObjKind = ClusterRole, ObjMeta = zero_ObjectMeta\<lparr>OwnerReferences := [owner_reference ow]\<rparr>,
     ObjCRD = None, ObjBody = ''''\<rparr>"

definition owning_libs :: libs where
  "owning_libs = ref_libs\<lparr>libSetControllerReference := (\<lambda>ow ob. Inr (ob\<lparr>ObjMeta := (ObjMeta ob)\<lparr>OwnerReferences :=
     (if List.member (OwnerReferences (ObjMeta ob)) (owner_reference ow) then OwnerReferences (ObjMeta ob)
      else OwnerReferences (ObjMeta ob) @ [owner_reference ow])\<rparr>\<rparr>))\<rparr>"

lemma owning_libs_laws: "owner_reference_laws owning_libs"
  by (auto simp: owner_reference_laws_def owning_libs_def)

definition demo_config :: Configuration where
  "demo_config = zero_Configuration\<lparr>
     Meta := zero_ObjectMeta\<lparr>Name := ''kubeovn'', Namespace := ''kube-system'',
       Finalizers := [KubeOVNConfigurationFinalizer]\<rparr>,
     Spec := zero_ConfigurationSpec\<lparr>Component := zero_ComponentSpec\<lparr>EnableOVNIPSec := Some False\<rparr>\<rparr>\<rparr>"

definition demo_node :: Node where
  "demo_node = \<lparr>NodeMeta = zero_ObjectMeta\<lparr>Name := ''node1''\<rparr>,
     Addresses = [(''Hostname'', ''node1''), (''InternalIP'', ''10.0.0.1'')]\<rparr>"

definition demo_libs :: libs where
  "demo_libs = ref_libs\<lparr>
     libConvertSelectorToLabelsMap := (\<lambda>s. Inr []),
     libYamlUnmarshal := (\<lambda>k s. Inr \<lparr>ObjKind = k, ObjMeta = zero_ObjectMeta\<lparr>Name := ''object''\<rparr>,
       ObjCRD = (if k = CustomResourceDefinition
         then Some \<lparr>CRDGroup = ''kubeovn.io'', CRDPlural = ''vpcs'', CRDScope = NamespaceScoped, CRDVersions = [''v1'']\<rparr>
         else None), ObjBody = s\<rparr>)\<rparr>"

definition demo_env :: "Configuration \<Rightarrow> env" where
  "demo_env c = ref_env\<lparr>
     apiGetConfiguration := (\<lambda>_ _. Inr c),
     apiGetNamespace := (\<lambda>_ _. Inr zero_ObjectMeta),
     apiGetSecret := (\<lambda>_ _. Inr [(''ca.crt'', ''CA'')]),
     apiListNodes := (\<lambda>_ _. Inr [demo_node]),
     apiIsNamespaced := (\<lambda>_ _. Inr True),
     apiListDynamic := (\<lambda>_ _. Inr [])\<rparr>"

definition demo_crds :: "tok list list" where
  "demo_crds = [[Txt [''kind: CustomResourceDefinition'']]]"

definition demo_order :: "(objkind \<times> tok list list) list" where
  "demo_order = [(Secret, [[Txt [''kind: Secret'']]])]"

definition deleting :: "Configuration \<Rightarrow> Configuration" where
  "deleting c = c\<lparr>Meta := (Meta c)\<lparr>DeletionTimestamp := Some 1\<rparr>\<rparr>"

abbreviation demo_req :: nsname where "demo_req \<equiv> (''kube-system'', ''kubeovn'')"

abbreviation demo_reconcile :: "env \<Rightarrow> (ctrl_Result \<times> goerror option) cio" where
  "demo_reconcile E \<equiv> ConfigurationReconcile E demo_libs ''kube-system'' ''v1'' demo_crds demo_order demo_req"

text \<open>
  C11: a deletion makes progress: when no custom resource is left and the API server accepts the
  requests, the run that finds the configuration with its finalizer ends without an error, and its last
  call takes the finalizer away. It patches no node, so the nodes keep the operator's finalizer after
  the configuration is gone.
\<close>

theorem deletion_completes:
  assumes "nothing_left E"
    and "apiGetConfiguration E tr req = Inr c" and "DeletionTimestamp (Meta c) \<noteq> None"
    and "libContainsFinalizer L (Finalizers (Meta c)) KubeOVNConfigurationFinalizer"
    and "\<not> isl (snd (GenerateObjects L (templateFuncs E (tr @ [EvGetConfiguration req (Inr c)])) CRDList c
           CustomResourceDefinition version ''''))"
  shows "snd (result (ConfigurationReconcile E L namespace version CRDList order req) tr) = None \<and>
    last (calls (ConfigurationReconcile E L namespace version CRDList order req) tr) =
      EvPatchConfiguration (set_finalizers (patch_version c version)
         (libRemoveFinalizer L (Finalizers (Meta c)) KubeOVNConfigurationFinalizer)) (patch_version c version) None \<and>
    (\<forall>new base r. EvPatchNode new base r \<notin> set (calls (ConfigurationReconcile E L namespace version CRDList order req) tr))"
proof -
  let ?tr = "tr @ [EvGetConfiguration req (Inr c)]" and ?c = "patch_version c version"
  obtain objs where gen: "GenerateObjects L (templateFuncs E ?tr) CRDList c CustomResourceDefinition version '''' = (?c, Inr objs)"
    using assms(5) by (auto simp: prod_eq_iff isl_def) (metis sum.exhaust)
  have fin: "libContainsFinalizer L (Finalizers (Meta ?c)) KubeOVNConfigurationFinalizer"
    using assms(4) by simp
  have config: "calls (reconcile_config E L namespace version CRDList order c) ?tr = calls (delete_rendered E L ?c objs) ?tr"
    using assms(3) gen by (simp add: calls_deleting deleteClusterScopedReference_def)
  have calls: "calls (ConfigurationReconcile E L namespace version CRDList order req) tr =
      EvGetConfiguration req (Inr c) # calls (delete_rendered E L ?c objs) ?tr"
    and result: "result (ConfigurationReconcile E L namespace version CRDList order req) tr =
      (no_requeue, result (delete_rendered E L ?c objs) ?tr)"
    unfolding ConfigurationReconcile_fetch_then cfg.calls_fetch_then cfg.result_fetch_then
    using assms(2,3) gen by (simp_all add: calls_deleting deleteClusterScopedReference_def)
  have "\<not> permitted L c (EvPatchNode new base r)" for new base r
    using assms(3,4) by (simp add: permitted_def)
  then have "EvPatchNode new base r \<notin> set (calls (delete_rendered E L ?c objs) ?tr)" for new base r
    using emits_calls [OF reconcile_config_permitted] config by metis
  then show ?thesis
    using delete_rendered_nothing_left [OF assms(1) fin, of objs ?tr] unfolding calls result by auto
qed

lemma demo_nothing_left: "nothing_left (demo_env c)"
  by (simp add: nothing_left_def demo_env_def ref_env_def)

theorem deletion_completes_witness:
  "snd (result (demo_reconcile (demo_env (deleting demo_config))) []) = None \<and>
   Finalizers (Meta (deleting demo_config)) \<noteq> []"
proof -
  let ?c = "deleting demo_config"
  have 1: "apiGetConfiguration (demo_env ?c) [] demo_req = Inr ?c" by (simp add: demo_env_def)
  have 2: "DeletionTimestamp (Meta ?c) \<noteq> None" by (simp add: deleting_def)
  have 3: "libContainsFinalizer demo_libs (Finalizers (Meta ?c)) KubeOVNConfigurationFinalizer" by code_simp
  have 4: "\<not> isl (snd (GenerateObjects demo_libs (templateFuncs (demo_env ?c) ([] @ [EvGetConfiguration demo_req (Inr ?c)]))
      demo_crds ?c CustomResourceDefinition ''v1'' ''''))" by code_simp
  show ?thesis
    using deletion_completes [OF demo_nothing_left 1 2 3 4, of "''kube-system''" demo_order]
    by (simp add: deleting_def demo_config_def)
qed

text \<open>
  the clean-up deletes a custom resource only if the object was listed in the same run, is not
  being deleted already, and belongs to one of the given CRDs. The request names the object and, for a
  type that is namespaced, the empty namespace, whatever the namespace of the object.
\<close>

theorem cleanup_deletes_only_listed:
  assumes "EvDeleteDynamic g ns n r \<in> set (calls (ensureCRDObjectCleanup E objs) tr)"
  shows "\<exists>ob\<in>set objs. \<exists>crd. ObjCRD ob = Some crd \<and>
    ns = (if CRDScope crd = NamespaceScoped then Some '''' else None) \<and>
    (\<exists>v\<in>set (CRDVersions crd). g = (CRDGroup crd, v, CRDPlural crd)) \<and>
    (\<exists>items. EvListDynamic g (Inr items) \<in> set (calls (ensureCRDObjectCleanup E objs) tr) \<and>
       (\<exists>item\<in>set items. DynName item = n \<and> DynDeletionTimestamp item = None))"
proof -
  have "obeys (ensureCRDObjectCleanup E objs) [] (\<lambda>r new. list_all (delete_justified objs new) new)"
    unfolding ensureCRDObjectCleanup_def NewDynamicClient_def
    apply (intro obeys_rules)
     apply (rule obeys_frame [OF cleanup_crds_justified], rule obeys_return)
     apply (auto simp: list_all_iff elim!: delete_justified_mono)
    done
  from obeysD [OF this, of tr] assms
  have "delete_justified objs (calls (ensureCRDObjectCleanup E objs) tr) (EvDeleteDynamic g ns n r)"
    by (auto simp: list_all_iff)
  then show ?thesis by (simp add: resource_namespace_def)
qed

definition demo_item_env :: env where
  "demo_item_env = ref_env\<lparr>apiListDynamic := (\<lambda>_ _. Inr [\<lparr>DynNamespace = ''tenant'', DynName = ''vpc1'',
     DynDeletionTimestamp = None\<rparr>])\<rparr>"

definition demo_objs :: "kobject list" where
  "demo_objs = [\<lparr>ObjKind = CustomResourceDefinition, ObjMeta = zero_ObjectMeta,
     ObjCRD = Some \<lparr>CRDGroup = ''kubeovn.io'', CRDPlural = ''vpcs'', CRDScope = NamespaceScoped, CRDVersions = [''v1'']\<rparr>,
     ObjBody = ''''\<rparr>]"

theorem cleanup_deletes_only_listed_witness:
  "\<exists>items. EvListDynamic (''kubeovn.io'', ''v1'', ''vpcs'') (Inr items)
      \<in> set (calls (ensureCRDObjectCleanup demo_item_env demo_objs) []) \<and>
    (\<exists>item\<in>set items. DynName item = ''vpc1'' \<and> DynDeletionTimestamp item = None)"
proof -
  have "calls (ensureCRDObjectCleanup demo_item_env demo_objs) [] ! 2 =
      EvDeleteDynamic (''kubeovn.io'', ''v1'', ''vpcs'') (Some '''') ''vpc1'' None" by code_simp
  moreover have "2 < length (calls (ensureCRDObjectCleanup demo_item_env demo_objs) [])" by code_simp
  ultimately have "EvDeleteDynamic (''kubeovn.io'', ''v1'', ''vpcs'') (Some '''') ''vpc1'' None
      \<in> set (calls (ensureCRDObjectCleanup demo_item_env demo_objs) [])"
    by (metis nth_mem)
  from cleanup_deletes_only_listed [OF this] show ?thesis by auto
qed

text \<open>
  C10: a reconcile reads the configuration and then makes only the calls its phase allows. A resource
  being deleted: the clean-up of custom resources, the deletion of the owner namespace, the removal of
  the configuration's finalizer, and, only once that finalizer is gone, the removal of node finalizers.
  A resource without the finalizer: the one patch that adds it, before anything else is created. Any
  other resource: the four steps, and a status patch against the resource as it was read that changes
  the status and leaves the metadata and, but for the image tag, the specification alone. If the
  resource cannot be read there is no other call.
\<close>

theorem reconcile_only_permitted:
  assumes "e \<in> set (calls (ConfigurationReconcile E L namespace version CRDList order req) tr)"
  shows "e = EvGetConfiguration req (apiGetConfiguration E tr req) \<or>
    (\<exists>c. apiGetConfiguration E tr req = Inr c \<and> permitted L c e)"
  using cfg.fetch_then_allowed [OF assms [unfolded ConfigurationReconcile_fetch_then]]
  by (auto split: sum.splits)

theorem reconcile_only_permitted_witness:
  "\<exists>c. apiGetConfiguration (demo_env demo_config) [] demo_req = Inr c \<and>
     permitted demo_libs c (EvListNodes [] (Inr [demo_node]))"
proof -
  let ?cs = "calls (demo_reconcile (demo_env demo_config)) []"
  have "?cs ! 7 = EvListNodes [] (Inr [demo_node]) \<and> 7 < length ?cs" by code_simp
  then have "EvListNodes [] (Inr [demo_node]) \<in> set ?cs" by (metis nth_mem)
  from reconcile_only_permitted [OF this] show ?thesis by simp
qed

text \<open>
  C9: a reconcile in which the API server rejects an object reports an error and does not touch the
  status of the configuration.
\<close>

theorem failed_apply_is_reported:
  assumes "list_ex failed_apply (calls (ConfigurationReconcile E L namespace version CRDList order req) tr)"
  shows "snd (result (ConfigurationReconcile E L namespace version CRDList order req) tr) \<noteq> None \<and>
    list_all (\<lambda>e. \<not> is_status_patch e) (calls (ConfigurationReconcile E L namespace version CRDList order req) tr)"
proof (cases "apiGetConfiguration E tr req")
  case (Inl err)
  with assms show ?thesis
    unfolding ConfigurationReconcile_fetch_then cfg.calls_fetch_then by simp
next
  case (Inr c)
  with assms show ?thesis
    using obeysD [OF reconcile_config_status_patch, of E L namespace version CRDList order c "tr @ [EvGetConfiguration req (Inr c)]"]
    unfolding ConfigurationReconcile_fetch_then cfg.calls_fetch_then cfg.result_fetch_then by simp
qed

definition demo_reject_env :: env where
  "demo_reject_env = (demo_env demo_config)\<lparr>apiApply := (\<lambda>_ _. Some (EApi (OtherApi ''forbidden'')))\<rparr>"

theorem failed_apply_is_reported_witness:
  "snd (result (demo_reconcile demo_reject_env) []) \<noteq> None"
proof -
  have "list_ex failed_apply (calls (demo_reconcile demo_reject_env) [])" by code_simp
  from failed_apply_is_reported [OF this] show ?thesis by simp
qed

text \<open>
  C4: the status of a configuration becomes \<^verbatim>\<open>Deployed\<close> only in a reconcile that knew at least
  one master address, rendered every template of every object type, and had every object that came out
  accepted by the API server, owned by the configuration if its type is namespaced and by the owner
  namespace that was read otherwise.
\<close>

theorem deployed_means_applied:
  assumes "apiGetConfiguration E tr req = Inr c" and "StatusText (Status c) \<noteq> ConfigurationStatusDeployed"
    and "EvPatchConfigurationStatus c'' base r \<in> set (calls (ConfigurationReconcile E L namespace version CRDList order req) tr)"
    and "StatusText (Status c'') = ConfigurationStatusDeployed"
  shows "\<exists>c'. same_object c c' \<and> may_apply c' \<and>
    Status c'' = (Status c')\<lparr>StatusText := ConfigurationStatusDeployed\<rparr> \<and>
    all_applied E L version order c' (calls (ConfigurationReconcile E L namespace version CRDList order req) tr)"
proof -
  let ?new = "calls (reconcile_config E L namespace version CRDList order c) (tr @ [EvGetConfiguration req (Inr c)])"
  have calls: "calls (ConfigurationReconcile E L namespace version CRDList order req) tr =
      EvGetConfiguration req (Inr c) # ?new"
    unfolding ConfigurationReconcile_fetch_then cfg.calls_fetch_then using assms(1) by simp
  with assms(3) have "EvPatchConfigurationStatus c'' base r \<in> set ?new" by simp
  then obtain c' where "same_object c c' \<and> may_apply c' \<and>
      Status c'' = (Status c')\<lparr>StatusText := ConfigurationStatusDeployed\<rparr> \<and> all_applied E L version order c' ?new"
    using obeysD [OF reconcile_config_status_patch, of E L namespace version CRDList order c "tr @ [EvGetConfiguration req (Inr c)]"]
      assms(2,4) by blast
  moreover have "all_applied E L version order c' ?new \<Longrightarrow> all_applied E L version order c' (EvGetConfiguration req (Inr c) # ?new)" for c'
    by (erule all_applied_mono) auto
  ultimately show ?thesis unfolding calls by blast
qed

theorem deployed_means_applied_witness:
  "\<exists>c'. same_object demo_config c' \<and> may_apply c' \<and>
    all_applied (demo_env demo_config) demo_libs ''v1'' demo_order c' (calls (demo_reconcile (demo_env demo_config)) [])"
proof -
  let ?cs = "calls (demo_reconcile (demo_env demo_config)) []"
  have 1: "apiGetConfiguration (demo_env demo_config) [] demo_req = Inr demo_config" by (simp add: demo_env_def)
  have 2: "StatusText (Status demo_config) \<noteq> ConfigurationStatusDeployed" by code_simp
  have "case last ?cs of EvPatchConfigurationStatus c'' base r \<Rightarrow> StatusText (Status c'') = ConfigurationStatusDeployed | _ \<Rightarrow> False"
    by code_simp
  then obtain c'' base r where 4: "last ?cs = EvPatchConfigurationStatus c'' base r"
      "StatusText (Status c'') = ConfigurationStatusDeployed"
    by (cases "last ?cs") simp_all
  have "?cs \<noteq> []" by code_simp
  with 4(1) have 3: "EvPatchConfigurationStatus c'' base r \<in> set ?cs" by (metis last_in_set)
  from deployed_means_applied [OF 1 2 3 4(2)] show ?thesis by blast
qed

text \<open>
  The conditions of the types \<open>ts\<close> that were missing were added, each with the time of a reading of the
  clock, and nothing else changed.
\<close>

definition initial_condition :: "Configuration \<Rightarrow> string \<Rightarrow> int \<Rightarrow> Condition" where
  "initial_condition c t now = \<lparr>CondType = t, CondStatus = metav1_ConditionUnknown,
     ObservedGeneration = Generation (Meta c), LastTransitionTime = now, Reason = ConditionUnknownReason, Message = ''Unknown''\<rparr>"

definition conditions_added :: "string list \<Rightarrow> Configuration \<Rightarrow> Configuration \<Rightarrow> trace \<Rightarrow> bool" where
  "conditions_added ts c c' evs \<longleftrightarrow>
     (\<forall>t. ConditionExists c' t \<longleftrightarrow> t \<in> set ts \<or> ConditionExists c t) \<and>
     (\<forall>t. if ConditionExists c t \<or> t \<notin> set ts then LookupCondition c' t = LookupCondition c t
          else \<exists>now. EvNow now \<in> set evs \<and> LookupCondition c' t = initial_condition c t now) \<and>
     (conditions_distinct c' \<longleftrightarrow> conditions_distinct c) \<and>
     c'\<lparr>Status := (Status c')\<lparr>Conditions := []\<rparr>\<rparr> = c\<lparr>Status := (Status c)\<lparr>Conditions := []\<rparr>\<rparr>"

lemma conditions_added_Meta: "conditions_added ts c c' evs \<Longrightarrow> Meta c' = Meta c"
  unfolding conditions_added_def by (drule conjunct2)+ (drule arg_cong [where f = Meta], simp)

lemma conditions_added_append:
  assumes "conditions_added ts c c' xs" and "conditions_added us c' c'' ys"
  shows "conditions_added (ts @ us) c c'' (xs @ ys)"
proof -
  have initial: "initial_condition c' = initial_condition c"
    using conditions_added_Meta [OF assms(1)] by (simp add: initial_condition_def fun_eq_iff)
  show ?thesis
    using assms unfolding conditions_added_def initial by (auto split: if_splits) metis+
qed

lemma SetCondition_only_conditions:
  "(SetCondition c t s m r now)\<lparr>Status := (Status (SetCondition c t s m r now))\<lparr>Conditions := []\<rparr>\<rparr> =
     c\<lparr>Status := (Status c)\<lparr>Conditions := []\<rparr>\<rparr>"
  by (simp add: SetCondition_def)

lemma init_condition_adds: "obeys (init_condition E t c) [] (conditions_added [t] c)"
  unfolding init_condition_def Now_def
  by (intro obeys_rules)
     (auto simp: conditions_added_def LookupCondition_SetCondition initial_condition_def cond.has_put
       SetCondition_only_conditions)

lemma initializeConditions_adds:
  "obeys (initializeConditions E c) [] (\<lambda>(err, c') new. err = None \<and> conditions_added baseline_conditions c c' new)"
proof -
  have next_one: "obeys (init_condition E t c') new (conditions_added (ts @ [t]) c)" if "conditions_added ts c c' new" for ts t c' new
    by (rule obeys_frame [OF init_condition_adds]) (rule conditions_added_append [OF that])
  show ?thesis
    unfolding initializeConditions_def baseline_conditions_def
    apply (rule obeys_bind, rule obeys_mono [OF init_condition_adds])
    apply (rule obeys_bind, rule obeys_mono [OF next_one], assumption)+
    apply (rule obeys_return)
    apply simp
    done
qed

text \<open>
  C30: after \<^verbatim>\<open>initializeConditions\<close> the five baseline conditions exist. A condition that existed is the
  same in every field; a new one is \<^verbatim>\<open>Unknown\<close>, with the resource's generation, the reason and the message
  of the code and a time read from the clock during the call; no other condition appears, no type is
  duplicated, and nothing but the conditions changes.
\<close>

theorem initializeConditions_spec:
  "(case result (initializeConditions E c) tr of (err, c') \<Rightarrow>
     err = None \<and> list_all (ConditionExists c') baseline_conditions \<and>
     conditions_added baseline_conditions c c' (calls (initializeConditions E c) tr))"
  using obeysD [OF initializeConditions_adds [of E c], of tr]
  by (auto simp: conditions_added_def list_all_iff split: prod.split)

text \<open>
  \<^verbatim>\<open>addressArrayEqual\<close> compares two lists of addresses as multisets, and sorts both.
\<close>

theorem addressArrayEqual_is_multiset_equality:
  "(snd (snd (addressArrayEqual existing discovered)) \<longleftrightarrow> mset existing = mset discovered) \<and>
   sorted (fst (addressArrayEqual existing discovered)) \<and> mset (fst (addressArrayEqual existing discovered)) = mset existing"
  by (simp add: addressArrayEqual_mset)

text \<open>
  C26: \<^verbatim>\<open>findMasterNodes\<close>, when the selector parses and the nodes can be listed, does not fail. If no
  address is found and the waiting condition is not yet true, it sets that condition and keeps the
  recorded addresses; otherwise the recorded addresses become the sorted internal addresses of the
  listed nodes, and the waiting condition is set to false exactly if they changed as a multiset. No
  other condition changes.
\<close>

theorem findMasterNodes_spec:
  assumes "libConvertSelectorToLabelsMap L (MasterNodesLabel (Spec c)) = Inr labels"
    and "apiListNodes E tr labels = Inr items"
    and "result (findMasterNodes E L c) tr = (err, c')"
    and "paused = (found_addresses items = [] \<and> \<not> ConditionTrue c WaitingForMatchignNodesCondition)"
  shows "err = None \<and>
    MatchingNodeAddresses (Status c') =
      (if paused then MatchingNodeAddresses (Status c) else sort (found_addresses items)) \<and>
    CondStatus (LookupCondition c' WaitingForMatchignNodesCondition) =
      (if paused then metav1_ConditionTrue
       else if mset (found_addresses items) = mset (MatchingNodeAddresses (Status c))
       then CondStatus (LookupCondition c WaitingForMatchignNodesCondition) else metav1_ConditionFalse) \<and>
    (\<forall>t. t \<noteq> WaitingForMatchignNodesCondition \<longrightarrow> LookupCondition c' t = LookupCondition c t)"
proof -
  from findMasterNodes_result [OF assms(1,2)] assms(3,4) obtain now where "err = None" and
    "c' = (if paused
    then SetCondition c WaitingForMatchignNodesCondition metav1_ConditionTrue ''Waiting for matching nodes''
           NodesNotFoundReason now
    else if mset (found_addresses items) = mset (MatchingNodeAddresses (Status c))
    then set_addresses c (sort (MatchingNodeAddresses (Status c)))
    else set_addresses (SetCondition (set_addresses c (sort (MatchingNodeAddresses (Status c))))
           WaitingForMatchignNodesCondition metav1_ConditionFalse
           (''found nodes '' @ strings_Join (sort (found_addresses items)) '','') NodesFoundReason now)
           (sort (found_addresses items)))"
    by auto
  then show ?thesis
    using sort_mset_eq [of "found_addresses items" "MatchingNodeAddresses (Status c)"]
    by (simp add: cond.store_simps)
qed

theorem findMasterNodes_spec_witness:
  "MatchingNodeAddresses (Status (snd (result (findMasterNodes (demo_env demo_config) demo_libs demo_config) []))) = [''10.0.0.1'']"
proof -
  have 1: "libConvertSelectorToLabelsMap demo_libs (MasterNodesLabel (Spec demo_config)) = Inr []"
    by (simp add: demo_libs_def)
  have 2: "apiListNodes (demo_env demo_config) [] [] = Inr [demo_node]" by (simp add: demo_env_def)
  have 3: "found_addresses [demo_node] = [''10.0.0.1'']" by code_simp
  from findMasterNodes_spec [OF 1 2 prod.collapse [symmetric] refl] show ?thesis by (simp add: 3)
qed

text \<open>
  when the master nodes disappear, the second pass reports the opposite of what happened: with the
  waiting condition already true, no node found and old addresses recorded, it sets the waiting condition
  to false with the reason \<^verbatim>\<open>NodesFound\<close> and records no address at all.
\<close>

theorem no_nodes_reported_as_found:
  assumes "libConvertSelectorToLabelsMap L (MasterNodesLabel (Spec c)) = Inr labels"
    and "apiListNodes E tr labels = Inr items" and "found_addresses items = []"
    and "ConditionTrue c WaitingForMatchignNodesCondition" and "MatchingNodeAddresses (Status c) \<noteq> []"
    and "c' = snd (result (findMasterNodes E L c) tr)"
  shows "MatchingNodeAddresses (Status c') = [] \<and> ConditionFalse c' WaitingForMatchignNodesCondition \<and>
    Reason (LookupCondition c' WaitingForMatchignNodesCondition) = NodesFoundReason"
  using findMasterNodes_result [OF assms(1,2)] assms(3-)
  by (auto simp: ConditionFalse_def cond.store_simps)

definition demo_waiting :: Configuration where
  "demo_waiting = set_addresses (SetCondition demo_config WaitingForMatchignNodesCondition metav1_ConditionTrue
     ''Waiting for matching nodes'' NodesNotFoundReason 0) [''10.0.0.1'']"

theorem no_nodes_reported_as_found_witness:
  "ConditionFalse (snd (result (findMasterNodes (ref_env\<lparr>apiListNodes := (\<lambda>_ _. Inr [])\<rparr>) demo_libs demo_waiting) []))
     WaitingForMatchignNodesCondition"
proof -
  let ?E = "ref_env\<lparr>apiListNodes := (\<lambda>_ _. Inr [])\<rparr>"
  have 1: "libConvertSelectorToLabelsMap demo_libs (MasterNodesLabel (Spec demo_waiting)) = Inr []"
    by (simp add: demo_libs_def)
  have 2: "apiListNodes ?E [] [] = Inr []" by simp
  have 3: "found_addresses [] = []" "ConditionTrue demo_waiting WaitingForMatchignNodesCondition"
    "MatchingNodeAddresses (Status demo_waiting) \<noteq> []" by code_simp+
  from no_nodes_reported_as_found [OF 1 2 3 refl] show ?thesis by simp
qed

lemma filterObject_requests:
  "set (filterObject namespace ob) = (\<lambda>v. (namespace, OwnerName v)) `
     {v \<in> set (OwnerReferences ob). OwnerKind v = Kind \<and> OwnerAPIVersion v = APIVersion}"
  by (auto simp: filterObject_def image_iff)

lemma watched_eq_iff:
  "x\<lparr>ManagedFields := []\<rparr> = y\<lparr>ManagedFields := []\<rparr> \<longleftrightarrow> WatchedRest x = WatchedRest (y :: 'a watched)"
  by (cases x; cases y) simp

lemma filterObject_owned:
  assumes "owner_reference_laws L" and "OwnerReferences (ObjMeta ob) = []" and "libSetControllerReference L ow ob = Inr ob'"
  shows "set (filterObject namespace (ObjMeta ob')) =
    (case ow of OwnerConfig c \<Rightarrow> {(namespace, Name (Meta c))} | OwnerNamespace ns \<Rightarrow> {})"
proof -
  from assms have "owner_reference ow \<in> set (OwnerReferences (ObjMeta ob'))"
    "set (OwnerReferences (ObjMeta ob')) \<subseteq> {owner_reference ow}"
    unfolding owner_reference_laws_def by fastforce+
  then have refs: "set (OwnerReferences (ObjMeta ob')) = {owner_reference ow}" by blast
  show ?thesis
  proof (cases ow)
    case (OwnerNamespace ns)
    with refs have "OwnerKind v = ''Namespace''" if "v \<in> set (OwnerReferences (ObjMeta ob'))" for v
      using that by simp
    then show ?thesis unfolding filterObject_requests using OwnerNamespace by (fastforce simp: Kind_def)
  qed (auto simp: filterObject_requests refs image_iff)
qed

text \<open>
  C27: every managed type is watched, and an event of an object that the operator rendered and owns leads
  to a reconcile of the configuration exactly if the object is namespaced (its owner is then the
  configuration) and the event changes more than the managed fields. A change of a cluster-scoped
  object, whose owner is the namespace that stands for the configuration, leads to none.
\<close>

theorem watches_follow_ownership:
  assumes "owner_reference_laws L" and "OwnerReferences (ObjMeta ob) = []" and "libSetControllerReference L ow ob = Inr ob'"
    and "(key, mapFunc, predicate) \<in> set (AddWatches namespace CRDList)"
  shows "map fst (AddWatches namespace CRDList) = map fst (OrderedObjectList CRDList) \<and>
    set (mapFunc (ObjMeta ob')) = (case ow of OwnerConfig c \<Rightarrow> {(namespace, Name (Meta c))} | OwnerNamespace ns \<Rightarrow> {}) \<and>
    (predicate ev \<longleftrightarrow> (\<forall>old new. ev = WatchUpdate old new \<longrightarrow> WatchedRest old \<noteq> WatchedRest new))"
proof -
  from assms(4) have "mapFunc = filterObject namespace" "predicate = updatePred"
    by (auto simp: AddWatches_def)
  moreover have "updatePred ev \<longleftrightarrow> (\<forall>old new. ev = WatchUpdate old new \<longrightarrow> WatchedRest old \<noteq> WatchedRest new)"
    by (cases ev) (auto simp: watched_eq_iff)
  moreover have "map fst (AddWatches namespace CRDList) = map fst (OrderedObjectList CRDList)"
    by (simp add: AddWatches_def split_beta comp_def)
  ultimately show ?thesis
    using filterObject_owned [OF assms(1-3)] by simp
qed

theorem watches_follow_ownership_witness:
  "set (filterObject ''kube-system'' (ObjMeta (demo_owned (OwnerNamespace zero_ObjectMeta)))) = {}"
proof -
  let ?ob = "\<lparr>ObjKind = ClusterRole, ObjMeta = zero_ObjectMeta, ObjCRD = None, ObjBody = ''''\<rparr>"
  let ?ns = "OwnerNamespace zero_ObjectMeta"
  have 1: "OwnerReferences (ObjMeta ?ob) = []" by (simp add: zero_ObjectMeta_def)
  have 2: "libSetControllerReference owning_libs ?ns ?ob = Inr (demo_owned ?ns)"
    by (simp add: owning_libs_def demo_owned_def zero_ObjectMeta_def)
  have 3: "(ClusterRole, filterObject ''kube-system'', updatePred) \<in> set (AddWatches ''kube-system'' [])"
    by (simp add: AddWatches_def OrderedObjectList_def)
  from watches_follow_ownership [OF owning_libs_laws 1 2 3, where ev = "WatchCreate \<lparr>ManagedFields = [], WatchedRest = ()\<rparr>"]
  have "set (filterObject ''kube-system'' (ObjMeta (demo_owned ?ns))) = (case ?ns of OwnerConfig c \<Rightarrow> {(''kube-system'', Name (Meta c))} | OwnerNamespace ns \<Rightarrow> {})"
    by (elim conjE)
  then show ?thesis unfolding owner.case .
qed

end
