(* ===== verification/Executor.thy ===== *)
theory Executor
  imports Cluster
begin

text \<open>
  \<^verbatim>\<open>internal/executor/executor.go\<close>: running a shell command in a container of a pod. Creating the
  client can fail; \<^verbatim>\<open>Run\<close> returns the standard output, or, when the command fails, the standard
  error together with an error.
\<close>

definition NewRemoteCommandExecutor :: "env \<Rightarrow> Pod \<Rightarrow> (goerror + Pod) cio" where
  "NewRemoteCommandExecutor E pod = do {
     err \<leftarrow> NewExecutorClient E pod;
     State_Monad.return (case err of
       Some e \<Rightarrow> Inl (errorf ''error generating client for config in remote command executor'' e)
     | None \<Rightarrow> Inr pod)
   }"

definition Run :: "env \<Rightarrow> Pod \<Rightarrow> string \<Rightarrow> string \<Rightarrow> (string \<times> goerror option) cio" where
  "Run E pod containerName cmd = do {
     (outBuf, errBuf, err) \<leftarrow> ExecPod E pod containerName [''/bin/sh'', ''-c'', cmd];
     State_Monad.return (case err of
       Some e \<Rightarrow> (errBuf, Some (errorf ''error during command execution'' e))
     | None \<Rightarrow> (outBuf, None))
   }"

lemmas executor_defs = NewRemoteCommandExecutor_def Run_def

end
