(* ===== verification/Node_Controller.thy ===== *)
theory Node_Controller
  imports Config_Controller Executor
begin

text \<open>
  \<^verbatim>\<open>internal/controller/node_controller.go\<close>: every node gets the operator's finalizer; when a node is
  deleted the controller removes it from the OVN northbound and southbound databases (for a master
  node) and its chassis entry, and then releases the finalizer.
\<close>

definition podList :: "env \<Rightarrow> libs \<Rightarrow> string \<Rightarrow> string \<Rightarrow> (goerror + Pod list) cio" where
  "podList E L label namespace =
     (case libLabelsParse L label of
        Inl e \<Rightarrow> State_Monad.return (Inl (errorf ''error unable to parse label list'' e))
      | Inr selector \<Rightarrow> ListPods E selector namespace)"

definition executeOVNCentralCommand ::
    "env \<Rightarrow> libs \<Rightarrow> string \<Rightarrow> string \<Rightarrow> string \<Rightarrow> (string \<times> goerror option) cio" where
  "executeOVNCentralCommand E L script label namespace = do {
     r \<leftarrow> podList E L label namespace;
     case r of
       Inl e \<Rightarrow> State_Monad.return ('''', Some (errorf ''error generating pod list when checking for label'' e))
     | Inr items \<Rightarrow>
        (if length items \<noteq> 1
         then State_Monad.return ('''', Some (EMsg ''expected to find only one leader pod''))
         else do {
           r \<leftarrow> NewRemoteCommandExecutor E (hd items);
           case r of
             Inl e \<Rightarrow> State_Monad.return ('''', Some (errorf ''error generating new remote command executor'' e))
           | Inr pod \<Rightarrow> Run E pod OVNCentralContainerName script
         })
   }"

definition executeRemoteScriptOnLeader ::
    "env \<Rightarrow> libs \<Rightarrow> string \<Rightarrow> string \<Rightarrow> string \<Rightarrow> (goerror option) cio" where
  "executeRemoteScriptOnLeader E L namespace script label = do {
     (result, err) \<leftarrow> executeOVNCentralCommand E L script label namespace;
     State_Monad.return (case err of
       Some e \<Rightarrow> Some (errorf (''error during southbound cleanup command execution '' @ result) e)
     | None \<Rightarrow> None)
   }"

fun removeElement :: "string list \<Rightarrow> string \<Rightarrow> string list" where
  "removeElement [] element = []"
| "removeElement (x # xs) element = (if x = element then xs else x # removeElement xs element)"

definition reconcileOVNCentralState :: "env \<Rightarrow> libs \<Rightarrow> string \<Rightarrow> string \<Rightarrow> (goerror option) cio" where
  "reconcileOVNCentralState E L namespace nodeIP =
     (case GenerateNorthBoundCleanupScript nodeIP of
        Inl e \<Rightarrow> State_Monad.return (Some (errorf ''error generating northbound cleanup script'' e))
      | Inr script \<Rightarrow> do {
          err \<leftarrow> executeRemoteScriptOnLeader E L namespace script NBLeaderLabel;
          case err of
            Some e \<Rightarrow> State_Monad.return (Some (errorf ''error executing northbound cleanup script'' e))
          | None \<Rightarrow>
             (case GenerateSouthBoundCleanupScript nodeIP of
                Inl e \<Rightarrow> State_Monad.return (Some (errorf ''error generating southbound cleanup script'' e))
              | Inr script \<Rightarrow> executeRemoteScriptOnLeader E L namespace script SBLeaderLabel)
        })"

definition reconcileOVSOVNState :: "env \<Rightarrow> libs \<Rightarrow> string \<Rightarrow> string \<Rightarrow> (goerror option) cio" where
  "reconcileOVSOVNState E L namespace hostname =
     (case GenerateChassisCleanupScript hostname of
        Inl e \<Rightarrow> State_Monad.return (Some (errorf ''error rendering chassis cleanup script'' e))
      | Inr script \<Rightarrow> executeRemoteScriptOnLeader E L namespace script SBLeaderLabel)"

text \<open>The last part of a node's deletion: the chassis entry, then the finalizer.\<close>

definition finishNodeDeletion :: "env \<Rightarrow> libs \<Rightarrow> string \<Rightarrow> Node \<Rightarrow> (ctrl_Result \<times> goerror option) cio" where
  "finishNodeDeletion E L namespace node = do {
     err \<leftarrow> reconcileOVSOVNState E L namespace (nodeInternalIP node);
     case err of
       Some e \<Rightarrow> State_Monad.return (no_requeue, None)
     | None \<Rightarrow>
        (if libContainsFinalizer L (Finalizers (NodeMeta node)) KubeOVNNodeFinalizer then do {
           err \<leftarrow> PatchNode E (set_node_finalizers node
                    (libRemoveFinalizer L (Finalizers (NodeMeta node)) KubeOVNNodeFinalizer)) node;
           State_Monad.return (no_requeue, err)
         }
         else State_Monad.return (no_requeue, None))
   }"

definition reconcileNodeDeletion ::
    "env \<Rightarrow> libs \<Rightarrow> string \<Rightarrow> Configuration \<Rightarrow> Node \<Rightarrow> (ctrl_Result \<times> goerror option) cio" where
  "reconcileNodeDeletion E L namespace config node =
     (let nodeIP = nodeInternalIP node in
      if nodeIP = '''' then State_Monad.return (no_requeue, Some (EMsg ''node has no internal ip so ignoring''))
      else if slices_Contains (MatchingNodeAddresses (Status config)) nodeIP then do {
        err \<leftarrow> reconcileOVNCentralState E L namespace nodeIP;
        case err of
          Some e \<Rightarrow> State_Monad.return (no_requeue, Some e)
        | None \<Rightarrow> do {
            err \<leftarrow> PatchConfigurationStatus E
                     (set_addresses config (removeElement (MatchingNodeAddresses (Status config)) nodeIP)) config;
            case err of
              Some e \<Rightarrow> State_Monad.return (no_requeue, Some e)
            | None \<Rightarrow> finishNodeDeletion E L namespace node
          }
      }
      else finishNodeDeletion E L namespace node)"

definition fetchKubeovnConfig :: "env \<Rightarrow> string \<Rightarrow> (goerror + Configuration) cio" where
  "fetchKubeovnConfig E namespace = GetConfiguration E (namespace, DefaultConfigurationName)"

definition zero_Node :: Node where
  "zero_Node = \<lparr>NodeMeta = zero_ObjectMeta, Addresses = []\<rparr>"

text \<open>The part of \<^verbatim>\<open>Reconcile\<close> after the node and the configuration were read.\<close>

definition act_on_node :: "env \<Rightarrow> libs \<Rightarrow> string \<Rightarrow> Node \<Rightarrow> Configuration \<Rightarrow> (ctrl_Result \<times> goerror option) cio" where
  "act_on_node E L namespace node config =
     (if DeletionTimestamp (Meta config) \<noteq> None then State_Monad.return (no_requeue, None)
         else if DeletionTimestamp (NodeMeta node) = None then
           (if \<not> libContainsFinalizer L (Finalizers (NodeMeta node)) KubeOVNNodeFinalizer then do {
              err \<leftarrow> PatchNode E (set_node_finalizers node
                       (libAddFinalizer L (Finalizers (NodeMeta node)) KubeOVNNodeFinalizer)) node;
              State_Monad.return (no_requeue, err)
            }
            else State_Monad.return (no_requeue, None))
         else reconcileNodeDeletion E L namespace config node)"

text \<open>The part of \<^verbatim>\<open>Reconcile\<close> after the node was read.\<close>

definition reconcile_node :: "env \<Rightarrow> libs \<Rightarrow> string \<Rightarrow> Node \<Rightarrow> (ctrl_Result \<times> goerror option) cio" where
  "reconcile_node E L namespace node = do {
     r \<leftarrow> fetchKubeovnConfig E namespace;
     case r of
       Inl err \<Rightarrow> State_Monad.return (no_requeue, if IsNotFound err then None else Some err)
     | Inr config \<Rightarrow> act_on_node E L namespace node config
   }"

text \<open>
  Only a not-found error ends the reconcile: after any other error the code goes on with the node
  object as it was allocated.
\<close>

definition NodeReconcile :: "env \<Rightarrow> libs \<Rightarrow> string \<Rightarrow> string \<Rightarrow> (ctrl_Result \<times> goerror option) cio" where
  "NodeReconcile E L namespace req = do {
     r \<leftarrow> GetNode E req;
     case r of
       Inl err \<Rightarrow> (if IsNotFound err then State_Monad.return (no_requeue, None)
                  else reconcile_node E L namespace zero_Node)
     | Inr node \<Rightarrow> reconcile_node E L namespace node
   }"

end
