(* ===== verification/Health_Controller.thy ===== *)
theory Health_Controller
  imports Node_Controller
begin

text \<open>
  \<^verbatim>\<open>internal/controller/healthcheck_controller.go\<close>: a second reconciler of the \<^verbatim>\<open>Configuration\<close>
  that looks for the leaders of the OVN databases and records their health in conditions, at most once
  per interval.
\<close>

text \<open>Go's \<^verbatim>\<open>time.Duration\<close> is a signed 64-bit number of nanoseconds.\<close>

definition wrap64 :: "int \<Rightarrow> int" where
  "wrap64 x = (x + 2 ^ 63) mod 2 ^ 64 - 2 ^ 63"

definition seconds :: "int \<Rightarrow> int" where
  "seconds n = wrap64 (n * 1000000000)"

definition checkNeeded :: "int \<Rightarrow> Configuration \<Rightarrow> int \<Rightarrow> bool" where
  "checkNeeded healthCheckInterval config now \<longleftrightarrow>
     LastTransitionTime (LookupCondition config OVNNBLeaderFound) + seconds healthCheckInterval < now"

text \<open>
  The look-up of one leader: the condition and the message as in the code, whose message for the
  southbound leader says northbound too.
\<close>

definition record_leader ::
    "env \<Rightarrow> string \<Rightarrow> string \<Rightarrow> string \<Rightarrow> Pod list \<Rightarrow> Configuration \<Rightarrow> (bool \<times> Configuration) cio" where
  "record_leader E t notFoundMsg foundMsg pods config = do {
     now \<leftarrow> Now E;
     State_Monad.return (case pods of
       [] \<Rightarrow> (False, SetCondition config t metav1_ConditionFalse notFoundMsg LeaderNotFound now)
     | p # _ \<Rightarrow> (True, SetCondition config t metav1_ConditionTrue (foundMsg @ PodName p) LeaderFound now))
   }"

definition record_health ::
    "env \<Rightarrow> libs \<Rightarrow> string \<Rightarrow> string \<Rightarrow> string \<Rightarrow> string \<Rightarrow> Configuration \<Rightarrow> Configuration cio" where
  "record_health E L namespace script label t config = do {
     (result, err) \<leftarrow> executeOVNCentralCommand E L script label namespace;
     now \<leftarrow> Now E;
     State_Monad.return (SetCondition config t
       (case err of Some e \<Rightarrow> metav1_ConditionFalse | None \<Rightarrow> metav1_ConditionTrue) result DBHealth now)
   }"

definition reconcileOVNDBHealth ::
    "env \<Rightarrow> libs \<Rightarrow> string \<Rightarrow> int \<Rightarrow> Configuration \<Rightarrow> (goerror option \<times> Configuration) cio" where
  "reconcileOVNDBHealth E L namespace healthCheckInterval config = do {
     now \<leftarrow> Now E;
     if \<not> checkNeeded healthCheckInterval config now then State_Monad.return (None, config)
     else do {
       nb \<leftarrow> podList E L NBLeaderLabel namespace;
       case nb of
         Inl e \<Rightarrow> State_Monad.return (Some (errorf ''error fetching northbound leader'' e), config)
       | Inr nbPods \<Rightarrow> do {
           (runNBCheck, config) \<leftarrow> record_leader E OVNNBLeaderFound
             ''no pods matching northbound leader label requirements found'' ''northbound leader found '' nbPods config;
           sb \<leftarrow> podList E L SBLeaderLabel namespace;
           case sb of
             Inl e \<Rightarrow> State_Monad.return (Some (errorf ''error fetching southbound leader'' e), config)
           | Inr sbPods \<Rightarrow> do {
               (runSBCheck, config) \<leftarrow> record_leader E OVNSBLeaderFound
                 ''no pods matching southbound leader label requirements found'' ''northbound leader found '' sbPods config;
               config \<leftarrow> (if runNBCheck
                 then record_health E L namespace NBCheckScript SBLeaderLabel OVNNBDBHealth config
                 else State_Monad.return config);
               config \<leftarrow> (if runSBCheck
                 then record_health E L namespace SBCheckScript SBLeaderLabel OVNSBDBHealth config
                 else State_Monad.return config);
               State_Monad.return (None, config)
             }
         }
     }
   }"

text \<open>The part of \<^verbatim>\<open>Reconcile\<close> after the resource was read.\<close>

definition healthcheck_config ::
    "env \<Rightarrow> libs \<Rightarrow> string \<Rightarrow> int \<Rightarrow> Configuration \<Rightarrow> (ctrl_Result \<times> goerror option) cio" where
  "healthcheck_config E L namespace healthCheckInterval configObj =
     (if DeletionTimestamp (Meta configObj) \<noteq> None then State_Monad.return (no_requeue, None)
      else if StatusText (Status configObj) \<noteq> ConfigurationStatusDeployed
      then State_Monad.return (no_requeue, None)
      else do {
        (err, config) \<leftarrow> reconcileOVNDBHealth E L namespace healthCheckInterval configObj;
        case err of
          Some e \<Rightarrow> State_Monad.return (no_requeue,
            Some (errorf ''error during execution of reconcileOVNDBHealth'' e))
        | None \<Rightarrow>
           (if Conditions (Status config) \<noteq> Conditions (Status configObj) then do {
              err \<leftarrow> PatchConfigurationStatus E config configObj;
              State_Monad.return (case err of
                Some e \<Rightarrow> (no_requeue, Some e)
              | None \<Rightarrow> (\<lparr>RequeueAfter = seconds healthCheckInterval\<rparr>, None))
            }
            else State_Monad.return (\<lparr>RequeueAfter = seconds healthCheckInterval\<rparr>, None))
      })"

definition HealthReconcile ::
    "env \<Rightarrow> libs \<Rightarrow> string \<Rightarrow> int \<Rightarrow> nsname \<Rightarrow> (ctrl_Result \<times> goerror option) cio" where
  "HealthReconcile E L namespace healthCheckInterval req = do {
     r \<leftarrow> GetConfiguration E req;
     case r of
       Inl err \<Rightarrow> State_Monad.return (no_requeue, if IsNotFound err then None else Some err)
     | Inr configObj \<Rightarrow> healthcheck_config E L namespace healthCheckInterval configObj
   }"

end
