(* ===== verification/Template_Parsing.thy ===== *)
theory Template_Parsing
  imports Go_Template
begin

text \<open>
  When a template parses, and what a parsed template never does. \<open>well_formed\<close> reads the tokens once,
  without their text: it makes the checks of the parser of \<open>Go_Template\<close> with a stack that records, for
  each open block, whether an \<open>else if\<close> opened it, whether its \<open>else\<close> was seen, whether it
  is an \<open>if\<close>, and the variables to go back to. \<open>well_formed_parse\<close>: the parser accepts exactly
  the well-formed templates. \<open>parse_guarded\<close>: a template that is one conditional parses to one
  conditional. \<open>scoped\<close> is the stricter discipline in which every variable is declared in an enclosing
  block before it is read or assigned: scoped templates parse, and their execution never meets an
  undefined variable.
\<close>

type_synonym shape = "bool \<times> bool \<times> bool \<times> string list"

fun pop_chained :: "shape list \<Rightarrow> (shape list \<times> string list) option" where
  "pop_chained [] = None"
| "pop_chained ((chained, els, isif, vs) # st) = (if chained then pop_chained st else Some (st, vs))"

fun well_formed :: "(string \<Rightarrow> bool) \<Rightarrow> string list \<Rightarrow> shape list \<Rightarrow> tok list \<Rightarrow> bool" where
  "well_formed d vs st [] \<longleftrightarrow> st = []"
| "well_formed d vs st (Txt ls # ts) \<longleftrightarrow> well_formed d vs st ts"
| "well_formed d vs st (Act l r (Pipe p) # ts) \<longleftrightarrow> pipe_ok d vs p \<and> well_formed d vs st ts"
| "well_formed d vs st (Act l r (Decl x p) # ts) \<longleftrightarrow> pipe_ok d (x # vs) p \<and> well_formed d (x # vs) st ts"
| "well_formed d vs st (Act l r (Assign x p) # ts) \<longleftrightarrow> pipe_ok d (x # vs) p \<and> well_formed d (x # vs) st ts"
| "well_formed d vs st (Act l r (If p) # ts) \<longleftrightarrow> pipe_ok d vs p \<and> well_formed d vs ((False, False, True, vs) # st) ts"
| "well_formed d vs st (Act l r (With p) # ts) \<longleftrightarrow> pipe_ok d vs p \<and> well_formed d vs ((False, False, False, vs) # st) ts"
| "well_formed d vs st (Act l r (Range i x p) # ts) \<longleftrightarrow>
     pipe_ok d (x # i # vs) p \<and> well_formed d (x # i # vs) ((False, False, False, vs) # st) ts"
| "well_formed d vs st (Act l r Else # ts) \<longleftrightarrow>
     (case st of (chained, False, isif, ws) # st' \<Rightarrow> well_formed d vs ((chained, True, isif, ws) # st') ts | _ \<Rightarrow> False)"
| "well_formed d vs st (Act l r (ElseIf p) # ts) \<longleftrightarrow> pipe_ok d vs p \<and>
     (case st of (chained, False, True, ws) # st' \<Rightarrow>
        well_formed d vs ((True, False, True, vs) # (chained, True, True, ws) # st') ts | _ \<Rightarrow> False)"
| "well_formed d vs st (Act l r End # ts) \<longleftrightarrow>
     (case pop_chained st of None \<Rightarrow> False | Some (st', ws) \<Rightarrow> well_formed d ws st' ts)"

definition frame_shape :: "frame \<Rightarrow> shape" where
  "frame_shape f = (fchained f, fthen f \<noteq> None, opens_if (fopener f), fvars f)"

text \<open>The list the nodes of the outermost of the open blocks \<open>fs\<close> will be added to.\<close>

definition base_list :: "frame list \<Rightarrow> node list \<Rightarrow> node list" where
  "base_list fs cur = (if fs = [] then cur else fouter (last fs))"

lemma frame_shape_simps [simp]:
  "frame_shape (open_block b chained outer vs) = (chained, False, opens_if b, vs)"
  "frame_shape (f\<lparr>fthen := Some ns\<rparr>) = (fchained f, True, opens_if (fopener f), fvars f)"
  "fthen f = None \<Longrightarrow> frame_shape f = (fchained f, False, opens_if (fopener f), fvars f)"
  "fthen f = Some ns \<Longrightarrow> frame_shape f = (fchained f, True, opens_if (fopener f), fvars f)"
  by (simp_all add: frame_shape_def open_block_def)

lemma pop_chained_close_frames:
  "map_option (\<lambda>(fs, ns, vs). (map frame_shape fs, vs)) (close_frames fs cur) = pop_chained (map frame_shape fs)"
  by (induction fs arbitrary: cur) (auto simp: frame_shape_def Let_def)

lemma well_formed_parse:
  "parse_toks d vs (trim_toks b ts) fs cur \<noteq> None \<longleftrightarrow> well_formed d vs (map frame_shape fs) ts"
proof (induction ts arbitrary: b vs fs cur)
  case Nil
  show ?case by (cases fs) auto
next
  case (Cons t ts)
  note IH = Cons.IH [simplified]
  show ?case
  proof (cases t)
    case (Txt ls)
    then show ?thesis using IH by simp
  next
    case (Act l r a)
    show ?thesis
    proof (cases a)
      case End
      then show ?thesis
        using pop_chained_close_frames [of fs cur, symmetric]
        by (cases "close_frames fs cur") (simp_all add: Act IH split: prod.split)
    next
      case Else
      then show ?thesis
        by (cases fs; cases "fthen (hd fs)") (simp_all add: Act IH)
    next
      case (ElseIf p)
      then show ?thesis
        by (cases fs; cases "fthen (hd fs)"; cases "opens_if (fopener (hd fs))") (simp_all add: Act IH)
    qed (simp_all add: Act IH)
  qed
qed

section \<open>A template inside one conditional\<close>

text \<open>
  Reading well-formed tokens with some open blocks \<open>fs\<close> on top of others closes exactly the blocks
  \<open>fs\<close>; the nodes end up in the list that was current before they were opened.
\<close>

lemma close_frames_append:
  assumes "pop_chained (map frame_shape fs) = Some (st, ws)"
  shows "\<exists>fs' ns pre. map frame_shape fs' = st \<and> (\<forall>gs. close_frames (fs @ gs) cur = Some (fs' @ gs, ns, ws)) \<and>
    base_list fs' ns = pre @ base_list fs cur"
  using assms
proof (induction fs arbitrary: cur)
  case (Cons f fs)
  let ?cur = "close_block (fopener f) (fthen f) (rev cur) # fouter f"
  have base: "\<exists>pre. base_list fs ?cur = pre @ base_list (f # fs) cur"
    by (cases fs) (simp_all add: base_list_def)
  show ?case
  proof (cases "fchained f")
    case True
    with Cons.prems have "pop_chained (map frame_shape fs) = Some (st, ws)" by (simp add: frame_shape_def [of f])
    from Cons.IH [OF this, of ?cur] obtain fs' ns pre where "map frame_shape fs' = st"
      "\<forall>gs. close_frames (fs @ gs) ?cur = Some (fs' @ gs, ns, ws)" "base_list fs' ns = pre @ base_list fs ?cur"
      by blast
    with True base show ?thesis by (auto simp: Let_def)
  next
    case False
    from base obtain pre where "base_list fs ?cur = pre @ base_list (f # fs) cur" by blast
    with False Cons.prems show ?thesis
      by (simp add: frame_shape_def [of f] Let_def)
  qed
qed simp

lemma parse_well_formed_prefix:
  assumes "well_formed d vs (map frame_shape fs) ts"
  shows "\<exists>b' vs' ns. parse_toks d vs (trim_toks b (ts @ us)) (fs @ gs) cur =
    parse_toks d vs' (trim_toks b' us) gs (ns @ base_list fs cur)"
  using assms
proof (induction ts arbitrary: b vs fs cur)
  case Nil
  then show ?case by (intro exI [of _ b] exI [of _ vs] exI [of _ "[]"]) (simp add: base_list_def)
next
  case (Cons t ts)
  have step: ?case
    if "parse_toks d vs (trim_toks b ((t # ts) @ us)) (fs @ gs) cur = parse_toks d vs' (trim_toks b' (ts @ us)) (fs' @ gs) cur'"
      "well_formed d vs' (map frame_shape fs') ts" "\<exists>pre. base_list fs' cur' = pre @ base_list fs cur" for fs' cur' b' vs'
    using that(1,3) Cons.IH [OF that(2), of b' cur'] by (metis append.assoc)
  have emit: "\<exists>pre. base_list fs (n # cur) = pre @ base_list fs cur" for n
    by (cases "fs = []") (simp_all add: base_list_def)
  have opened: "\<exists>pre. base_list (open_block op ch cur ws # fs) [] = pre @ base_list fs cur" for op ch ws
    by (cases "fs = []") (simp_all add: base_list_def open_block_def)
  show ?case
  proof (cases t)
    case (Txt ls)
    with Cons.prems show ?thesis
      by (intro step [where fs' = fs and b' = False, OF _ _ emit]) simp_all
  next
    case (Act l r a)
    show ?thesis
    proof (cases a)
      case (Pipe p)
      then show ?thesis using Cons.prems Act
        by (intro step [where fs' = fs and cur' = "NAct p # cur" and b' = r and vs' = vs]) (simp_all add: emit)
    next
      case (Decl x p)
      then show ?thesis using Cons.prems Act
        by (intro step [where fs' = fs and cur' = "NDecl x p # cur" and b' = r and vs' = "x # vs"]) (simp_all add: emit)
    next
      case (Assign x p)
      then show ?thesis using Cons.prems Act
        by (intro step [where fs' = fs and cur' = "NAssign x p # cur" and b' = r and vs' = "x # vs"]) (simp_all add: emit)
    next
      case (If p)
      then show ?thesis using Cons.prems Act
        by (intro step [where fs' = "open_block (OIf p) False cur vs # fs" and b' = r and cur' = "[]" and vs' = vs])
           (simp_all add: opened)
    next
      case (With p)
      then show ?thesis using Cons.prems Act
        by (intro step [where fs' = "open_block (OWith p) False cur vs # fs" and b' = r and cur' = "[]" and vs' = vs])
           (simp_all add: opened)
    next
      case (Range i x p)
      then show ?thesis using Cons.prems Act
        by (intro step [where fs' = "open_block (ORange i x p) False cur vs # fs" and b' = r and cur' = "[]" and vs' = "x # i # vs"])
           (simp_all add: opened)
    next
      case Else
      with Cons.prems Act obtain f fs0 where fs: "fs = f # fs0" "fthen f = None"
        by (cases fs; cases "fthen (hd fs)") simp_all
      with Else Cons.prems Act show ?thesis
        by (intro step [where fs' = "f\<lparr>fthen := Some (rev cur)\<rparr> # fs0" and b' = r and cur' = "[]" and vs' = vs])
           (simp_all add: base_list_def)
    next
      case (ElseIf p)
      with Cons.prems Act obtain f fs0 where fs: "fs = f # fs0" "fthen f = None" "opens_if (fopener f)"
        by (cases fs; cases "fthen (hd fs)"; cases "opens_if (fopener (hd fs))") simp_all
      with ElseIf Cons.prems Act show ?thesis
        by (intro step [where fs' = "open_block (OIf p) True [] vs # f\<lparr>fthen := Some (rev cur)\<rparr> # fs0" and b' = r
              and cur' = "[]" and vs' = vs])
           (simp_all add: base_list_def)
    next
      case End
      with Cons.prems Act obtain st ws where st: "pop_chained (map frame_shape fs) = Some (st, ws)" "well_formed d ws st ts"
        by (auto split: option.splits)
      from close_frames_append [OF st(1), of cur] obtain fs' ns pre where close: "map frame_shape fs' = st"
        "close_frames (fs @ gs) cur = Some (fs' @ gs, ns, ws)" "base_list fs' ns = pre @ base_list fs cur"
        by blast
      with st(2) End Act show ?thesis
        by (intro step [where fs' = fs' and b' = r and cur' = ns and vs' = ws]) simp_all
    qed
  qed
qed

lemma parse_guarded:
  assumes "well_formed (func_defined F) [''$''] [] body" and "pipe_ok (func_defined F) [''$''] p"
  shows "\<exists>ns. template_Parse F (Act l r (If p) # body @ [Act l' r' End]) = Some [NIf p ns []]"
proof -
  let ?f = "open_block (OIf p) False [] [''$'']"
  from parse_well_formed_prefix [where fs = "[]" and gs = "[?f]" and cur = "[]", simplified list.map(1), OF assms(1)]
  obtain b' vs' ns where "parse_toks (func_defined F) [''$''] (trim_toks r (body @ [Act l' r' End])) [?f] [] =
      parse_toks (func_defined F) vs' (trim_toks b' [Act l' r' End]) [?f] (ns @ base_list [] [])"
    by (metis append_Nil)
  then show ?thesis
    using assms(2) by (simp add: template_Parse_def base_list_def open_block_def Let_def)
qed

section \<open>Declared variables\<close>

text \<open>
  The stricter discipline: an \<open>else\<close> branch knows only the variables from before the block, a variable
  is known only after the pipeline that declares it, and only a known variable is assigned.
\<close>

fun scoped :: "(string \<Rightarrow> bool) \<Rightarrow> string list \<Rightarrow> shape list \<Rightarrow> tok list \<Rightarrow> bool" where
  "scoped d vs st [] \<longleftrightarrow> st = []"
| "scoped d vs st (Txt ls # ts) \<longleftrightarrow> scoped d vs st ts"
| "scoped d vs st (Act l r (Pipe p) # ts) \<longleftrightarrow> pipe_ok d vs p \<and> scoped d vs st ts"
| "scoped d vs st (Act l r (Decl x p) # ts) \<longleftrightarrow> pipe_ok d vs p \<and> scoped d (x # vs) st ts"
| "scoped d vs st (Act l r (Assign x p) # ts) \<longleftrightarrow> pipe_ok d vs p \<and> x \<in> set vs \<and> scoped d vs st ts"
| "scoped d vs st (Act l r (If p) # ts) \<longleftrightarrow> pipe_ok d vs p \<and> scoped d vs ((False, False, True, vs) # st) ts"
| "scoped d vs st (Act l r (With p) # ts) \<longleftrightarrow> pipe_ok d vs p \<and> scoped d vs ((False, False, False, vs) # st) ts"
| "scoped d vs st (Act l r (Range i x p) # ts) \<longleftrightarrow>
     pipe_ok d vs p \<and> scoped d (x # i # vs) ((False, False, False, vs) # st) ts"
| "scoped d vs st (Act l r Else # ts) \<longleftrightarrow>
     (case st of (chained, False, isif, ws) # st' \<Rightarrow> scoped d ws ((chained, True, isif, ws) # st') ts | _ \<Rightarrow> False)"
| "scoped d vs st (Act l r (ElseIf p) # ts) \<longleftrightarrow>
     (case st of (chained, False, True, ws) # st' \<Rightarrow> pipe_ok d ws p \<and>
        scoped d ws ((True, False, True, ws) # (chained, True, True, ws) # st') ts | _ \<Rightarrow> False)"
| "scoped d vs st (Act l r End # ts) \<longleftrightarrow>
     (case pop_chained st of None \<Rightarrow> False | Some (st', ws) \<Rightarrow> scoped d ws st' ts)"

lemma scoped_append:
  "scoped d vs st ((t # ts) @ us) = scoped d vs st (t # (ts @ us))"
  "scoped d vs st ([] @ us) = scoped d vs st us"
  by simp_all

lemma scoped_weak: "st = st' \<Longrightarrow> scoped d vs st ts = scoped d vs st' ts"
  by simp

lemmas scoped_run = scoped.simps scoped_append pop_chained.simps pipe_ok.simps stages_ok.simps cmd_ok.simps
  arg_ok.simps args_ok.simps constant_cmd.simps list.set insert_iff list.case option.case prod.case bool.case
  if_True if_False simp_thms

text \<open>The known variables after a list of nodes, if all variables in it are declared.\<close>

fun declare_node :: "(string \<Rightarrow> bool) \<Rightarrow> string list \<Rightarrow> node \<Rightarrow> string list option"
  and declare_nodes :: "(string \<Rightarrow> bool) \<Rightarrow> string list \<Rightarrow> node list \<Rightarrow> string list option" where
  "declare_node d vs (NText s) = Some vs"
| "declare_node d vs (NAct p) = (if pipe_ok d vs p then Some vs else None)"
| "declare_node d vs (NDecl x p) = (if pipe_ok d vs p then Some (x # vs) else None)"
| "declare_node d vs (NAssign x p) = (if pipe_ok d vs p \<and> x \<in> set vs then Some vs else None)"
| "declare_node d vs (NIf p th el) = (if pipe_ok d vs p \<and> declare_nodes d vs th \<noteq> None \<and> declare_nodes d vs el \<noteq> None
     then Some vs else None)"
| "declare_node d vs (NWith p th el) = (if pipe_ok d vs p \<and> declare_nodes d vs th \<noteq> None \<and> declare_nodes d vs el \<noteq> None
     then Some vs else None)"
| "declare_node d vs (NRange i x p th el) = (if pipe_ok d vs p \<and> declare_nodes d (x # i # vs) th \<noteq> None \<and>
     declare_nodes d vs el \<noteq> None then Some vs else None)"
| "declare_nodes d vs [] = Some vs"
| "declare_nodes d vs (n # ns) = Option.bind (declare_node d vs n) (\<lambda>ws. declare_nodes d ws ns)"

lemma declare_nodes_append:
  "declare_nodes d vs (ms @ ns) = Option.bind (declare_nodes d vs ms) (\<lambda>ws. declare_nodes d ws ns)"
  by (induction ms arbitrary: vs) (simp_all add: Option.bind_assoc)

lemma declare_nodes_rev_Cons:
  "declare_nodes d vs (rev (n # ns)) = Option.bind (declare_nodes d vs (rev ns)) (\<lambda>ws. declare_node d ws n)"
  by (simp add: declare_nodes_append)

text \<open>The blocks the parser has open while it reads scoped tokens.\<close>

fun opener_vars :: "opener \<Rightarrow> string list \<Rightarrow> string list" where
  "opener_vars (OIf p) vs = vs"
| "opener_vars (OWith p) vs = vs"
| "opener_vars (ORange i x p) vs = x # i # vs"

fun opener_pipe :: "opener \<Rightarrow> pipe" where
  "opener_pipe (OIf p) = p"
| "opener_pipe (OWith p) = p"
| "opener_pipe (ORange i x p) = p"

fun frames_declared :: "(string \<Rightarrow> bool) \<Rightarrow> frame list \<Rightarrow> shape list \<Rightarrow> node list \<Rightarrow> string list \<Rightarrow> bool" where
  "frames_declared d [] [] cur vs \<longleftrightarrow> declare_nodes d [''$''] (rev cur) = Some vs"
| "frames_declared d (f # fs) ((chained, els, isif, ws) # st) cur vs \<longleftrightarrow>
     chained = fchained f \<and> els = (fthen f \<noteq> None) \<and> isif = opens_if (fopener f) \<and> set ws \<subseteq> set (fvars f) \<and>
     pipe_ok d ws (opener_pipe (fopener f)) \<and>
     (case fthen f of
        None \<Rightarrow> declare_nodes d (opener_vars (fopener f) ws) (rev cur) = Some vs
      | Some th \<Rightarrow> declare_nodes d (opener_vars (fopener f) ws) th \<noteq> None \<and> declare_nodes d ws (rev cur) = Some vs) \<and>
     frames_declared d fs st (fouter f) ws"
| "frames_declared d _ _ cur vs \<longleftrightarrow> False"

lemma pipe_ok_mono:
  "pipe_ok d vs p \<Longrightarrow> set vs \<subseteq> set ws \<Longrightarrow> pipe_ok d ws p"
  "stages_ok d vs p \<Longrightarrow> set vs \<subseteq> set ws \<Longrightarrow> stages_ok d ws p"
  "cmd_ok d vs c \<Longrightarrow> set vs \<subseteq> set ws \<Longrightarrow> cmd_ok d ws c"
  "arg_ok d vs a \<Longrightarrow> set vs \<subseteq> set ws \<Longrightarrow> arg_ok d ws a"
  "args_ok d vs as \<Longrightarrow> set vs \<subseteq> set ws \<Longrightarrow> args_ok d ws as"
  by (induction d vs p and d vs p and d vs c and d vs a and d vs as rule: pipe_ok_stages_ok_cmd_ok_arg_ok_args_ok.induct) auto

lemma declare_close_block:
  assumes "pipe_ok d ws (opener_pipe b)"
    and "case th of None \<Rightarrow> declare_nodes d (opener_vars b ws) ns = Some vs
      | Some ms \<Rightarrow> declare_nodes d (opener_vars b ws) ms \<noteq> None \<and> declare_nodes d ws ns = Some vs"
  shows "declare_node d ws (close_block b th ns) = Some ws"
  using assms by (cases b; cases th) simp_all

lemma frames_declared_emit:
  assumes "frames_declared d fs st cur vs" and "declare_node d vs n = Some ws"
  shows "frames_declared d fs st (n # cur) ws"
  using assms
  by (cases "(d, fs, st, cur, vs)" rule: frames_declared.cases) (auto simp: declare_nodes_append split: option.splits)

lemma frames_declared_close:
  assumes "frames_declared d fs st cur vs" and "pop_chained st = Some (st', ws)"
  shows "\<exists>fs' cur' us. close_frames fs cur = Some (fs', cur', us) \<and> set ws \<subseteq> set us \<and> frames_declared d fs' st' cur' ws"
  using assms
proof (induction fs arbitrary: st cur vs)
  case Nil
  then show ?case by (cases st) simp_all
next
  case (Cons f fs)
  from Cons.prems(1) obtain els isif vs0 st0 where st: "st = (fchained f, els, isif, vs0) # st0"
    by (cases st) auto
  let ?n = "close_block (fopener f) (fthen f) (rev cur)"
  from Cons.prems(1) st have n: "declare_node d vs0 ?n = Some vs0"
    by (intro declare_close_block) (auto split: option.splits)
  from Cons.prems(1) st have "frames_declared d fs st0 (fouter f) vs0" by simp
  from frames_declared_emit [OF this n] have closed: "frames_declared d fs st0 (?n # fouter f) vs0" .
  show ?case
  proof (cases "fchained f")
    case True
    with Cons.prems(2) st have "pop_chained st0 = Some (st', ws)" by simp
    from Cons.IH [OF closed this] True show ?thesis by (simp add: Let_def)
  next
    case False
    with Cons.prems st closed show ?thesis by (auto simp: Let_def)
  qed
qed

lemma declare_incr:
  "declare_node d vs n = Some ws \<Longrightarrow> set vs \<subseteq> set ws"
  "declare_nodes d vs ns = Some ws \<Longrightarrow> set vs \<subseteq> set ws"
  by (induction d vs n and d vs ns arbitrary: ws and ws rule: declare_node_declare_nodes.induct)
     (fastforce split: if_splits bind_splits)+

lemma frames_declared_else:
  assumes "frames_declared d (f # fs) ((chained, False, isif, ws) # st) cur vs"
  shows "fthen f = None" and "set ws \<subseteq> set vs" and "isif = opens_if (fopener f)"
    and "frames_declared d (f\<lparr>fthen := Some (rev cur)\<rparr> # fs) ((chained, True, isif, ws) # st) [] ws"
proof -
  show none: "fthen f = None" and "isif = opens_if (fopener f)" using assms by simp_all
  have "set ws \<subseteq> set (opener_vars (fopener f) ws)" by (cases "fopener f") auto
  with assms none declare_incr(2) show "set ws \<subseteq> set vs" by fastforce
  show "frames_declared d (f\<lparr>fthen := Some (rev cur)\<rparr> # fs) ((chained, True, isif, ws) # st) [] ws"
    using assms none by simp
qed

text \<open>Scoped tokens parse, to nodes in which every variable is declared.\<close>

lemma scoped_parse:
  assumes "scoped d ws st ts" and "frames_declared d fs st cur ws" and "set ws \<subseteq> set vs"
  shows "\<exists>ns. parse_toks d vs (trim_toks b ts) fs cur = Some ns \<and> declare_nodes d [''$''] ns \<noteq> None"
  using assms
proof (induction ts arbitrary: b ws vs st fs cur)
  case Nil
  then show ?case by (cases fs) simp_all
next
  case (Cons t ts)
  have emit: "\<exists>ns. parse_toks d vs' (trim_toks b' ts) fs (n # cur) = Some ns \<and> declare_nodes d [''$''] ns \<noteq> None"
    if "scoped d ws' st ts" "declare_node d ws n = Some ws'" "set ws' \<subseteq> set vs'" for b' n ws' vs'
    by (rule Cons.IH [OF that(1) frames_declared_emit [OF Cons.prems(2) that(2)] that(3)])
  have opened: "\<exists>ns. parse_toks d vs' (trim_toks b' ts) (open_block op False cur vs # fs) [] = Some ns \<and> declare_nodes d [''$''] ns \<noteq> None"
    if "scoped d (opener_vars op ws) ((False, False, opens_if op, ws) # st) ts" "pipe_ok d ws (opener_pipe op)"
      "set (opener_vars op ws) \<subseteq> set vs'" for b' op vs'
    by (rule Cons.IH [OF that(1) _ that(3)]) (use Cons.prems(2,3) that(2) in \<open>simp add: open_block_def\<close>)
  note emit = emit [simplified] and opened = opened [simplified]
  note ok = pipe_ok_mono(1) [OF _ Cons.prems(3)]
  have ok': "pipe_ok d ws p \<Longrightarrow> pipe_ok d (x # vs) p" "pipe_ok d ws p \<Longrightarrow> pipe_ok d (x # i # vs) p" for p x i
    using Cons.prems(3) by (auto elim!: pipe_ok_mono(1))
  show ?case
  proof (cases t)
    case (Txt ls)
    with Cons.prems show ?thesis by simp (rule emit; simp)
  next
    case (Act l r a)
    show ?thesis
    proof (cases a)
      case (Pipe p)
      with Cons.prems Act show ?thesis by (simp add: ok) (rule emit; simp)
    next
      case (Decl x p)
      with Cons.prems Act show ?thesis by (simp add: ok') (rule emit [where ws' = "x # ws"]; auto)
    next
      case (Assign x p)
      with Cons.prems Act show ?thesis by (simp add: ok') (rule emit [where ws' = ws]; auto)
    next
      case (If p)
      with Cons.prems Act show ?thesis by (simp add: ok) (rule opened; simp)
    next
      case (With p)
      with Cons.prems Act show ?thesis by (simp add: ok) (rule opened; simp)
    next
      case (Range i x p)
      with Cons.prems Act show ?thesis by (simp add: ok') (rule opened; auto)
    next
      case Else
      with Cons.prems Act obtain chained isif ws0 st0 where st: "st = (chained, False, isif, ws0) # st0"
        and scoped: "scoped d ws0 ((chained, True, isif, ws0) # st0) ts"
        by (auto split: list.splits prod.splits bool.splits)
      with Cons.prems(2) obtain f fs0 where fs: "fs = f # fs0" by (cases fs) auto
      note else = frames_declared_else [OF Cons.prems(2) [unfolded st fs]]
      with Cons.IH [OF scoped else(4), of vs r] Cons.prems(3) Act Else fs show ?thesis by auto
    next
      case (ElseIf p)
      with Cons.prems Act obtain chained ws0 st0 where st: "st = (chained, False, True, ws0) # st0"
        and p: "pipe_ok d ws0 p" and scoped: "scoped d ws0 ((True, False, True, ws0) # (chained, True, True, ws0) # st0) ts"
        by (auto split: list.splits prod.splits bool.splits)
      with Cons.prems(2) obtain f fs0 where fs: "fs = f # fs0" by (cases fs) auto
      note else = frames_declared_else [OF Cons.prems(2) [unfolded st fs]]
      let ?f = "f\<lparr>fthen := Some (rev cur)\<rparr>"
      from else(2) Cons.prems(3) have sub: "set ws0 \<subseteq> set vs" by simp
      have "frames_declared d (open_block (OIf p) True [] vs # ?f # fs0)
          ((True, False, True, ws0) # (chained, True, True, ws0) # st0) [] ws0"
        using else(4) p sub by (simp add: open_block_def)
      from Cons.IH [OF scoped this sub, of r] show ?thesis
        using Act ElseIf fs else(1,3) pipe_ok_mono(1) [OF p sub] by simp
    next
      case End
      with Cons.prems Act obtain st0 ws0 where pop: "pop_chained st = Some (st0, ws0)" and scoped: "scoped d ws0 st0 ts"
        by (auto split: option.splits)
      from frames_declared_close [OF Cons.prems(2) pop] obtain fs' cur' us where
        "close_frames fs cur = Some (fs', cur', us)" and sub: "set ws0 \<subseteq> set us" and "frames_declared d fs' st0 cur' ws0"
        by blast
      with Cons.IH [OF scoped this(3) sub, of r] Act End show ?thesis by simp
    qed
  qed
qed

lemma template_Parse_scoped:
  assumes "scoped (func_defined F) [''$''] [] ts"
  shows "\<exists>ns. template_Parse F ts = Some ns \<and> declare_nodes (func_defined F) [''$''] ns \<noteq> None"
  unfolding template_Parse_def by (rule scoped_parse [OF assms]) simp_all

lemma scoped_well_formed: "scoped (func_defined F) [''$''] [] ts \<Longrightarrow> well_formed (func_defined F) [''$''] [] ts"
  using template_Parse_scoped [of F ts] well_formed_parse [where fs = "[]" and ts = ts and d = "func_defined F"]
  by (auto simp: template_Parse_def)

end
