(* ===== verification/Template_Variables.thy ===== *)
theory Template_Variables
  imports Template_Parsing
begin

text \<open>
  The soundness of the discipline \<open>scoped\<close>: when every variable is declared where it is read or
  assigned, no execution of the template stops at an undefined variable. The lemmas follow the evaluation
  of arguments, commands and pipelines and the execution of nodes; a block hands back the variables it
  was entered with.
\<close>

abbreviation undefined_variable :: goerror where
  "undefined_variable \<equiv> EMsg ''undefined variable''"

definition names :: "vars \<Rightarrow> string list" where "names vs = map fst vs"

lemma names_simps [simp]: "names [] = []" "names ((x, v) # vs) = x # names vs" "length (names vs) = length vs"
  by (simp_all add: names_def)

text \<open>The functions of the map do not themselves report an undefined variable.\<close>

definition no_variable_errors :: "funcmap \<Rightarrow> bool" where
  "no_variable_errors F \<longleftrightarrow> (\<forall>f g vs. F f = Some g \<longrightarrow> g vs \<noteq> Inl undefined_variable)"

lemma ebind_undefined:
  "ebind x f = Inl e \<longleftrightarrow> x = Inl e \<or> (\<exists>v. x = Inr v \<and> f v = Inl e)"
  "ebind x f = Inr w \<longleftrightarrow> (\<exists>v. x = Inr v \<and> f v = Inr w)"
  by (cases x; simp)+

lemma evalFieldChain_defined: "evalFieldChain v ks \<noteq> Inl undefined_variable"
proof (induction ks arbitrary: v)
  case (Cons k ks)
  then show ?case by (cases "(v, k)" rule: evalField.cases) (auto split: option.splits)
qed simp

lemma template_index_defined: "template_index v is \<noteq> Inl undefined_variable"
  by (induction v "is" rule: template_index.induct) auto

lemma template_eq_defined: "template_eq a b \<noteq> Inl undefined_variable"
  by (auto simp: template_eq_def split: option.splits)

lemma builtin_defined: "builtin f = Some g \<Longrightarrow> g vs \<noteq> Inl undefined_variable"
  by (auto simp: builtin_def ebind_undefined template_index_defined template_eq_defined
      split: if_splits list.splits gval.splits)

lemma pipe_ok_cmds: "pipe_ok d vs p \<Longrightarrow> list_all (cmd_ok d vs) p"
proof -
  have "stages_ok d vs q \<Longrightarrow> list_all (cmd_ok d vs) q" for q by (induction q) simp_all
  then show "pipe_ok d vs p \<Longrightarrow> list_all (cmd_ok d vs) p" by (cases p) simp_all
qed

lemma eval_defined:
  "no_variable_errors F \<Longrightarrow> arg_ok d (names vs) a \<Longrightarrow> eval_arg F dot vs a \<noteq> Inl undefined_variable"
  "no_variable_errors F \<Longrightarrow> args_ok d (names vs) as \<Longrightarrow> eval_args F dot vs as \<noteq> Inl undefined_variable"
  "no_variable_errors F \<Longrightarrow> args_ok d (names vs) as \<Longrightarrow> eval_or F dot vs as v \<noteq> Inl undefined_variable"
  "no_variable_errors F \<Longrightarrow> cmd_ok d (names vs) c \<Longrightarrow> eval_cmd F dot vs c final \<noteq> Inl undefined_variable"
  "no_variable_errors F \<Longrightarrow> list_all (cmd_ok d (names vs)) p \<Longrightarrow> eval_pipe F dot vs p final \<noteq> Inl undefined_variable"
proof (induction F dot vs a and F dot vs as and F dot vs as v and F dot vs c final and F dot vs p final
    rule: eval_arg_eval_args_eval_or_eval_cmd_eval_pipe.induct)
  case (3 F dot vs x ks)
  then show ?case by (cases "map_of vs x") (auto simp: evalFieldChain_defined map_of_eq_None_iff names_def)
qed (auto simp: evalFieldChain_defined ebind_undefined no_variable_errors_def builtin_defined
    dest!: pipe_ok_cmds split: option.splits list.splits)

lemma eval_pipe_defined:
  assumes "no_variable_errors F" and "pipe_ok d us p" and "set us \<subseteq> set (names vs)"
  shows "eval_pipe F dot vs p [] \<noteq> Inl undefined_variable"
  using eval_defined(5) [OF assms(1) pipe_ok_cmds [OF pipe_ok_mono(1) [OF assms(2)]]] assms(3) by simp

section \<open>Execution\<close>

text \<open>
  What an execution started with the variables \<open>vs\<close> leaves: no error about a variable, or variables
  that lie on top of \<open>vs\<close> and contain those of \<open>us\<close>; and what a block leaves: the variables
  it found.
\<close>

definition declared_result :: "string list \<Rightarrow> string list \<Rightarrow> goerror + (string \<times> vars) \<Rightarrow> bool" where
  "declared_result us xs r \<longleftrightarrow> (case r of Inl e \<Rightarrow> e \<noteq> undefined_variable
     | Inr (out, vs') \<Rightarrow> set us \<subseteq> set (names vs') \<and> (\<exists>new. names vs' = new @ xs))"

definition kept_result :: "string list \<Rightarrow> goerror + (string \<times> vars) \<Rightarrow> bool" where
  "kept_result xs r \<longleftrightarrow> (case r of Inl e \<Rightarrow> e \<noteq> undefined_variable | Inr (out, vs') \<Rightarrow> names vs' = xs)"

lemma result_simps [simp]:
  "declared_result us xs (Inl e) \<longleftrightarrow> e \<noteq> undefined_variable"
  "declared_result us xs (Inr (out, vs)) \<longleftrightarrow> set us \<subseteq> set (names vs) \<and> (\<exists>new. names vs = new @ xs)"
  "kept_result xs (Inl e) \<longleftrightarrow> e \<noteq> undefined_variable"
  "kept_result xs (Inr (out, vs)) \<longleftrightarrow> names vs = xs"
  by (simp_all add: declared_result_def kept_result_def)

lemma pop_names:
  assumes "names vs' = new @ names vs"
  shows "names (pop vs vs') = names vs"
proof -
  from assms have "length vs' = length new + length vs" by (metis length_append names_simps(3))
  then have "names (pop vs vs') = drop (length new) (names vs')" by (simp add: pop_def names_def drop_map)
  with assms show ?thesis by simp
qed

lemma declared_in_scope:
  assumes "declared_result us (ext @ names vs) r"
  shows "kept_result (names vs) (in_scope vs r)"
proof (cases r)
  case (Inl e)
  with assms show ?thesis by (simp add: in_scope_def)
next
  case (Inr ov)
  obtain out vs' where r: "r = Inr (out, vs')" using Inr by (cases ov) simp
  with assms obtain new where "names vs' = (new @ ext) @ names vs" by auto
  from pop_names [OF this] show ?thesis by (simp add: r in_scope_def)
qed

lemma kept_declared:
  assumes "kept_result xs r" and "set us \<subseteq> set xs"
  shows "declared_result us xs r"
proof (cases r)
  case (Inl e)
  with assms(1) show ?thesis by simp
next
  case (Inr ov)
  with assms show ?thesis by (cases ov) simp
qed

lemma declared_block:
  "declared_result ws (names vs) r \<Longrightarrow> set us \<subseteq> set (names vs) \<Longrightarrow> declared_result us (names vs) (in_scope vs r)"
  by (rule kept_declared [OF declared_in_scope [where ext = "[]"]]) simp_all

lemma loop_range_kept:
  assumes "\<And>x us. x \<in> set ys \<Longrightarrow> names us = xs \<Longrightarrow> kept_result xs (f x us)"
  shows "names us = xs \<Longrightarrow> kept_result xs (loop_range f ys us)"
  using assms
proof (induction ys arbitrary: us)
  case (Cons y ys)
  have first: "kept_result xs (f y us)" using Cons.prems by simp
  show ?case
  proof (cases "f y us")
    case (Inl e)
    with first show ?thesis by simp
  next
    case (Inr ov)
    obtain o1 us1 where y: "f y us = Inr (o1, us1)" using Inr by (cases ov) simp
    with first have "names us1 = xs" by simp
    from Cons.IH [OF this] Cons.prems(2) have rest: "kept_result xs (loop_range f ys us1)" by simp
    show ?thesis
    proof (cases "loop_range f ys us1")
      case (Inl e)
      with rest y show ?thesis by simp
    next
      case (Inr ov)
      with rest y show ?thesis by (cases ov) simp
    qed
  qed
qed simp

lemma assign_var_declared:
  "x \<in> set (names vs) \<Longrightarrow> \<exists>vs'. assign_var vs x v = Inr vs' \<and> names vs' = names vs"
  by (induction vs x v rule: assign_var.induct) fastforce+

lemma declared_bind:
  assumes "x \<noteq> Inl undefined_variable" and "\<And>v. x = Inr v \<Longrightarrow> declared_result us xs (f v)"
  shows "declared_result us xs (ebind x f)"
  using assms by (cases x) simp_all

lemma declared_seq:
  assumes "declared_result us (names vs) r"
    and "\<And>o1 vs1. r = Inr (o1, vs1) \<Longrightarrow> set us \<subseteq> set (names vs1) \<Longrightarrow> declared_result ws (names vs1) (f vs1)"
  shows "declared_result ws (names vs) (ebind r (\<lambda>(o1, vs1). ebind (f vs1) (\<lambda>(o2, vs2). Inr (o1 @ o2, vs2))))"
proof (cases r)
  case (Inl e)
  with assms(1) show ?thesis by simp
next
  case (Inr ov)
  obtain o1 vs1 where r: "r = Inr (o1, vs1)" using Inr by (cases ov) simp
  with assms(1) obtain new where new: "names vs1 = new @ names vs" and us: "set us \<subseteq> set (names vs1)"
    by auto
  note next_one = assms(2) [OF r us]
  show ?thesis
  proof (cases "f vs1")
    case (Inl e)
    with next_one r show ?thesis by simp
  next
    case (Inr ov)
    with next_one r new show ?thesis by (cases ov) (auto simp flip: append_assoc)
  qed
qed

lemma exec_declared:
  "no_variable_errors F \<Longrightarrow> declare_node d us n = Some us' \<Longrightarrow> set us \<subseteq> set (names vs) \<Longrightarrow>
     declared_result us' (names vs) (exec_node F dot vs n)"
  "no_variable_errors F \<Longrightarrow> declare_nodes d us ns = Some us' \<Longrightarrow> set us \<subseteq> set (names vs) \<Longrightarrow>
     declared_result us' (names vs) (exec_nodes F dot vs ns)"
proof (induction F dot vs n and F dot vs ns arbitrary: us us' and us us' rule: exec_node_exec_nodes.induct)
  case (1 F dot vs s)
  then show ?case by simp
next
  case (2 F dot vs p)
  then have ok: "pipe_ok d us p" "us' = us" by (simp_all split: if_splits)
  show ?case
    unfolding exec_node.simps ok(2) by (rule declared_bind [OF eval_pipe_defined [OF 2(1) ok(1) 2(3)]]) (simp add: 2(3))
next
  case (3 F dot vs x p)
  then have ok: "pipe_ok d us p" "us' = x # us" by (simp_all split: if_splits)
  show ?case
    unfolding exec_node.simps ok(2) by (rule declared_bind [OF eval_pipe_defined [OF 3(1) ok(1) 3(3)]]) (use 3(3) in auto)
next
  case (4 F dot vs x p)
  then have ok: "pipe_ok d us p" "us' = us" "x \<in> set (names vs)" by (auto split: if_splits)
  show ?case
    unfolding exec_node.simps ok(2)
  proof (rule declared_bind [OF eval_pipe_defined [OF 4(1) ok(1) 4(3)]])
    fix v
    from assign_var_declared [OF ok(3), of v] 4(3)
    show "declared_result us (names vs) (ebind (assign_var vs x v) (\<lambda>vs'. Inr ('''', vs')))" by auto
  qed
next
  case (5 F dot vs p th el)
  then obtain ws ws' where ok: "pipe_ok d us p" "us' = us" "declare_nodes d us th = Some ws" "declare_nodes d us el = Some ws'"
    by (auto split: if_splits)
  show ?case
    unfolding exec_node.simps ok(2)
  proof (rule declared_bind [OF eval_pipe_defined [OF 5(3) ok(1) 5(5)]], rule declared_block [OF _ 5(5)])
    fix v assume v: "eval_pipe F dot vs p [] = Inr v"
    show "declared_result (if truth v then ws else ws') (names vs) (if truth v then exec_nodes F dot vs th else exec_nodes F dot vs el)"
      using 5(1) [OF v _ 5(3) ok(3) 5(5)] 5(2) [OF v _ 5(3) ok(4) 5(5)] by simp
  qed
next
  case (6 F dot vs p th el)
  then obtain ws ws' where ok: "pipe_ok d us p" "us' = us" "declare_nodes d us th = Some ws" "declare_nodes d us el = Some ws'"
    by (auto split: if_splits)
  show ?case
    unfolding exec_node.simps ok(2)
  proof (rule declared_bind [OF eval_pipe_defined [OF 6(3) ok(1) 6(5)]], rule declared_block [OF _ 6(5)])
    fix v assume v: "eval_pipe F dot vs p [] = Inr v"
    show "declared_result (if truth v then ws else ws') (names vs) (if truth v then exec_nodes F v vs th else exec_nodes F dot vs el)"
      using 6(1) [OF v _ 6(3) ok(3) 6(5)] 6(2) [OF v _ 6(3) ok(4) 6(5)] by simp
  qed
next
  case (7 F dot vs i x p body el)
  then obtain ws ws' where ok: "pipe_ok d us p" "us' = us" "declare_nodes d (x # i # us) body = Some ws"
      "declare_nodes d us el = Some ws'"
    by (auto split: if_splits)
  show ?case
    unfolding exec_node.simps ok(2)
  proof (rule declared_bind [OF eval_pipe_defined [OF 7(4) ok(1) 7(6)]])
    fix v assume v: "eval_pipe F dot vs p [] = Inr v"
    have el: "declared_result us (names vs) (in_scope vs (exec_nodes F dot vs el))"
      if "declared_result ws' (names vs) (exec_nodes F dot vs el)"
      by (rule declared_block [OF that 7(6)])
    show "declared_result us (names vs) (case v of
       VNil \<Rightarrow> in_scope vs (exec_nodes F dot vs el)
     | VList ws \<Rightarrow> (if ws = [] then in_scope vs (exec_nodes F dot vs el)
         else loop_range (\<lambda>(n, w) us. in_scope us (exec_nodes F w ((x, w) # (i, VInt (int n)) # us) body))
                (enumerate 0 ws) vs)
     | _ \<Rightarrow> Inl (EMsg ''range can't iterate over''))"
    proof (cases v)
      case VNil
      from 7(1) [OF v VNil 7(4) ok(4) 7(6)] VNil show ?thesis by (simp add: el)
    next
      case (VList ys)
      show ?thesis
      proof (cases "ys = []")
        case True
        from 7(2) [OF v VList True 7(4) ok(4) 7(6)] VList True show ?thesis by (simp add: el)
      next
        case False
        have "kept_result (names vs) (in_scope u (exec_nodes F w ((x, w) # (i, VInt (int n)) # u) body))"
          if nw: "(n, w) \<in> set (enumerate 0 ys)" and u: "names u = names vs" for n w u
        proof -
          have "set (x # i # us) \<subseteq> set (names ((x, w) # (i, VInt (int n)) # u))" using 7(6) u by auto
          from 7(3) [OF v VList False nw refl 7(4) ok(3) this]
          have "declared_result ws ([x, i] @ names u) (exec_nodes F w ((x, w) # (i, VInt (int n)) # u) body)" by simp
          from declared_in_scope [OF this] u show ?thesis by simp
        qed
        then have "kept_result (names vs) (loop_range (\<lambda>(n, w) us. in_scope us (exec_nodes F w ((x, w) # (i, VInt (int n)) # us) body))
                (enumerate 0 ys) vs)"
          by (intro loop_range_kept) auto
        from kept_declared [OF this 7(6)] False VList show ?thesis by simp
      qed
    qed simp_all
  qed
next
  case (8 F dot vs)
  then show ?case by simp
next
  case (9 F dot vs n ns)
  then obtain ws where ws: "declare_node d us n = Some ws" "declare_nodes d ws ns = Some us'"
    by (auto split: bind_splits)
  show ?case
    unfolding exec_nodes.simps by (rule declared_seq [OF 9(1) [OF 9(3) ws(1) 9(5)]]) (use 9(2,3) ws(2) in auto)
qed

text \<open>A scoped template parses, and its execution never stops at an undefined variable.\<close>

lemma parses_if_scoped: "scoped (func_defined F) [''$''] [] ts \<Longrightarrow> template_Parse F ts \<noteq> None"
  using template_Parse_scoped by fastforce

lemma scoped_execution:
  assumes "scoped (func_defined F) [''$''] [] ts" and "no_variable_errors F" and "template_Parse F ts = Some ns"
  shows "template_Execute F ns data \<noteq> Inl undefined_variable"
proof -
  from template_Parse_scoped [OF assms(1)] assms(3) obtain us where "declare_nodes (func_defined F) [''$''] ns = Some us" by auto
  from exec_declared(2) [OF assms(2) this, of "[(''$'', data)]" data]
  show ?thesis by (cases "exec_nodes F data [(''$'', data)] ns") (auto simp: template_Execute_def)
qed

end
