(* ===== verification/Render_Properties.thy ===== *)
theory Render_Properties
  imports Render Template_Variables
begin

text \<open>
  The correctness of the rendering (theory \<open>Render\<close>): every template of the operator parses, the
  values the templates see are those of the configuration, optional objects are left out, and the
  clean-up scripts are the expected texts.
\<close>

section \<open>All templates parse\<close>

text \<open>The functions of sprig and of Helm the templates use.\<close>

definition template_functions :: "string list" where
  "template_functions = [''b64enc'', ''default'', ''genCA'', ''genSignedCert'', ''lookup'', ''nindent'', ''quote'',
     ''ternary'', ''trim'']"

lemma object_funcs_defined:
  assumes "list_all (\<lambda>f. F f \<noteq> None) template_functions"
  shows "func_defined (object_funcs L F) ''b64enc''" "func_defined (object_funcs L F) ''default''"
    "func_defined (object_funcs L F) ''genCA''" "func_defined (object_funcs L F) ''genSignedCert''"
    "func_defined (object_funcs L F) ''lookup''" "func_defined (object_funcs L F) ''nindent''"
    "func_defined (object_funcs L F) ''quote''" "func_defined (object_funcs L F) ''ternary''"
    "func_defined (object_funcs L F) ''trim''" "func_defined (object_funcs L F) ''include''"
    "func_defined (object_funcs L F) ''eq''" "func_defined (object_funcs L F) ''not''"
    "func_defined (object_funcs L F) ''or''" "func_defined (object_funcs L F) ''index''"
  using assms by (auto simp: template_functions_def func_defined_def object_funcs_def builtin_def)

lemma scoped_Small:
  assumes "list_all (\<lambda>f. F f \<noteq> None) template_functions"
  shows
    "scoped (func_defined (object_funcs L F)) [''$''] [] CleanupNBDB"
    "scoped (func_defined (object_funcs L F)) [''$''] [] CleanupSBDB"
    "scoped (func_defined (object_funcs L F)) [''$''] [] CleanupChassis"
    "scoped (func_defined (object_funcs L F)) [''$''] [] ovn_vpc_nat_config"
    "scoped (func_defined (object_funcs L F)) [''$''] [] ovn_vpc_nat_gw_config"
    "scoped (func_defined (object_funcs L F)) [''$''] [] system_ovn_ipsec_role"
    "scoped (func_defined (object_funcs L F)) [''$''] [] kube_ovn_tls_secret"
    "scoped (func_defined (object_funcs L F)) [''$''] [] ovn_sa_template"
    "scoped (func_defined (object_funcs L F)) [''$''] [] ovn_ovs_template"
    "scoped (func_defined (object_funcs L F)) [''$''] [] kube_ovn_cni"
    "scoped (func_defined (object_funcs L F)) [''$''] [] kube_ovn_app_template"
    "scoped (func_defined (object_funcs L F)) [''$''] [] system_ovn_clusterrolebinding"
    "scoped (func_defined (object_funcs L F)) [''$''] [] ovn_ovs_clusterrolebinding"
    "scoped (func_defined (object_funcs L F)) [''$''] [] system_kube_ovn_cni_clusterrolebinding"
    "scoped (func_defined (object_funcs L F)) [''$''] [] system_kube_ovn_app_clusterrolebinding"
    "scoped (func_defined (object_funcs L F)) [''$''] [] kube_ovn_app_rolebinding"
    "scoped (func_defined (object_funcs L F)) [''$''] [] kube_ovn_cni_rolebinding"
    "scoped (func_defined (object_funcs L F)) [''$''] [] kube_ovn_cni_secret_reader_rolebinding"
    "scoped (func_defined (object_funcs L F)) [''$''] [] ovn_rolebinding"
    "scoped (func_defined (object_funcs L F)) [''$''] [] ovn_ipsec_rolebinding"
    "scoped (func_defined (object_funcs L F)) [''$''] [] kube_ovn_controller_service"
    "scoped (func_defined (object_funcs L F)) [''$''] [] kube_ovn_monitor_service"
    "scoped (func_defined (object_funcs L F)) [''$''] [] ovn_nb_service"
    "scoped (func_defined (object_funcs L F)) [''$''] [] ovn_northd_service"
    "scoped (func_defined (object_funcs L F)) [''$''] [] kube_ovn_cni_service"
    "scoped (func_defined (object_funcs L F)) [''$''] [] kube_ovn_pinger_service"
    "scoped (func_defined (object_funcs L F)) [''$''] [] ovn_sb_service"
    "scoped (func_defined (object_funcs L F)) [''$''] [] kubeovn_webhook_service"
    "scoped (func_defined (object_funcs L F)) [''$''] [] kubeovn_validatingwebhook_configuration"
  unfolding CleanupChassis_def CleanupNBDB_def CleanupSBDB_def kube_ovn_app_rolebinding_def kube_ovn_app_template_def kube_ovn_cni_def kube_ovn_cni_rolebinding_def kube_ovn_cni_secret_reader_rolebinding_def kube_ovn_cni_service_def kube_ovn_controller_service_def kube_ovn_monitor_service_def kube_ovn_pinger_service_def kube_ovn_tls_secret_def kubeovn_validatingwebhook_configuration_def kubeovn_webhook_service_def ovn_ipsec_rolebinding_def ovn_nb_service_def ovn_northd_service_def ovn_ovs_clusterrolebinding_def ovn_ovs_template_def ovn_rolebinding_def ovn_sa_template_def ovn_sb_service_def ovn_vpc_nat_config_def ovn_vpc_nat_gw_config_def system_kube_ovn_app_clusterrolebinding_def system_kube_ovn_cni_clusterrolebinding_def system_ovn_clusterrolebinding_def system_ovn_ipsec_role_def
  by (simp_all only: scoped_run object_funcs_defined [OF assms] cong: scoped_weak)

lemma scoped_ClusterRoles:
  assumes "list_all (\<lambda>f. F f \<noteq> None) template_functions"
  shows
    "scoped (func_defined (object_funcs L F)) [''$''] [] system_ovn_clusterrole"
    "scoped (func_defined (object_funcs L F)) [''$''] [] system_ovn_ovs_clusterrole"
    "scoped (func_defined (object_funcs L F)) [''$''] [] system_kube_ovn_cni_clusterrole"
    "scoped (func_defined (object_funcs L F)) [''$''] [] system_kube_ovn_app_clusterrole"
  unfolding system_kube_ovn_app_clusterrole_def system_kube_ovn_cni_clusterrole_def system_ovn_clusterrole_def system_ovn_ovs_clusterrole_def
  by (simp_all only: scoped_run object_funcs_defined [OF assms] cong: scoped_weak)

lemma scoped_Deployments:
  assumes "list_all (\<lambda>f. F f \<noteq> None) template_functions"
  shows
    "scoped (func_defined (object_funcs L F)) [''$''] [] ovn_central_deployment"
    "scoped (func_defined (object_funcs L F)) [''$''] [] kube_ovn_controller_deployment"
    "scoped (func_defined (object_funcs L F)) [''$''] [] ovn_ic_controller_deployment"
    "scoped (func_defined (object_funcs L F)) [''$''] [] kube_ovn_monitor_deployment"
    "scoped (func_defined (object_funcs L F)) [''$''] [] kubeovn_webhook_deployment"
  unfolding kube_ovn_controller_deployment_def kube_ovn_monitor_deployment_def kubeovn_webhook_deployment_def ovn_central_deployment_def ovn_ic_controller_deployment_def kube_ovn_controller_deployment_part1_def kube_ovn_controller_deployment_part2_def kube_ovn_monitor_deployment_part1_def kube_ovn_monitor_deployment_part2_def ovn_central_deployment_part1_def ovn_central_deployment_part2_def
  by (simp_all only: scoped_run object_funcs_defined [OF assms] cong: scoped_weak)

lemma scoped_Daemonsets:
  assumes "list_all (\<lambda>f. F f \<noteq> None) template_functions"
  shows
    "scoped (func_defined (object_funcs L F)) [''$''] [] ovs_ovn_dpdk_daemonset"
    "scoped (func_defined (object_funcs L F)) [''$''] [] kube_ovn_cni_daemonset"
    "scoped (func_defined (object_funcs L F)) [''$''] [] ovs_ovn_daemonset"
    "scoped (func_defined (object_funcs L F)) [''$''] [] kube_ovn_pinger_daemonsets"
  unfolding kube_ovn_cni_daemonset_def kube_ovn_pinger_daemonsets_def ovs_ovn_daemonset_def ovs_ovn_dpdk_daemonset_def kube_ovn_cni_daemonset_part1_def kube_ovn_cni_daemonset_part2_def kube_ovn_cni_daemonset_part3_def kube_ovn_pinger_daemonsets_part1_def kube_ovn_pinger_daemonsets_part2_def ovs_ovn_daemonset_part1_def ovs_ovn_daemonset_part2_def ovs_ovn_dpdk_daemonset_part1_def ovs_ovn_dpdk_daemonset_part2_def
  by (simp_all only: scoped_run object_funcs_defined [OF assms] cong: scoped_weak)

section \<open>The values the templates see\<close>

lemma map_of_json [simp]:
  "map_of (j_str k s) j = (if j = k \<and> s \<noteq> '''' then Some (VStr s) else None)"
  "map_of (j_ptr k p) j = (if j = k then map_option VBool p else None)"
  "map_of (j_bool k b) j = (if j = k \<and> b then Some (VBool True) else None)"
  "map_of (j_int k n) j = (if j = k \<and> n \<noteq> 0 then Some (VFloat n 0) else None)"
  "map_of (j_strs k xs) j = (if j = k \<and> xs \<noteq> [] then Some (VList (map VStr xs)) else None)"
  "map_of (j_struct k m) j = (if j = k then Some (VMap m) else None)"
  "map_of (j_quantity k q) j = (if j = k then Some (VStr q) else None)"
  by (simp_all add: j_str_def j_ptr_def j_bool_def j_int_def j_strs_def j_struct_def j_quantity_def split: option.split)

text \<open>The tree has two roots: the specification with three added keys, and the computed values.\<close>

definition values_map :: "Configuration \<Rightarrow> string \<Rightarrow> (string \<times> gval) list" where
  "values_map config caCert =
     map_set (map_set (map_set (json_ConfigurationSpec (Spec config)) ''namespace'' (VStr (Namespace (Meta config))))
       ''caCert'' (VStr caCert))
       ''MASTER_NODES'' (VStr (strings_Join (MatchingNodeAddresses (Status config)) '',''))"

definition kubeovn_map :: "Configuration \<Rightarrow> bool \<Rightarrow> string \<Rightarrow> (string \<times> gval) list" where
  "kubeovn_map config ipsec affinity =
     (let m = [(''nodeCount'', VInt (int (length (MatchingNodeAddresses (Status config))))),
          (''nodeIPs'', VStr (strings_Join (MatchingNodeAddresses (Status config)) '','')),
          (''ovs-ovn'', VMap [(''updateStrategy'', VStr ''RollingUpdate'')]),
          (''ovn'', VMap [(''versionCompatibility'', VFloat 2403 (-2))]),
          (''runAsUser'', VInt (if ipsec then 0 else 65534))]
      in if affinity = '''' then m else map_set m ''masterNodeAffinity'' (VStr affinity))"

lemma template_values_eq:
  assumes "nested_field_laws L"
  shows "template_values L F config caCert =
    (case EnableOVNIPSec (Component (Spec config)) of
       None \<Rightarrow> Inl (EPanic ''nil pointer dereference'')
     | Some ipsec \<Rightarrow>
        (case generateMasterNodeAffinity F config of
           Inl e \<Rightarrow> Inl (errorf ''failed to generate master node affinity'' e)
         | Inr affinity \<Rightarrow> Inr (VMap [(''Values'', VMap (values_map config caCert)),
             (''kubeovn'', VMap (kubeovn_map config ipsec affinity))])))"
proof -
  have set: "libSetNestedField L v x ks = Inr (set_path v x ks)" if "has_map_path v ks" for v x ks
    using assms that by (simp add: nested_field_laws_def)
  show ?thesis
    by (auto simp: template_values_def generateMap_def set generateIncludeValues_def values_map_def kubeovn_map_def Let_def
        split: option.split sum.split)
qed
section \<open>Templates inside one conditional\<close>

lemma scoped_butlast:
  "scoped d vs st (butlast (t # u # ts)) = scoped d vs st (t # butlast (u # ts))"
  "scoped d vs st (butlast [t]) = scoped d vs st []"
  "scoped d vs st (butlast ((t # u # ts) @ us)) = scoped d vs st (t # butlast ((u # ts) @ us))"
  "scoped d vs st (butlast ([t] @ w # ws)) = scoped d vs st (t # butlast (w # ws))"
  by simp_all

lemma parse_one_conditional:
  assumes "ts = Act l r (If p) # rest" and "rest \<noteq> []" and "last rest = Act l' r' End"
    and "scoped (func_defined F) [''$''] [] (butlast rest)" and "pipe_ok (func_defined F) [''$''] p"
  shows "\<exists>ns. template_Parse F ts = Some [NIf p ns []]"
  using parse_guarded [OF scoped_well_formed [OF assms(4)] assms(5), of l r l' r'] assms(1-3) by (metis append_butlast_last_id)

text \<open>The three templates that are rendered only when a feature is switched on.\<close>

lemma guarded_bodies:
  assumes "list_all (\<lambda>f. F f \<noteq> None) template_functions"
  shows "scoped (func_defined (object_funcs L F)) [''$''] [] (butlast (tl kube_ovn_tls_secret))"
    "scoped (func_defined (object_funcs L F)) [''$''] [] (butlast (tl ovn_ic_controller_deployment))"
    "scoped (func_defined (object_funcs L F)) [''$''] [] (butlast (tl ovs_ovn_dpdk_daemonset))"
  unfolding kube_ovn_tls_secret_def ovn_ic_controller_deployment_def ovs_ovn_dpdk_daemonset_def
    ovs_ovn_dpdk_daemonset_part1_def ovs_ovn_dpdk_daemonset_part2_def append_Cons append_Nil list.sel
  by (simp_all only: scoped_run scoped_butlast cong: scoped_weak)
     (simp_all only: object_funcs_defined [OF assms])

lemma guarded_ends:
  "last (tl kube_ovn_tls_secret) = Act True False End" "tl kube_ovn_tls_secret \<noteq> []"
  "last (tl ovn_ic_controller_deployment) = Act True False End" "tl ovn_ic_controller_deployment \<noteq> []"
  "last (tl ovs_ovn_dpdk_daemonset) = Act True False End" "tl ovs_ovn_dpdk_daemonset \<noteq> []"
  unfolding kube_ovn_tls_secret_def ovn_ic_controller_deployment_def ovs_ovn_dpdk_daemonset_def
    ovs_ovn_dpdk_daemonset_part1_def ovs_ovn_dpdk_daemonset_part2_def append_Cons append_Nil list.sel
  by (simp_all only: last.simps list.distinct if_False if_True simp_thms)

lemma guarded_starts:
  "kube_ovn_tls_secret = Act True False (If [CArg (AField [''Values'', ''networking'', ''enableSSL''])]) # tl kube_ovn_tls_secret"
  "ovn_ic_controller_deployment = Act True False (If [CArg (AField [''Values'', ''components'', ''enableIC''])]) # tl ovn_ic_controller_deployment"
  "ovs_ovn_dpdk_daemonset = Act True False (If [CArg (AField [''Values'', ''hybridDPDK''])]) # tl ovs_ovn_dpdk_daemonset"
  unfolding kube_ovn_tls_secret_def ovn_ic_controller_deployment_def ovs_ovn_dpdk_daemonset_def
    ovs_ovn_dpdk_daemonset_part1_def append_Cons append_Nil list.sel
  by (rule refl)+

lemma guarded_parse:
  assumes "list_all (\<lambda>f. F f \<noteq> None) template_functions"
  shows "\<exists>ns. template_Parse (object_funcs L F) kube_ovn_tls_secret =
      Some [NIf [CArg (AField [''Values'', ''networking'', ''enableSSL''])] ns []]"
    "\<exists>ns. template_Parse (object_funcs L F) ovn_ic_controller_deployment =
      Some [NIf [CArg (AField [''Values'', ''components'', ''enableIC''])] ns []]"
    "\<exists>ns. template_Parse (object_funcs L F) ovs_ovn_dpdk_daemonset =
      Some [NIf [CArg (AField [''Values'', ''hybridDPDK''])] ns []]"
  using parse_one_conditional [OF guarded_starts(1) guarded_ends(2,1) guarded_bodies(1) [OF assms]]
    parse_one_conditional [OF guarded_starts(2) guarded_ends(4,3) guarded_bodies(2) [OF assms]]
    parse_one_conditional [OF guarded_starts(3) guarded_ends(6,5) guarded_bodies(3) [OF assms]]
  by simp_all

lemma guarded_off:
  assumes "\<exists>ns. template_Parse (object_funcs L F) ts = Some [NIf [CArg (AField ks)] ns []]"
    and "evalFieldChain v ks = Inr w" and "\<not> truth w" and "InitialiseNewObject k \<noteq> None"
  shows "generateObject L F ts v k = Inr None"
  using assms by (auto simp: generateObject_def template_Execute_def in_scope_def pop_def)

section \<open>Field chains\<close>

lemma evalFieldChain_values:
  "evalFieldChain (VMap [(''Values'', VMap m), (''kubeovn'', VMap k)]) (''Values'' # key # ks) =
     evalFieldChain (case map_of m key of None \<Rightarrow> VNil | Some w \<Rightarrow> w) ks"
  by simp

lemma map_of_values_map:
  "map_of (values_map config caCert) key =
     (if key = ''MASTER_NODES'' then Some (VStr (strings_Join (MatchingNodeAddresses (Status config)) '',''))
      else if key = ''caCert'' then Some (VStr caCert)
      else if key = ''namespace'' then Some (VStr (Namespace (Meta config)))
      else map_of (json_ConfigurationSpec (Spec config)) key)"
  by (simp add: values_map_def)

lemma json_keys:
  "map_of (json_ConfigurationSpec s) ''hybridDPDK'' = map_option VBool (HybridDPDK s)"
  "map_of (json_ConfigurationSpec s) ''networking'' = Some (VMap (json_NetworkingSpec (Networking s)))"
  "map_of (json_ConfigurationSpec s) ''components'' = Some (VMap (json_ComponentSpec (Component s)))"
  "map_of (json_ConfigurationSpec s) ''global'' = Some (VMap (json_GlobalSpec (Global s)))"
  "map_of (json_ConfigurationSpec s) ''dual_stack'' = None"
  "map_of (json_ConfigurationSpec s) ''cniConfig'' = None"
  "map_of (json_NetworkingSpec n) ''enableSSL'' = map_option VBool (EnableSSL n)"
  "map_of (json_NetworkingSpec n) ''NET_STACK'' = None"
  "map_of (json_NetworkingSpec n) ''ovnRemoteOpenFlowInterval'' = None"
  "map_of (json_ComponentSpec c) ''enableIC'' = map_option VBool (EnableIC c)"
  by (simp_all add: json_ConfigurationSpec_def json_NetworkingSpec_def json_ComponentSpec_def map_add_def split: option.split)

lemma json_performance:
  "\<exists>m. map_of (json_ConfigurationSpec s) ''performance'' = Some (VMap m) \<and>
     map_of m ''gcInterval'' = (if GCInterval (Performance s) = 0 then None else Some (VFloat (GCInterval (Performance s)) 0))"
  by (simp add: json_ConfigurationSpec_def map_add_def)
lemmas template_run = template_Parse_def template_Execute_def Let_def func_defined_def no_funcs_def

lemma scripts_render:
  "\<exists>s. GenerateNorthBoundCleanupScript a = Inr s" "\<exists>s. GenerateSouthBoundCleanupScript a = Inr s"
  "\<exists>s. GenerateChassisCleanupScript a = Inr s"
  unfolding GenerateNorthBoundCleanupScript_def GenerateSouthBoundCleanupScript_def GenerateChassisCleanupScript_def
    generateScript_def CleanupNBDB_def CleanupSBDB_def CleanupChassis_def template_run
  by (simp_all del: strings_Join.simps(3))

text \<open>Every template of the object types other than the CRDs keeps to the discipline, and so it parses.\<close>

lemma object_templates_scoped:
  assumes "list_all (\<lambda>f. F f \<noteq> None) template_functions"
  shows "list_all (\<lambda>(k, ts). k = CustomResourceDefinition \<or> list_all (scoped (func_defined (object_funcs L F)) [''$''] []) ts)
    (OrderedObjectList CRDList)"
proof -
  note ok = scoped_Small [OF assms] scoped_ClusterRoles [OF assms] scoped_Deployments [OF assms]
    scoped_Daemonsets [OF assms]
  show ?thesis
    unfolding OrderedObjectList_def list.pred_inject prod.case SecretList_def ServiceAccountList_def RoleBindingList_def
      ClusterRoleList_def RoleList_def ClusterRoleBindingList_def ConfigMapList_def DeploymentList_def DaemonsetList_def
      ServicesList_def ValidatingWebhookConfigurationList_def
    by (rule conjI, rule disjI1, rule refl)
       (intro conjI disjI2 TrueI list.pred_inject(1) ok)
qed

lemma no_variable_errors_object_funcs: "no_variable_errors F \<Longrightarrow> no_variable_errors (object_funcs L F)"
  by (auto simp: no_variable_errors_def object_funcs_def include_field_def split: list.splits gval.splits)

section \<open>Properties\<close>

definition demo_funcs :: funcmap where "demo_funcs f = Some (\<lambda>vs. Inr (VStr f))"

text \<open>
  C18: what the templates of one call see. Under \<^verbatim>\<open>.Values\<close> they read the fields of the specification, by
  their JSON names and along every path, as the configuration has them, except that the image tag is the
  version given to the operator; the namespace is the configuration's own; the certificate is the one that
  was passed in; the master addresses are the recorded ones, joined by commas, under both names the
  templates use, and the number of nodes counts them; the user id is root exactly if IPSec is on.
\<close>

theorem templates_see_configuration:
  assumes "nested_field_laws L" and "template_values L F (patch_version config version) caCert = Inr v" and "version \<noteq> ''''"
  shows "(\<forall>k ks. k \<in> {''namespace'', ''caCert'', ''MASTER_NODES''} \<or>
      evalFieldChain v (''Values'' # k # ks) = evalFieldChain (VMap (json_ConfigurationSpec (Spec (patch_version config version)))) (k # ks)) \<and>
    evalFieldChain v [''Values'', ''global'', ''images'', ''kubeovn'', ''tag''] = Inr (VStr version) \<and>
    evalFieldChain v [''Values'', ''namespace''] = Inr (VStr (Namespace (Meta config))) \<and>
    evalFieldChain v [''Values'', ''caCert''] = Inr (VStr caCert) \<and>
    evalFieldChain v [''Values'', ''MASTER_NODES''] = Inr (VStr (strings_Join (MatchingNodeAddresses (Status config)) '','')) \<and>
    include_field L [VStr ''kubeovn.nodeIPs'', v] = Inr (VStr (strings_Join (MatchingNodeAddresses (Status config)) '','')) \<and>
    include_field L [VStr ''kubeovn.nodeCount'', v] = Inr (VInt (int (length (MatchingNodeAddresses (Status config))))) \<and>
    include_field L [VStr ''kubeovn.runAsUser'', v] =
      Inr (VInt (if EnableOVNIPSec (Component (Spec config)) = Some True then 0 else 65534))"
proof -
  let ?c = "patch_version config version"
  from assms(2) obtain ipsec affinity where ipsec: "EnableOVNIPSec (Component (Spec ?c)) = Some ipsec"
    and v: "v = VMap [(''Values'', VMap (values_map ?c caCert)), (''kubeovn'', VMap (kubeovn_map ?c ipsec affinity))]"
    by (auto simp: template_values_eq [OF assms(1)] split: option.splits sum.splits)
  have copy: "libNestedFieldCopy L w ks = (case path_value w ks of Some x \<Rightarrow> x | None \<Rightarrow> VNil)" for w ks
    using assms(1) by (simp add: nested_field_laws_def)
  have split: "strings_Split ''kubeovn.nodeIPs'' (CHR ''.'') = [''kubeovn'', ''nodeIPs'']"
    "strings_Split ''kubeovn.nodeCount'' (CHR ''.'') = [''kubeovn'', ''nodeCount'']"
    "strings_Split ''kubeovn.runAsUser'' (CHR ''.'') = [''kubeovn'', ''runAsUser'']" by code_simp+
  have tag: "Tag (KubeOVNImage (Images (Global (Spec ?c)))) = version" by (simp add: patch_version_def)
  have "map_of (kubeovn_map ?c ipsec affinity) ''nodeIPs'' = Some (VStr (strings_Join (MatchingNodeAddresses (Status config)) '',''))"
    "map_of (kubeovn_map ?c ipsec affinity) ''nodeCount'' = Some (VInt (int (length (MatchingNodeAddresses (Status config)))))"
    "map_of (kubeovn_map ?c ipsec affinity) ''runAsUser'' = Some (VInt (if ipsec then 0 else 65534))"
    by (simp_all add: kubeovn_map_def Let_def patch_version_def)
  then have incl: "include_field L [VStr ''kubeovn.nodeIPs'', v] = Inr (VStr (strings_Join (MatchingNodeAddresses (Status config)) '',''))"
    "include_field L [VStr ''kubeovn.nodeCount'', v] = Inr (VInt (int (length (MatchingNodeAddresses (Status config)))))"
    "include_field L [VStr ''kubeovn.runAsUser'', v] = Inr (VInt (if ipsec then 0 else 65534))"
    by (simp_all add: include_field_def v copy split)
  have "EnableOVNIPSec (Component (Spec config)) = Some ipsec" using ipsec by (simp add: patch_version_def)
  moreover have "evalFieldChain v [''Values'', ''global'', ''images'', ''kubeovn'', ''tag''] = Inr (VStr version)"
    unfolding v evalFieldChain_values map_of_values_map
    by (simp add: json_keys json_GlobalSpec_def tag assms(3) map_add_def)
  moreover have "evalFieldChain v [''Values'', ''namespace''] = Inr (VStr (Namespace (Meta config)))"
    "evalFieldChain v [''Values'', ''caCert''] = Inr (VStr caCert)"
    "evalFieldChain v [''Values'', ''MASTER_NODES''] = Inr (VStr (strings_Join (MatchingNodeAddresses (Status config)) '',''))"
    unfolding v evalFieldChain_values map_of_values_map by (simp_all add: patch_version_def)
  moreover have "evalFieldChain v (''Values'' # k # ks) = evalFieldChain (VMap (json_ConfigurationSpec (Spec ?c))) (k # ks)"
    if "k \<notin> {''namespace'', ''caCert'', ''MASTER_NODES''}" for k ks
    using that unfolding v evalFieldChain_values map_of_values_map by simp
  ultimately show ?thesis using incl by auto
qed

definition demo_spec_config :: Configuration where
  "demo_spec_config = zero_Configuration\<lparr>
     Spec := zero_ConfigurationSpec\<lparr>Component := zero_ComponentSpec\<lparr>EnableOVNIPSec := Some True\<rparr>\<rparr>\<rparr>"

lemma demo_values: "\<not> isl (template_values ref_libs demo_funcs (patch_version demo_spec_config ''v1'') ''CA'')"
  by code_simp

theorem templates_see_configuration_witness:
  "evalFieldChain (projr (template_values ref_libs demo_funcs (patch_version demo_spec_config ''v1'') ''CA''))
     [''Values'', ''global'', ''images'', ''kubeovn'', ''tag''] = Inr (VStr ''v1'')"
proof -
  have "template_values ref_libs demo_funcs (patch_version demo_spec_config ''v1'') ''CA'' =
      Inr (projr (template_values ref_libs demo_funcs (patch_version demo_spec_config ''v1'') ''CA''))"
    using demo_values by (metis sum.collapse(2))
  from templates_see_configuration [OF ref_libs_nested_field_laws this] show ?thesis by simp
qed

text \<open>
  C20: an object whose feature is off is left out: without \<^verbatim>\<open>hybridDPDK\<close> there is no DPDK
  daemonset, without \<^verbatim>\<open>enableIC\<close> no interconnection controller, and without \<^verbatim>\<open>enableSSL\<close> no
  TLS secret, however the rest of the configuration looks.
\<close>

theorem switched_off_objects_are_skipped:
  assumes "nested_field_laws L" and "list_all (\<lambda>f. F f \<noteq> None) template_functions"
    and "template_values L F config caCert = Inr v"
  shows "(HybridDPDK (Spec config) \<noteq> Some True \<longrightarrow> generateObject L F ovs_ovn_dpdk_daemonset v DaemonSet = Inr None) \<and>
    (EnableIC (Component (Spec config)) \<noteq> Some True \<longrightarrow> generateObject L F ovn_ic_controller_deployment v Deployment = Inr None) \<and>
    (EnableSSL (Networking (Spec config)) \<noteq> Some True \<longrightarrow> generateObject L F kube_ovn_tls_secret v Secret = Inr None)"
proof -
  from assms(3) obtain ipsec affinity where
    v: "v = VMap [(''Values'', VMap (values_map config caCert)), (''kubeovn'', VMap (kubeovn_map config ipsec affinity))]"
    by (auto simp: template_values_eq [OF assms(1)] split: option.splits sum.splits)
  have off: "\<not> truth (case map_option VBool p of None \<Rightarrow> VNil | Some w \<Rightarrow> w)" if "p \<noteq> Some True" for p
    using that by (cases p) auto
  have "evalFieldChain v [''Values'', ''hybridDPDK''] = Inr (case map_option VBool (HybridDPDK (Spec config)) of None \<Rightarrow> VNil | Some w \<Rightarrow> w)"
    "evalFieldChain v [''Values'', ''components'', ''enableIC''] =
       Inr (case map_option VBool (EnableIC (Component (Spec config))) of None \<Rightarrow> VNil | Some w \<Rightarrow> w)"
    "evalFieldChain v [''Values'', ''networking'', ''enableSSL''] =
       Inr (case map_option VBool (EnableSSL (Networking (Spec config))) of None \<Rightarrow> VNil | Some w \<Rightarrow> w)"
    unfolding v evalFieldChain_values map_of_values_map by (simp_all add: json_keys)
  then show ?thesis
    using guarded_off [OF guarded_parse(3) [OF assms(2)]] guarded_off [OF guarded_parse(2) [OF assms(2)]]
      guarded_off [OF guarded_parse(1) [OF assms(2)]] off by simp
qed

theorem switched_off_objects_are_skipped_witness:
  "generateObject ref_libs demo_funcs ovs_ovn_dpdk_daemonset
     (projr (template_values ref_libs demo_funcs (patch_version demo_spec_config ''v1'') ''CA'')) DaemonSet = Inr None"
proof -
  have 1: "template_values ref_libs demo_funcs (patch_version demo_spec_config ''v1'') ''CA'' =
      Inr (projr (template_values ref_libs demo_funcs (patch_version demo_spec_config ''v1'') ''CA''))"
    using demo_values by (metis sum.collapse(2))
  have 2: "list_all (\<lambda>f. demo_funcs f \<noteq> None) template_functions" by (simp add: demo_funcs_def list_all_iff)
  have 3: "HybridDPDK (Spec (patch_version demo_spec_config ''v1'')) \<noteq> Some True" by code_simp
  from switched_off_objects_are_skipped [OF ref_libs_nested_field_laws 2 1] 3 show ?thesis by simp
qed

text \<open>Field chains of the templates.\<close>

definition dead_fields :: "string list list" where
  "dead_fields = [[''Values'', ''networking'', ''NET_STACK''], [''Values'', ''dual_stack'', ''serviceCIDR''],
     [''Values'', ''cniConfig'', ''mountLocalBinDir''], [''Values'', ''networking'', ''ovnRemoteOpenFlowInterval''],
     [''Chart'', ''Name''], [''Chart'', ''Version'']]"

text \<open>
  six field chains that the templates read have no counterpart in the values, whatever the
  configuration: they evaluate to nothing (the condition on \<^verbatim>\<open>NET_STACK\<close> is never true, the others
  print \<^verbatim>\<open><no value>\<close>).
\<close>

theorem dead_fields_have_no_value:
  assumes "nested_field_laws L" and "template_values L F config caCert = Inr v"
  shows "list_all (\<lambda>ks. evalFieldChain v ks = Inr VNil \<and>
    exec_node G v vs (NAct [CArg (AField ks)]) = Inr (''<no value>'', vs)) dead_fields \<and>
    eval_pipe G v vs [CFun ''eq'' [AField [''Values'', ''networking'', ''NET_STACK''], AStr ''dual_stack'']] [] = Inr (VBool False)"
proof -
  from assms(2) obtain ipsec affinity where
    v: "v = VMap [(''Values'', VMap (values_map config caCert)), (''kubeovn'', VMap (kubeovn_map config ipsec affinity))]"
    by (auto simp: template_values_eq [OF assms(1)] split: option.splits sum.splits)
  have "evalFieldChain v [''Values'', ''networking'', ''NET_STACK''] = Inr VNil"
    "evalFieldChain v [''Values'', ''dual_stack'', ''serviceCIDR''] = Inr VNil"
    "evalFieldChain v [''Values'', ''cniConfig'', ''mountLocalBinDir''] = Inr VNil"
    "evalFieldChain v [''Values'', ''networking'', ''ovnRemoteOpenFlowInterval''] = Inr VNil"
    "evalFieldChain v [''Chart'', ''Name''] = Inr VNil" "evalFieldChain v [''Chart'', ''Version''] = Inr VNil"
    unfolding v evalFieldChain_values map_of_values_map by (simp_all add: json_keys)
  then show ?thesis by (simp add: dead_fields_def builtin_def template_eq_def)
qed

theorem dead_fields_have_no_value_witness:
  "evalFieldChain (projr (template_values ref_libs demo_funcs (patch_version demo_spec_config ''v1'') ''CA''))
     [''Values'', ''networking'', ''NET_STACK''] = Inr VNil"
proof -
  have "template_values ref_libs demo_funcs (patch_version demo_spec_config ''v1'') ''CA'' =
      Inr (projr (template_values ref_libs demo_funcs (patch_version demo_spec_config ''v1'') ''CA''))"
    using demo_values by (metis sum.collapse(2))
  from dead_fields_have_no_value [OF ref_libs_nested_field_laws this] show ?thesis by (simp add: dead_fields_def)
qed

text \<open>
  an interval of zero is lost on the way to the templates: the garbage collection interval prints as
  the number if it is not zero and as \<^verbatim>\<open><no value>\<close> if it is, although the API allows zero.
\<close>

theorem zero_interval_prints_no_value:
  assumes "nested_field_laws L" and "template_values L F config caCert = Inr v"
  shows "exec_node G v vs (NAct [CArg (AField [''Values'', ''performance'', ''gcInterval''])]) =
    Inr (if GCInterval (Performance (Spec config)) = 0 then ''<no value>''
         else show_float (GCInterval (Performance (Spec config))) 0, vs)"
proof -
  from assms(2) obtain ipsec affinity where
    v: "v = VMap [(''Values'', VMap (values_map config caCert)), (''kubeovn'', VMap (kubeovn_map config ipsec affinity))]"
    by (auto simp: template_values_eq [OF assms(1)] split: option.splits sum.splits)
  have "evalFieldChain v [''Values'', ''performance'', ''gcInterval''] =
      Inr (if GCInterval (Performance (Spec config)) = 0 then VNil else VFloat (GCInterval (Performance (Spec config))) 0)"
    unfolding v evalFieldChain_values map_of_values_map using json_performance [of "Spec config"] by auto
  then show ?thesis by simp
qed

theorem zero_interval_prints_no_value_witness:
  "exec_node demo_funcs (projr (template_values ref_libs demo_funcs (patch_version demo_spec_config ''v1'') ''CA'')) []
     (NAct [CArg (AField [''Values'', ''performance'', ''gcInterval''])]) = Inr (''<no value>'', [])"
proof -
  have 1: "template_values ref_libs demo_funcs (patch_version demo_spec_config ''v1'') ''CA'' =
      Inr (projr (template_values ref_libs demo_funcs (patch_version demo_spec_config ''v1'') ''CA''))"
    using demo_values by (metis sum.collapse(2))
  have "GCInterval (Performance (Spec (patch_version demo_spec_config ''v1''))) = 0" by code_simp
  then show ?thesis using zero_interval_prints_no_value [OF ref_libs_nested_field_laws 1] by simp
qed

text \<open>
  a configuration whose \<^verbatim>\<open>enableOVNIPSec\<close> is not set makes the rendering panic, for every object
  type and every list of templates.
\<close>

theorem missing_ipsec_flag_panics:
  assumes "nested_field_laws L" and "EnableOVNIPSec (Component (Spec config)) = None"
  shows "GenerateObjects L F templates config kind version caCert =
    (patch_version config version, Inl (EPanic ''nil pointer dereference''))"
  using assms(2) by (simp add: GenerateObjects_def Let_def template_values_eq [OF assms(1)] patch_version_def)

theorem missing_ipsec_flag_panics_witness:
  "snd (GenerateObjects ref_libs demo_funcs [] zero_Configuration Secret ''v1'' ''CA'') = Inl (EPanic ''nil pointer dereference'')"
proof -
  have "EnableOVNIPSec (Component (Spec zero_Configuration)) = None" by code_simp
  from missing_ipsec_flag_panics [OF ref_libs_nested_field_laws this] show ?thesis by simp
qed

text \<open>
  C21: \<^verbatim>\<open>GenerateObjects\<close> is all or nothing: it fails if any template of the type fails, and otherwise
  returns, in the order of the templates, the objects of those that rendered to something. It changes
  the configuration it is given in the image tag alone.
\<close>

theorem GenerateObjects_all_or_nothing:
  assumes "template_values L F (patch_version config version) caCert = Inr v"
  shows "(case GenerateObjects L F templates config kind version caCert of (config', objs) \<Rightarrow>
     config' = patch_version config version \<and>
     (isl objs \<longleftrightarrow> list_ex (\<lambda>t. isl (generateObject L F t v kind)) templates) \<and>
     (\<not> isl objs \<longrightarrow> projr objs = List.map_filter (\<lambda>t. projr (generateObject L F t v kind)) templates))"
proof -
  have "(isl (generate_all L F ts v kind) \<longleftrightarrow> list_ex (\<lambda>t. isl (generateObject L F t v kind)) ts) \<and>
      (\<not> isl (generate_all L F ts v kind) \<longrightarrow>
        projr (generate_all L F ts v kind) = List.map_filter (\<lambda>t. projr (generateObject L F t v kind)) ts)" for ts
    by (induction ts) (auto simp: map_filter_simps isl_def split: sum.splits option.splits)
  with assms show ?thesis by (simp add: GenerateObjects_def Let_def)
qed

theorem GenerateObjects_all_or_nothing_witness:
  "\<not> isl (snd (GenerateObjects ref_libs demo_funcs [[Txt [''kind: Secret'']], []] demo_spec_config Secret ''v1'' ''CA''))"
proof -
  let ?v = "projr (template_values ref_libs demo_funcs (patch_version demo_spec_config ''v1'') ''CA'')"
  have 1: "template_values ref_libs demo_funcs (patch_version demo_spec_config ''v1'') ''CA'' = Inr ?v"
    using demo_values by (metis sum.collapse(2))
  have 2: "\<not> list_ex (\<lambda>t. isl (generateObject ref_libs demo_funcs t ?v Secret)) [[Txt [''kind: Secret'']], []]" by code_simp
  from GenerateObjects_all_or_nothing [OF 1, of Secret "[[Txt [''kind: Secret'']], []]"] 2 show ?thesis
    by (auto split: prod.splits)
qed

text \<open>
  the clean-up scripts of the node controller are these texts, with the address of the node in
  place of the fields; in the chassis script the argument stands where the database holds the host name.
\<close>

theorem cleanup_script_texts:
  "GenerateChassisCleanupScript hostname = Inr (
     ''chassis=$(ovn-sbctl --columns=name find  chassis hostname='' @ hostname @
     strings_Join ['' | awk -F \":\" '{print $2}' | tr -d '\"')'',
       ''if [ -n \"$chassis\" ]'',
       ''then'',
       ''  ovn-sbctl chassis-del $chassis'',
       ''fi'',
       ''ovn-sbctl show''] newline) \<and>
   GenerateNorthBoundCleanupScript nodeAddress = Inr (
    strings_Join [''export nbstatus=$(ovs-appctl -t /var/run/ovn/ovnnb_db.ctl cluster/status OVN_Northbound)'',
      ''echo \"current northbound status\"'',
      ''echo \"$nbstatus\"'',
      ''echo \"searching for node ''] newline @ nodeAddress @
    strings_Join [''\"'',
      ''nodeID=$(ovs-appctl -t /var/run/ovn/ovnnb_db.ctl cluster/status OVN_Northbound | grep '' @ [CHR 0x27]] newline @ nodeAddress @
    strings_Join [[CHR 0x27] @ '' | awk '{print $1}')'',
      ''if [ -n \"$nodeID\" ]'',
      ''then'',
      ''  echo \"removing node with id $nodeID\"'',
      ''  ovs-appctl -t /var/run/ovn/ovnnb_db.ctl cluster/kick OVN_Northbound $nodeID'',
      ''  echo \"removed node id $nodeID with address ''] newline @ nodeAddress @
    strings_Join [''\"'',
      ''  echo \"current northbound status\"'',
      ''  ovs-appctl -t /var/run/ovn/ovnnb_db.ctl cluster/status OVN_Northbound'',
      ''fi''] newline)"
  unfolding GenerateChassisCleanupScript_def CleanupChassis_def template_run
    GenerateNorthBoundCleanupScript_def generateScript_def CleanupNBDB_def
  by (simp del: strings_Join.simps(3))

end
