(* ===== verification/Node_Properties.thy ===== *)
theory Node_Properties
  imports Node_Controller Render_Properties
begin

text \<open>
  The correctness of the node reconciler (theory \<open>Node_Controller\<close>): the calls it may make, the
  order of a node's deletion, its progress, and what happens to errors on the way.
\<close>

section \<open>Specification\<close>

text \<open>The pod is the only one that carries the leader label.\<close>

fun leader_listed :: "libs \<Rightarrow> string \<Rightarrow> string \<Rightarrow> Pod \<Rightarrow> event \<Rightarrow> bool" where
  "leader_listed L namespace label pod (EvListPods selector ns (Inr pods)) \<longleftrightarrow>
     libLabelsParse L label = Inr selector \<and> ns = namespace \<and> pods = [pod]"
| "leader_listed L namespace label pod _ \<longleftrightarrow> False"

text \<open>A command that ran in the \<^verbatim>\<open>ovn-central\<close> container of the pod without an error.\<close>

fun ran :: "Pod \<Rightarrow> string \<Rightarrow> event \<Rightarrow> bool" where
  "ran pod script (EvExec pod' container cmd (out, errOut, err)) \<longleftrightarrow> pod' = pod \<and>
     container = OVNCentralContainerName \<and> cmd = [''/bin/sh'', ''-c'', script] \<and> err = None"
| "ran pod script _ \<longleftrightarrow> False"

fun address_dropped :: "Configuration \<Rightarrow> string \<Rightarrow> event \<Rightarrow> bool" where
  "address_dropped config nodeIP (EvPatchConfigurationStatus new base err) \<longleftrightarrow> base = config \<and> err = None \<and>
     new = set_addresses config (remove1 nodeIP (MatchingNodeAddresses (Status config)))"
| "address_dropped config nodeIP _ \<longleftrightarrow> False"

definition script_of :: "goerror + string \<Rightarrow> string" where
  "script_of r = (case r of Inl e \<Rightarrow> '''' | Inr s \<Rightarrow> s)"

text \<open>
  What must have happened, in this order, before a deleted node is released; \<open>nb\<close>, \<open>sb\<close> and
  \<open>ch\<close> are the pods the three scripts ran on.
\<close>

definition release_steps :: "libs \<Rightarrow> string \<Rightarrow> Configuration \<Rightarrow> string \<Rightarrow> Pod \<Rightarrow> Pod \<Rightarrow> Pod \<Rightarrow> (event \<Rightarrow> bool) list" where
  "release_steps L namespace config nodeIP nb sb ch =
     (if nodeIP \<in> set (MatchingNodeAddresses (Status config))
      then [leader_listed L namespace NBLeaderLabel nb, ran nb (script_of (GenerateNorthBoundCleanupScript nodeIP)),
            leader_listed L namespace SBLeaderLabel sb, ran sb (script_of (GenerateSouthBoundCleanupScript nodeIP)),
            address_dropped config nodeIP] else []) @
     [leader_listed L namespace SBLeaderLabel ch, ran ch (script_of (GenerateChassisCleanupScript nodeIP))]"

definition cleaned_up :: "libs \<Rightarrow> string \<Rightarrow> Configuration \<Rightarrow> string \<Rightarrow> trace \<Rightarrow> bool" where
  "cleaned_up L namespace config nodeIP evs \<longleftrightarrow>
     (\<exists>nb sb ch. in_order (release_steps L namespace config nodeIP nb sb ch) evs)"

fun exec_call :: "event \<Rightarrow> bool" where
  "exec_call (EvListPods sel ns r) = True"
| "exec_call (EvNewExecutor pod r) = True"
| "exec_call (EvExec pod container cmd r) = True"
| "exec_call _ = False"

fun is_node_patch :: "event \<Rightarrow> bool" where
  "is_node_patch (EvPatchNode new base r) = True"
| "is_node_patch _ = False"

text \<open>
  What a reconcile of a node may do once the configuration was read: nothing while the configuration is
  deleted; add the finalizer to a live node; for a deleted node, run commands, take its address off the
  configuration's status, and remove the finalizer.
\<close>

definition node_permitted :: "libs \<Rightarrow> Node \<Rightarrow> Configuration \<Rightarrow> event \<Rightarrow> bool" where
  "node_permitted L node config e \<longleftrightarrow> DeletionTimestamp (Meta config) = None \<and>
     (if DeletionTimestamp (NodeMeta node) = None then
        (case e of
           EvPatchNode new base r \<Rightarrow> base = node \<and>
             \<not> libContainsFinalizer L (Finalizers (NodeMeta node)) KubeOVNNodeFinalizer \<and>
             new = set_node_finalizers node (libAddFinalizer L (Finalizers (NodeMeta node)) KubeOVNNodeFinalizer)
         | _ \<Rightarrow> False)
      else
        exec_call e \<or>
        (case e of
           EvPatchNode new base r \<Rightarrow> base = node \<and>
             libContainsFinalizer L (Finalizers (NodeMeta node)) KubeOVNNodeFinalizer \<and>
             new = set_node_finalizers node (libRemoveFinalizer L (Finalizers (NodeMeta node)) KubeOVNNodeFinalizer)
         | EvPatchConfigurationStatus new base r \<Rightarrow> base = config \<and>
             nodeInternalIP node \<in> set (MatchingNodeAddresses (Status config)) \<and>
             new = set_addresses config (remove1 (nodeInternalIP node) (MatchingNodeAddresses (Status config)))
         | _ \<Rightarrow> False))"

definition reconcile_node_permitted :: "libs \<Rightarrow> string \<Rightarrow> Node \<Rightarrow> event \<Rightarrow> bool" where
  "reconcile_node_permitted L namespace node e \<longleftrightarrow>
     (case e of EvGetConfiguration nn r \<Rightarrow> nn = (namespace, DefaultConfigurationName) | _ \<Rightarrow> False) \<or>
     (\<exists>config. node_permitted L node config e)"

text \<open>A script ran on the one pod that carried the leader label.\<close>

definition ran_on_leader :: "libs \<Rightarrow> string \<Rightarrow> string \<Rightarrow> string \<Rightarrow> trace \<Rightarrow> bool" where
  "ran_on_leader L namespace label script evs \<longleftrightarrow> (\<exists>pod. in_order [leader_listed L namespace label pod, ran pod script] evs)"

abbreviation chassis_cleaned :: "libs \<Rightarrow> string \<Rightarrow> string \<Rightarrow> trace \<Rightarrow> bool" where
  "chassis_cleaned L namespace nodeIP \<equiv>
     ran_on_leader L namespace SBLeaderLabel (script_of (GenerateChassisCleanupScript nodeIP))"

section \<open>Commands\<close>

lemma removeElement_remove1: "removeElement xs x = remove1 x xs"
  by (induction xs) auto

lemma exec_not_patch: "exec_call e \<Longrightarrow> \<not> is_node_patch e"
  by (cases e) simp_all

lemma executeOVNCentralCommand_obeys:
  "obeys (executeOVNCentralCommand E L script label namespace) [] (\<lambda>r new.
     list_all exec_call new \<and> (snd r = None \<longrightarrow> ran_on_leader L namespace label script new))"
  unfolding executeOVNCentralCommand_def podList_def executor_defs call_defs
  apply (intro obeys_rules)
  apply (auto simp: ran_on_leader_def length_Suc_conv split: option.splits)
  done

lemma executeRemoteScriptOnLeader_obeys:
  "obeys (executeRemoteScriptOnLeader E L namespace script label) [] (\<lambda>r new.
     list_all exec_call new \<and> (r = None \<longrightarrow> ran_on_leader L namespace label script new))"
  unfolding executeRemoteScriptOnLeader_def
  apply (rule obeys_bind, rule obeys_mono [OF executeOVNCentralCommand_obeys])
  apply (intro obeys_rules)
  apply (auto split: option.splits)
  done

lemma reconcileOVNCentralState_obeys:
  "obeys (reconcileOVNCentralState E L namespace nodeIP) [] (\<lambda>r new. list_all exec_call new \<and>
     (r = None \<longrightarrow> (\<exists>xs ys. new = xs @ ys \<and>
        ran_on_leader L namespace NBLeaderLabel (script_of (GenerateNorthBoundCleanupScript nodeIP)) xs \<and>
        ran_on_leader L namespace SBLeaderLabel (script_of (GenerateSouthBoundCleanupScript nodeIP)) ys)))"
  unfolding reconcileOVNCentralState_def
  apply (intro obeys_rules)
   apply simp
  apply (rule obeys_mono [OF executeRemoteScriptOnLeader_obeys])
  apply (intro obeys_rules)
    apply simp
   apply (rule obeys_frame [OF executeRemoteScriptOnLeader_obeys])
   apply (auto simp: script_of_def)
  done

lemma reconcileOVSOVNState_obeys:
  "obeys (reconcileOVSOVNState E L namespace hostname) [] (\<lambda>r new. list_all exec_call new \<and>
     (r = None \<longrightarrow> chassis_cleaned L namespace hostname new))"
  unfolding reconcileOVSOVNState_def
  apply (intro obeys_rules)
   apply simp
  apply (rule obeys_mono [OF executeRemoteScriptOnLeader_obeys])
  apply (auto simp: script_of_def)
  done

section \<open>Deletion of a node\<close>

lemma exec_permitted:
  assumes "DeletionTimestamp (Meta config) = None" and "DeletionTimestamp (NodeMeta node) \<noteq> None" and "exec_call e"
  shows "node_permitted L node config e"
  using assms by (auto simp: node_permitted_def)

lemma ran_on_leader_extend: "ran_on_leader L namespace label script xs \<Longrightarrow> ran_on_leader L namespace label script (xs @ ys)"
  unfolding ran_on_leader_def using in_order_extend by blast

lemma finishNodeDeletion_obeys:
  assumes "DeletionTimestamp (Meta config) = None" and "DeletionTimestamp (NodeMeta node) \<noteq> None"
  shows "obeys (finishNodeDeletion E L namespace node) [] (\<lambda>r new. list_all (node_permitted L node config) new \<and>
     only_after is_node_patch (chassis_cleaned L namespace (nodeInternalIP node)) new)"
  unfolding finishNodeDeletion_def PatchNode_def
  apply (rule obeys_bind, rule obeys_mono [OF reconcileOVSOVNState_obeys])
  apply (intro obeys_rules)
    apply (auto simp: list_all_iff exec_not_patch exec_permitted [OF assms] intro!: only_after_guard ran_on_leader_extend) [1]
     apply (use assms in \<open>auto simp: node_permitted_def\<close>) [1]
    apply (auto simp: list_all_iff exec_not_patch exec_permitted [OF assms] intro!: only_after_none)
  done

lemma cleaned_up_prepend: "cleaned_up L namespace config nodeIP evs \<Longrightarrow> cleaned_up L namespace config nodeIP (xs @ evs)"
  unfolding cleaned_up_def using in_order_prepend by blast

lemma cleaned_up_other:
  "nodeIP \<notin> set (MatchingNodeAddresses (Status config)) \<Longrightarrow>
   cleaned_up L namespace config nodeIP evs \<longleftrightarrow> chassis_cleaned L namespace nodeIP evs"
  by (simp add: cleaned_up_def release_steps_def ran_on_leader_def)

lemma cleaned_up_master:
  assumes "nodeIP \<in> set (MatchingNodeAddresses (Status config))"
    and "\<exists>xs ys. new = xs @ ys \<and>
        ran_on_leader L namespace NBLeaderLabel (script_of (GenerateNorthBoundCleanupScript nodeIP)) xs \<and>
        ran_on_leader L namespace SBLeaderLabel (script_of (GenerateSouthBoundCleanupScript nodeIP)) ys"
    and "address_dropped config nodeIP e" and "chassis_cleaned L namespace nodeIP zs"
  shows "cleaned_up L namespace config nodeIP ((new @ [e]) @ zs)"
proof -
  from assms(2,4) obtain nb sb ch xs ys where new: "new = xs @ ys"
    and "in_order [leader_listed L namespace NBLeaderLabel nb, ran nb (script_of (GenerateNorthBoundCleanupScript nodeIP))] xs"
      "in_order [leader_listed L namespace SBLeaderLabel sb, ran sb (script_of (GenerateSouthBoundCleanupScript nodeIP))] ys"
    and zs: "in_order [leader_listed L namespace SBLeaderLabel ch, ran ch (script_of (GenerateChassisCleanupScript nodeIP))] zs"
    unfolding ran_on_leader_def by blast
  note both = in_order_append [OF this(2,3)]
  have "in_order [address_dropped config nodeIP] [e]" using assms(3) by simp
  from in_order_append [OF in_order_append [OF both this] zs]
  show ?thesis
    unfolding cleaned_up_def release_steps_def new using assms(1)
    by (intro exI [of _ nb] exI [of _ sb] exI [of _ ch]) simp
qed

lemma reconcileNodeDeletion_obeys:
  assumes "DeletionTimestamp (Meta config) = None" and "DeletionTimestamp (NodeMeta node) \<noteq> None"
  shows "obeys (reconcileNodeDeletion E L namespace config node) [] (\<lambda>r new. list_all (node_permitted L node config) new \<and>
     only_after is_node_patch (cleaned_up L namespace config (nodeInternalIP node)) new)"
proof -
  note exec = exec_permitted [OF assms]
  have drop: "node_permitted L node config (EvPatchConfigurationStatus
      (set_addresses config (remove1 (nodeInternalIP node) (MatchingNodeAddresses (Status config)))) config r)"
    if "nodeInternalIP node \<in> set (MatchingNodeAddresses (Status config))" for r
    using assms that by (auto simp: node_permitted_def)
  show ?thesis
    unfolding reconcileNodeDeletion_def PatchConfigurationStatus_def Let_def removeElement_remove1 slices_Contains_iff
    apply (intro obeys_rules)
      apply (simp add: only_after_def)
     apply (rule obeys_mono [OF reconcileOVNCentralState_obeys])
     apply (intro obeys_rules)
       apply (rule obeys_frame [OF finishNodeDeletion_obeys [OF assms]])
       apply (intro conjI)
        apply (auto simp: list_all_iff exec drop) [1]
       apply (rule only_after_prepend)
         apply (auto simp: list_all_iff exec_not_patch) [1]
        apply (erule conjunct2)
       apply (rule cleaned_up_master, assumption, simp, simp, assumption)
      apply (auto simp: list_all_iff exec drop exec_not_patch intro!: only_after_none) [2]
    apply (rule obeys_mono [OF finishNodeDeletion_obeys [OF assms]])
    apply (simp add: cleaned_up_other cong: only_after_cong)
    done
qed

lemma reconcileNodeDeletion_permitted:
  "DeletionTimestamp (Meta config) = None \<Longrightarrow> DeletionTimestamp (NodeMeta node) \<noteq> None \<Longrightarrow>
   emits (node_permitted L node config) (reconcileNodeDeletion E L namespace config node)"
  unfolding emits_obeys by (rule obeys_mono [OF reconcileNodeDeletion_obeys]) simp_all

lemma act_on_node_permitted: "emits (node_permitted L node config) (act_on_node E L namespace node config)"
  unfolding act_on_node_def PatchNode_def
  by (auto intro!: emits_rules reconcileNodeDeletion_permitted simp: node_permitted_def)

interpretation nodecfg: reader "\<lambda>tr. apiGetConfiguration E tr (namespace, DefaultConfigurationName)"
    "EvGetConfiguration (namespace, DefaultConfigurationName)"
    "\<lambda>err. State_Monad.return (no_requeue, if IsNotFound err then None else Some err)"
    "act_on_node E L namespace node" "\<lambda>err e. False" "node_permitted L node"
  for E L namespace node
  by unfold_locales (simp_all add: emits_return act_on_node_permitted)

lemma reconcile_node_fetch_then:
  "reconcile_node E L namespace node =
     fetch_then (\<lambda>tr. apiGetConfiguration E tr (namespace, DefaultConfigurationName))
       (EvGetConfiguration (namespace, DefaultConfigurationName))
       (\<lambda>err. State_Monad.return (no_requeue, if IsNotFound err then None else Some err))
       (act_on_node E L namespace node)"
  unfolding reconcile_node_def fetchKubeovnConfig_def GetConfiguration_def fetch_then_def ..

lemma reconcile_node_emits: "emits (reconcile_node_permitted L namespace node) (reconcile_node E L namespace node)"
  unfolding reconcile_node_fetch_then fetch_then_def
  apply (intro emits_rules)
   apply (simp add: reconcile_node_permitted_def)
  apply (rule emits_mono [OF act_on_node_permitted])
  apply (auto simp: reconcile_node_permitted_def)
  done

interpretation nodes: reader "\<lambda>tr. apiGetNode E tr req" "EvGetNode req"
    "\<lambda>err. if IsNotFound err then State_Monad.return (no_requeue, None) else reconcile_node E L namespace zero_Node"
    "reconcile_node E L namespace"
    "\<lambda>err. reconcile_node_permitted L namespace zero_Node" "reconcile_node_permitted L namespace"
  for E L namespace req
  by unfold_locales (auto intro!: emits_rules reconcile_node_emits)

lemma NodeReconcile_fetch_then:
  "NodeReconcile E L namespace req =
     fetch_then (\<lambda>tr. apiGetNode E tr req) (EvGetNode req)
       (\<lambda>err. if IsNotFound err then State_Monad.return (no_requeue, None) else reconcile_node E L namespace zero_Node)
       (reconcile_node E L namespace)"
  unfolding NodeReconcile_def GetNode_def fetch_then_def ..

section \<open>Progress of a deletion\<close>

text \<open>Labels parse, every leader label selects exactly one pod, commands succeed and patches are accepted.\<close>

definition leaders_up :: "env \<Rightarrow> libs \<Rightarrow> bool" where
  "leaders_up E L \<longleftrightarrow>
     (\<forall>label. \<not> isl (libLabelsParse L label)) \<and>
     (\<forall>tr sel ns. \<exists>pod. apiListPods E tr sel ns = Inr [pod]) \<and>
     (\<forall>tr pod. apiNewExecutor E tr pod = None) \<and>
     (\<forall>tr pod c cmd. snd (snd (apiExec E tr pod c cmd)) = None) \<and>
     (\<forall>tr new base. apiPatchConfigurationStatus E tr new base = None) \<and>
     (\<forall>tr new base. apiPatchNode E tr new base = None)"

lemma executeOVNCentralCommand_up:
  assumes "leaders_up E L"
  shows "snd (result (executeOVNCentralCommand E L script label namespace) tr) = None"
proof -
  obtain sel where sel: "libLabelsParse L label = Inr sel"
    using assms unfolding leaders_up_def by (metis isl_def sum.collapse(2))
  obtain pod where pod: "apiListPods E tr sel namespace = Inr [pod]"
    using assms unfolding leaders_up_def by blast
  have exec: "apiNewExecutor E tr pod = None" "snd (snd (apiExec E tr pod c cmd)) = None" for tr pod c cmd
    using assms by (simp_all add: leaders_up_def)
  show ?thesis
    by (simp add: executeOVNCentralCommand_def podList_def sel call_defs executor_defs result_bind pod exec
        split: prod.split option.split)
       (metis exec(2) option.distinct(1) snd_conv)
qed

lemma executeRemoteScriptOnLeader_up:
  "leaders_up E L \<Longrightarrow> result (executeRemoteScriptOnLeader E L namespace script label) tr = None"
  using executeOVNCentralCommand_up [of E L script label namespace tr]
  by (auto simp: executeRemoteScriptOnLeader_def result_bind split: prod.split)

lemma reconcileOVSOVNState_up:
  assumes "leaders_up E L" shows "result (reconcileOVSOVNState E L namespace hostname) tr = None"
  using scripts_render(3) [of hostname]
  by (auto simp: reconcileOVSOVNState_def executeRemoteScriptOnLeader_up [OF assms])

lemma reconcileOVNCentralState_up:
  assumes "leaders_up E L" shows "result (reconcileOVNCentralState E L namespace nodeIP) tr = None"
  using scripts_render(1,2) [of nodeIP]
  by (auto simp: reconcileOVNCentralState_def result_bind executeRemoteScriptOnLeader_up [OF assms])

lemma node_appends:
  "appends (reconcileOVNCentralState E L namespace nodeIP)" "appends (reconcileOVSOVNState E L namespace nodeIP)"
  by (rule obeys_appends [OF reconcileOVNCentralState_obeys] obeys_appends [OF reconcileOVSOVNState_obeys])+

lemma finishNodeDeletion_appends: "appends (finishNodeDeletion E L namespace node)"
  unfolding appends_def finishNodeDeletion_def PatchNode_def
  by (intro emits_rules node_appends [unfolded appends_def]) simp

lemma finishNodeDeletion_up:
  assumes "leaders_up E L" and "libContainsFinalizer L (Finalizers (NodeMeta node)) KubeOVNNodeFinalizer"
  shows "result (finishNodeDeletion E L namespace node) tr = (no_requeue, None)"
    and "\<exists>xs. calls (finishNodeDeletion E L namespace node) tr = xs @ [EvPatchNode (set_node_finalizers node
      (libRemoveFinalizer L (Finalizers (NodeMeta node)) KubeOVNNodeFinalizer)) node None]"
proof -
  have patch: "apiPatchNode E tr new base = None" for tr new base
    using assms(1) by (simp add: leaders_up_def)
  show "result (finishNodeDeletion E L namespace node) tr = (no_requeue, None)"
    using assms(2) by (simp add: finishNodeDeletion_def result_bind reconcileOVSOVNState_up [OF assms(1)] PatchNode_def patch)
  show "\<exists>xs. calls (finishNodeDeletion E L namespace node) tr = xs @ [EvPatchNode (set_node_finalizers node
      (libRemoveFinalizer L (Finalizers (NodeMeta node)) KubeOVNNodeFinalizer)) node None]"
    using assms(2) unfolding finishNodeDeletion_def
    by (subst calls_bind)
       (simp_all add: node_appends reconcileOVSOVNState_up [OF assms(1)] PatchNode_def patch appends_bind)
qed

text \<open>The deletion of a master node that got past the central databases and the status.\<close>

lemma reconcileNodeDeletion_master:
  assumes "nodeInternalIP node \<in> set (MatchingNodeAddresses (Status config))" and "nodeInternalIP node \<noteq> ''''"
    and "result (reconcileOVNCentralState E L namespace (nodeInternalIP node)) tr = None"
    and "\<And>h new. apiPatchConfigurationStatus E h new config = None"
  shows "\<exists>mid. list_all (\<lambda>e. \<not> is_node_patch e) mid \<and>
    result (reconcileNodeDeletion E L namespace config node) tr = result (finishNodeDeletion E L namespace node) (tr @ mid) \<and>
    calls (reconcileNodeDeletion E L namespace config node) tr = mid @ calls (finishNodeDeletion E L namespace node) (tr @ mid)"
proof -
  let ?new = "set_addresses config (removeElement (MatchingNodeAddresses (Status config)) (nodeInternalIP node))"
  let ?rest = "do { err \<leftarrow> PatchConfigurationStatus E ?new config;
            case err of
              Some e \<Rightarrow> State_Monad.return (no_requeue, Some e)
            | None \<Rightarrow> finishNodeDeletion E L namespace node }"
  let ?central = "reconcileOVNCentralState E L namespace (nodeInternalIP node)"
  let ?e = "EvPatchConfigurationStatus ?new config None"
  have app: "appends ?rest"
    unfolding appends_def PatchConfigurationStatus_def
    by (intro emits_rules finishNodeDeletion_appends [unfolded appends_def]) simp
  have rest: "calls ?rest h = ?e # calls (finishNodeDeletion E L namespace node) (h @ [?e])"
    "result ?rest h = result (finishNodeDeletion E L namespace node) (h @ [?e])" for h
    unfolding PatchConfigurationStatus_def
    by (subst calls_bind_call, simp_all add: assms(4) finishNodeDeletion_appends)
       (simp add: result_bind_call assms(4))
  from assms(1,2) have eq: "reconcileNodeDeletion E L namespace config node =
     do { err \<leftarrow> ?central;
          case err of Some e \<Rightarrow> State_Monad.return (no_requeue, Some e) | None \<Rightarrow> ?rest }"
    by (simp add: reconcileNodeDeletion_def Let_def)
  have after: "snd (run_state ?central tr) = tr @ calls ?central tr"
    using node_appends(1) by (auto simp: appends_def emits_def calls_def) (metis append_eq_conv_conj)
  have "calls (reconcileNodeDeletion E L namespace config node) tr = calls ?central tr @ calls ?rest (tr @ calls ?central tr)"
    unfolding eq by (subst calls_bind) (simp_all add: node_appends app assms(3) after)
  moreover have "result (reconcileNodeDeletion E L namespace config node) tr = result ?rest (tr @ calls ?central tr)"
    unfolding eq by (simp add: result_bind assms(3) after)
  moreover have "list_all (\<lambda>e. \<not> is_node_patch e) (calls ?central tr)"
    using obeysD [OF reconcileOVNCentralState_obeys, of E L namespace "nodeInternalIP node" tr] by (simp add: list_all_iff exec_not_patch)
  ultimately show ?thesis
    unfolding rest by (intro exI [of _ "calls ?central tr @ [?e]"]) simp
qed

lemma reconcileNodeDeletion_up:
  assumes "leaders_up E L" and "libContainsFinalizer L (Finalizers (NodeMeta node)) KubeOVNNodeFinalizer"
    and "nodeInternalIP node \<noteq> ''''"
  shows "result (reconcileNodeDeletion E L namespace config node) tr = (no_requeue, None) \<and>
    (\<exists>xs. calls (reconcileNodeDeletion E L namespace config node) tr = xs @ [EvPatchNode (set_node_finalizers node
      (libRemoveFinalizer L (Finalizers (NodeMeta node)) KubeOVNNodeFinalizer)) node None])"
proof (cases "nodeInternalIP node \<in> set (MatchingNodeAddresses (Status config))")
  case False
  with assms(3) finishNodeDeletion_up [OF assms(1,2)] show ?thesis
    by (simp add: reconcileNodeDeletion_def)
next
  case True
  have "apiPatchConfigurationStatus E h new config = None" for h new
    using assms(1) by (simp add: leaders_up_def)
  from reconcileNodeDeletion_master [OF True assms(3) reconcileOVNCentralState_up [OF assms(1)] this, of namespace]
  obtain mid where "result (reconcileNodeDeletion E L namespace config node) tr = result (finishNodeDeletion E L namespace node) (tr @ mid)"
    "calls (reconcileNodeDeletion E L namespace config node) tr = mid @ calls (finishNodeDeletion E L namespace node) (tr @ mid)"
    by blast
  with finishNodeDeletion_up [OF assms(1,2)] show ?thesis by (metis append.assoc)
qed

text \<open>The deletion of a node whose chassis entry cannot be removed.\<close>

lemma finishNodeDeletion_silent:
  assumes "result (reconcileOVSOVNState E L namespace (nodeInternalIP node)) tr \<noteq> None"
  shows "result (finishNodeDeletion E L namespace node) tr = (no_requeue, None) \<and>
    list_all (\<lambda>e. \<not> is_node_patch e) (calls (finishNodeDeletion E L namespace node) tr)"
proof -
  from assms obtain err where err: "result (reconcileOVSOVNState E L namespace (nodeInternalIP node)) tr = Some err" by blast
  have "calls (finishNodeDeletion E L namespace node) tr = calls (reconcileOVSOVNState E L namespace (nodeInternalIP node)) tr"
    unfolding finishNodeDeletion_def
    by (subst calls_bind) (simp_all add: err node_appends)
  moreover have "result (finishNodeDeletion E L namespace node) tr = (no_requeue, None)"
    by (simp add: finishNodeDeletion_def result_bind err)
  moreover have "list_all exec_call (calls (reconcileOVSOVNState E L namespace (nodeInternalIP node)) tr)"
    using obeysD [OF reconcileOVSOVNState_obeys] by blast
  ultimately show ?thesis by (simp add: list_all_iff exec_not_patch)
qed

text \<open>A reconcile of a deleted node while the configuration is live is the deletion of the node.\<close>

lemma NodeReconcile_deletion:
  assumes "apiGetNode E tr req = Inr node" and "DeletionTimestamp (NodeMeta node) \<noteq> None"
    and "apiGetConfiguration E (tr @ [EvGetNode req (Inr node)]) (namespace, DefaultConfigurationName) = Inr config"
    and "DeletionTimestamp (Meta config) = None"
    and "tr2 = tr @ [EvGetNode req (Inr node), EvGetConfiguration (namespace, DefaultConfigurationName) (Inr config)]"
  shows "calls (NodeReconcile E L namespace req) tr = EvGetNode req (Inr node) #
      EvGetConfiguration (namespace, DefaultConfigurationName) (Inr config) #
      calls (reconcileNodeDeletion E L namespace config node) tr2"
    and "result (NodeReconcile E L namespace req) tr = result (reconcileNodeDeletion E L namespace config node) tr2"
proof -
  have act: "act_on_node E L namespace node config = reconcileNodeDeletion E L namespace config node"
    using assms(2,4) by (auto simp: act_on_node_def)
  show "calls (NodeReconcile E L namespace req) tr = EvGetNode req (Inr node) #
      EvGetConfiguration (namespace, DefaultConfigurationName) (Inr config) #
      calls (reconcileNodeDeletion E L namespace config node) tr2"
    and "result (NodeReconcile E L namespace req) tr = result (reconcileNodeDeletion E L namespace config node) tr2"
    unfolding NodeReconcile_fetch_then nodes.calls_fetch_then nodes.result_fetch_then assms(5)
    using assms(1,3)
    by (simp_all add: reconcile_node_fetch_then nodecfg.calls_fetch_then nodecfg.result_fetch_then act)
qed

section \<open>Properties\<close>

text \<open>Data for the witnesses.\<close>

definition demo_pod :: Pod where "demo_pod = \<lparr>PodName = ''ovn-central-0'', PodNamespace = ''kube-system''\<rparr>"

definition demo_cfg :: Configuration where
  "demo_cfg = set_addresses zero_Configuration [''10.0.0.1'', ''10.0.0.2'']"

definition demo_dead_node :: Node where
  "demo_dead_node = \<lparr>NodeMeta = zero_ObjectMeta\<lparr>Name := ''node1'', DeletionTimestamp := Some 1,
       Finalizers := [KubeOVNNodeFinalizer]\<rparr>,
     Addresses = [(''InternalIP'', ''10.0.0.1'')]\<rparr>"

definition demo_node_env :: "goerror + Node \<Rightarrow> env" where
  "demo_node_env node = ref_env\<lparr>apiGetNode := (\<lambda>_ _. node), apiGetConfiguration := (\<lambda>_ _. Inr demo_cfg),
     apiListPods := (\<lambda>_ _ _. Inr [demo_pod])\<rparr>"

text \<open>
  C3: a node that is being deleted loses the operator's finalizer only after its chassis entry was
  removed and, if it carried a master address, after it was kicked out of the northbound and of the
  southbound database and its address was taken off the configuration: each command ran without an error
  on the one pod that had just been listed for the leader label, in this order.
\<close>

theorem node_released_only_after_cleanup:
  assumes "apiGetNode E tr req = Inr node" and "DeletionTimestamp (NodeMeta node) \<noteq> None"
    and "cs = calls (NodeReconcile E L namespace req) tr"
    and "i < length cs" and "is_node_patch (cs ! i)"
  shows "case apiGetConfiguration E (tr @ [EvGetNode req (Inr node)]) (namespace, DefaultConfigurationName) of
           Inl err \<Rightarrow> False
         | Inr config \<Rightarrow> (\<exists>nb sb ch. in_order (release_steps L namespace config (nodeInternalIP node) nb sb ch) (take i cs))"
proof -
  let ?tr = "tr @ [EvGetNode req (Inr node)]" and ?nn = "(namespace, DefaultConfigurationName)"
  have cs: "cs = EvGetNode req (Inr node) # calls (reconcile_node E L namespace node) ?tr"
    unfolding assms(3) NodeReconcile_fetch_then nodes.calls_fetch_then using assms(1) by simp
  show ?thesis
  proof (cases "apiGetConfiguration E ?tr ?nn")
    case (Inl err)
    with cs have "cs = [EvGetNode req (Inr node), EvGetConfiguration ?nn (Inl err)]"
      unfolding reconcile_node_fetch_then nodecfg.calls_fetch_then by simp
    with assms(4,5) show ?thesis by (auto simp: less_Suc_eq)
  next
    case (Inr config)
    let ?acc = "[EvGetNode req (Inr node), EvGetConfiguration ?nn (Inr config)]"
    let ?new = "calls (act_on_node E L namespace node config) (?tr @ [EvGetConfiguration ?nn (Inr config)])"
    from Inr cs have cs': "cs = ?acc @ ?new"
      unfolding reconcile_node_fetch_then nodecfg.calls_fetch_then by simp
    have "only_after is_node_patch (cleaned_up L namespace config (nodeInternalIP node)) ?new"
    proof (cases "DeletionTimestamp (Meta config) = None")
      case True
      from obeysD [OF reconcileNodeDeletion_obeys [OF True assms(2)]] True assms(2) show ?thesis
        by (auto simp: act_on_node_def)
    qed (simp add: act_on_node_def only_after_def)
    then have "only_after is_node_patch (cleaned_up L namespace config (nodeInternalIP node)) cs"
      unfolding cs' by (rule only_after_prepend [rotated]) (simp_all add: cleaned_up_prepend del: append_Cons)
    with assms(4,5) Inr show ?thesis by (simp add: only_after_def cleaned_up_def)
  qed
qed

theorem node_released_only_after_cleanup_witness:
  "12 < length (calls (NodeReconcile (demo_node_env (Inr demo_dead_node)) ref_libs ''kube-system'' ''node1'') []) \<and>
   (\<exists>nb sb ch. in_order (release_steps ref_libs ''kube-system'' demo_cfg ''10.0.0.1'' nb sb ch)
     (take 12 (calls (NodeReconcile (demo_node_env (Inr demo_dead_node)) ref_libs ''kube-system'' ''node1'') [])))"
proof -
  let ?E = "demo_node_env (Inr demo_dead_node)"
  let ?cs = "calls (NodeReconcile ?E ref_libs ''kube-system'' ''node1'') []"
  have 1: "apiGetNode ?E [] ''node1'' = Inr demo_dead_node" by (simp add: demo_node_env_def)
  have 2: "DeletionTimestamp (NodeMeta demo_dead_node) \<noteq> None" by (simp add: demo_dead_node_def)
  have 3: "12 < length ?cs" by code_simp
  have 4: "is_node_patch (?cs ! 12)" by code_simp
  have ip: "nodeInternalIP demo_dead_node = ''10.0.0.1''" by code_simp
  from node_released_only_after_cleanup [OF 1 2 refl 3 4] 3 show ?thesis
    by (simp add: demo_node_env_def ip)
qed

text \<open>
  C13: the first call of a reconcile reads the node. If the node does not exist there is no other call.
  Otherwise the configuration is read, and besides that only permitted calls are made: none while the
  configuration is deleted, the patch that adds the finalizer for a live node that lacks it, and, for a
  deleted one, commands, the removal of its own address from the status and the removal of the
  finalizer. After any other error of the first read the same holds for the empty node object, with which
  the code goes on.
\<close>

theorem node_reconcile_only_permitted:
  assumes "e \<in> set (calls (NodeReconcile E L namespace req) tr)"
    and "r = apiGetNode E tr req"
    and "c = apiGetConfiguration E (tr @ [EvGetNode req r]) (namespace, DefaultConfigurationName)"
  shows "e = EvGetNode req r \<or>
    (\<exists>node. (case r of Inr n \<Rightarrow> node = n | Inl err \<Rightarrow> \<not> IsNotFound err \<and> node = zero_Node) \<and>
       (e = EvGetConfiguration (namespace, DefaultConfigurationName) c \<or>
        (\<exists>config. c = Inr config \<and> node_permitted L node config e)))"
proof -
  have act: "e = EvGetConfiguration (namespace, DefaultConfigurationName) c \<or> (\<exists>config. c = Inr config \<and> node_permitted L node config e)"
    if "e \<in> set (calls (reconcile_node E L namespace node) (tr @ [EvGetNode req r]))" for node
    using nodecfg.fetch_then_allowed [OF that [unfolded reconcile_node_fetch_then]] assms(3) by (auto split: sum.splits)
  show ?thesis
  proof (cases r)
    case (Inl err)
    then have get: "apiGetNode E tr req = Inl err" using assms(2) by simp
    from assms(1) have "e = EvGetNode req r \<or>
        \<not> IsNotFound err \<and> e \<in> set (calls (reconcile_node E L namespace zero_Node) (tr @ [EvGetNode req r]))"
      unfolding NodeReconcile_fetch_then nodes.calls_fetch_then get Inl by (auto split: if_splits)
    with act [of zero_Node] Inl show ?thesis by auto
  next
    case (Inr node)
    then have get: "apiGetNode E tr req = Inr node" using assms(2) by simp
    from assms(1) have "e = EvGetNode req r \<or> e \<in> set (calls (reconcile_node E L namespace node) (tr @ [EvGetNode req r]))"
      unfolding NodeReconcile_fetch_then nodes.calls_fetch_then get Inr by auto
    with act [of node] Inr show ?thesis by auto
  qed
qed

theorem node_reconcile_only_permitted_witness:
  "node_permitted ref_libs demo_dead_node demo_cfg (EvNewExecutor demo_pod None)"
proof -
  let ?cs = "calls (NodeReconcile (demo_node_env (Inr demo_dead_node)) ref_libs ''kube-system'' ''node1'') []"
  have "?cs ! 3 = EvNewExecutor demo_pod None \<and> 3 < length ?cs" by code_simp
  then have "EvNewExecutor demo_pod None \<in> set ?cs" by (metis nth_mem)
  from node_reconcile_only_permitted [OF this refl refl] show ?thesis
    by (simp add: demo_node_env_def)
qed

text \<open>
  a live node gets the finalizer: the reconcile reads the node and the configuration and, if the
  finalizer is missing, makes the one patch that adds it, whose error it returns; a node that has the
  finalizer is left alone.
\<close>

theorem live_node_gets_finalizer:
  assumes "apiGetNode E tr req = Inr node" and "DeletionTimestamp (NodeMeta node) = None"
    and "apiGetConfiguration E (tr @ [EvGetNode req (Inr node)]) (namespace, DefaultConfigurationName) = Inr config"
    and "DeletionTimestamp (Meta config) = None"
    and "tr2 = tr @ [EvGetNode req (Inr node), EvGetConfiguration (namespace, DefaultConfigurationName) (Inr config)]"
    and "new = set_node_finalizers node (libAddFinalizer L (Finalizers (NodeMeta node)) KubeOVNNodeFinalizer)"
  shows "snd (run_state (NodeReconcile E L namespace req) tr) = tr2 @
      (if libContainsFinalizer L (Finalizers (NodeMeta node)) KubeOVNNodeFinalizer then []
       else [EvPatchNode new node (apiPatchNode E tr2 new node)]) \<and>
    result (NodeReconcile E L namespace req) tr = (no_requeue,
      if libContainsFinalizer L (Finalizers (NodeMeta node)) KubeOVNNodeFinalizer then None
      else apiPatchNode E tr2 new node)"
  using assms
  by (simp add: NodeReconcile_def GetNode_def reconcile_node_def fetchKubeovnConfig_def GetConfiguration_def
      act_on_node_def PatchNode_def result_def)

theorem live_node_gets_finalizer_witness:
  "result (NodeReconcile (demo_node_env (Inr zero_Node)) ref_libs ''kube-system'' ''node1'') [] = (no_requeue, None)"
proof -
  let ?E = "demo_node_env (Inr zero_Node)"
  have 1: "apiGetNode ?E [] ''node1'' = Inr zero_Node" by (simp add: demo_node_env_def)
  have 2: "DeletionTimestamp (NodeMeta zero_Node) = None" by code_simp
  have 3: "apiGetConfiguration ?E ([] @ [EvGetNode ''node1'' (Inr zero_Node)]) (''kube-system'', DefaultConfigurationName) = Inr demo_cfg"
    by (simp add: demo_node_env_def)
  have 4: "DeletionTimestamp (Meta demo_cfg) = None" by code_simp
  from live_node_gets_finalizer [OF 1 2 3 4 refl refl, of ref_libs] show ?thesis
    by (simp add: demo_node_env_def ref_env_def)
qed

text \<open>
  C12: the deletion of a node completes: when every leader label selects one pod, commands succeed and
  patches are accepted, the reconcile of a deleted node with an internal address ends without an error
  and its last call takes the finalizer away, for master nodes and for others.
\<close>

theorem node_deletion_completes:
  assumes "leaders_up E L" and "apiGetNode E tr req = Inr node" and "DeletionTimestamp (NodeMeta node) \<noteq> None"
    and "nodeInternalIP node \<noteq> ''''" and "libContainsFinalizer L (Finalizers (NodeMeta node)) KubeOVNNodeFinalizer"
    and "apiGetConfiguration E (tr @ [EvGetNode req (Inr node)]) (namespace, DefaultConfigurationName) = Inr config"
    and "DeletionTimestamp (Meta config) = None"
  shows "result (NodeReconcile E L namespace req) tr = (no_requeue, None) \<and>
    last (calls (NodeReconcile E L namespace req) tr) = EvPatchNode (set_node_finalizers node
      (libRemoveFinalizer L (Finalizers (NodeMeta node)) KubeOVNNodeFinalizer)) node None"
proof -
  let ?tr = "tr @ [EvGetNode req (Inr node), EvGetConfiguration (namespace, DefaultConfigurationName) (Inr config)]"
  from reconcileNodeDeletion_up [OF assms(1,5,4), of namespace config ?tr] show ?thesis
    unfolding NodeReconcile_deletion [OF assms(2,3,6,7) refl] by auto
qed

theorem node_deletion_completes_witness:
  "result (NodeReconcile (demo_node_env (Inr demo_dead_node)) ref_libs ''kube-system'' ''node1'') [] = (no_requeue, None)"
proof -
  let ?E = "demo_node_env (Inr demo_dead_node)"
  have 1: "leaders_up ?E ref_libs" by (simp add: leaders_up_def demo_node_env_def ref_env_def ref_libs_def)
  have 2: "apiGetNode ?E [] ''node1'' = Inr demo_dead_node" by (simp add: demo_node_env_def)
  have 3: "DeletionTimestamp (NodeMeta demo_dead_node) \<noteq> None" "nodeInternalIP demo_dead_node \<noteq> ''''"
    "libContainsFinalizer ref_libs (Finalizers (NodeMeta demo_dead_node)) KubeOVNNodeFinalizer"
    by code_simp+
  have 4: "apiGetConfiguration ?E ([] @ [EvGetNode ''node1'' (Inr demo_dead_node)]) (''kube-system'', DefaultConfigurationName) = Inr demo_cfg"
    by (simp add: demo_node_env_def)
  have 5: "DeletionTimestamp (Meta demo_cfg) = None" by code_simp
  from node_deletion_completes [OF 1 2 3 4 5] show ?thesis by simp
qed

text \<open>
  C40: a failure of the last clean-up step is not reported: when a node is deleted, everything before that
  step succeeds (for a node with a master address, the commands on the central databases and the change of
  the status), and its chassis entry cannot be removed, the reconcile returns no error and asks for no
  retry, and it does not take the finalizer away.
\<close>

theorem chassis_failure_is_silent:
  assumes "apiGetNode E tr req = Inr node" and "DeletionTimestamp (NodeMeta node) \<noteq> None" and "nodeInternalIP node \<noteq> ''''"
    and "apiGetConfiguration E (tr @ [EvGetNode req (Inr node)]) (namespace, DefaultConfigurationName) = Inr config"
    and "DeletionTimestamp (Meta config) = None"
    and "nodeInternalIP node \<in> set (MatchingNodeAddresses (Status config)) \<longrightarrow>
      (\<forall>new. result (reconcileOVNCentralState E L namespace (nodeInternalIP node)) (tr @ new) = None) \<and>
      (\<forall>h new. apiPatchConfigurationStatus E h new config = None)"
    and "\<forall>new. result (reconcileOVSOVNState E L namespace (nodeInternalIP node)) (tr @ new) \<noteq> None"
  shows "result (NodeReconcile E L namespace req) tr = (no_requeue, None) \<and>
    list_all (\<lambda>e. \<not> is_node_patch e) (calls (NodeReconcile E L namespace req) tr)"
proof -
  let ?tr = "tr @ [EvGetNode req (Inr node), EvGetConfiguration (namespace, DefaultConfigurationName) (Inr config)]"
  have silent: "result (finishNodeDeletion E L namespace node) (?tr @ mid) = (no_requeue, None) \<and>
      list_all (\<lambda>e. \<not> is_node_patch e) (calls (finishNodeDeletion E L namespace node) (?tr @ mid))" for mid
    using assms(7) by (intro finishNodeDeletion_silent) simp
  have "result (reconcileNodeDeletion E L namespace config node) ?tr = (no_requeue, None) \<and>
      list_all (\<lambda>e. \<not> is_node_patch e) (calls (reconcileNodeDeletion E L namespace config node) ?tr)"
  proof (cases "nodeInternalIP node \<in> set (MatchingNodeAddresses (Status config))")
    case True
    with assms(6) have "result (reconcileOVNCentralState E L namespace (nodeInternalIP node)) ?tr = None"
      "\<And>h new. apiPatchConfigurationStatus E h new config = None" by simp_all
    from reconcileNodeDeletion_master [OF True assms(3) this] silent show ?thesis by (metis list_all_append)
  next
    case False
    with assms(3) silent [of "[]"] show ?thesis by (simp add: reconcileNodeDeletion_def)
  qed
  then show ?thesis unfolding NodeReconcile_deletion [OF assms(1,2,4,5) refl] by simp
qed

text \<open>An environment in which no pod carries the southbound leader label.\<close>

definition demo_other_node :: Node where
  "demo_other_node = demo_dead_node\<lparr>Addresses := [(''InternalIP'', ''10.0.0.9'')]\<rparr>"

theorem chassis_failure_is_silent_witness:
  "result (NodeReconcile (demo_node_env (Inr demo_other_node)\<lparr>apiListPods := (\<lambda>_ _ _. Inr [])\<rparr>) ref_libs ''kube-system'' ''node1'') [] =
     (no_requeue, None)"
proof -
  let ?E = "demo_node_env (Inr demo_other_node)\<lparr>apiListPods := (\<lambda>_ _ _. Inr [])\<rparr>"
  have 1: "apiGetNode ?E [] ''node1'' = Inr demo_other_node" by (simp add: demo_node_env_def)
  have 2: "DeletionTimestamp (NodeMeta demo_other_node) \<noteq> None" "nodeInternalIP demo_other_node \<noteq> ''''"
    "DeletionTimestamp (Meta demo_cfg) = None" by code_simp+
  have 3: "apiGetConfiguration ?E ([] @ [EvGetNode ''node1'' (Inr demo_other_node)]) (''kube-system'', DefaultConfigurationName) = Inr demo_cfg"
    by (simp add: demo_node_env_def)
  have "\<not> List.member (MatchingNodeAddresses (Status demo_cfg)) (nodeInternalIP demo_other_node)" by code_simp
  then have 4: "nodeInternalIP demo_other_node \<in> set (MatchingNodeAddresses (Status demo_cfg)) \<longrightarrow>
      (\<forall>new. result (reconcileOVNCentralState ?E ref_libs ''kube-system'' (nodeInternalIP demo_other_node)) ([] @ new) = None) \<and>
      (\<forall>h new. apiPatchConfigurationStatus ?E h new demo_cfg = None)" by simp
  obtain script where "GenerateChassisCleanupScript (nodeInternalIP demo_other_node) = Inr script"
    using scripts_render(3) by blast
  then have 5: "\<forall>new. result (reconcileOVSOVNState ?E ref_libs ''kube-system'' (nodeInternalIP demo_other_node)) ([] @ new) \<noteq> None"
    by (simp add: reconcileOVSOVNState_def executeRemoteScriptOnLeader_def executeOVNCentralCommand_def podList_def ListPods_def
        ref_libs_def result_bind)
  from chassis_failure_is_silent [OF 1 2(1,2) 3 2(3) 4 5] show ?thesis by simp
qed

text \<open>
  an error other than not-found when the node is read does not end the reconcile: the code goes on
  with an empty node object, patches a finalizer onto it, and returns that patch's outcome in place of
  the error it met.
\<close>

theorem node_read_error_is_lost:
  assumes "apiGetNode E tr req = Inl err" and "\<not> IsNotFound err" and "finalizer_laws L"
    and "apiGetConfiguration E (tr @ [EvGetNode req (Inl err)]) (namespace, DefaultConfigurationName) = Inr config"
    and "DeletionTimestamp (Meta config) = None"
    and "tr2 = tr @ [EvGetNode req (Inl err), EvGetConfiguration (namespace, DefaultConfigurationName) (Inr config)]"
    and "new = set_node_finalizers zero_Node (libAddFinalizer L [] KubeOVNNodeFinalizer)"
  shows "snd (run_state (NodeReconcile E L namespace req) tr) = tr2 @ [EvPatchNode new zero_Node (apiPatchNode E tr2 new zero_Node)] \<and>
    result (NodeReconcile E L namespace req) tr = (no_requeue, apiPatchNode E tr2 new zero_Node)"
  using assms
  by (simp add: NodeReconcile_def GetNode_def reconcile_node_def fetchKubeovnConfig_def GetConfiguration_def
      act_on_node_def PatchNode_def result_def zero_Node_def zero_ObjectMeta_def finalizer_lawsD)

theorem node_read_error_is_lost_witness:
  "result (NodeReconcile (demo_node_env (Inl (EApi (OtherApi ''timeout'')))) ref_libs ''kube-system'' ''node1'') [] = (no_requeue, None)"
proof -
  let ?err = "EApi (OtherApi ''timeout'')"
  let ?E = "demo_node_env (Inl ?err)"
  have 1: "apiGetNode ?E [] ''node1'' = Inl ?err" by (simp add: demo_node_env_def)
  have 2: "\<not> IsNotFound ?err" by simp
  have 3: "apiGetConfiguration ?E ([] @ [EvGetNode ''node1'' (Inl ?err)]) (''kube-system'', DefaultConfigurationName) = Inr demo_cfg"
    by (simp add: demo_node_env_def)
  have 4: "DeletionTimestamp (Meta demo_cfg) = None" by code_simp
  from node_read_error_is_lost [OF 1 2 ref_libs_finalizer_laws 3 4 refl refl] show ?thesis
    by (simp add: demo_node_env_def ref_env_def)
qed

text \<open>
  a command runs only in the \<^verbatim>\<open>ovn-central\<close> container of the one pod that carries the leader
  label; if no pod or several carry it, nothing runs and the call fails.
\<close>

theorem command_runs_on_the_single_leader:
  assumes "EvExec pod container cmd r \<in> set (calls (executeOVNCentralCommand E L script label namespace) tr)"
  shows "container = OVNCentralContainerName \<and> cmd = [''/bin/sh'', ''-c'', script] \<and>
    (\<exists>selector. libLabelsParse L label = Inr selector \<and> apiListPods E tr selector namespace = Inr [pod])"
proof (cases "libLabelsParse L label")
  case (Inr selector)
  from assms Inr obtain items where items: "apiListPods E tr selector namespace = Inr items"
    by (cases "apiListPods E tr selector namespace")
       (auto simp: executeOVNCentralCommand_def podList_def ListPods_def calls_def)
  from assms Inr items have "length items = 1"
    by (auto simp: executeOVNCentralCommand_def podList_def ListPods_def calls_def split: if_splits)
  then obtain p where p: "items = [p]" by (cases items) auto
  from assms Inr items p show ?thesis
    by (auto simp: executeOVNCentralCommand_def podList_def call_defs executor_defs calls_def split: option.splits prod.splits)
qed (use assms in \<open>simp add: executeOVNCentralCommand_def podList_def\<close>)

theorem command_runs_on_the_single_leader_witness:
  "\<exists>selector. libLabelsParse ref_libs NBLeaderLabel = Inr selector \<and>
     apiListPods (demo_node_env (Inr zero_Node)) [] selector ''kube-system'' = Inr [demo_pod]"
proof -
  let ?cs = "calls (executeOVNCentralCommand (demo_node_env (Inr zero_Node)) ref_libs ''true'' NBLeaderLabel ''kube-system'') []"
  let ?e = "EvExec demo_pod ''ovn-central'' [''/bin/sh'', ''-c'', ''true''] ('''', '''', None)"
  have "?cs ! 2 = ?e \<and> 2 < length ?cs" by code_simp
  then have "?e \<in> set ?cs" by (metis nth_mem)
  from command_runs_on_the_single_leader [OF this] show ?thesis by simp
qed

text \<open>
  \<^verbatim>\<open>removeElement\<close> removes the first occurrence of the element and nothing else, and leaves a
  list without it as it is.
\<close>

theorem removeElement_removes_first:
  "removeElement xs x = takeWhile (\<lambda>y. y \<noteq> x) xs @ tl (dropWhile (\<lambda>y. y \<noteq> x) xs) \<and>
   mset (removeElement xs x) = mset xs - {#x#}"
proof
  show "removeElement xs x = takeWhile (\<lambda>y. y \<noteq> x) xs @ tl (dropWhile (\<lambda>y. y \<noteq> x) xs)"
    by (induction xs) auto
  show "mset (removeElement xs x) = mset xs - {#x#}"
    by (simp add: removeElement_remove1)
qed

end
