(* ===== verification/Health_Properties.thy ===== *)
theory Health_Properties
  imports Health_Controller Node_Properties
begin

text \<open>
  The correctness of the health reconciler (theory \<open>Health_Controller\<close>): the calls it may make, the
  rate of its checks, where the commands run and what the conditions say afterwards.
\<close>

section \<open>Specification\<close>

definition health_conditions :: "string list" where
  "health_conditions = [OVNNBLeaderFound, OVNSBLeaderFound, OVNNBDBHealth, OVNSBDBHealth]"

text \<open>Equal except for the conditions, and of these at most the four of the health check differ.\<close>

definition only_health_changed :: "Configuration \<Rightarrow> Configuration \<Rightarrow> bool" where
  "only_health_changed c c' \<longleftrightarrow>
     c'\<lparr>Status := (Status c')\<lparr>Conditions := []\<rparr>\<rparr> = c\<lparr>Status := (Status c)\<lparr>Conditions := []\<rparr>\<rparr> \<and>
     (\<forall>t. t \<notin> set health_conditions \<longrightarrow> LookupCondition c' t = LookupCondition c t) \<and>
     (conditions_distinct c' \<longleftrightarrow> conditions_distinct c)"

fun health_call :: "event \<Rightarrow> bool" where
  "health_call (EvNow t) = True"
| "health_call (EvListPods sel ns r) = True"
| "health_call (EvNewExecutor pod r) = True"
| "health_call (EvExec pod container cmd r) \<longleftrightarrow> container = OVNCentralContainerName \<and>
     cmd \<in> {[''/bin/sh'', ''-c'', NBCheckScript], [''/bin/sh'', ''-c'', SBCheckScript]}"
| "health_call _ = False"

definition health_permitted :: "Configuration \<Rightarrow> event \<Rightarrow> bool" where
  "health_permitted c e \<longleftrightarrow>
     DeletionTimestamp (Meta c) = None \<and> StatusText (Status c) = ConfigurationStatusDeployed \<and>
     (health_call e \<or>
      (case e of
         EvPatchConfigurationStatus new base r \<Rightarrow> base = c \<and> only_health_changed c new \<and>
           Conditions (Status new) \<noteq> Conditions (Status c)
       | _ \<Rightarrow> False))"

section \<open>The check\<close>

lemma only_health_refl [simp]: "only_health_changed c c"
  by (simp add: only_health_changed_def)

lemma only_health_SetCondition:
  assumes "only_health_changed c c'" and "t \<in> set health_conditions"
  shows "only_health_changed c (SetCondition c' t s m r now)"
proof -
  have "(SetCondition c' t s m r now)\<lparr>Status := (Status (SetCondition c' t s m r now))\<lparr>Conditions := []\<rparr>\<rparr> =
      c'\<lparr>Status := (Status c')\<lparr>Conditions := []\<rparr>\<rparr>"
    by (simp add: SetCondition_def)
  moreover have "t' \<notin> set health_conditions \<Longrightarrow> LookupCondition (SetCondition c' t s m r now) t' = LookupCondition c' t'" for t'
    using assms(2) by (metis cond.look_put_other)
  ultimately show ?thesis
    using assms(1) unfolding only_health_changed_def cond.wf_put by simp
qed

definition health_ok :: "Configuration \<Rightarrow> Configuration \<Rightarrow> trace \<Rightarrow> bool" where
  "health_ok c c' new \<longleftrightarrow> list_all health_call new \<and> only_health_changed c c'"

lemma podList_obeys: "obeys (podList E L label namespace) [] (\<lambda>r new. list_all health_call new)"
  unfolding podList_def ListPods_def by (intro obeys_rules) simp_all

lemma executeOVNCentralCommand_health:
  "script \<in> {NBCheckScript, SBCheckScript} \<Longrightarrow>
   obeys (executeOVNCentralCommand E L script label namespace) [] (\<lambda>r new. list_all health_call new)"
  unfolding executeOVNCentralCommand_def executor_defs call_defs podList_def
  by (intro obeys_rules) auto

lemma record_leader_obeys:
  assumes "only_health_changed c c'" and "t \<in> set health_conditions"
  shows "obeys (record_leader E t m m' pods c') [] (\<lambda>r new. health_ok c (snd r) new)"
  unfolding record_leader_def Now_def
  by (intro obeys_rules) (auto simp: health_ok_def only_health_SetCondition [OF assms] split: list.split)

lemma record_health_obeys:
  assumes "only_health_changed c c'" and "t \<in> set health_conditions" and "script \<in> {NBCheckScript, SBCheckScript}"
  shows "obeys (record_health E L namespace script label t c') [] (\<lambda>c'' new. health_ok c c'' new)"
  unfolding record_health_def Now_def
  apply (rule obeys_bind, rule obeys_mono [OF executeOVNCentralCommand_health [OF assms(3)]])
  apply (intro obeys_rules)
  apply (simp add: health_ok_def only_health_SetCondition [OF assms(1,2)])
  done

lemma health_types: "OVNNBLeaderFound \<in> set health_conditions" "OVNSBLeaderFound \<in> set health_conditions"
  "OVNNBDBHealth \<in> set health_conditions" "OVNSBDBHealth \<in> set health_conditions"
  by (simp_all add: health_conditions_def)

lemma record_health_if:
  assumes "only_health_changed c c'" and "t \<in> set health_conditions" and "script \<in> {NBCheckScript, SBCheckScript}"
  shows "obeys (if b then record_health E L namespace script label t c' else State_Monad.return c') []
    (\<lambda>c'' new. health_ok c c'' new)"
  using record_health_obeys [OF assms] assms(1) by (simp add: obeys_return health_ok_def)

lemma reconcileOVNDBHealth_obeys:
  "obeys (reconcileOVNDBHealth E L namespace interval c) [] (\<lambda>r new. health_ok c (snd r) new)"
  unfolding reconcileOVNDBHealth_def Now_def
  apply (intro obeys_rules)
   apply (simp add: health_ok_def)
  apply (rule obeys_frame [OF podList_obeys])
  apply (intro obeys_rules)
   apply (simp add: health_ok_def)
  apply (rule obeys_frame [OF record_leader_obeys [OF only_health_refl health_types(1)]])
  apply (intro obeys_rules)
  apply (rule obeys_frame [OF podList_obeys])
  apply (intro obeys_rules)
   apply (simp add: health_ok_def)
  apply (rule obeys_frame [OF record_leader_obeys [where c = c, OF _ health_types(2)]])
   apply (simp add: health_ok_def)
  apply (rule obeys_case_prod, rule obeys_bind)
  apply (rule obeys_frame [OF record_health_if [where c = c, OF _ health_types(3)]])
    apply (simp add: health_ok_def)
   apply simp
  apply (rule obeys_bind)
  apply (rule obeys_frame [OF record_health_if [where c = c, OF _ health_types(4)]])
    apply (simp_all add: health_ok_def obeys_return)
  done

lemma healthcheck_config_permitted: "emits (health_permitted c) (healthcheck_config E L namespace interval c)"
proof (cases "DeletionTimestamp (Meta c) = None \<and> StatusText (Status c) = ConfigurationStatusDeployed")
  case False
  then show ?thesis by (auto simp: healthcheck_config_def emits_return)
next
  case True
  then have call: "health_call e \<Longrightarrow> health_permitted c e" for e
    by (simp add: health_permitted_def)
  show ?thesis
    unfolding healthcheck_config_def emits_obeys PatchConfigurationStatus_def
    apply (simp only: True simp_thms if_False if_True)
    apply (rule obeys_bind, rule obeys_mono [OF reconcileOVNDBHealth_obeys])
    apply (intro obeys_rules)
      apply (use True in \<open>auto simp: health_ok_def list_all_iff call health_permitted_def\<close>)
    done
qed

interpretation health: reader "\<lambda>tr. apiGetConfiguration E tr req" "EvGetConfiguration req"
    "\<lambda>err. State_Monad.return (no_requeue, if IsNotFound err then None else Some err)"
    "healthcheck_config E L namespace interval" "\<lambda>err e. False" "health_permitted"
  for E req L namespace interval
  by unfold_locales (simp_all add: emits_return healthcheck_config_permitted)

lemma HealthReconcile_fetch_then:
  "HealthReconcile E L namespace interval req =
     fetch_then (\<lambda>tr. apiGetConfiguration E tr req) (EvGetConfiguration req)
       (\<lambda>err. State_Monad.return (no_requeue, if IsNotFound err then None else Some err))
       (healthcheck_config E L namespace interval)"
  by (simp add: HealthReconcile_def fetch_then_def GetConfiguration_def)

section \<open>The rate of the checks\<close>

lemma seconds_exact: "\<bar>n\<bar> \<le> 9223372036 \<Longrightarrow> seconds n = n * 1000000000"
  by (simp add: seconds_def wrap64_def)

text \<open>The leader condition carries a time that was read during the run.\<close>

definition stamped :: "Configuration \<Rightarrow> trace \<Rightarrow> bool" where
  "stamped c evs \<longleftrightarrow> EvNow (LastTransitionTime (LookupCondition c OVNNBLeaderFound)) \<in> set evs"

lemma stamped_mono: "stamped c xs \<Longrightarrow> set xs \<subseteq> set ys \<Longrightarrow> stamped c ys"
  by (auto simp: stamped_def)

lemma record_leader_stamps:
  "obeys (record_leader E OVNNBLeaderFound m m' pods c) [] (\<lambda>r new. stamped (snd r) new)"
  unfolding record_leader_def Now_def
  by (intro obeys_rules) (auto simp: stamped_def cond.store_simps split: list.split)

lemma record_leader_keeps:
  assumes "t \<noteq> OVNNBLeaderFound"
  shows "obeys (record_leader E t m m' pods c) [] (\<lambda>r new. LookupCondition (snd r) OVNNBLeaderFound = LookupCondition c OVNNBLeaderFound)"
  unfolding record_leader_def Now_def
  by (intro obeys_rules) (use assms in \<open>auto simp: cond.look_put_other split: list.split\<close>)

lemma executeOVNCentralCommand_any: "obeys (executeOVNCentralCommand E L script label namespace) [] (\<lambda>r new. True)"
  unfolding executeOVNCentralCommand_def executor_defs call_defs podList_def by (intro obeys_rules) simp_all

lemma record_health_keeps:
  assumes "t \<noteq> OVNNBLeaderFound"
  shows "obeys (if b then record_health E L namespace script label t c else State_Monad.return c) []
    (\<lambda>c' new. LookupCondition c' OVNNBLeaderFound = LookupCondition c OVNNBLeaderFound)"
  unfolding record_health_def Now_def
  apply (rule obeys_if, rule obeys_bind, rule obeys_mono [OF executeOVNCentralCommand_any])
   apply (intro obeys_rules)
   apply (use assms in \<open>auto simp: cond.look_put_other intro: obeys_return\<close>)
  done

lemma reconcileOVNDBHealth_stamps:
  "obeys (reconcileOVNDBHealth E L namespace interval c) [] (\<lambda>r new.
     (\<exists>now. new = [EvNow now] \<and> r = (None, c) \<and> \<not> checkNeeded interval c now) \<or>
     (\<exists>now. EvNow now \<in> set new \<and> checkNeeded interval c now) \<and> (fst r = None \<longrightarrow> stamped (snd r) new))"
  unfolding reconcileOVNDBHealth_def Now_def
  apply (intro obeys_rules)
   apply auto [1]
  apply (rule obeys_frame [OF podList_obeys])
  apply (intro obeys_rules)
   apply auto [1]
  apply (rule obeys_frame [OF record_leader_stamps])
  apply (intro obeys_rules)
  apply (rule obeys_frame [OF podList_obeys])
  apply (intro obeys_rules)
   apply auto [1]
  apply (rule obeys_frame [OF record_leader_keeps [OF condition_types_neq(10)]])
  apply (rule obeys_case_prod, rule obeys_bind)
  apply (rule obeys_frame [OF record_health_keeps [OF condition_types_neq(14)]])
  apply (rule obeys_bind)
  apply (rule obeys_frame [OF record_health_keeps [OF condition_types_neq(18)]])
  apply (rule obeys_return)
  apply (auto simp: stamped_def)
  done

section \<open>Where the commands run\<close>

fun runs_on :: "libs \<Rightarrow> string \<Rightarrow> string \<Rightarrow> trace \<Rightarrow> event \<Rightarrow> bool" where
  "runs_on L namespace label evs (EvExec pod container cmd r) \<longleftrightarrow>
     (\<exists>selector. libLabelsParse L label = Inr selector \<and> EvListPods selector namespace (Inr [pod]) \<in> set evs)"
| "runs_on L namespace label evs _ \<longleftrightarrow> True"

lemma runs_on_mono: "runs_on L namespace label xs e \<Longrightarrow> set xs \<subseteq> set ys \<Longrightarrow> runs_on L namespace label ys e"
  by (cases e) auto

lemma executeOVNCentralCommand_runs_on:
  "obeys (executeOVNCentralCommand E L script label namespace) [] (\<lambda>r new. list_all (runs_on L namespace label new) new)"
  unfolding executeOVNCentralCommand_def executor_defs call_defs podList_def
  apply (intro obeys_rules)
      apply (simp_all split: option.splits)
  apply (metis length_0_conv length_Suc_conv list.sel(1))
  done

lemma record_health_runs_on:
  "obeys (if b then record_health E L namespace script label t c else State_Monad.return c) []
    (\<lambda>c' new. list_all (runs_on L namespace label new) new)"
  unfolding record_health_def Now_def
  apply (rule obeys_if, rule obeys_bind, rule obeys_mono [OF executeOVNCentralCommand_runs_on])
   apply (intro obeys_rules)
   apply (auto simp: list_all_iff intro: obeys_return elim!: runs_on_mono)
  done

lemma no_exec_runs_on:
  "obeys (podList E L l namespace) [] (\<lambda>r new. \<forall>evs. list_all (runs_on L namespace label evs) new)"
  "obeys (record_leader E t m m' pods c) [] (\<lambda>r new. \<forall>evs. list_all (runs_on L namespace label evs) new)"
  unfolding podList_def ListPods_def record_leader_def Now_def by (intro obeys_rules; simp)+

lemma runs_on_append:
  "list_all (runs_on L namespace label xs) xs \<Longrightarrow> list_all (runs_on L namespace label ys) ys \<Longrightarrow>
   list_all (runs_on L namespace label (xs @ ys)) (xs @ ys)"
  by (auto simp: list_all_iff elim!: runs_on_mono)

lemma reconcileOVNDBHealth_runs_on:
  "obeys (reconcileOVNDBHealth E L namespace interval c) [] (\<lambda>r new. list_all (runs_on L namespace SBLeaderLabel new) new)"
  unfolding reconcileOVNDBHealth_def Now_def
  apply (intro obeys_rules)
   apply simp
  apply (rule obeys_frame [OF no_exec_runs_on(1) [where label = SBLeaderLabel]])
  apply (intro obeys_rules)
   apply (simp add: runs_on_append)
  apply (rule obeys_frame [OF no_exec_runs_on(2) [where label = SBLeaderLabel and L = L and namespace = namespace]])
  apply (intro obeys_rules)
  apply (rule obeys_frame [OF no_exec_runs_on(1) [where label = SBLeaderLabel]])
  apply (intro obeys_rules)
   apply (simp add: runs_on_append)
  apply (rule obeys_frame [OF no_exec_runs_on(2) [where label = SBLeaderLabel and L = L and namespace = namespace]])
  apply (rule obeys_case_prod, rule obeys_bind)
  apply (rule obeys_frame [OF record_health_runs_on])
  apply (rule obeys_bind)
  apply (rule obeys_frame [OF record_health_runs_on])
  apply (rule obeys_return)
  apply (intro runs_on_append)
  apply simp_all
  done

section \<open>What the conditions say\<close>

text \<open>The pods that a run found for a leader label.\<close>

fun pods_listed :: "libs \<Rightarrow> string \<Rightarrow> string \<Rightarrow> Pod list \<Rightarrow> event \<Rightarrow> bool" where
  "pods_listed L namespace label pods (EvListPods selector ns r) \<longleftrightarrow>
     libLabelsParse L label = Inr selector \<and> ns = namespace \<and> r = Inr pods"
| "pods_listed L namespace label pods _ \<longleftrightarrow> False"

fun pod_listing :: "event \<Rightarrow> bool" where
  "pod_listing (EvListPods selector ns r) \<longleftrightarrow> True"
| "pod_listing _ \<longleftrightarrow> False"

text \<open>
  The first listing of pods of the run is the look-up of the northbound leader, the second that of the
  southbound leader; each leader condition says whether that listing had a pod.
\<close>

definition leaders_reported :: "libs \<Rightarrow> string \<Rightarrow> Configuration \<Rightarrow> Configuration \<Rightarrow> trace \<Rightarrow> bool" where
  "leaders_reported L namespace c c' evs \<longleftrightarrow> (\<exists>nb sb first_listing second_listing later.
     filter pod_listing evs = first_listing # second_listing # later \<and>
     pods_listed L namespace NBLeaderLabel nb first_listing \<and>
     pods_listed L namespace SBLeaderLabel sb second_listing \<and>
     CondStatus (LookupCondition c' OVNNBLeaderFound) = (if nb = [] then metav1_ConditionFalse else metav1_ConditionTrue) \<and>
     CondStatus (LookupCondition c' OVNSBLeaderFound) = (if sb = [] then metav1_ConditionFalse else metav1_ConditionTrue) \<and>
     (nb = [] \<longrightarrow> LookupCondition c' OVNNBDBHealth = LookupCondition c OVNNBDBHealth) \<and>
     (sb = [] \<longrightarrow> LookupCondition c' OVNSBDBHealth = LookupCondition c OVNSBDBHealth))"

text \<open>What one look-up and one command leave in the working copy.\<close>

lemma podList_listed:
  "obeys (podList E L label namespace) [] (\<lambda>r new. \<forall>pods. r = Inr pods \<longrightarrow>
     (\<exists>e. filter pod_listing new = [e] \<and> pods_listed L namespace label pods e))"
  unfolding podList_def ListPods_def by (intro obeys_rules) simp_all

lemma record_leader_effect:
  "obeys (record_leader E t m m' pods c) [] (\<lambda>r new. fst r = (pods \<noteq> []) \<and> filter pod_listing new = [] \<and>
     CondStatus (LookupCondition (snd r) t) = (if pods = [] then metav1_ConditionFalse else metav1_ConditionTrue) \<and>
     (\<forall>t'. t' \<noteq> t \<longrightarrow> LookupCondition (snd r) t' = LookupCondition c t'))"
  unfolding record_leader_def Now_def
  by (intro obeys_rules) (auto simp: cond.look_put_same cond.look_put_other split: list.split)

lemma record_health_effect:
  "obeys (if b then record_health E L namespace script label t c else State_Monad.return c) []
    (\<lambda>c' new. (\<forall>t'. t' \<noteq> t \<or> \<not> b \<longrightarrow> LookupCondition c' t' = LookupCondition c t'))"
  unfolding record_health_def Now_def
  apply (rule obeys_if, rule obeys_bind, rule obeys_mono [OF executeOVNCentralCommand_any])
   apply (intro obeys_rules)
   apply (auto simp: cond.look_put_other intro: obeys_return)
  done

text \<open>The check put together: the two look-ups, then the two commands.\<close>

lemma leaders_reportedI:
  assumes nb: "\<forall>pods. (Inr nb :: goerror + Pod list) = Inr pods \<longrightarrow>
      (\<exists>e. filter pod_listing evs1 = [e] \<and> pods_listed L namespace NBLeaderLabel pods e)"
    and look1: "run_nb = (nb \<noteq> []) \<and> filter pod_listing evs2 = [] \<and>
      CondStatus (LookupCondition c1 OVNNBLeaderFound) = (if nb = [] then metav1_ConditionFalse else metav1_ConditionTrue) \<and>
      (\<forall>t. t \<noteq> OVNNBLeaderFound \<longrightarrow> LookupCondition c1 t = LookupCondition c t)"
    and sb: "\<forall>pods. (Inr sb :: goerror + Pod list) = Inr pods \<longrightarrow>
      (\<exists>e. filter pod_listing evs3 = [e] \<and> pods_listed L namespace SBLeaderLabel pods e)"
    and look2: "run_sb = (sb \<noteq> []) \<and> filter pod_listing evs4 = [] \<and>
      CondStatus (LookupCondition c2 OVNSBLeaderFound) = (if sb = [] then metav1_ConditionFalse else metav1_ConditionTrue) \<and>
      (\<forall>t. t \<noteq> OVNSBLeaderFound \<longrightarrow> LookupCondition c2 t = LookupCondition c1 t)"
    and run1: "\<forall>t. t \<noteq> OVNNBDBHealth \<or> \<not> nb \<noteq> [] \<longrightarrow> LookupCondition c3 t = LookupCondition c2 t"
    and run2: "\<forall>t. t \<noteq> OVNSBDBHealth \<or> \<not> sb \<noteq> [] \<longrightarrow> LookupCondition c4 t = LookupCondition c3 t"
  shows "leaders_reported L namespace c c4 ([EvNow now] @ evs1 @ evs2 @ evs3 @ evs4 @ evs5 @ evs6)"
proof -
  from nb obtain e1 where e1: "filter pod_listing evs1 = [e1]" "pods_listed L namespace NBLeaderLabel nb e1" by blast
  from sb obtain e2 where e2: "filter pod_listing evs3 = [e2]" "pods_listed L namespace SBLeaderLabel sb e2" by blast
  have "CondStatus (LookupCondition c4 OVNNBLeaderFound) = (if nb = [] then metav1_ConditionFalse else metav1_ConditionTrue)"
    "CondStatus (LookupCondition c4 OVNSBLeaderFound) = (if sb = [] then metav1_ConditionFalse else metav1_ConditionTrue)"
    using look1 look2 run1 run2 by simp_all
  moreover have "nb = [] \<longrightarrow> LookupCondition c4 OVNNBDBHealth = LookupCondition c OVNNBDBHealth"
    "sb = [] \<longrightarrow> LookupCondition c4 OVNSBDBHealth = LookupCondition c OVNSBDBHealth"
    using look1 look2 run1 run2 by simp_all
  moreover have "filter pod_listing ([EvNow now] @ evs1 @ evs2 @ evs3 @ evs4 @ evs5 @ evs6) =
      e1 # e2 # filter pod_listing (evs5 @ evs6)"
    using e1(1) e2(1) look1 look2 by simp
  ultimately show ?thesis
    unfolding leaders_reported_def using e1(2) e2(2) by blast
qed

lemma reconcileOVNDBHealth_reports:
  "obeys (reconcileOVNDBHealth E L namespace interval c) [] (\<lambda>r new. fst r = None \<longrightarrow>
     (\<exists>now. new = [EvNow now] \<and> snd r = c \<and> \<not> checkNeeded interval c now) \<or>
     leaders_reported L namespace c (snd r) new)"
  unfolding reconcileOVNDBHealth_def Now_def
  apply (intro obeys_rules)
   apply simp
  apply (rule obeys_frame [OF podList_listed])
  apply (intro obeys_rules)
   apply simp
  apply (rule obeys_frame [OF record_leader_effect])
  apply (intro obeys_rules)
  apply (rule obeys_frame [OF podList_listed])
  apply (intro obeys_rules)
   apply simp
  apply (rule obeys_frame [OF record_leader_effect])
  apply (rule obeys_case_prod, rule obeys_bind)
  apply (rule obeys_frame [OF record_health_effect])
  apply (rule obeys_bind)
  apply (rule obeys_frame [OF record_health_effect])
  apply (rule obeys_return)
  apply (simp only: append_Nil append_assoc fst_conv snd_conv)
  apply (intro impI disjI2)
  apply (rule leaders_reportedI; assumption)
  done

text \<open>A cluster in which both leaders answer.\<close>

lemma record_leader_up:
  "pods \<noteq> [] \<Longrightarrow> obeys (record_leader E t m m' pods c) [] (\<lambda>r new. fst r \<and> ConditionTrue (snd r) t \<and>
     (\<forall>t'. t' \<noteq> t \<longrightarrow> LookupCondition (snd r) t' = LookupCondition c t'))"
  by (rule obeys_mono [OF record_leader_effect]) (simp add: ConditionTrue_def)

lemma executeOVNCentralCommand_up_obeys:
  assumes "leaders_up E L"
  shows "obeys (executeOVNCentralCommand E L script label namespace) [] (\<lambda>r new. snd r = None)"
  using executeOVNCentralCommand_any [of E L script label namespace] executeOVNCentralCommand_up [OF assms]
  unfolding obeys_def result_def by blast

lemma record_health_up:
  assumes "leaders_up E L"
  shows "obeys (record_health E L namespace script label t c) [] (\<lambda>c' new. ConditionTrue c' t \<and>
     (\<forall>t'. t' \<noteq> t \<longrightarrow> LookupCondition c' t' = LookupCondition c t'))"
  unfolding record_health_def Now_def
  apply (rule obeys_bind, rule obeys_mono [OF executeOVNCentralCommand_up_obeys [OF assms]])
  apply (intro obeys_rules)
  apply (auto simp: ConditionTrue_def cond.look_put_same cond.look_put_other)
  done

lemma podList_up:
  assumes "leaders_up E L"
  shows "obeys (podList E L label namespace) [] (\<lambda>r new. \<exists>pod. r = Inr [pod])"
proof -
  obtain sel where sel: "libLabelsParse L label = Inr sel"
    using assms unfolding leaders_up_def by (metis isl_def sum.collapse(2))
  have "\<exists>pod. apiListPods E tr sel namespace = Inr [pod]" for tr
    using assms unfolding leaders_up_def by blast
  then show ?thesis by (simp add: podList_def sel ListPods_def obeys_def)
qed

lemma reconcileOVNDBHealth_up:
  assumes "leaders_up E L"
  shows "obeys (reconcileOVNDBHealth E L namespace interval c) [] (\<lambda>r new. fst r = None \<and>
     ((\<exists>now. new = [EvNow now] \<and> snd r = c \<and> \<not> checkNeeded interval c now) \<or>
      list_all (ConditionTrue (snd r)) health_conditions))"
  unfolding reconcileOVNDBHealth_def Now_def
  apply (intro obeys_rules)
   apply simp
  apply (rule obeys_frame [OF podList_up [OF assms]], erule exE, simp only: sum.case)
  apply (rule obeys_bind, rule obeys_frame [OF record_leader_up], simp)
  apply (rule obeys_case_prod, rule obeys_bind)
  apply (rule obeys_frame [OF podList_up [OF assms]], erule exE, simp only: sum.case)
  apply (rule obeys_bind, rule obeys_frame [OF record_leader_up], simp)
  apply (rule obeys_case_prod, rule obeys_bind, simp only: fst_conv snd_conv if_True)
  apply (rule obeys_frame [OF record_health_up [OF assms]])
  apply (rule obeys_bind)
  apply (rule obeys_frame [OF record_health_up [OF assms]])
  apply (rule obeys_return)
  apply (simp add: health_conditions_def ConditionTrue_def)
  done

section \<open>A reconcile\<close>

lemma healthcheck_config_active:
  assumes "DeletionTimestamp (Meta c) = None" and "StatusText (Status c) = ConfigurationStatusDeployed"
  shows "healthcheck_config E L namespace interval c = do {
        (err, config) \<leftarrow> reconcileOVNDBHealth E L namespace interval c;
        case err of
          Some e \<Rightarrow> State_Monad.return (no_requeue, Some (errorf ''error during execution of reconcileOVNDBHealth'' e))
        | None \<Rightarrow>
           (if Conditions (Status config) \<noteq> Conditions (Status c) then do {
              err \<leftarrow> PatchConfigurationStatus E config c;
              State_Monad.return (case err of
                Some e \<Rightarrow> (no_requeue, Some e)
              | None \<Rightarrow> (\<lparr>RequeueAfter = seconds interval\<rparr>, None))
            }
            else State_Monad.return (\<lparr>RequeueAfter = seconds interval\<rparr>, None))
      }"
  using assms by (simp add: healthcheck_config_def)

text \<open>The clock is read first.\<close>

lemma health_appends:
  "emits (\<lambda>_. True) (podList E L label namespace)"
  "emits (\<lambda>_. True) (record_leader E t m m' pods c)"
  "emits (\<lambda>_. True) (record_health E L namespace script label t c)"
  using obeys_appends [OF podList_obeys] obeys_appends [OF record_leader_effect]
    obeys_appends [OF record_health_effect [where b = True]]
  by (simp_all only: appends_def if_True)

lemma hd_calls_reconcileOVNDBHealth: "hd (calls (reconcileOVNDBHealth E L namespace interval c) tr) = EvNow (clockNow E tr)"
  unfolding reconcileOVNDBHealth_def Now_def
  apply (subst calls_bind_call)
   apply (unfold appends_def)
   apply (intro emits_rules health_appends)
  apply simp
  done

text \<open>What a reconcile writes was stamped during the reconcile.\<close>

fun stamped_patch :: "trace \<Rightarrow> event \<Rightarrow> bool" where
  "stamped_patch evs (EvPatchConfigurationStatus new base r) \<longleftrightarrow> stamped new evs"
| "stamped_patch evs _ \<longleftrightarrow> True"

lemma health_call_not_patch: "health_call e \<Longrightarrow> stamped_patch evs e"
  by (cases e) auto

lemma healthcheck_config_stamps:
  "obeys (healthcheck_config E L namespace interval c) [] (\<lambda>r new. list_all (stamped_patch new) new)"
proof (cases "DeletionTimestamp (Meta c) = None \<and> StatusText (Status c) = ConfigurationStatusDeployed")
  case False
  then show ?thesis by (auto simp: healthcheck_config_def obeys_return)
next
  case True
  show ?thesis
    unfolding healthcheck_config_active [OF True [THEN conjunct1] True [THEN conjunct2]] PatchConfigurationStatus_def
    apply (rule obeys_bind, rule obeys_mono [OF obeys_conj [OF reconcileOVNDBHealth_obeys reconcileOVNDBHealth_stamps]])
    apply (intro obeys_rules)
      apply (auto simp: health_ok_def list_all_iff health_call_not_patch stamped_def)
    done
qed

text \<open>The clock is read first, and without need the check ends there.\<close>

lemma reconcileOVNDBHealth_early:
  assumes "\<not> checkNeeded interval c (clockNow E tr)"
  shows "run_state (reconcileOVNDBHealth E L namespace interval c) tr = ((None, c), tr @ [EvNow (clockNow E tr)])"
  using assms by (simp add: reconcileOVNDBHealth_def Now_def)

lemma healthcheck_config_early:
  assumes "DeletionTimestamp (Meta c) = None" and "StatusText (Status c) = ConfigurationStatusDeployed"
    and "\<not> checkNeeded interval c (clockNow E tr)"
  shows "run_state (healthcheck_config E L namespace interval c) tr =
    ((\<lparr>RequeueAfter = seconds interval\<rparr>, None), tr @ [EvNow (clockNow E tr)])"
  using assms by (simp add: healthcheck_config_active reconcileOVNDBHealth_early)

fun lists_pods :: "event \<Rightarrow> bool" where
  "lists_pods (EvListPods sel ns r) = True"
| "lists_pods _ = False"

lemma healthcheck_config_lists:
  "obeys (healthcheck_config E L namespace interval c) [] (\<lambda>r new. list_ex lists_pods new \<longrightarrow>
     (\<exists>now. EvNow now \<in> set new \<and> checkNeeded interval c now))"
proof (cases "DeletionTimestamp (Meta c) = None \<and> StatusText (Status c) = ConfigurationStatusDeployed")
  case False
  then show ?thesis by (auto simp: healthcheck_config_def obeys_return)
next
  case True
  show ?thesis
    unfolding healthcheck_config_active [OF True [THEN conjunct1] True [THEN conjunct2]] PatchConfigurationStatus_def
    apply (rule obeys_bind, rule obeys_mono [OF reconcileOVNDBHealth_stamps])
    apply (intro obeys_rules)
      apply auto
    done
qed

lemma healthcheck_config_runs_on:
  "obeys (healthcheck_config E L namespace interval c) [] (\<lambda>r new. list_all (runs_on L namespace SBLeaderLabel new) new)"
proof (cases "DeletionTimestamp (Meta c) = None \<and> StatusText (Status c) = ConfigurationStatusDeployed")
  case False
  then show ?thesis by (auto simp: healthcheck_config_def obeys_return)
next
  case True
  show ?thesis
    unfolding healthcheck_config_active [OF True [THEN conjunct1] True [THEN conjunct2]] PatchConfigurationStatus_def
    apply (rule obeys_bind, rule obeys_mono [OF reconcileOVNDBHealth_runs_on])
    apply (intro obeys_rules)
      apply ((erule runs_on_append, simp) | assumption | simp)+
    done
qed

text \<open>What a reconcile writes reports the pods it listed.\<close>

fun reported_patch :: "libs \<Rightarrow> string \<Rightarrow> trace \<Rightarrow> event \<Rightarrow> bool" where
  "reported_patch L namespace evs (EvPatchConfigurationStatus new base r) \<longleftrightarrow> leaders_reported L namespace base new evs"
| "reported_patch L namespace evs _ \<longleftrightarrow> True"

lemma health_call_reported: "health_call e \<Longrightarrow> reported_patch L namespace evs e"
  by (cases e) auto

lemma leaders_reported_append:
  "leaders_reported L namespace c c' evs \<Longrightarrow> leaders_reported L namespace c c' (evs @ evs')"
  unfolding leaders_reported_def filter_append by (elim exE conjE) (simp, blast)

lemma healthcheck_config_reports:
  "obeys (healthcheck_config E L namespace interval c) [] (\<lambda>r new. list_all (reported_patch L namespace new) new)"
proof (cases "DeletionTimestamp (Meta c) = None \<and> StatusText (Status c) = ConfigurationStatusDeployed")
  case False
  then show ?thesis by (auto simp: healthcheck_config_def obeys_return)
next
  case True
  show ?thesis
    unfolding healthcheck_config_active [OF True [THEN conjunct1] True [THEN conjunct2]] PatchConfigurationStatus_def
    apply (rule obeys_bind, rule obeys_mono [OF obeys_conj [OF reconcileOVNDBHealth_obeys reconcileOVNDBHealth_reports]])
    apply (intro obeys_rules)
      apply (auto simp: health_ok_def list_all_iff health_call_reported intro: leaders_reported_append)
    done
qed

lemma LookupCondition_cong: "Conditions (Status c) = Conditions (Status c') \<Longrightarrow> LookupCondition c t = LookupCondition c' t"
  by (simp add: LookupCondition_def)

lemma wrap64_id_iff: "wrap64 x = x \<longleftrightarrow> - (2 ^ 63) \<le> x \<and> x < 2 ^ 63"
proof
  assume "wrap64 x = x"
  then have "(x + 2 ^ 63) mod 2 ^ 64 = x + 2 ^ 63" by (simp add: wrap64_def)
  moreover have "0 \<le> (x + 2 ^ 63) mod 2 ^ 64" "(x + 2 ^ 63) mod 2 ^ 64 < (2 ^ 64 :: int)" by simp_all
  ultimately show "- (2 ^ 63) \<le> x \<and> x < 2 ^ 63" by simp
qed (simp add: wrap64_def)

lemma HealthReconcile_calls:
  assumes "apiGetConfiguration E tr req = Inr c"
  shows "calls (HealthReconcile E L namespace interval req) tr = EvGetConfiguration req (Inr c) #
      calls (healthcheck_config E L namespace interval c) (tr @ [EvGetConfiguration req (Inr c)])"
    and "result (HealthReconcile E L namespace interval req) tr =
      result (healthcheck_config E L namespace interval c) (tr @ [EvGetConfiguration req (Inr c)])"
  using assms unfolding HealthReconcile_fetch_then health.calls_fetch_then health.result_fetch_then by simp_all

lemma HealthReconcile_read:
  assumes "e \<in> set (calls (HealthReconcile E L namespace interval req) tr)"
    and "\<And>r. e \<noteq> EvGetConfiguration req r"
  obtains c where "apiGetConfiguration E tr req = Inr c"
    "e \<in> set (calls (healthcheck_config E L namespace interval c) (tr @ [EvGetConfiguration req (Inr c)]))"
  using assms unfolding HealthReconcile_fetch_then health.calls_fetch_then by (auto split: sum.splits)

section \<open>Properties\<close>

text \<open>Data for the witnesses: a deployed configuration, and a clock that always shows the same time.\<close>

definition demo_deployed :: Configuration where
  "demo_deployed = set_status zero_Configuration ConfigurationStatusDeployed"

definition demo_checked :: Configuration where
  "demo_checked = SetCondition demo_deployed OVNNBLeaderFound metav1_ConditionTrue ''found'' LeaderFound 0"

definition demo_health_env :: "Configuration \<Rightarrow> int \<Rightarrow> env" where
  "demo_health_env c now = ref_env\<lparr>apiGetConfiguration := (\<lambda>_ _. Inr c), apiListPods := (\<lambda>_ _ _. Inr [demo_pod]),
     clockNow := (\<lambda>_. now)\<rparr>"

definition demo_patched :: Configuration where
  "demo_patched = snd (result (reconcileOVNDBHealth (demo_health_env demo_deployed 0) ref_libs ''kube-system'' 60 demo_deployed) [])"

abbreviation demo_health :: "Configuration \<Rightarrow> int \<Rightarrow> (ctrl_Result \<times> goerror option) cio" where
  "demo_health c now \<equiv> HealthReconcile (demo_health_env c now) ref_libs ''kube-system'' 60 (''kube-system'', ''kubeovn'')"

text \<open>
  C14: besides reading the resource, the health check acts only on a live resource that is deployed, and
  all it does is read the clock, look up leader pods, run the two status commands in the
  \<^verbatim>\<open>ovn-central\<close> container, and patch the status; the patch differs from what was read in at most the
  four health conditions.
\<close>

theorem health_reconcile_only_permitted:
  assumes "e \<in> set (calls (HealthReconcile E L namespace interval req) tr)"
  shows "e = EvGetConfiguration req (apiGetConfiguration E tr req) \<or>
    (\<exists>c. apiGetConfiguration E tr req = Inr c \<and> health_permitted c e)"
  using assms unfolding HealthReconcile_fetch_then by (auto dest!: health.fetch_then_allowed split: sum.splits)

theorem health_reconcile_only_permitted_witness:
  "health_permitted demo_deployed (EvNewExecutor demo_pod None)"
proof -
  let ?cs = "calls (demo_health demo_deployed 0) []"
  have "List.member ?cs (EvNewExecutor demo_pod None)" by code_simp
  then have "EvNewExecutor demo_pod None \<in> set ?cs" by simp
  from health_reconcile_only_permitted [OF this] show ?thesis by (simp add: demo_health_env_def)
qed

text \<open>
  C23: within an interval of the last recorded check, a health reconcile does nothing but read the
  resource and the clock, and asks to be called again after the interval.
\<close>

theorem health_check_waits_for_the_interval:
  assumes "apiGetConfiguration E tr req = Inr c" and "DeletionTimestamp (Meta c) = None"
    and "StatusText (Status c) = ConfigurationStatusDeployed"
    and "tr1 = tr @ [EvGetConfiguration req (Inr c)]"
    and "clockNow E tr1 \<le> LastTransitionTime (LookupCondition c OVNNBLeaderFound) + seconds interval"
  shows "calls (HealthReconcile E L namespace interval req) tr = [EvGetConfiguration req (Inr c), EvNow (clockNow E tr1)] \<and>
    result (HealthReconcile E L namespace interval req) tr = (\<lparr>RequeueAfter = seconds interval\<rparr>, None)"
proof -
  have "\<not> checkNeeded interval c (clockNow E tr1)" using assms(5) by (simp add: checkNeeded_def)
  from healthcheck_config_early [OF assms(2,3) this] show ?thesis
    unfolding HealthReconcile_calls [OF assms(1)] using assms(4) by (simp add: calls_def result_def)
qed

theorem health_check_waits_for_the_interval_witness:
  "result (demo_health demo_checked 59000000000) [] = (\<lparr>RequeueAfter = 60000000000\<rparr>, None)"
proof -
  let ?E = "demo_health_env demo_checked 59000000000"
  have 1: "apiGetConfiguration ?E [] (''kube-system'', ''kubeovn'') = Inr demo_checked" by (simp add: demo_health_env_def)
  have 2: "DeletionTimestamp (Meta demo_checked) = None" "StatusText (Status demo_checked) = ConfigurationStatusDeployed"
    by code_simp+
  have 3: "clockNow ?E ([] @ [EvGetConfiguration (''kube-system'', ''kubeovn'') (Inr demo_checked)])
      \<le> LastTransitionTime (LookupCondition demo_checked OVNNBLeaderFound) + seconds 60"
    by code_simp
  from health_check_waits_for_the_interval [OF 1 2 refl 3] show ?thesis by (simp add: seconds_exact)
qed

text \<open>
  C22: checks are an interval apart. If one health reconcile wrote its conditions and another one, run by
  any controller at any time, reads these conditions and still looks for leaders, then the second one
  read a clock that is more than the interval past a time the first one read.
\<close>

theorem checks_are_an_interval_apart:
  assumes "EvPatchConfigurationStatus new base err \<in> set (calls (HealthReconcile E L namespace interval req) tr)"
    and "apiGetConfiguration E' tr' req' = Inr c'" and "Conditions (Status c') = Conditions (Status new)"
    and "EvListPods sel ns r \<in> set (calls (HealthReconcile E' L' namespace' interval req') tr')"
  shows "\<exists>t t'. EvNow t \<in> set (calls (HealthReconcile E L namespace interval req) tr) \<and>
    EvNow t' \<in> set (calls (HealthReconcile E' L' namespace' interval req') tr') \<and> t + seconds interval < t'"
proof -
  let ?t = "LastTransitionTime (LookupCondition new OVNNBLeaderFound)"
  obtain c where c: "apiGetConfiguration E tr req = Inr c"
      "EvPatchConfigurationStatus new base err \<in> set (calls (healthcheck_config E L namespace interval c) (tr @ [EvGetConfiguration req (Inr c)]))"
    using assms(1) by (rule HealthReconcile_read) simp
  from obeysD [OF healthcheck_config_stamps] c(2)
  have "EvNow ?t \<in> set (calls (healthcheck_config E L namespace interval c) (tr @ [EvGetConfiguration req (Inr c)]))"
    by (fastforce simp: list_all_iff stamped_def)
  then have first: "EvNow ?t \<in> set (calls (HealthReconcile E L namespace interval req) tr)"
    by (simp add: HealthReconcile_calls [OF c(1)])
  let ?cs = "calls (healthcheck_config E' L' namespace' interval c') (tr' @ [EvGetConfiguration req' (Inr c')])"
  from assms(4) have "EvListPods sel ns r \<in> set ?cs" by (simp add: HealthReconcile_calls [OF assms(2)])
  then have "list_ex lists_pods ?cs" by (auto simp: list_ex_iff intro!: bexI)
  with obeysD [OF healthcheck_config_lists] obtain t' where "EvNow t' \<in> set ?cs" "checkNeeded interval c' t'" by blast
  then have "EvNow t' \<in> set (calls (HealthReconcile E' L' namespace' interval req') tr')" "?t + seconds interval < t'"
    by (simp_all add: HealthReconcile_calls [OF assms(2)] checkNeeded_def LookupCondition_cong [OF assms(3)])
  with first show ?thesis by blast
qed

theorem checks_are_an_interval_apart_witness:
  "\<exists>t t'. EvNow t \<in> set (calls (demo_health demo_deployed 0) []) \<and>
     EvNow t' \<in> set (calls (demo_health demo_patched 61000000000) []) \<and> t + seconds 60 < t'"
proof -
  let ?e = "EvPatchConfigurationStatus demo_patched demo_deployed None"
  let ?l = "EvListPods NBLeaderLabel ''kube-system'' (Inr [demo_pod])"
  have "List.member (calls (demo_health demo_deployed 0) []) ?e" by code_simp
  then have 1: "?e \<in> set (calls (demo_health demo_deployed 0) [])" by simp
  have 2: "apiGetConfiguration (demo_health_env demo_patched 61000000000) [] (''kube-system'', ''kubeovn'') = Inr demo_patched"
    by (simp add: demo_health_env_def)
  have "List.member (calls (demo_health demo_patched 61000000000) []) ?l" by code_simp
  then have 3: "?l \<in> set (calls (demo_health demo_patched 61000000000) [])" by simp
  from checks_are_an_interval_apart [OF 1 2 refl 3] show ?thesis .
qed

text \<open>
  C37: both status commands, the northbound one too, run on the pod that carries the southbound leader
  label: every command of a health check runs in the \<^verbatim>\<open>ovn-central\<close> container of a pod that was the
  only one listed for that label during the check.
\<close>

theorem health_commands_run_on_southbound_leader:
  assumes "EvExec pod container cmd r \<in> set (calls (HealthReconcile E L namespace interval req) tr)"
  shows "container = OVNCentralContainerName \<and>
    cmd \<in> {[''/bin/sh'', ''-c'', NBCheckScript], [''/bin/sh'', ''-c'', SBCheckScript]} \<and>
    (\<exists>selector. libLabelsParse L SBLeaderLabel = Inr selector \<and>
       EvListPods selector namespace (Inr [pod]) \<in> set (calls (HealthReconcile E L namespace interval req) tr))"
proof -
  obtain c where c: "apiGetConfiguration E tr req = Inr c"
      "EvExec pod container cmd r \<in> set (calls (healthcheck_config E L namespace interval c) (tr @ [EvGetConfiguration req (Inr c)]))"
    using assms by (rule HealthReconcile_read) simp
  from emits_calls [OF healthcheck_config_permitted c(2)] have "health_call (EvExec pod container cmd r)"
    by (simp add: health_permitted_def)
  moreover from obeysD [OF healthcheck_config_runs_on] c(2)
  have "runs_on L namespace SBLeaderLabel (calls (healthcheck_config E L namespace interval c) (tr @ [EvGetConfiguration req (Inr c)]))
      (EvExec pod container cmd r)"
    by (fastforce simp: list_all_iff)
  ultimately show ?thesis by (auto simp: HealthReconcile_calls [OF c(1)])
qed

theorem health_commands_run_on_southbound_leader_witness:
  "\<exists>selector. libLabelsParse ref_libs SBLeaderLabel = Inr selector \<and>
     EvListPods selector ''kube-system'' (Inr [demo_pod]) \<in> set (calls (demo_health demo_deployed 0) [])"
proof -
  let ?e = "EvExec demo_pod ''ovn-central'' [''/bin/sh'', ''-c'', NBCheckScript] ('''', '''', None)"
  have "List.member (calls (demo_health demo_deployed 0) []) ?e" by code_simp
  then have "?e \<in> set (calls (demo_health demo_deployed 0) [])" by simp
  from health_commands_run_on_southbound_leader [OF this] show ?thesis by simp
qed

text \<open>
  C24: the leader conditions tell what was found. Before a health check writes a status, it listed the
  pods with the northbound leader label and then those with the southbound one, as the first two listings
  of the run; each leader condition is true exactly if the listing of its label had a pod, and where it
  had none the health condition of that database is left as it was read.
\<close>

theorem leader_conditions_tell_the_truth:
  assumes "EvPatchConfigurationStatus new base r \<in> set (calls (HealthReconcile E L namespace interval req) tr)"
  shows "leaders_reported L namespace base new (calls (HealthReconcile E L namespace interval req) tr)"
proof -
  obtain c where c: "apiGetConfiguration E tr req = Inr c"
      "EvPatchConfigurationStatus new base r \<in> set (calls (healthcheck_config E L namespace interval c) (tr @ [EvGetConfiguration req (Inr c)]))"
    using assms by (rule HealthReconcile_read) simp
  from obeysD [OF healthcheck_config_reports] c(2)
  have "leaders_reported L namespace base new
      (calls (healthcheck_config E L namespace interval c) (tr @ [EvGetConfiguration req (Inr c)]))"
    by (fastforce simp: list_all_iff)
  then show ?thesis unfolding HealthReconcile_calls [OF c(1)] leaders_reported_def by simp
qed

theorem leader_conditions_tell_the_truth_witness:
  "leaders_reported ref_libs ''kube-system'' demo_deployed demo_patched (calls (demo_health demo_deployed 0) [])"
proof -
  let ?e = "EvPatchConfigurationStatus demo_patched demo_deployed None"
  have "List.member (calls (demo_health demo_deployed 0) []) ?e" by code_simp
  then have "?e \<in> set (calls (demo_health demo_deployed 0) [])" by simp
  from leader_conditions_tell_the_truth [OF this] show ?thesis .
qed

text \<open>
  C25: in a cluster whose leaders answer, a check that is due ends without an error, with all four health
  conditions true in the status it writes.
\<close>

theorem healthy_cluster_is_reported_healthy:
  assumes "leaders_up E L" and "checkNeeded interval c (clockNow E tr)"
  shows "\<exists>c'. result (reconcileOVNDBHealth E L namespace interval c) tr = (None, c') \<and>
    ConditionTrue c' OVNNBLeaderFound \<and> ConditionTrue c' OVNSBLeaderFound \<and>
    ConditionTrue c' OVNNBDBHealth \<and> ConditionTrue c' OVNSBDBHealth"
proof -
  let ?m = "reconcileOVNDBHealth E L namespace interval c"
  from obeysD [OF reconcileOVNDBHealth_up [OF assms(1)], of namespace interval c tr]
    hd_calls_reconcileOVNDBHealth [of E L namespace interval c tr] assms(2)
  have "fst (result ?m tr) = None" "list_all (ConditionTrue (snd (result ?m tr))) health_conditions" by auto
  then show ?thesis by (intro exI [of _ "snd (result ?m tr)"]) (simp add: health_conditions_def prod_eq_iff)
qed

theorem healthy_cluster_is_reported_healthy_witness:
  "\<exists>c'. result (reconcileOVNDBHealth (demo_health_env demo_deployed 0) ref_libs ''kube-system'' 60 demo_deployed) [] = (None, c') \<and>
     ConditionTrue c' OVNNBDBHealth"
proof -
  let ?E = "demo_health_env demo_deployed 0"
  have 1: "leaders_up ?E ref_libs" by (simp add: leaders_up_def demo_health_env_def ref_env_def ref_libs_def)
  have 2: "checkNeeded 60 demo_deployed (clockNow ?E [])" by code_simp
  from healthy_cluster_is_reported_healthy [OF 1 2] show ?thesis by blast
qed

text \<open>
  an interval of \<open>n\<close> seconds is kept exactly by Go's 64-bit count of nanoseconds if and only if it
  is at most 9223372036 seconds long; a longer one wraps around.
\<close>

theorem seconds_exact_iff: "seconds n = n * 1000000000 \<longleftrightarrow> \<bar>n\<bar> \<le> 9223372036"
  unfolding seconds_def wrap64_id_iff by auto

text \<open>
  the health check recurs: a health reconcile of a live, deployed resource either returns an error,
  which makes the controller retry, or asks to be called again after the interval.
\<close>

theorem health_check_recurs:
  assumes "apiGetConfiguration E tr req = Inr c" and "DeletionTimestamp (Meta c) = None"
    and "StatusText (Status c) = ConfigurationStatusDeployed"
  shows "snd (result (HealthReconcile E L namespace interval req) tr) \<noteq> None \<or>
    result (HealthReconcile E L namespace interval req) tr = (\<lparr>RequeueAfter = seconds interval\<rparr>, None)"
  unfolding HealthReconcile_calls [OF assms(1)] healthcheck_config_active [OF assms(2,3)]
  by (auto simp: result_bind split: prod.split option.split)

theorem health_check_recurs_witness:
  "snd (result (demo_health demo_deployed 0) []) \<noteq> None \<or>
   result (demo_health demo_deployed 0) [] = (\<lparr>RequeueAfter = seconds 60\<rparr>, None)"
proof -
  have 1: "apiGetConfiguration (demo_health_env demo_deployed 0) [] (''kube-system'', ''kubeovn'') = Inr demo_deployed"
    by (simp add: demo_health_env_def)
  have 2: "DeletionTimestamp (Meta demo_deployed) = None" "StatusText (Status demo_deployed) = ConfigurationStatusDeployed"
    by code_simp+
  from health_check_recurs [OF 1 2] show ?thesis .
qed

end
