(* ===== verification/Bootstrap.thy ===== *)
theory Bootstrap
  imports Cluster
begin

text \<open>
  \<^verbatim>\<open>internal/bootstrap/configuration.go\<close>: when the manager starts, and there is no
  \<^verbatim>\<open>Configuration\<close> yet, one is created from a \<^verbatim>\<open>ConfigMap\<close>. The retry loop is
  \<^verbatim>\<open>wait.ExponentialBackoffWithContext\<close> of a library, the parameter \<open>backoffWithContext\<close>; its
  documented behaviour is \<open>backoff_laws\<close>.
\<close>

definition BootstrapConfigMapName :: string where "BootstrapConfigMapName = ''kubeovn-configuration-bootstrap''"
definition ConfigMapDataKey :: string where "ConfigMapDataKey = ''configuration.yaml''"

text \<open>\<^verbatim>\<open>wait.Backoff\<close>; durations are nanoseconds, the factor and the jitter are tenths.\<close>

record wait_Backoff =
  Steps :: nat
  Duration :: int
  Factor :: int
  Jitter :: int

type_synonym condition_func = "(goerror + bool) cio"
type_synonym backoff_func = "wait_Backoff \<Rightarrow> condition_func \<Rightarrow> (goerror option) cio"

text \<open>Up to \<open>n\<close> attempts: stop at the first that is done or fails, and fail with \<open>timeout\<close> otherwise.\<close>

fun attempts :: "goerror \<Rightarrow> nat \<Rightarrow> condition_func \<Rightarrow> (goerror option) cio" where
  "attempts timeout 0 condition = State_Monad.return (Some timeout)"
| "attempts timeout (Suc n) condition = do {
     r \<leftarrow> condition;
     case r of
       Inl err \<Rightarrow> State_Monad.return (Some err)
     | Inr finished \<Rightarrow> (if finished then State_Monad.return None else attempts timeout n condition)
   }"

text \<open>
  The documented behaviour: at most \<open>Steps\<close> attempts. The context can be cancelled before any of
  them, in which case fewer are made.
\<close>

definition backoff_laws :: "backoff_func \<Rightarrow> bool" where
  "backoff_laws backoffWithContext \<longleftrightarrow>
     (\<forall>b condition tr. \<exists>n \<le> Steps b. \<exists>timeout.
        run_state (backoffWithContext b condition) tr = run_state (attempts timeout n condition) tr)"

definition ref_backoff :: backoff_func where
  "ref_backoff b condition = attempts (EMsg ''timed out waiting for the condition'') (Steps b) condition"

section \<open>The bootstrapper\<close>

definition create_attempt :: "env \<Rightarrow> Configuration \<Rightarrow> condition_func" where
  "create_attempt E config = do {
     err \<leftarrow> CreateConfiguration E config;
     State_Monad.return (case err of
       None \<Rightarrow> Inr True
     | Some e \<Rightarrow> if IsAlreadyExists e then Inr True else Inr False)
   }"

definition createConfigurationWithRetry :: "env \<Rightarrow> backoff_func \<Rightarrow> Configuration \<Rightarrow> (goerror option) cio" where
  "createConfigurationWithRetry E backoffWithContext config =
     backoffWithContext \<lparr>Steps = 6, Duration = 1000000000, Factor = 20, Jitter = 1\<rparr> (create_attempt E config)"

text \<open>The object built from the parsed specification.\<close>

definition default_configuration :: "string \<Rightarrow> ConfigurationSpec \<Rightarrow> Configuration" where
  "default_configuration namespace spec =
     \<lparr>Meta = \<lparr>Name = DefaultConfigurationName, Namespace = namespace, Generation = 0, DeletionTimestamp = None,
              Finalizers = [], OwnerReferences = []\<rparr>,
      Spec = spec, Status = zero_ConfigurationStatus\<rparr>"

definition loadAndApplyDefaultConfiguration ::
    "env \<Rightarrow> libs \<Rightarrow> backoff_func \<Rightarrow> string \<Rightarrow> (goerror option) cio" where
  "loadAndApplyDefaultConfiguration E L backoffWithContext namespace = do {
     r \<leftarrow> GetConfiguration E (namespace, DefaultConfigurationName);
     case r of
       Inr existingConfig \<Rightarrow> State_Monad.return None
     | Inl err \<Rightarrow>
        (if \<not> IsNotFound err
         then State_Monad.return (Some (errorf ''error checking for existing Configuration'' err))
         else do {
           m \<leftarrow> GetConfigMap E (namespace, BootstrapConfigMapName);
           case m of
             Inl err \<Rightarrow> State_Monad.return None
           | Inr data \<Rightarrow>
              (case map_of data ConfigMapDataKey of
                 None \<Rightarrow> State_Monad.return None
               | Some specData \<Rightarrow>
                  (case libYamlSpec L specData of
                     Inl err \<Rightarrow> State_Monad.return None
                   | Inr spec \<Rightarrow> do {
                       err \<leftarrow> createConfigurationWithRetry E backoffWithContext
                                (default_configuration namespace spec);
                       State_Monad.return None
                     }))
         })
   }"

definition BootstrapStart :: "env \<Rightarrow> libs \<Rightarrow> backoff_func \<Rightarrow> string \<Rightarrow> (goerror option) cio" where
  "BootstrapStart E L backoffWithContext namespace = do {
     err \<leftarrow> loadAndApplyDefaultConfiguration E L backoffWithContext namespace;
     State_Monad.return None
   }"

definition NeedLeaderElection :: bool where "NeedLeaderElection = True"

section \<open>Specification\<close>

fun create_of :: "Configuration \<Rightarrow> event \<Rightarrow> bool" where
  "create_of c (EvCreateConfiguration c' r) \<longleftrightarrow> c' = c"
| "create_of c _ \<longleftrightarrow> False"

text \<open>The API server has the object afterwards: it was created, or someone else created it.\<close>

fun settled :: "Configuration \<Rightarrow> event \<Rightarrow> bool" where
  "settled c (EvCreateConfiguration c' r) \<longleftrightarrow> c' = c \<and> (r = None \<or> r = Some (EApi AlreadyExists))"
| "settled c _ \<longleftrightarrow> False"

text \<open>Attempts of which only the last can have settled the matter.\<close>

definition retry_record :: "nat \<Rightarrow> Configuration \<Rightarrow> trace \<Rightarrow> bool" where
  "retry_record n c evs \<longleftrightarrow> length evs \<le> n \<and> list_all (create_of c) evs \<and> list_all (\<lambda>e. \<not> settled c e) (butlast evs)"

text \<open>The specification the bootstrapper would create, if the answers it gets lead to one.\<close>

definition bootstrap_spec :: "libs \<Rightarrow> goerror + Configuration \<Rightarrow> goerror + (string \<times> string) list \<Rightarrow> ConfigurationSpec option" where
  "bootstrap_spec L found configMap =
     (case found of
        Inl (EApi NotFound) \<Rightarrow>
          (case configMap of
             Inr data \<Rightarrow>
               (case map_of data ConfigMapDataKey of
                  Some text \<Rightarrow> (case libYamlSpec L text of Inr spec \<Rightarrow> Some spec | Inl e \<Rightarrow> None)
                | None \<Rightarrow> None)
           | Inl e \<Rightarrow> None)
      | _ \<Rightarrow> None)"

text \<open>The retry loop makes all its attempts: the context is not cancelled.\<close>

definition never_cancelled :: "backoff_func \<Rightarrow> bool" where
  "never_cancelled backoffWithContext \<longleftrightarrow>
     (\<forall>b condition tr. \<exists>timeout.
        run_state (backoffWithContext b condition) tr = run_state (attempts timeout (Steps b) condition) tr)"

definition failed_creates :: "Configuration \<Rightarrow> trace \<Rightarrow> nat" where
  "failed_creates c tr = length (filter (\<lambda>e. create_of c e \<and> \<not> settled c e) tr)"

section \<open>Lemmas\<close>

lemma ref_backoff_laws: "backoff_laws ref_backoff" "never_cancelled ref_backoff"
  by (auto simp: backoff_laws_def never_cancelled_def ref_backoff_def)

lemma retry_record_Cons:
  "create_of c e \<Longrightarrow> \<not> settled c e \<Longrightarrow> retry_record n c evs \<Longrightarrow> retry_record (Suc n) c (e # evs)"
  by (auto simp: retry_record_def)

lemma attempts_record:
  "obeys (attempts timeout n (create_attempt E c)) [] (\<lambda>r new. retry_record n c new \<and>
     (r = None \<longleftrightarrow> new \<noteq> [] \<and> settled c (last new)))"
proof (induction n)
  case 0
  show ?case by (auto simp: retry_record_def intro: obeys_return)
next
  case (Suc n)
  show ?case
    unfolding attempts.simps create_attempt_def CreateConfiguration_def
    apply (intro obeys_rules)
      apply (simp split: option.splits if_splits)
     apply (auto simp: retry_record_def IsAlreadyExists_def split: option.splits if_splits) [1]
    apply (rule obeys_frame [OF Suc.IH [unfolded create_attempt_def CreateConfiguration_def]])
    apply (auto simp: IsAlreadyExists_def retry_record_Cons split: option.splits if_splits)
    done
qed

lemma backoff_run:
  assumes "backoff_laws W"
  obtains n timeout where "n \<le> Steps b" "run_state (W b condition) tr = run_state (attempts timeout n condition) tr"
  using assms unfolding backoff_laws_def by metis

lemma createConfigurationWithRetry_record:
  assumes "backoff_laws W"
  shows "obeys (createConfigurationWithRetry E W c) [] (\<lambda>r new. retry_record 6 c new \<and>
     (r = None \<longrightarrow> new \<noteq> [] \<and> settled c (last new)))"
  unfolding obeys_def createConfigurationWithRetry_def
proof
  fix tr
  let ?b = "\<lparr>Steps = 6, Duration = 1000000000, Factor = 20, Jitter = 1\<rparr> :: wait_Backoff"
  obtain n timeout where n: "n \<le> 6" and
      run: "run_state (W ?b (create_attempt E c)) tr = run_state (attempts timeout n (create_attempt E c)) tr"
    using backoff_run [OF assms, of ?b "create_attempt E c" tr] by auto
  from attempts_record [of timeout n E c] obtain new where
    "snd (run_state (attempts timeout n (create_attempt E c)) tr) = tr @ new"
    "retry_record n c new"
    "fst (run_state (attempts timeout n (create_attempt E c)) tr) = None \<longrightarrow> new \<noteq> [] \<and> settled c (last new)"
    unfolding obeys_def by (metis append_Nil)
  with n run show "\<exists>new. snd (run_state (W ?b (create_attempt E c)) tr) = tr @ new \<and>
      retry_record 6 c ([] @ new) \<and>
      (fst (run_state (W ?b (create_attempt E c)) tr) = None \<longrightarrow> [] @ new \<noteq> [] \<and> settled c (last ([] @ new)))"
    by (intro exI [of _ new]) (auto simp: retry_record_def)
qed

text \<open>If the sixth attempt at the latest is accepted, the loop ends well.\<close>

lemma attempts_accepted:
  assumes "\<And>tr. 5 \<le> failed_creates c tr \<Longrightarrow> settled c (EvCreateConfiguration c (apiCreateConfiguration E tr c))"
  shows "6 \<le> failed_creates c tr + n \<Longrightarrow> 0 < n \<Longrightarrow>
    fst (run_state (attempts timeout n (create_attempt E c)) tr) = None"
proof (induction n arbitrary: tr)
  case (Suc n)
  let ?r = "apiCreateConfiguration E tr c"
  let ?e = "EvCreateConfiguration c ?r"
  show ?case
  proof (cases "settled c ?e")
    case True
    then show ?thesis by (auto simp: create_attempt_def CreateConfiguration_def)
  next
    case False
    with assms [of tr] have "failed_creates c tr < 5" by fastforce
    moreover from False have "failed_creates c (tr @ [?e]) = Suc (failed_creates c tr)"
      by (simp add: failed_creates_def)
    ultimately have "fst (run_state (attempts timeout n (create_attempt E c)) (tr @ [?e])) = None"
      using Suc.prems by (intro Suc.IH) auto
    with False show ?thesis
      by (auto simp: create_attempt_def CreateConfiguration_def IsAlreadyExists_def split: option.split)
  qed
qed simp

lemma createConfigurationWithRetry_appends: "backoff_laws W \<Longrightarrow> appends (createConfigurationWithRetry E W c)"
  by (rule obeys_appends [OF createConfigurationWithRetry_record])

lemma never_cancelled_laws: "never_cancelled W \<Longrightarrow> backoff_laws W"
  unfolding never_cancelled_def backoff_laws_def by (meson order_refl)

lemma createConfigurationWithRetry_accepted:
  assumes "never_cancelled W"
    and "\<And>tr. 5 \<le> failed_creates c tr \<Longrightarrow> settled c (EvCreateConfiguration c (apiCreateConfiguration E tr c))"
  shows "calls (createConfigurationWithRetry E W c) tr \<noteq> [] \<and> settled c (last (calls (createConfigurationWithRetry E W c) tr))"
proof -
  let ?b = "\<lparr>Steps = 6, Duration = 1000000000, Factor = 20, Jitter = 1\<rparr> :: wait_Backoff"
  obtain timeout where "run_state (W ?b (create_attempt E c)) tr = run_state (attempts timeout 6 (create_attempt E c)) tr"
    using assms(1) unfolding never_cancelled_def by (metis wait_Backoff.select_convs(1))
  with attempts_accepted [OF assms(2), where tr = tr and n = 6 and timeout = timeout]
  have "result (createConfigurationWithRetry E W c) tr = None"
    by (simp add: createConfigurationWithRetry_def result_def)
  with obeysD [OF createConfigurationWithRetry_record [OF never_cancelled_laws [OF assms(1)]]] show ?thesis by blast
qed

text \<open>The whole run, by the answers to the two reads.\<close>

lemma bootstrap_run:
  assumes "backoff_laws W" and "found = apiGetConfiguration E tr (namespace, DefaultConfigurationName)"
    and "tr1 = tr @ [EvGetConfiguration (namespace, DefaultConfigurationName) found]"
    and "configMap = apiGetConfigMap E tr1 (namespace, BootstrapConfigMapName)"
    and "tr2 = tr1 @ [EvGetConfigMap (namespace, BootstrapConfigMapName) configMap]"
  shows "calls (BootstrapStart E L W namespace) tr =
      EvGetConfiguration (namespace, DefaultConfigurationName) found #
      (if found = Inl (EApi NotFound) then [EvGetConfigMap (namespace, BootstrapConfigMapName) configMap] else []) @
      (case bootstrap_spec L found configMap of
         None \<Rightarrow> []
       | Some spec \<Rightarrow> calls (createConfigurationWithRetry E W (default_configuration namespace spec)) tr2)"
proof -
  have run: "run_state (createConfigurationWithRetry E W c) t =
      (result (createConfigurationWithRetry E W c) t, t @ calls (createConfigurationWithRetry E W c) t)" for c t
    using obeys_history [OF createConfigurationWithRetry_record [OF assms(1)]] by (simp add: result_def prod_eq_iff)
  have "snd (run_state (BootstrapStart E L W namespace) tr) = tr @
      EvGetConfiguration (namespace, DefaultConfigurationName) found #
      (if found = Inl (EApi NotFound) then [EvGetConfigMap (namespace, BootstrapConfigMapName) configMap] else []) @
      (case bootstrap_spec L found configMap of
         None \<Rightarrow> []
       | Some spec \<Rightarrow> calls (createConfigurationWithRetry E W (default_configuration namespace spec)) tr2)"
    unfolding BootstrapStart_def loadAndApplyDefaultConfiguration_def GetConfiguration_def GetConfigMap_def
    using assms(2-5)
    by (auto simp: run bootstrap_spec_def IsNotFound_def split: sum.split option.split goerror.split api_error.split)
  then show ?thesis by (simp add: calls_def [of "BootstrapStart E L W namespace"])
qed

section \<open>Properties\<close>

text \<open>Data for the witnesses: a bootstrap specification, and a server that rejects the first request.\<close>

definition demo_boot_libs :: libs where
  "demo_boot_libs = ref_libs\<lparr>libYamlSpec := (\<lambda>s. Inr zero_ConfigurationSpec)\<rparr>"

definition demo_boot_env :: env where
  "demo_boot_env = ref_env\<lparr>
     apiGetConfigMap := (\<lambda>_ _. Inr [(ConfigMapDataKey, ''masterNodesLabel: x'')]),
     apiCreateConfiguration := (\<lambda>tr c. if failed_creates c tr = 0 then Some (EApi (OtherApi ''no endpoints'')) else None)\<rparr>"

text \<open>
  C33: the bootstrapper first asks for the default resource and, only if the answer is that there is
  none, for the \<^verbatim>\<open>ConfigMap\<close>. It creates something only if the map holds a specification that parses,
  and then nothing but the resource of the default name in the operator's namespace with that
  specification, in at most six attempts that stop at the first one after which the resource exists.
  Its start never fails.
\<close>

theorem bootstrap_creates_only_the_default:
  assumes "backoff_laws W" and "found = apiGetConfiguration E tr (namespace, DefaultConfigurationName)"
    and "configMap = apiGetConfigMap E (tr @ [EvGetConfiguration (namespace, DefaultConfigurationName) found])
           (namespace, BootstrapConfigMapName)"
  shows "\<exists>creates. calls (BootstrapStart E L W namespace) tr =
      EvGetConfiguration (namespace, DefaultConfigurationName) found #
      (if found = Inl (EApi NotFound) then [EvGetConfigMap (namespace, BootstrapConfigMapName) configMap] else []) @ creates \<and>
    (case bootstrap_spec L found configMap of
       None \<Rightarrow> creates = []
     | Some spec \<Rightarrow> retry_record 6 (default_configuration namespace spec) creates) \<and>
    result (BootstrapStart E L W namespace) tr = None"
proof -
  have "retry_record 6 c (calls (createConfigurationWithRetry E W c) t)" for c t
    using obeysD [OF createConfigurationWithRetry_record [OF assms(1)]] by blast
  then show ?thesis
    unfolding bootstrap_run [OF assms(1,2) refl assms(3) refl]
    by (auto simp: BootstrapStart_def split: option.split)
qed

theorem bootstrap_creates_only_the_default_witness:
  "\<exists>creates. calls (BootstrapStart demo_boot_env demo_boot_libs ref_backoff ''kube-system'') [] =
      [EvGetConfiguration (''kube-system'', DefaultConfigurationName) (Inl (EApi NotFound)),
       EvGetConfigMap (''kube-system'', BootstrapConfigMapName) (Inr [(ConfigMapDataKey, ''masterNodesLabel: x'')])] @ creates \<and>
    retry_record 6 (default_configuration ''kube-system'' zero_ConfigurationSpec) creates"
  using bootstrap_creates_only_the_default [OF ref_backoff_laws(1) refl refl,
      where E = demo_boot_env and tr = "[]" and namespace = "''kube-system''" and L = demo_boot_libs]
  by (auto simp: demo_boot_env_def demo_boot_libs_def ref_env_def bootstrap_spec_def)

text \<open>
  C34: the bootstrapper gets the resource created: when the \<^verbatim>\<open>ConfigMap\<close> holds a specification that
  parses, the retry loop is not cancelled and the API server accepts the creation after at most five
  failures, or finds the resource there, the last call is that creation.
\<close>

theorem bootstrap_gets_the_default_created:
  assumes "never_cancelled W" and "found = apiGetConfiguration E tr (namespace, DefaultConfigurationName)"
    and "configMap = apiGetConfigMap E (tr @ [EvGetConfiguration (namespace, DefaultConfigurationName) found])
           (namespace, BootstrapConfigMapName)"
    and "bootstrap_spec L found configMap = Some spec" and "c = default_configuration namespace spec"
    and "\<And>tr. 5 \<le> failed_creates c tr \<Longrightarrow> settled c (EvCreateConfiguration c (apiCreateConfiguration E tr c))"
  shows "settled c (last (calls (BootstrapStart E L W namespace) tr))"
  using createConfigurationWithRetry_accepted [OF assms(1,6)]
  unfolding bootstrap_run [OF never_cancelled_laws [OF assms(1)] assms(2) refl assms(3) refl]
  by (simp add: assms(4,5))

theorem bootstrap_gets_the_default_created_witness:
  "settled (default_configuration ''kube-system'' zero_ConfigurationSpec)
     (last (calls (BootstrapStart demo_boot_env demo_boot_libs ref_backoff ''kube-system'') []))"
proof -
  let ?c = "default_configuration ''kube-system'' zero_ConfigurationSpec"
  have 1: "bootstrap_spec demo_boot_libs (apiGetConfiguration demo_boot_env [] (''kube-system'', DefaultConfigurationName))
      (apiGetConfigMap demo_boot_env ([] @ [EvGetConfiguration (''kube-system'', DefaultConfigurationName)
        (apiGetConfiguration demo_boot_env [] (''kube-system'', DefaultConfigurationName))])
        (''kube-system'', BootstrapConfigMapName)) = Some zero_ConfigurationSpec"
    by (simp add: demo_boot_env_def demo_boot_libs_def ref_env_def bootstrap_spec_def)
  have 2: "settled ?c (EvCreateConfiguration ?c (apiCreateConfiguration demo_boot_env tr ?c))"
    if "5 \<le> failed_creates ?c tr" for tr
    using that by (simp add: demo_boot_env_def)
  from bootstrap_gets_the_default_created [OF ref_backoff_laws(2) refl refl 1 refl 2] show ?thesis .
qed

end
