(* ===== verification/Operator.thy ===== *)
theory Operator
  imports Config_Properties Health_Properties Bootstrap
begin

text \<open>
  The operator as a whole: the three reconcilers and the bootstrapper run beside each other, each one
  call at a time, and their calls interleave in any order. The theory has the transition system of
  such interleavings, the rule that a discipline kept by every run holds in every reachable history,
  and the discipline of this operator: every write is justified by what was read before.
\<close>

section \<open>Interleavings\<close>

text \<open>
  A controller has a queue of the calls its current run is still going to make; a new run begins when
  the queue is empty. \<open>runs c\<close> are the sequences of calls that a run of the controller \<open>c\<close> can make.
\<close>

inductive interleaved :: "('c \<Rightarrow> 'e list \<Rightarrow> bool) \<Rightarrow> 'e list \<Rightarrow> ('c \<Rightarrow> 'e list) \<Rightarrow> bool" for runs where
  idle: "interleaved runs [] (\<lambda>_. [])"
| start_run: "interleaved runs h p \<Longrightarrow> p c = [] \<Longrightarrow> runs c new \<Longrightarrow> interleaved runs h (p(c := new))"
| next_call: "interleaved runs h p \<Longrightarrow> p c = e # es \<Longrightarrow> interleaved runs (h @ [e]) (p(c := es))"

text \<open>Every call is justified by the calls before it.\<close>

fun guarded :: "('e \<Rightarrow> 'e set \<Rightarrow> bool) \<Rightarrow> 'e set \<Rightarrow> 'e list \<Rightarrow> bool" where
  "guarded g S [] \<longleftrightarrow> True"
| "guarded g S (e # es) \<longleftrightarrow> g e S \<and> guarded g (insert e S) es"

lemma guarded_append: "guarded g S (xs @ ys) \<longleftrightarrow> guarded g S xs \<and> guarded g (S \<union> set xs) ys"
  by (induction xs arbitrary: S) auto

locale discipline =
  fixes runs :: "'c \<Rightarrow> 'e list \<Rightarrow> bool"
    and g :: "'e \<Rightarrow> 'e set \<Rightarrow> bool"
  assumes guard_mono: "g e S \<Longrightarrow> S \<subseteq> T \<Longrightarrow> g e T"
    and runs_guarded: "runs c new \<Longrightarrow> guarded g {} new"
begin

lemma guarded_mono: "guarded g S es \<Longrightarrow> S \<subseteq> T \<Longrightarrow> guarded g T es"
proof (induction es arbitrary: S T)
  case (Cons e es)
  moreover have "insert e S \<subseteq> insert e T" using Cons.prems(2) by blast
  ultimately show ?case using guard_mono by (metis guarded.simps(2))
qed simp

lemma interleaved_guarded:
  assumes "interleaved runs h p"
  shows "guarded g {} h \<and> (\<forall>c. guarded g (set h) (p c))"
  using assms
proof induction
  case (start_run h p c new)
  then show ?case using guarded_mono [OF runs_guarded] by auto
next
  case (next_call h p c e es)
  then have "g e (set h)" "guarded g (insert e (set h)) es" by (metis guarded.simps(2))+
  moreover have "guarded g (insert e (set h)) (p c')" for c'
    using next_call.IH guarded_mono by blast
  ultimately show ?case using next_call.IH by (auto simp: guarded_append)
qed simp

lemma history_justified:
  assumes "interleaved runs (xs @ e # ys) p"
  shows "g e (set xs)"
  using interleaved_guarded [OF assms] by (simp add: guarded_append)

end

section \<open>The operator\<close>

datatype controller = ConfigurationController | NodeController | HealthCheckController | ConfigurationBootstrapper

record operator =
  opLibs :: libs
  opNamespace :: string
  opVersion :: string
  opInterval :: int
  opCRDs :: "tok list list"

text \<open>
  The runs of the operator's controllers. The environment is any: the answers of a run may depend on
  whatever the other controllers and other clients have done in the meantime.
\<close>

fun operator_runs :: "operator \<Rightarrow> controller \<Rightarrow> trace \<Rightarrow> bool" where
  "operator_runs op ConfigurationController new \<longleftrightarrow> (\<exists>E order req tr. map_iteration (opCRDs op) order \<and>
     new = calls (ConfigurationReconcile E (opLibs op) (opNamespace op) (opVersion op) (opCRDs op) order req) tr)"
| "operator_runs op NodeController new \<longleftrightarrow>
     (\<exists>E req tr. new = calls (NodeReconcile E (opLibs op) (opNamespace op) req) tr)"
| "operator_runs op HealthCheckController new \<longleftrightarrow>
     (\<exists>E req tr. new = calls (HealthReconcile E (opLibs op) (opNamespace op) (opInterval op) req) tr)"
| "operator_runs op ConfigurationBootstrapper new \<longleftrightarrow>
     (\<exists>E backoffWithContext tr. backoff_laws backoffWithContext \<and>
        new = calls (BootstrapStart E (opLibs op) backoffWithContext (opNamespace op)) tr)"

definition configuration_read :: "Configuration \<Rightarrow> event set \<Rightarrow> bool" where
  "configuration_read c S \<longleftrightarrow> (\<exists>nn. EvGetConfiguration nn (Inr c) \<in> S)"

text \<open>A live configuration with the operator's finalizer, and one that is being deleted.\<close>

definition installing :: "operator \<Rightarrow> event set \<Rightarrow> bool" where
  "installing op S \<longleftrightarrow> (\<exists>c. configuration_read c S \<and> DeletionTimestamp (Meta c) = None \<and>
     libContainsFinalizer (opLibs op) (Finalizers (Meta c)) KubeOVNConfigurationFinalizer)"

definition uninstalling :: "event set \<Rightarrow> bool" where
  "uninstalling S \<longleftrightarrow> (\<exists>c. configuration_read c S \<and> DeletionTimestamp (Meta c) \<noteq> None)"

text \<open>
  What justifies a write. Reads and commands need no justification.
\<close>

fun justified :: "operator \<Rightarrow> event \<Rightarrow> event set \<Rightarrow> bool" where
  "justified op (EvPatchConfigurationStatus new base r) S \<longleftrightarrow>
     configuration_read base S \<and> same_object base new \<and> (conditions_distinct base \<longrightarrow> conditions_distinct new)"
| "justified op (EvPatchConfiguration new base r) S \<longleftrightarrow>
     (\<exists>c. configuration_read c S \<and> same_object c base) \<and>
     (\<exists>change \<in> {libAddFinalizer (opLibs op), libRemoveFinalizer (opLibs op)}.
        new = set_finalizers base (change (Finalizers (Meta base)) KubeOVNConfigurationFinalizer))"
| "justified op (EvPatchNode new base r) S \<longleftrightarrow>
     ((\<exists>n. EvGetNode n (Inr base) \<in> S) \<or> (\<exists>ls nodes. EvListNodes ls (Inr nodes) \<in> S \<and> base \<in> set nodes)) \<and>
     (\<exists>change \<in> {libAddFinalizer (opLibs op), libRemoveFinalizer (opLibs op)}.
        new = set_node_finalizers base (change (Finalizers (NodeMeta base)) KubeOVNNodeFinalizer)) \<or>
     base = zero_Node \<and> (\<exists>n err. EvGetNode n (Inl err) \<in> S \<and> \<not> IsNotFound err) \<and>
        new = set_node_finalizers base (libAddFinalizer (opLibs op) (Finalizers (NodeMeta base)) KubeOVNNodeFinalizer)"
| "justified op (EvApply ob r) S \<longleftrightarrow> installing op S"
| "justified op (EvCreateNamespace n r) S \<longleftrightarrow> n = KubeOVNFakeNamespace \<and> installing op S"
| "justified op (EvDeleteNamespace n r) S \<longleftrightarrow> n = KubeOVNFakeNamespace \<and> uninstalling S"
| "justified op (EvDeleteDynamic gvr ns n r) S \<longleftrightarrow> uninstalling S \<and>
     (\<exists>items. EvListDynamic gvr (Inr items) \<in> S \<and> (\<exists>item \<in> set items. DynName item = n \<and> DynDeletionTimestamp item = None))"
| "justified op (EvCreateConfiguration c r) S \<longleftrightarrow>
     Name (Meta c) = DefaultConfigurationName \<and> Namespace (Meta c) = opNamespace op \<and>
     EvGetConfiguration (opNamespace op, DefaultConfigurationName) (Inl (EApi NotFound)) \<in> S"
| "justified op _ S \<longleftrightarrow> True"

lemma configuration_readI: "EvGetConfiguration nn (Inr c) \<in> S \<Longrightarrow> configuration_read c S"
  unfolding configuration_read_def by blast

lemma configuration_read_mono: "configuration_read c S \<Longrightarrow> S \<subseteq> T \<Longrightarrow> configuration_read c T"
  unfolding configuration_read_def by blast

lemma phase_mono:
  "installing op S \<Longrightarrow> S \<subseteq> T \<Longrightarrow> installing op T"
  "uninstalling S \<Longrightarrow> S \<subseteq> T \<Longrightarrow> uninstalling T"
  unfolding installing_def uninstalling_def by (blast intro: configuration_read_mono)+

lemma justified_mono: "justified op e S \<Longrightarrow> S \<subseteq> T \<Longrightarrow> justified op e T"
  by (induction op e S rule: justified.induct) (simp_all, (blast intro: configuration_read_mono phase_mono)+)

lemma guarded_all:
  assumes "\<And>e. e \<in> set es \<Longrightarrow> justified op e S"
  shows "guarded (justified op) S es"
  using assms
proof (induction es arbitrary: S)
  case (Cons a es)
  have "justified op e (insert a S)" if "e \<in> set es" for e
    using that Cons.prems by (auto intro: justified_mono)
  with Cons show ?case by simp
qed simp

text \<open>A program all of whose runs are justified once the calls \<open>S\<close> were made.\<close>

definition justified_runs :: "operator \<Rightarrow> event set \<Rightarrow> 'a cio \<Rightarrow> bool" where
  "justified_runs op S m \<longleftrightarrow> obeys m [] (\<lambda>r new. \<forall>T. S \<subseteq> T \<longrightarrow> guarded (justified op) T new)"

named_theorems jr_rules \<open>introduction rules for justified_runs, one per program construct\<close>

lemma jr_return [jr_rules]: "justified_runs op S (State_Monad.return x)"
  by (simp add: justified_runs_def obeys_return)

lemma jr_call [jr_rules]: "(\<And>r. justified op (ev r) S) \<Longrightarrow> justified_runs op S (call answer ev)"
  unfolding justified_runs_def by (rule obeys_call) (auto intro: justified_mono)

lemma jr_bind:
  assumes "justified_runs op S m" and "\<And>r. justified_runs op S (f r)"
  shows "justified_runs op S (State_Monad.bind m f)"
  unfolding justified_runs_def
proof (rule obeys_bind, rule obeys_mono [OF assms(1) [unfolded justified_runs_def]])
  fix r new
  assume new: "\<forall>T. S \<subseteq> T \<longrightarrow> guarded (justified op) T new"
  show "obeys (f r) new (\<lambda>r new. \<forall>T. S \<subseteq> T \<longrightarrow> guarded (justified op) T new)"
    by (rule obeys_frame [OF assms(2) [of r, unfolded justified_runs_def]])
       (use new in \<open>simp add: guarded_append le_supI1\<close>)
qed

lemma jr_call_bind [jr_rules]:
  assumes "\<And>r. justified op (ev r) S" and "\<And>r. justified_runs op (insert (ev r) S) (f r)"
  shows "justified_runs op S (State_Monad.bind (call answer ev) f)"
  unfolding justified_runs_def
proof (rule obeys_bind, rule obeys_call)
  fix r
  show "obeys (f r) ([] @ [ev r]) (\<lambda>r new. \<forall>T. S \<subseteq> T \<longrightarrow> guarded (justified op) T new)"
    by (rule obeys_frame [OF assms(2) [of r, unfolded justified_runs_def]])
       (use assms(1) [of r] in \<open>auto intro: justified_mono\<close>)
qed

lemma jr_if [jr_rules]:
  "(b \<Longrightarrow> justified_runs op S m) \<Longrightarrow> (\<not> b \<Longrightarrow> justified_runs op S n) \<Longrightarrow> justified_runs op S (if b then m else n)"
  by simp

lemma jr_case_sum [jr_rules]:
  "(\<And>e. x = Inl e \<Longrightarrow> justified_runs op S (f e)) \<Longrightarrow> (\<And>v. x = Inr v \<Longrightarrow> justified_runs op S (h v)) \<Longrightarrow>
   justified_runs op S (case x of Inl e \<Rightarrow> f e | Inr v \<Rightarrow> h v)"
  by (cases x) simp_all

lemma jr_case_option [jr_rules]:
  "(x = None \<Longrightarrow> justified_runs op S m) \<Longrightarrow> (\<And>v. x = Some v \<Longrightarrow> justified_runs op S (h v)) \<Longrightarrow>
   justified_runs op S (case x of None \<Rightarrow> m | Some v \<Rightarrow> h v)"
  by (cases x) simp_all

lemma jr_mono: "justified_runs op S m \<Longrightarrow> S \<subseteq> T \<Longrightarrow> justified_runs op T m"
  unfolding justified_runs_def by (erule obeys_mono) blast

lemma jr_emits:
  assumes "emits P m" and "\<And>e. P e \<Longrightarrow> justified op e S"
  shows "justified_runs op S m"
  unfolding justified_runs_def using assms(1) [unfolded emits_obeys]
  by (rule obeys_mono) (simp add: list_all_iff, metis assms(2) guarded_all justified_mono)

lemma jr_TemplateFuncs: "(\<And>F. justified_runs op S (f F)) \<Longrightarrow> justified_runs op S (State_Monad.bind (TemplateFuncs E) f)"
  by (rule jr_bind) (simp_all add: justified_runs_def obeys_def)

lemma guarded_calls: "justified_runs op {} m \<Longrightarrow> guarded (justified op) {} (calls m tr)"
  unfolding justified_runs_def by (drule obeysD [where tr = tr]) simp

section \<open>The controllers keep the discipline\<close>

lemma jr_delete_items:
  "EvListDynamic gvr (Inr items) \<in> S \<Longrightarrow> uninstalling S \<Longrightarrow> justified_runs op S (delete_items E gvr ns items)"
  by (rule jr_emits [OF delete_items_one_of]) (erule deletes_one_of.elims; auto)

lemma jr_cleanup_versions: "uninstalling S \<Longrightarrow> justified_runs op S (cleanup_versions E crd vs n)"
proof (induction vs arbitrary: n S)
  case (Cons v vs)
  have "uninstalling (insert e S)" for e using Cons.prems by (auto intro: phase_mono)
  then show ?case
    unfolding cleanup_versions.simps ListDynamic_def
    by (intro jr_rules jr_bind jr_delete_items Cons.IH) simp_all
qed (simp add: jr_return)

lemma jr_cleanup_crds: "uninstalling S \<Longrightarrow> justified_runs op S (cleanup_crds E objs n)"
proof (induction objs arbitrary: n)
  case (Cons ob objs)
  then show ?case unfolding cleanup_crds.simps by (intro jr_rules jr_bind jr_cleanup_versions Cons.IH)
qed (simp add: jr_return)

lemma jr_ensureCRDObjectCleanup: "uninstalling S \<Longrightarrow> justified_runs op S (ensureCRDObjectCleanup E objs)"
  unfolding ensureCRDObjectCleanup_def NewDynamicClient_def
  by (intro jr_rules jr_bind jr_cleanup_crds) (auto intro: phase_mono)

lemma jr_delete_owner_namespace: "uninstalling S \<Longrightarrow> justified_runs op S (delete_owner_namespace E)"
  unfolding delete_owner_namespace_def call_defs by (intro jr_rules) (auto intro: phase_mono)

lemma jr_remove_node_finalizers:
  assumes "EvListNodes ls (Inr nodes0) \<in> S" and "set nodes \<subseteq> set nodes0"
  shows "justified_runs op S (remove_node_finalizers E (opLibs op) nodes)"
  using assms(2)
proof (induction nodes)
  case (Cons node nodes)
  then have "justified_runs op (insert e S) (remove_node_finalizers E (opLibs op) nodes)"
    "justified_runs op S (remove_node_finalizers E (opLibs op) nodes)" for e
    by (auto intro: jr_mono)
  with Cons.prems assms(1) show ?case
    unfolding remove_node_finalizers.simps PatchNode_def by (intro jr_rules) auto
qed (simp add: jr_return)

lemma jr_release_finalizers:
  assumes "configuration_read c S" and "same_object c config"
  shows "justified_runs op S (release_finalizers E (opLibs op) config)"
  unfolding release_finalizers_def PatchConfiguration_def ListNodes_def
  using assms by (intro jr_rules jr_remove_node_finalizers) auto

lemma jr_delete_rendered:
  assumes "configuration_read c S" and "same_object c config" and "uninstalling S"
  shows "justified_runs op S (delete_rendered E (opLibs op) config objs)"
  unfolding delete_rendered_def
  by (intro jr_rules jr_bind jr_ensureCRDObjectCleanup jr_delete_owner_namespace jr_release_finalizers [OF assms(1,2)] assms(3))

lemma jr_deleteClusterScopedReference:
  assumes "configuration_read c S" and "uninstalling S"
  shows "justified_runs op S (deleteClusterScopedReference E (opLibs op) CRDList version c)"
proof -
  have "justified_runs op S (case GenerateObjects L F CRDList c k version ca of (config, crdObjs) \<Rightarrow>
      (case crdObjs of Inl e \<Rightarrow> State_Monad.return (x e) | Inr objs \<Rightarrow> delete_rendered E (opLibs op) config objs))" for L F k ca x
    using assms by (auto simp: GenerateObjects_def Let_def intro!: jr_rules jr_delete_rendered)
  then show ?thesis unfolding deleteClusterScopedReference_def by (rule jr_TemplateFuncs)
qed

lemma permitted_justified:
  assumes "permitted (opLibs op) c e" and "DeletionTimestamp (Meta c) = None" and "configuration_read c S"
  shows "justified op e S"
  using assms by (cases e) (auto simp: permitted_def installing_def split: if_splits intro!: exI [of _ c])

lemma jr_ConfigurationReconcile:
  "justified_runs op {} (ConfigurationReconcile E (opLibs op) namespace version CRDList order req)"
proof -
  have "justified_runs op {EvGetConfiguration req (Inr c)} (reconcile_config E (opLibs op) namespace version CRDList order c)" for c
  proof (cases "DeletionTimestamp (Meta c) = None")
    case True
    then show ?thesis by (intro jr_emits [OF reconcile_config_permitted]) (auto elim!: permitted_justified intro: configuration_readI)
  next
    case False
    then show ?thesis
      unfolding reconcile_config_def by (simp, intro jr_bind jr_return jr_deleteClusterScopedReference) (auto simp: uninstalling_def intro: configuration_readI)
  qed
  then show ?thesis unfolding ConfigurationReconcile_def GetConfiguration_def by (intro jr_rules) simp_all
qed

lemma node_permitted_justified:
  assumes "node_permitted (opLibs op) node config e" and "configuration_read config S"
    and "EvGetNode n (Inr node) \<in> S \<or> node = zero_Node \<and> EvGetNode n (Inl err) \<in> S \<and> \<not> IsNotFound err"
  shows "justified op e S"
  using assms by (cases e) (auto simp: node_permitted_def zero_Node_def zero_ObjectMeta_def split: if_splits)

lemma jr_reconcile_node:
  assumes "EvGetNode n (Inr node) \<in> S \<or> node = zero_Node \<and> EvGetNode n (Inl err) \<in> S \<and> \<not> IsNotFound err"
  shows "justified_runs op S (reconcile_node E (opLibs op) namespace node)"
  unfolding reconcile_node_def fetchKubeovnConfig_def GetConfiguration_def
  using assms by (intro jr_rules jr_emits [OF act_on_node_permitted]) (auto elim!: node_permitted_justified intro: configuration_readI)

lemma jr_NodeReconcile: "justified_runs op {} (NodeReconcile E (opLibs op) namespace req)"
  unfolding NodeReconcile_def GetNode_def by (intro jr_rules jr_reconcile_node) auto

lemma only_health_same_object:
  assumes "only_health_changed c c'"
  shows "same_object c c'"
proof -
  have eq: "c'\<lparr>Status := (Status c')\<lparr>Conditions := []\<rparr>\<rparr> = c\<lparr>Status := (Status c)\<lparr>Conditions := []\<rparr>\<rparr>"
    using assms by (simp add: only_health_changed_def)
  have "Meta c' = Meta c" "Spec c' = Spec c"
    using arg_cong [OF eq, of Meta] arg_cong [OF eq, of Spec] by simp_all
  then show ?thesis by (simp add: same_object_def patch_version_def)
qed

lemma health_permitted_justified:
  assumes "health_permitted c e" and "configuration_read c S"
  shows "justified op e S"
  using assms only_health_same_object by (cases e) (auto simp: health_permitted_def only_health_changed_def)

lemma jr_HealthReconcile: "justified_runs op {} (HealthReconcile E (opLibs op) namespace interval req)"
  unfolding HealthReconcile_def GetConfiguration_def
  by (intro jr_rules jr_emits [OF healthcheck_config_permitted])
     (auto elim!: health_permitted_justified intro: configuration_readI)

lemma create_of_justified:
  assumes "create_of (default_configuration (opNamespace op) spec) e"
    and "EvGetConfiguration (opNamespace op, DefaultConfigurationName) (Inl (EApi NotFound)) \<in> S"
  shows "justified op e S"
  using assms by (cases e) (auto simp: default_configuration_def)

lemma createConfigurationWithRetry_creates:
  "backoff_laws W \<Longrightarrow> emits (create_of c) (createConfigurationWithRetry E W c)"
  unfolding emits_obeys by (rule obeys_mono [OF createConfigurationWithRetry_record]) (simp_all add: retry_record_def)

lemma jr_BootstrapStart:
  assumes "backoff_laws W"
  shows "justified_runs op {} (BootstrapStart E L W (opNamespace op))"
  unfolding BootstrapStart_def loadAndApplyDefaultConfiguration_def GetConfiguration_def GetConfigMap_def
  by (intro jr_rules jr_bind jr_emits [OF createConfigurationWithRetry_creates [OF assms]])
     (auto elim!: create_of_justified simp: IsNotFound_def)

interpretation operator: discipline "operator_runs op" "justified op" for op
proof
  show "justified op e S \<Longrightarrow> S \<subseteq> T \<Longrightarrow> justified op e T" for e S T
    by (rule justified_mono)
  show "operator_runs op c new \<Longrightarrow> guarded (justified op) {} new" for c new
    by (cases c) (auto intro!: guarded_calls jr_ConfigurationReconcile jr_NodeReconcile jr_HealthReconcile jr_BootstrapStart)
qed

section \<open>Properties\<close>

text \<open>Data for the witnesses: the history of one run of a controller.\<close>

lemma interleaved_run:
  assumes "interleaved runs h p" and "p c = es @ rest"
  shows "interleaved runs (h @ es) (p(c := rest))"
  using assms
proof (induction es arbitrary: h p)
  case Nil
  then show ?case by (simp add: fun_upd_idem)
next
  case (Cons e es)
  from next_call [OF Cons.prems(1), of c e "es @ rest"] Cons.prems(2)
  have "interleaved runs (h @ [e]) (p(c := es @ rest))" by simp
  then have "interleaved runs ((h @ [e]) @ es) (p(c := es @ rest, c := rest))" by (rule Cons.IH) simp
  then show ?case by (simp only: fun_upd_upd append_assoc append.simps)
qed

lemma one_run:
  assumes "runs c (es @ rest)"
  shows "interleaved runs es ((\<lambda>_. [])(c := rest))"
proof -
  have "interleaved runs [] ((\<lambda>_. [])(c := es @ rest))"
    using assms by (intro start_run idle) simp_all
  from interleaved_run [OF this, of c es rest] show ?thesis by (simp only: fun_upd_same fun_upd_upd append.simps)
qed

definition demo_operator :: operator where
  "demo_operator = \<lparr>opLibs = ref_libs, opNamespace = ''kube-system'', opVersion = ''v1'', opInterval = 60, opCRDs = []\<rparr>"

text \<open>
  C1: the operator writes nothing it has not read. In every history of calls that the three reconcilers
  and the bootstrapper can produce together, however their calls interleave and whatever the API server
  answers: a status patch is against a configuration as it was read before and leaves its metadata and,
  but for the image tag, its specification alone, and condition types stay distinct if they were; any
  other patch of a configuration is against one that was read before, up to its status and the image tag,
  and changes only the operator's finalizer; a patch of a node changes only the operator's finalizer of a
  node read before, with one exception, a defect: after a read of a node that failed with another error
  than not-found the finalizer is added to the empty node; objects are applied and the owner namespace, under its own name, is
  created only after a live configuration with the operator's finalizer was read; that namespace and
  custom resources, these only if they were listed as not yet deleted, are deleted only after a
  configuration under deletion was read; and a configuration is created only under the default name
  after it was found missing.
\<close>

theorem writes_are_justified:
  assumes "interleaved (operator_runs op) (before @ e # after) pending"
  shows "justified op e (set before)"
  using assms by (rule operator.history_justified)

theorem writes_are_justified_witness:
  "justified demo_operator (EvPatchConfigurationStatus demo_patched demo_deployed None)
     (set (butlast (calls (demo_health demo_deployed 0) [])))"
proof -
  let ?cs = "calls (demo_health demo_deployed 0) []"
  let ?e = "EvPatchConfigurationStatus demo_patched demo_deployed None"
  have "?cs \<noteq> [] \<and> last ?cs = ?e" by code_simp
  then have cs: "?cs = butlast ?cs @ ?e # []" by (metis append_butlast_last_id)
  have "operator_runs demo_operator HealthCheckController ?cs"
    unfolding operator_runs.simps by (intro exI [of _ "demo_health_env demo_deployed 0"] exI) (simp add: demo_operator_def)
  then have "interleaved (operator_runs demo_operator) ?cs ((\<lambda>_. [])(HealthCheckController := []))"
    by (intro one_run) simp
  then have "interleaved (operator_runs demo_operator) (butlast ?cs @ ?e # []) ((\<lambda>_. [])(HealthCheckController := []))"
    using cs by simp
  then show ?thesis by (rule writes_are_justified)
qed

end
