(* ===== verification/Install.thy ===== *)
theory Install
  imports Config_Properties
begin

text \<open>
  The progress of an installation: in a cluster that cooperates, one reconcile of a configuration that
  has its finalizer applies every object and records that the installation is deployed.
\<close>

section \<open>Specification\<close>

text \<open>The API server and the libraries do what a reconcile asks of them.\<close>

definition cooperative :: "env \<Rightarrow> libs \<Rightarrow> bool" where
  "cooperative E L \<longleftrightarrow>
     (\<forall>tr n. \<not> isl (apiGetNamespace E tr n)) \<and>
     (\<forall>tr nn. \<exists>data caCert. apiGetSecret E tr nn = Inr data \<and> map_of data ''ca.crt'' = Some caCert) \<and>
     (\<forall>tr k. \<not> isl (apiIsNamespaced E tr k)) \<and>
     (\<forall>tr ob. apiApply E tr ob = None) \<and>
     (\<forall>tr new base. apiPatchConfigurationStatus E tr new base = None) \<and>
     (\<forall>ow ob. \<not> isl (libSetControllerReference L ow ob)) \<and>
     (\<forall>ob. \<not> isl (libToUnstructured L ob))"

text \<open>
  Every template of the order renders for the specification and the namespace of the configuration,
  whatever the rest of its metadata and its status.
\<close>

definition renders :: "env \<Rightarrow> libs \<Rightarrow> string \<Rightarrow> (objkind \<times> tok list list) list \<Rightarrow> Configuration \<Rightarrow> bool" where
  "renders E L version order c \<longleftrightarrow>
     (\<forall>(k, ts) \<in> set order. \<forall>tr c' caCert. Namespace (Meta c') = Namespace (Meta c) \<and>
        Spec (patch_version c' '''') = Spec (patch_version c '''') \<longrightarrow>
        \<not> isl (snd (GenerateObjects L (templateFuncs E tr) ts c' k version caCert)))"

text \<open>The selector parses, and the nodes it selects have at least one internal address.\<close>

definition masters_found :: "env \<Rightarrow> libs \<Rightarrow> Configuration \<Rightarrow> bool" where
  "masters_found E L c \<longleftrightarrow>
     (\<exists>labels. libConvertSelectorToLabelsMap L (MasterNodesLabel (Spec c)) = Inr labels \<and>
        (\<forall>tr. \<exists>items. apiListNodes E tr labels = Inr items \<and> found_addresses items \<noteq> []))"

section \<open>The steps in a cooperative cluster\<close>

lemma obeys_answer: "(\<And>tr. Q (answer tr) (acc @ [ev (answer tr)])) \<Longrightarrow> obeys (call answer ev) acc Q"
  by (simp add: obeys_def)

lemma not_isl: "\<not> isl x \<longleftrightarrow> (\<exists>v. x = Inr v)"
  by (cases x) simp_all

lemma cooperativeD:
  assumes "cooperative E L"
  shows "\<exists>ns. apiGetNamespace E tr n = Inr ns" and "\<exists>data caCert. apiGetSecret E tr nn = Inr data \<and> map_of data ''ca.crt'' = Some caCert"
    and "\<exists>b. apiIsNamespaced E tr k = Inr b" and "apiApply E tr ob = None" and "apiPatchConfigurationStatus E tr new base = None"
    and "\<exists>ob'. libSetControllerReference L ow ob = Inr ob'" and "\<exists>u. libToUnstructured L ob = Inr u"
  using assms unfolding cooperative_def not_isl by blast+

text \<open>What a step that succeeds may change before the last one.\<close>

definition early_ok :: "Configuration \<Rightarrow> goerror option \<times> Configuration \<Rightarrow> bool" where
  "early_ok c out \<longleftrightarrow> fst out = None \<and> same_object c (snd out) \<and> StatusText (Status (snd out)) = StatusText (Status c)"

lemma init_up: "obeys (initializeConditions E c) [] (\<lambda>out new. early_ok c out)"
  unfolding initializeConditions_def init_condition_def Now_def
  by (intro obeys_rules) (simp_all add: early_ok_def)

lemma namespace_up:
  assumes "cooperative E L"
  shows "obeys (reconcileClusterScopedReference E c) [] (\<lambda>out new. early_ok c out)"
  unfolding reconcileClusterScopedReference_def GetNamespaceObj_def
  apply (rule obeys_bind, rule obeys_answer)
  subgoal for tr
    using cooperativeD(1) [OF assms, of tr KubeOVNFakeNamespace] by (auto intro!: obeys_return simp: early_ok_def)
  done

lemma obeys_result: "appends m \<Longrightarrow> (\<And>tr. Q (result m tr)) \<Longrightarrow> obeys m [] (\<lambda>r new. Q r)"
  unfolding appends_def emits_def obeys_def result_def by blast

lemma same_spec_fields:
  assumes "Spec (patch_version c' '''') = Spec (patch_version c '''')"
  shows "MasterNodesLabel (Spec c') = MasterNodesLabel (Spec c)" and "Component (Spec c') = Component (Spec c)"
  using arg_cong [OF assms, of MasterNodesLabel] arg_cong [OF assms, of Component] by (simp_all add: patch_version_def)

lemma same_object_label: "same_object c c' \<Longrightarrow> MasterNodesLabel (Spec c') = MasterNodesLabel (Spec c)"
  unfolding same_object_def by (rule same_spec_fields(1)) simp

lemma nodes_up:
  assumes "masters_found E L c0" and "same_object c0 c"
  shows "obeys (findMasterNodes E L c) [] (\<lambda>out new. early_ok c out \<and> MatchingNodeAddresses (Status (snd out)) \<noteq> [])"
proof (rule obeys_result)
  show "appends (findMasterNodes E L c)" by (rule obeys_appends [OF findMasterNodes_step])
  fix tr
  from assms obtain labels items where labels: "libConvertSelectorToLabelsMap L (MasterNodesLabel (Spec c)) = Inr labels"
      and items: "apiListNodes E tr labels = Inr items" and found: "found_addresses items \<noteq> []"
    unfolding masters_found_def same_object_label [OF assms(2)] by metis
  have status: "StatusText (Status (set_addresses c' as)) = StatusText (Status c')" for c' as
    by (simp add: set_addresses_def)
  have sorted: "sort (found_addresses items) \<noteq> []" using found by (metis length_0_conv length_sort)
  moreover have "sort (MatchingNodeAddresses (Status c)) \<noteq> []" if "mset (found_addresses items) = mset (MatchingNodeAddresses (Status c))"
    using sorted sort_mset_eq [OF that] by simp
  ultimately have nonempty: "sort (found_addresses items) \<noteq> []"
    "mset (found_addresses items) = mset (MatchingNodeAddresses (Status c)) \<Longrightarrow> sort (MatchingNodeAddresses (Status c)) \<noteq> []"
    by blast+
  show "early_ok c (result (findMasterNodes E L c) tr) \<and>
      MatchingNodeAddresses (Status (snd (result (findMasterNodes E L c) tr))) \<noteq> []"
  proof (cases "mset (found_addresses items) = mset (MatchingNodeAddresses (Status c))")
    case True
    from findMasterNodes_result [OF labels items] nonempty(2) [OF True] found True show ?thesis
      by (auto simp: early_ok_def status)
  next
    case False
    from findMasterNodes_result [OF labels items] nonempty(1) found False show ?thesis
      by (auto simp: early_ok_def status)
  qed
qed

lemma apply_objects_up:
  assumes "cooperative E L"
  shows "obeys (apply_objects E L ow obs) [] (\<lambda>r new. r = None)"
proof (induction obs)
  case (Cons ob obs)
  obtain ob' where ob': "libSetControllerReference L ow ob = Inr ob'" using cooperativeD(6) [OF assms] by blast
  obtain u where u: "libToUnstructured L ob' = Inr u" using cooperativeD(7) [OF assms] by blast
  show ?case
    unfolding apply_objects.simps reconcileObject_def ApplyObject_def
    apply (simp only: ob' u sum.case)
    apply (rule obeys_bind, rule obeys_answer)
    apply (simp add: cooperativeD(4) [OF assms])
    apply (rule obeys_frame [OF Cons.IH])
    apply simp
    done
qed (simp add: obeys_return)

lemma rendersD:
  assumes "renders E L version ((k, ts) # order) c0" and "same_object c0 c"
  shows "\<exists>objs. GenerateObjects L (templateFuncs E tr) ts c k version caCert = (patch_version c version, Inr objs)"
    and "renders E L version order c0"
proof -
  from assms have "\<not> isl (snd (GenerateObjects L (templateFuncs E tr) ts c k version caCert))"
    by (fastforce simp: renders_def same_object_def)
  then show "\<exists>objs. GenerateObjects L (templateFuncs E tr) ts c k version caCert = (patch_version c version, Inr objs)"
    unfolding not_isl by (metis fst_GenerateObjects prod.collapse)
  show "renders E L version order c0" using assms(1) by (auto simp: renders_def)
qed

lemma apply_types_up:
  assumes "cooperative E L" and "renders E L version order c0" and "same_object c0 c"
  shows "obeys (apply_types E L version fakeNS caCert order c) [] (\<lambda>out new. fst out = None)"
  using assms(2,3)
proof (induction order arbitrary: c)
  case (Cons entry order)
  obtain k ts where entry: "entry = (k, ts)" by (cases entry)
  note renders = rendersD [OF Cons.prems(1) [unfolded entry]]
  have rest: "obeys (apply_types E L version fakeNS caCert order (patch_version c version)) [] (\<lambda>out new. fst out = None)"
    using Cons.IH [OF renders(2) [OF Cons.prems(2)]] Cons.prems(2) by simp
  have types: "obeys (case GenerateObjects L (templateFuncs E tr) ts c k version caCert of
           (config, objs) \<Rightarrow>
             (case objs of
                Inl e \<Rightarrow> State_Monad.return (Some (errorf ''error during object generation'' e), config)
              | Inr obs \<Rightarrow> do {
                  err \<leftarrow> apply_objects E L (if b then OwnerConfig config else OwnerNamespace fakeNS) obs;
                  case err of
                    Some e \<Rightarrow> State_Monad.return (Some e, config)
                  | None \<Rightarrow> apply_types E L version fakeNS caCert order config
                })) acc (\<lambda>out new. fst out = None)" for tr b acc
  proof -
    obtain objs where objs: "GenerateObjects L (templateFuncs E tr) ts c k version caCert = (patch_version c version, Inr objs)"
      using renders(1) [OF Cons.prems(2)] by blast
    show ?thesis
      unfolding objs prod.case sum.case
      by (rule obeys_bind, rule obeys_frame [OF apply_objects_up [OF assms(1)]]) (simp add: obeys_frame [OF rest])
  qed
  show ?case
    unfolding entry apply_types.simps IsObjectNamespaced_def
    apply (rule obeys_bind, rule obeys_answer)
    subgoal for tr
      using cooperativeD(3) [OF assms(1), of tr k]
      by (auto intro!: obeys_bind [OF obeys_TemplateFuncs] types)
    done
qed (simp add: obeys_return)

lemma apply_up:
  assumes "cooperative E L" and "renders E L version order c0" and "same_object c0 c"
    and "MatchingNodeAddresses (Status c) \<noteq> []" and "StatusText (Status c) \<noteq> ConfigurationStatusDeploying"
  shows "obeys (applyObject E L namespace version order c) []
    (\<lambda>out new. fst out = None \<and> StatusText (Status (snd out)) = ConfigurationStatusDeployed)"
  unfolding applyObject_def GetNamespaceObj_def GetSecret_def
  apply (simp only: assms(4,5) if_False)
  apply (rule obeys_bind, rule obeys_answer)
  subgoal for tr
    using cooperativeD(1) [OF assms(1), of tr KubeOVNFakeNamespace]
    apply (elim exE, simp only: sum.case)
    apply (rule obeys_bind, rule obeys_answer)
    subgoal for fakeNS tr
      using cooperativeD(2) [OF assms(1), of tr "(namespace, KubeOVNOperatorWebhookCertSecret)"]
      apply (elim exE conjE, simp only: sum.case option.case)
      apply (rule obeys_bind, rule obeys_frame [OF apply_types_up [OF assms(1-3)]])
      apply (intro obeys_rules)
       apply (simp_all add: set_status_def)
      done
    done
  done

lemma steps_up:
  assumes "cooperative E L" and "renders E L version order c" and "masters_found E L c"
    and "StatusText (Status c) \<noteq> ConfigurationStatusDeploying"
  shows "obeys (run_steps (reconcile_steps E L namespace version order) c) []
    (\<lambda>out new. fst out = None \<and> StatusText (Status (snd out)) = ConfigurationStatusDeployed)"
proof -
  have apply_last: "obeys (run_steps [applyObject E L namespace version order] c') acc
      (\<lambda>out new. fst out = None \<and> StatusText (Status (snd out)) = ConfigurationStatusDeployed)"
    if "same_object c c'" "StatusText (Status c') = StatusText (Status c)" "MatchingNodeAddresses (Status c') \<noteq> []" for c' acc
    unfolding run_steps.simps
    apply (rule obeys_bind, rule obeys_frame [OF apply_up [OF assms(1,2) that(1,3)]])
     apply (use that(2) assms(4) in simp)
    apply (auto intro!: obeys_rules)
    done
  have from_nodes: "obeys (run_steps [findMasterNodes E L, applyObject E L namespace version order] c') acc
      (\<lambda>out new. fst out = None \<and> StatusText (Status (snd out)) = ConfigurationStatusDeployed)"
    if "same_object c c'" "StatusText (Status c') = StatusText (Status c)" for c' acc
    unfolding run_steps.simps(2) [of "findMasterNodes E L"]
    apply (rule obeys_bind, rule obeys_frame [OF nodes_up [OF assms(3) that(1)]])
    apply (use that in \<open>auto simp: early_ok_def simp del: run_steps.simps intro!: apply_last elim: same_object_trans\<close>)
    done
  have from_namespace: "obeys (run_steps [reconcileClusterScopedReference E, findMasterNodes E L, applyObject E L namespace version order] c') acc
      (\<lambda>out new. fst out = None \<and> StatusText (Status (snd out)) = ConfigurationStatusDeployed)"
    if "same_object c c'" "StatusText (Status c') = StatusText (Status c)" for c' acc
    unfolding run_steps.simps(2) [of "reconcileClusterScopedReference E"]
    apply (rule obeys_bind, rule obeys_frame [OF namespace_up [OF assms(1)]])
    apply (use that in \<open>auto simp: early_ok_def simp del: run_steps.simps intro!: from_nodes elim: same_object_trans\<close>)
    done
  show ?thesis
    unfolding reconcile_steps_def run_steps.simps(2) [of "initializeConditions E"]
    apply (rule obeys_bind, rule obeys_mono [OF init_up])
    apply (auto simp: early_ok_def simp del: run_steps.simps intro!: from_namespace)
    done
qed

section \<open>Properties\<close>

text \<open>Data for the witness: one template, and a cluster with one master node.\<close>

definition demo_install_libs :: libs where
  "demo_install_libs = ref_libs\<lparr>libConvertSelectorToLabelsMap := (\<lambda>s. Inr [])\<rparr>"

definition demo_fresh :: Configuration where
  "demo_fresh = zero_Configuration\<lparr>Meta := zero_ObjectMeta\<lparr>Finalizers := [KubeOVNConfigurationFinalizer]\<rparr>,
     Spec := zero_ConfigurationSpec\<lparr>Component := zero_ComponentSpec\<lparr>EnableOVNIPSec := Some False\<rparr>\<rparr>\<rparr>"

definition demo_order :: "(objkind \<times> tok list list) list" where
  "demo_order = [(ConfigMap, [[Txt [''kind: ConfigMap'']]])]"

definition demo_install_env :: env where
  "demo_install_env = ref_env\<lparr>
     apiGetConfiguration := (\<lambda>_ _. Inr demo_fresh),
     apiGetNamespace := (\<lambda>_ _. Inr zero_ObjectMeta),
     apiGetSecret := (\<lambda>_ _. Inr [(''ca.crt'', ''pem'')]),
     apiIsNamespaced := (\<lambda>_ _. Inr True),
     apiListNodes := (\<lambda>_ _. Inr [\<lparr>NodeMeta = zero_ObjectMeta, Addresses = [(''InternalIP'', ''10.0.0.1'')]\<rparr>])\<rparr>"

text \<open>
  C5: an installation gets done. When the API server answers and accepts, the master nodes have
  addresses and the templates render, a reconcile of a live configuration that has its finalizer and whose
  status text is not \<^verbatim>\<open>Deploying\<close>, for which the code skips applying, ends without an error, and unless the configuration was recorded as deployed already, its last call is
  the accepted status patch that records it as deployed.
\<close>

theorem install_completes:
  assumes "cooperative E L" and "apiGetConfiguration E tr req = Inr c" and "DeletionTimestamp (Meta c) = None"
    and "libContainsFinalizer L (Finalizers (Meta c)) KubeOVNConfigurationFinalizer"
    and "StatusText (Status c) \<noteq> ConfigurationStatusDeploying"
    and "masters_found E L c" and "renders E L version order c"
  shows "result (ConfigurationReconcile E L namespace version CRDList order req) tr = (no_requeue, None) \<and>
    (StatusText (Status c) \<noteq> ConfigurationStatusDeployed \<longrightarrow>
       (\<exists>new. last (calls (ConfigurationReconcile E L namespace version CRDList order req) tr) = EvPatchConfigurationStatus new c None \<and>
          StatusText (Status new) = ConfigurationStatusDeployed))"
proof -
  have "obeys (reconcile_config E L namespace version CRDList order c) [] (\<lambda>r new. r = (no_requeue, None) \<and>
      (StatusText (Status c) \<noteq> ConfigurationStatusDeployed \<longrightarrow>
         (\<exists>config evs. new = evs @ [EvPatchConfigurationStatus config c None] \<and>
            StatusText (Status config) = ConfigurationStatusDeployed)))"
    unfolding reconcile_config_def PatchConfigurationStatus_def
    apply (simp only: assms(3,4) simp_thms if_False)
    apply (rule obeys_bind, rule obeys_mono [OF steps_up [OF assms(1,7,6,5)]])
    apply (rule obeys_case_prod, rule obeys_case_option)
     apply (rule obeys_if)
      apply (rule obeys_return, force)
     apply (rule obeys_bind, rule obeys_answer, rule obeys_return)
     apply (force simp: cooperativeD(5) [OF assms(1)])
    apply simp
    done
  from obeysD [OF this, of "tr @ [EvGetConfiguration req (Inr c)]"] show ?thesis
    unfolding ConfigurationReconcile_fetch_then cfg.calls_fetch_then cfg.result_fetch_then
    by (auto simp: assms(2))
qed

lemma demo_renders: "renders E demo_install_libs version demo_order demo_fresh"
proof -
  have "\<not> isl (snd (GenerateObjects demo_install_libs F [[Txt [''kind: ConfigMap'']]] c ConfigMap version caCert))"
    if "Spec (patch_version c '''') = Spec (patch_version demo_fresh '''')" for F c caCert
    using same_spec_fields [of "patch_version c version" demo_fresh] that
    by (simp add: GenerateObjects_def Let_def template_values_def generateMasterNodeAffinity_def generateIncludeValues_def
        demo_install_libs_def ref_libs_def generateObject_def generateMap_def template_Parse_def template_Execute_def
        demo_fresh_def zero_ConfigurationSpec_def)
  then show ?thesis by (simp add: renders_def demo_order_def)
qed

theorem install_completes_witness:
  "\<exists>new. last (calls (ConfigurationReconcile demo_install_env demo_install_libs ''kube-system'' ''v1'' [] demo_order
      (''kube-system'', ''kubeovn'')) []) = EvPatchConfigurationStatus new demo_fresh None \<and>
     StatusText (Status new) = ConfigurationStatusDeployed"
proof -
  have 1: "cooperative demo_install_env demo_install_libs"
    by (simp add: cooperative_def demo_install_env_def demo_install_libs_def ref_env_def ref_libs_def)
  have 2: "apiGetConfiguration demo_install_env [] (''kube-system'', ''kubeovn'') = Inr demo_fresh"
    by (simp add: demo_install_env_def)
  have 3: "DeletionTimestamp (Meta demo_fresh) = None"
    "libContainsFinalizer demo_install_libs (Finalizers (Meta demo_fresh)) KubeOVNConfigurationFinalizer"
    "StatusText (Status demo_fresh) \<noteq> ConfigurationStatusDeploying"
    "StatusText (Status demo_fresh) \<noteq> ConfigurationStatusDeployed"
    by code_simp+
  have 4: "masters_found demo_install_env demo_install_libs demo_fresh"
    by (simp add: masters_found_def demo_install_env_def demo_install_libs_def found_addresses_def nodeInternalIP_def)
  from install_completes [OF 1 2 3(1-3) 4 demo_renders] 3(4) show ?thesis by blast
qed

end
