(* ===== verification/Convergence.thy ===== *)
theory Convergence
  imports Install
begin

text \<open>
  The configuration reconciler in a loop with the API server. Every write of the resource triggers
  another reconcile, so the loop has to reach a state it does not change any more: while the cluster
  cooperates and its master nodes stay the same, two reconciles bring a configuration to that state.
\<close>

section \<open>The loop\<close>

text \<open>
  The stored resource after a call: an accepted merge patch changes what it changes with respect to its
  base, the finalizers or the status.
\<close>

fun after_call :: "event \<Rightarrow> Configuration \<Rightarrow> Configuration" where
  "after_call (EvPatchConfiguration new base None) c = set_finalizers c (Finalizers (Meta new))"
| "after_call (EvPatchConfigurationStatus new base None) c = c\<lparr>Status := Status new\<rparr>"
| "after_call _ c = c"

definition reading :: "env \<Rightarrow> Configuration \<Rightarrow> env" where
  "reading E c = E\<lparr>apiGetConfiguration := (\<lambda>_ _. Inr c)\<rparr>"

text \<open>One reconcile of the stored resource, with the order in which it happens to iterate over the types.\<close>

definition reconcile_once ::
    "env \<Rightarrow> libs \<Rightarrow> string \<Rightarrow> string \<Rightarrow> tok list list \<Rightarrow> nsname \<Rightarrow> (objkind \<times> tok list list) list \<Rightarrow>
     trace \<times> Configuration \<Rightarrow> trace \<times> Configuration" where
  "reconcile_once E L namespace version CRDList req order s = (case s of (tr, c) \<Rightarrow>
     (let evs = calls (ConfigurationReconcile (reading E c) L namespace version CRDList order req) tr
      in (tr @ evs, fold after_call evs c)))"

text \<open>What a reconcile has nothing to add to.\<close>

definition converged :: "libs \<Rightarrow> Node list \<Rightarrow> Configuration \<Rightarrow> bool" where
  "converged L items c \<longleftrightarrow>
     libContainsFinalizer L (Finalizers (Meta c)) KubeOVNConfigurationFinalizer \<and>
     list_all (ConditionExists c) baseline_conditions \<and>
     MatchingNodeAddresses (Status c) = sort (found_addresses items) \<and>
     StatusText (Status c) = ConfigurationStatusDeployed"

text \<open>The selected nodes are always the given ones, and one of them has an internal address.\<close>

definition masters_are :: "env \<Rightarrow> libs \<Rightarrow> Configuration \<Rightarrow> Node list \<Rightarrow> bool" where
  "masters_are E L c items \<longleftrightarrow> found_addresses items \<noteq> [] \<and>
     (\<exists>labels. libConvertSelectorToLabelsMap L (MasterNodesLabel (Spec c)) = Inr labels \<and>
        (\<forall>tr. apiListNodes E tr labels = Inr items))"

lemma reading_simps [simp]:
  "apiGetConfiguration (reading E c) tr req = Inr c" "apiListNodes (reading E c) = apiListNodes E"
  "apiPatchConfiguration (reading E c) = apiPatchConfiguration E"
  "cooperative (reading E c) L = cooperative E L"
  "masters_are (reading E c) L c' items = masters_are E L c' items"
  "renders (reading E c) L version order c' = renders E L version order c'"
  by (simp_all add: reading_def cooperative_def masters_are_def renders_def)

lemma masters_are_found: "masters_are E L c items \<Longrightarrow> masters_found E L c"
  unfolding masters_are_def masters_found_def by blast

section \<open>A converged configuration is left alone\<close>

lemma init_converged: "list_all (ConditionExists c) baseline_conditions \<Longrightarrow> initializeConditions E c = State_Monad.return (None, c)"
  by (simp add: initializeConditions_def init_condition_def baseline_conditions_def)

lemma set_addresses_idem: "MatchingNodeAddresses (Status c) = as \<Longrightarrow> set_addresses c as = c"
  by (simp add: set_addresses_def)

lemma nodes_sorted:
  assumes "masters_are E L c0 items" and "MasterNodesLabel (Spec c) = MasterNodesLabel (Spec c0)"
  shows "obeys (findMasterNodes E L c) [] (\<lambda>out new. fst out = None \<and>
    MatchingNodeAddresses (Status (snd out)) = sort (found_addresses items) \<and>
    (MatchingNodeAddresses (Status c) = sort (found_addresses items) \<longrightarrow> snd out = c) \<and>
    (\<forall>t. ConditionExists c t \<longrightarrow> ConditionExists (snd out) t))"
proof (rule obeys_result)
  show "appends (findMasterNodes E L c)" by (rule obeys_appends [OF findMasterNodes_step])
  fix tr
  from assms obtain labels where labels: "libConvertSelectorToLabelsMap L (MasterNodesLabel (Spec c)) = Inr labels"
      and items: "apiListNodes E tr labels = Inr items" and found: "found_addresses items \<noteq> []"
    unfolding masters_are_def by metis
  have sorted: "mset (found_addresses items) = mset (MatchingNodeAddresses (Status c)) \<Longrightarrow>
      sort (MatchingNodeAddresses (Status c)) = sort (found_addresses items)"
    by (metis sort_mset_eq)
  from findMasterNodes_result [OF labels items] found sorted
  show "fst (result (findMasterNodes E L c) tr) = None \<and>
    MatchingNodeAddresses (Status (snd (result (findMasterNodes E L c) tr))) = sort (found_addresses items) \<and>
    (MatchingNodeAddresses (Status c) = sort (found_addresses items) \<longrightarrow> snd (result (findMasterNodes E L c) tr) = c) \<and>
    (\<forall>t. ConditionExists c t \<longrightarrow> ConditionExists (snd (result (findMasterNodes E L c) tr)) t)"
    by (auto simp: cond.has_put set_addresses_idem)
qed

lemma namespace_keeps: "obeys (reconcileClusterScopedReference E c) [] (\<lambda>out new. snd out = c)"
  unfolding reconcileClusterScopedReference_def call_defs by (intro obeys_rules) simp_all

lemma apply_keeps:
  assumes "StatusText (Status c) = ConfigurationStatusDeployed"
  shows "obeys (applyObject E L namespace version order c) [] (\<lambda>out new. fst out = None \<longrightarrow> Status (snd out) = Status c)"
  by (rule obeys_mono [OF applyObject_outcome]) (use assms in \<open>auto split: prod.splits\<close>)

lemma steps_keep_converged:
  assumes "converged L items c" and "masters_are E L c items"
  shows "obeys (run_steps (reconcile_steps E L namespace version order) c) []
    (\<lambda>out new. fst out = None \<longrightarrow> Status (snd out) = Status c)"
proof -
  from assms(1) have conds: "list_all (ConditionExists c) baseline_conditions"
    and addresses: "MatchingNodeAddresses (Status c) = sort (found_addresses items)"
    and deployed: "StatusText (Status c) = ConfigurationStatusDeployed"
    by (simp_all add: converged_def)
  have last: "obeys (run_steps [applyObject E L namespace version order] c) acc
      (\<lambda>out new. fst out = None \<longrightarrow> Status (snd out) = Status c)" for acc
    unfolding run_steps.simps
    by (rule obeys_bind, rule obeys_frame [OF apply_keeps [OF deployed]]) (auto intro!: obeys_rules)
  have nodes: "obeys (run_steps [findMasterNodes E L, applyObject E L namespace version order] c) acc
      (\<lambda>out new. fst out = None \<longrightarrow> Status (snd out) = Status c)" for acc
    unfolding run_steps.simps(2) [of "findMasterNodes E L"]
    by (rule obeys_bind, rule obeys_frame [OF nodes_sorted [OF assms(2) refl]])
       (auto simp: addresses simp del: run_steps.simps intro!: last)
  show ?thesis
    unfolding reconcile_steps_def run_steps.simps(2) [of "initializeConditions E"] init_converged [OF conds]
      State_Monad.bind_left_identity prod.case option.case run_steps.simps(2) [of "reconcileClusterScopedReference E"]
    by (rule obeys_bind, rule obeys_mono [OF namespace_keeps])
       (auto simp del: run_steps.simps intro!: obeys_rules nodes)
qed

lemma step_call_stored: "step_call e \<Longrightarrow> after_call e c = c"
  by (cases e) simp_all

lemma stored_unchanged: "list_all (\<lambda>e. after_call e c = c) evs \<Longrightarrow> fold after_call evs c = c"
  by (induction evs) simp_all

lemma reconcile_keeps_converged:
  assumes "converged L items c" and "masters_are E L c items" and "DeletionTimestamp (Meta c) = None"
  shows "obeys (reconcile_config E L namespace version CRDList order c) []
    (\<lambda>r new. list_all (\<lambda>e. after_call e c = c) new)"
proof -
  have "obeys (run_steps (reconcile_steps E L namespace version order) c) []
      (\<lambda>out new. step_ok c out new \<and> (fst out = None \<longrightarrow> Status (snd out) = Status c))"
    by (rule obeys_conj [OF all_steps.step_ok steps_keep_converged [OF assms(1,2)]])
  then show ?thesis
    unfolding reconcile_config_def PatchConfigurationStatus_def
    using assms(1,3) apply (simp only: converged_def simp_thms if_False)
    apply (rule obeys_bind, erule obeys_mono)
    apply (auto intro!: obeys_rules simp: step_ok_def list_all_iff step_call_stored)
    done
qed

section \<open>A cooperative cluster makes a configuration converge\<close>

lemma ConditionExists_cong: "Conditions (Status c) = Conditions (Status c') \<Longrightarrow> ConditionExists c t = ConditionExists c' t"
  by (simp add: ConditionExists_def)

lemma init_all:
  "obeys (initializeConditions E c) [] (\<lambda>out new. fst out = None \<and> list_all (ConditionExists (snd out)) baseline_conditions)"
proof (rule obeys_result)
  show "appends (initializeConditions E c)" by (rule obeys_appends [OF initializeConditions_step])
  fix tr
  obtain nows where nows: "length nows = length baseline_conditions" and
    eq: "result (initializeConditions E c) tr = (None,
      cond.put_all_missing metav1_ConditionUnknown ''Unknown'' ConditionUnknownReason (zip baseline_conditions nows) c)"
    using initializeConditions_result by blast
  from nows have "fst ` set (zip baseline_conditions nows) = set baseline_conditions"
    by (metis list.set_map map_fst_zip)
  then show "fst (result (initializeConditions E c) tr) = None \<and>
      list_all (ConditionExists (snd (result (initializeConditions E c) tr))) baseline_conditions"
    by (simp add: eq list_all_iff cond.has_put_all_missing)
qed

lemma apply_keeps_rest:
  "obeys (applyObject E L namespace version order c) [] (\<lambda>out new. fst out = None \<longrightarrow>
     MatchingNodeAddresses (Status (snd out)) = MatchingNodeAddresses (Status c) \<and>
     (\<forall>t. ConditionExists (snd out) t = ConditionExists c t))"
  by (rule obeys_mono [OF applyObject_outcome]) (auto split: prod.splits simp: ConditionExists_def)

definition described :: "Node list \<Rightarrow> goerror option \<times> Configuration \<Rightarrow> bool" where
  "described items out \<longleftrightarrow> (fst out = None \<longrightarrow> list_all (ConditionExists (snd out)) baseline_conditions \<and>
     MatchingNodeAddresses (Status (snd out)) = sort (found_addresses items))"

lemma described_error [simp]: "described items (Some e, c)"
  by (simp add: described_def)

lemma steps_describe:
  assumes "masters_are E L c items"
  shows "obeys (run_steps (reconcile_steps E L namespace version order) c) [] (\<lambda>out new. described items out)"
proof -
  have last: "obeys (run_steps [applyObject E L namespace version order] c') acc (\<lambda>out new. described items out)"
    if "list_all (ConditionExists c') baseline_conditions" "MatchingNodeAddresses (Status c') = sort (found_addresses items)" for c' acc
    unfolding run_steps.simps
    by (rule obeys_bind, rule obeys_frame [OF apply_keeps_rest])
       (use that in \<open>auto intro!: obeys_rules simp: described_def list_all_iff\<close>)
  have nodes: "obeys (run_steps [findMasterNodes E L, applyObject E L namespace version order] c') acc (\<lambda>out new. described items out)"
    if "list_all (ConditionExists c') baseline_conditions" "MasterNodesLabel (Spec c') = MasterNodesLabel (Spec c)" for c' acc
    unfolding run_steps.simps(2) [of "findMasterNodes E L"]
    by (rule obeys_bind, rule obeys_frame [OF nodes_sorted [OF assms that(2)]])
       (use that(1) in \<open>auto simp: list_all_iff simp del: run_steps.simps intro!: last\<close>)
  have ns: "obeys (run_steps [reconcileClusterScopedReference E, findMasterNodes E L, applyObject E L namespace version order] c')
      acc (\<lambda>out new. described items out)"
    if "list_all (ConditionExists c') baseline_conditions" "MasterNodesLabel (Spec c') = MasterNodesLabel (Spec c)" for c' acc
    unfolding run_steps.simps(2) [of "reconcileClusterScopedReference E"]
    by (rule obeys_bind, rule obeys_frame [OF namespace_keeps])
       (use that in \<open>auto simp del: run_steps.simps intro!: obeys_rules nodes\<close>)
  show ?thesis
    unfolding reconcile_steps_def run_steps.simps(2) [of "initializeConditions E"]
    by (rule obeys_bind, rule obeys_mono [OF obeys_conj [OF init_all init_up]])
       (auto simp: early_ok_def simp del: run_steps.simps intro!: ns same_object_label)
qed

lemma after_calls_keep [simp]:
  "Spec (fold after_call evs c) = Spec c" "DeletionTimestamp (Meta (fold after_call evs c)) = DeletionTimestamp (Meta c)"
  "Namespace (Meta (fold after_call evs c)) = Namespace (Meta c)"
proof -
  have one: "Spec (after_call e c) = Spec c \<and> DeletionTimestamp (Meta (after_call e c)) = DeletionTimestamp (Meta c) \<and>
      Namespace (Meta (after_call e c)) = Namespace (Meta c)" for e c
    by (induction e c rule: after_call.induct) (simp_all add: set_finalizers_def)
  show "Spec (fold after_call evs c) = Spec c" "DeletionTimestamp (Meta (fold after_call evs c)) = DeletionTimestamp (Meta c)"
    "Namespace (Meta (fold after_call evs c)) = Namespace (Meta c)"
    by (induction evs arbitrary: c) (simp_all add: one)
qed

lemma converged_stored:
  assumes "described items (None, config)" and "StatusText (Status config) = ConfigurationStatusDeployed"
    and "libContainsFinalizer L (Finalizers (Meta c)) KubeOVNConfigurationFinalizer"
  shows "converged L items (c\<lparr>Status := Status config\<rparr>)"
  using assms by (simp add: converged_def described_def list_all_iff ConditionExists_def)

lemma converged_already:
  assumes "described items (None, config)" and "StatusText (Status config) = ConfigurationStatusDeployed"
    and "libContainsFinalizer L (Finalizers (Meta c)) KubeOVNConfigurationFinalizer" and "Status c = Status config"
  shows "converged L items c"
  using converged_stored [OF assms(1-3)] by (simp add: assms(4) [symmetric])

lemma reconcile_converges:
  assumes "cooperative E L" and "DeletionTimestamp (Meta c) = None"
    and "libContainsFinalizer L (Finalizers (Meta c)) KubeOVNConfigurationFinalizer"
    and "StatusText (Status c) \<noteq> ConfigurationStatusDeploying"
    and "masters_are E L c items" and "renders E L version order c"
  shows "obeys (reconcile_config E L namespace version CRDList order c) []
    (\<lambda>r new. converged L items (fold after_call new c))"
proof -
  let ?Q = "\<lambda>out new. fold after_call new c = c \<and> described items out \<and> fst out = None \<and>
      StatusText (Status (snd out)) = ConfigurationStatusDeployed"
  have quiet: "step_ok c out new \<Longrightarrow> fold after_call new c = c" for out new
    by (intro stored_unchanged) (auto simp: step_ok_def list_all_iff step_call_stored)
  have "obeys (run_steps (reconcile_steps E L namespace version order) c) [] ?Q"
    by (rule obeys_mono [OF obeys_conj [OF all_steps.step_ok obeys_conj [OF steps_describe [OF assms(5)]
          steps_up [OF assms(1) assms(6) masters_are_found [OF assms(5)] assms(4)]]]])
       (use quiet in blast)
  then show ?thesis
    unfolding reconcile_config_def PatchConfigurationStatus_def
    apply (simp only: assms(2,3) simp_thms if_False)
    apply (rule obeys_bind, erule obeys_mono)
    apply (rule obeys_case_prod, rule obeys_case_option)
     apply (rule obeys_if)
      apply (rule obeys_return)
      apply (force intro: converged_already [OF _ _ assms(3)])
     apply (rule obeys_bind, rule obeys_answer, rule obeys_return)
     apply (simp add: cooperativeD(5) [OF assms(1)] converged_stored [OF _ _ assms(3)])
    apply simp
    done
qed

section \<open>Single reconciles of the loop\<close>

lemma stored_by_reconcile:
  assumes "obeys (reconcile_config (reading E c) L namespace version CRDList order c) [] (\<lambda>r new. P (fold after_call new c))"
  shows "P (snd (reconcile_once E L namespace version CRDList req order (tr, c)))"
  using obeysD [OF assms, of "tr @ [EvGetConfiguration req (Inr c)]"]
  unfolding reconcile_once_def prod.case Let_def snd_conv ConfigurationReconcile_fetch_then cfg.calls_fetch_then by simp

lemma once_keeps_converged:
  assumes "converged L items c" and "masters_are E L c items" and "DeletionTimestamp (Meta c) = None"
  shows "snd (reconcile_once E L namespace version CRDList req order (tr, c)) = c"
  by (rule stored_by_reconcile, rule obeys_mono [OF reconcile_keeps_converged [where L = L and items = items]])
     (use assms in \<open>simp_all add: stored_unchanged\<close>)

lemma once_converges:
  assumes "cooperative E L" and "DeletionTimestamp (Meta c) = None"
    and "libContainsFinalizer L (Finalizers (Meta c)) KubeOVNConfigurationFinalizer"
    and "StatusText (Status c) \<noteq> ConfigurationStatusDeploying"
    and "masters_are E L c items" and "renders E L version order c"
  shows "converged L items (snd (reconcile_once E L namespace version CRDList req order (tr, c)))"
  by (rule stored_by_reconcile, rule reconcile_converges) (use assms in simp_all)

lemma once_adds_finalizer:
  assumes "DeletionTimestamp (Meta c) = None"
    and "\<not> libContainsFinalizer L (Finalizers (Meta c)) KubeOVNConfigurationFinalizer"
    and "\<forall>tr new base. apiPatchConfiguration E tr new base = None"
  shows "snd (reconcile_once E L namespace version CRDList req order (tr, c)) =
    set_finalizers c (libAddFinalizer L (Finalizers (Meta c)) KubeOVNConfigurationFinalizer)"
  apply (rule stored_by_reconcile)
  unfolding reconcile_config_def PatchConfiguration_def
  apply (simp only: assms(1,2) simp_thms if_False if_True)
  apply (rule obeys_bind, rule obeys_answer, rule obeys_return)
  apply (simp add: assms(3) set_finalizers_def)
  done

lemma once_keeps_spec:
  "Spec (snd (reconcile_once E L namespace version CRDList req order s)) = Spec (snd s)"
  "DeletionTimestamp (Meta (snd (reconcile_once E L namespace version CRDList req order s))) = DeletionTimestamp (Meta (snd s))"
  by (simp_all add: reconcile_once_def Let_def split: prod.split)

lemma masters_are_cong: "Spec c' = Spec c \<Longrightarrow> masters_are E L c' items = masters_are E L c items"
  by (simp add: masters_are_def)

lemma loop_keeps_converged:
  assumes "converged L items (snd s)" and "masters_are E L (snd s) items" and "DeletionTimestamp (Meta (snd s)) = None"
  shows "snd (fold (reconcile_once E L namespace version CRDList req) orders s) = snd s"
  using assms
proof (induction orders arbitrary: s)
  case (Cons order orders)
  have "snd (reconcile_once E L namespace version CRDList req order s) = snd s"
    using once_keeps_converged [of L items "snd s" E _ _ _ _ _ "fst s"] Cons.prems by simp
  with Cons show ?case by simp
qed simp

lemma renders_cong:
  "Spec c' = Spec c \<Longrightarrow> Namespace (Meta c') = Namespace (Meta c) \<Longrightarrow> renders E L version order c' = renders E L version order c"
  by (simp add: renders_def patch_version_def)

text \<open>Two reconciles suffice: one may be spent on the finalizer.\<close>

lemma twice_converges:
  assumes "finalizer_laws L" and "cooperative E L" and "\<forall>tr new base. apiPatchConfiguration E tr new base = None"
    and "DeletionTimestamp (Meta c) = None" and "StatusText (Status c) \<noteq> ConfigurationStatusDeploying"
    and "masters_are E L c items" and "renders E L version first c" and "renders E L version second c"
  shows "converged L items (snd (reconcile_once E L namespace version CRDList req second
    (reconcile_once E L namespace version CRDList req first (tr, c))))"
    (is "converged L items (snd (?once second (?once first (tr, c))))")
proof (cases "libContainsFinalizer L (Finalizers (Meta c)) KubeOVNConfigurationFinalizer")
  case True
  have conv: "converged L items (snd (?once first (tr, c)))"
    by (rule once_converges [OF assms(2,4) True assms(5,6,7)])
  moreover have "masters_are E L (snd (?once first (tr, c))) items"
    using assms(6) masters_are_cong [of "snd (?once first (tr, c))" c] by (simp add: once_keeps_spec)
  moreover have "DeletionTimestamp (Meta (snd (?once first (tr, c)))) = None"
    using assms(4) by (simp add: once_keeps_spec)
  ultimately have "snd (?once second (fst (?once first (tr, c)), snd (?once first (tr, c)))) = snd (?once first (tr, c))"
    by (rule once_keeps_converged)
  with conv show ?thesis by simp
next
  case False
  let ?c = "set_finalizers c (libAddFinalizer L (Finalizers (Meta c)) KubeOVNConfigurationFinalizer)"
  have c: "snd (?once first (tr, c)) = ?c" by (rule once_adds_finalizer [OF assms(4) False assms(3)])
  have keep: "DeletionTimestamp (Meta ?c) = None" "StatusText (Status ?c) \<noteq> ConfigurationStatusDeploying"
    "Spec ?c = Spec c" "Namespace (Meta ?c) = Namespace (Meta c)"
    "libContainsFinalizer L (Finalizers (Meta ?c)) KubeOVNConfigurationFinalizer"
    using assms(1,4,5) by (simp_all add: set_finalizers_def finalizer_laws_def)
  have "converged L items (snd (?once second (fst (?once first (tr, c)), ?c)))"
    by (rule once_converges [OF assms(2) keep(1,5,2)])
       (use assms(6,8) masters_are_cong [OF keep(3)] renders_cong [OF keep(3,4)] in simp_all)
  then show ?thesis unfolding c [symmetric] by simp
qed

section \<open>Properties\<close>

text \<open>
  C6: the reconcile loop converges. In a cooperative cluster whose master nodes stay the same and with
  templates that render, two reconciles bring any live configuration, with or without the finalizer, whose
  status text is not \<^verbatim>\<open>Deploying\<close> (for which the code skips applying), to a state that has the
  finalizer, all five conditions, the sorted addresses of the master nodes and the status Deployed, with the
  specification untouched; and no later reconcile, whatever the order of its types, changes the stored
  resource again, so the loop does not trigger itself for ever.
\<close>

theorem reconcile_loop_converges:
  assumes "finalizer_laws L" and "cooperative E L" and "\<forall>tr new base. apiPatchConfiguration E tr new base = None"
    and "DeletionTimestamp (Meta c) = None" and "StatusText (Status c) \<noteq> ConfigurationStatusDeploying"
    and "masters_are E L c items" and "renders E L version first c" and "renders E L version second c"
  shows "\<exists>c'. converged L items c' \<and> Spec c' = Spec c \<and>
    (\<forall>rest. snd (fold (reconcile_once E L namespace version CRDList req) (first # second # rest) (tr, c)) = c')"
proof (intro exI conjI allI)
  let ?s = "reconcile_once E L namespace version CRDList req second (reconcile_once E L namespace version CRDList req first (tr, c))"
  show conv: "converged L items (snd ?s)" by (rule twice_converges [OF assms])
  show spec: "Spec (snd ?s) = Spec c" by (simp add: once_keeps_spec)
  show "snd (fold (reconcile_once E L namespace version CRDList req) (first # second # rest) (tr, c)) = snd ?s" for rest
    using loop_keeps_converged [OF conv] assms(4,6) by (simp add: once_keeps_spec masters_are_cong [OF spec])
qed

text \<open>Data for the witness: a configuration without the finalizer.\<close>

definition demo_unmarked :: Configuration where
  "demo_unmarked = set_finalizers demo_fresh []"

theorem reconcile_loop_converges_witness:
  "\<exists>c'. Spec c' = Spec demo_unmarked \<and> StatusText (Status c') = ConfigurationStatusDeployed \<and>
     MatchingNodeAddresses (Status c') = [''10.0.0.1''] \<and>
     (\<forall>rest. snd (fold (reconcile_once demo_install_env demo_install_libs ''kube-system'' ''v1'' [] (''kube-system'', ''kubeovn''))
        (demo_order # demo_order # rest) ([], demo_unmarked)) = c')"
proof -
  let ?items = "[\<lparr>NodeMeta = zero_ObjectMeta, Addresses = [(''InternalIP'', ''10.0.0.1'')]\<rparr>]"
  have addresses: "found_addresses ?items = [''10.0.0.1'']"
    by (simp add: found_addresses_def nodeInternalIP_def)
  have 1: "finalizer_laws demo_install_libs" by (auto simp: finalizer_laws_def demo_install_libs_def ref_libs_def)
  have 2: "cooperative demo_install_env demo_install_libs" "\<forall>tr new base. apiPatchConfiguration demo_install_env tr new base = None"
    by (simp_all add: cooperative_def demo_install_env_def demo_install_libs_def ref_env_def ref_libs_def)
  have 3: "DeletionTimestamp (Meta demo_unmarked) = None" "StatusText (Status demo_unmarked) \<noteq> ConfigurationStatusDeploying"
    by code_simp+
  have 4: "masters_are demo_install_env demo_install_libs demo_unmarked ?items"
    unfolding masters_are_def addresses by (simp add: demo_install_env_def demo_install_libs_def)
  have 5: "renders demo_install_env demo_install_libs ''v1'' demo_order demo_unmarked"
    by (rule iffD2 [OF renders_cong demo_renders]) (simp_all add: demo_unmarked_def set_finalizers_def)
  from reconcile_loop_converges [OF 1 2 3 4 5 5, where namespace = "''kube-system''" and CRDList = "[]"
      and req = "(''kube-system'', ''kubeovn'')" and tr = "[]"]
  show ?thesis unfolding converged_def addresses by (elim exE conjE) (intro exI conjI, assumption+, simp, assumption)
qed

end
