(* ===== verification/Values_Roundtrip.thy ===== *)
theory Values_Roundtrip
  imports Render_Properties
begin

text \<open>
  The value tree of the templates (\<open>json_ConfigurationSpec\<close>, \<^verbatim>\<open>generateMap\<close>) read back: the decoder that
  goes with the JSON tags of \<^verbatim>\<open>api/v1/configuration_types.go\<close>, and the proof that it recovers the
  specification from the values, so that no two fields share a path, \<^verbatim>\<open>omitempty\<close> loses nothing, and the
  values that \<^verbatim>\<open>GenerateObjects\<close> adds overwrite none.
\<close>

section \<open>Decoding by tags\<close>

text \<open>A missing field, and one of another type, is the zero value.\<close>

type_synonym fields = "string \<Rightarrow> gval option"

definition un_str :: "gval option \<Rightarrow> string" where
  "un_str v = (case v of Some (VStr s) \<Rightarrow> s | _ \<Rightarrow> '''')"

definition un_ptr :: "gval option \<Rightarrow> bool option" where
  "un_ptr v = (case v of Some (VBool b) \<Rightarrow> Some b | _ \<Rightarrow> None)"

definition un_bool :: "gval option \<Rightarrow> bool" where
  "un_bool v = (case v of Some (VBool b) \<Rightarrow> b | _ \<Rightarrow> False)"

definition un_int :: "gval option \<Rightarrow> int" where
  "un_int v = (case v of Some (VFloat m e) \<Rightarrow> (if e = 0 then m else 0) | _ \<Rightarrow> 0)"

definition un_strs :: "gval option \<Rightarrow> string list" where
  "un_strs v = (case v of Some (VList xs) \<Rightarrow> map (\<lambda>x. un_str (Some x)) xs | _ \<Rightarrow> [])"

definition un_quantity :: "gval option \<Rightarrow> quantity" where
  "un_quantity v = (case v of Some (VStr s) \<Rightarrow> s | _ \<Rightarrow> ''0'')"

definition un_struct :: "gval option \<Rightarrow> fields" where
  "un_struct v = (case v of Some (VMap m) \<Rightarrow> map_of m | _ \<Rightarrow> (\<lambda>_. None))"

definition read_CPUMemSpec :: "fields \<Rightarrow> CPUMemSpec" where
  "read_CPUMemSpec look =
    \<lparr>CPU = un_quantity (look ''cpu''), Memory = un_quantity (look ''memory''),
      EphemeralStorage = un_quantity (look ''ephemeralStorage'')\<rparr>"

definition read_ResourceSpec :: "fields \<Rightarrow> ResourceSpec" where
  "read_ResourceSpec look =
    \<lparr>Requests = read_CPUMemSpec (un_struct (look ''requests'')),
      Limits = read_CPUMemSpec (un_struct (look ''limits''))\<rparr>"

definition read_NetworkStackSpec :: "fields \<Rightarrow> NetworkStackSpec" where
  "read_NetworkStackSpec look =
    \<lparr>PodCIDR = un_str (look ''podCIDR''), PodGateway = un_str (look ''podGateway''),
      ServiceCIDR = un_str (look ''serviceCIDR''), JoinCIDR = un_str (look ''joinCIDR''),
      PingerExternalAddress = un_str (look ''pingerExternalAddress''),
      PingerExternalDomain = un_str (look ''pingerExternalDomain'')\<rparr>"

definition read_VlanSpec :: "fields \<Rightarrow> VlanSpec" where
  "read_VlanSpec look =
    \<lparr>ProviderName = un_str (look ''providerName''), VlanInterface = un_str (look ''vlanInterface''),
      VlanName = un_str (look ''vlanName''), VlanID = un_int (look ''vlanId'')\<rparr>"

definition read_NetworkingSpec :: "fields \<Rightarrow> NetworkingSpec" where
  "read_NetworkingSpec look =
    \<lparr>NetStack = un_str (look ''netStack''), EnableSSL = un_ptr (look ''enableSSL''),
      NetworkType = un_str (look ''networkType''), TunnelType = un_str (look ''tunnelType''),
      Interface = un_str (look ''interface''), DpdkTunnelInterface = un_str (look ''dpdkTunnelInterface''),
      ExcludeIPS = un_str (look ''excludeIPS''), PodNicType = un_str (look ''podNicType''),
      Vlan = read_VlanSpec (un_struct (look ''vlan'')),
      ExchangeLinkName = un_ptr (look ''exchangeLinkName''),
      EnableEIPSNAT = un_ptr (look ''enableEIPSNAT''), DefaultSubnet = un_str (look ''defaultSubnet''),
      DefaultVPC = un_str (look ''defaultVPC''), NodeSubnet = un_str (look ''nodeSubnet''),
      EnableECMP = un_ptr (look ''enableECMP''), EnableMetrics = un_ptr (look ''enableMetrics''),
      NodeLocalDNSIPS = un_str (look ''nodeLocalDNSIPS''), ProbeInterval = un_int (look ''probeInterval''),
      OvnNorthdProbeInterval = un_int (look ''ovnNorthdProbeInterval''),
      OvnLeaderProbeInterval = un_int (look ''ovnLeaderProbeInterval''),
      OvnRemoteProbeInterval = un_int (look ''ovnRemoteProbeInterval''),
      OvnRemoteOpenflowInterval = un_int (look ''ovnRemoteOpenflowInterval''),
      OvnNorthdNThreads = un_int (look ''ovnNorthdNThreads''),
      EnableCompact = un_ptr (look ''enableCompact''),
      SkipConnTrackDstCIDRs = un_str (look ''skipConnTrackDstCIDRs''),
      ExternalGatewayConfigNS = un_str (look ''externalGatewayConfigNS'')\<rparr>"

definition read_U2OFeatures :: "fields \<Rightarrow> U2OFeatures" where
  "read_U2OFeatures look =
    \<lparr>OverlayOnlyRouting = un_bool (look ''overlayOnlyRouting'')\<rparr>"

definition read_ComponentSpec :: "fields \<Rightarrow> ComponentSpec" where
  "read_ComponentSpec look =
    \<lparr>EnableLB = un_ptr (look ''enableLB''), EnableNP = un_ptr (look ''enableNP''),
      EnableExternalVPC = un_ptr (look ''enableExternalVPC''),
      HardwareOffload = un_ptr (look ''hardwareOffload''), EnableLBSVC = un_ptr (look ''enableLBSVC''),
      EnableKeepVMIP = un_ptr (look ''enableKeepVMIP''), LsDnatModDlDst = un_ptr (look ''lsDnatModDlDst''),
      LsCtSkipOstLportIPS = un_ptr (look ''lsCtSkipOstLportIPS''),
      CheckGateway = un_ptr (look ''checkGateway''), LogicalGateway = un_ptr (look ''logicalGateway''),
      EnableBindLocalIP = un_ptr (look ''enableBindLocalIP''),
      SecureServing = un_ptr (look ''secureServing''),
      U2OFeaturesField = read_U2OFeatures (un_struct (look ''u2oFeatures'')),
      U2OInterconnection = un_ptr (look ''u2oInterconnection''),
      EnableTProxy = un_ptr (look ''enableTProxy''), EnableIC = un_ptr (look ''enableIC''),
      EnableNATGateway = un_ptr (look ''enableNATGateway''),
      EnableOVNIPSec = un_ptr (look ''enableOVNIPSec''), EnableANP = un_ptr (look ''enableANP''),
      SetVLANTxOff = un_ptr (look ''setVLANTxOff''), OVSDBConTimeout = un_int (look ''OVSDBConTimeout''),
      OVSDBInactivityTimeout = un_int (look ''OVSDBInactivityTimeout''),
      EnableLiveMigrationOptimize = un_ptr (look ''enableLiveMigrationOptimize''),
      NPEnforcement = un_str (look ''npEnforcement''),
      EnableDNSNameResolver = un_ptr (look ''enableDNSNameResolver''),
      EnableOVNLBPreferLocal = un_ptr (look ''enableOVNLBPreferLocal'')\<rparr>"

definition read_RegistrySpec :: "fields \<Rightarrow> RegistrySpec" where
  "read_RegistrySpec look =
    \<lparr>Address = un_str (look ''address''), ImagePullSecrets = un_strs (look ''imagePullSecrets'')\<rparr>"

definition read_KubeOVNImageSpec :: "fields \<Rightarrow> KubeOVNImageSpec" where
  "read_KubeOVNImageSpec look =
    \<lparr>Repository = un_str (look ''repository''), Tag = un_str (look ''tag''),
      DpdkRepository = un_str (look ''dpdkRepository''), VpcRepository = un_str (look ''vpcRepository'')\<rparr>"

definition read_NATGatewayImageSpec :: "fields \<Rightarrow> NATGatewayImageSpec" where
  "read_NATGatewayImageSpec look =
    \<lparr>NATRepository = un_str (look ''repository''), NATTag = un_str (look ''tag'')\<rparr>"

definition read_ImageDetails :: "fields \<Rightarrow> ImageDetails" where
  "read_ImageDetails look =
    \<lparr>KubeOVNImage = read_KubeOVNImageSpec (un_struct (look ''kubeovn'')),
      NATGatewayImage = read_NATGatewayImageSpec (un_struct (look ''natgateway''))\<rparr>"

definition read_GlobalSpec :: "fields \<Rightarrow> GlobalSpec" where
  "read_GlobalSpec look =
    \<lparr>Registry = read_RegistrySpec (un_struct (look ''registry'')),
      Images = read_ImageDetails (un_struct (look ''images''))\<rparr>"

definition read_CNIConfSpec :: "fields \<Rightarrow> CNIConfSpec" where
  "read_CNIConfSpec look =
    \<lparr>CNIConfigPriority = un_str (look ''cniConfigPriority''),
      CNIConfigDir = un_str (look ''cniConfigDir''), MountCNIConfDir = un_str (look ''mountCNIConfDir''),
      CNIBinDir = un_str (look ''cniBinDir''), CNIConfFile = un_str (look ''cniConfFile''),
      LocalBinDir = un_str (look ''localBinDir''), MountLocalBinDir = un_ptr (look ''mountLocalBinDir''),
      NonPrimaryCNI = un_ptr (look ''nonPrimaryCNI'')\<rparr>"

definition read_PerformanceSpec :: "fields \<Rightarrow> PerformanceSpec" where
  "read_PerformanceSpec look =
    \<lparr>GCInterval = un_int (look ''gcInterval''), InspectInterval = un_int (look ''inspectInterval''),
      OVSVSCtlConcurrency = un_int (look ''ovsVSCtlConcurrency'')\<rparr>"

definition read_DebugSpec :: "fields \<Rightarrow> DebugSpec" where
  "read_DebugSpec look =
    \<lparr>EnableMirror = un_ptr (look ''enableMirror''),
      MirrorInterface = un_str (look ''mirrorInterface'')\<rparr>"

definition read_KubeletConfigSpec :: "fields \<Rightarrow> KubeletConfigSpec" where
  "read_KubeletConfigSpec look =
    \<lparr>KubeletDir = un_str (look ''kubeletDir'')\<rparr>"

definition read_LogConfigSpec :: "fields \<Rightarrow> LogConfigSpec" where
  "read_LogConfigSpec look =
    \<lparr>LogDir = un_str (look ''logDir'')\<rparr>"

definition read_ConfigurationSpec :: "fields \<Rightarrow> ConfigurationSpec" where
  "read_ConfigurationSpec look =
    \<lparr>Global = read_GlobalSpec (un_struct (look ''global'')),
      ImagePullPolicy = un_str (look ''imagePullPolicy''),
      MasterNodesLabel = un_str (look ''masterNodesLabel''),
      Networking = read_NetworkingSpec (un_struct (look ''networking'')),
      Component = read_ComponentSpec (un_struct (look ''components'')),
      IPv4 = read_NetworkStackSpec (un_struct (look ''ipv4'')),
      IPv6 = read_NetworkStackSpec (un_struct (look ''ipv6'')),
      DualStack = read_NetworkStackSpec (un_struct (look ''dualStack'')),
      Performance = read_PerformanceSpec (un_struct (look ''performance'')),
      Debug = read_DebugSpec (un_struct (look ''debug'')),
      CNIConf = read_CNIConfSpec (un_struct (look ''cniConf'')),
      KubeletConfig = read_KubeletConfigSpec (un_struct (look ''kubeletConfig'')),
      LogConfig = read_LogConfigSpec (un_struct (look ''logConfig'')),
      OpenVSwitchDir = un_str (look ''openVSwitchDir''),
      OVNIPSecKeysDir = un_str (look ''ovnIPSecKeysDir''), OVNDir = un_str (look ''ovnDir''),
      DisableModulesManagement = un_ptr (look ''disableModulesManagement''),
      HybridDPDK = un_ptr (look ''hybridDPDK''), HugepageSizeType = un_str (look ''hugepageSizeType''),
      HugePages = un_quantity (look ''hugePages''), DPDKImageTag = un_str (look ''dpdkImageTag''),
      DPDKCPU = un_quantity (look ''dpdkCPU''), DPDKMemory = un_quantity (look ''dpdkMEMORY''),
      OVNCentral = read_ResourceSpec (un_struct (look ''ovnCentral'')),
      OVSOVN = read_ResourceSpec (un_struct (look ''ovsOVN'')),
      KubeOVNController = read_ResourceSpec (un_struct (look ''kubeOvnController'')),
      KubeOVNCNI = read_ResourceSpec (un_struct (look ''kubeOvnCNI'')),
      KubeOVNPinger = read_ResourceSpec (un_struct (look ''kubeOvnPinger'')),
      KubeOVNMonitor = read_ResourceSpec (un_struct (look ''kubeOvnMonitor''))\<rparr>"

section \<open>Reading back what was encoded\<close>

text \<open>
  An encoded struct is a concatenation of blocks, one per tag. If the tags are distinct, the look-up of a
  tag finds what its block holds.
\<close>

definition only :: "string \<Rightarrow> (string \<times> gval) list \<Rightarrow> bool" where
  "only k xs \<longleftrightarrow> (\<forall>x \<in> set xs. fst x = k)"

lemma only_blocks [simp]:
  "only k (j_str k s)" "only k (j_ptr k p)" "only k (j_bool k b)" "only k (j_int k n)" "only k (j_strs k xs)"
  "only k (j_struct k m)" "only k (j_quantity k q)"
  by (simp_all add: only_def j_str_def j_ptr_def j_bool_def j_int_def j_strs_def j_struct_def j_quantity_def
      split: option.split)

lemma only_None: "only k xs \<Longrightarrow> j \<noteq> k \<Longrightarrow> map_of xs j = None"
  by (auto simp: only_def map_of_eq_None_iff)

lemma blocks_None: "list_all2 only ks xss \<Longrightarrow> k \<notin> set ks \<Longrightarrow> map_of (concat xss) k = None"
  by (induction ks xss rule: list_all2_induct) (auto simp: only_None map_add_def)

lemma blocks:
  assumes "list_all2 only ks xss" and "distinct ks"
  shows "list_all2 (\<lambda>k xs. map_of (concat xss) k = map_of xs k) ks xss"
  using assms
proof (induction ks xss rule: list_all2_induct)
  case (Cons k ks xs xss)
  have "map_of (xs @ concat xss) k = map_of xs k"
    using Cons.prems blocks_None [OF Cons.hyps(2), of k] by (simp add: map_add_def split: option.split)
  moreover have "map_of (xs @ concat xss) k' = map_of (concat xss) k'" if "k' \<in> set ks" for k'
  proof -
    have "k' \<noteq> k" using that Cons.prems by auto
    from only_None [OF Cons.hyps(1) this] show ?thesis by (simp add: map_add_def split: option.split)
  qed
  ultimately show ?case
    using Cons.IH Cons.prems by (simp add: list_all2_conv_all_nth All_less_Suc2 del: map_of_append)
qed simp

lemma fields_of:
  assumes "m = concat xss" and "distinct ks" and "list_all2 only ks xss"
    and "list_all2 (\<lambda>k xs. map_of m k = map_of xs k) ks xss \<Longrightarrow> P"
  shows P
  using assms blocks by blast

lemma own_key:
  "un_str (map_of (j_str k s) k) = s" "un_ptr (map_of (j_ptr k p) k) = p" "un_bool (map_of (j_bool k b) k) = b"
  "un_int (map_of (j_int k n) k) = n" "un_strs (map_of (j_strs k xs) k) = xs"
  "un_struct (map_of (j_struct k m) k) = map_of m" "un_quantity (map_of (j_quantity k q) k) = q"
  by (simp_all add: un_str_def un_ptr_def un_bool_def un_int_def un_strs_def un_struct_def un_quantity_def
      comp_def split: option.split)

lemma read_json_CPUMemSpec [simp]: "read_CPUMemSpec (map_of (json_CPUMemSpec r)) = r"
  by (rule fields_of [OF json_CPUMemSpec_def [of r], where ks = "[''cpu'', ''memory'', ''ephemeralStorage'']"])
     (code_simp, simp, simp only: read_CPUMemSpec_def list.rel_inject own_key, simp)

lemma read_json_ResourceSpec [simp]: "read_ResourceSpec (map_of (json_ResourceSpec r)) = r"
  by (rule fields_of [OF json_ResourceSpec_def [of r], where ks = "[''requests'', ''limits'']"])
     (code_simp, simp, simp only: read_ResourceSpec_def list.rel_inject own_key, simp)

lemma read_json_NetworkStackSpec [simp]: "read_NetworkStackSpec (map_of (json_NetworkStackSpec r)) = r"
  by (rule fields_of [OF json_NetworkStackSpec_def [of r], where ks = "[''podCIDR'', ''podGateway'', ''serviceCIDR'', ''joinCIDR'', ''pingerExternalAddress'',
      ''pingerExternalDomain'']"])
     (code_simp, simp, simp only: read_NetworkStackSpec_def list.rel_inject own_key, simp)

lemma read_json_VlanSpec [simp]: "read_VlanSpec (map_of (json_VlanSpec r)) = r"
  by (rule fields_of [OF json_VlanSpec_def [of r], where ks = "[''providerName'', ''vlanInterface'', ''vlanName'', ''vlanId'']"])
     (code_simp, simp, simp only: read_VlanSpec_def list.rel_inject own_key, simp)

lemma read_json_NetworkingSpec [simp]: "read_NetworkingSpec (map_of (json_NetworkingSpec r)) = r"
  by (rule fields_of [OF json_NetworkingSpec_def [of r], where ks = "[''netStack'', ''enableSSL'', ''networkType'', ''tunnelType'', ''interface'', ''dpdkTunnelInterface'',
      ''excludeIPS'', ''podNicType'', ''vlan'', ''exchangeLinkName'', ''enableEIPSNAT'', ''defaultSubnet'',
      ''defaultVPC'', ''nodeSubnet'', ''enableECMP'', ''enableMetrics'', ''nodeLocalDNSIPS'', ''probeInterval'',
      ''ovnNorthdProbeInterval'', ''ovnLeaderProbeInterval'', ''ovnRemoteProbeInterval'',
      ''ovnRemoteOpenflowInterval'', ''ovnNorthdNThreads'', ''enableCompact'', ''skipConnTrackDstCIDRs'',
      ''externalGatewayConfigNS'']"])
     (code_simp, simp, simp only: read_NetworkingSpec_def list.rel_inject own_key, simp)

lemma read_json_CNIConfSpec [simp]: "read_CNIConfSpec (map_of (json_CNIConfSpec r)) = r"
  by (rule fields_of [OF json_CNIConfSpec_def [of r], where ks = "[''cniConfigPriority'', ''cniConfigDir'', ''mountCNIConfDir'', ''cniBinDir'', ''cniConfFile'', ''localBinDir'',
      ''mountLocalBinDir'', ''nonPrimaryCNI'']"])
     (code_simp, simp, simp only: read_CNIConfSpec_def list.rel_inject own_key, simp)

text \<open>The structs whose encoding is written in that of the enclosing one.\<close>

lemma read_inline [simp]:
  "read_U2OFeatures (map_of (j_bool ''overlayOnlyRouting'' b)) = \<lparr>OverlayOnlyRouting = b\<rparr>"
  "read_KubeletConfigSpec (map_of (j_str ''kubeletDir'' a)) = \<lparr>KubeletDir = a\<rparr>"
  "read_LogConfigSpec (map_of (j_str ''logDir'' a)) = \<lparr>LogDir = a\<rparr>"
  by (simp_all only: read_U2OFeatures_def read_KubeletConfigSpec_def read_LogConfigSpec_def own_key)

lemma read_RegistrySpec_inline [simp]:
  "read_RegistrySpec (map_of (concat [j_str ''address'' a, j_strs ''imagePullSecrets'' xs])) = \<lparr>Address = a, ImagePullSecrets = xs\<rparr>"
  by (rule fields_of [OF refl, where ks = "[''address'', ''imagePullSecrets'']" and xss = "[j_str ''address'' a, j_strs ''imagePullSecrets'' xs]"])
     (code_simp, simp, simp only: read_RegistrySpec_def list.rel_inject own_key)

lemma read_KubeOVNImageSpec_inline [simp]:
  "read_KubeOVNImageSpec (map_of (concat [j_str ''repository'' a, j_str ''tag'' b, j_str ''dpdkRepository'' c, j_str ''vpcRepository'' d]))
    = \<lparr>Repository = a, Tag = b, DpdkRepository = c, VpcRepository = d\<rparr>"
  by (rule fields_of [OF refl, where ks = "[''repository'', ''tag'', ''dpdkRepository'', ''vpcRepository'']"
      and xss = "[j_str ''repository'' a, j_str ''tag'' b, j_str ''dpdkRepository'' c, j_str ''vpcRepository'' d]"])
     (code_simp, simp, simp only: read_KubeOVNImageSpec_def list.rel_inject own_key)

lemma read_NATGatewayImageSpec_inline [simp]:
  "read_NATGatewayImageSpec (map_of (concat [j_str ''repository'' a, j_str ''tag'' b])) = \<lparr>NATRepository = a, NATTag = b\<rparr>"
  by (rule fields_of [OF refl, where ks = "[''repository'', ''tag'']" and xss = "[j_str ''repository'' a, j_str ''tag'' b]"])
     (code_simp, simp, simp only: read_NATGatewayImageSpec_def list.rel_inject own_key)

lemma read_ImageDetails_inline [simp]:
  "read_ImageDetails (map_of (concat [j_struct ''kubeovn'' m, j_struct ''natgateway'' n])) =
     \<lparr>KubeOVNImage = read_KubeOVNImageSpec (map_of m), NATGatewayImage = read_NATGatewayImageSpec (map_of n)\<rparr>"
  by (rule fields_of [OF refl, where ks = "[''kubeovn'', ''natgateway'']" and xss = "[j_struct ''kubeovn'' m, j_struct ''natgateway'' n]"])
     (code_simp, simp, simp only: read_ImageDetails_def list.rel_inject own_key)

lemma read_PerformanceSpec_inline [simp]:
  "read_PerformanceSpec (map_of (concat [j_int ''gcInterval'' a, j_int ''inspectInterval'' b, j_int ''ovsVSCtlConcurrency'' c])) =
     \<lparr>GCInterval = a, InspectInterval = b, OVSVSCtlConcurrency = c\<rparr>"
  by (rule fields_of [OF refl, where ks = "[''gcInterval'', ''inspectInterval'', ''ovsVSCtlConcurrency'']"
      and xss = "[j_int ''gcInterval'' a, j_int ''inspectInterval'' b, j_int ''ovsVSCtlConcurrency'' c]"])
     (code_simp, simp, simp only: read_PerformanceSpec_def list.rel_inject own_key)

lemma read_DebugSpec_inline [simp]:
  "read_DebugSpec (map_of (concat [j_ptr ''enableMirror'' p, j_str ''mirrorInterface'' a])) = \<lparr>EnableMirror = p, MirrorInterface = a\<rparr>"
  by (rule fields_of [OF refl, where ks = "[''enableMirror'', ''mirrorInterface'']" and xss = "[j_ptr ''enableMirror'' p, j_str ''mirrorInterface'' a]"])
     (code_simp, simp, simp only: read_DebugSpec_def list.rel_inject own_key)

lemmas read_inlines = read_inline read_RegistrySpec_inline read_KubeOVNImageSpec_inline read_NATGatewayImageSpec_inline
  read_ImageDetails_inline read_PerformanceSpec_inline read_DebugSpec_inline

lemma read_json_ComponentSpec [simp]: "read_ComponentSpec (map_of (json_ComponentSpec r)) = r"
  by (rule fields_of [OF json_ComponentSpec_def [of r], where ks = "[''enableLB'', ''enableNP'', ''enableExternalVPC'', ''hardwareOffload'', ''enableLBSVC'', ''enableKeepVMIP'',
      ''lsDnatModDlDst'', ''lsCtSkipOstLportIPS'', ''checkGateway'', ''logicalGateway'', ''enableBindLocalIP'',
      ''secureServing'', ''u2oFeatures'', ''u2oInterconnection'', ''enableTProxy'', ''enableIC'',
      ''enableNATGateway'', ''enableOVNIPSec'', ''enableANP'', ''setVLANTxOff'', ''OVSDBConTimeout'',
      ''OVSDBInactivityTimeout'', ''enableLiveMigrationOptimize'', ''npEnforcement'', ''enableDNSNameResolver'',
      ''enableOVNLBPreferLocal'']"])
     (code_simp, simp, simp only: read_ComponentSpec_def list.rel_inject own_key read_inlines, simp)

lemma read_json_GlobalSpec [simp]: "read_GlobalSpec (map_of (json_GlobalSpec r)) = r"
  by (rule fields_of [OF json_GlobalSpec_def [of r], where ks = "[''registry'', ''images'']"])
     (code_simp, simp, simp only: read_GlobalSpec_def list.rel_inject own_key read_inlines, simp)

lemma read_json_ConfigurationSpec [simp]: "read_ConfigurationSpec (map_of (json_ConfigurationSpec r)) = r"
  by (rule fields_of [OF json_ConfigurationSpec_def [of r], where ks = "[''global'', ''imagePullPolicy'', ''masterNodesLabel'', ''networking'', ''components'', ''ipv4'', ''ipv6'',
      ''dualStack'', ''performance'', ''debug'', ''cniConf'', ''kubeletConfig'', ''logConfig'', ''openVSwitchDir'',
      ''ovnIPSecKeysDir'', ''ovnDir'', ''disableModulesManagement'', ''hybridDPDK'', ''hugepageSizeType'',
      ''hugePages'', ''dpdkImageTag'', ''dpdkCPU'', ''dpdkMEMORY'', ''ovnCentral'', ''ovsOVN'',
      ''kubeOvnController'', ''kubeOvnCNI'', ''kubeOvnPinger'', ''kubeOvnMonitor'']"])
     (code_simp, simp, simp only: read_ConfigurationSpec_def list.rel_inject own_key read_inlines, simp)

section \<open>Properties\<close>

text \<open>The specification read back from a value tree.\<close>

definition spec_of_values :: "gval \<Rightarrow> ConfigurationSpec" where
  "spec_of_values v = read_ConfigurationSpec (un_struct (un_struct (Some v) ''Values''))"

lemma read_values_map: "read_ConfigurationSpec (map_of (values_map config caCert)) = Spec config"
proof -
  have "read_ConfigurationSpec (map_of (values_map config caCert)) = read_ConfigurationSpec (map_of (json_ConfigurationSpec (Spec config)))"
    by (simp add: read_ConfigurationSpec_def map_of_values_map)
  then show ?thesis by simp
qed

text \<open>
  C19: the values the templates are rendered with hold the whole specification: decoding them by the JSON
  tags gives the specification back, so no field is dropped, no two fields share a path, and the computed
  values (namespace, certificate, master nodes) overwrite none of them. And the list of master nodes can be
  recovered from the comma-separated value, if no address contains a comma.
\<close>

theorem values_roundtrip:
  assumes "nested_field_laws L" and "template_values L F config caCert = Inr v"
    and "MatchingNodeAddresses (Status config) \<noteq> []" and "list_all (\<lambda>a. CHR '','' \<notin> set a) (MatchingNodeAddresses (Status config))"
  shows "spec_of_values (generateMap config) = Spec config \<and> spec_of_values v = Spec config \<and>
    strings_Split (un_str (un_struct (un_struct (Some v) ''Values'') ''MASTER_NODES'')) (CHR '','') = MatchingNodeAddresses (Status config)"
proof -
  from assms(2) obtain ipsec affinity where
    v: "v = VMap [(''Values'', VMap (values_map config caCert)), (''kubeovn'', VMap (kubeovn_map config ipsec affinity))]"
    by (auto simp: template_values_eq [OF assms(1)] split: option.splits sum.splits)
  have vals: "un_struct (un_struct (Some v) ''Values'') = map_of (values_map config caCert)"
    by (simp add: v un_struct_def)
  have "spec_of_values (generateMap config) = Spec config"
    by (simp add: spec_of_values_def generateMap_def un_struct_def)
  moreover have "spec_of_values v = Spec config"
    by (simp add: spec_of_values_def vals read_values_map)
  moreover have "un_str (un_struct (un_struct (Some v) ''Values'') ''MASTER_NODES'') = strings_Join (MatchingNodeAddresses (Status config)) '',''"
    by (simp add: vals map_of_values_map un_str_def)
  ultimately show ?thesis using strings_Split_Join [OF assms(3,4)] by simp
qed

definition demo_masters_config :: Configuration where
  "demo_masters_config = demo_spec_config\<lparr>Status := (Status demo_spec_config)\<lparr>MatchingNodeAddresses := [''10.0.0.1'', ''10.0.0.2'']\<rparr>\<rparr>"

theorem values_roundtrip_witness:
  "spec_of_values (projr (template_values ref_libs demo_funcs demo_masters_config ''CA'')) = Spec demo_masters_config"
proof -
  have 1: "\<not> isl (template_values ref_libs demo_funcs demo_masters_config ''CA'')" by code_simp
  then have 2: "template_values ref_libs demo_funcs demo_masters_config ''CA'' =
      Inr (projr (template_values ref_libs demo_funcs demo_masters_config ''CA''))" by simp
  have 3: "MatchingNodeAddresses (Status demo_masters_config) \<noteq> []"
    "list_all (\<lambda>a. CHR '','' \<notin> set a) (MatchingNodeAddresses (Status demo_masters_config))"
    by (simp_all add: demo_masters_config_def)
  from values_roundtrip [OF ref_libs_nested_field_laws 2 3] show ?thesis by blast
qed

end
