(* ===== verification/CRD_Lines.thy ===== *)
theory CRD_Lines
  imports Main
begin

text \<open>
  Texts as indented lines, and the part of a CRD text that says which resource it defines.
\<close>

type_synonym yaml_line = "nat \<times> string"

definition text_lines :: "yaml_line list \<Rightarrow> string list" where
  "text_lines ls = map (\<lambda>(n, s). replicate n (CHR '' '') @ s) ls"

end
