(* ===== verification/CRD_Texts_1.thy ===== *)
theory CRD_Texts_1
  imports CRD_Lines
begin

text \<open>
  Texts of \<^verbatim>\<open>internal/templates/customresourcedefinitions.go\<close>, line by line with the indentation as a
  number. A text of more than 150 lines is given in parts.
\<close>

definition bgp_confs_crd :: "yaml_line list" where
  \<open>bgp_confs_crd = [
(0, ''apiVersion: apiextensions.k8s.io/v1''),
(0, ''kind: CustomResourceDefinition''),
(0, ''metadata:''),
(2, ''annotations:''),
(4, ''controller-gen.kubebuilder.io/version: v0.20.1''),
(2, ''name: bgp-confs.kubeovn.io''),
(0, ''spec:''),
(2, ''group: kubeovn.io''),
(2, ''names:''),
(4, ''kind: BgpConf''),
(4, ''listKind: BgpConfList''),
(4, ''plural: bgp-confs''),
(4, ''singular: bgp-conf''),
(2, ''scope: Cluster''),
(2, ''versions:''),
(2, ''- name: v1''),
(4, ''schema:''),
(6, ''openAPIV3Schema:''),
(8, ''properties:''),
(10, ''apiVersion:''),
(12, ''description: |-''),
(14, ''APIVersion defines the versioned schema of this representation of an object.''),
(14, ''Servers should convert recognized schemas to the latest internal value, and''),
(14, ''may reject unrecognized values.''),
(14, ''More info: https://git.k8s.io/community/contributors/devel/sig-architecture/api-conventions.md#resources''),
(12, ''type: string''),
(10, ''kind:''),
(12, ''description: |-''),
(14, ''Kind is a string value representing the REST resource this object represents.''),
(14, ''Servers may infer this from the endpoint the client submits requests to.''),
(14, ''Cannot be updated.''),
(14, ''In CamelCase.''),
(14, ''More info: https://git.k8s.io/community/contributors/devel/sig-architecture/api-conventions.md#types-kinds''),
(12, ''type: string''),
(10, ''metadata:''),
(12, ''type: object''),
(10, ''spec:''),
(12, ''properties:''),
(14, ''connectTime:''),
(16, ''type: string''),
(14, ''ebgpMultiHop:''),
(16, ''type: boolean''),
(14, ''gracefulRestart:''),
(16, ''type: boolean''),
(14, ''holdTime:''),
(16, ''type: string''),
(14, ''keepaliveTime:''),
(16, ''type: string''),
(14, ''localASN:''),
(16, ''format: int32''),
(16, ''type: integer''),
(14, ''neighbours:''),
(16, ''items:''),
(18, ''type: string''),
(16, ''type: array''),
(14, ''password:''),
(16, ''type: string''),
(14, ''peerASN:''),
(16, ''format: int32''),
(16, ''type: integer''),
(14, ''routerId:''),
(16, ''type: string''),
(12, ''type: object''),
(8, ''type: object''),
(4, ''served: true''),
(4, ''storage: true'')]\<close>

definition vpc_nat_gateways_crd_part1 :: "yaml_line list" where
  \<open>vpc_nat_gateways_crd_part1 = [
(0, ''apiVersion: apiextensions.k8s.io/v1''),
(0, ''kind: CustomResourceDefinition''),
(0, ''metadata:''),
(2, ''annotations:''),
(4, ''controller-gen.kubebuilder.io/version: v0.20.1''),
(2, ''name: vpc-nat-gateways.kubeovn.io''),
(0, ''spec:''),
(2, ''group: kubeovn.io''),
(2, ''names:''),
(4, ''kind: VpcNatGateway''),
(4, ''listKind: VpcNatGatewayList''),
(4, ''plural: vpc-nat-gateways''),
(4, ''shortNames:''),
(4, ''- vpc-nat-gw''),
(4, ''singular: vpc-nat-gateway''),
(2, ''scope: Cluster''),
(2, ''versions:''),
(2, ''- additionalPrinterColumns:''),
(4, ''- jsonPath: .spec.vpc''),
(6, ''name: Vpc''),
(6, ''type: string''),
(4, ''- jsonPath: .spec.subnet''),
(6, ''name: Subnet''),
(6, ''type: string''),
(4, ''- jsonPath: .spec.lanIp''),
(6, ''name: LanIP''),
(6, ''type: string''),
(4, ''name: v1''),
(4, ''schema:''),
(6, ''openAPIV3Schema:''),
(8, ''description: |-''),
(10, ''VpcNatGateway represents a NAT gateway for a VPC, implemented as a StatefulSet Pod.''),
(0, ''''),
(10, ''Architecture note:''),
(10, ''The NAT gateway Pod does NOT support hot updates. Any changes to Spec fields (ExternalSubnets,''),
(10, ''Selector, Tolerations, Affinity, etc.) will trigger a StatefulSet template update,''),
(10, ''which causes the Pod to be recreated via RollingUpdate strategy. This is by design because:''),
(11, ''1. Network configuration (routes, iptables rules) is initialized at Pod startup''),
(11, ''2. Runtime state (vpc_cidrs, init status) is managed by separate handlers and will be''),
(14, ''automatically restored after Pod recreation through the normal reconciliation flow''),
(0, ''''),
(10, ''The only exception is QoSPolicy, which can be updated without Pod restart.''),
(8, ''properties:''),
(10, ''apiVersion:''),
(12, ''description: |-''),
(14, ''APIVersion defines the versioned schema of this representation of an object.''),
(14, ''Servers should convert recognized schemas to the latest internal value, and''),
(14, ''may reject unrecognized values.''),
(14, ''More info: https://git.k8s.io/community/contributors/devel/sig-architecture/api-conventions.md#resources''),
(12, ''type: string''),
(10, ''kind:''),
(12, ''description: |-''),
(14, ''Kind is a string value representing the REST resource this object represents.''),
(14, ''Servers may infer this from the endpoint the client submits requests to.''),
(14, ''Cannot be updated.''),
(14, ''In CamelCase.''),
(14, ''More info: https://git.k8s.io/community/contributors/devel/sig-architecture/api-conventions.md#types-kinds''),
(12, ''type: string''),
(10, ''metadata:''),
(12, ''type: object''),
(10, ''spec:''),
(12, ''properties:''),
(14, ''affinity:''),
(16, ''description: Affinity is a group of affinity scheduling rules.''),
(16, ''properties:''),
(18, ''nodeAffinity:''),
(20, ''description: Describes node affinity scheduling rules for the''),
(22, ''pod.''),
(20, ''properties:''),
(22, ''preferredDuringSchedulingIgnoredDuringExecution:''),
(24, ''description: |-''),
(26, ''The scheduler will prefer to schedule pods to nodes that satisfy''),
(26, ''the affinity expressions specified by this field, but it may choose''),
(26, ''a node that violates one or more of the expressions. The node that is''),
(26, ''most preferred is the one with the greatest sum of weights, i.e.''),
(26, ''for each node that meets all of the scheduling requirements (resource''),
(26, ''request, requiredDuringScheduling affinity expressions, etc.),''),
(26, ''compute a sum by iterating through the elements of this field and adding''),
(26, ''"weight" to the sum if the node matches the corresponding matchExpressions; the''),
(26, ''node(s) with the highest sum are the most preferred.''),
(24, ''items:''),
(26, ''description: |-''),
(28, ''An empty preferred scheduling term matches all objects with implicit weight 0''),
(28, ''(i.e. it's a no-op). A null preferred scheduling term matches no objects (i.e. is also a no-op).''),
(26, ''properties:''),
(28, ''preference:''),
(30, ''description: A node selector term, associated with the''),
(32, ''corresponding weight.''),
(30, ''properties:''),
(32, ''matchExpressions:''),
(34, ''description: A list of node selector requirements''),
(36, ''by node's labels.''),
(34, ''items:''),
(36, ''description: |-''),
(38, ''A node selector requirement is a selector that contains values, a key, and an operator''),
(38, ''that relates the key and values.''),
(36, ''properties:''),
(38, ''key:''),
(40, ''description: The label key that the selector''),
(42, ''applies to.''),
(40, ''type: string''),
(38, ''operator:''),
(40, ''description: |-''),
(42, ''Represents a key's relationship to a set of values.''),
(42, ''Valid operators are In, NotIn, Exists, DoesNotExist. Gt, and Lt.''),
(40, ''type: string''),
(38, ''values:''),
(40, ''description: |-''),
(42, ''An array of string values. If the operator is In or NotIn,''),
(42, ''the values array must be non-empty. If the operator is Exists or DoesNotExist,''),
(42, ''the values array must be empty. If the operator is Gt or Lt, the values''),
(42, ''array must have a single element, which will be interpreted as an integer.''),
(42, ''This array is replaced during a strategic merge patch.''),
(40, ''items:''),
(42, ''type: string''),
(40, ''type: array''),
(40, ''x-kubernetes-list-type: atomic''),
(36, ''required:''),
(36, ''- key''),
(36, ''- operator''),
(36, ''type: object''),
(34, ''type: array''),
(34, ''x-kubernetes-list-type: atomic''),
(32, ''matchFields:''),
(34, ''description: A list of node selector requirements''),
(36, ''by node's fields.''),
(34, ''items:''),
(36, ''description: |-''),
(38, ''A node selector requirement is a selector that contains values, a key, and an operator''),
(38, ''that relates the key and values.''),
(36, ''properties:''),
(38, ''key:''),
(40, ''description: The label key that the selector''),
(42, ''applies to.''),
(40, ''type: string''),
(38, ''operator:''),
(40, ''description: |-''),
(42, ''Represents a key's relationship to a set of values.'')]\<close>

definition vpc_nat_gateways_crd_part2 :: "yaml_line list" where
  \<open>vpc_nat_gateways_crd_part2 = [
(42, ''Valid operators are In, NotIn, Exists, DoesNotExist. Gt, and Lt.''),
(40, ''type: string''),
(38, ''values:''),
(40, ''description: |-''),
(42, ''An array of string values. If the operator is In or NotIn,''),
(42, ''the values array must be non-empty. If the operator is Exists or DoesNotExist,''),
(42, ''the values array must be empty. If the operator is Gt or Lt, the values''),
(42, ''array must have a single element, which will be interpreted as an integer.''),
(42, ''This array is replaced during a strategic merge patch.''),
(40, ''items:''),
(42, ''type: string''),
(40, ''type: array''),
(40, ''x-kubernetes-list-type: atomic''),
(36, ''required:''),
(36, ''- key''),
(36, ''- operator''),
(36, ''type: object''),
(34, ''type: array''),
(34, ''x-kubernetes-list-type: atomic''),
(30, ''type: object''),
(30, ''x-kubernetes-map-type: atomic''),
(28, ''weight:''),
(30, ''description: Weight associated with matching the corresponding''),
(32, ''nodeSelectorTerm, in the range 1-100.''),
(30, ''format: int32''),
(30, ''type: integer''),
(26, ''required:''),
(26, ''- preference''),
(26, ''- weight''),
(26, ''type: object''),
(24, ''type: array''),
(24, ''x-kubernetes-list-type: atomic''),
(22, ''requiredDuringSchedulingIgnoredDuringExecution:''),
(24, ''description: |-''),
(26, ''If the affinity requirements specified by this field are not met at''),
(26, ''scheduling time, the pod will not be scheduled onto the node.''),
(26, ''If the affinity requirements specified by this field cease to be met''),
(26, ''at some point during pod execution (e.g. due to an update), the system''),
(26, ''may or may not try to eventually evict the pod from its node.''),
(24, ''properties:''),
(26, ''nodeSelectorTerms:''),
(28, ''description: Required. A list of node selector terms.''),
(30, ''The terms are ORed.''),
(28, ''items:''),
(30, ''description: |-''),
(32, ''A null or empty node selector term matches no objects. The requirements of''),
(32, ''them are ANDed.''),
(32, ''The TopologySelectorTerm type implements a subset of the NodeSelectorTerm.''),
(30, ''properties:''),
(32, ''matchExpressions:''),
(34, ''description: A list of node selector requirements''),
(36, ''by node's labels.''),
(34, ''items:''),
(36, ''description: |-''),
(38, ''A node selector requirement is a selector that contains values, a key, and an operator''),
(38, ''that relates the key and values.''),
(36, ''properties:''),
(38, ''key:''),
(40, ''description: The label key that the selector''),
(42, ''applies to.''),
(40, ''type: string''),
(38, ''operator:''),
(40, ''description: |-''),
(42, ''Represents a key's relationship to a set of values.''),
(42, ''Valid operators are In, NotIn, Exists, DoesNotExist. Gt, and Lt.''),
(40, ''type: string''),
(38, ''values:''),
(40, ''description: |-''),
(42, ''An array of string values. If the operator is In or NotIn,''),
(42, ''the values array must be non-empty. If the operator is Exists or DoesNotExist,''),
(42, ''the values array must be empty. If the operator is Gt or Lt, the values''),
(42, ''array must have a single element, which will be interpreted as an integer.''),
(42, ''This array is replaced during a strategic merge patch.''),
(40, ''items:''),
(42, ''type: string''),
(40, ''type: array''),
(40, ''x-kubernetes-list-type: atomic''),
(36, ''required:''),
(36, ''- key''),
(36, ''- operator''),
(36, ''type: object''),
(34, ''type: array''),
(34, ''x-kubernetes-list-type: atomic''),
(32, ''matchFields:''),
(34, ''description: A list of node selector requirements''),
(36, ''by node's fields.''),
(34, ''items:''),
(36, ''description: |-''),
(38, ''A node selector requirement is a selector that contains values, a key, and an operator''),
(38, ''that relates the key and values.''),
(36, ''properties:''),
(38, ''key:''),
(40, ''description: The label key that the selector''),
(42, ''applies to.''),
(40, ''type: string''),
(38, ''operator:''),
(40, ''description: |-''),
(42, ''Represents a key's relationship to a set of values.''),
(42, ''Valid operators are In, NotIn, Exists, DoesNotExist. Gt, and Lt.''),
(40, ''type: string''),
(38, ''values:''),
(40, ''description: |-''),
(42, ''An array of string values. If the operator is In or NotIn,''),
(42, ''the values array must be non-empty. If the operator is Exists or DoesNotExist,''),
(42, ''the values array must be empty. If the operator is Gt or Lt, the values''),
(42, ''array must have a single element, which will be interpreted as an integer.''),
(42, ''This array is replaced during a strategic merge patch.''),
(40, ''items:''),
(42, ''type: string''),
(40, ''type: array''),
(40, ''x-kubernetes-list-type: atomic''),
(36, ''required:''),
(36, ''- key''),
(36, ''- operator''),
(36, ''type: object''),
(34, ''type: array''),
(34, ''x-kubernetes-list-type: atomic''),
(30, ''type: object''),
(30, ''x-kubernetes-map-type: atomic''),
(28, ''type: array''),
(28, ''x-kubernetes-list-type: atomic''),
(24, ''required:''),
(24, ''- nodeSelectorTerms''),
(24, ''type: object''),
(24, ''x-kubernetes-map-type: atomic''),
(20, ''type: object''),
(18, ''podAffinity:''),
(20, ''description: Describes pod affinity scheduling rules (e.g. co-locate''),
(22, ''this pod in the same node, zone, etc. as some other pod(s)).''),
(20, ''properties:''),
(22, ''preferredDuringSchedulingIgnoredDuringExecution:''),
(24, ''description: |-''),
(26, ''The scheduler will prefer to schedule pods to nodes that satisfy''),
(26, ''the affinity expressions specified by this field, but it may choose''),
(26, ''a node that violates one or more of the expressions. The node that is''),
(26, ''most preferred is the one with the greatest sum of weights, i.e.''),
(26, ''for each node that meets all of the scheduling requirements (resource''),
(26, ''request, requiredDuringScheduling affinity expressions, etc.),'')]\<close>

definition vpc_nat_gateways_crd_part3 :: "yaml_line list" where
  \<open>vpc_nat_gateways_crd_part3 = [
(26, ''compute a sum by iterating through the elements of this field and adding''),
(26, ''"weight" to the sum if the node has pods which matches the corresponding podAffinityTerm; the''),
(26, ''node(s) with the highest sum are the most preferred.''),
(24, ''items:''),
(26, ''description: The weights of all of the matched WeightedPodAffinityTerm''),
(28, ''fields are added per-node to find the most preferred node(s)''),
(26, ''properties:''),
(28, ''podAffinityTerm:''),
(30, ''description: Required. A pod affinity term, associated''),
(32, ''with the corresponding weight.''),
(30, ''properties:''),
(32, ''labelSelector:''),
(34, ''description: |-''),
(36, ''A label query over a set of resources, in this case pods.''),
(36, ''If it's null, this PodAffinityTerm matches with no Pods.''),
(34, ''properties:''),
(36, ''matchExpressions:''),
(38, ''description: matchExpressions is a list of label''),
(40, ''selector requirements. The requirements are''),
(40, ''ANDed.''),
(38, ''items:''),
(40, ''description: |-''),
(42, ''A label selector requirement is a selector that contains values, a key, and an operator that''),
(42, ''relates the key and values.''),
(40, ''properties:''),
(42, ''key:''),
(44, ''description: key is the label key that''),
(46, ''the selector applies to.''),
(44, ''type: string''),
(42, ''operator:''),
(44, ''description: |-''),
(46, ''operator represents a key's relationship to a set of values.''),
(46, ''Valid operators are In, NotIn, Exists and DoesNotExist.''),
(44, ''type: string''),
(42, ''values:''),
(44, ''description: |-''),
(46, ''values is an array of string values. If the operator is In or NotIn,''),
(46, ''the values array must be non-empty. If the operator is Exists or DoesNotExist,''),
(46, ''the values array must be empty. This array is replaced during a strategic''),
(46, ''merge patch.''),
(44, ''items:''),
(46, ''type: string''),
(44, ''type: array''),
(44, ''x-kubernetes-list-type: atomic''),
(40, ''required:''),
(40, ''- key''),
(40, ''- operator''),
(40, ''type: object''),
(38, ''type: array''),
(38, ''x-kubernetes-list-type: atomic''),
(36, ''matchLabels:''),
(38, ''additionalProperties:''),
(40, ''type: string''),
(38, ''description: |-''),
(40, ''matchLabels is a map of {key,value} pairs. A single {key,value} in the matchLabels''),
(40, ''map is equivalent to an element of matchExpressions, whose key field is "key", the''),
(40, ''operator is "In", and the values array contains only "value". The requirements are ANDed.''),
(38, ''type: object''),
(34, ''type: object''),
(34, ''x-kubernetes-map-type: atomic''),
(32, ''matchLabelKeys:''),
(34, ''description: |-''),
(36, ''MatchLabelKeys is a set of pod label keys to select which pods will''),
(36, ''be taken into consideration. The keys are used to lookup values from the''),
(36, ''incoming pod labels, those key-value labels are merged with labelSelector as key in (value)''),
(36, ''to select the group of existing pods which pods will be taken into consideration''),
(36, ''for the incoming pod's pod (anti) affinity. Keys that don't exist in the incoming''),
(36, ''pod labels will be ignored. The default value is empty.''),
(36, ''The same key is forbidden to exist in both matchLabelKeys and labelSelector.''),
(36, ''Also, matchLabelKeys cannot be set when labelSelector isn't set.''),
(34, ''items:''),
(36, ''type: string''),
(34, ''type: array''),
(34, ''x-kubernetes-list-type: atomic''),
(32, ''mismatchLabelKeys:''),
(34, ''description: |-''),
(36, ''MismatchLabelKeys is a set of pod label keys to select which pods will''),
(36, ''be taken into consideration. The keys are used to lookup values from the''),
(36, ''incoming pod labels, those key-value labels are merged with labelSelector as key notin (value)''),
(36, ''to select the group of existing pods which pods will be taken into consideration''),
(36, ''for the incoming pod's pod (anti) affinity. Keys that don't exist in the incoming''),
(36, ''pod labels will be ignored. The default value is empty.''),
(36, ''The same key is forbidden to exist in both mismatchLabelKeys and labelSelector.''),
(36, ''Also, mismatchLabelKeys cannot be set when labelSelector isn't set.''),
(34, ''items:''),
(36, ''type: string''),
(34, ''type: array''),
(34, ''x-kubernetes-list-type: atomic''),
(32, ''namespaceSelector:''),
(34, ''description: |-''),
(36, ''A label query over the set of namespaces that the term applies to.''),
(36, ''The term is applied to the union of the namespaces selected by this field''),
(36, ''and the ones listed in the namespaces field.''),
(36, ''null selector and null or empty namespaces list means "this pod's namespace".''),
(36, ''An empty selector ({}) matches all namespaces.''),
(34, ''properties:''),
(36, ''matchExpressions:''),
(38, ''description: matchExpressions is a list of label''),
(40, ''selector requirements. The requirements are''),
(40, ''ANDed.''),
(38, ''items:''),
(40, ''description: |-''),
(42, ''A label selector requirement is a selector that contains values, a key, and an operator that''),
(42, ''relates the key and values.''),
(40, ''properties:''),
(42, ''key:''),
(44, ''description: key is the label key that''),
(46, ''the selector applies to.''),
(44, ''type: string''),
(42, ''operator:''),
(44, ''description: |-''),
(46, ''operator represents a key's relationship to a set of values.''),
(46, ''Valid operators are In, NotIn, Exists and DoesNotExist.''),
(44, ''type: string''),
(42, ''values:''),
(44, ''description: |-''),
(46, ''values is an array of string values. If the operator is In or NotIn,''),
(46, ''the values array must be non-empty. If the operator is Exists or DoesNotExist,''),
(46, ''the values array must be empty. This array is replaced during a strategic''),
(46, ''merge patch.''),
(44, ''items:''),
(46, ''type: string''),
(44, ''type: array''),
(44, ''x-kubernetes-list-type: atomic''),
(40, ''required:''),
(40, ''- key''),
(40, ''- operator''),
(40, ''type: object''),
(38, ''type: array''),
(38, ''x-kubernetes-list-type: atomic''),
(36, ''matchLabels:''),
(38, ''additionalProperties:''),
(40, ''type: string''),
(38, ''description: |-''),
(40, ''matchLabels is a map of {key,value} pairs. A single {key,value} in the matchLabels''),
(40, ''map is equivalent to an element of matchExpressions, whose key field is "key", the''),
(40, ''operator is "In", and the values array contains only "value". The requirements are ANDed.''),
(38, ''type: object'')]\<close>

definition vpc_nat_gateways_crd_part4 :: "yaml_line list" where
  \<open>vpc_nat_gateways_crd_part4 = [
(34, ''type: object''),
(34, ''x-kubernetes-map-type: atomic''),
(32, ''namespaces:''),
(34, ''description: |-''),
(36, ''namespaces specifies a static list of namespace names that the term applies to.''),
(36, ''The term is applied to the union of the namespaces listed in this field''),
(36, ''and the ones selected by namespaceSelector.''),
(36, ''null or empty namespaces list and null namespaceSelector means "this pod's namespace".''),
(34, ''items:''),
(36, ''type: string''),
(34, ''type: array''),
(34, ''x-kubernetes-list-type: atomic''),
(32, ''topologyKey:''),
(34, ''description: |-''),
(36, ''This pod should be co-located (affinity) or not co-located (anti-affinity) with the pods matching''),
(36, ''the labelSelector in the specified namespaces, where co-located is defined as running on a node''),
(36, ''whose value of the label with key topologyKey matches that of any node on which any of the''),
(36, ''selected pods is running.''),
(36, ''Empty topologyKey is not allowed.''),
(34, ''type: string''),
(30, ''required:''),
(30, ''- topologyKey''),
(30, ''type: object''),
(28, ''weight:''),
(30, ''description: |-''),
(32, ''weight associated with matching the corresponding podAffinityTerm,''),
(32, ''in the range 1-100.''),
(30, ''format: int32''),
(30, ''type: integer''),
(26, ''required:''),
(26, ''- podAffinityTerm''),
(26, ''- weight''),
(26, ''type: object''),
(24, ''type: array''),
(24, ''x-kubernetes-list-type: atomic''),
(22, ''requiredDuringSchedulingIgnoredDuringExecution:''),
(24, ''description: |-''),
(26, ''If the affinity requirements specified by this field are not met at''),
(26, ''scheduling time, the pod will not be scheduled onto the node.''),
(26, ''If the affinity requirements specified by this field cease to be met''),
(26, ''at some point during pod execution (e.g. due to a pod label update), the''),
(26, ''system may or may not try to eventually evict the pod from its node.''),
(26, ''When there are multiple elements, the lists of nodes corresponding to each''),
(26, ''podAffinityTerm are intersected, i.e. all terms must be satisfied.''),
(24, ''items:''),
(26, ''description: |-''),
(28, ''Defines a set of pods (namely those matching the labelSelector''),
(28, ''relative to the given namespace(s)) that this pod should be''),
(28, ''co-located (affinity) or not co-located (anti-affinity) with,''),
(28, ''where co-located is defined as running on a node whose value of''),
(28, ''the label with key <topologyKey> matches that of any node on which''),
(28, ''a pod of the set of pods is running''),
(26, ''properties:''),
(28, ''labelSelector:''),
(30, ''description: |-''),
(32, ''A label query over a set of resources, in this case pods.''),
(32, ''If it's null, this PodAffinityTerm matches with no Pods.''),
(30, ''properties:''),
(32, ''matchExpressions:''),
(34, ''description: matchExpressions is a list of label''),
(36, ''selector requirements. The requirements are ANDed.''),
(34, ''items:''),
(36, ''description: |-''),
(38, ''A label selector requirement is a selector that contains values, a key, and an operator that''),
(38, ''relates the key and values.''),
(36, ''properties:''),
(38, ''key:''),
(40, ''description: key is the label key that the''),
(42, ''selector applies to.''),
(40, ''type: string''),
(38, ''operator:''),
(40, ''description: |-''),
(42, ''operator represents a key's relationship to a set of values.''),
(42, ''Valid operators are In, NotIn, Exists and DoesNotExist.''),
(40, ''type: string''),
(38, ''values:''),
(40, ''description: |-''),
(42, ''values is an array of string values. If the operator is In or NotIn,''),
(42, ''the values array must be non-empty. If the operator is Exists or DoesNotExist,''),
(42, ''the values array must be empty. This array is replaced during a strategic''),
(42, ''merge patch.''),
(40, ''items:''),
(42, ''type: string''),
(40, ''type: array''),
(40, ''x-kubernetes-list-type: atomic''),
(36, ''required:''),
(36, ''- key''),
(36, ''- operator''),
(36, ''type: object''),
(34, ''type: array''),
(34, ''x-kubernetes-list-type: atomic''),
(32, ''matchLabels:''),
(34, ''additionalProperties:''),
(36, ''type: string''),
(34, ''description: |-''),
(36, ''matchLabels is a map of {key,value} pairs. A single {key,value} in the matchLabels''),
(36, ''map is equivalent to an element of matchExpressions, whose key field is "key", the''),
(36, ''operator is "In", and the values array contains only "value". The requirements are ANDed.''),
(34, ''type: object''),
(30, ''type: object''),
(30, ''x-kubernetes-map-type: atomic''),
(28, ''matchLabelKeys:''),
(30, ''description: |-''),
(32, ''MatchLabelKeys is a set of pod label keys to select which pods will''),
(32, ''be taken into consideration. The keys are used to lookup values from the''),
(32, ''incoming pod labels, those key-value labels are merged with labelSelector as key in (value)''),
(32, ''to select the group of existing pods which pods will be taken into consideration''),
(32, ''for the incoming pod's pod (anti) affinity. Keys that don't exist in the incoming''),
(32, ''pod labels will be ignored. The default value is empty.''),
(32, ''The same key is forbidden to exist in both matchLabelKeys and labelSelector.''),
(32, ''Also, matchLabelKeys cannot be set when labelSelector isn't set.''),
(30, ''items:''),
(32, ''type: string''),
(30, ''type: array''),
(30, ''x-kubernetes-list-type: atomic''),
(28, ''mismatchLabelKeys:''),
(30, ''description: |-''),
(32, ''MismatchLabelKeys is a set of pod label keys to select which pods will''),
(32, ''be taken into consideration. The keys are used to lookup values from the''),
(32, ''incoming pod labels, those key-value labels are merged with labelSelector as key notin (value)''),
(32, ''to select the group of existing pods which pods will be taken into consideration''),
(32, ''for the incoming pod's pod (anti) affinity. Keys that don't exist in the incoming''),
(32, ''pod labels will be ignored. The default value is empty.''),
(32, ''The same key is forbidden to exist in both mismatchLabelKeys and labelSelector.''),
(32, ''Also, mismatchLabelKeys cannot be set when labelSelector isn't set.''),
(30, ''items:''),
(32, ''type: string''),
(30, ''type: array''),
(30, ''x-kubernetes-list-type: atomic''),
(28, ''namespaceSelector:''),
(30, ''description: |-''),
(32, ''A label query over the set of namespaces that the term applies to.''),
(32, ''The term is applied to the union of the namespaces selected by this field''),
(32, ''and the ones listed in the namespaces field.''),
(32, ''null selector and null or empty namespaces list means "this pod's namespace".''),
(32, ''An empty selector ({}) matches all namespaces.''),
(30, ''properties:''),
(32, ''matchExpressions:'')]\<close>

definition vpc_nat_gateways_crd_part5 :: "yaml_line list" where
  \<open>vpc_nat_gateways_crd_part5 = [
(34, ''description: matchExpressions is a list of label''),
(36, ''selector requirements. The requirements are ANDed.''),
(34, ''items:''),
(36, ''description: |-''),
(38, ''A label selector requirement is a selector that contains values, a key, and an operator that''),
(38, ''relates the key and values.''),
(36, ''properties:''),
(38, ''key:''),
(40, ''description: key is the label key that the''),
(42, ''selector applies to.''),
(40, ''type: string''),
(38, ''operator:''),
(40, ''description: |-''),
(42, ''operator represents a key's relationship to a set of values.''),
(42, ''Valid operators are In, NotIn, Exists and DoesNotExist.''),
(40, ''type: string''),
(38, ''values:''),
(40, ''description: |-''),
(42, ''values is an array of string values. If the operator is In or NotIn,''),
(42, ''the values array must be non-empty. If the operator is Exists or DoesNotExist,''),
(42, ''the values array must be empty. This array is replaced during a strategic''),
(42, ''merge patch.''),
(40, ''items:''),
(42, ''type: string''),
(40, ''type: array''),
(40, ''x-kubernetes-list-type: atomic''),
(36, ''required:''),
(36, ''- key''),
(36, ''- operator''),
(36, ''type: object''),
(34, ''type: array''),
(34, ''x-kubernetes-list-type: atomic''),
(32, ''matchLabels:''),
(34, ''additionalProperties:''),
(36, ''type: string''),
(34, ''description: |-''),
(36, ''matchLabels is a map of {key,value} pairs. A single {key,value} in the matchLabels''),
(36, ''map is equivalent to an element of matchExpressions, whose key field is "key", the''),
(36, ''operator is "In", and the values array contains only "value". The requirements are ANDed.''),
(34, ''type: object''),
(30, ''type: object''),
(30, ''x-kubernetes-map-type: atomic''),
(28, ''namespaces:''),
(30, ''description: |-''),
(32, ''namespaces specifies a static list of namespace names that the term applies to.''),
(32, ''The term is applied to the union of the namespaces listed in this field''),
(32, ''and the ones selected by namespaceSelector.''),
(32, ''null or empty namespaces list and null namespaceSelector means "this pod's namespace".''),
(30, ''items:''),
(32, ''type: string''),
(30, ''type: array''),
(30, ''x-kubernetes-list-type: atomic''),
(28, ''topologyKey:''),
(30, ''description: |-''),
(32, ''This pod should be co-located (affinity) or not co-located (anti-affinity) with the pods matching''),
(32, ''the labelSelector in the specified namespaces, where co-located is defined as running on a node''),
(32, ''whose value of the label with key topologyKey matches that of any node on which any of the''),
(32, ''selected pods is running.''),
(32, ''Empty topologyKey is not allowed.''),
(30, ''type: string''),
(26, ''required:''),
(26, ''- topologyKey''),
(26, ''type: object''),
(24, ''type: array''),
(24, ''x-kubernetes-list-type: atomic''),
(20, ''type: object''),
(18, ''podAntiAffinity:''),
(20, ''description: Describes pod anti-affinity scheduling rules (e.g.''),
(22, ''avoid putting this pod in the same node, zone, etc. as some''),
(22, ''other pod(s)).''),
(20, ''properties:''),
(22, ''preferredDuringSchedulingIgnoredDuringExecution:''),
(24, ''description: |-''),
(26, ''The scheduler will prefer to schedule pods to nodes that satisfy''),
(26, ''the anti-affinity expressions specified by this field, but it may choose''),
(26, ''a node that violates one or more of the expressions. The node that is''),
(26, ''most preferred is the one with the greatest sum of weights, i.e.''),
(26, ''for each node that meets all of the scheduling requirements (resource''),
(26, ''request, requiredDuringScheduling anti-affinity expressions, etc.),''),
(26, ''compute a sum by iterating through the elements of this field and subtracting''),
(26, ''"weight" from the sum if the node has pods which matches the corresponding podAffinityTerm; the''),
(26, ''node(s) with the highest sum are the most preferred.''),
(24, ''items:''),
(26, ''description: The weights of all of the matched WeightedPodAffinityTerm''),
(28, ''fields are added per-node to find the most preferred node(s)''),
(26, ''properties:''),
(28, ''podAffinityTerm:''),
(30, ''description: Required. A pod affinity term, associated''),
(32, ''with the corresponding weight.''),
(30, ''properties:''),
(32, ''labelSelector:''),
(34, ''description: |-''),
(36, ''A label query over a set of resources, in this case pods.''),
(36, ''If it's null, this PodAffinityTerm matches with no Pods.''),
(34, ''properties:''),
(36, ''matchExpressions:''),
(38, ''description: matchExpressions is a list of label''),
(40, ''selector requirements. The requirements are''),
(40, ''ANDed.''),
(38, ''items:''),
(40, ''description: |-''),
(42, ''A label selector requirement is a selector that contains values, a key, and an operator that''),
(42, ''relates the key and values.''),
(40, ''properties:''),
(42, ''key:''),
(44, ''description: key is the label key that''),
(46, ''the selector applies to.''),
(44, ''type: string''),
(42, ''operator:''),
(44, ''description: |-''),
(46, ''operator represents a key's relationship to a set of values.''),
(46, ''Valid operators are In, NotIn, Exists and DoesNotExist.''),
(44, ''type: string''),
(42, ''values:''),
(44, ''description: |-''),
(46, ''values is an array of string values. If the operator is In or NotIn,''),
(46, ''the values array must be non-empty. If the operator is Exists or DoesNotExist,''),
(46, ''the values array must be empty. This array is replaced during a strategic''),
(46, ''merge patch.''),
(44, ''items:''),
(46, ''type: string''),
(44, ''type: array''),
(44, ''x-kubernetes-list-type: atomic''),
(40, ''required:''),
(40, ''- key''),
(40, ''- operator''),
(40, ''type: object''),
(38, ''type: array''),
(38, ''x-kubernetes-list-type: atomic''),
(36, ''matchLabels:''),
(38, ''additionalProperties:''),
(40, ''type: string''),
(38, ''description: |-''),
(40, ''matchLabels is a map of {key,value} pairs. A single {key,value} in the matchLabels''),
(40, ''map is equivalent to an element of matchExpressions, whose key field is "key", the''),
(40, ''operator is "In", and the values array contains only "value". The requirements are ANDed.''),
(38, ''type: object''),
(34, ''type: object'')]\<close>

definition vpc_nat_gateways_crd_part6 :: "yaml_line list" where
  \<open>vpc_nat_gateways_crd_part6 = [
(34, ''x-kubernetes-map-type: atomic''),
(32, ''matchLabelKeys:''),
(34, ''description: |-''),
(36, ''MatchLabelKeys is a set of pod label keys to select which pods will''),
(36, ''be taken into consideration. The keys are used to lookup values from the''),
(36, ''incoming pod labels, those key-value labels are merged with labelSelector as key in (value)''),
(36, ''to select the group of existing pods which pods will be taken into consideration''),
(36, ''for the incoming pod's pod (anti) affinity. Keys that don't exist in the incoming''),
(36, ''pod labels will be ignored. The default value is empty.''),
(36, ''The same key is forbidden to exist in both matchLabelKeys and labelSelector.''),
(36, ''Also, matchLabelKeys cannot be set when labelSelector isn't set.''),
(34, ''items:''),
(36, ''type: string''),
(34, ''type: array''),
(34, ''x-kubernetes-list-type: atomic''),
(32, ''mismatchLabelKeys:''),
(34, ''description: |-''),
(36, ''MismatchLabelKeys is a set of pod label keys to select which pods will''),
(36, ''be taken into consideration. The keys are used to lookup values from the''),
(36, ''incoming pod labels, those key-value labels are merged with labelSelector as key notin (value)''),
(36, ''to select the group of existing pods which pods will be taken into consideration''),
(36, ''for the incoming pod's pod (anti) affinity. Keys that don't exist in the incoming''),
(36, ''pod labels will be ignored. The default value is empty.''),
(36, ''The same key is forbidden to exist in both mismatchLabelKeys and labelSelector.''),
(36, ''Also, mismatchLabelKeys cannot be set when labelSelector isn't set.''),
(34, ''items:''),
(36, ''type: string''),
(34, ''type: array''),
(34, ''x-kubernetes-list-type: atomic''),
(32, ''namespaceSelector:''),
(34, ''description: |-''),
(36, ''A label query over the set of namespaces that the term applies to.''),
(36, ''The term is applied to the union of the namespaces selected by this field''),
(36, ''and the ones listed in the namespaces field.''),
(36, ''null selector and null or empty namespaces list means "this pod's namespace".''),
(36, ''An empty selector ({}) matches all namespaces.''),
(34, ''properties:''),
(36, ''matchExpressions:''),
(38, ''description: matchExpressions is a list of label''),
(40, ''selector requirements. The requirements are''),
(40, ''ANDed.''),
(38, ''items:''),
(40, ''description: |-''),
(42, ''A label selector requirement is a selector that contains values, a key, and an operator that''),
(42, ''relates the key and values.''),
(40, ''properties:''),
(42, ''key:''),
(44, ''description: key is the label key that''),
(46, ''the selector applies to.''),
(44, ''type: string''),
(42, ''operator:''),
(44, ''description: |-''),
(46, ''operator represents a key's relationship to a set of values.''),
(46, ''Valid operators are In, NotIn, Exists and DoesNotExist.''),
(44, ''type: string''),
(42, ''values:''),
(44, ''description: |-''),
(46, ''values is an array of string values. If the operator is In or NotIn,''),
(46, ''the values array must be non-empty. If the operator is Exists or DoesNotExist,''),
(46, ''the values array must be empty. This array is replaced during a strategic''),
(46, ''merge patch.''),
(44, ''items:''),
(46, ''type: string''),
(44, ''type: array''),
(44, ''x-kubernetes-list-type: atomic''),
(40, ''required:''),
(40, ''- key''),
(40, ''- operator''),
(40, ''type: object''),
(38, ''type: array''),
(38, ''x-kubernetes-list-type: atomic''),
(36, ''matchLabels:''),
(38, ''additionalProperties:''),
(40, ''type: string''),
(38, ''description: |-''),
(40, ''matchLabels is a map of {key,value} pairs. A single {key,value} in the matchLabels''),
(40, ''map is equivalent to an element of matchExpressions, whose key field is "key", the''),
(40, ''operator is "In", and the values array contains only "value". The requirements are ANDed.''),
(38, ''type: object''),
(34, ''type: object''),
(34, ''x-kubernetes-map-type: atomic''),
(32, ''namespaces:''),
(34, ''description: |-''),
(36, ''namespaces specifies a static list of namespace names that the term applies to.''),
(36, ''The term is applied to the union of the namespaces listed in this field''),
(36, ''and the ones selected by namespaceSelector.''),
(36, ''null or empty namespaces list and null namespaceSelector means "this pod's namespace".''),
(34, ''items:''),
(36, ''type: string''),
(34, ''type: array''),
(34, ''x-kubernetes-list-type: atomic''),
(32, ''topologyKey:''),
(34, ''description: |-''),
(36, ''This pod should be co-located (affinity) or not co-located (anti-affinity) with the pods matching''),
(36, ''the labelSelector in the specified namespaces, where co-located is defined as running on a node''),
(36, ''whose value of the label with key topologyKey matches that of any node on which any of the''),
(36, ''selected pods is running.''),
(36, ''Empty topologyKey is not allowed.''),
(34, ''type: string''),
(30, ''required:''),
(30, ''- topologyKey''),
(30, ''type: object''),
(28, ''weight:''),
(30, ''description: |-''),
(32, ''weight associated with matching the corresponding podAffinityTerm,''),
(32, ''in the range 1-100.''),
(30, ''format: int32''),
(30, ''type: integer''),
(26, ''required:''),
(26, ''- podAffinityTerm''),
(26, ''- weight''),
(26, ''type: object''),
(24, ''type: array''),
(24, ''x-kubernetes-list-type: atomic''),
(22, ''requiredDuringSchedulingIgnoredDuringExecution:''),
(24, ''description: |-''),
(26, ''If the anti-affinity requirements specified by this field are not met at''),
(26, ''scheduling time, the pod will not be scheduled onto the node.''),
(26, ''If the anti-affinity requirements specified by this field cease to be met''),
(26, ''at some point during pod execution (e.g. due to a pod label update), the''),
(26, ''system may or may not try to eventually evict the pod from its node.''),
(26, ''When there are multiple elements, the lists of nodes corresponding to each''),
(26, ''podAffinityTerm are intersected, i.e. all terms must be satisfied.''),
(24, ''items:''),
(26, ''description: |-''),
(28, ''Defines a set of pods (namely those matching the labelSelector''),
(28, ''relative to the given namespace(s)) that this pod should be''),
(28, ''co-located (affinity) or not co-located (anti-affinity) with,''),
(28, ''where co-located is defined as running on a node whose value of''),
(28, ''the label with key <topologyKey> matches that of any node on which''),
(28, ''a pod of the set of pods is running''),
(26, ''properties:''),
(28, ''labelSelector:''),
(30, ''description: |-''),
(32, ''A label query over a set of resources, in this case pods.''),
(32, ''If it's null, this PodAffinityTerm matches with no Pods.''),
(30, ''properties:''),
(32, ''matchExpressions:'')]\<close>

definition vpc_nat_gateways_crd_part7 :: "yaml_line list" where
  \<open>vpc_nat_gateways_crd_part7 = [
(34, ''description: matchExpressions is a list of label''),
(36, ''selector requirements. The requirements are ANDed.''),
(34, ''items:''),
(36, ''description: |-''),
(38, ''A label selector requirement is a selector that contains values, a key, and an operator that''),
(38, ''relates the key and values.''),
(36, ''properties:''),
(38, ''key:''),
(40, ''description: key is the label key that the''),
(42, ''selector applies to.''),
(40, ''type: string''),
(38, ''operator:''),
(40, ''description: |-''),
(42, ''operator represents a key's relationship to a set of values.''),
(42, ''Valid operators are In, NotIn, Exists and DoesNotExist.''),
(40, ''type: string''),
(38, ''values:''),
(40, ''description: |-''),
(42, ''values is an array of string values. If the operator is In or NotIn,''),
(42, ''the values array must be non-empty. If the operator is Exists or DoesNotExist,''),
(42, ''the values array must be empty. This array is replaced during a strategic''),
(42, ''merge patch.''),
(40, ''items:''),
(42, ''type: string''),
(40, ''type: array''),
(40, ''x-kubernetes-list-type: atomic''),
(36, ''required:''),
(36, ''- key''),
(36, ''- operator''),
(36, ''type: object''),
(34, ''type: array''),
(34, ''x-kubernetes-list-type: atomic''),
(32, ''matchLabels:''),
(34, ''additionalProperties:''),
(36, ''type: string''),
(34, ''description: |-''),
(36, ''matchLabels is a map of {key,value} pairs. A single {key,value} in the matchLabels''),
(36, ''map is equivalent to an element of matchExpressions, whose key field is "key", the''),
(36, ''operator is "In", and the values array contains only "value". The requirements are ANDed.''),
(34, ''type: object''),
(30, ''type: object''),
(30, ''x-kubernetes-map-type: atomic''),
(28, ''matchLabelKeys:''),
(30, ''description: |-''),
(32, ''MatchLabelKeys is a set of pod label keys to select which pods will''),
(32, ''be taken into consideration. The keys are used to lookup values from the''),
(32, ''incoming pod labels, those key-value labels are merged with labelSelector as key in (value)''),
(32, ''to select the group of existing pods which pods will be taken into consideration''),
(32, ''for the incoming pod's pod (anti) affinity. Keys that don't exist in the incoming''),
(32, ''pod labels will be ignored. The default value is empty.''),
(32, ''The same key is forbidden to exist in both matchLabelKeys and labelSelector.''),
(32, ''Also, matchLabelKeys cannot be set when labelSelector isn't set.''),
(30, ''items:''),
(32, ''type: string''),
(30, ''type: array''),
(30, ''x-kubernetes-list-type: atomic''),
(28, ''mismatchLabelKeys:''),
(30, ''description: |-''),
(32, ''MismatchLabelKeys is a set of pod label keys to select which pods will''),
(32, ''be taken into consideration. The keys are used to lookup values from the''),
(32, ''incoming pod labels, those key-value labels are merged with labelSelector as key notin (value)''),
(32, ''to select the group of existing pods which pods will be taken into consideration''),
(32, ''for the incoming pod's pod (anti) affinity. Keys that don't exist in the incoming''),
(32, ''pod labels will be ignored. The default value is empty.''),
(32, ''The same key is forbidden to exist in both mismatchLabelKeys and labelSelector.''),
(32, ''Also, mismatchLabelKeys cannot be set when labelSelector isn't set.''),
(30, ''items:''),
(32, ''type: string''),
(30, ''type: array''),
(30, ''x-kubernetes-list-type: atomic''),
(28, ''namespaceSelector:''),
(30, ''description: |-''),
(32, ''A label query over the set of namespaces that the term applies to.''),
(32, ''The term is applied to the union of the namespaces selected by this field''),
(32, ''and the ones listed in the namespaces field.''),
(32, ''null selector and null or empty namespaces list means "this pod's namespace".''),
(32, ''An empty selector ({}) matches all namespaces.''),
(30, ''properties:''),
(32, ''matchExpressions:''),
(34, ''description: matchExpressions is a list of label''),
(36, ''selector requirements. The requirements are ANDed.''),
(34, ''items:''),
(36, ''description: |-''),
(38, ''A label selector requirement is a selector that contains values, a key, and an operator that''),
(38, ''relates the key and values.''),
(36, ''properties:''),
(38, ''key:''),
(40, ''description: key is the label key that the''),
(42, ''selector applies to.''),
(40, ''type: string''),
(38, ''operator:''),
(40, ''description: |-''),
(42, ''operator represents a key's relationship to a set of values.''),
(42, ''Valid operators are In, NotIn, Exists and DoesNotExist.''),
(40, ''type: string''),
(38, ''values:''),
(40, ''description: |-''),
(42, ''values is an array of string values. If the operator is In or NotIn,''),
(42, ''the values array must be non-empty. If the operator is Exists or DoesNotExist,''),
(42, ''the values array must be empty. This array is replaced during a strategic''),
(42, ''merge patch.''),
(40, ''items:''),
(42, ''type: string''),
(40, ''type: array''),
(40, ''x-kubernetes-list-type: atomic''),
(36, ''required:''),
(36, ''- key''),
(36, ''- operator''),
(36, ''type: object''),
(34, ''type: array''),
(34, ''x-kubernetes-list-type: atomic''),
(32, ''matchLabels:''),
(34, ''additionalProperties:''),
(36, ''type: string''),
(34, ''description: |-''),
(36, ''matchLabels is a map of {key,value} pairs. A single {key,value} in the matchLabels''),
(36, ''map is equivalent to an element of matchExpressions, whose key field is "key", the''),
(36, ''operator is "In", and the values array contains only "value". The requirements are ANDed.''),
(34, ''type: object''),
(30, ''type: object''),
(30, ''x-kubernetes-map-type: atomic''),
(28, ''namespaces:''),
(30, ''description: |-''),
(32, ''namespaces specifies a static list of namespace names that the term applies to.''),
(32, ''The term is applied to the union of the namespaces listed in this field''),
(32, ''and the ones selected by namespaceSelector.''),
(32, ''null or empty namespaces list and null namespaceSelector means "this pod's namespace".''),
(30, ''items:''),
(32, ''type: string''),
(30, ''type: array''),
(30, ''x-kubernetes-list-type: atomic''),
(28, ''topologyKey:''),
(30, ''description: |-''),
(32, ''This pod should be co-located (affinity) or not co-located (anti-affinity) with the pods matching''),
(32, ''the labelSelector in the specified namespaces, where co-located is defined as running on a node''),
(32, ''whose value of the label with key topologyKey matches that of any node on which any of the''),
(32, ''selected pods is running.''),
(32, ''Empty topologyKey is not allowed.'')]\<close>

definition vpc_nat_gateways_crd_part8 :: "yaml_line list" where
  \<open>vpc_nat_gateways_crd_part8 = [
(30, ''type: string''),
(26, ''required:''),
(26, ''- topologyKey''),
(26, ''type: object''),
(24, ''type: array''),
(24, ''x-kubernetes-list-type: atomic''),
(20, ''type: object''),
(16, ''type: object''),
(14, ''annotations:''),
(16, ''additionalProperties:''),
(18, ''type: string''),
(16, ''description: |-''),
(18, ''User-defined annotations for the StatefulSet NAT gateway Pod template.''),
(18, ''Only effective at creation time; updates to this field are not detected.''),
(16, ''type: object''),
(14, ''bgpSpeaker:''),
(16, ''description: BGP speaker configuration''),
(16, ''properties:''),
(18, ''asn:''),
(20, ''description: BGP ASN''),
(20, ''format: int32''),
(20, ''type: integer''),
(18, ''enableGracefulRestart:''),
(20, ''description: Enable graceful restart''),
(20, ''type: boolean''),
(18, ''enabled:''),
(20, ''description: Whether to enable BGP speaker''),
(20, ''type: boolean''),
(18, ''extraArgs:''),
(20, ''description: Extra arguments for BGP speaker''),
(20, ''items:''),
(22, ''type: string''),
(20, ''type: array''),
(18, ''holdTime:''),
(20, ''description: BGP hold time''),
(20, ''type: string''),
(18, ''neighbors:''),
(20, ''description: BGP neighbors''),
(20, ''items:''),
(22, ''type: string''),
(20, ''type: array''),
(18, ''password:''),
(20, ''description: BGP password''),
(20, ''type: string''),
(18, ''remoteAsn:''),
(20, ''description: BGP remote ASN''),
(20, ''format: int32''),
(20, ''type: integer''),
(18, ''routerId:''),
(20, ''description: BGP router ID''),
(20, ''type: string''),
(16, ''type: object''),
(14, ''externalSubnets:''),
(16, ''description: External subnets accessible through the NAT gateway''),
(16, ''items:''),
(18, ''type: string''),
(16, ''type: array''),
(14, ''lanIp:''),
(16, ''description: LAN IP address for the NAT gateway. This field is immutable''),
(18, ''after creation.''),
(16, ''type: string''),
(14, ''noDefaultEIP:''),
(16, ''description: Disable default EIP assignment''),
(16, ''type: boolean''),
(14, ''qosPolicy:''),
(16, ''description: QoS policy name to apply to the NAT gateway''),
(16, ''type: string''),
(14, ''routes:''),
(16, ''description: Static routes for the NAT gateway''),
(16, ''items:''),
(18, ''properties:''),
(20, ''cidr:''),
(22, ''description: Route CIDR''),
(22, ''type: string''),
(20, ''nextHopIP:''),
(22, ''description: Next hop IP''),
(22, ''type: string''),
(18, ''type: object''),
(16, ''type: array''),
(14, ''selector:''),
(16, ''description: Pod selector for the NAT gateway''),
(16, ''items:''),
(18, ''type: string''),
(16, ''type: array''),
(14, ''subnet:''),
(16, ''description: Subnet name for the NAT gateway. This field is immutable''),
(18, ''after creation.''),
(16, ''type: string''),
(14, ''tolerations:''),
(16, ''items:''),
(18, ''description: |-''),
(20, ''The pod this Toleration is attached to tolerates any taint that matches''),
(20, ''the triple <key,value,effect> using the matching operator <operator>.''),
(18, ''properties:''),
(20, ''effect:''),
(22, ''description: |-''),
(24, ''Effect indicates the taint effect to match. Empty means match all taint effects.''),
(24, ''When specified, allowed values are NoSchedule, PreferNoSchedule and NoExecute.''),
(22, ''type: string''),
(20, ''key:''),
(22, ''description: |-''),
(24, ''Key is the taint key that the toleration applies to. Empty means match all taint keys.''),
(24, ''If the key is empty, operator must be Exists; this combination means to match all values and all keys.''),
(22, ''type: string''),
(20, ''operator:''),
(22, ''description: |-''),
(24, ''Operator represents a key's relationship to the value.''),
(24, ''Valid operators are Exists, Equal, Lt, and Gt. Defaults to Equal.''),
(24, ''Exists is equivalent to wildcard for value, so that a pod can''),
(24, ''tolerate all taints of a particular category.''),
(24, ''Lt and Gt perform numeric comparisons (requires feature gate TaintTolerationComparisonOperators).''),
(22, ''type: string''),
(20, ''tolerationSeconds:''),
(22, ''description: |-''),
(24, ''TolerationSeconds represents the period of time the toleration (which must be''),
(24, ''of effect NoExecute, otherwise this field is ignored) tolerates the taint. By default,''),
(24, ''it is not set, which means tolerate the taint forever (do not evict). Zero and''),
(24, ''negative values will be treated as 0 (evict immediately) by the system.''),
(22, ''format: int64''),
(22, ''type: integer''),
(20, ''value:''),
(22, ''description: |-''),
(24, ''Value is the taint value the toleration matches to.''),
(24, ''If the operator is Exists, the value should be empty, otherwise just a regular string.''),
(22, ''type: string''),
(18, ''type: object''),
(16, ''type: array''),
(14, ''vpc:''),
(16, ''description: VPC name for the NAT gateway. This field is immutable''),
(18, ''after creation.''),
(16, ''type: string''),
(12, ''type: object''),
(10, ''status:''),
(12, ''properties:''),
(14, ''affinity:''),
(16, ''description: Affinity is a group of affinity scheduling rules.''),
(16, ''properties:''),
(18, ''nodeAffinity:'')]\<close>

definition vpc_nat_gateways_crd_part9 :: "yaml_line list" where
  \<open>vpc_nat_gateways_crd_part9 = [
(20, ''description: Describes node affinity scheduling rules for the''),
(22, ''pod.''),
(20, ''properties:''),
(22, ''preferredDuringSchedulingIgnoredDuringExecution:''),
(24, ''description: |-''),
(26, ''The scheduler will prefer to schedule pods to nodes that satisfy''),
(26, ''the affinity expressions specified by this field, but it may choose''),
(26, ''a node that violates one or more of the expressions. The node that is''),
(26, ''most preferred is the one with the greatest sum of weights, i.e.''),
(26, ''for each node that meets all of the scheduling requirements (resource''),
(26, ''request, requiredDuringScheduling affinity expressions, etc.),''),
(26, ''compute a sum by iterating through the elements of this field and adding''),
(26, ''"weight" to the sum if the node matches the corresponding matchExpressions; the''),
(26, ''node(s) with the highest sum are the most preferred.''),
(24, ''items:''),
(26, ''description: |-''),
(28, ''An empty preferred scheduling term matches all objects with implicit weight 0''),
(28, ''(i.e. it's a no-op). A null preferred scheduling term matches no objects (i.e. is also a no-op).''),
(26, ''properties:''),
(28, ''preference:''),
(30, ''description: A node selector term, associated with the''),
(32, ''corresponding weight.''),
(30, ''properties:''),
(32, ''matchExpressions:''),
(34, ''description: A list of node selector requirements''),
(36, ''by node's labels.''),
(34, ''items:''),
(36, ''description: |-''),
(38, ''A node selector requirement is a selector that contains values, a key, and an operator''),
(38, ''that relates the key and values.''),
(36, ''properties:''),
(38, ''key:''),
(40, ''description: The label key that the selector''),
(42, ''applies to.''),
(40, ''type: string''),
(38, ''operator:''),
(40, ''description: |-''),
(42, ''Represents a key's relationship to a set of values.''),
(42, ''Valid operators are In, NotIn, Exists, DoesNotExist. Gt, and Lt.''),
(40, ''type: string''),
(38, ''values:''),
(40, ''description: |-''),
(42, ''An array of string values. If the operator is In or NotIn,''),
(42, ''the values array must be non-empty. If the operator is Exists or DoesNotExist,''),
(42, ''the values array must be empty. If the operator is Gt or Lt, the values''),
(42, ''array must have a single element, which will be interpreted as an integer.''),
(42, ''This array is replaced during a strategic merge patch.''),
(40, ''items:''),
(42, ''type: string''),
(40, ''type: array''),
(40, ''x-kubernetes-list-type: atomic''),
(36, ''required:''),
(36, ''- key''),
(36, ''- operator''),
(36, ''type: object''),
(34, ''type: array''),
(34, ''x-kubernetes-list-type: atomic''),
(32, ''matchFields:''),
(34, ''description: A list of node selector requirements''),
(36, ''by node's fields.''),
(34, ''items:''),
(36, ''description: |-''),
(38, ''A node selector requirement is a selector that contains values, a key, and an operator''),
(38, ''that relates the key and values.''),
(36, ''properties:''),
(38, ''key:''),
(40, ''description: The label key that the selector''),
(42, ''applies to.''),
(40, ''type: string''),
(38, ''operator:''),
(40, ''description: |-''),
(42, ''Represents a key's relationship to a set of values.''),
(42, ''Valid operators are In, NotIn, Exists, DoesNotExist. Gt, and Lt.''),
(40, ''type: string''),
(38, ''values:''),
(40, ''description: |-''),
(42, ''An array of string values. If the operator is In or NotIn,''),
(42, ''the values array must be non-empty. If the operator is Exists or DoesNotExist,''),
(42, ''the values array must be empty. If the operator is Gt or Lt, the values''),
(42, ''array must have a single element, which will be interpreted as an integer.''),
(42, ''This array is replaced during a strategic merge patch.''),
(40, ''items:''),
(42, ''type: string''),
(40, ''type: array''),
(40, ''x-kubernetes-list-type: atomic''),
(36, ''required:''),
(36, ''- key''),
(36, ''- operator''),
(36, ''type: object''),
(34, ''type: array''),
(34, ''x-kubernetes-list-type: atomic''),
(30, ''type: object''),
(30, ''x-kubernetes-map-type: atomic''),
(28, ''weight:''),
(30, ''description: Weight associated with matching the corresponding''),
(32, ''nodeSelectorTerm, in the range 1-100.''),
(30, ''format: int32''),
(30, ''type: integer''),
(26, ''required:''),
(26, ''- preference''),
(26, ''- weight''),
(26, ''type: object''),
(24, ''type: array''),
(24, ''x-kubernetes-list-type: atomic''),
(22, ''requiredDuringSchedulingIgnoredDuringExecution:''),
(24, ''description: |-''),
(26, ''If the affinity requirements specified by this field are not met at''),
(26, ''scheduling time, the pod will not be scheduled onto the node.''),
(26, ''If the affinity requirements specified by this field cease to be met''),
(26, ''at some point during pod execution (e.g. due to an update), the system''),
(26, ''may or may not try to eventually evict the pod from its node.''),
(24, ''properties:''),
(26, ''nodeSelectorTerms:''),
(28, ''description: Required. A list of node selector terms.''),
(30, ''The terms are ORed.''),
(28, ''items:''),
(30, ''description: |-''),
(32, ''A null or empty node selector term matches no objects. The requirements of''),
(32, ''them are ANDed.''),
(32, ''The TopologySelectorTerm type implements a subset of the NodeSelectorTerm.''),
(30, ''properties:''),
(32, ''matchExpressions:''),
(34, ''description: A list of node selector requirements''),
(36, ''by node's labels.''),
(34, ''items:''),
(36, ''description: |-''),
(38, ''A node selector requirement is a selector that contains values, a key, and an operator''),
(38, ''that relates the key and values.''),
(36, ''properties:''),
(38, ''key:''),
(40, ''description: The label key that the selector''),
(42, ''applies to.''),
(40, ''type: string''),
(38, ''operator:''),
(40, ''description: |-''),
(42, ''Represents a key's relationship to a set of values.''),
(42, ''Valid operators are In, NotIn, Exists, DoesNotExist. Gt, and Lt.''),
(40, ''type: string'')]\<close>

definition vpc_nat_gateways_crd_part10 :: "yaml_line list" where
  \<open>vpc_nat_gateways_crd_part10 = [
(38, ''values:''),
(40, ''description: |-''),
(42, ''An array of string values. If the operator is In or NotIn,''),
(42, ''the values array must be non-empty. If the operator is Exists or DoesNotExist,''),
(42, ''the values array must be empty. If the operator is Gt or Lt, the values''),
(42, ''array must have a single element, which will be interpreted as an integer.''),
(42, ''This array is replaced during a strategic merge patch.''),
(40, ''items:''),
(42, ''type: string''),
(40, ''type: array''),
(40, ''x-kubernetes-list-type: atomic''),
(36, ''required:''),
(36, ''- key''),
(36, ''- operator''),
(36, ''type: object''),
(34, ''type: array''),
(34, ''x-kubernetes-list-type: atomic''),
(32, ''matchFields:''),
(34, ''description: A list of node selector requirements''),
(36, ''by node's fields.''),
(34, ''items:''),
(36, ''description: |-''),
(38, ''A node selector requirement is a selector that contains values, a key, and an operator''),
(38, ''that relates the key and values.''),
(36, ''properties:''),
(38, ''key:''),
(40, ''description: The label key that the selector''),
(42, ''applies to.''),
(40, ''type: string''),
(38, ''operator:''),
(40, ''description: |-''),
(42, ''Represents a key's relationship to a set of values.''),
(42, ''Valid operators are In, NotIn, Exists, DoesNotExist. Gt, and Lt.''),
(40, ''type: string''),
(38, ''values:''),
(40, ''description: |-''),
(42, ''An array of string values. If the operator is In or NotIn,''),
(42, ''the values array must be non-empty. If the operator is Exists or DoesNotExist,''),
(42, ''the values array must be empty. If the operator is Gt or Lt, the values''),
(42, ''array must have a single element, which will be interpreted as an integer.''),
(42, ''This array is replaced during a strategic merge patch.''),
(40, ''items:''),
(42, ''type: string''),
(40, ''type: array''),
(40, ''x-kubernetes-list-type: atomic''),
(36, ''required:''),
(36, ''- key''),
(36, ''- operator''),
(36, ''type: object''),
(34, ''type: array''),
(34, ''x-kubernetes-list-type: atomic''),
(30, ''type: object''),
(30, ''x-kubernetes-map-type: atomic''),
(28, ''type: array''),
(28, ''x-kubernetes-list-type: atomic''),
(24, ''required:''),
(24, ''- nodeSelectorTerms''),
(24, ''type: object''),
(24, ''x-kubernetes-map-type: atomic''),
(20, ''type: object''),
(18, ''podAffinity:''),
(20, ''description: Describes pod affinity scheduling rules (e.g. co-locate''),
(22, ''this pod in the same node, zone, etc. as some other pod(s)).''),
(20, ''properties:''),
(22, ''preferredDuringSchedulingIgnoredDuringExecution:''),
(24, ''description: |-''),
(26, ''The scheduler will prefer to schedule pods to nodes that satisfy''),
(26, ''the affinity expressions specified by this field, but it may choose''),
(26, ''a node that violates one or more of the expressions. The node that is''),
(26, ''most preferred is the one with the greatest sum of weights, i.e.''),
(26, ''for each node that meets all of the scheduling requirements (resource''),
(26, ''request, requiredDuringScheduling affinity expressions, etc.),''),
(26, ''compute a sum by iterating through the elements of this field and adding''),
(26, ''"weight" to the sum if the node has pods which matches the corresponding podAffinityTerm; the''),
(26, ''node(s) with the highest sum are the most preferred.''),
(24, ''items:''),
(26, ''description: The weights of all of the matched WeightedPodAffinityTerm''),
(28, ''fields are added per-node to find the most preferred node(s)''),
(26, ''properties:''),
(28, ''podAffinityTerm:''),
(30, ''description: Required. A pod affinity term, associated''),
(32, ''with the corresponding weight.''),
(30, ''properties:''),
(32, ''labelSelector:''),
(34, ''description: |-''),
(36, ''A label query over a set of resources, in this case pods.''),
(36, ''If it's null, this PodAffinityTerm matches with no Pods.''),
(34, ''properties:''),
(36, ''matchExpressions:''),
(38, ''description: matchExpressions is a list of label''),
(40, ''selector requirements. The requirements are''),
(40, ''ANDed.''),
(38, ''items:''),
(40, ''description: |-''),
(42, ''A label selector requirement is a selector that contains values, a key, and an operator that''),
(42, ''relates the key and values.''),
(40, ''properties:''),
(42, ''key:''),
(44, ''description: key is the label key that''),
(46, ''the selector applies to.''),
(44, ''type: string''),
(42, ''operator:''),
(44, ''description: |-''),
(46, ''operator represents a key's relationship to a set of values.''),
(46, ''Valid operators are In, NotIn, Exists and DoesNotExist.''),
(44, ''type: string''),
(42, ''values:''),
(44, ''description: |-''),
(46, ''values is an array of string values. If the operator is In or NotIn,''),
(46, ''the values array must be non-empty. If the operator is Exists or DoesNotExist,''),
(46, ''the values array must be empty. This array is replaced during a strategic''),
(46, ''merge patch.''),
(44, ''items:''),
(46, ''type: string''),
(44, ''type: array''),
(44, ''x-kubernetes-list-type: atomic''),
(40, ''required:''),
(40, ''- key''),
(40, ''- operator''),
(40, ''type: object''),
(38, ''type: array''),
(38, ''x-kubernetes-list-type: atomic''),
(36, ''matchLabels:''),
(38, ''additionalProperties:''),
(40, ''type: string''),
(38, ''description: |-''),
(40, ''matchLabels is a map of {key,value} pairs. A single {key,value} in the matchLabels''),
(40, ''map is equivalent to an element of matchExpressions, whose key field is "key", the''),
(40, ''operator is "In", and the values array contains only "value". The requirements are ANDed.''),
(38, ''type: object''),
(34, ''type: object''),
(34, ''x-kubernetes-map-type: atomic''),
(32, ''matchLabelKeys:''),
(34, ''description: |-''),
(36, ''MatchLabelKeys is a set of pod label keys to select which pods will''),
(36, ''be taken into consideration. The keys are used to lookup values from the''),
(36, ''incoming pod labels, those key-value labels are merged with labelSelector as key in (value)''),
(36, ''to select the group of existing pods which pods will be taken into consideration'')]\<close>

definition vpc_nat_gateways_crd_part11 :: "yaml_line list" where
  \<open>vpc_nat_gateways_crd_part11 = [
(36, ''for the incoming pod's pod (anti) affinity. Keys that don't exist in the incoming''),
(36, ''pod labels will be ignored. The default value is empty.''),
(36, ''The same key is forbidden to exist in both matchLabelKeys and labelSelector.''),
(36, ''Also, matchLabelKeys cannot be set when labelSelector isn't set.''),
(34, ''items:''),
(36, ''type: string''),
(34, ''type: array''),
(34, ''x-kubernetes-list-type: atomic''),
(32, ''mismatchLabelKeys:''),
(34, ''description: |-''),
(36, ''MismatchLabelKeys is a set of pod label keys to select which pods will''),
(36, ''be taken into consideration. The keys are used to lookup values from the''),
(36, ''incoming pod labels, those key-value labels are merged with labelSelector as key notin (value)''),
(36, ''to select the group of existing pods which pods will be taken into consideration''),
(36, ''for the incoming pod's pod (anti) affinity. Keys that don't exist in the incoming''),
(36, ''pod labels will be ignored. The default value is empty.''),
(36, ''The same key is forbidden to exist in both mismatchLabelKeys and labelSelector.''),
(36, ''Also, mismatchLabelKeys cannot be set when labelSelector isn't set.''),
(34, ''items:''),
(36, ''type: string''),
(34, ''type: array''),
(34, ''x-kubernetes-list-type: atomic''),
(32, ''namespaceSelector:''),
(34, ''description: |-''),
(36, ''A label query over the set of namespaces that the term applies to.''),
(36, ''The term is applied to the union of the namespaces selected by this field''),
(36, ''and the ones listed in the namespaces field.''),
(36, ''null selector and null or empty namespaces list means "this pod's namespace".''),
(36, ''An empty selector ({}) matches all namespaces.''),
(34, ''properties:''),
(36, ''matchExpressions:''),
(38, ''description: matchExpressions is a list of label''),
(40, ''selector requirements. The requirements are''),
(40, ''ANDed.''),
(38, ''items:''),
(40, ''description: |-''),
(42, ''A label selector requirement is a selector that contains values, a key, and an operator that''),
(42, ''relates the key and values.''),
(40, ''properties:''),
(42, ''key:''),
(44, ''description: key is the label key that''),
(46, ''the selector applies to.''),
(44, ''type: string''),
(42, ''operator:''),
(44, ''description: |-''),
(46, ''operator represents a key's relationship to a set of values.''),
(46, ''Valid operators are In, NotIn, Exists and DoesNotExist.''),
(44, ''type: string''),
(42, ''values:''),
(44, ''description: |-''),
(46, ''values is an array of string values. If the operator is In or NotIn,''),
(46, ''the values array must be non-empty. If the operator is Exists or DoesNotExist,''),
(46, ''the values array must be empty. This array is replaced during a strategic''),
(46, ''merge patch.''),
(44, ''items:''),
(46, ''type: string''),
(44, ''type: array''),
(44, ''x-kubernetes-list-type: atomic''),
(40, ''required:''),
(40, ''- key''),
(40, ''- operator''),
(40, ''type: object''),
(38, ''type: array''),
(38, ''x-kubernetes-list-type: atomic''),
(36, ''matchLabels:''),
(38, ''additionalProperties:''),
(40, ''type: string''),
(38, ''description: |-''),
(40, ''matchLabels is a map of {key,value} pairs. A single {key,value} in the matchLabels''),
(40, ''map is equivalent to an element of matchExpressions, whose key field is "key", the''),
(40, ''operator is "In", and the values array contains only "value". The requirements are ANDed.''),
(38, ''type: object''),
(34, ''type: object''),
(34, ''x-kubernetes-map-type: atomic''),
(32, ''namespaces:''),
(34, ''description: |-''),
(36, ''namespaces specifies a static list of namespace names that the term applies to.''),
(36, ''The term is applied to the union of the namespaces listed in this field''),
(36, ''and the ones selected by namespaceSelector.''),
(36, ''null or empty namespaces list and null namespaceSelector means "this pod's namespace".''),
(34, ''items:''),
(36, ''type: string''),
(34, ''type: array''),
(34, ''x-kubernetes-list-type: atomic''),
(32, ''topologyKey:''),
(34, ''description: |-''),
(36, ''This pod should be co-located (affinity) or not co-located (anti-affinity) with the pods matching''),
(36, ''the labelSelector in the specified namespaces, where co-located is defined as running on a node''),
(36, ''whose value of the label with key topologyKey matches that of any node on which any of the''),
(36, ''selected pods is running.''),
(36, ''Empty topologyKey is not allowed.''),
(34, ''type: string''),
(30, ''required:''),
(30, ''- topologyKey''),
(30, ''type: object''),
(28, ''weight:''),
(30, ''description: |-''),
(32, ''weight associated with matching the corresponding podAffinityTerm,''),
(32, ''in the range 1-100.''),
(30, ''format: int32''),
(30, ''type: integer''),
(26, ''required:''),
(26, ''- podAffinityTerm''),
(26, ''- weight''),
(26, ''type: object''),
(24, ''type: array''),
(24, ''x-kubernetes-list-type: atomic''),
(22, ''requiredDuringSchedulingIgnoredDuringExecution:''),
(24, ''description: |-''),
(26, ''If the affinity requirements specified by this field are not met at''),
(26, ''scheduling time, the pod will not be scheduled onto the node.''),
(26, ''If the affinity requirements specified by this field cease to be met''),
(26, ''at some point during pod execution (e.g. due to a pod label update), the''),
(26, ''system may or may not try to eventually evict the pod from its node.''),
(26, ''When there are multiple elements, the lists of nodes corresponding to each''),
(26, ''podAffinityTerm are intersected, i.e. all terms must be satisfied.''),
(24, ''items:''),
(26, ''description: |-''),
(28, ''Defines a set of pods (namely those matching the labelSelector''),
(28, ''relative to the given namespace(s)) that this pod should be''),
(28, ''co-located (affinity) or not co-located (anti-affinity) with,''),
(28, ''where co-located is defined as running on a node whose value of''),
(28, ''the label with key <topologyKey> matches that of any node on which''),
(28, ''a pod of the set of pods is running''),
(26, ''properties:''),
(28, ''labelSelector:''),
(30, ''description: |-''),
(32, ''A label query over a set of resources, in this case pods.''),
(32, ''If it's null, this PodAffinityTerm matches with no Pods.''),
(30, ''properties:''),
(32, ''matchExpressions:''),
(34, ''description: matchExpressions is a list of label''),
(36, ''selector requirements. The requirements are ANDed.''),
(34, ''items:''),
(36, ''description: |-''),
(38, ''A label selector requirement is a selector that contains values, a key, and an operator that''),
(38, ''relates the key and values.''),
(36, ''properties:'')]\<close>

definition vpc_nat_gateways_crd_part12 :: "yaml_line list" where
  \<open>vpc_nat_gateways_crd_part12 = [
(38, ''key:''),
(40, ''description: key is the label key that the''),
(42, ''selector applies to.''),
(40, ''type: string''),
(38, ''operator:''),
(40, ''description: |-''),
(42, ''operator represents a key's relationship to a set of values.''),
(42, ''Valid operators are In, NotIn, Exists and DoesNotExist.''),
(40, ''type: string''),
(38, ''values:''),
(40, ''description: |-''),
(42, ''values is an array of string values. If the operator is In or NotIn,''),
(42, ''the values array must be non-empty. If the operator is Exists or DoesNotExist,''),
(42, ''the values array must be empty. This array is replaced during a strategic''),
(42, ''merge patch.''),
(40, ''items:''),
(42, ''type: string''),
(40, ''type: array''),
(40, ''x-kubernetes-list-type: atomic''),
(36, ''required:''),
(36, ''- key''),
(36, ''- operator''),
(36, ''type: object''),
(34, ''type: array''),
(34, ''x-kubernetes-list-type: atomic''),
(32, ''matchLabels:''),
(34, ''additionalProperties:''),
(36, ''type: string''),
(34, ''description: |-''),
(36, ''matchLabels is a map of {key,value} pairs. A single {key,value} in the matchLabels''),
(36, ''map is equivalent to an element of matchExpressions, whose key field is "key", the''),
(36, ''operator is "In", and the values array contains only "value". The requirements are ANDed.''),
(34, ''type: object''),
(30, ''type: object''),
(30, ''x-kubernetes-map-type: atomic''),
(28, ''matchLabelKeys:''),
(30, ''description: |-''),
(32, ''MatchLabelKeys is a set of pod label keys to select which pods will''),
(32, ''be taken into consideration. The keys are used to lookup values from the''),
(32, ''incoming pod labels, those key-value labels are merged with labelSelector as key in (value)''),
(32, ''to select the group of existing pods which pods will be taken into consideration''),
(32, ''for the incoming pod's pod (anti) affinity. Keys that don't exist in the incoming''),
(32, ''pod labels will be ignored. The default value is empty.''),
(32, ''The same key is forbidden to exist in both matchLabelKeys and labelSelector.''),
(32, ''Also, matchLabelKeys cannot be set when labelSelector isn't set.''),
(30, ''items:''),
(32, ''type: string''),
(30, ''type: array''),
(30, ''x-kubernetes-list-type: atomic''),
(28, ''mismatchLabelKeys:''),
(30, ''description: |-''),
(32, ''MismatchLabelKeys is a set of pod label keys to select which pods will''),
(32, ''be taken into consideration. The keys are used to lookup values from the''),
(32, ''incoming pod labels, those key-value labels are merged with labelSelector as key notin (value)''),
(32, ''to select the group of existing pods which pods will be taken into consideration''),
(32, ''for the incoming pod's pod (anti) affinity. Keys that don't exist in the incoming''),
(32, ''pod labels will be ignored. The default value is empty.''),
(32, ''The same key is forbidden to exist in both mismatchLabelKeys and labelSelector.''),
(32, ''Also, mismatchLabelKeys cannot be set when labelSelector isn't set.''),
(30, ''items:''),
(32, ''type: string''),
(30, ''type: array''),
(30, ''x-kubernetes-list-type: atomic''),
(28, ''namespaceSelector:''),
(30, ''description: |-''),
(32, ''A label query over the set of namespaces that the term applies to.''),
(32, ''The term is applied to the union of the namespaces selected by this field''),
(32, ''and the ones listed in the namespaces field.''),
(32, ''null selector and null or empty namespaces list means "this pod's namespace".''),
(32, ''An empty selector ({}) matches all namespaces.''),
(30, ''properties:''),
(32, ''matchExpressions:''),
(34, ''description: matchExpressions is a list of label''),
(36, ''selector requirements. The requirements are ANDed.''),
(34, ''items:''),
(36, ''description: |-''),
(38, ''A label selector requirement is a selector that contains values, a key, and an operator that''),
(38, ''relates the key and values.''),
(36, ''properties:''),
(38, ''key:''),
(40, ''description: key is the label key that the''),
(42, ''selector applies to.''),
(40, ''type: string''),
(38, ''operator:''),
(40, ''description: |-''),
(42, ''operator represents a key's relationship to a set of values.''),
(42, ''Valid operators are In, NotIn, Exists and DoesNotExist.''),
(40, ''type: string''),
(38, ''values:''),
(40, ''description: |-''),
(42, ''values is an array of string values. If the operator is In or NotIn,''),
(42, ''the values array must be non-empty. If the operator is Exists or DoesNotExist,''),
(42, ''the values array must be empty. This array is replaced during a strategic''),
(42, ''merge patch.''),
(40, ''items:''),
(42, ''type: string''),
(40, ''type: array''),
(40, ''x-kubernetes-list-type: atomic''),
(36, ''required:''),
(36, ''- key''),
(36, ''- operator''),
(36, ''type: object''),
(34, ''type: array''),
(34, ''x-kubernetes-list-type: atomic''),
(32, ''matchLabels:''),
(34, ''additionalProperties:''),
(36, ''type: string''),
(34, ''description: |-''),
(36, ''matchLabels is a map of {key,value} pairs. A single {key,value} in the matchLabels''),
(36, ''map is equivalent to an element of matchExpressions, whose key field is "key", the''),
(36, ''operator is "In", and the values array contains only "value". The requirements are ANDed.''),
(34, ''type: object''),
(30, ''type: object''),
(30, ''x-kubernetes-map-type: atomic''),
(28, ''namespaces:''),
(30, ''description: |-''),
(32, ''namespaces specifies a static list of namespace names that the term applies to.''),
(32, ''The term is applied to the union of the namespaces listed in this field''),
(32, ''and the ones selected by namespaceSelector.''),
(32, ''null or empty namespaces list and null namespaceSelector means "this pod's namespace".''),
(30, ''items:''),
(32, ''type: string''),
(30, ''type: array''),
(30, ''x-kubernetes-list-type: atomic''),
(28, ''topologyKey:''),
(30, ''description: |-''),
(32, ''This pod should be co-located (affinity) or not co-located (anti-affinity) with the pods matching''),
(32, ''the labelSelector in the specified namespaces, where co-located is defined as running on a node''),
(32, ''whose value of the label with key topologyKey matches that of any node on which any of the''),
(32, ''selected pods is running.''),
(32, ''Empty topologyKey is not allowed.''),
(30, ''type: string''),
(26, ''required:''),
(26, ''- topologyKey''),
(26, ''type: object''),
(24, ''type: array''),
(24, ''x-kubernetes-list-type: atomic''),
(20, ''type: object'')]\<close>

definition vpc_nat_gateways_crd_part13 :: "yaml_line list" where
  \<open>vpc_nat_gateways_crd_part13 = [
(18, ''podAntiAffinity:''),
(20, ''description: Describes pod anti-affinity scheduling rules (e.g.''),
(22, ''avoid putting this pod in the same node, zone, etc. as some''),
(22, ''other pod(s)).''),
(20, ''properties:''),
(22, ''preferredDuringSchedulingIgnoredDuringExecution:''),
(24, ''description: |-''),
(26, ''The scheduler will prefer to schedule pods to nodes that satisfy''),
(26, ''the anti-affinity expressions specified by this field, but it may choose''),
(26, ''a node that violates one or more of the expressions. The node that is''),
(26, ''most preferred is the one with the greatest sum of weights, i.e.''),
(26, ''for each node that meets all of the scheduling requirements (resource''),
(26, ''request, requiredDuringScheduling anti-affinity expressions, etc.),''),
(26, ''compute a sum by iterating through the elements of this field and subtracting''),
(26, ''"weight" from the sum if the node has pods which matches the corresponding podAffinityTerm; the''),
(26, ''node(s) with the highest sum are the most preferred.''),
(24, ''items:''),
(26, ''description: The weights of all of the matched WeightedPodAffinityTerm''),
(28, ''fields are added per-node to find the most preferred node(s)''),
(26, ''properties:''),
(28, ''podAffinityTerm:''),
(30, ''description: Required. A pod affinity term, associated''),
(32, ''with the corresponding weight.''),
(30, ''properties:''),
(32, ''labelSelector:''),
(34, ''description: |-''),
(36, ''A label query over a set of resources, in this case pods.''),
(36, ''If it's null, this PodAffinityTerm matches with no Pods.''),
(34, ''properties:''),
(36, ''matchExpressions:''),
(38, ''description: matchExpressions is a list of label''),
(40, ''selector requirements. The requirements are''),
(40, ''ANDed.''),
(38, ''items:''),
(40, ''description: |-''),
(42, ''A label selector requirement is a selector that contains values, a key, and an operator that''),
(42, ''relates the key and values.''),
(40, ''properties:''),
(42, ''key:''),
(44, ''description: key is the label key that''),
(46, ''the selector applies to.''),
(44, ''type: string''),
(42, ''operator:''),
(44, ''description: |-''),
(46, ''operator represents a key's relationship to a set of values.''),
(46, ''Valid operators are In, NotIn, Exists and DoesNotExist.''),
(44, ''type: string''),
(42, ''values:''),
(44, ''description: |-''),
(46, ''values is an array of string values. If the operator is In or NotIn,''),
(46, ''the values array must be non-empty. If the operator is Exists or DoesNotExist,''),
(46, ''the values array must be empty. This array is replaced during a strategic''),
(46, ''merge patch.''),
(44, ''items:''),
(46, ''type: string''),
(44, ''type: array''),
(44, ''x-kubernetes-list-type: atomic''),
(40, ''required:''),
(40, ''- key''),
(40, ''- operator''),
(40, ''type: object''),
(38, ''type: array''),
(38, ''x-kubernetes-list-type: atomic''),
(36, ''matchLabels:''),
(38, ''additionalProperties:''),
(40, ''type: string''),
(38, ''description: |-''),
(40, ''matchLabels is a map of {key,value} pairs. A single {key,value} in the matchLabels''),
(40, ''map is equivalent to an element of matchExpressions, whose key field is "key", the''),
(40, ''operator is "In", and the values array contains only "value". The requirements are ANDed.''),
(38, ''type: object''),
(34, ''type: object''),
(34, ''x-kubernetes-map-type: atomic''),
(32, ''matchLabelKeys:''),
(34, ''description: |-''),
(36, ''MatchLabelKeys is a set of pod label keys to select which pods will''),
(36, ''be taken into consideration. The keys are used to lookup values from the''),
(36, ''incoming pod labels, those key-value labels are merged with labelSelector as key in (value)''),
(36, ''to select the group of existing pods which pods will be taken into consideration''),
(36, ''for the incoming pod's pod (anti) affinity. Keys that don't exist in the incoming''),
(36, ''pod labels will be ignored. The default value is empty.''),
(36, ''The same key is forbidden to exist in both matchLabelKeys and labelSelector.''),
(36, ''Also, matchLabelKeys cannot be set when labelSelector isn't set.''),
(34, ''items:''),
(36, ''type: string''),
(34, ''type: array''),
(34, ''x-kubernetes-list-type: atomic''),
(32, ''mismatchLabelKeys:''),
(34, ''description: |-''),
(36, ''MismatchLabelKeys is a set of pod label keys to select which pods will''),
(36, ''be taken into consideration. The keys are used to lookup values from the''),
(36, ''incoming pod labels, those key-value labels are merged with labelSelector as key notin (value)''),
(36, ''to select the group of existing pods which pods will be taken into consideration''),
(36, ''for the incoming pod's pod (anti) affinity. Keys that don't exist in the incoming''),
(36, ''pod labels will be ignored. The default value is empty.''),
(36, ''The same key is forbidden to exist in both mismatchLabelKeys and labelSelector.''),
(36, ''Also, mismatchLabelKeys cannot be set when labelSelector isn't set.''),
(34, ''items:''),
(36, ''type: string''),
(34, ''type: array''),
(34, ''x-kubernetes-list-type: atomic''),
(32, ''namespaceSelector:''),
(34, ''description: |-''),
(36, ''A label query over the set of namespaces that the term applies to.''),
(36, ''The term is applied to the union of the namespaces selected by this field''),
(36, ''and the ones listed in the namespaces field.''),
(36, ''null selector and null or empty namespaces list means "this pod's namespace".''),
(36, ''An empty selector ({}) matches all namespaces.''),
(34, ''properties:''),
(36, ''matchExpressions:''),
(38, ''description: matchExpressions is a list of label''),
(40, ''selector requirements. The requirements are''),
(40, ''ANDed.''),
(38, ''items:''),
(40, ''description: |-''),
(42, ''A label selector requirement is a selector that contains values, a key, and an operator that''),
(42, ''relates the key and values.''),
(40, ''properties:''),
(42, ''key:''),
(44, ''description: key is the label key that''),
(46, ''the selector applies to.''),
(44, ''type: string''),
(42, ''operator:''),
(44, ''description: |-''),
(46, ''operator represents a key's relationship to a set of values.''),
(46, ''Valid operators are In, NotIn, Exists and DoesNotExist.''),
(44, ''type: string''),
(42, ''values:''),
(44, ''description: |-''),
(46, ''values is an array of string values. If the operator is In or NotIn,''),
(46, ''the values array must be non-empty. If the operator is Exists or DoesNotExist,''),
(46, ''the values array must be empty. This array is replaced during a strategic''),
(46, ''merge patch.''),
(44, ''items:''),
(46, ''type: string''),
(44, ''type: array''),
(44, ''x-kubernetes-list-type: atomic''),
(40, ''required:'')]\<close>

definition vpc_nat_gateways_crd_part14 :: "yaml_line list" where
  \<open>vpc_nat_gateways_crd_part14 = [
(40, ''- key''),
(40, ''- operator''),
(40, ''type: object''),
(38, ''type: array''),
(38, ''x-kubernetes-list-type: atomic''),
(36, ''matchLabels:''),
(38, ''additionalProperties:''),
(40, ''type: string''),
(38, ''description: |-''),
(40, ''matchLabels is a map of {key,value} pairs. A single {key,value} in the matchLabels''),
(40, ''map is equivalent to an element of matchExpressions, whose key field is "key", the''),
(40, ''operator is "In", and the values array contains only "value". The requirements are ANDed.''),
(38, ''type: object''),
(34, ''type: object''),
(34, ''x-kubernetes-map-type: atomic''),
(32, ''namespaces:''),
(34, ''description: |-''),
(36, ''namespaces specifies a static list of namespace names that the term applies to.''),
(36, ''The term is applied to the union of the namespaces listed in this field''),
(36, ''and the ones selected by namespaceSelector.''),
(36, ''null or empty namespaces list and null namespaceSelector means "this pod's namespace".''),
(34, ''items:''),
(36, ''type: string''),
(34, ''type: array''),
(34, ''x-kubernetes-list-type: atomic''),
(32, ''topologyKey:''),
(34, ''description: |-''),
(36, ''This pod should be co-located (affinity) or not co-located (anti-affinity) with the pods matching''),
(36, ''the labelSelector in the specified namespaces, where co-located is defined as running on a node''),
(36, ''whose value of the label with key topologyKey matches that of any node on which any of the''),
(36, ''selected pods is running.''),
(36, ''Empty topologyKey is not allowed.''),
(34, ''type: string''),
(30, ''required:''),
(30, ''- topologyKey''),
(30, ''type: object''),
(28, ''weight:''),
(30, ''description: |-''),
(32, ''weight associated with matching the corresponding podAffinityTerm,''),
(32, ''in the range 1-100.''),
(30, ''format: int32''),
(30, ''type: integer''),
(26, ''required:''),
(26, ''- podAffinityTerm''),
(26, ''- weight''),
(26, ''type: object''),
(24, ''type: array''),
(24, ''x-kubernetes-list-type: atomic''),
(22, ''requiredDuringSchedulingIgnoredDuringExecution:''),
(24, ''description: |-''),
(26, ''If the anti-affinity requirements specified by this field are not met at''),
(26, ''scheduling time, the pod will not be scheduled onto the node.''),
(26, ''If the anti-affinity requirements specified by this field cease to be met''),
(26, ''at some point during pod execution (e.g. due to a pod label update), the''),
(26, ''system may or may not try to eventually evict the pod from its node.''),
(26, ''When there are multiple elements, the lists of nodes corresponding to each''),
(26, ''podAffinityTerm are intersected, i.e. all terms must be satisfied.''),
(24, ''items:''),
(26, ''description: |-''),
(28, ''Defines a set of pods (namely those matching the labelSelector''),
(28, ''relative to the given namespace(s)) that this pod should be''),
(28, ''co-located (affinity) or not co-located (anti-affinity) with,''),
(28, ''where co-located is defined as running on a node whose value of''),
(28, ''the label with key <topologyKey> matches that of any node on which''),
(28, ''a pod of the set of pods is running''),
(26, ''properties:''),
(28, ''labelSelector:''),
(30, ''description: |-''),
(32, ''A label query over a set of resources, in this case pods.''),
(32, ''If it's null, this PodAffinityTerm matches with no Pods.''),
(30, ''properties:''),
(32, ''matchExpressions:''),
(34, ''description: matchExpressions is a list of label''),
(36, ''selector requirements. The requirements are ANDed.''),
(34, ''items:''),
(36, ''description: |-''),
(38, ''A label selector requirement is a selector that contains values, a key, and an operator that''),
(38, ''relates the key and values.''),
(36, ''properties:''),
(38, ''key:''),
(40, ''description: key is the label key that the''),
(42, ''selector applies to.''),
(40, ''type: string''),
(38, ''operator:''),
(40, ''description: |-''),
(42, ''operator represents a key's relationship to a set of values.''),
(42, ''Valid operators are In, NotIn, Exists and DoesNotExist.''),
(40, ''type: string''),
(38, ''values:''),
(40, ''description: |-''),
(42, ''values is an array of string values. If the operator is In or NotIn,''),
(42, ''the values array must be non-empty. If the operator is Exists or DoesNotExist,''),
(42, ''the values array must be empty. This array is replaced during a strategic''),
(42, ''merge patch.''),
(40, ''items:''),
(42, ''type: string''),
(40, ''type: array''),
(40, ''x-kubernetes-list-type: atomic''),
(36, ''required:''),
(36, ''- key''),
(36, ''- operator''),
(36, ''type: object''),
(34, ''type: array''),
(34, ''x-kubernetes-list-type: atomic''),
(32, ''matchLabels:''),
(34, ''additionalProperties:''),
(36, ''type: string''),
(34, ''description: |-''),
(36, ''matchLabels is a map of {key,value} pairs. A single {key,value} in the matchLabels''),
(36, ''map is equivalent to an element of matchExpressions, whose key field is "key", the''),
(36, ''operator is "In", and the values array contains only "value". The requirements are ANDed.''),
(34, ''type: object''),
(30, ''type: object''),
(30, ''x-kubernetes-map-type: atomic''),
(28, ''matchLabelKeys:''),
(30, ''description: |-''),
(32, ''MatchLabelKeys is a set of pod label keys to select which pods will''),
(32, ''be taken into consideration. The keys are used to lookup values from the''),
(32, ''incoming pod labels, those key-value labels are merged with labelSelector as key in (value)''),
(32, ''to select the group of existing pods which pods will be taken into consideration''),
(32, ''for the incoming pod's pod (anti) affinity. Keys that don't exist in the incoming''),
(32, ''pod labels will be ignored. The default value is empty.''),
(32, ''The same key is forbidden to exist in both matchLabelKeys and labelSelector.''),
(32, ''Also, matchLabelKeys cannot be set when labelSelector isn't set.''),
(30, ''items:''),
(32, ''type: string''),
(30, ''type: array''),
(30, ''x-kubernetes-list-type: atomic''),
(28, ''mismatchLabelKeys:''),
(30, ''description: |-''),
(32, ''MismatchLabelKeys is a set of pod label keys to select which pods will''),
(32, ''be taken into consideration. The keys are used to lookup values from the''),
(32, ''incoming pod labels, those key-value labels are merged with labelSelector as key notin (value)''),
(32, ''to select the group of existing pods which pods will be taken into consideration''),
(32, ''for the incoming pod's pod (anti) affinity. Keys that don't exist in the incoming''),
(32, ''pod labels will be ignored. The default value is empty.''),
(32, ''The same key is forbidden to exist in both mismatchLabelKeys and labelSelector.''),
(32, ''Also, mismatchLabelKeys cannot be set when labelSelector isn't set.'')]\<close>

definition vpc_nat_gateways_crd_part15 :: "yaml_line list" where
  \<open>vpc_nat_gateways_crd_part15 = [
(30, ''items:''),
(32, ''type: string''),
(30, ''type: array''),
(30, ''x-kubernetes-list-type: atomic''),
(28, ''namespaceSelector:''),
(30, ''description: |-''),
(32, ''A label query over the set of namespaces that the term applies to.''),
(32, ''The term is applied to the union of the namespaces selected by this field''),
(32, ''and the ones listed in the namespaces field.''),
(32, ''null selector and null or empty namespaces list means "this pod's namespace".''),
(32, ''An empty selector ({}) matches all namespaces.''),
(30, ''properties:''),
(32, ''matchExpressions:''),
(34, ''description: matchExpressions is a list of label''),
(36, ''selector requirements. The requirements are ANDed.''),
(34, ''items:''),
(36, ''description: |-''),
(38, ''A label selector requirement is a selector that contains values, a key, and an operator that''),
(38, ''relates the key and values.''),
(36, ''properties:''),
(38, ''key:''),
(40, ''description: key is the label key that the''),
(42, ''selector applies to.''),
(40, ''type: string''),
(38, ''operator:''),
(40, ''description: |-''),
(42, ''operator represents a key's relationship to a set of values.''),
(42, ''Valid operators are In, NotIn, Exists and DoesNotExist.''),
(40, ''type: string''),
(38, ''values:''),
(40, ''description: |-''),
(42, ''values is an array of string values. If the operator is In or NotIn,''),
(42, ''the values array must be non-empty. If the operator is Exists or DoesNotExist,''),
(42, ''the values array must be empty. This array is replaced during a strategic''),
(42, ''merge patch.''),
(40, ''items:''),
(42, ''type: string''),
(40, ''type: array''),
(40, ''x-kubernetes-list-type: atomic''),
(36, ''required:''),
(36, ''- key''),
(36, ''- operator''),
(36, ''type: object''),
(34, ''type: array''),
(34, ''x-kubernetes-list-type: atomic''),
(32, ''matchLabels:''),
(34, ''additionalProperties:''),
(36, ''type: string''),
(34, ''description: |-''),
(36, ''matchLabels is a map of {key,value} pairs. A single {key,value} in the matchLabels''),
(36, ''map is equivalent to an element of matchExpressions, whose key field is "key", the''),
(36, ''operator is "In", and the values array contains only "value". The requirements are ANDed.''),
(34, ''type: object''),
(30, ''type: object''),
(30, ''x-kubernetes-map-type: atomic''),
(28, ''namespaces:''),
(30, ''description: |-''),
(32, ''namespaces specifies a static list of namespace names that the term applies to.''),
(32, ''The term is applied to the union of the namespaces listed in this field''),
(32, ''and the ones selected by namespaceSelector.''),
(32, ''null or empty namespaces list and null namespaceSelector means "this pod's namespace".''),
(30, ''items:''),
(32, ''type: string''),
(30, ''type: array''),
(30, ''x-kubernetes-list-type: atomic''),
(28, ''topologyKey:''),
(30, ''description: |-''),
(32, ''This pod should be co-located (affinity) or not co-located (anti-affinity) with the pods matching''),
(32, ''the labelSelector in the specified namespaces, where co-located is defined as running on a node''),
(32, ''whose value of the label with key topologyKey matches that of any node on which any of the''),
(32, ''selected pods is running.''),
(32, ''Empty topologyKey is not allowed.''),
(30, ''type: string''),
(26, ''required:''),
(26, ''- topologyKey''),
(26, ''type: object''),
(24, ''type: array''),
(24, ''x-kubernetes-list-type: atomic''),
(20, ''type: object''),
(16, ''type: object''),
(14, ''externalSubnets:''),
(16, ''description: External subnets configured for the NAT gateway''),
(16, ''items:''),
(18, ''type: string''),
(16, ''type: array''),
(14, ''qosPolicy:''),
(16, ''description: QoS policy applied to the NAT gateway''),
(16, ''type: string''),
(14, ''selector:''),
(16, ''description: Pod selector configured for the NAT gateway''),
(16, ''items:''),
(18, ''type: string''),
(16, ''type: array''),
(14, ''tolerations:''),
(16, ''items:''),
(18, ''description: |-''),
(20, ''The pod this Toleration is attached to tolerates any taint that matches''),
(20, ''the triple <key,value,effect> using the matching operator <operator>.''),
(18, ''properties:''),
(20, ''effect:''),
(22, ''description: |-''),
(24, ''Effect indicates the taint effect to match. Empty means match all taint effects.''),
(24, ''When specified, allowed values are NoSchedule, PreferNoSchedule and NoExecute.''),
(22, ''type: string''),
(20, ''key:''),
(22, ''description: |-''),
(24, ''Key is the taint key that the toleration applies to. Empty means match all taint keys.''),
(24, ''If the key is empty, operator must be Exists; this combination means to match all values and all keys.''),
(22, ''type: string''),
(20, ''operator:''),
(22, ''description: |-''),
(24, ''Operator represents a key's relationship to the value.''),
(24, ''Valid operators are Exists, Equal, Lt, and Gt. Defaults to Equal.''),
(24, ''Exists is equivalent to wildcard for value, so that a pod can''),
(24, ''tolerate all taints of a particular category.''),
(24, ''Lt and Gt perform numeric comparisons (requires feature gate TaintTolerationComparisonOperators).''),
(22, ''type: string''),
(20, ''tolerationSeconds:''),
(22, ''description: |-''),
(24, ''TolerationSeconds represents the period of time the toleration (which must be''),
(24, ''of effect NoExecute, otherwise this field is ignored) tolerates the taint. By default,''),
(24, ''it is not set, which means tolerate the taint forever (do not evict). Zero and''),
(24, ''negative values will be treated as 0 (evict immediately) by the system.''),
(22, ''format: int64''),
(22, ''type: integer''),
(20, ''value:''),
(22, ''description: |-''),
(24, ''Value is the taint value the toleration matches to.''),
(24, ''If the operator is Exists, the value should be empty, otherwise just a regular string.''),
(22, ''type: string''),
(18, ''type: object''),
(16, ''type: array''),
(12, ''type: object''),
(8, ''type: object''),
(4, ''served: true''),
(4, ''storage: true''),
(4, ''subresources:''),
(6, ''status: {}'')]\<close>

definition vpc_nat_gateways_crd :: "yaml_line list" where
  "vpc_nat_gateways_crd = vpc_nat_gateways_crd_part1 @ vpc_nat_gateways_crd_part2 @ vpc_nat_gateways_crd_part3 @ vpc_nat_gateways_crd_part4 @ vpc_nat_gateways_crd_part5 @ vpc_nat_gateways_crd_part6 @ vpc_nat_gateways_crd_part7 @ vpc_nat_gateways_crd_part8 @ vpc_nat_gateways_crd_part9 @ vpc_nat_gateways_crd_part10 @ vpc_nat_gateways_crd_part11 @ vpc_nat_gateways_crd_part12 @ vpc_nat_gateways_crd_part13 @ vpc_nat_gateways_crd_part14 @ vpc_nat_gateways_crd_part15"

end
