(* ===== verification/CRD_Texts_2.thy ===== *)
theory CRD_Texts_2
  imports CRD_Lines
begin

text \<open>
  Texts of \<^verbatim>\<open>internal/templates/customresourcedefinitions.go\<close>, line by line with the indentation as a
  number. A text of more than 150 lines is given in parts.
\<close>

definition dns_name_resolvers_crd_part1 :: "yaml_line list" where
  \<open>dns_name_resolvers_crd_part1 = [
(0, ''apiVersion: apiextensions.k8s.io/v1''),
(0, ''kind: CustomResourceDefinition''),
(0, ''metadata:''),
(2, ''annotations:''),
(4, ''controller-gen.kubebuilder.io/version: v0.20.1''),
(2, ''name: dnsnameresolvers.kubeovn.io''),
(0, ''spec:''),
(2, ''group: kubeovn.io''),
(2, ''names:''),
(4, ''kind: DNSNameResolver''),
(4, ''listKind: DNSNameResolverList''),
(4, ''plural: dnsnameresolvers''),
(4, ''shortNames:''),
(4, ''- dnr''),
(4, ''singular: dnsnameresolver''),
(2, ''scope: Cluster''),
(2, ''versions:''),
(2, ''- name: v1''),
(4, ''schema:''),
(6, ''openAPIV3Schema:''),
(8, ''properties:''),
(10, ''apiVersion:''),
(12, ''description: |-''),
(14, ''APIVersion defines the versioned schema of this representation of an object.''),
(14, ''Servers should convert recognized schemas to the latest internal value, and''),
(14, ''may reject unrecognized values.''),
(14, ''More info: https://git.k8s.io/community/contributors/devel/sig-architecture/api-conventions.md#resources''),
(12, ''type: string''),
(10, ''kind:''),
(12, ''description: |-''),
(14, ''Kind is a string value representing the REST resource this object represents.''),
(14, ''Servers may infer this from the endpoint the client submits requests to.''),
(14, ''Cannot be updated.''),
(14, ''In CamelCase.''),
(14, ''More info: https://git.k8s.io/community/contributors/devel/sig-architecture/api-conventions.md#types-kinds''),
(12, ''type: string''),
(10, ''metadata:''),
(12, ''type: object''),
(10, ''spec:''),
(12, ''properties:''),
(14, ''name:''),
(16, ''description: |-''),
(18, ''name is the DNS name for which the DNS name resolution information will be stored.''),
(18, ''For a regular DNS name, only the DNS name resolution information of the regular DNS''),
(18, ''name will be stored. For a wildcard DNS name, the DNS name resolution information''),
(18, ''of all the DNS names that match the wildcard DNS name will be stored.''),
(18, ''For a wildcard DNS name, the '*' will match only one label. Additionally, only a single''),
(18, [CHR 0x27] @ ''*' can be used at the beginning of the wildcard DNS name. For example, '*.example.com.'' @ [CHR 0x27]),
(18, ''will match 'sub1.example.com.' but won't match 'sub2.sub1.example.com.'' @ [CHR 0x27]),
(16, ''maxLength: 254''),
(16, ''pattern: ^('' @ [CHR 0x5C] @ ''*'' @ [CHR 0x5C] @ ''.)?([a-z0-9]([-a-z0-9]{0,61}[a-z0-9])?'' @ [CHR 0x5C] @ ''.){2,}$''),
(16, ''type: string''),
(16, ''x-kubernetes-validations:''),
(16, ''- message: spec.name is immutable''),
(18, ''rule: self == oldSelf''),
(12, ''required:''),
(12, ''- name''),
(12, ''type: object''),
(10, ''status:''),
(12, ''description: DNSNameResolverStatus defines the observed status of DNSNameResolver.''),
(12, ''properties:''),
(14, ''resolvedNames:''),
(16, ''description: |-''),
(18, ''resolvedNames contains a list of matching DNS names and their corresponding IP addresses''),
(18, ''along with their TTL and last DNS lookup times.''),
(16, ''items:''),
(18, ''description: DNSNameResolverResolvedName describes the details of''),
(20, ''a resolved DNS name.''),
(18, ''properties:''),
(20, ''conditions:''),
(22, ''description: |-''),
(24, ''conditions provide information about the state of the DNS name.''),
(24, ''Known .status.conditions.type is: "Degraded".''),
(24, ''"Degraded" is true when the last resolution failed for the DNS name,''),
(24, ''and false otherwise.''),
(22, ''items:''),
(24, ''description: Condition contains details for one aspect of''),
(26, ''the current state of this API Resource.''),
(24, ''properties:''),
(26, ''lastTransitionTime:''),
(28, ''description: |-''),
(30, ''lastTransitionTime is the last time the condition transitioned from one status to another.''),
(30, ''This should be when the underlying condition changed.  If that is not known, then using the time when the API field changed is acceptable.''),
(28, ''format: date-time''),
(28, ''type: string''),
(26, ''message:''),
(28, ''description: |-''),
(30, ''message is a human readable message indicating details about the transition.''),
(30, ''This may be an empty string.''),
(28, ''maxLength: 32768''),
(28, ''type: string''),
(26, ''observedGeneration:''),
(28, ''description: |-''),
(30, ''observedGeneration represents the .metadata.generation that the condition was set based upon.''),
(30, ''For instance, if .metadata.generation is currently 12, but the .status.conditions[x].observedGeneration is 9, the condition is out of date''),
(30, ''with respect to the current state of the instance.''),
(28, ''format: int64''),
(28, ''minimum: 0''),
(28, ''type: integer''),
(26, ''reason:''),
(28, ''description: |-''),
(30, ''reason contains a programmatic identifier indicating the reason for the condition's last transition.''),
(30, ''Producers of specific condition types may define expected values and meanings for this field,''),
(30, ''and whether the values are considered a guaranteed API.''),
(30, ''The value should be a CamelCase string.''),
(30, ''This field may not be empty.'')]\<close>

definition dns_name_resolvers_crd_part2 :: "yaml_line list" where
  \<open>dns_name_resolvers_crd_part2 = [
(28, ''maxLength: 1024''),
(28, ''minLength: 1''),
(28, ''pattern: ^[A-Za-z]([A-Za-z0-9_,:]*[A-Za-z0-9_])?$''),
(28, ''type: string''),
(26, ''status:''),
(28, ''description: status of the condition, one of True, False,''),
(30, ''Unknown.''),
(28, ''enum:''),
(28, ''- "True"''),
(28, ''- "False"''),
(28, ''- Unknown''),
(28, ''type: string''),
(26, ''type:''),
(28, ''description: type of condition in CamelCase or in foo.example.com/CamelCase.''),
(28, ''maxLength: 316''),
(28, ''pattern: ^([a-z0-9]([-a-z0-9]*[a-z0-9])?('' @ [CHR 0x5C] @ ''.[a-z0-9]([-a-z0-9]*[a-z0-9])?)*/)?(([A-Za-z0-9][-A-Za-z0-9_.]*)?[A-Za-z0-9])$''),
(28, ''type: string''),
(24, ''required:''),
(24, ''- lastTransitionTime''),
(24, ''- message''),
(24, ''- reason''),
(24, ''- status''),
(24, ''- type''),
(24, ''type: object''),
(22, ''type: array''),
(22, ''x-kubernetes-list-map-keys:''),
(22, ''- type''),
(22, ''x-kubernetes-list-type: map''),
(20, ''dnsName:''),
(22, ''description: |-''),
(24, ''dnsName is the resolved DNS name matching the name field of DNSNameResolverSpec. This field can''),
(24, ''store both regular and wildcard DNS names which match the spec.name field. When the spec.name''),
(24, ''field contains a regular DNS name, this field will store the same regular DNS name after it is''),
(24, ''successfully resolved. When the spec.name field contains a wildcard DNS name, each resolvedName.dnsName''),
(24, ''will store the regular DNS names which match the wildcard DNS name and have been successfully resolved.''),
(24, ''If the wildcard DNS name can also be successfully resolved, then this field will store the wildcard''),
(24, ''DNS name as well.''),
(22, ''maxLength: 254''),
(22, ''pattern: ^('' @ [CHR 0x5C] @ ''*'' @ [CHR 0x5C] @ ''.)?([a-z0-9]([-a-z0-9]{0,61}[a-z0-9])?'' @ [CHR 0x5C] @ ''.){2,}$''),
(22, ''type: string''),
(20, ''resolutionFailures:''),
(22, ''description: |-''),
(24, ''resolutionFailures keeps the count of how many consecutive times the DNS resolution failed''),
(24, ''for the dnsName. If the DNS resolution succeeds then the field will be set to zero. Upon''),
(24, ''every failure, the value of the field will be incremented by one. The details about the DNS''),
(24, ''name will be removed, if the value of resolutionFailures reaches 5 and the TTL of all the''),
(24, ''associated IP addresses have expired.''),
(22, ''format: int32''),
(22, ''type: integer''),
(20, ''resolvedAddresses:''),
(22, ''description: |-''),
(24, ''resolvedAddresses gives the list of associated IP addresses and their corresponding TTLs and last''),
(24, ''lookup times for the dnsName.''),
(22, ''items:''),
(24, ''description: DNSNameResolverResolvedAddress describes the''),
(26, ''details of an IP address for a resolved DNS name.''),
(24, ''properties:''),
(26, ''ip:''),
(28, ''description: |-''),
(30, ''ip is an IP address associated with the dnsName. The validity of the IP address expires after''),
(30, ''lastLookupTime + ttlSeconds. To refresh the information, a DNS lookup will be performed upon''),
(30, ''the expiration of the IP address's validity. If the information is not refreshed then it will''),
(30, ''be removed with a grace period after the expiration of the IP address's validity.''),
(28, ''type: string''),
(26, ''lastLookupTime:''),
(28, ''description: |-''),
(30, ''lastLookupTime is the timestamp when the last DNS lookup was completed successfully. The validity of''),
(30, ''the IP address expires after lastLookupTime + ttlSeconds. The value of this field will be updated to''),
(30, ''the current time on a successful DNS lookup. If the information is not refreshed then it will be''),
(30, ''removed with a grace period after the expiration of the IP address's validity.''),
(28, ''format: date-time''),
(28, ''type: string''),
(26, ''ttlSeconds:''),
(28, ''description: |-''),
(30, ''ttlSeconds is the time-to-live value of the IP address. The validity of the IP address expires after''),
(30, ''lastLookupTime + ttlSeconds. On a successful DNS lookup the value of this field will be updated with''),
(30, ''the current time-to-live value. If the information is not refreshed then it will be removed with a''),
(30, ''grace period after the expiration of the IP address's validity.''),
(28, ''format: int32''),
(28, ''type: integer''),
(24, ''required:''),
(24, ''- ip''),
(24, ''- lastLookupTime''),
(24, ''- ttlSeconds''),
(24, ''type: object''),
(22, ''type: array''),
(22, ''x-kubernetes-list-map-keys:''),
(22, ''- ip''),
(22, ''x-kubernetes-list-type: map''),
(18, ''required:''),
(18, ''- dnsName''),
(18, ''- resolvedAddresses''),
(18, ''type: object''),
(16, ''type: array''),
(16, ''x-kubernetes-list-map-keys:''),
(16, ''- dnsName''),
(16, ''x-kubernetes-list-type: map''),
(12, ''type: object''),
(8, ''required:''),
(8, ''- spec''),
(8, ''type: object''),
(4, ''served: true''),
(4, ''storage: true''),
(4, ''subresources:''),
(6, ''status: {}'')]\<close>

definition dns_name_resolvers_crd :: "yaml_line list" where
  "dns_name_resolvers_crd = dns_name_resolvers_crd_part1 @ dns_name_resolvers_crd_part2"

definition iptables_dnat_rules_crd_part1 :: "yaml_line list" where
  \<open>iptables_dnat_rules_crd_part1 = [
(0, ''apiVersion: apiextensions.k8s.io/v1''),
(0, ''kind: CustomResourceDefinition''),
(0, ''metadata:''),
(2, ''annotations:''),
(4, ''controller-gen.kubebuilder.io/version: v0.20.1''),
(2, ''name: iptables-dnat-rules.kubeovn.io''),
(0, ''spec:''),
(2, ''group: kubeovn.io''),
(2, ''names:''),
(4, ''kind: IptablesDnatRule''),
(4, ''listKind: IptablesDnatRuleList''),
(4, ''plural: iptables-dnat-rules''),
(4, ''shortNames:''),
(4, ''- dnat''),
(4, ''singular: iptables-dnat-rule''),
(2, ''scope: Cluster''),
(2, ''versions:''),
(2, ''- additionalPrinterColumns:''),
(4, ''- jsonPath: .spec.eip''),
(6, ''name: Eip''),
(6, ''type: string''),
(4, ''- jsonPath: .spec.protocol''),
(6, ''name: Protocol''),
(6, ''type: string''),
(4, ''- jsonPath: .status.v4ip''),
(6, ''name: V4ip''),
(6, ''type: string''),
(4, ''- jsonPath: .status.v6ip''),
(6, ''name: V6ip''),
(6, ''type: string''),
(4, ''- jsonPath: .spec.internalIp''),
(6, ''name: InternalIp''),
(6, ''type: string''),
(4, ''- jsonPath: .spec.externalPort''),
(6, ''name: ExternalPort''),
(6, ''type: string''),
(4, ''- jsonPath: .spec.internalPort''),
(6, ''name: InternalPort''),
(6, ''type: string''),
(4, ''- jsonPath: .status.natGwDp''),
(6, ''name: NatGwDp''),
(6, ''type: string''),
(4, ''- jsonPath: .status.ready''),
(6, ''name: Ready''),
(6, ''type: boolean''),
(4, ''name: v1''),
(4, ''schema:''),
(6, ''openAPIV3Schema:''),
(8, ''properties:''),
(10, ''apiVersion:''),
(12, ''description: |-''),
(14, ''APIVersion defines the versioned schema of this representation of an object.''),
(14, ''Servers should convert recognized schemas to the latest internal value, and''),
(14, ''may reject unrecognized values.''),
(14, ''More info: https://git.k8s.io/community/contributors/devel/sig-architecture/api-conventions.md#resources''),
(12, ''type: string''),
(10, ''kind:''),
(12, ''description: |-''),
(14, ''Kind is a string value representing the REST resource this object represents.''),
(14, ''Servers may infer this from the endpoint the client submits requests to.''),
(14, ''Cannot be updated.''),
(14, ''In CamelCase.''),
(14, ''More info: https://git.k8s.io/community/contributors/devel/sig-architecture/api-conventions.md#types-kinds''),
(12, ''type: string''),
(10, ''metadata:''),
(12, ''type: object''),
(10, ''spec:''),
(12, ''properties:''),
(14, ''eip:''),
(16, ''description: EIP name for DNAT rule''),
(16, ''type: string''),
(14, ''externalPort:''),
(16, ''description: External port number''),
(16, ''type: string''),
(14, ''internalIp:''),
(16, ''description: Internal IP address to forward traffic to''),
(16, ''type: string''),
(14, ''internalPort:'')]\<close>

definition iptables_dnat_rules_crd_part2 :: "yaml_line list" where
  \<open>iptables_dnat_rules_crd_part2 = [
(16, ''description: Internal port number to forward traffic to''),
(16, ''type: string''),
(14, ''protocol:''),
(16, ''description: Protocol type (TCP or UDP)''),
(16, ''type: string''),
(12, ''type: object''),
(10, ''status:''),
(12, ''properties:''),
(14, ''conditions:''),
(16, ''description: Conditions represents the latest state of the object''),
(16, ''items:''),
(18, ''description: Condition describes the state of an object at a certain''),
(20, ''point.''),
(18, ''properties:''),
(20, ''lastTransitionTime:''),
(22, ''description: Last time the condition transitioned from one status''),
(24, ''to another.''),
(22, ''format: date-time''),
(22, ''type: string''),
(20, ''lastUpdateTime:''),
(22, ''description: Last time the condition was probed''),
(22, ''format: date-time''),
(22, ''type: string''),
(20, ''message:''),
(22, ''description: A human readable message indicating details about''),
(24, ''the transition.''),
(22, ''type: string''),
(20, ''observedGeneration:''),
(22, ''description: |-''),
(24, ''ObservedGeneration represents the .metadata.generation that the condition was set based upon.''),
(24, ''For instance, if .metadata.generation is currently 12, but the .status.conditions[x].observedGeneration is 9,''),
(24, ''the condition is out of date with respect to the current state of the instance.''),
(22, ''format: int64''),
(22, ''type: integer''),
(20, ''reason:''),
(22, ''description: The reason for the condition's last transition.''),
(22, ''type: string''),
(20, ''status:''),
(22, ''description: Status of the condition, one of True, False, Unknown.''),
(22, ''type: string''),
(20, ''type:''),
(22, ''description: Type of condition.''),
(22, ''type: string''),
(18, ''type: object''),
(16, ''type: array''),
(14, ''externalPort:''),
(16, ''description: External port configured in the DNAT rule''),
(16, ''type: string''),
(14, ''internalIp:''),
(16, ''description: Internal IP address configured in the DNAT rule''),
(16, ''type: string''),
(14, ''internalPort:''),
(16, ''description: Internal port configured in the DNAT rule''),
(16, ''type: string''),
(14, ''natGwDp:''),
(16, ''description: NatGwDp is the NAT gateway data path''),
(16, ''type: string''),
(14, ''protocol:''),
(16, ''description: Protocol type of the DNAT rule''),
(16, ''type: string''),
(14, ''ready:''),
(16, ''description: Indicates whether the DNAT rule is ready''),
(16, ''type: boolean''),
(14, ''redo:''),
(16, ''description: Redo operation status''),
(16, ''type: string''),
(14, ''v4ip:''),
(16, ''description: V4ip is the IPv4 address of the DNAT rule''),
(16, ''type: string''),
(14, ''v6ip:''),
(16, ''description: V6ip is the IPv6 address of the DNAT rule''),
(16, ''type: string''),
(12, ''type: object''),
(8, ''type: object''),
(4, ''served: true''),
(4, ''storage: true''),
(4, ''subresources:''),
(6, ''status: {}'')]\<close>

definition iptables_dnat_rules_crd :: "yaml_line list" where
  "iptables_dnat_rules_crd = iptables_dnat_rules_crd_part1 @ iptables_dnat_rules_crd_part2"

definition ovn_fips_crd_part1 :: "yaml_line list" where
  \<open>ovn_fips_crd_part1 = [
(0, ''apiVersion: apiextensions.k8s.io/v1''),
(0, ''kind: CustomResourceDefinition''),
(0, ''metadata:''),
(2, ''annotations:''),
(4, ''controller-gen.kubebuilder.io/version: v0.20.1''),
(2, ''name: ovn-fips.kubeovn.io''),
(0, ''spec:''),
(2, ''group: kubeovn.io''),
(2, ''names:''),
(4, ''kind: OvnFip''),
(4, ''listKind: OvnFipList''),
(4, ''plural: ovn-fips''),
(4, ''shortNames:''),
(4, ''- ofip''),
(4, ''singular: ovn-fip''),
(2, ''scope: Cluster''),
(2, ''versions:''),
(2, ''- additionalPrinterColumns:''),
(4, ''- jsonPath: .status.vpc''),
(6, ''name: Vpc''),
(6, ''type: string''),
(4, ''- jsonPath: .spec.type''),
(6, ''name: Type''),
(6, ''type: string''),
(4, ''- jsonPath: .status.v4Eip''),
(6, ''name: V4Eip''),
(6, ''type: string''),
(4, ''- jsonPath: .status.v6Eip''),
(6, ''name: V6Eip''),
(6, ''type: string''),
(4, ''- jsonPath: .status.v4Ip''),
(6, ''name: V4Ip''),
(6, ''type: string''),
(4, ''- jsonPath: .status.v6Ip''),
(6, ''name: V6Ip''),
(6, ''type: string''),
(4, ''- jsonPath: .status.ready''),
(6, ''name: Ready''),
(6, ''type: boolean''),
(4, ''- jsonPath: .spec.ipType''),
(6, ''name: IpType''),
(6, ''type: string''),
(4, ''- jsonPath: .spec.ipName''),
(6, ''name: IpName''),
(6, ''type: string''),
(4, ''name: v1''),
(4, ''schema:''),
(6, ''openAPIV3Schema:''),
(8, ''properties:''),
(10, ''apiVersion:''),
(12, ''description: |-''),
(14, ''APIVersion defines the versioned schema of this representation of an object.''),
(14, ''Servers should convert recognized schemas to the latest internal value, and''),
(14, ''may reject unrecognized values.''),
(14, ''More info: https://git.k8s.io/community/contributors/devel/sig-architecture/api-conventions.md#resources''),
(12, ''type: string''),
(10, ''kind:''),
(12, ''description: |-''),
(14, ''Kind is a string value representing the REST resource this object represents.''),
(14, ''Servers may infer this from the endpoint the client submits requests to.''),
(14, ''Cannot be updated.''),
(14, ''In CamelCase.''),
(14, ''More info: https://git.k8s.io/community/contributors/devel/sig-architecture/api-conventions.md#types-kinds''),
(12, ''type: string''),
(10, ''metadata:''),
(12, ''type: object''),
(10, ''spec:''),
(12, ''properties:''),
(14, ''ipName:''),
(16, ''description: IP resource name''),
(16, ''type: string''),
(14, ''ipType:''),
(16, ''description: IP type (e.g., ipv4, ipv6, dual)''),
(16, ''type: string''),
(14, ''ovnEip:''),
(16, ''description: OVN EIP name to use for floating IP''),
(16, ''type: string''),
(14, ''type:'')]\<close>

definition ovn_fips_crd_part2 :: "yaml_line list" where
  \<open>ovn_fips_crd_part2 = [
(16, ''description: FIP type''),
(16, ''type: string''),
(14, ''v4Ip:''),
(16, ''description: IPv4 address for the floating IP''),
(16, ''type: string''),
(14, ''v6Ip:''),
(16, ''description: IPv6 address for the floating IP''),
(16, ''type: string''),
(14, ''vpc:''),
(16, ''description: VPC name. This field is immutable after creation.''),
(16, ''type: string''),
(12, ''type: object''),
(10, ''status:''),
(12, ''properties:''),
(14, ''conditions:''),
(16, ''description: Conditions represents the latest state of the object''),
(16, ''items:''),
(18, ''description: Condition describes the state of an object at a certain''),
(20, ''point.''),
(18, ''properties:''),
(20, ''lastTransitionTime:''),
(22, ''description: Last time the condition transitioned from one status''),
(24, ''to another.''),
(22, ''format: date-time''),
(22, ''type: string''),
(20, ''lastUpdateTime:''),
(22, ''description: Last time the condition was probed''),
(22, ''format: date-time''),
(22, ''type: string''),
(20, ''message:''),
(22, ''description: A human readable message indicating details about''),
(24, ''the transition.''),
(22, ''type: string''),
(20, ''observedGeneration:''),
(22, ''description: |-''),
(24, ''ObservedGeneration represents the .metadata.generation that the condition was set based upon.''),
(24, ''For instance, if .metadata.generation is currently 12, but the .status.conditions[x].observedGeneration is 9,''),
(24, ''the condition is out of date with respect to the current state of the instance.''),
(22, ''format: int64''),
(22, ''type: integer''),
(20, ''reason:''),
(22, ''description: The reason for the condition's last transition.''),
(22, ''type: string''),
(20, ''status:''),
(22, ''description: Status of the condition, one of True, False, Unknown.''),
(22, ''type: string''),
(20, ''type:''),
(22, ''description: Type of condition.''),
(22, ''type: string''),
(18, ''type: object''),
(16, ''type: array''),
(14, ''macAddress:''),
(16, ''description: MacAddress of the FIP''),
(16, ''type: string''),
(14, ''ready:''),
(16, ''description: Indicates whether the FIP rule is ready''),
(16, ''type: boolean''),
(14, ''v4Eip:''),
(16, ''description: V4Eip is the IPv4 EIP address''),
(16, ''type: string''),
(14, ''v4Ip:''),
(16, ''description: V4Ip is the IPv4 address of the FIP''),
(16, ''type: string''),
(14, ''v6Eip:''),
(16, ''description: V6Eip is the IPv6 EIP address''),
(16, ''type: string''),
(14, ''v6Ip:''),
(16, ''description: V6Ip is the IPv6 address of the FIP''),
(16, ''type: string''),
(14, ''vpc:''),
(16, ''description: VPC name where the FIP is configured''),
(16, ''type: string''),
(12, ''type: object''),
(8, ''type: object''),
(4, ''served: true''),
(4, ''storage: true''),
(4, ''subresources:''),
(6, ''status: {}'')]\<close>

definition ovn_fips_crd :: "yaml_line list" where
  "ovn_fips_crd = ovn_fips_crd_part1 @ ovn_fips_crd_part2"

definition vpcs_crd_part1 :: "yaml_line list" where
  \<open>vpcs_crd_part1 = [
(0, ''apiVersion: apiextensions.k8s.io/v1''),
(0, ''kind: CustomResourceDefinition''),
(0, ''metadata:''),
(2, ''annotations:''),
(4, ''controller-gen.kubebuilder.io/version: v0.20.1''),
(2, ''name: vpcs.kubeovn.io''),
(0, ''spec:''),
(2, ''group: kubeovn.io''),
(2, ''names:''),
(4, ''kind: Vpc''),
(4, ''listKind: VpcList''),
(4, ''plural: vpcs''),
(4, ''shortNames:''),
(4, ''- vpc''),
(4, ''singular: vpc''),
(2, ''scope: Cluster''),
(2, ''versions:''),
(2, ''- additionalPrinterColumns:''),
(4, ''- jsonPath: .status.enableExternal''),
(6, ''name: EnableExternal''),
(6, ''type: boolean''),
(4, ''- jsonPath: .status.enableBfd''),
(6, ''name: EnableBfd''),
(6, ''type: boolean''),
(4, ''- jsonPath: .status.standby''),
(6, ''name: Standby''),
(6, ''type: boolean''),
(4, ''- jsonPath: .status.subnets''),
(6, ''name: Subnets''),
(6, ''type: string''),
(4, ''- jsonPath: .status.extraExternalSubnets''),
(6, ''name: ExtraExternalSubnets''),
(6, ''type: string''),
(4, ''- jsonPath: .spec.namespaces''),
(6, ''name: Namespaces''),
(6, ''type: string''),
(4, ''- jsonPath: .status.defaultLogicalSwitch''),
(6, ''name: DefaultSubnet''),
(6, ''type: string''),
(4, ''name: v1''),
(4, ''schema:''),
(6, ''openAPIV3Schema:''),
(8, ''properties:''),
(10, ''apiVersion:''),
(12, ''description: |-''),
(14, ''APIVersion defines the versioned schema of this representation of an object.''),
(14, ''Servers should convert recognized schemas to the latest internal value, and''),
(14, ''may reject unrecognized values.''),
(14, ''More info: https://git.k8s.io/community/contributors/devel/sig-architecture/api-conventions.md#resources''),
(12, ''type: string''),
(10, ''kind:''),
(12, ''description: |-''),
(14, ''Kind is a string value representing the REST resource this object represents.''),
(14, ''Servers may infer this from the endpoint the client submits requests to.''),
(14, ''Cannot be updated.''),
(14, ''In CamelCase.''),
(14, ''More info: https://git.k8s.io/community/contributors/devel/sig-architecture/api-conventions.md#types-kinds''),
(12, ''type: string''),
(10, ''metadata:''),
(12, ''type: object''),
(10, ''spec:''),
(12, ''properties:''),
(14, ''bfdPort:''),
(16, ''description: |-''),
(18, ''optional BFD LRP configuration''),
(18, ''currently the LRP is used for vpc external gateway only''),
(16, ''properties:''),
(18, ''enabled:''),
(20, ''default: false''),
(20, ''description: Enable BFD port''),
(20, ''type: boolean''),
(18, ''ip:''),
(20, ''description: ip address(es) of the BFD port''),
(20, ''type: string''),
(18, ''nodeSelector:''),
(20, ''description: |-''),
(22, ''Optional node selector used to select the nodes where the BFD LRP will be hosted.''),
(22, ''If not specified, at most 3 nodes will be selected.''),
(20, ''properties:''),
(22, ''matchExpressions:''),
(24, ''description: matchExpressions is a list of label selector''),
(26, ''requirements. The requirements are ANDed.''),
(24, ''items:''),
(26, ''description: |-''),
(28, ''A label selector requirement is a selector that contains values, a key, and an operator that''),
(28, ''relates the key and values.''),
(26, ''properties:''),
(28, ''key:''),
(30, ''description: key is the label key that the selector''),
(32, ''applies to.''),
(30, ''type: string''),
(28, ''operator:''),
(30, ''description: |-''),
(32, ''operator represents a key's relationship to a set of values.''),
(32, ''Valid operators are In, NotIn, Exists and DoesNotExist.''),
(30, ''type: string''),
(28, ''values:'')]\<close>

definition vpcs_crd_part2 :: "yaml_line list" where
  \<open>vpcs_crd_part2 = [
(30, ''description: |-''),
(32, ''values is an array of string values. If the operator is In or NotIn,''),
(32, ''the values array must be non-empty. If the operator is Exists or DoesNotExist,''),
(32, ''the values array must be empty. This array is replaced during a strategic''),
(32, ''merge patch.''),
(30, ''items:''),
(32, ''type: string''),
(30, ''type: array''),
(30, ''x-kubernetes-list-type: atomic''),
(26, ''required:''),
(26, ''- key''),
(26, ''- operator''),
(26, ''type: object''),
(24, ''type: array''),
(24, ''x-kubernetes-list-type: atomic''),
(22, ''matchLabels:''),
(24, ''additionalProperties:''),
(26, ''type: string''),
(24, ''description: |-''),
(26, ''matchLabels is a map of {key,value} pairs. A single {key,value} in the matchLabels''),
(26, ''map is equivalent to an element of matchExpressions, whose key field is "key", the''),
(26, ''operator is "In", and the values array contains only "value". The requirements are ANDed.''),
(24, ''type: object''),
(20, ''type: object''),
(20, ''x-kubernetes-map-type: atomic''),
(16, ''type: object''),
(14, ''defaultSubnet:''),
(16, ''description: The default subnet name for the VPC''),
(16, ''type: string''),
(14, ''enableBfd:''),
(16, ''description: Enable BFD (Bidirectional Forwarding Detection) for the''),
(18, ''VPC''),
(16, ''type: boolean''),
(14, ''enableExternal:''),
(16, ''description: Enable external network access for the VPC''),
(16, ''type: boolean''),
(14, ''extraExternalSubnets:''),
(16, ''description: Extra external subnets for provider-network VLAN. Immutable''),
(18, ''after creation.''),
(16, ''items:''),
(18, ''type: string''),
(16, ''type: array''),
(14, ''namespaces:''),
(16, ''description: List of namespaces that can use this VPC''),
(16, ''items:''),
(18, ''type: string''),
(16, ''type: array''),
(14, ''policyRoutes:''),
(16, ''description: Policy routes for the VPC.''),
(16, ''items:''),
(18, ''properties:''),
(20, ''action:''),
(22, ''description: Action of the policy route''),
(22, ''type: string''),
(20, ''match:''),
(22, ''description: Match of the policy route''),
(22, ''type: string''),
(20, ''nextHopIP:''),
(22, ''description: NextHopIP is an optional parameter. It needs to''),
(24, ''be provided only when 'action' is 'reroute'.''),
(22, ''type: string''),
(20, ''priority:''),
(22, ''description: Priority of the policy route (0-32767)''),
(22, ''type: integer''),
(18, ''type: object''),
(16, ''type: array''),
(14, ''staticRoutes:''),
(16, ''description: Static routes for the VPC.''),
(16, ''items:''),
(18, ''properties:''),
(20, ''bfdId:''),
(22, ''type: string''),
(20, ''cidr:''),
(22, ''type: string''),
(20, ''ecmpMode:''),
(22, ''type: string''),
(20, ''nextHopIP:''),
(22, ''type: string''),
(20, ''policy:''),
(22, ''type: string''),
(20, ''routeTable:''),
(22, ''type: string''),
(18, ''type: object''),
(16, ''type: array''),
(14, ''vpcPeerings:''),
(16, ''description: VPC peering configurations.''),
(16, ''items:''),
(18, ''properties:''),
(20, ''localConnectIP:''),
(22, ''type: string''),
(20, ''remoteVpc:''),
(22, ''type: string''),
(18, ''type: object''),
(16, ''type: array''),
(12, ''type: object''),
(10, ''status:''),
(12, ''properties:'')]\<close>

definition vpcs_crd_part3 :: "yaml_line list" where
  \<open>vpcs_crd_part3 = [
(14, ''bfdPort:''),
(16, ''properties:''),
(18, ''ip:''),
(20, ''description: BFD port IP address''),
(20, ''type: string''),
(18, ''name:''),
(20, ''description: BFD port name''),
(20, ''type: string''),
(18, ''nodes:''),
(20, ''description: Nodes where BFD port is deployed''),
(20, ''items:''),
(22, ''type: string''),
(20, ''type: array''),
(16, ''type: object''),
(14, ''conditions:''),
(16, ''description: Conditions represents the latest state of the object''),
(16, ''items:''),
(18, ''description: Condition describes the state of an object at a certain''),
(20, ''point.''),
(18, ''properties:''),
(20, ''lastTransitionTime:''),
(22, ''description: Last time the condition transitioned from one status''),
(24, ''to another.''),
(22, ''format: date-time''),
(22, ''type: string''),
(20, ''lastUpdateTime:''),
(22, ''description: Last time the condition was probed''),
(22, ''format: date-time''),
(22, ''type: string''),
(20, ''message:''),
(22, ''description: A human readable message indicating details about''),
(24, ''the transition.''),
(22, ''type: string''),
(20, ''observedGeneration:''),
(22, ''description: |-''),
(24, ''ObservedGeneration represents the .metadata.generation that the condition was set based upon.''),
(24, ''For instance, if .metadata.generation is currently 12, but the .status.conditions[x].observedGeneration is 9,''),
(24, ''the condition is out of date with respect to the current state of the instance.''),
(22, ''format: int64''),
(22, ''type: integer''),
(20, ''reason:''),
(22, ''description: The reason for the condition's last transition.''),
(22, ''type: string''),
(20, ''status:''),
(22, ''description: Status of the condition, one of True, False, Unknown.''),
(22, ''type: string''),
(20, ''type:''),
(22, ''description: Type of condition.''),
(22, ''type: string''),
(18, ''type: object''),
(16, ''type: array''),
(14, ''default:''),
(16, ''description: Whether this is the default VPC.''),
(16, ''type: boolean''),
(14, ''defaultLogicalSwitch:''),
(16, ''type: string''),
(14, ''enableBfd:''),
(16, ''type: boolean''),
(14, ''enableExternal:''),
(16, ''type: boolean''),
(14, ''extraExternalSubnets:''),
(16, ''description: Extra external subnets for provider-network VLAN. Immutable''),
(18, ''after creation.''),
(16, ''items:''),
(18, ''type: string''),
(16, ''type: array''),
(14, ''router:''),
(16, ''type: string''),
(14, ''sctpLoadBalancer:''),
(16, ''type: string''),
(14, ''sctpSessionLoadBalancer:''),
(16, ''type: string''),
(14, ''standby:''),
(16, ''type: boolean''),
(14, ''subnets:''),
(16, ''items:''),
(18, ''type: string''),
(16, ''type: array''),
(14, ''tcpLoadBalancer:''),
(16, ''type: string''),
(14, ''tcpSessionLoadBalancer:''),
(16, ''type: string''),
(14, ''udpLoadBalancer:''),
(16, ''type: string''),
(14, ''udpSessionLoadBalancer:''),
(16, ''type: string''),
(14, ''vpcPeerings:''),
(16, ''description: VPC peering configurations.''),
(16, ''items:''),
(18, ''type: string''),
(16, ''type: array''),
(12, ''type: object''),
(8, ''type: object''),
(4, ''served: true''),
(4, ''storage: true''),
(4, ''subresources:''),
(6, ''status: {}'')]\<close>

definition vpcs_crd :: "yaml_line list" where
  "vpcs_crd = vpcs_crd_part1 @ vpcs_crd_part2 @ vpcs_crd_part3"

definition security_groups_crd_part1 :: "yaml_line list" where
  \<open>security_groups_crd_part1 = [
(0, ''apiVersion: apiextensions.k8s.io/v1''),
(0, ''kind: CustomResourceDefinition''),
(0, ''metadata:''),
(2, ''annotations:''),
(4, ''controller-gen.kubebuilder.io/version: v0.20.1''),
(2, ''name: security-groups.kubeovn.io''),
(0, ''spec:''),
(2, ''group: kubeovn.io''),
(2, ''names:''),
(4, ''kind: SecurityGroup''),
(4, ''listKind: SecurityGroupList''),
(4, ''plural: security-groups''),
(4, ''shortNames:''),
(4, ''- sg''),
(4, ''singular: security-group''),
(2, ''scope: Cluster''),
(2, ''versions:''),
(2, ''- name: v1''),
(4, ''schema:''),
(6, ''openAPIV3Schema:''),
(8, ''properties:''),
(10, ''apiVersion:''),
(12, ''description: |-''),
(14, ''APIVersion defines the versioned schema of this representation of an object.''),
(14, ''Servers should convert recognized schemas to the latest internal value, and''),
(14, ''may reject unrecognized values.''),
(14, ''More info: https://git.k8s.io/community/contributors/devel/sig-architecture/api-conventions.md#resources''),
(12, ''type: string''),
(10, ''kind:''),
(12, ''description: |-''),
(14, ''Kind is a string value representing the REST resource this object represents.''),
(14, ''Servers may infer this from the endpoint the client submits requests to.''),
(14, ''Cannot be updated.''),
(14, ''In CamelCase.''),
(14, ''More info: https://git.k8s.io/community/contributors/devel/sig-architecture/api-conventions.md#types-kinds''),
(12, ''type: string''),
(10, ''metadata:''),
(12, ''type: object''),
(10, ''spec:''),
(12, ''properties:''),
(14, ''allowSameGroupTraffic:''),
(16, ''description: Allow traffic between pods in the same security group''),
(16, ''type: boolean''),
(14, ''egressRules:''),
(16, ''description: Egress traffic rules for the security group''),
(16, ''items:''),
(18, ''properties:''),
(20, ''ipVersion:''),
(22, ''description: IP version (IPv4 or IPv6)''),
(22, ''type: string''),
(20, ''localAddress:''),
(22, ''description: Local address or CIDR''),
(22, ''type: string''),
(20, ''policy:''),
(22, ''description: Policy action (allow, pass or deny)''),
(22, ''type: string''),
(20, ''portRangeMax:''),
(22, ''description: End of port range (1-65535)''),
(22, ''type: integer''),
(20, ''portRangeMin:''),
(22, ''description: Start of port range (1-65535)''),
(22, ''type: integer''),
(20, ''priority:''),
(22, ''description: Rule priority (1-16384)''),
(22, ''type: integer''),
(20, ''protocol:''),
(22, ''description: Protocol (tcp, udp, icmp, or all)''),
(22, ''type: string''),
(20, ''remoteAddress:''),
(22, ''description: Remote address or CIDR''),
(22, ''type: string''),
(20, ''remoteSecurityGroup:''),
(22, ''description: Remote security group name''),
(22, ''type: string''),
(20, ''remoteType:''),
(22, ''description: Type of remote (address, cidr, or securityGroup)''),
(22, ''type: string''),
(20, ''sourcePortRangeMax:''),
(22, ''description: End of source port range (1-65535)'')]\<close>

definition security_groups_crd_part2 :: "yaml_line list" where
  \<open>security_groups_crd_part2 = [
(22, ''type: integer''),
(20, ''sourcePortRangeMin:''),
(22, ''description: Start of source port range (1-65535)''),
(22, ''type: integer''),
(18, ''type: object''),
(16, ''type: array''),
(14, ''ingressRules:''),
(16, ''description: Ingress traffic rules for the security group''),
(16, ''items:''),
(18, ''properties:''),
(20, ''ipVersion:''),
(22, ''description: IP version (IPv4 or IPv6)''),
(22, ''type: string''),
(20, ''localAddress:''),
(22, ''description: Local address or CIDR''),
(22, ''type: string''),
(20, ''policy:''),
(22, ''description: Policy action (allow, pass or deny)''),
(22, ''type: string''),
(20, ''portRangeMax:''),
(22, ''description: End of port range (1-65535)''),
(22, ''type: integer''),
(20, ''portRangeMin:''),
(22, ''description: Start of port range (1-65535)''),
(22, ''type: integer''),
(20, ''priority:''),
(22, ''description: Rule priority (1-16384)''),
(22, ''type: integer''),
(20, ''protocol:''),
(22, ''description: Protocol (tcp, udp, icmp, or all)''),
(22, ''type: string''),
(20, ''remoteAddress:''),
(22, ''description: Remote address or CIDR''),
(22, ''type: string''),
(20, ''remoteSecurityGroup:''),
(22, ''description: Remote security group name''),
(22, ''type: string''),
(20, ''remoteType:''),
(22, ''description: Type of remote (address, cidr, or securityGroup)''),
(22, ''type: string''),
(20, ''sourcePortRangeMax:''),
(22, ''description: End of source port range (1-65535)''),
(22, ''type: integer''),
(20, ''sourcePortRangeMin:''),
(22, ''description: Start of source port range (1-65535)''),
(22, ''type: integer''),
(18, ''type: object''),
(16, ''type: array''),
(14, ''tier:''),
(16, ''description: ACL tier to which the rules are added''),
(16, ''type: integer''),
(12, ''type: object''),
(10, ''status:''),
(12, ''properties:''),
(14, ''allowSameGroupTraffic:''),
(16, ''description: Current allow same group traffic setting''),
(16, ''type: boolean''),
(14, ''egressLastSyncSuccess:''),
(16, ''description: Last egress sync success status''),
(16, ''type: boolean''),
(14, ''egressMd5:''),
(16, ''description: MD5 hash of egress rules''),
(16, ''type: string''),
(14, ''ingressLastSyncSuccess:''),
(16, ''description: Last ingress sync success status''),
(16, ''type: boolean''),
(14, ''ingressMd5:''),
(16, ''description: MD5 hash of ingress rules''),
(16, ''type: string''),
(14, ''portGroup:''),
(16, ''description: OVN port group name''),
(16, ''type: string''),
(12, ''type: object''),
(8, ''type: object''),
(4, ''served: true''),
(4, ''storage: true''),
(4, ''subresources:''),
(6, ''status: {}'')]\<close>

definition security_groups_crd :: "yaml_line list" where
  "security_groups_crd = security_groups_crd_part1 @ security_groups_crd_part2"

end
