(* ===== verification/CRD_Texts_3.thy ===== *)
theory CRD_Texts_3
  imports CRD_Lines
begin

text \<open>
  Texts of \<^verbatim>\<open>internal/templates/customresourcedefinitions.go\<close>, line by line with the indentation as a
  number. A text of more than 150 lines is given in parts.
\<close>

definition evpn_confs_crd :: "yaml_line list" where
  \<open>evpn_confs_crd = [
(0, ''apiVersion: apiextensions.k8s.io/v1''),
(0, ''kind: CustomResourceDefinition''),
(0, ''metadata:''),
(2, ''annotations:''),
(4, ''controller-gen.kubebuilder.io/version: v0.20.1''),
(2, ''name: evpn-confs.kubeovn.io''),
(0, ''spec:''),
(2, ''group: kubeovn.io''),
(2, ''names:''),
(4, ''kind: EvpnConf''),
(4, ''listKind: EvpnConfList''),
(4, ''plural: evpn-confs''),
(4, ''singular: evpn-conf''),
(2, ''scope: Cluster''),
(2, ''versions:''),
(2, ''- name: v1''),
(4, ''schema:''),
(6, ''openAPIV3Schema:''),
(8, ''properties:''),
(10, ''apiVersion:''),
(12, ''description: |-''),
(14, ''APIVersion defines the versioned schema of this representation of an object.''),
(14, ''Servers should convert recognized schemas to the latest internal value, and''),
(14, ''may reject unrecognized values.''),
(14, ''More info: https://git.k8s.io/community/contributors/devel/sig-architecture/api-conventions.md#resources''),
(12, ''type: string''),
(10, ''kind:''),
(12, ''description: |-''),
(14, ''Kind is a string value representing the REST resource this object represents.''),
(14, ''Servers may infer this from the endpoint the client submits requests to.''),
(14, ''Cannot be updated.''),
(14, ''In CamelCase.''),
(14, ''More info: https://git.k8s.io/community/contributors/devel/sig-architecture/api-conventions.md#types-kinds''),
(12, ''type: string''),
(10, ''metadata:''),
(12, ''type: object''),
(10, ''spec:''),
(12, ''properties:''),
(14, ''routeTargets:''),
(16, ''items:''),
(18, ''type: string''),
(16, ''type: array''),
(14, ''vni:''),
(16, ''format: int32''),
(16, ''type: integer''),
(12, ''type: object''),
(8, ''type: object''),
(4, ''served: true''),
(4, ''storage: true'')]\<close>

definition vpc_egress_gateways_crd_part1 :: "yaml_line list" where
  \<open>vpc_egress_gateways_crd_part1 = [
(0, ''apiVersion: apiextensions.k8s.io/v1''),
(0, ''kind: CustomResourceDefinition''),
(0, ''metadata:''),
(2, ''annotations:''),
(4, ''controller-gen.kubebuilder.io/version: v0.20.1''),
(2, ''name: vpc-egress-gateways.kubeovn.io''),
(0, ''spec:''),
(2, ''group: kubeovn.io''),
(2, ''names:''),
(4, ''kind: VpcEgressGateway''),
(4, ''listKind: VpcEgressGatewayList''),
(4, ''plural: vpc-egress-gateways''),
(4, ''shortNames:''),
(4, ''- vpc-egress-gw''),
(4, ''- veg''),
(4, ''singular: vpc-egress-gateway''),
(2, ''scope: Namespaced''),
(2, ''versions:''),
(2, ''- additionalPrinterColumns:''),
(4, ''- jsonPath: .spec.vpc''),
(6, ''name: VPC''),
(6, ''type: string''),
(4, ''- jsonPath: .spec.replicas''),
(6, ''name: REPLICAS''),
(6, ''type: integer''),
(4, ''- jsonPath: .spec.bfd.enabled''),
(6, ''name: BFD ENABLED''),
(6, ''type: boolean''),
(4, ''- jsonPath: .spec.externalSubnet''),
(6, ''name: EXTERNAL SUBNET''),
(6, ''type: string''),
(4, ''- jsonPath: .status.phase''),
(6, ''name: PHASE''),
(6, ''type: string''),
(4, ''- jsonPath: .status.ready''),
(6, ''name: READY''),
(6, ''type: boolean''),
(4, ''- jsonPath: .status.internalIPs''),
(6, ''name: INTERNAL IPS''),
(6, ''priority: 1''),
(6, ''type: string''),
(4, ''- jsonPath: .status.externalIPs''),
(6, ''name: EXTERNAL IPS''),
(6, ''priority: 1''),
(6, ''type: string''),
(4, ''- jsonPath: .status.workload.nodes''),
(6, ''name: WORKING NODES''),
(6, ''priority: 1''),
(6, ''type: string''),
(4, ''- jsonPath: .metadata.creationTimestamp''),
(6, ''name: AGE''),
(6, ''type: date''),
(4, ''name: v1''),
(4, ''schema:''),
(6, ''openAPIV3Schema:''),
(8, ''description: vpc egress gateway is used to forward the egress traffic from''),
(10, ''the VPC to the external network''),
(8, ''properties:''),
(10, ''apiVersion:''),
(12, ''description: |-''),
(14, ''APIVersion defines the versioned schema of this representation of an object.''),
(14, ''Servers should convert recognized schemas to the latest internal value, and''),
(14, ''may reject unrecognized values.''),
(14, ''More info: https://git.k8s.io/community/contributors/devel/sig-architecture/api-conventions.md#resources''),
(12, ''type: string''),
(10, ''kind:''),
(12, ''description: |-''),
(14, ''Kind is a string value representing the REST resource this object represents.''),
(14, ''Servers may infer this from the endpoint the client submits requests to.''),
(14, ''Cannot be updated.''),
(14, ''In CamelCase.''),
(14, ''More info: https://git.k8s.io/community/contributors/devel/sig-architecture/api-conventions.md#types-kinds''),
(12, ''type: string''),
(10, ''metadata:''),
(12, ''type: object''),
(10, ''spec:''),
(12, ''properties:''),
(14, ''bandwidth:''),
(16, ''description: |-''),
(18, ''Optional bandwidth limit for each egress gateway instance in both ingress and egress directions.''),
(18, ''If not specified, there will be no bandwidth limit.''),
(16, ''properties:''),
(18, ''egress:''),
(20, ''description: egress bandwidth limit in Mbps''),
(20, ''format: int64''),
(20, ''type: integer''),
(18, ''ingress:''),
(20, ''description: ingress bandwidth limit in Mbps''),
(20, ''format: int64''),
(20, ''type: integer''),
(16, ''type: object''),
(14, ''bfd:''),
(16, ''description: BFD configuration''),
(16, ''properties:''),
(18, ''enabled:''),
(20, ''default: false''),
(20, ''description: |-''),
(22, ''whether to enable BFD''),
(22, ''if set to true, the egress gateway will establish BFD session(s) with the VPC BFD LRP''),
(22, ''the VPC's .spec.bfd.enabled must be set to true to enable BFD''),
(20, ''type: boolean''),
(18, ''minRX:''),
(20, ''default: 1000''),
(20, ''description: optional BFD minRX/minTX/multiplier''),
(20, ''format: int32''),
(20, ''maximum: 3600000''),
(20, ''minimum: 1''),
(20, ''type: integer''),
(18, ''minTX:''),
(20, ''default: 1000''),
(20, ''format: int32''),
(20, ''maximum: 3600000''),
(20, ''minimum: 1''),
(20, ''type: integer''),
(18, ''multiplier:''),
(20, ''default: 3''),
(20, ''format: int32''),
(20, ''maximum: 3600000''),
(20, ''minimum: 1''),
(20, ''type: integer''),
(16, ''type: object''),
(14, ''bgpConf:''),
(16, ''description: |-''),
(18, ''optional BGP configuration name''),
(18, ''it references a cluster-scoped BgpConf resource''),
(16, ''type: string''),
(14, ''evpnConf:''),
(16, ''description: |-''),
(18, ''optional EVPN configuration name''),
(18, ''it references a cluster-scoped EvpnConf resource''),
(16, ''type: string''),
(14, ''externalIPs:''),
(16, ''description: External IP addresses for the egress gateway''),
(16, ''items:''),
(18, ''type: string''),
(16, ''type: array''),
(14, ''externalSubnet:''),
(16, ''description: external subnet used to create the workload''),
(16, ''type: string''),
(14, ''image:''),
(16, ''description: |-''),
(18, ''optional image used by the workload''),
(18, ''if not specified, the default image passed in by kube-ovn-controller will be used''),
(16, ''type: string'')]\<close>

definition vpc_egress_gateways_crd_part2 :: "yaml_line list" where
  \<open>vpc_egress_gateways_crd_part2 = [
(14, ''internalIPs:''),
(16, ''description: |-''),
(18, ''optional internal/external IPs used to create the workload''),
(18, ''these IPs must be in the internal/external subnet''),
(18, ''the IPs count must NOT be less than the replicas count''),
(16, ''items:''),
(18, ''type: string''),
(16, ''type: array''),
(14, ''internalSubnet:''),
(16, ''description: |-''),
(18, ''optional internal subnet used to create the workload''),
(18, ''if not specified, the workload will be created in the default subnet of the VPC''),
(16, ''type: string''),
(14, ''nodeSelector:''),
(16, ''description: optional node selector used to select the nodes where''),
(18, ''the workload will be running''),
(16, ''items:''),
(18, ''properties:''),
(20, ''matchExpressions:''),
(22, ''items:''),
(24, ''description: |-''),
(26, ''A node selector requirement is a selector that contains values, a key, and an operator''),
(26, ''that relates the key and values.''),
(24, ''properties:''),
(26, ''key:''),
(28, ''description: The label key that the selector applies to.''),
(28, ''type: string''),
(26, ''operator:''),
(28, ''description: |-''),
(30, ''Represents a key's relationship to a set of values.''),
(30, ''Valid operators are In, NotIn, Exists, DoesNotExist. Gt, and Lt.''),
(28, ''type: string''),
(26, ''values:''),
(28, ''description: |-''),
(30, ''An array of string values. If the operator is In or NotIn,''),
(30, ''the values array must be non-empty. If the operator is Exists or DoesNotExist,''),
(30, ''the values array must be empty. If the operator is Gt or Lt, the values''),
(30, ''array must have a single element, which will be interpreted as an integer.''),
(30, ''This array is replaced during a strategic merge patch.''),
(28, ''items:''),
(30, ''type: string''),
(28, ''type: array''),
(28, ''x-kubernetes-list-type: atomic''),
(24, ''required:''),
(24, ''- key''),
(24, ''- operator''),
(24, ''type: object''),
(22, ''type: array''),
(20, ''matchFields:''),
(22, ''items:''),
(24, ''description: |-''),
(26, ''A node selector requirement is a selector that contains values, a key, and an operator''),
(26, ''that relates the key and values.''),
(24, ''properties:''),
(26, ''key:''),
(28, ''description: The label key that the selector applies to.''),
(28, ''type: string''),
(26, ''operator:''),
(28, ''description: |-''),
(30, ''Represents a key's relationship to a set of values.''),
(30, ''Valid operators are In, NotIn, Exists, DoesNotExist. Gt, and Lt.''),
(28, ''type: string''),
(26, ''values:''),
(28, ''description: |-''),
(30, ''An array of string values. If the operator is In or NotIn,''),
(30, ''the values array must be non-empty. If the operator is Exists or DoesNotExist,''),
(30, ''the values array must be empty. If the operator is Gt or Lt, the values''),
(30, ''array must have a single element, which will be interpreted as an integer.''),
(30, ''This array is replaced during a strategic merge patch.''),
(28, ''items:''),
(30, ''type: string''),
(28, ''type: array''),
(28, ''x-kubernetes-list-type: atomic''),
(24, ''required:''),
(24, ''- key''),
(24, ''- operator''),
(24, ''type: object''),
(22, ''type: array''),
(20, ''matchLabels:''),
(22, ''additionalProperties:''),
(24, ''type: string''),
(22, ''type: object''),
(18, ''type: object''),
(16, ''type: array''),
(14, ''policies:''),
(16, ''description: |-''),
(18, ''egress policies''),
(18, ''at least one policy must be specified''),
(16, ''items:''),
(18, ''properties:''),
(20, ''ipBlocks:''),
(22, ''description: CIDRs/subnets targeted by the egress traffic policy''),
(22, ''items:''),
(24, ''type: string''),
(22, ''type: array''),
(20, ''snat:''),
(22, ''default: false''),
(22, ''description: whether to enable SNAT/MASQUERADE for the egress''),
(24, ''traffic''),
(22, ''type: boolean''),
(20, ''subnets:''),
(22, ''items:''),
(24, ''type: string''),
(22, ''type: array''),
(18, ''type: object''),
(16, ''type: array''),
(14, ''prefix:''),
(16, ''description: |-''),
(18, ''optional name prefix used to generate the workload''),
(18, ''the workload name will be generated as <prefix><vpc-egress-gateway-name>''),
(16, ''type: string''),
(14, ''replicas:''),
(16, ''default: 1''),
(16, ''description: workload replicas''),
(16, ''format: int32''),
(16, ''type: integer''),
(14, ''resources:''),
(16, ''description: |-''),
(18, ''Compute Resources required for the container. If not specified, the controller will set a default value.''),
(18, ''If specified, the controller will not set any default value and use the specified value directly.''),
(16, ''properties:''),
(18, ''claims:''),
(20, ''description: |-''),
(22, ''Claims lists the names of resources, defined in spec.resourceClaims,''),
(22, ''that are used by this container.''),
(0, ''''),
(22, ''This field depends on the''),
(22, ''DynamicResourceAllocation feature gate.''),
(0, ''''),
(22, ''This field is immutable. It can only be set for containers.''),
(20, ''items:''),
(22, ''description: ResourceClaim references one entry in PodSpec.ResourceClaims.''),
(22, ''properties:''),
(24, ''name:''),
(26, ''description: |-''),
(28, ''Name must match the name of one entry in pod.spec.resourceClaims of''),
(28, ''the Pod where this field is used. It makes that resource available''),
(28, ''inside a container.''),
(26, ''type: string''),
(24, ''request:''),
(26, ''description: |-''),
(28, ''Request is the name chosen for a request in the referenced claim.''),
(28, ''If empty, everything from the claim is made available, otherwise''),
(28, ''only the result of this request.'')]\<close>

definition vpc_egress_gateways_crd_part3 :: "yaml_line list" where
  \<open>vpc_egress_gateways_crd_part3 = [
(26, ''type: string''),
(22, ''required:''),
(22, ''- name''),
(22, ''type: object''),
(20, ''type: array''),
(20, ''x-kubernetes-list-map-keys:''),
(20, ''- name''),
(20, ''x-kubernetes-list-type: map''),
(18, ''limits:''),
(20, ''additionalProperties:''),
(22, ''anyOf:''),
(22, ''- type: integer''),
(22, ''- type: string''),
(22, ''pattern: ^('' @ [CHR 0x5C] @ ''+|-)?(([0-9]+('' @ [CHR 0x5C] @ ''.[0-9]*)?)|('' @ [CHR 0x5C] @ ''.[0-9]+))(([KMGTPE]i)|[numkMGTPE]|([eE]('' @ [CHR 0x5C] @ ''+|-)?(([0-9]+('' @ [CHR 0x5C] @ ''.[0-9]*)?)|('' @ [CHR 0x5C] @ ''.[0-9]+))))?$''),
(22, ''x-kubernetes-int-or-string: true''),
(20, ''description: |-''),
(22, ''Limits describes the maximum amount of compute resources allowed.''),
(22, ''More info: https://kubernetes.io/docs/concepts/configuration/manage-resources-containers/''),
(20, ''type: object''),
(18, ''requests:''),
(20, ''additionalProperties:''),
(22, ''anyOf:''),
(22, ''- type: integer''),
(22, ''- type: string''),
(22, ''pattern: ^('' @ [CHR 0x5C] @ ''+|-)?(([0-9]+('' @ [CHR 0x5C] @ ''.[0-9]*)?)|('' @ [CHR 0x5C] @ ''.[0-9]+))(([KMGTPE]i)|[numkMGTPE]|([eE]('' @ [CHR 0x5C] @ ''+|-)?(([0-9]+('' @ [CHR 0x5C] @ ''.[0-9]*)?)|('' @ [CHR 0x5C] @ ''.[0-9]+))))?$''),
(22, ''x-kubernetes-int-or-string: true''),
(20, ''description: |-''),
(22, ''Requests describes the minimum amount of compute resources required.''),
(22, ''If Requests is omitted for a container, it defaults to Limits if that is explicitly specified,''),
(22, ''otherwise to an implementation-defined value. Requests cannot exceed Limits.''),
(22, ''More info: https://kubernetes.io/docs/concepts/configuration/manage-resources-containers/''),
(20, ''type: object''),
(16, ''type: object''),
(14, ''selectors:''),
(16, ''description: namespace/pod selectors''),
(16, ''items:''),
(18, ''properties:''),
(20, ''namespaceSelector:''),
(22, ''description: |-''),
(24, ''A label selector is a label query over a set of resources. The result of matchLabels and''),
(24, ''matchExpressions are ANDed. An empty label selector matches all objects. A null''),
(24, ''label selector matches no objects.''),
(22, ''properties:''),
(24, ''matchExpressions:''),
(26, ''description: matchExpressions is a list of label selector''),
(28, ''requirements. The requirements are ANDed.''),
(26, ''items:''),
(28, ''description: |-''),
(30, ''A label selector requirement is a selector that contains values, a key, and an operator that''),
(30, ''relates the key and values.''),
(28, ''properties:''),
(30, ''key:''),
(32, ''description: key is the label key that the selector''),
(34, ''applies to.''),
(32, ''type: string''),
(30, ''operator:''),
(32, ''description: |-''),
(34, ''operator represents a key's relationship to a set of values.''),
(34, ''Valid operators are In, NotIn, Exists and DoesNotExist.''),
(32, ''type: string''),
(30, ''values:''),
(32, ''description: |-''),
(34, ''values is an array of string values. If the operator is In or NotIn,''),
(34, ''the values array must be non-empty. If the operator is Exists or DoesNotExist,''),
(34, ''the values array must be empty. This array is replaced during a strategic''),
(34, ''merge patch.''),
(32, ''items:''),
(34, ''type: string''),
(32, ''type: array''),
(32, ''x-kubernetes-list-type: atomic''),
(28, ''required:''),
(28, ''- key''),
(28, ''- operator''),
(28, ''type: object''),
(26, ''type: array''),
(26, ''x-kubernetes-list-type: atomic''),
(24, ''matchLabels:''),
(26, ''additionalProperties:''),
(28, ''type: string''),
(26, ''description: |-''),
(28, ''matchLabels is a map of {key,value} pairs. A single {key,value} in the matchLabels''),
(28, ''map is equivalent to an element of matchExpressions, whose key field is "key", the''),
(28, ''operator is "In", and the values array contains only "value". The requirements are ANDed.''),
(26, ''type: object''),
(22, ''type: object''),
(22, ''x-kubernetes-map-type: atomic''),
(20, ''podSelector:''),
(22, ''description: |-''),
(24, ''A label selector is a label query over a set of resources. The result of matchLabels and''),
(24, ''matchExpressions are ANDed. An empty label selector matches all objects. A null''),
(24, ''label selector matches no objects.''),
(22, ''properties:''),
(24, ''matchExpressions:''),
(26, ''description: matchExpressions is a list of label selector''),
(28, ''requirements. The requirements are ANDed.''),
(26, ''items:''),
(28, ''description: |-''),
(30, ''A label selector requirement is a selector that contains values, a key, and an operator that''),
(30, ''relates the key and values.''),
(28, ''properties:''),
(30, ''key:''),
(32, ''description: key is the label key that the selector''),
(34, ''applies to.''),
(32, ''type: string''),
(30, ''operator:''),
(32, ''description: |-''),
(34, ''operator represents a key's relationship to a set of values.''),
(34, ''Valid operators are In, NotIn, Exists and DoesNotExist.''),
(32, ''type: string''),
(30, ''values:''),
(32, ''description: |-''),
(34, ''values is an array of string values. If the operator is In or NotIn,''),
(34, ''the values array must be non-empty. If the operator is Exists or DoesNotExist,''),
(34, ''the values array must be empty. This array is replaced during a strategic''),
(34, ''merge patch.''),
(32, ''items:''),
(34, ''type: string''),
(32, ''type: array''),
(32, ''x-kubernetes-list-type: atomic''),
(28, ''required:''),
(28, ''- key''),
(28, ''- operator''),
(28, ''type: object''),
(26, ''type: array''),
(26, ''x-kubernetes-list-type: atomic''),
(24, ''matchLabels:''),
(26, ''additionalProperties:''),
(28, ''type: string''),
(26, ''description: |-''),
(28, ''matchLabels is a map of {key,value} pairs. A single {key,value} in the matchLabels''),
(28, ''map is equivalent to an element of matchExpressions, whose key field is "key", the''),
(28, ''operator is "In", and the values array contains only "value". The requirements are ANDed.''),
(26, ''type: object''),
(22, ''type: object''),
(22, ''x-kubernetes-map-type: atomic''),
(18, ''type: object''),
(16, ''type: array''),
(14, ''tolerations:''),
(16, ''description: optional tolerations applied to the workload pods''),
(16, ''items:''),
(18, ''description: |-''),
(20, ''The pod this Toleration is attached to tolerates any taint that matches''),
(20, ''the triple <key,value,effect> using the matching operator <operator>.''),
(18, ''properties:'')]\<close>

definition vpc_egress_gateways_crd_part4 :: "yaml_line list" where
  \<open>vpc_egress_gateways_crd_part4 = [
(20, ''effect:''),
(22, ''description: |-''),
(24, ''Effect indicates the taint effect to match. Empty means match all taint effects.''),
(24, ''When specified, allowed values are NoSchedule, PreferNoSchedule and NoExecute.''),
(22, ''type: string''),
(20, ''key:''),
(22, ''description: |-''),
(24, ''Key is the taint key that the toleration applies to. Empty means match all taint keys.''),
(24, ''If the key is empty, operator must be Exists; this combination means to match all values and all keys.''),
(22, ''type: string''),
(20, ''operator:''),
(22, ''description: |-''),
(24, ''Operator represents a key's relationship to the value.''),
(24, ''Valid operators are Exists, Equal, Lt, and Gt. Defaults to Equal.''),
(24, ''Exists is equivalent to wildcard for value, so that a pod can''),
(24, ''tolerate all taints of a particular category.''),
(24, ''Lt and Gt perform numeric comparisons (requires feature gate TaintTolerationComparisonOperators).''),
(22, ''type: string''),
(20, ''tolerationSeconds:''),
(22, ''description: |-''),
(24, ''TolerationSeconds represents the period of time the toleration (which must be''),
(24, ''of effect NoExecute, otherwise this field is ignored) tolerates the taint. By default,''),
(24, ''it is not set, which means tolerate the taint forever (do not evict). Zero and''),
(24, ''negative values will be treated as 0 (evict immediately) by the system.''),
(22, ''format: int64''),
(22, ''type: integer''),
(20, ''value:''),
(22, ''description: |-''),
(24, ''Value is the taint value the toleration matches to.''),
(24, ''If the operator is Exists, the value should be empty, otherwise just a regular string.''),
(22, ''type: string''),
(18, ''type: object''),
(16, ''type: array''),
(14, ''trafficPolicy:''),
(16, ''default: Cluster''),
(16, ''description: |-''),
(18, ''optional traffic policy used to control the traffic routing''),
(18, ''if not specified, the default traffic policy "Cluster" will be used''),
(18, ''if set to "Local", traffic will be routed to the gateway pod/instance on the same node when available''),
(18, ''currently it works only for the default vpc''),
(16, ''type: string''),
(14, ''vpc:''),
(16, ''description: |-''),
(18, ''optional VPC name''),
(18, ''if not specified, the default VPC will be used''),
(16, ''type: string''),
(12, ''required:''),
(12, ''- externalSubnet''),
(12, ''type: object''),
(10, ''status:''),
(12, ''properties:''),
(14, ''conditions:''),
(16, ''description: Conditions represent the latest available observations''),
(18, ''of the egress gateway's current state''),
(16, ''items:''),
(18, ''description: Condition describes the state of an object at a certain''),
(20, ''point.''),
(18, ''properties:''),
(20, ''lastTransitionTime:''),
(22, ''description: Last time the condition transitioned from one status''),
(24, ''to another.''),
(22, ''format: date-time''),
(22, ''type: string''),
(20, ''lastUpdateTime:''),
(22, ''description: Last time the condition was probed''),
(22, ''format: date-time''),
(22, ''type: string''),
(20, ''message:''),
(22, ''description: A human readable message indicating details about''),
(24, ''the transition.''),
(22, ''type: string''),
(20, ''observedGeneration:''),
(22, ''description: |-''),
(24, ''ObservedGeneration represents the .metadata.generation that the condition was set based upon.''),
(24, ''For instance, if .metadata.generation is currently 12, but the .status.conditions[x].observedGeneration is 9,''),
(24, ''the condition is out of date with respect to the current state of the instance.''),
(22, ''format: int64''),
(22, ''type: integer''),
(20, ''reason:''),
(22, ''description: The reason for the condition's last transition.''),
(22, ''type: string''),
(20, ''status:''),
(22, ''description: Status of the condition, one of True, False, Unknown.''),
(22, ''type: string''),
(20, ''type:''),
(22, ''description: Type of condition.''),
(22, ''type: string''),
(18, ''type: object''),
(16, ''type: array''),
(14, ''externalIPs:''),
(16, ''description: External IP addresses assigned to the egress gateway''),
(16, ''items:''),
(18, ''type: string''),
(16, ''type: array''),
(14, ''internalIPs:''),
(16, ''description: internal/external IPs used by the workload''),
(16, ''items:''),
(18, ''type: string''),
(16, ''type: array''),
(14, ''labelSelector:''),
(16, ''description: Label selector for the egress gateway''),
(16, ''type: string''),
(14, ''phase:''),
(16, ''default: Pending''),
(16, ''description: Current phase of the egress gateway (Pending, Processing,''),
(18, ''or Completed)''),
(16, ''type: string''),
(14, ''ready:''),
(16, ''default: false''),
(16, ''description: whether the egress gateway is ready''),
(16, ''type: boolean''),
(14, ''replicas:''),
(16, ''description: used by the scale subresource''),
(16, ''format: int32''),
(16, ''type: integer''),
(14, ''workload:''),
(16, ''description: workload information''),
(16, ''properties:''),
(18, ''apiVersion:''),
(20, ''type: string''),
(18, ''kind:''),
(20, ''type: string''),
(18, ''name:''),
(20, ''type: string''),
(18, ''nodes:''),
(20, ''description: nodes where the workload is running''),
(20, ''items:''),
(22, ''type: string''),
(20, ''type: array''),
(16, ''type: object''),
(12, ''required:''),
(12, ''- conditions''),
(12, ''- phase''),
(12, ''type: object''),
(8, ''type: object''),
(4, ''served: true''),
(4, ''storage: true''),
(4, ''subresources:''),
(6, ''scale:''),
(8, ''labelSelectorPath: .status.labelSelector''),
(8, ''specReplicasPath: .spec.replicas''),
(8, ''statusReplicasPath: .status.replicas''),
(6, ''status: {}'')]\<close>

definition vpc_egress_gateways_crd :: "yaml_line list" where
  "vpc_egress_gateways_crd = vpc_egress_gateways_crd_part1 @ vpc_egress_gateways_crd_part2 @ vpc_egress_gateways_crd_part3 @ vpc_egress_gateways_crd_part4"

definition subnets_crd_part1 :: "yaml_line list" where
  \<open>subnets_crd_part1 = [
(0, ''apiVersion: apiextensions.k8s.io/v1''),
(0, ''kind: CustomResourceDefinition''),
(0, ''metadata:''),
(2, ''annotations:''),
(4, ''controller-gen.kubebuilder.io/version: v0.20.1''),
(2, ''name: subnets.kubeovn.io''),
(0, ''spec:''),
(2, ''group: kubeovn.io''),
(2, ''names:''),
(4, ''kind: Subnet''),
(4, ''listKind: SubnetList''),
(4, ''plural: subnets''),
(4, ''shortNames:''),
(4, ''- subnet''),
(4, ''singular: subnet''),
(2, ''scope: Cluster''),
(2, ''versions:''),
(2, ''- additionalPrinterColumns:''),
(4, ''- jsonPath: .spec.provider''),
(6, ''name: Provider''),
(6, ''type: string''),
(4, ''- jsonPath: .spec.vpc''),
(6, ''name: Vpc''),
(6, ''type: string''),
(4, ''- jsonPath: .spec.vlan''),
(6, ''name: Vlan''),
(6, ''type: string''),
(4, ''- jsonPath: .spec.protocol''),
(6, ''name: Protocol''),
(6, ''type: string''),
(4, ''- jsonPath: .spec.cidrBlock''),
(6, ''name: CIDR''),
(6, ''type: string''),
(4, ''- jsonPath: .spec.private''),
(6, ''name: Private''),
(6, ''type: boolean''),
(4, ''- jsonPath: .spec.natOutgoing''),
(6, ''name: NAT''),
(6, ''type: boolean''),
(4, ''- jsonPath: .spec.default''),
(6, ''name: Default''),
(6, ''type: boolean''),
(4, ''- jsonPath: .spec.gatewayType''),
(6, ''name: GatewayType''),
(6, ''type: string''),
(4, ''- jsonPath: .status.v4usingIPs''),
(6, ''name: V4Used''),
(6, ''type: number''),
(4, ''- jsonPath: .status.v4availableIPs''),
(6, ''name: V4Available''),
(6, ''type: number''),
(4, ''- jsonPath: .status.v6usingIPs''),
(6, ''name: V6Used''),
(6, ''type: number''),
(4, ''- jsonPath: .status.v6availableIPs''),
(6, ''name: V6Available''),
(6, ''type: number''),
(4, ''- jsonPath: .spec.excludeIps''),
(6, ''name: ExcludeIPs''),
(6, ''type: string''),
(4, ''- jsonPath: .status.u2oInterconnectionIP''),
(6, ''name: U2OInterconnectionIP''),
(6, ''type: string''),
(4, ''name: v1''),
(4, ''schema:''),
(6, ''openAPIV3Schema:''),
(8, ''properties:''),
(10, ''apiVersion:''),
(12, ''description: |-''),
(14, ''APIVersion defines the versioned schema of this representation of an object.''),
(14, ''Servers should convert recognized schemas to the latest internal value, and''),
(14, ''may reject unrecognized values.''),
(14, ''More info: https://git.k8s.io/community/contributors/devel/sig-architecture/api-conventions.md#resources''),
(12, ''type: string''),
(10, ''kind:''),
(12, ''description: |-''),
(14, ''Kind is a string value representing the REST resource this object represents.''),
(14, ''Servers may infer this from the endpoint the client submits requests to.''),
(14, ''Cannot be updated.''),
(14, ''In CamelCase.''),
(14, ''More info: https://git.k8s.io/community/contributors/devel/sig-architecture/api-conventions.md#types-kinds''),
(12, ''type: string''),
(10, ''metadata:''),
(12, ''type: object''),
(10, ''spec:''),
(12, ''properties:''),
(14, ''acls:''),
(16, ''description: ACL rules for the subnet.''),
(16, ''items:''),
(18, ''properties:''),
(20, ''action:''),
(22, ''type: string''),
(20, ''direction:''),
(22, ''type: string''),
(20, ''match:''),
(22, ''type: string''),
(20, ''priority:''),
(22, ''type: integer''),
(18, ''type: object''),
(16, ''type: array''),
(14, ''allowEWTraffic:''),
(16, ''description: Allow east-west traffic across subnets.''),
(16, ''type: boolean''),
(14, ''allowSubnets:''),
(16, ''description: Allowed subnets for east-west traffic.''),
(16, ''items:''),
(18, ''type: string''),
(16, ''type: array''),
(14, ''cidrBlock:''),
(16, ''description: CIDR block for the subnet. Immutable after creation.'')]\<close>

definition subnets_crd_part2 :: "yaml_line list" where
  \<open>subnets_crd_part2 = [
(16, ''type: string''),
(14, ''default:''),
(16, ''description: Whether this is the default subnet.''),
(16, ''type: boolean''),
(14, ''dhcpV4Options:''),
(16, ''description: DHCPv4 options UUID.''),
(16, ''type: string''),
(14, ''dhcpV6Options:''),
(16, ''description: DHCPv6 options UUID.''),
(16, ''type: string''),
(14, ''disableGatewayCheck:''),
(16, ''description: Disable gateway readiness check.''),
(16, ''type: boolean''),
(14, ''disableInterConnection:''),
(16, ''description: Disable interconnection for the subnet.''),
(16, ''type: boolean''),
(14, ''enableDHCP:''),
(16, ''description: Enable DHCP for the subnet.''),
(16, ''type: boolean''),
(14, ''enableEcmp:''),
(16, ''description: Enable ECMP for centralized gateway.''),
(16, ''type: boolean''),
(14, ''enableExternalLBAddress:''),
(16, ''description: Enable external LB address support.''),
(16, ''type: boolean''),
(14, ''enableIPv6RA:''),
(16, ''description: Enable IPv6 Router Advertisement.''),
(16, ''type: boolean''),
(14, ''enableLb:''),
(16, ''description: Enable LoadBalancer on this subnet.''),
(16, ''type: boolean''),
(14, ''enableMulticastSnoop:''),
(16, ''description: Enable multicast snoop.''),
(16, ''type: boolean''),
(14, ''excludeIps:''),
(16, ''description: IP addresses to exclude from allocation.''),
(16, ''items:''),
(18, ''type: string''),
(16, ''type: array''),
(14, ''externalEgressGateway:''),
(16, ''description: External egress gateway IPs.''),
(16, ''type: string''),
(14, ''gateway:''),
(16, ''description: Gateway IP address for the subnet.''),
(16, ''type: string''),
(14, ''gatewayNode:''),
(16, ''description: Gateway node(s) for centralized gateway type.''),
(16, ''type: string''),
(14, ''gatewayNodeSelectors:''),
(16, ''description: Selectors to choose gateway nodes.''),
(16, ''items:''),
(18, ''description: |-''),
(20, ''A label selector is a label query over a set of resources. The result of matchLabels and''),
(20, ''matchExpressions are ANDed. An empty label selector matches all objects. A null''),
(20, ''label selector matches no objects.''),
(18, ''properties:''),
(20, ''matchExpressions:''),
(22, ''description: matchExpressions is a list of label selector requirements.''),
(24, ''The requirements are ANDed.''),
(22, ''items:''),
(24, ''description: |-''),
(26, ''A label selector requirement is a selector that contains values, a key, and an operator that''),
(26, ''relates the key and values.''),
(24, ''properties:''),
(26, ''key:''),
(28, ''description: key is the label key that the selector applies''),
(30, ''to.''),
(28, ''type: string''),
(26, ''operator:''),
(28, ''description: |-''),
(30, ''operator represents a key's relationship to a set of values.''),
(30, ''Valid operators are In, NotIn, Exists and DoesNotExist.''),
(28, ''type: string''),
(26, ''values:''),
(28, ''description: |-''),
(30, ''values is an array of string values. If the operator is In or NotIn,''),
(30, ''the values array must be non-empty. If the operator is Exists or DoesNotExist,''),
(30, ''the values array must be empty. This array is replaced during a strategic''),
(30, ''merge patch.''),
(28, ''items:''),
(30, ''type: string''),
(28, ''type: array''),
(28, ''x-kubernetes-list-type: atomic''),
(24, ''required:''),
(24, ''- key''),
(24, ''- operator''),
(24, ''type: object''),
(22, ''type: array''),
(22, ''x-kubernetes-list-type: atomic''),
(20, ''matchLabels:''),
(22, ''additionalProperties:''),
(24, ''type: string''),
(22, ''description: |-''),
(24, ''matchLabels is a map of {key,value} pairs. A single {key,value} in the matchLabels''),
(24, ''map is equivalent to an element of matchExpressions, whose key field is "key", the''),
(24, ''operator is "In", and the values array contains only "value". The requirements are ANDed.''),
(22, ''type: object''),
(18, ''type: object''),
(18, ''x-kubernetes-map-type: atomic''),
(16, ''type: array''),
(14, ''gatewayType:''),
(16, ''description: Gateway type (distributed or centralized).''),
(16, ''type: string''),
(14, ''ipv6RAConfigs:''),
(16, ''description: IPv6 RA configuration options.''),
(16, ''type: string''),
(14, ''logicalGateway:''),
(16, ''description: Enable logical gateway.''),
(16, ''type: boolean''),
(14, ''mtu:'')]\<close>

definition subnets_crd_part3 :: "yaml_line list" where
  \<open>subnets_crd_part3 = [
(16, ''description: MTU for pods in this subnet.''),
(16, ''format: int32''),
(16, ''type: integer''),
(14, ''namespaceSelectors:''),
(16, ''description: Namespace label selectors to associate with this subnet.''),
(16, ''items:''),
(18, ''description: |-''),
(20, ''A label selector is a label query over a set of resources. The result of matchLabels and''),
(20, ''matchExpressions are ANDed. An empty label selector matches all objects. A null''),
(20, ''label selector matches no objects.''),
(18, ''properties:''),
(20, ''matchExpressions:''),
(22, ''description: matchExpressions is a list of label selector requirements.''),
(24, ''The requirements are ANDed.''),
(22, ''items:''),
(24, ''description: |-''),
(26, ''A label selector requirement is a selector that contains values, a key, and an operator that''),
(26, ''relates the key and values.''),
(24, ''properties:''),
(26, ''key:''),
(28, ''description: key is the label key that the selector applies''),
(30, ''to.''),
(28, ''type: string''),
(26, ''operator:''),
(28, ''description: |-''),
(30, ''operator represents a key's relationship to a set of values.''),
(30, ''Valid operators are In, NotIn, Exists and DoesNotExist.''),
(28, ''type: string''),
(26, ''values:''),
(28, ''description: |-''),
(30, ''values is an array of string values. If the operator is In or NotIn,''),
(30, ''the values array must be non-empty. If the operator is Exists or DoesNotExist,''),
(30, ''the values array must be empty. This array is replaced during a strategic''),
(30, ''merge patch.''),
(28, ''items:''),
(30, ''type: string''),
(28, ''type: array''),
(28, ''x-kubernetes-list-type: atomic''),
(24, ''required:''),
(24, ''- key''),
(24, ''- operator''),
(24, ''type: object''),
(22, ''type: array''),
(22, ''x-kubernetes-list-type: atomic''),
(20, ''matchLabels:''),
(22, ''additionalProperties:''),
(24, ''type: string''),
(22, ''description: |-''),
(24, ''matchLabels is a map of {key,value} pairs. A single {key,value} in the matchLabels''),
(24, ''map is equivalent to an element of matchExpressions, whose key field is "key", the''),
(24, ''operator is "In", and the values array contains only "value". The requirements are ANDed.''),
(22, ''type: object''),
(18, ''type: object''),
(18, ''x-kubernetes-map-type: atomic''),
(16, ''type: array''),
(14, ''namespaces:''),
(16, ''description: List of namespaces associated with this subnet.''),
(16, ''items:''),
(18, ''type: string''),
(16, ''type: array''),
(14, ''natOutgoing:''),
(16, ''description: Enable NAT outgoing for the subnet.''),
(16, ''type: boolean''),
(14, ''natOutgoingPolicyRules:''),
(16, ''description: NAT outgoing policy rules.''),
(16, ''items:''),
(18, ''properties:''),
(20, ''action:''),
(22, ''type: string''),
(20, ''match:''),
(22, ''properties:''),
(24, ''dstIPs:''),
(26, ''type: string''),
(24, ''srcIPs:''),
(26, ''type: string''),
(22, ''type: object''),
(18, ''type: object''),
(16, ''type: array''),
(14, ''nodeNetwork:''),
(16, ''description: Node network name for underlay.''),
(16, ''type: string''),
(14, ''policyRoutingPriority:''),
(16, ''description: Policy routing priority.''),
(16, ''format: int32''),
(16, ''type: integer''),
(14, ''policyRoutingTableID:''),
(16, ''description: Policy routing table ID.''),
(16, ''format: int32''),
(16, ''type: integer''),
(14, ''private:''),
(16, ''description: Whether the subnet is private.''),
(16, ''type: boolean''),
(14, ''protocol:''),
(16, ''description: Network protocol (IPv4, IPv6, or Dual). Immutable after''),
(18, ''creation.''),
(16, ''type: string''),
(14, ''provider:''),
(16, ''description: Provider network name.''),
(16, ''type: string''),
(14, ''routeTable:''),
(16, ''description: Route table associated with the subnet.''),
(16, ''type: string''),
(14, ''u2oFeatures:''),
(16, ''properties:''),
(18, ''overlayOnlyRouting:''),
(20, ''type: boolean''),
(16, ''type: object''),
(14, ''u2oInterconnection:''),
(16, ''description: Enable underlay to overlay interconnection.''),
(16, ''type: boolean'')]\<close>

definition subnets_crd_part4 :: "yaml_line list" where
  \<open>subnets_crd_part4 = [
(14, ''u2oInterconnectionIP:''),
(16, ''description: Underlay to overlay interconnection IP.''),
(16, ''type: string''),
(14, ''vips:''),
(16, ''description: Virtual IP addresses for the subnet.''),
(16, ''items:''),
(18, ''type: string''),
(16, ''type: array''),
(14, ''vlan:''),
(16, ''description: VLAN ID or provider network name.''),
(16, ''type: string''),
(14, ''vpc:''),
(16, ''description: VPC name for the subnet. Immutable after creation.''),
(16, ''type: string''),
(12, ''type: object''),
(10, ''status:''),
(12, ''properties:''),
(14, ''activateGateway:''),
(16, ''type: string''),
(14, ''conditions:''),
(16, ''description: Conditions represents the latest state of the object''),
(16, ''items:''),
(18, ''description: Condition describes the state of an object at a certain''),
(20, ''point.''),
(18, ''properties:''),
(20, ''lastTransitionTime:''),
(22, ''description: Last time the condition transitioned from one status''),
(24, ''to another.''),
(22, ''format: date-time''),
(22, ''type: string''),
(20, ''lastUpdateTime:''),
(22, ''description: Last time the condition was probed''),
(22, ''format: date-time''),
(22, ''type: string''),
(20, ''message:''),
(22, ''description: A human readable message indicating details about''),
(24, ''the transition.''),
(22, ''type: string''),
(20, ''observedGeneration:''),
(22, ''description: |-''),
(24, ''ObservedGeneration represents the .metadata.generation that the condition was set based upon.''),
(24, ''For instance, if .metadata.generation is currently 12, but the .status.conditions[x].observedGeneration is 9,''),
(24, ''the condition is out of date with respect to the current state of the instance.''),
(22, ''format: int64''),
(22, ''type: integer''),
(20, ''reason:''),
(22, ''description: The reason for the condition's last transition.''),
(22, ''type: string''),
(20, ''status:''),
(22, ''description: Status of the condition, one of True, False, Unknown.''),
(22, ''type: string''),
(20, ''type:''),
(22, ''description: Type of condition.''),
(22, ''type: string''),
(18, ''type: object''),
(16, ''type: array''),
(14, ''dhcpV4OptionsUUID:''),
(16, ''type: string''),
(14, ''dhcpV6OptionsUUID:''),
(16, ''type: string''),
(14, ''mcastQuerierIP:''),
(16, ''type: string''),
(14, ''mcastQuerierMAC:''),
(16, ''type: string''),
(14, ''natOutgoingPolicyRules:''),
(16, ''description: NAT outgoing policy rules.''),
(16, ''items:''),
(18, ''properties:''),
(20, ''action:''),
(22, ''type: string''),
(20, ''match:''),
(22, ''properties:''),
(24, ''dstIPs:''),
(26, ''type: string''),
(24, ''srcIPs:''),
(26, ''type: string''),
(22, ''type: object''),
(20, ''ruleID:''),
(22, ''type: string''),
(18, ''type: object''),
(16, ''type: array''),
(14, ''u2oInterconnectionIP:''),
(16, ''description: Underlay to overlay interconnection IP.''),
(16, ''type: string''),
(14, ''u2oInterconnectionMAC:''),
(16, ''type: string''),
(14, ''u2oInterconnectionVPC:''),
(16, ''type: string''),
(14, ''v4availableIPrange:''),
(16, ''type: string''),
(14, ''v4availableIPs:''),
(16, ''type: number''),
(14, ''v4usingIPrange:''),
(16, ''type: string''),
(14, ''v4usingIPs:''),
(16, ''type: number''),
(14, ''v6availableIPrange:''),
(16, ''type: string''),
(14, ''v6availableIPs:''),
(16, ''type: number''),
(14, ''v6usingIPrange:''),
(16, ''type: string''),
(14, ''v6usingIPs:''),
(16, ''type: number''),
(12, ''type: object''),
(8, ''type: object''),
(4, ''served: true''),
(4, ''storage: true''),
(4, ''subresources:''),
(6, ''status: {}'')]\<close>

definition subnets_crd :: "yaml_line list" where
  "subnets_crd = subnets_crd_part1 @ subnets_crd_part2 @ subnets_crd_part3 @ subnets_crd_part4"

end
