(* ===== verification/CRD_Texts_4.thy ===== *)
theory CRD_Texts_4
  imports CRD_Lines
begin

text \<open>
  Texts of \<^verbatim>\<open>internal/templates/customresourcedefinitions.go\<close>, line by line with the indentation as a
  number. A text of more than 150 lines is given in parts.
\<close>

definition vpc_dnses_crd :: "yaml_line list" where
  \<open>vpc_dnses_crd = [
(0, ''apiVersion: apiextensions.k8s.io/v1''),
(0, ''kind: CustomResourceDefinition''),
(0, ''metadata:''),
(2, ''annotations:''),
(4, ''controller-gen.kubebuilder.io/version: v0.20.1''),
(2, ''name: vpc-dnses.kubeovn.io''),
(0, ''spec:''),
(2, ''group: kubeovn.io''),
(2, ''names:''),
(4, ''kind: VpcDns''),
(4, ''listKind: VpcDnsList''),
(4, ''plural: vpc-dnses''),
(4, ''shortNames:''),
(4, ''- vpc-dns''),
(4, ''singular: vpc-dns''),
(2, ''scope: Cluster''),
(2, ''versions:''),
(2, ''- additionalPrinterColumns:''),
(4, ''- jsonPath: .status.active''),
(6, ''name: Active''),
(6, ''type: boolean''),
(4, ''- jsonPath: .spec.vpc''),
(6, ''name: Vpc''),
(6, ''type: string''),
(4, ''- jsonPath: .spec.subnet''),
(6, ''name: Subnet''),
(6, ''type: string''),
(4, ''- jsonPath: .spec.corefile''),
(6, ''name: Corefile''),
(6, ''type: string''),
(4, ''name: v1''),
(4, ''schema:''),
(6, ''openAPIV3Schema:''),
(8, ''properties:''),
(10, ''apiVersion:''),
(12, ''description: |-''),
(14, ''APIVersion defines the versioned schema of this representation of an object.''),
(14, ''Servers should convert recognized schemas to the latest internal value, and''),
(14, ''may reject unrecognized values.''),
(14, ''More info: https://git.k8s.io/community/contributors/devel/sig-architecture/api-conventions.md#resources''),
(12, ''type: string''),
(10, ''kind:''),
(12, ''description: |-''),
(14, ''Kind is a string value representing the REST resource this object represents.''),
(14, ''Servers may infer this from the endpoint the client submits requests to.''),
(14, ''Cannot be updated.''),
(14, ''In CamelCase.''),
(14, ''More info: https://git.k8s.io/community/contributors/devel/sig-architecture/api-conventions.md#types-kinds''),
(12, ''type: string''),
(10, ''metadata:''),
(12, ''type: object''),
(10, ''spec:''),
(12, ''properties:''),
(14, ''corefile:''),
(16, ''default: vpc-dns-corefile''),
(16, ''description: CoreDNS corefile configuration''),
(16, ''type: string''),
(14, ''replicas:''),
(16, ''description: Number of DNS server replicas (1-3)''),
(16, ''format: int32''),
(16, ''type: integer''),
(14, ''subnet:''),
(16, ''description: Subnet name for the DNS service. This field is immutable''),
(18, ''after creation.''),
(16, ''type: string''),
(14, ''vpc:''),
(16, ''description: VPC name for the DNS service. This field is immutable''),
(18, ''after creation.''),
(16, ''type: string''),
(12, ''type: object''),
(10, ''status:''),
(12, ''properties:''),
(14, ''active:''),
(16, ''description: Whether the VPC DNS service is active''),
(16, ''type: boolean''),
(14, ''conditions:''),
(16, ''description: Conditions represent the latest state of the VPC DNS''),
(16, ''items:''),
(18, ''description: Condition describes the state of an object at a certain''),
(20, ''point.''),
(18, ''properties:''),
(20, ''lastTransitionTime:''),
(22, ''description: Last time the condition transitioned from one status''),
(24, ''to another.''),
(22, ''format: date-time''),
(22, ''type: string''),
(20, ''lastUpdateTime:''),
(22, ''description: Last time the condition was probed''),
(22, ''format: date-time''),
(22, ''type: string''),
(20, ''message:''),
(22, ''description: A human readable message indicating details about''),
(24, ''the transition.''),
(22, ''type: string''),
(20, ''observedGeneration:''),
(22, ''description: |-''),
(24, ''ObservedGeneration represents the .metadata.generation that the condition was set based upon.''),
(24, ''For instance, if .metadata.generation is currently 12, but the .status.conditions[x].observedGeneration is 9,''),
(24, ''the condition is out of date with respect to the current state of the instance.''),
(22, ''format: int64''),
(22, ''type: integer''),
(20, ''reason:''),
(22, ''description: The reason for the condition's last transition.''),
(22, ''type: string''),
(20, ''status:''),
(22, ''description: Status of the condition, one of True, False, Unknown.''),
(22, ''type: string''),
(20, ''type:''),
(22, ''description: Type of condition.''),
(22, ''type: string''),
(18, ''type: object''),
(16, ''type: array''),
(12, ''type: object''),
(8, ''type: object''),
(4, ''served: true''),
(4, ''storage: true''),
(4, ''subresources:''),
(6, ''status: {}'')]\<close>

definition iptables_eips_crd :: "yaml_line list" where
  \<open>iptables_eips_crd = [
(0, ''apiVersion: apiextensions.k8s.io/v1''),
(0, ''kind: CustomResourceDefinition''),
(0, ''metadata:''),
(2, ''annotations:''),
(4, ''controller-gen.kubebuilder.io/version: v0.20.1''),
(2, ''name: iptables-eips.kubeovn.io''),
(0, ''spec:''),
(2, ''group: kubeovn.io''),
(2, ''names:''),
(4, ''kind: IptablesEIP''),
(4, ''listKind: IptablesEIPList''),
(4, ''plural: iptables-eips''),
(4, ''shortNames:''),
(4, ''- eip''),
(4, ''singular: iptables-eip''),
(2, ''scope: Cluster''),
(2, ''versions:''),
(2, ''- additionalPrinterColumns:''),
(4, ''- jsonPath: .status.ip''),
(6, ''name: IP''),
(6, ''type: string''),
(4, ''- jsonPath: .spec.macAddress''),
(6, ''name: Mac''),
(6, ''type: string''),
(4, ''- jsonPath: .status.nat''),
(6, ''name: Nat''),
(6, ''type: string''),
(4, ''- jsonPath: .spec.natGwDp''),
(6, ''name: NatGwDp''),
(6, ''type: string''),
(4, ''- jsonPath: .status.ready''),
(6, ''name: Ready''),
(6, ''type: boolean''),
(4, ''name: v1''),
(4, ''schema:''),
(6, ''openAPIV3Schema:''),
(8, ''properties:''),
(10, ''apiVersion:''),
(12, ''description: |-''),
(14, ''APIVersion defines the versioned schema of this representation of an object.''),
(14, ''Servers should convert recognized schemas to the latest internal value, and''),
(14, ''may reject unrecognized values.''),
(14, ''More info: https://git.k8s.io/community/contributors/devel/sig-architecture/api-conventions.md#resources''),
(12, ''type: string''),
(10, ''kind:''),
(12, ''description: |-''),
(14, ''Kind is a string value representing the REST resource this object represents.''),
(14, ''Servers may infer this from the endpoint the client submits requests to.''),
(14, ''Cannot be updated.''),
(14, ''In CamelCase.''),
(14, ''More info: https://git.k8s.io/community/contributors/devel/sig-architecture/api-conventions.md#types-kinds''),
(12, ''type: string''),
(10, ''metadata:''),
(12, ''type: object''),
(10, ''spec:''),
(12, ''properties:''),
(14, ''externalSubnet:''),
(16, ''description: External subnet name. This field is immutable after creation.''),
(16, ''type: string''),
(14, ''macAddress:''),
(16, ''description: MAC address for the EIP''),
(16, ''type: string''),
(14, ''natGwDp:''),
(16, ''description: NAT gateway datapath where the EIP is assigned''),
(16, ''type: string''),
(14, ''qosPolicy:''),
(16, ''description: QoS policy name to apply to the EIP''),
(16, ''type: string''),
(14, ''v4ip:''),
(16, ''description: IPv4 address for the EIP''),
(16, ''type: string''),
(14, ''v6ip:''),
(16, ''description: IPv6 address for the EIP''),
(16, ''type: string''),
(12, ''type: object''),
(10, ''status:''),
(12, ''properties:''),
(14, ''conditions:''),
(16, ''description: Conditions represents the latest state of the object''),
(16, ''items:''),
(18, ''description: Condition describes the state of an object at a certain''),
(20, ''point.''),
(18, ''properties:''),
(20, ''lastTransitionTime:''),
(22, ''description: Last time the condition transitioned from one status''),
(24, ''to another.''),
(22, ''format: date-time''),
(22, ''type: string''),
(20, ''lastUpdateTime:''),
(22, ''description: Last time the condition was probed''),
(22, ''format: date-time''),
(22, ''type: string''),
(20, ''message:''),
(22, ''description: A human readable message indicating details about''),
(24, ''the transition.''),
(22, ''type: string''),
(20, ''observedGeneration:''),
(22, ''description: |-''),
(24, ''ObservedGeneration represents the .metadata.generation that the condition was set based upon.''),
(24, ''For instance, if .metadata.generation is currently 12, but the .status.conditions[x].observedGeneration is 9,''),
(24, ''the condition is out of date with respect to the current state of the instance.''),
(22, ''format: int64''),
(22, ''type: integer''),
(20, ''reason:''),
(22, ''description: The reason for the condition's last transition.''),
(22, ''type: string''),
(20, ''status:''),
(22, ''description: Status of the condition, one of True, False, Unknown.''),
(22, ''type: string''),
(20, ''type:''),
(22, ''description: Type of condition.''),
(22, ''type: string''),
(18, ''type: object''),
(16, ''type: array''),
(14, ''ip:''),
(16, ''description: IPv4 address of the EIP''),
(16, ''type: string''),
(14, ''nat:''),
(16, ''description: NAT type (snat or dnat)''),
(16, ''type: string''),
(14, ''qosPolicy:''),
(16, ''description: QoS policy name''),
(16, ''type: string''),
(14, ''ready:''),
(16, ''description: Indicates whether the EIP is ready''),
(16, ''type: boolean''),
(14, ''redo:''),
(16, ''description: Redo operation status''),
(16, ''type: string''),
(12, ''type: object''),
(8, ''type: object''),
(4, ''served: true''),
(4, ''storage: true''),
(4, ''subresources:''),
(6, ''status: {}'')]\<close>

definition iptables_snat_rules_crd :: "yaml_line list" where
  \<open>iptables_snat_rules_crd = [
(0, ''apiVersion: apiextensions.k8s.io/v1''),
(0, ''kind: CustomResourceDefinition''),
(0, ''metadata:''),
(2, ''annotations:''),
(4, ''controller-gen.kubebuilder.io/version: v0.20.1''),
(2, ''name: iptables-snat-rules.kubeovn.io''),
(0, ''spec:''),
(2, ''group: kubeovn.io''),
(2, ''names:''),
(4, ''kind: IptablesSnatRule''),
(4, ''listKind: IptablesSnatRuleList''),
(4, ''plural: iptables-snat-rules''),
(4, ''shortNames:''),
(4, ''- snat''),
(4, ''singular: iptables-snat-rule''),
(2, ''scope: Cluster''),
(2, ''versions:''),
(2, ''- additionalPrinterColumns:''),
(4, ''- jsonPath: .spec.eip''),
(6, ''name: EIP''),
(6, ''type: string''),
(4, ''- jsonPath: .status.v4ip''),
(6, ''name: V4ip''),
(6, ''type: string''),
(4, ''- jsonPath: .status.v6ip''),
(6, ''name: V6ip''),
(6, ''type: string''),
(4, ''- jsonPath: .spec.internalCIDR''),
(6, ''name: InternalCIDR''),
(6, ''type: string''),
(4, ''- jsonPath: .status.natGwDp''),
(6, ''name: NatGwDp''),
(6, ''type: string''),
(4, ''- jsonPath: .status.ready''),
(6, ''name: Ready''),
(6, ''type: boolean''),
(4, ''name: v1''),
(4, ''schema:''),
(6, ''openAPIV3Schema:''),
(8, ''properties:''),
(10, ''apiVersion:''),
(12, ''description: |-''),
(14, ''APIVersion defines the versioned schema of this representation of an object.''),
(14, ''Servers should convert recognized schemas to the latest internal value, and''),
(14, ''may reject unrecognized values.''),
(14, ''More info: https://git.k8s.io/community/contributors/devel/sig-architecture/api-conventions.md#resources''),
(12, ''type: string''),
(10, ''kind:''),
(12, ''description: |-''),
(14, ''Kind is a string value representing the REST resource this object represents.''),
(14, ''Servers may infer this from the endpoint the client submits requests to.''),
(14, ''Cannot be updated.''),
(14, ''In CamelCase.''),
(14, ''More info: https://git.k8s.io/community/contributors/devel/sig-architecture/api-conventions.md#types-kinds''),
(12, ''type: string''),
(10, ''metadata:''),
(12, ''type: object''),
(10, ''spec:''),
(12, ''properties:''),
(14, ''eip:''),
(16, ''description: EIP name for SNAT rule''),
(16, ''type: string''),
(14, ''internalCIDR:''),
(16, ''description: Internal CIDR to be translated via SNAT''),
(16, ''type: string''),
(12, ''type: object''),
(10, ''status:''),
(12, ''properties:''),
(14, ''conditions:''),
(16, ''description: Conditions represents the latest state of the object''),
(16, ''items:''),
(18, ''description: Condition describes the state of an object at a certain''),
(20, ''point.''),
(18, ''properties:''),
(20, ''lastTransitionTime:''),
(22, ''description: Last time the condition transitioned from one status''),
(24, ''to another.''),
(22, ''format: date-time''),
(22, ''type: string''),
(20, ''lastUpdateTime:''),
(22, ''description: Last time the condition was probed''),
(22, ''format: date-time''),
(22, ''type: string''),
(20, ''message:''),
(22, ''description: A human readable message indicating details about''),
(24, ''the transition.''),
(22, ''type: string''),
(20, ''observedGeneration:''),
(22, ''description: |-''),
(24, ''ObservedGeneration represents the .metadata.generation that the condition was set based upon.''),
(24, ''For instance, if .metadata.generation is currently 12, but the .status.conditions[x].observedGeneration is 9,''),
(24, ''the condition is out of date with respect to the current state of the instance.''),
(22, ''format: int64''),
(22, ''type: integer''),
(20, ''reason:''),
(22, ''description: The reason for the condition's last transition.''),
(22, ''type: string''),
(20, ''status:''),
(22, ''description: Status of the condition, one of True, False, Unknown.''),
(22, ''type: string''),
(20, ''type:''),
(22, ''description: Type of condition.''),
(22, ''type: string''),
(18, ''type: object''),
(16, ''type: array''),
(14, ''internalCIDR:''),
(16, ''description: InternalCIDR is the internal CIDR of the SNAT rule''),
(16, ''type: string''),
(14, ''natGwDp:''),
(16, ''description: NatGwDp is the NAT gateway data path''),
(16, ''type: string''),
(14, ''ready:''),
(16, ''description: Indicates whether the SNAT rule is ready''),
(16, ''type: boolean''),
(14, ''redo:''),
(16, ''description: Redo operation status''),
(16, ''type: string''),
(14, ''v4ip:''),
(16, ''description: V4ip is the IPv4 address of the SNAT rule''),
(16, ''type: string''),
(14, ''v6ip:''),
(16, ''description: V6ip is the IPv6 address of the SNAT rule''),
(16, ''type: string''),
(12, ''type: object''),
(8, ''type: object''),
(4, ''served: true''),
(4, ''storage: true''),
(4, ''subresources:''),
(6, ''status: {}'')]\<close>

definition ovn_snat_rules_crd :: "yaml_line list" where
  \<open>ovn_snat_rules_crd = [
(0, ''apiVersion: apiextensions.k8s.io/v1''),
(0, ''kind: CustomResourceDefinition''),
(0, ''metadata:''),
(2, ''annotations:''),
(4, ''controller-gen.kubebuilder.io/version: v0.20.1''),
(2, ''name: ovn-snat-rules.kubeovn.io''),
(0, ''spec:''),
(2, ''group: kubeovn.io''),
(2, ''names:''),
(4, ''kind: OvnSnatRule''),
(4, ''listKind: OvnSnatRuleList''),
(4, ''plural: ovn-snat-rules''),
(4, ''shortNames:''),
(4, ''- osnat''),
(4, ''singular: ovn-snat-rule''),
(2, ''scope: Cluster''),
(2, ''versions:''),
(2, ''- additionalPrinterColumns:''),
(4, ''- jsonPath: .status.vpc''),
(6, ''name: Vpc''),
(6, ''type: string''),
(4, ''- jsonPath: .status.v4Eip''),
(6, ''name: V4Eip''),
(6, ''type: string''),
(4, ''- jsonPath: .status.v6Eip''),
(6, ''name: V6Eip''),
(6, ''type: string''),
(4, ''- jsonPath: .status.v4IpCidr''),
(6, ''name: V4IpCidr''),
(6, ''type: string''),
(4, ''- jsonPath: .status.v6IpCidr''),
(6, ''name: V6IpCidr''),
(6, ''type: string''),
(4, ''- jsonPath: .status.ready''),
(6, ''name: Ready''),
(6, ''type: boolean''),
(4, ''name: v1''),
(4, ''schema:''),
(6, ''openAPIV3Schema:''),
(8, ''properties:''),
(10, ''apiVersion:''),
(12, ''description: |-''),
(14, ''APIVersion defines the versioned schema of this representation of an object.''),
(14, ''Servers should convert recognized schemas to the latest internal value, and''),
(14, ''may reject unrecognized values.''),
(14, ''More info: https://git.k8s.io/community/contributors/devel/sig-architecture/api-conventions.md#resources''),
(12, ''type: string''),
(10, ''kind:''),
(12, ''description: |-''),
(14, ''Kind is a string value representing the REST resource this object represents.''),
(14, ''Servers may infer this from the endpoint the client submits requests to.''),
(14, ''Cannot be updated.''),
(14, ''In CamelCase.''),
(14, ''More info: https://git.k8s.io/community/contributors/devel/sig-architecture/api-conventions.md#types-kinds''),
(12, ''type: string''),
(10, ''metadata:''),
(12, ''type: object''),
(10, ''spec:''),
(12, ''properties:''),
(14, ''ipName:''),
(16, ''description: IP resource name''),
(16, ''type: string''),
(14, ''ovnEip:''),
(16, ''description: OVN EIP name for SNAT rule''),
(16, ''type: string''),
(14, ''v4IpCidr:''),
(16, ''description: IPv4 CIDR for SNAT''),
(16, ''type: string''),
(14, ''v6IpCidr:''),
(16, ''description: IPv6 CIDR for SNAT''),
(16, ''type: string''),
(14, ''vpc:''),
(16, ''description: VPC name. This field is immutable after creation.''),
(16, ''type: string''),
(14, ''vpcSubnet:''),
(16, ''description: VPC subnet name for SNAT''),
(16, ''type: string''),
(12, ''type: object''),
(10, ''status:''),
(12, ''properties:''),
(14, ''conditions:''),
(16, ''description: Conditions represents the latest state of the object''),
(16, ''items:''),
(18, ''description: Condition describes the state of an object at a certain''),
(20, ''point.''),
(18, ''properties:''),
(20, ''lastTransitionTime:''),
(22, ''description: Last time the condition transitioned from one status''),
(24, ''to another.''),
(22, ''format: date-time''),
(22, ''type: string''),
(20, ''lastUpdateTime:''),
(22, ''description: Last time the condition was probed''),
(22, ''format: date-time''),
(22, ''type: string''),
(20, ''message:''),
(22, ''description: A human readable message indicating details about''),
(24, ''the transition.''),
(22, ''type: string''),
(20, ''observedGeneration:''),
(22, ''description: |-''),
(24, ''ObservedGeneration represents the .metadata.generation that the condition was set based upon.''),
(24, ''For instance, if .metadata.generation is currently 12, but the .status.conditions[x].observedGeneration is 9,''),
(24, ''the condition is out of date with respect to the current state of the instance.''),
(22, ''format: int64''),
(22, ''type: integer''),
(20, ''reason:''),
(22, ''description: The reason for the condition's last transition.''),
(22, ''type: string''),
(20, ''status:''),
(22, ''description: Status of the condition, one of True, False, Unknown.''),
(22, ''type: string''),
(20, ''type:''),
(22, ''description: Type of condition.''),
(22, ''type: string''),
(18, ''type: object''),
(16, ''type: array''),
(14, ''ready:''),
(16, ''description: Indicates whether the SNAT rule is ready''),
(16, ''type: boolean''),
(14, ''v4Eip:''),
(16, ''description: V4Eip is the IPv4 EIP address''),
(16, ''type: string''),
(14, ''v4IpCidr:''),
(16, ''description: V4IpCidr is the IPv4 CIDR of the SNAT rule''),
(16, ''type: string''),
(14, ''v6Eip:''),
(16, ''description: V6Eip is the IPv6 EIP address''),
(16, ''type: string''),
(14, ''v6IpCidr:''),
(16, ''description: V6IpCidr is the IPv6 CIDR of the SNAT rule''),
(16, ''type: string''),
(14, ''vpc:''),
(16, ''description: VPC name where the SNAT rule is configured''),
(16, ''type: string''),
(12, ''type: object''),
(8, ''type: object''),
(4, ''served: true''),
(4, ''storage: true''),
(4, ''subresources:''),
(6, ''status: {}'')]\<close>

definition ips_crd :: "yaml_line list" where
  \<open>ips_crd = [
(0, ''apiVersion: apiextensions.k8s.io/v1''),
(0, ''kind: CustomResourceDefinition''),
(0, ''metadata:''),
(2, ''annotations:''),
(4, ''controller-gen.kubebuilder.io/version: v0.20.1''),
(2, ''name: ips.kubeovn.io''),
(0, ''spec:''),
(2, ''group: kubeovn.io''),
(2, ''names:''),
(4, ''kind: IP''),
(4, ''listKind: IPList''),
(4, ''plural: ips''),
(4, ''shortNames:''),
(4, ''- ip''),
(4, ''singular: ip''),
(2, ''scope: Cluster''),
(2, ''versions:''),
(2, ''- additionalPrinterColumns:''),
(4, ''- jsonPath: .spec.v4IpAddress''),
(6, ''name: V4IP''),
(6, ''type: string''),
(4, ''- jsonPath: .spec.v6IpAddress''),
(6, ''name: V6IP''),
(6, ''type: string''),
(4, ''- jsonPath: .spec.macAddress''),
(6, ''name: Mac''),
(6, ''type: string''),
(4, ''- jsonPath: .spec.nodeName''),
(6, ''name: Node''),
(6, ''type: string''),
(4, ''- jsonPath: .spec.subnet''),
(6, ''name: Subnet''),
(6, ''type: string''),
(4, ''name: v1''),
(4, ''schema:''),
(6, ''openAPIV3Schema:''),
(8, ''properties:''),
(10, ''apiVersion:''),
(12, ''description: |-''),
(14, ''APIVersion defines the versioned schema of this representation of an object.''),
(14, ''Servers should convert recognized schemas to the latest internal value, and''),
(14, ''may reject unrecognized values.''),
(14, ''More info: https://git.k8s.io/community/contributors/devel/sig-architecture/api-conventions.md#resources''),
(12, ''type: string''),
(10, ''kind:''),
(12, ''description: |-''),
(14, ''Kind is a string value representing the REST resource this object represents.''),
(14, ''Servers may infer this from the endpoint the client submits requests to.''),
(14, ''Cannot be updated.''),
(14, ''In CamelCase.''),
(14, ''More info: https://git.k8s.io/community/contributors/devel/sig-architecture/api-conventions.md#types-kinds''),
(12, ''type: string''),
(10, ''metadata:''),
(12, ''type: object''),
(10, ''spec:''),
(12, ''properties:''),
(14, ''attachIps:''),
(16, ''description: Additional IP addresses from attached subnets''),
(16, ''items:''),
(18, ''type: string''),
(16, ''type: array''),
(14, ''attachMacs:''),
(16, ''description: MAC addresses for attached IPs''),
(16, ''items:''),
(18, ''type: string''),
(16, ''type: array''),
(14, ''attachSubnets:''),
(16, ''description: Additional attached subnets''),
(16, ''items:''),
(18, ''type: string''),
(16, ''type: array''),
(14, ''containerID:''),
(16, ''description: Container ID''),
(16, ''type: string''),
(14, ''ipAddress:''),
(16, ''description: IP address (deprecated, use v4IpAddress or v6IpAddress)''),
(16, ''type: string''),
(14, ''macAddress:''),
(16, ''description: MAC address for the primary IP''),
(16, ''type: string''),
(14, ''namespace:''),
(16, ''description: Namespace of the pod''),
(16, ''type: string''),
(14, ''nodeName:''),
(16, ''description: Node name where the pod resides''),
(16, ''type: string''),
(14, ''podName:''),
(16, ''description: Pod name that this IP belongs to''),
(16, ''type: string''),
(14, ''podType:''),
(16, ''description: Pod type (e.g., pod, vm)''),
(16, ''type: string''),
(14, ''subnet:''),
(16, ''description: Primary subnet name for the IP. This field is immutable''),
(18, ''after creation.''),
(16, ''type: string''),
(14, ''v4IpAddress:''),
(16, ''description: IPv4 address''),
(16, ''type: string''),
(14, ''v6IpAddress:''),
(16, ''description: IPv6 address''),
(16, ''type: string''),
(12, ''type: object''),
(8, ''type: object''),
(4, ''served: true''),
(4, ''storage: true''),
(4, ''subresources: {}'')]\<close>

definition ippools_crd_part1 :: "yaml_line list" where
  \<open>ippools_crd_part1 = [
(0, ''apiVersion: apiextensions.k8s.io/v1''),
(0, ''kind: CustomResourceDefinition''),
(0, ''metadata:''),
(2, ''annotations:''),
(4, ''controller-gen.kubebuilder.io/version: v0.20.1''),
(2, ''name: ippools.kubeovn.io''),
(0, ''spec:''),
(2, ''group: kubeovn.io''),
(2, ''names:''),
(4, ''kind: IPPool''),
(4, ''listKind: IPPoolList''),
(4, ''plural: ippools''),
(4, ''shortNames:''),
(4, ''- ippool''),
(4, ''singular: ippool''),
(2, ''scope: Cluster''),
(2, ''versions:''),
(2, ''- additionalPrinterColumns:''),
(4, ''- jsonPath: .spec.subnet''),
(6, ''name: Subnet''),
(6, ''type: string''),
(4, ''- jsonPath: .spec.enableAddressSet''),
(6, ''name: enableAddressSet''),
(6, ''type: boolean''),
(4, ''- jsonPath: .spec.ips''),
(6, ''name: IPs''),
(6, ''type: string''),
(4, ''- jsonPath: .status.v4UsingIPs''),
(6, ''name: V4Used''),
(6, ''type: number''),
(4, ''- jsonPath: .status.v4AvailableIPs''),
(6, ''name: V4Available''),
(6, ''type: number''),
(4, ''- jsonPath: .status.v6UsingIPs''),
(6, ''name: V6Used''),
(6, ''type: number''),
(4, ''- jsonPath: .status.v6AvailableIPs''),
(6, ''name: V6Available''),
(6, ''type: number''),
(4, ''name: v1''),
(4, ''schema:''),
(6, ''openAPIV3Schema:''),
(8, ''properties:''),
(10, ''apiVersion:''),
(12, ''description: |-''),
(14, ''APIVersion defines the versioned schema of this representation of an object.''),
(14, ''Servers should convert recognized schemas to the latest internal value, and''),
(14, ''may reject unrecognized values.''),
(14, ''More info: https://git.k8s.io/community/contributors/devel/sig-architecture/api-conventions.md#resources''),
(12, ''type: string''),
(10, ''kind:''),
(12, ''description: |-''),
(14, ''Kind is a string value representing the REST resource this object represents.''),
(14, ''Servers may infer this from the endpoint the client submits requests to.''),
(14, ''Cannot be updated.''),
(14, ''In CamelCase.''),
(14, ''More info: https://git.k8s.io/community/contributors/devel/sig-architecture/api-conventions.md#types-kinds''),
(12, ''type: string''),
(10, ''metadata:''),
(12, ''type: object''),
(10, ''spec:''),
(12, ''properties:''),
(14, ''enableAddressSet:''),
(16, ''default: false''),
(16, ''description: EnableAddressSet to work with policy-based routing and''),
(18, ''ACL''),
(16, ''type: boolean''),
(14, ''ips:''),
(16, ''description: IP addresses or ranges in the pool (IPv4/IPv6 addresses''),
(18, ''or CIDR ranges)''),
(16, ''items:''),
(18, ''type: string''),
(16, ''type: array''),
(14, ''namespaces:''),
(16, ''description: Namespaces that can use this IP pool''),
(16, ''items:''),
(18, ''type: string'')]\<close>

definition ippools_crd_part2 :: "yaml_line list" where
  \<open>ippools_crd_part2 = [
(16, ''type: array''),
(14, ''subnet:''),
(16, ''description: Subnet name for the IP pool. This field is immutable.''),
(16, ''type: string''),
(12, ''required:''),
(12, ''- ips''),
(12, ''- subnet''),
(12, ''type: object''),
(10, ''status:''),
(12, ''properties:''),
(14, ''conditions:''),
(16, ''description: Conditions represents the latest state of the object''),
(16, ''items:''),
(18, ''description: Condition describes the state of an object at a certain''),
(20, ''point.''),
(18, ''properties:''),
(20, ''lastTransitionTime:''),
(22, ''description: Last time the condition transitioned from one status''),
(24, ''to another.''),
(22, ''format: date-time''),
(22, ''type: string''),
(20, ''lastUpdateTime:''),
(22, ''description: Last time the condition was probed''),
(22, ''format: date-time''),
(22, ''type: string''),
(20, ''message:''),
(22, ''description: A human readable message indicating details about''),
(24, ''the transition.''),
(22, ''type: string''),
(20, ''observedGeneration:''),
(22, ''description: |-''),
(24, ''ObservedGeneration represents the .metadata.generation that the condition was set based upon.''),
(24, ''For instance, if .metadata.generation is currently 12, but the .status.conditions[x].observedGeneration is 9,''),
(24, ''the condition is out of date with respect to the current state of the instance.''),
(22, ''format: int64''),
(22, ''type: integer''),
(20, ''reason:''),
(22, ''description: The reason for the condition's last transition.''),
(22, ''type: string''),
(20, ''status:''),
(22, ''description: Status of the condition, one of True, False, Unknown.''),
(22, ''type: string''),
(20, ''type:''),
(22, ''description: Type of condition.''),
(22, ''type: string''),
(18, ''type: object''),
(16, ''type: array''),
(14, ''v4AvailableIPRange:''),
(16, ''description: Available IPv4 address range''),
(16, ''type: string''),
(14, ''v4AvailableIPs:''),
(16, ''description: Number of available IPv4 addresses''),
(16, ''type: number''),
(14, ''v4UsingIPRange:''),
(16, ''description: IPv4 address range in use''),
(16, ''type: string''),
(14, ''v4UsingIPs:''),
(16, ''description: Number of using IPv4 addresses''),
(16, ''type: number''),
(14, ''v6AvailableIPRange:''),
(16, ''description: Available IPv6 address range''),
(16, ''type: string''),
(14, ''v6AvailableIPs:''),
(16, ''description: Number of available IPv6 addresses''),
(16, ''type: number''),
(14, ''v6UsingIPRange:''),
(16, ''description: IPv6 address range in use''),
(16, ''type: string''),
(14, ''v6UsingIPs:''),
(16, ''description: Number of using IPv6 addresses''),
(16, ''type: number''),
(12, ''type: object''),
(8, ''type: object''),
(4, ''served: true''),
(4, ''storage: true''),
(4, ''subresources:''),
(6, ''status: {}'')]\<close>

definition ippools_crd :: "yaml_line list" where
  "ippools_crd = ippools_crd_part1 @ ippools_crd_part2"

definition provider_networks_crd_part1 :: "yaml_line list" where
  \<open>provider_networks_crd_part1 = [
(0, ''apiVersion: apiextensions.k8s.io/v1''),
(0, ''kind: CustomResourceDefinition''),
(0, ''metadata:''),
(2, ''annotations:''),
(4, ''controller-gen.kubebuilder.io/version: v0.20.1''),
(2, ''name: provider-networks.kubeovn.io''),
(0, ''spec:''),
(2, ''group: kubeovn.io''),
(2, ''names:''),
(4, ''kind: ProviderNetwork''),
(4, ''listKind: ProviderNetworkList''),
(4, ''plural: provider-networks''),
(4, ''shortNames:''),
(4, ''- pn''),
(4, ''singular: provider-network''),
(2, ''scope: Cluster''),
(2, ''versions:''),
(2, ''- additionalPrinterColumns:''),
(4, ''- jsonPath: .spec.defaultInterface''),
(6, ''name: DefaultInterface''),
(6, ''type: string''),
(4, ''- jsonPath: .status.ready''),
(6, ''name: Ready''),
(6, ''type: boolean''),
(4, ''name: v1''),
(4, ''schema:''),
(6, ''openAPIV3Schema:''),
(8, ''properties:''),
(10, ''apiVersion:''),
(12, ''description: |-''),
(14, ''APIVersion defines the versioned schema of this representation of an object.''),
(14, ''Servers should convert recognized schemas to the latest internal value, and''),
(14, ''may reject unrecognized values.''),
(14, ''More info: https://git.k8s.io/community/contributors/devel/sig-architecture/api-conventions.md#resources''),
(12, ''type: string''),
(10, ''kind:''),
(12, ''description: |-''),
(14, ''Kind is a string value representing the REST resource this object represents.''),
(14, ''Servers may infer this from the endpoint the client submits requests to.''),
(14, ''Cannot be updated.''),
(14, ''In CamelCase.''),
(14, ''More info: https://git.k8s.io/community/contributors/devel/sig-architecture/api-conventions.md#types-kinds''),
(12, ''type: string''),
(10, ''metadata:''),
(12, ''type: object''),
(10, ''spec:''),
(12, ''properties:''),
(14, ''autoCreateVlanSubinterfaces:''),
(16, ''description: Automatically create VLAN subinterfaces''),
(16, ''type: boolean''),
(14, ''customInterfaces:''),
(16, ''description: Custom interface configurations for specific nodes''),
(16, ''items:''),
(18, ''properties:''),
(20, ''interface:''),
(22, ''description: Interface name''),
(22, ''maxLength: 15''),
(22, ''pattern: ^[^/'' @ [CHR 0x5C] @ ''s]+$''),
(22, ''type: string''),
(20, ''nodes:''),
(22, ''description: Nodes that use this custom interface''),
(22, ''items:''),
(24, ''type: string''),
(22, ''type: array''),
(18, ''type: object''),
(16, ''type: array''),
(14, ''defaultInterface:''),
(16, ''description: Default interface name for the provider network. This''),
(18, ''field is immutable after creation.''),
(16, ''maxLength: 15''),
(16, ''pattern: ^[^/'' @ [CHR 0x5C] @ ''s]+$''),
(16, ''type: string''),
(14, ''exchangeLinkName:''),
(16, ''description: Exchange link name between host and container''),
(16, ''type: boolean''),
(14, ''excludeNodes:''),
(16, ''description: Nodes to exclude from this provider network''),
(16, ''items:''),
(18, ''type: string''),
(16, ''type: array''),
(14, ''nodeSelector:''),
(16, ''description: Node selector for targeting specific nodes''),
(16, ''properties:''),
(18, ''matchExpressions:''),
(20, ''description: matchExpressions is a list of label selector requirements.''),
(22, ''The requirements are ANDed.''),
(20, ''items:''),
(22, ''description: |-''),
(24, ''A label selector requirement is a selector that contains values, a key, and an operator that''),
(24, ''relates the key and values.''),
(22, ''properties:''),
(24, ''key:''),
(26, ''description: key is the label key that the selector applies''),
(28, ''to.''),
(26, ''type: string''),
(24, ''operator:''),
(26, ''description: |-''),
(28, ''operator represents a key's relationship to a set of values.''),
(28, ''Valid operators are In, NotIn, Exists and DoesNotExist.''),
(26, ''type: string''),
(24, ''values:''),
(26, ''description: |-'')]\<close>

definition provider_networks_crd_part2 :: "yaml_line list" where
  \<open>provider_networks_crd_part2 = [
(28, ''values is an array of string values. If the operator is In or NotIn,''),
(28, ''the values array must be non-empty. If the operator is Exists or DoesNotExist,''),
(28, ''the values array must be empty. This array is replaced during a strategic''),
(28, ''merge patch.''),
(26, ''items:''),
(28, ''type: string''),
(26, ''type: array''),
(26, ''x-kubernetes-list-type: atomic''),
(22, ''required:''),
(22, ''- key''),
(22, ''- operator''),
(22, ''type: object''),
(20, ''type: array''),
(20, ''x-kubernetes-list-type: atomic''),
(18, ''matchLabels:''),
(20, ''additionalProperties:''),
(22, ''type: string''),
(20, ''description: |-''),
(22, ''matchLabels is a map of {key,value} pairs. A single {key,value} in the matchLabels''),
(22, ''map is equivalent to an element of matchExpressions, whose key field is "key", the''),
(22, ''operator is "In", and the values array contains only "value". The requirements are ANDed.''),
(20, ''type: object''),
(16, ''type: object''),
(16, ''x-kubernetes-map-type: atomic''),
(14, ''preserveVlanInterfaces:''),
(16, ''description: Enable automatic detection and preservation of VLAN interfaces''),
(16, ''type: boolean''),
(14, ''vlanInterfaces:''),
(16, ''description: Optional explicit list of VLAN interface names to preserve''),
(18, ''(e.g., eth0.10, bond0.20)''),
(16, ''items:''),
(18, ''type: string''),
(16, ''type: array''),
(12, ''required:''),
(12, ''- defaultInterface''),
(12, ''type: object''),
(10, ''status:''),
(12, ''properties:''),
(14, ''conditions:''),
(16, ''description: |-''),
(18, ''Conditions represents the latest state of the object''),
(18, ''Conditions of nodes in the provider network''),
(16, ''items:''),
(18, ''properties:''),
(20, ''lastTransitionTime:''),
(22, ''description: Last time the condition transitioned from one status''),
(24, ''to another.''),
(22, ''format: date-time''),
(22, ''type: string''),
(20, ''lastUpdateTime:''),
(22, ''description: Last time the condition was probed''),
(22, ''format: date-time''),
(22, ''type: string''),
(20, ''message:''),
(22, ''description: A human readable message indicating details about''),
(24, ''the transition.''),
(22, ''type: string''),
(20, ''node:''),
(22, ''description: Node name''),
(22, ''type: string''),
(20, ''observedGeneration:''),
(22, ''description: |-''),
(24, ''ObservedGeneration represents the .metadata.generation that the condition was set based upon.''),
(24, ''For instance, if .metadata.generation is currently 12, but the .status.conditions[x].observedGeneration is 9,''),
(24, ''the condition is out of date with respect to the current state of the instance.''),
(22, ''format: int64''),
(22, ''type: integer''),
(20, ''reason:''),
(22, ''description: The reason for the condition's last transition.''),
(22, ''type: string''),
(20, ''status:''),
(22, ''description: Status of the condition, one of True, False, Unknown.''),
(22, ''type: string''),
(20, ''type:''),
(22, ''description: Type of condition.''),
(22, ''type: string''),
(18, ''type: object''),
(16, ''type: array''),
(14, ''notReadyNodes:''),
(16, ''description: Nodes that are not ready''),
(16, ''items:''),
(18, ''type: string''),
(16, ''type: array''),
(14, ''ready:''),
(16, ''description: Whether the provider network is ready''),
(16, ''type: boolean''),
(14, ''readyNodes:''),
(16, ''description: Nodes that are ready''),
(16, ''items:''),
(18, ''type: string''),
(16, ''type: array''),
(14, ''vlans:''),
(16, ''description: VLANs in use by this provider network''),
(16, ''items:''),
(18, ''type: string''),
(16, ''type: array''),
(12, ''type: object''),
(8, ''type: object''),
(4, ''served: true''),
(4, ''storage: true''),
(4, ''subresources:''),
(6, ''status: {}'')]\<close>

definition provider_networks_crd :: "yaml_line list" where
  "provider_networks_crd = provider_networks_crd_part1 @ provider_networks_crd_part2"

end
