(* ===== verification/CRD_Texts_5.thy ===== *)
theory CRD_Texts_5
  imports CRD_Lines
begin

text \<open>
  Texts of \<^verbatim>\<open>internal/templates/customresourcedefinitions.go\<close>, line by line with the indentation as a
  number. A text of more than 150 lines is given in parts.
\<close>

definition switch_lb_rules_crd :: "yaml_line list" where
  \<open>switch_lb_rules_crd = [
(0, ''apiVersion: apiextensions.k8s.io/v1''),
(0, ''kind: CustomResourceDefinition''),
(0, ''metadata:''),
(2, ''annotations:''),
(4, ''controller-gen.kubebuilder.io/version: v0.20.1''),
(2, ''name: switch-lb-rules.kubeovn.io''),
(0, ''spec:''),
(2, ''group: kubeovn.io''),
(2, ''names:''),
(4, ''kind: SwitchLBRule''),
(4, ''listKind: SwitchLBRuleList''),
(4, ''plural: switch-lb-rules''),
(4, ''shortNames:''),
(4, ''- slr''),
(4, ''singular: switch-lb-rule''),
(2, ''scope: Cluster''),
(2, ''versions:''),
(2, ''- additionalPrinterColumns:''),
(4, ''- jsonPath: .spec.vip''),
(6, ''name: vip''),
(6, ''type: string''),
(4, ''- jsonPath: .status.ports''),
(6, ''name: port(s)''),
(6, ''type: string''),
(4, ''- jsonPath: .status.service''),
(6, ''name: service''),
(6, ''type: string''),
(4, ''- jsonPath: .metadata.creationTimestamp''),
(6, ''name: age''),
(6, ''type: date''),
(4, ''name: v1''),
(4, ''schema:''),
(6, ''openAPIV3Schema:''),
(8, ''properties:''),
(10, ''apiVersion:''),
(12, ''description: |-''),
(14, ''APIVersion defines the versioned schema of this representation of an object.''),
(14, ''Servers should convert recognized schemas to the latest internal value, and''),
(14, ''may reject unrecognized values.''),
(14, ''More info: https://git.k8s.io/community/contributors/devel/sig-architecture/api-conventions.md#resources''),
(12, ''type: string''),
(10, ''kind:''),
(12, ''description: |-''),
(14, ''Kind is a string value representing the REST resource this object represents.''),
(14, ''Servers may infer this from the endpoint the client submits requests to.''),
(14, ''Cannot be updated.''),
(14, ''In CamelCase.''),
(14, ''More info: https://git.k8s.io/community/contributors/devel/sig-architecture/api-conventions.md#types-kinds''),
(12, ''type: string''),
(10, ''metadata:''),
(12, ''type: object''),
(10, ''spec:''),
(12, ''properties:''),
(14, ''endpoints:''),
(16, ''items:''),
(18, ''type: string''),
(16, ''type: array''),
(14, ''namespace:''),
(16, ''type: string''),
(14, ''ports:''),
(16, ''items:''),
(18, ''properties:''),
(20, ''name:''),
(22, ''description: Port name''),
(22, ''type: string''),
(20, ''port:''),
(22, ''description: Service port number (1-65535)''),
(22, ''format: int32''),
(22, ''type: integer''),
(20, ''protocol:''),
(22, ''description: Protocol (TCP or UDP)''),
(22, ''type: string''),
(20, ''targetPort:''),
(22, ''description: Target port number (1-65535)''),
(22, ''format: int32''),
(22, ''type: integer''),
(18, ''type: object''),
(16, ''type: array''),
(14, ''selector:''),
(16, ''items:''),
(18, ''type: string''),
(16, ''type: array''),
(14, ''sessionAffinity:''),
(16, ''type: string''),
(14, ''vip:''),
(16, ''type: string''),
(12, ''type: object''),
(10, ''status:''),
(12, ''properties:''),
(14, ''conditions:''),
(16, ''description: Conditions represents the latest state of the object''),
(16, ''items:''),
(18, ''description: Condition describes the state of an object at a certain''),
(20, ''point.''),
(18, ''properties:''),
(20, ''lastTransitionTime:''),
(22, ''description: Last time the condition transitioned from one status''),
(24, ''to another.''),
(22, ''format: date-time''),
(22, ''type: string''),
(20, ''lastUpdateTime:''),
(22, ''description: Last time the condition was probed''),
(22, ''format: date-time''),
(22, ''type: string''),
(20, ''message:''),
(22, ''description: A human readable message indicating details about''),
(24, ''the transition.''),
(22, ''type: string''),
(20, ''observedGeneration:''),
(22, ''description: |-''),
(24, ''ObservedGeneration represents the .metadata.generation that the condition was set based upon.''),
(24, ''For instance, if .metadata.generation is currently 12, but the .status.conditions[x].observedGeneration is 9,''),
(24, ''the condition is out of date with respect to the current state of the instance.''),
(22, ''format: int64''),
(22, ''type: integer''),
(20, ''reason:''),
(22, ''description: The reason for the condition's last transition.''),
(22, ''type: string''),
(20, ''status:''),
(22, ''description: Status of the condition, one of True, False, Unknown.''),
(22, ''type: string''),
(20, ''type:''),
(22, ''description: Type of condition.''),
(22, ''type: string''),
(18, ''type: object''),
(16, ''type: array''),
(14, ''ports:''),
(16, ''description: Configured ports''),
(16, ''type: string''),
(14, ''service:''),
(16, ''description: Associated service name''),
(16, ''type: string''),
(12, ''type: object''),
(8, ''type: object''),
(4, ''served: true''),
(4, ''storage: true''),
(4, ''subresources:''),
(6, ''status: {}'')]\<close>

definition iptables_fip_rules_crd :: "yaml_line list" where
  \<open>iptables_fip_rules_crd = [
(0, ''apiVersion: apiextensions.k8s.io/v1''),
(0, ''kind: CustomResourceDefinition''),
(0, ''metadata:''),
(2, ''annotations:''),
(4, ''controller-gen.kubebuilder.io/version: v0.20.1''),
(2, ''name: iptables-fip-rules.kubeovn.io''),
(0, ''spec:''),
(2, ''group: kubeovn.io''),
(2, ''names:''),
(4, ''kind: IptablesFIPRule''),
(4, ''listKind: IptablesFIPRuleList''),
(4, ''plural: iptables-fip-rules''),
(4, ''shortNames:''),
(4, ''- fip''),
(4, ''singular: iptables-fip-rule''),
(2, ''scope: Cluster''),
(2, ''versions:''),
(2, ''- additionalPrinterColumns:''),
(4, ''- jsonPath: .spec.eip''),
(6, ''name: Eip''),
(6, ''type: string''),
(4, ''- jsonPath: .status.v4ip''),
(6, ''name: V4ip''),
(6, ''type: string''),
(4, ''- jsonPath: .spec.internalIp''),
(6, ''name: InternalIp''),
(6, ''type: string''),
(4, ''- jsonPath: .status.v6ip''),
(6, ''name: V6ip''),
(6, ''type: string''),
(4, ''- jsonPath: .status.ready''),
(6, ''name: Ready''),
(6, ''type: boolean''),
(4, ''- jsonPath: .status.natGwDp''),
(6, ''name: NatGwDp''),
(6, ''type: string''),
(4, ''name: v1''),
(4, ''schema:''),
(6, ''openAPIV3Schema:''),
(8, ''properties:''),
(10, ''apiVersion:''),
(12, ''description: |-''),
(14, ''APIVersion defines the versioned schema of this representation of an object.''),
(14, ''Servers should convert recognized schemas to the latest internal value, and''),
(14, ''may reject unrecognized values.''),
(14, ''More info: https://git.k8s.io/community/contributors/devel/sig-architecture/api-conventions.md#resources''),
(12, ''type: string''),
(10, ''kind:''),
(12, ''description: |-''),
(14, ''Kind is a string value representing the REST resource this object represents.''),
(14, ''Servers may infer this from the endpoint the client submits requests to.''),
(14, ''Cannot be updated.''),
(14, ''In CamelCase.''),
(14, ''More info: https://git.k8s.io/community/contributors/devel/sig-architecture/api-conventions.md#types-kinds''),
(12, ''type: string''),
(10, ''metadata:''),
(12, ''type: object''),
(10, ''spec:''),
(12, ''properties:''),
(14, ''eip:''),
(16, ''description: EIP name to use for floating IP''),
(16, ''type: string''),
(14, ''internalIp:''),
(16, ''description: Internal IP address to map to the floating IP''),
(16, ''type: string''),
(12, ''type: object''),
(10, ''status:''),
(12, ''properties:''),
(14, ''conditions:''),
(16, ''description: Conditions represents the latest state of the object''),
(16, ''items:''),
(18, ''description: Condition describes the state of an object at a certain''),
(20, ''point.''),
(18, ''properties:''),
(20, ''lastTransitionTime:''),
(22, ''description: Last time the condition transitioned from one status''),
(24, ''to another.''),
(22, ''format: date-time''),
(22, ''type: string''),
(20, ''lastUpdateTime:''),
(22, ''description: Last time the condition was probed''),
(22, ''format: date-time''),
(22, ''type: string''),
(20, ''message:''),
(22, ''description: A human readable message indicating details about''),
(24, ''the transition.''),
(22, ''type: string''),
(20, ''observedGeneration:''),
(22, ''description: |-''),
(24, ''ObservedGeneration represents the .metadata.generation that the condition was set based upon.''),
(24, ''For instance, if .metadata.generation is currently 12, but the .status.conditions[x].observedGeneration is 9,''),
(24, ''the condition is out of date with respect to the current state of the instance.''),
(22, ''format: int64''),
(22, ''type: integer''),
(20, ''reason:''),
(22, ''description: The reason for the condition's last transition.''),
(22, ''type: string''),
(20, ''status:''),
(22, ''description: Status of the condition, one of True, False, Unknown.''),
(22, ''type: string''),
(20, ''type:''),
(22, ''description: Type of condition.''),
(22, ''type: string''),
(18, ''type: object''),
(16, ''type: array''),
(14, ''internalIp:''),
(16, ''description: Internal IP address mapped to the FIP''),
(16, ''type: string''),
(14, ''natGwDp:''),
(16, ''description: NAT gateway datapath where the FIP is configured''),
(16, ''type: string''),
(14, ''ready:''),
(16, ''description: Indicates whether the FIP rule is ready''),
(16, ''type: boolean''),
(14, ''redo:''),
(16, ''description: Redo operation status''),
(16, ''type: string''),
(14, ''v4ip:''),
(16, ''description: IPv4 address of the EIP''),
(16, ''type: string''),
(14, ''v6ip:''),
(16, ''description: IPv6 address of the EIP''),
(16, ''type: string''),
(12, ''type: object''),
(8, ''type: object''),
(4, ''served: true''),
(4, ''storage: true''),
(4, ''subresources:''),
(6, ''status: {}'')]\<close>

definition ovn_eips_crd :: "yaml_line list" where
  \<open>ovn_eips_crd = [
(0, ''apiVersion: apiextensions.k8s.io/v1''),
(0, ''kind: CustomResourceDefinition''),
(0, ''metadata:''),
(2, ''annotations:''),
(4, ''controller-gen.kubebuilder.io/version: v0.20.1''),
(2, ''name: ovn-eips.kubeovn.io''),
(0, ''spec:''),
(2, ''group: kubeovn.io''),
(2, ''names:''),
(4, ''kind: OvnEip''),
(4, ''listKind: OvnEipList''),
(4, ''plural: ovn-eips''),
(4, ''shortNames:''),
(4, ''- oeip''),
(4, ''singular: ovn-eip''),
(2, ''scope: Cluster''),
(2, ''versions:''),
(2, ''- additionalPrinterColumns:''),
(4, ''- jsonPath: .status.v4Ip''),
(6, ''name: V4IP''),
(6, ''type: string''),
(4, ''- jsonPath: .status.v6Ip''),
(6, ''name: V6IP''),
(6, ''type: string''),
(4, ''- jsonPath: .status.macAddress''),
(6, ''name: Mac''),
(6, ''type: string''),
(4, ''- jsonPath: .status.type''),
(6, ''name: Type''),
(6, ''type: string''),
(4, ''- jsonPath: .status.nat''),
(6, ''name: Nat''),
(6, ''type: string''),
(4, ''- jsonPath: .status.ready''),
(6, ''name: Ready''),
(6, ''type: boolean''),
(4, ''- jsonPath: .spec.externalSubnet''),
(6, ''name: ExternalSubnet''),
(6, ''type: string''),
(4, ''name: v1''),
(4, ''schema:''),
(6, ''openAPIV3Schema:''),
(8, ''properties:''),
(10, ''apiVersion:''),
(12, ''description: |-''),
(14, ''APIVersion defines the versioned schema of this representation of an object.''),
(14, ''Servers should convert recognized schemas to the latest internal value, and''),
(14, ''may reject unrecognized values.''),
(14, ''More info: https://git.k8s.io/community/contributors/devel/sig-architecture/api-conventions.md#resources''),
(12, ''type: string''),
(10, ''kind:''),
(12, ''description: |-''),
(14, ''Kind is a string value representing the REST resource this object represents.''),
(14, ''Servers may infer this from the endpoint the client submits requests to.''),
(14, ''Cannot be updated.''),
(14, ''In CamelCase.''),
(14, ''More info: https://git.k8s.io/community/contributors/devel/sig-architecture/api-conventions.md#types-kinds''),
(12, ''type: string''),
(10, ''metadata:''),
(12, ''type: object''),
(10, ''spec:''),
(12, ''properties:''),
(14, ''externalSubnet:''),
(16, ''description: External subnet name. This field is immutable after creation.''),
(16, ''type: string''),
(14, ''macAddress:''),
(16, ''description: MAC address for the EIP''),
(16, ''type: string''),
(14, ''type:''),
(16, ''description: Type of the OVN EIP (e.g., normal, distributed)''),
(16, ''type: string''),
(14, ''v4Ip:''),
(16, ''description: IPv4 address for the EIP''),
(16, ''type: string''),
(14, ''v6Ip:''),
(16, ''description: IPv6 address for the EIP''),
(16, ''type: string''),
(12, ''type: object''),
(10, ''status:''),
(12, ''properties:''),
(14, ''conditions:''),
(16, ''description: Conditions represents the latest state of the object''),
(16, ''items:''),
(18, ''description: Condition describes the state of an object at a certain''),
(20, ''point.''),
(18, ''properties:''),
(20, ''lastTransitionTime:''),
(22, ''description: Last time the condition transitioned from one status''),
(24, ''to another.''),
(22, ''format: date-time''),
(22, ''type: string''),
(20, ''lastUpdateTime:''),
(22, ''description: Last time the condition was probed''),
(22, ''format: date-time''),
(22, ''type: string''),
(20, ''message:''),
(22, ''description: A human readable message indicating details about''),
(24, ''the transition.''),
(22, ''type: string''),
(20, ''observedGeneration:''),
(22, ''description: |-''),
(24, ''ObservedGeneration represents the .metadata.generation that the condition was set based upon.''),
(24, ''For instance, if .metadata.generation is currently 12, but the .status.conditions[x].observedGeneration is 9,''),
(24, ''the condition is out of date with respect to the current state of the instance.''),
(22, ''format: int64''),
(22, ''type: integer''),
(20, ''reason:''),
(22, ''description: The reason for the condition's last transition.''),
(22, ''type: string''),
(20, ''status:''),
(22, ''description: Status of the condition, one of True, False, Unknown.''),
(22, ''type: string''),
(20, ''type:''),
(22, ''description: Type of condition.''),
(22, ''type: string''),
(18, ''type: object''),
(16, ''type: array''),
(14, ''macAddress:''),
(16, ''description: MAC address assigned to the EIP''),
(16, ''type: string''),
(14, ''nat:''),
(16, ''description: NAT configuration status''),
(16, ''type: string''),
(14, ''ready:''),
(16, ''description: Indicates whether the EIP is ready''),
(16, ''type: boolean''),
(14, ''type:''),
(16, ''description: Type of the OVN EIP''),
(16, ''type: string''),
(14, ''v4Ip:''),
(16, ''description: IPv4 address assigned to the EIP''),
(16, ''type: string''),
(14, ''v6Ip:''),
(16, ''description: IPv6 address assigned to the EIP''),
(16, ''type: string''),
(12, ''type: object''),
(8, ''type: object''),
(4, ''served: true''),
(4, ''storage: true''),
(4, ''subresources:''),
(6, ''status: {}'')]\<close>

definition ovn_dnat_rules_crd_part1 :: "yaml_line list" where
  \<open>ovn_dnat_rules_crd_part1 = [
(0, ''apiVersion: apiextensions.k8s.io/v1''),
(0, ''kind: CustomResourceDefinition''),
(0, ''metadata:''),
(2, ''annotations:''),
(4, ''controller-gen.kubebuilder.io/version: v0.20.1''),
(2, ''name: ovn-dnat-rules.kubeovn.io''),
(0, ''spec:''),
(2, ''group: kubeovn.io''),
(2, ''names:''),
(4, ''kind: OvnDnatRule''),
(4, ''listKind: OvnDnatRuleList''),
(4, ''plural: ovn-dnat-rules''),
(4, ''shortNames:''),
(4, ''- odnat''),
(4, ''singular: ovn-dnat-rule''),
(2, ''scope: Cluster''),
(2, ''versions:''),
(2, ''- additionalPrinterColumns:''),
(4, ''- jsonPath: .status.vpc''),
(6, ''name: Vpc''),
(6, ''type: string''),
(4, ''- jsonPath: .spec.ovnEip''),
(6, ''name: Eip''),
(6, ''type: string''),
(4, ''- jsonPath: .status.protocol''),
(6, ''name: Protocol''),
(6, ''type: string''),
(4, ''- jsonPath: .status.v4Eip''),
(6, ''name: V4Eip''),
(6, ''type: string''),
(4, ''- jsonPath: .status.v6Eip''),
(6, ''name: V6Eip''),
(6, ''type: string''),
(4, ''- jsonPath: .status.v4Ip''),
(6, ''name: V4Ip''),
(6, ''type: string''),
(4, ''- jsonPath: .status.v6Ip''),
(6, ''name: V6Ip''),
(6, ''type: string''),
(4, ''- jsonPath: .status.internalPort''),
(6, ''name: InternalPort''),
(6, ''type: string''),
(4, ''- jsonPath: .status.externalPort''),
(6, ''name: ExternalPort''),
(6, ''type: string''),
(4, ''- jsonPath: .spec.ipName''),
(6, ''name: IpName''),
(6, ''type: string''),
(4, ''- jsonPath: .status.ready''),
(6, ''name: Ready''),
(6, ''type: boolean''),
(4, ''name: v1''),
(4, ''schema:''),
(6, ''openAPIV3Schema:''),
(8, ''properties:''),
(10, ''apiVersion:''),
(12, ''description: |-''),
(14, ''APIVersion defines the versioned schema of this representation of an object.''),
(14, ''Servers should convert recognized schemas to the latest internal value, and''),
(14, ''may reject unrecognized values.''),
(14, ''More info: https://git.k8s.io/community/contributors/devel/sig-architecture/api-conventions.md#resources''),
(12, ''type: string''),
(10, ''kind:''),
(12, ''description: |-''),
(14, ''Kind is a string value representing the REST resource this object represents.''),
(14, ''Servers may infer this from the endpoint the client submits requests to.''),
(14, ''Cannot be updated.''),
(14, ''In CamelCase.''),
(14, ''More info: https://git.k8s.io/community/contributors/devel/sig-architecture/api-conventions.md#types-kinds''),
(12, ''type: string''),
(10, ''metadata:''),
(12, ''type: object''),
(10, ''spec:''),
(12, ''properties:''),
(14, ''externalPort:''),
(16, ''description: External port number''),
(16, ''type: string''),
(14, ''internalPort:''),
(16, ''description: Internal port number to forward traffic to''),
(16, ''type: string''),
(14, ''ipName:''),
(16, ''description: IP resource name''),
(16, ''type: string''),
(14, ''ipType:''),
(16, ''description: IP type (e.g., ipv4, ipv6, dual)''),
(16, ''type: string''),
(14, ''ovnEip:''),
(16, ''description: OVN EIP name for DNAT rule''),
(16, ''type: string'')]\<close>

definition ovn_dnat_rules_crd_part2 :: "yaml_line list" where
  \<open>ovn_dnat_rules_crd_part2 = [
(14, ''protocol:''),
(16, ''description: Protocol type (TCP or UDP)''),
(16, ''type: string''),
(14, ''v4Ip:''),
(16, ''description: IPv4 address for DNAT''),
(16, ''type: string''),
(14, ''v6Ip:''),
(16, ''description: IPv6 address for DNAT''),
(16, ''type: string''),
(14, ''vpc:''),
(16, ''description: VPC name. This field is immutable after creation.''),
(16, ''type: string''),
(12, ''type: object''),
(10, ''status:''),
(12, ''properties:''),
(14, ''conditions:''),
(16, ''description: Conditions represents the latest state of the object''),
(16, ''items:''),
(18, ''description: Condition describes the state of an object at a certain''),
(20, ''point.''),
(18, ''properties:''),
(20, ''lastTransitionTime:''),
(22, ''description: Last time the condition transitioned from one status''),
(24, ''to another.''),
(22, ''format: date-time''),
(22, ''type: string''),
(20, ''lastUpdateTime:''),
(22, ''description: Last time the condition was probed''),
(22, ''format: date-time''),
(22, ''type: string''),
(20, ''message:''),
(22, ''description: A human readable message indicating details about''),
(24, ''the transition.''),
(22, ''type: string''),
(20, ''observedGeneration:''),
(22, ''description: |-''),
(24, ''ObservedGeneration represents the .metadata.generation that the condition was set based upon.''),
(24, ''For instance, if .metadata.generation is currently 12, but the .status.conditions[x].observedGeneration is 9,''),
(24, ''the condition is out of date with respect to the current state of the instance.''),
(22, ''format: int64''),
(22, ''type: integer''),
(20, ''reason:''),
(22, ''description: The reason for the condition's last transition.''),
(22, ''type: string''),
(20, ''status:''),
(22, ''description: Status of the condition, one of True, False, Unknown.''),
(22, ''type: string''),
(20, ''type:''),
(22, ''description: Type of condition.''),
(22, ''type: string''),
(18, ''type: object''),
(16, ''type: array''),
(14, ''externalPort:''),
(16, ''description: ExternalPort is the external port of the DNAT rule''),
(16, ''type: string''),
(14, ''internalPort:''),
(16, ''description: InternalPort is the internal port of the DNAT rule''),
(16, ''type: string''),
(14, ''ipName:''),
(16, ''description: IP resource name''),
(16, ''type: string''),
(14, ''protocol:''),
(16, ''description: Protocol of the DNAT rule''),
(16, ''type: string''),
(14, ''ready:''),
(16, ''description: Indicates whether the DNAT rule is ready''),
(16, ''type: boolean''),
(14, ''v4Eip:''),
(16, ''description: V4Eip is the IPv4 EIP address''),
(16, ''type: string''),
(14, ''v4Ip:''),
(16, ''description: V4Ip is the IPv4 address of the DNAT rule''),
(16, ''type: string''),
(14, ''v6Eip:''),
(16, ''description: V6Eip is the IPv6 EIP address''),
(16, ''type: string''),
(14, ''v6Ip:''),
(16, ''description: V6Ip is the IPv6 address of the DNAT rule''),
(16, ''type: string''),
(14, ''vpc:''),
(16, ''description: VPC name where the DNAT rule is configured''),
(16, ''type: string''),
(12, ''type: object''),
(8, ''type: object''),
(4, ''served: true''),
(4, ''storage: true''),
(4, ''subresources:''),
(6, ''status: {}'')]\<close>

definition ovn_dnat_rules_crd :: "yaml_line list" where
  "ovn_dnat_rules_crd = ovn_dnat_rules_crd_part1 @ ovn_dnat_rules_crd_part2"

definition vips_crd_part1 :: "yaml_line list" where
  \<open>vips_crd_part1 = [
(0, ''apiVersion: apiextensions.k8s.io/v1''),
(0, ''kind: CustomResourceDefinition''),
(0, ''metadata:''),
(2, ''annotations:''),
(4, ''controller-gen.kubebuilder.io/version: v0.20.1''),
(2, ''name: vips.kubeovn.io''),
(0, ''spec:''),
(2, ''group: kubeovn.io''),
(2, ''names:''),
(4, ''kind: Vip''),
(4, ''listKind: VipList''),
(4, ''plural: vips''),
(4, ''shortNames:''),
(4, ''- vip''),
(4, ''singular: vip''),
(2, ''scope: Cluster''),
(2, ''versions:''),
(2, ''- additionalPrinterColumns:''),
(4, ''- jsonPath: .spec.namespace''),
(6, ''name: Namespace''),
(6, ''type: string''),
(4, ''- jsonPath: .status.v4ip''),
(6, ''name: V4IP''),
(6, ''type: string''),
(4, ''- jsonPath: .status.v6ip''),
(6, ''name: V6IP''),
(6, ''type: string''),
(4, ''- jsonPath: .status.mac''),
(6, ''name: Mac''),
(6, ''type: string''),
(4, ''- jsonPath: .spec.subnet''),
(6, ''name: Subnet''),
(6, ''type: string''),
(4, ''- jsonPath: .status.type''),
(6, ''name: Type''),
(6, ''type: string''),
(4, ''name: v1''),
(4, ''schema:''),
(6, ''openAPIV3Schema:''),
(8, ''properties:''),
(10, ''apiVersion:''),
(12, ''description: |-''),
(14, ''APIVersion defines the versioned schema of this representation of an object.''),
(14, ''Servers should convert recognized schemas to the latest internal value, and''),
(14, ''may reject unrecognized values.''),
(14, ''More info: https://git.k8s.io/community/contributors/devel/sig-architecture/api-conventions.md#resources''),
(12, ''type: string''),
(10, ''kind:''),
(12, ''description: |-''),
(14, ''Kind is a string value representing the REST resource this object represents.''),
(14, ''Servers may infer this from the endpoint the client submits requests to.''),
(14, ''Cannot be updated.''),
(14, ''In CamelCase.''),
(14, ''More info: https://git.k8s.io/community/contributors/devel/sig-architecture/api-conventions.md#types-kinds''),
(12, ''type: string''),
(10, ''metadata:''),
(12, ''type: object''),
(10, ''spec:''),
(12, ''properties:''),
(14, ''attachSubnets:''),
(16, ''description: Additional subnets to attach''),
(16, ''items:''),
(18, ''type: string''),
(16, ''type: array''),
(14, ''macAddress:''),
(16, ''description: MAC address for the VIP''),
(16, ''type: string''),
(14, ''namespace:''),
(16, ''description: Namespace where the VIP is created. This field is immutable''),
(18, ''after creation.''),
(16, ''type: string''),
(14, ''selector:''),
(16, ''description: Pod names to be selected by this VIP''),
(16, ''items:''),
(18, ''type: string''),
(16, ''type: array''),
(14, ''subnet:'')]\<close>

definition vips_crd_part2 :: "yaml_line list" where
  \<open>vips_crd_part2 = [
(16, ''description: Subnet name for the VIP. This field is immutable after''),
(18, ''creation.''),
(16, ''type: string''),
(14, ''type:''),
(16, ''description: Type of VIP. This field is immutable after creation.''),
(16, ''type: string''),
(14, ''v4ip:''),
(16, ''description: 'usage type: switch lb vip, allowed address pair vip''),
(18, ''by default'' @ [CHR 0x27]),
(16, ''type: string''),
(14, ''v6ip:''),
(16, ''description: Specific IPv6 address to use (optional, will be allocated''),
(18, ''if not specified)''),
(16, ''type: string''),
(12, ''type: object''),
(10, ''status:''),
(12, ''properties:''),
(14, ''conditions:''),
(16, ''description: Conditions represents the latest state of the object''),
(16, ''items:''),
(18, ''description: Condition describes the state of an object at a certain''),
(20, ''point.''),
(18, ''properties:''),
(20, ''lastTransitionTime:''),
(22, ''description: Last time the condition transitioned from one status''),
(24, ''to another.''),
(22, ''format: date-time''),
(22, ''type: string''),
(20, ''lastUpdateTime:''),
(22, ''description: Last time the condition was probed''),
(22, ''format: date-time''),
(22, ''type: string''),
(20, ''message:''),
(22, ''description: A human readable message indicating details about''),
(24, ''the transition.''),
(22, ''type: string''),
(20, ''observedGeneration:''),
(22, ''description: |-''),
(24, ''ObservedGeneration represents the .metadata.generation that the condition was set based upon.''),
(24, ''For instance, if .metadata.generation is currently 12, but the .status.conditions[x].observedGeneration is 9,''),
(24, ''the condition is out of date with respect to the current state of the instance.''),
(22, ''format: int64''),
(22, ''type: integer''),
(20, ''reason:''),
(22, ''description: The reason for the condition's last transition.''),
(22, ''type: string''),
(20, ''status:''),
(22, ''description: Status of the condition, one of True, False, Unknown.''),
(22, ''type: string''),
(20, ''type:''),
(22, ''description: Type of condition.''),
(22, ''type: string''),
(18, ''type: object''),
(16, ''type: array''),
(14, ''mac:''),
(16, ''description: MAC address associated with the VIP''),
(16, ''type: string''),
(14, ''selector:''),
(16, ''description: Pod names selected by this VIP''),
(16, ''items:''),
(18, ''type: string''),
(16, ''type: array''),
(14, ''type:''),
(16, ''description: Type of VIP (e.g., Layer2, HealthCheck)''),
(16, ''type: string''),
(14, ''v4ip:''),
(16, ''description: Allocated IPv4 address''),
(16, ''type: string''),
(14, ''v6ip:''),
(16, ''description: Allocated IPv6 address''),
(16, ''type: string''),
(12, ''type: object''),
(8, ''type: object''),
(4, ''served: true''),
(4, ''storage: true''),
(4, ''subresources: {}'')]\<close>

definition vips_crd :: "yaml_line list" where
  "vips_crd = vips_crd_part1 @ vips_crd_part2"

definition vlans_crd :: "yaml_line list" where
  \<open>vlans_crd = [
(0, ''apiVersion: apiextensions.k8s.io/v1''),
(0, ''kind: CustomResourceDefinition''),
(0, ''metadata:''),
(2, ''annotations:''),
(4, ''controller-gen.kubebuilder.io/version: v0.20.1''),
(2, ''name: vlans.kubeovn.io''),
(0, ''spec:''),
(2, ''group: kubeovn.io''),
(2, ''names:''),
(4, ''kind: Vlan''),
(4, ''listKind: VlanList''),
(4, ''plural: vlans''),
(4, ''shortNames:''),
(4, ''- vlan''),
(4, ''singular: vlan''),
(2, ''scope: Cluster''),
(2, ''versions:''),
(2, ''- additionalPrinterColumns:''),
(4, ''- jsonPath: .spec.id''),
(6, ''name: ID''),
(6, ''type: string''),
(4, ''- jsonPath: .spec.provider''),
(6, ''name: Provider''),
(6, ''type: string''),
(4, ''- jsonPath: .status.conflict''),
(6, ''name: conflict''),
(6, ''type: boolean''),
(4, ''name: v1''),
(4, ''schema:''),
(6, ''openAPIV3Schema:''),
(8, ''properties:''),
(10, ''apiVersion:''),
(12, ''description: |-''),
(14, ''APIVersion defines the versioned schema of this representation of an object.''),
(14, ''Servers should convert recognized schemas to the latest internal value, and''),
(14, ''may reject unrecognized values.''),
(14, ''More info: https://git.k8s.io/community/contributors/devel/sig-architecture/api-conventions.md#resources''),
(12, ''type: string''),
(10, ''kind:''),
(12, ''description: |-''),
(14, ''Kind is a string value representing the REST resource this object represents.''),
(14, ''Servers may infer this from the endpoint the client submits requests to.''),
(14, ''Cannot be updated.''),
(14, ''In CamelCase.''),
(14, ''More info: https://git.k8s.io/community/contributors/devel/sig-architecture/api-conventions.md#types-kinds''),
(12, ''type: string''),
(10, ''metadata:''),
(12, ''type: object''),
(10, ''spec:''),
(12, ''properties:''),
(14, ''id:''),
(16, ''description: VLAN ID (0-4095). This field is immutable after creation.''),
(16, ''type: integer''),
(14, ''provider:''),
(16, ''description: Provider network name. This field is immutable after''),
(18, ''creation.''),
(16, ''type: string''),
(14, ''providerInterfaceName:''),
(16, ''description: 'Deprecated: in favor of provider'' @ [CHR 0x27]),
(16, ''type: string''),
(14, ''vlanId:''),
(16, ''description: deprecated fields, use ID & Provider instead''),
(16, ''type: integer''),
(12, ''required:''),
(12, ''- provider''),
(12, ''type: object''),
(10, ''status:''),
(12, ''properties:''),
(14, ''conditions:''),
(16, ''description: Conditions represents the latest state of the object''),
(16, ''items:''),
(18, ''description: Condition describes the state of an object at a certain''),
(20, ''point.''),
(18, ''properties:''),
(20, ''lastTransitionTime:''),
(22, ''description: Last time the condition transitioned from one status''),
(24, ''to another.''),
(22, ''format: date-time''),
(22, ''type: string''),
(20, ''lastUpdateTime:''),
(22, ''description: Last time the condition was probed''),
(22, ''format: date-time''),
(22, ''type: string''),
(20, ''message:''),
(22, ''description: A human readable message indicating details about''),
(24, ''the transition.''),
(22, ''type: string''),
(20, ''observedGeneration:''),
(22, ''description: |-''),
(24, ''ObservedGeneration represents the .metadata.generation that the condition was set based upon.''),
(24, ''For instance, if .metadata.generation is currently 12, but the .status.conditions[x].observedGeneration is 9,''),
(24, ''the condition is out of date with respect to the current state of the instance.''),
(22, ''format: int64''),
(22, ''type: integer''),
(20, ''reason:''),
(22, ''description: The reason for the condition's last transition.''),
(22, ''type: string''),
(20, ''status:''),
(22, ''description: Status of the condition, one of True, False, Unknown.''),
(22, ''type: string''),
(20, ''type:''),
(22, ''description: Type of condition.''),
(22, ''type: string''),
(18, ''type: object''),
(16, ''type: array''),
(14, ''conflict:''),
(16, ''description: Whether there is a conflict with this VLAN''),
(16, ''type: boolean''),
(14, ''subnets:''),
(16, ''description: List of subnet names using this VLAN''),
(16, ''items:''),
(18, ''type: string''),
(16, ''type: array''),
(12, ''type: object''),
(8, ''type: object''),
(4, ''served: true''),
(4, ''storage: true''),
(4, ''subresources:''),
(6, ''status: {}'')]\<close>

definition qos_policies_crd_part1 :: "yaml_line list" where
  \<open>qos_policies_crd_part1 = [
(0, ''apiVersion: apiextensions.k8s.io/v1''),
(0, ''kind: CustomResourceDefinition''),
(0, ''metadata:''),
(2, ''annotations:''),
(4, ''controller-gen.kubebuilder.io/version: v0.20.1''),
(2, ''name: qos-policies.kubeovn.io''),
(0, ''spec:''),
(2, ''group: kubeovn.io''),
(2, ''names:''),
(4, ''kind: QoSPolicy''),
(4, ''listKind: QoSPolicyList''),
(4, ''plural: qos-policies''),
(4, ''shortNames:''),
(4, ''- qos''),
(4, ''singular: qos-policy''),
(2, ''scope: Cluster''),
(2, ''versions:''),
(2, ''- additionalPrinterColumns:''),
(4, ''- jsonPath: .spec.shared''),
(6, ''name: Shared''),
(6, ''type: string''),
(4, ''- jsonPath: .spec.bindingType''),
(6, ''name: BindingType''),
(6, ''type: string''),
(4, ''name: v1''),
(4, ''schema:''),
(6, ''openAPIV3Schema:''),
(8, ''properties:''),
(10, ''apiVersion:''),
(12, ''description: |-''),
(14, ''APIVersion defines the versioned schema of this representation of an object.''),
(14, ''Servers should convert recognized schemas to the latest internal value, and''),
(14, ''may reject unrecognized values.''),
(14, ''More info: https://git.k8s.io/community/contributors/devel/sig-architecture/api-conventions.md#resources''),
(12, ''type: string''),
(10, ''kind:''),
(12, ''description: |-''),
(14, ''Kind is a string value representing the REST resource this object represents.''),
(14, ''Servers may infer this from the endpoint the client submits requests to.''),
(14, ''Cannot be updated.''),
(14, ''In CamelCase.''),
(14, ''More info: https://git.k8s.io/community/contributors/devel/sig-architecture/api-conventions.md#types-kinds''),
(12, ''type: string''),
(10, ''metadata:''),
(12, ''type: object''),
(10, ''spec:''),
(12, ''properties:''),
(14, ''bandwidthLimitRules:''),
(16, ''description: Bandwidth limit rules to apply''),
(16, ''items:''),
(18, ''description: BandwidthLimitRule describes the rule of a bandwidth''),
(20, ''limit.''),
(18, ''properties:''),
(20, ''burstMax:''),
(22, ''description: Maximum burst in MB (e.g., 10 or 0.5 for 500KB)''),
(22, ''type: string''),
(20, ''direction:''),
(22, ''description: Traffic direction (ingress/egress)''),
(22, ''type: string''),
(20, ''interface:''),
(22, ''description: Interface name''),
(22, ''type: string''),
(20, ''matchType:''),
(22, ''description: Match type''),
(22, ''type: string''),
(20, ''matchValue:''),
(22, ''description: Match value''),
(22, ''type: string''),
(20, ''name:''),
(22, ''description: Rule name''),
(22, ''type: string''),
(20, ''priority:''),
(22, ''description: Rule priority''),
(22, ''type: integer''),
(20, ''rateMax:''),
(22, ''description: Maximum rate in Mbps (e.g., 100 or 0.5 for 500Kbps)''),
(22, ''type: string''),
(18, ''required:''),
(18, ''- name''),
(18, ''type: object''),
(16, ''type: array''),
(14, ''bindingType:''),
(16, ''description: Binding type (e.g., pod, namespace)''),
(16, ''type: string''),
(14, ''shared:''),
(16, ''description: Whether the QoS policy is shared across multiple pods''),
(16, ''type: boolean'')]\<close>

definition qos_policies_crd_part2 :: "yaml_line list" where
  \<open>qos_policies_crd_part2 = [
(12, ''type: object''),
(10, ''status:''),
(12, ''properties:''),
(14, ''bandwidthLimitRules:''),
(16, ''description: Active bandwidth limit rules''),
(16, ''items:''),
(18, ''description: BandwidthLimitRule describes the rule of a bandwidth''),
(20, ''limit.''),
(18, ''properties:''),
(20, ''burstMax:''),
(22, ''description: Maximum burst in MB (e.g., 10 or 0.5 for 500KB)''),
(22, ''type: string''),
(20, ''direction:''),
(22, ''description: Traffic direction (ingress/egress)''),
(22, ''type: string''),
(20, ''interface:''),
(22, ''description: Interface name''),
(22, ''type: string''),
(20, ''matchType:''),
(22, ''description: Match type''),
(22, ''type: string''),
(20, ''matchValue:''),
(22, ''description: Match value''),
(22, ''type: string''),
(20, ''name:''),
(22, ''description: Rule name''),
(22, ''type: string''),
(20, ''priority:''),
(22, ''description: Rule priority''),
(22, ''type: integer''),
(20, ''rateMax:''),
(22, ''description: Maximum rate in Mbps (e.g., 100 or 0.5 for 500Kbps)''),
(22, ''type: string''),
(18, ''required:''),
(18, ''- name''),
(18, ''type: object''),
(16, ''type: array''),
(14, ''bindingType:''),
(16, ''description: Binding type of the QoS policy''),
(16, ''type: string''),
(14, ''conditions:''),
(16, ''description: Conditions represents the latest state of the object''),
(16, ''items:''),
(18, ''description: Condition describes the state of an object at a certain''),
(20, ''point.''),
(18, ''properties:''),
(20, ''lastTransitionTime:''),
(22, ''description: Last time the condition transitioned from one status''),
(24, ''to another.''),
(22, ''format: date-time''),
(22, ''type: string''),
(20, ''lastUpdateTime:''),
(22, ''description: Last time the condition was probed''),
(22, ''format: date-time''),
(22, ''type: string''),
(20, ''message:''),
(22, ''description: A human readable message indicating details about''),
(24, ''the transition.''),
(22, ''type: string''),
(20, ''observedGeneration:''),
(22, ''description: |-''),
(24, ''ObservedGeneration represents the .metadata.generation that the condition was set based upon.''),
(24, ''For instance, if .metadata.generation is currently 12, but the .status.conditions[x].observedGeneration is 9,''),
(24, ''the condition is out of date with respect to the current state of the instance.''),
(22, ''format: int64''),
(22, ''type: integer''),
(20, ''reason:''),
(22, ''description: The reason for the condition's last transition.''),
(22, ''type: string''),
(20, ''status:''),
(22, ''description: Status of the condition, one of True, False, Unknown.''),
(22, ''type: string''),
(20, ''type:''),
(22, ''description: Type of condition.''),
(22, ''type: string''),
(18, ''type: object''),
(16, ''type: array''),
(14, ''shared:''),
(16, ''description: Whether the QoS policy is shared''),
(16, ''type: boolean''),
(12, ''type: object''),
(8, ''type: object''),
(4, ''served: true''),
(4, ''storage: true''),
(4, ''subresources:''),
(6, ''status: {}'')]\<close>

definition qos_policies_crd :: "yaml_line list" where
  "qos_policies_crd = qos_policies_crd_part1 @ qos_policies_crd_part2"

end
