(* ===== verification/CRDs.thy ===== *)
theory CRDs
  imports Config_Properties Render_Properties CRD_Texts_1 CRD_Texts_2 CRD_Texts_3 CRD_Texts_4 CRD_Texts_5
begin

text \<open>
  \<^verbatim>\<open>internal/templates/customresourcedefinitions.go\<close>: the list of the 24 CRD texts, whose lines are in
  \<open>CRD_Texts_1\<close> to \<open>CRD_Texts_5\<close>; what they define, read from their lines; and what follows for the
  deletion of a configuration, whose clean-up is driven by the decoded texts.
\<close>

section \<open>The list\<close>

definition crd_texts :: "yaml_line list list" where
  "crd_texts = [vpc_dnses_crd, switch_lb_rules_crd, vpc_nat_gateways_crd, vpc_egress_gateways_crd,
     iptables_eips_crd, iptables_fip_rules_crd, iptables_dnat_rules_crd, iptables_snat_rules_crd,
     ovn_eips_crd, ovn_fips_crd, ovn_snat_rules_crd, ovn_dnat_rules_crd,
     vpcs_crd, ips_crd, vips_crd, subnets_crd,
     ippools_crd, vlans_crd, provider_networks_crd, security_groups_crd,
     qos_policies_crd, bgp_confs_crd, dns_name_resolvers_crd, evpn_confs_crd]"

text \<open>As templates: the texts contain no action.\<close>

definition CRDList :: "tok list list" where
  "CRDList = map (\<lambda>ls. [Txt (text_lines ls)]) crd_texts"

section \<open>Reading a CRD text\<close>

text \<open>
  The entries of a YAML document in block style, each with the path of keys above it. An item of a
  list is two columns to the right of its dash. Lines indented by more than four columns are inside the
  schema, the printer columns or the short names and are left out.
\<close>

definition item_entry :: "yaml_line \<Rightarrow> yaml_line" where
  "item_entry l = (if take 2 (snd l) = ''- '' then (fst l + 2, drop 2 (snd l)) else l)"

fun entries :: "(nat \<times> string) list \<Rightarrow> yaml_line list \<Rightarrow> (string list \<times> string) list" where
  "entries outer [] = []"
| "entries outer (l # ls) =
     (let (n, s) = item_entry l; key = takeWhile (\<lambda>c. c \<noteq> CHR '':'') s;
          path = (n, key) # dropWhile (\<lambda>p. n \<le> fst p) outer
      in (rev (map snd path), drop (length key + 2) s) # entries path ls)"

definition outline :: "yaml_line list \<Rightarrow> (string list \<times> string) list" where
  "outline ls = entries [] (filter (\<lambda>l. fst l \<le> 4 \<and> snd l \<noteq> '''') ls)"

definition values_at :: "(string list \<times> string) list \<Rightarrow> string list \<Rightarrow> string list" where
  "values_at es path = map snd (filter (\<lambda>e. fst e = path) es)"

definition read_scope :: "string \<Rightarrow> crd_scope option" where
  "read_scope s = (if s = ''Cluster'' then Some ClusterScoped else if s = ''Namespaced'' then Some NamespaceScoped else None)"

text \<open>What the clean-up reads from the decoded CRD.\<close>

definition read_identity :: "(string list \<times> string) list \<Rightarrow> CRDSpec option" where
  "read_identity es =
     (case (values_at es [''spec'', ''group''], values_at es [''spec'', ''names'', ''plural''],
           map read_scope (values_at es [''spec'', ''scope''])) of
       ([g], [p], [Some sc]) \<Rightarrow> Some \<lparr>CRDGroup = g, CRDPlural = p, CRDScope = sc,
          CRDVersions = values_at es [''spec'', ''versions'', ''name'']\<rparr>
     | _ \<Rightarrow> None)"

definition crd_identity :: "yaml_line list \<Rightarrow> CRDSpec option" where
  "crd_identity ls = read_identity (outline ls)"

text \<open>
  What the API server asks of a CRD besides its schema: type and version, a name made of the plural
  name and the group, versions with distinct names, of which exactly one is stored, and for each of them
  whether it is served and a schema.
\<close>

definition admissible_entries :: "(string list \<times> string) list \<Rightarrow> CRDSpec \<Rightarrow> bool" where
  "admissible_entries es crd \<longleftrightarrow>
     values_at es [''apiVersion''] = [''apiextensions.k8s.io/v1''] \<and>
     values_at es [''kind''] = [''CustomResourceDefinition''] \<and>
     values_at es [''metadata'', ''name''] = [CRDPlural crd @ ''.'' @ CRDGroup crd] \<and>
     distinct (CRDVersions crd) \<and>
     filter (\<lambda>v. v = ''true'') (values_at es [''spec'', ''versions'', ''storage'']) = [''true''] \<and>
     length (values_at es [''spec'', ''versions'', ''storage'']) = length (CRDVersions crd) \<and>
     length (values_at es [''spec'', ''versions'', ''served'']) = length (CRDVersions crd) \<and>
     length (values_at es [''spec'', ''versions'', ''schema'']) = length (CRDVersions crd)"

definition crd_admissible :: "yaml_line list \<Rightarrow> bool" where
  "crd_admissible ls = (case crd_identity ls of None \<Rightarrow> False | Some crd \<Rightarrow> admissible_entries (outline ls) crd)"

section \<open>What the texts define\<close>

definition kubeovn_crd :: "string \<Rightarrow> CRDSpec" where
  "kubeovn_crd plural = \<lparr>CRDGroup = ''kubeovn.io'', CRDPlural = plural, CRDScope = ClusterScoped, CRDVersions = [''v1'']\<rparr>"

definition crd_specs :: "CRDSpec list" where
  "crd_specs =
     map kubeovn_crd [''vpc-dnses'', ''switch-lb-rules'', ''vpc-nat-gateways''] @
     [(kubeovn_crd ''vpc-egress-gateways'')\<lparr>CRDScope := NamespaceScoped\<rparr>] @
     map kubeovn_crd [''iptables-eips'', ''iptables-fip-rules'', ''iptables-dnat-rules'', ''iptables-snat-rules'',
       ''ovn-eips'', ''ovn-fips'', ''ovn-snat-rules'', ''ovn-dnat-rules'', ''vpcs'', ''ips'', ''vips'', ''subnets'',
       ''ippools'', ''vlans'', ''provider-networks'', ''security-groups'', ''qos-policies'', ''bgp-confs'',
       ''dnsnameresolvers'', ''evpn-confs'']"

text \<open>The resources the clean-up has to look at.\<close>

definition crd_resources :: "gvr list" where
  "crd_resources = concat (map (\<lambda>crd. map (\<lambda>v. (CRDGroup crd, v, CRDPlural crd)) (CRDVersions crd)) crd_specs)"

definition crd_text :: "yaml_line list \<Rightarrow> string" where
  "crd_text ls = strings_Join (text_lines ls) newline"

text \<open>
  What the YAML decoder is relied on for: it decodes each of the 24 texts, and finds in it the group,
  the plural name, the scope and the versions its lines give.
\<close>

definition decodes_crds :: "libs \<Rightarrow> bool" where
  "decodes_crds L \<longleftrightarrow> (\<forall>ls \<in> set crd_texts. \<exists>ob.
     libYamlUnmarshal L CustomResourceDefinition (crd_text ls) = Inr ob \<and> ObjCRD ob = crd_identity ls)"

definition decoded_crds :: "kobject list \<Rightarrow> bool" where
  "decoded_crds objs \<longleftrightarrow> map ObjCRD objs = map Some crd_specs"
section \<open>Reading the 24 texts\<close>

definition describes :: "(string list \<times> string) list \<Rightarrow> CRDSpec \<Rightarrow> bool" where
  "describes es crd \<longleftrightarrow> read_identity es = Some crd \<and> admissible_entries es crd"

text \<open>The lines of a text are looked at one by one: the simplifier is kept out of the rest.\<close>

lemma filter_weak: "P = Q \<Longrightarrow> filter P xs = filter Q xs"
  by simp

lemmas read_lines = filter.simps filter_append append_Nil append_Nil2 fst_conv snd_conv simp_thms if_True if_False
  rel_simps order_refl list.distinct

lemmas read_congs = filter_weak if_weak_cong

lemma describes_vpc_dnses_crd: "describes (outline vpc_dnses_crd) (kubeovn_crd ''vpc-dnses'')"
  unfolding outline_def vpc_dnses_crd_def
  by (simp only: read_lines cong: read_congs, code_simp)

lemma describes_switch_lb_rules_crd: "describes (outline switch_lb_rules_crd) (kubeovn_crd ''switch-lb-rules'')"
  unfolding outline_def switch_lb_rules_crd_def
  by (simp only: read_lines cong: read_congs, code_simp)

lemma describes_vpc_nat_gateways_crd: "describes (outline vpc_nat_gateways_crd) (kubeovn_crd ''vpc-nat-gateways'')"
  unfolding outline_def vpc_nat_gateways_crd_def vpc_nat_gateways_crd_part1_def vpc_nat_gateways_crd_part2_def
    vpc_nat_gateways_crd_part3_def vpc_nat_gateways_crd_part4_def vpc_nat_gateways_crd_part5_def
    vpc_nat_gateways_crd_part6_def vpc_nat_gateways_crd_part7_def vpc_nat_gateways_crd_part8_def
    vpc_nat_gateways_crd_part9_def vpc_nat_gateways_crd_part10_def vpc_nat_gateways_crd_part11_def
    vpc_nat_gateways_crd_part12_def vpc_nat_gateways_crd_part13_def vpc_nat_gateways_crd_part14_def
    vpc_nat_gateways_crd_part15_def
  by (simp only: read_lines cong: read_congs, code_simp)

lemma describes_vpc_egress_gateways_crd: "describes (outline vpc_egress_gateways_crd) ((kubeovn_crd ''vpc-egress-gateways'')\<lparr>CRDScope := NamespaceScoped\<rparr>)"
  unfolding outline_def vpc_egress_gateways_crd_def vpc_egress_gateways_crd_part1_def vpc_egress_gateways_crd_part2_def
    vpc_egress_gateways_crd_part3_def vpc_egress_gateways_crd_part4_def
  by (simp only: read_lines cong: read_congs, code_simp)

lemma describes_iptables_eips_crd: "describes (outline iptables_eips_crd) (kubeovn_crd ''iptables-eips'')"
  unfolding outline_def iptables_eips_crd_def
  by (simp only: read_lines cong: read_congs, code_simp)

lemma describes_iptables_fip_rules_crd: "describes (outline iptables_fip_rules_crd) (kubeovn_crd ''iptables-fip-rules'')"
  unfolding outline_def iptables_fip_rules_crd_def
  by (simp only: read_lines cong: read_congs, code_simp)

lemma describes_iptables_dnat_rules_crd: "describes (outline iptables_dnat_rules_crd) (kubeovn_crd ''iptables-dnat-rules'')"
  unfolding outline_def iptables_dnat_rules_crd_def iptables_dnat_rules_crd_part1_def iptables_dnat_rules_crd_part2_def
  by (simp only: read_lines cong: read_congs, code_simp)

lemma describes_iptables_snat_rules_crd: "describes (outline iptables_snat_rules_crd) (kubeovn_crd ''iptables-snat-rules'')"
  unfolding outline_def iptables_snat_rules_crd_def
  by (simp only: read_lines cong: read_congs, code_simp)

lemma describes_ovn_eips_crd: "describes (outline ovn_eips_crd) (kubeovn_crd ''ovn-eips'')"
  unfolding outline_def ovn_eips_crd_def
  by (simp only: read_lines cong: read_congs, code_simp)

lemma describes_ovn_fips_crd: "describes (outline ovn_fips_crd) (kubeovn_crd ''ovn-fips'')"
  unfolding outline_def ovn_fips_crd_def ovn_fips_crd_part1_def ovn_fips_crd_part2_def
  by (simp only: read_lines cong: read_congs, code_simp)

lemma describes_ovn_snat_rules_crd: "describes (outline ovn_snat_rules_crd) (kubeovn_crd ''ovn-snat-rules'')"
  unfolding outline_def ovn_snat_rules_crd_def
  by (simp only: read_lines cong: read_congs, code_simp)

lemma describes_ovn_dnat_rules_crd: "describes (outline ovn_dnat_rules_crd) (kubeovn_crd ''ovn-dnat-rules'')"
  unfolding outline_def ovn_dnat_rules_crd_def ovn_dnat_rules_crd_part1_def ovn_dnat_rules_crd_part2_def
  by (simp only: read_lines cong: read_congs, code_simp)

lemma describes_vpcs_crd: "describes (outline vpcs_crd) (kubeovn_crd ''vpcs'')"
  unfolding outline_def vpcs_crd_def vpcs_crd_part1_def vpcs_crd_part2_def vpcs_crd_part3_def
  by (simp only: read_lines cong: read_congs, code_simp)

lemma describes_ips_crd: "describes (outline ips_crd) (kubeovn_crd ''ips'')"
  unfolding outline_def ips_crd_def
  by (simp only: read_lines cong: read_congs, code_simp)

lemma describes_vips_crd: "describes (outline vips_crd) (kubeovn_crd ''vips'')"
  unfolding outline_def vips_crd_def vips_crd_part1_def vips_crd_part2_def
  by (simp only: read_lines cong: read_congs, code_simp)

lemma describes_subnets_crd: "describes (outline subnets_crd) (kubeovn_crd ''subnets'')"
  unfolding outline_def subnets_crd_def subnets_crd_part1_def subnets_crd_part2_def subnets_crd_part3_def subnets_crd_part4_def
  by (simp only: read_lines cong: read_congs, code_simp)

lemma describes_ippools_crd: "describes (outline ippools_crd) (kubeovn_crd ''ippools'')"
  unfolding outline_def ippools_crd_def ippools_crd_part1_def ippools_crd_part2_def
  by (simp only: read_lines cong: read_congs, code_simp)

lemma describes_vlans_crd: "describes (outline vlans_crd) (kubeovn_crd ''vlans'')"
  unfolding outline_def vlans_crd_def
  by (simp only: read_lines cong: read_congs, code_simp)

lemma describes_provider_networks_crd: "describes (outline provider_networks_crd) (kubeovn_crd ''provider-networks'')"
  unfolding outline_def provider_networks_crd_def provider_networks_crd_part1_def provider_networks_crd_part2_def
  by (simp only: read_lines cong: read_congs, code_simp)

lemma describes_security_groups_crd: "describes (outline security_groups_crd) (kubeovn_crd ''security-groups'')"
  unfolding outline_def security_groups_crd_def security_groups_crd_part1_def security_groups_crd_part2_def
  by (simp only: read_lines cong: read_congs, code_simp)

lemma describes_qos_policies_crd: "describes (outline qos_policies_crd) (kubeovn_crd ''qos-policies'')"
  unfolding outline_def qos_policies_crd_def qos_policies_crd_part1_def qos_policies_crd_part2_def
  by (simp only: read_lines cong: read_congs, code_simp)

lemma describes_bgp_confs_crd: "describes (outline bgp_confs_crd) (kubeovn_crd ''bgp-confs'')"
  unfolding outline_def bgp_confs_crd_def
  by (simp only: read_lines cong: read_congs, code_simp)

lemma describes_dns_name_resolvers_crd: "describes (outline dns_name_resolvers_crd) (kubeovn_crd ''dnsnameresolvers'')"
  unfolding outline_def dns_name_resolvers_crd_def dns_name_resolvers_crd_part1_def dns_name_resolvers_crd_part2_def
  by (simp only: read_lines cong: read_congs, code_simp)

lemma describes_evpn_confs_crd: "describes (outline evpn_confs_crd) (kubeovn_crd ''evpn-confs'')"
  unfolding outline_def evpn_confs_crd_def
  by (simp only: read_lines cong: read_congs, code_simp)

lemmas describes_texts =
  describes_vpc_dnses_crd describes_switch_lb_rules_crd describes_vpc_nat_gateways_crd
  describes_vpc_egress_gateways_crd describes_iptables_eips_crd describes_iptables_fip_rules_crd
  describes_iptables_dnat_rules_crd describes_iptables_snat_rules_crd describes_ovn_eips_crd
  describes_ovn_fips_crd describes_ovn_snat_rules_crd describes_ovn_dnat_rules_crd describes_vpcs_crd
  describes_ips_crd describes_vips_crd describes_subnets_crd describes_ippools_crd describes_vlans_crd
  describes_provider_networks_crd describes_security_groups_crd describes_qos_policies_crd
  describes_bgp_confs_crd describes_dns_name_resolvers_crd describes_evpn_confs_crd

lemma describes_iff: "describes (outline ls) crd \<longleftrightarrow> crd_identity ls = Some crd \<and> crd_admissible ls"
  by (auto simp: describes_def crd_identity_def crd_admissible_def)

lemma crd_texts_read: "list_all2 (\<lambda>ls crd. crd_identity ls = Some crd \<and> crd_admissible ls) crd_texts crd_specs"
  unfolding crd_texts_def crd_specs_def list.map append_Cons append_Nil
  by (simp only: list_all2_Cons list_all2_Nil describes_texts [unfolded describes_iff] simp_thms)

lemma crd_identities: "map crd_identity crd_texts = map Some crd_specs"
proof -
  have "list_all2 (\<lambda>ls crd. crd_identity ls = Some crd) crd_texts crd_specs"
    using crd_texts_read by (rule list_all2_mono) simp
  then have "list_all2 (=) (map crd_identity crd_texts) (map Some crd_specs)"
    by (simp add: list_all2_map1 list_all2_map2)
  then show ?thesis by (simp add: list.rel_eq)
qed

lemma crd_texts_admissible: "ls \<in> set crd_texts \<Longrightarrow> crd_admissible ls"
  using crd_texts_read by (auto simp: list_all2_conv_all_nth in_set_conv_nth)

lemma crd_resources_distinct: "distinct crd_resources" "length crd_resources = 24"
  unfolding crd_resources_def by code_simp+

lemma decoded_crds_in: "decoded_crds objs \<Longrightarrow> ob \<in> set objs \<Longrightarrow> \<exists>crd \<in> set crd_specs. ObjCRD ob = Some crd"
  unfolding decoded_crds_def by (metis (no_types, lifting) imageE list.set_map rev_image_eqI)

lemma decoded_crds_all: "decoded_crds objs \<Longrightarrow> crd \<in> set crd_specs \<Longrightarrow> \<exists>ob \<in> set objs. ObjCRD ob = Some crd"
  unfolding decoded_crds_def by (metis (no_types, lifting) imageE list.set_map rev_image_eqI)

lemma resource_namespace_specs:
  "\<forall>crd \<in> set crd_specs. resource_namespace crd =
     (if CRDPlural crd = ''vpc-egress-gateways'' then Some '''' else None)"
  by code_simp

lemma decoded_crds_gone:
  assumes "decoded_crds objs" and "crds_gone objs evs" and "g \<in> set crd_resources"
  shows "list_ex (empty_listing g) evs"
proof -
  from assms(3) obtain crd v where crd: "crd \<in> set crd_specs" "v \<in> set (CRDVersions crd)" "g = (CRDGroup crd, v, CRDPlural crd)"
    by (auto simp: crd_resources_def)
  from decoded_crds_all [OF assms(1) crd(1)] assms(2) have "crd_gone evs crd"
    by (auto simp: crds_gone_def list_all_iff pred_option_def)
  with crd(2,3) show ?thesis by (auto simp: crd_gone_def list_all_iff)
qed

section \<open>Rendering the list\<close>

text \<open>A template that is one piece of text renders to that text, whatever the values are.\<close>

lemma execute_text: "template_Parse F [Txt ls] = Some [NText (strings_Join ls newline)]"
  "template_Execute F [NText s] vals = Inr s"
  by (simp_all add: template_Parse_def template_Execute_def)

definition decode_crd :: "libs \<Rightarrow> yaml_line list \<Rightarrow> kobject" where
  "decode_crd L ls = projr (libYamlUnmarshal L CustomResourceDefinition (crd_text ls))"

lemma crd_text_nonempty:
  assumes "crd_identity ls \<noteq> None"
  shows "crd_text ls \<noteq> ''''"
proof
  assume empty: "crd_text ls = ''''"
  have "text_lines ls = [] \<or> text_lines ls = ['''']"
    using empty by (cases "text_lines ls" rule: remdups_adj.cases) (auto simp: crd_text_def newline_def)
  then have "ls = [] \<or> ls = [(0, '''')]"
    by (auto simp: text_lines_def)
  with assms show False by (auto simp: crd_identity_def outline_def read_identity_def values_at_def)
qed

lemma generate_all_crds:
  assumes "\<And>ls. ls \<in> set texts \<Longrightarrow> crd_identity ls \<noteq> None \<and>
      (\<exists>ob. libYamlUnmarshal L CustomResourceDefinition (crd_text ls) = Inr ob)"
  shows "generate_all L F (map (\<lambda>ls. [Txt (text_lines ls)]) texts) vals CustomResourceDefinition =
    Inr (map (decode_crd L) texts)"
  using assms
proof (induction texts)
  case (Cons ls texts)
  from Cons.prems [of ls] obtain ob where "crd_identity ls \<noteq> None"
      "libYamlUnmarshal L CustomResourceDefinition (crd_text ls) = Inr ob" by auto
  with Cons show ?case
    using crd_text_nonempty [of ls]
    by (simp add: generateObject_def execute_text crd_text_def [symmetric] decode_crd_def)
qed simp

lemma GenerateObjects_CRDList:
  assumes "decodes_crds L" and "template_values L F (patch_version c version) ca = Inr vals"
  shows "snd (GenerateObjects L F CRDList c CustomResourceDefinition version ca) = Inr (map (decode_crd L) crd_texts)"
proof -
  have "generate_all L F CRDList vals CustomResourceDefinition = Inr (map (decode_crd L) crd_texts)"
    unfolding CRDList_def
  proof (rule generate_all_crds)
    fix ls assume "ls \<in> set crd_texts"
    with assms(1) crd_texts_admissible [of ls]
    show "crd_identity ls \<noteq> None \<and> (\<exists>ob. libYamlUnmarshal L CustomResourceDefinition (crd_text ls) = Inr ob)"
      by (auto simp: decodes_crds_def crd_admissible_def split: option.splits)
  qed
  with assms(2) show ?thesis by (simp add: GenerateObjects_def Let_def)
qed

lemma decode_crds: "decodes_crds L \<Longrightarrow> decoded_crds (map (decode_crd L) crd_texts)"
proof -
  assume "decodes_crds L"
  then have "ls \<in> set crd_texts \<Longrightarrow> ObjCRD (decode_crd L ls) = crd_identity ls" for ls
    by (auto simp: decodes_crds_def decode_crd_def)
  then show ?thesis by (simp add: decoded_crds_def flip: crd_identities)
qed

lemma rendered_crds_decoded:
  assumes "decodes_crds L" and "snd (GenerateObjects L F CRDList c CustomResourceDefinition version ca) = Inr objs"
  shows "decoded_crds objs"
proof -
  from assms(2) obtain vals where "template_values L F (patch_version c version) ca = Inr vals"
    by (cases "template_values L F (patch_version c version) ca") (simp_all add: GenerateObjects_def Let_def)
  from GenerateObjects_CRDList [OF assms(1) this] assms(2) decode_crds [OF assms(1)] show ?thesis by simp
qed

section \<open>A decoder\<close>

text \<open>
  For the witnesses: a decoder that goes by the sixth line of the text, which holds the name. The
  simplifier reads only the first seven lines of each text.
\<close>

fun nth_line :: "nat \<Rightarrow> string \<Rightarrow> string" where
  "nth_line 0 s = takeWhile (\<lambda>c. c \<noteq> CHR 0x0A) s"
| "nth_line (Suc n) s = nth_line n (drop 1 (dropWhile (\<lambda>c. c \<noteq> CHR 0x0A) s))"

definition name_line :: "CRDSpec \<Rightarrow> string" where
  "name_line crd = ''  name: '' @ CRDPlural crd @ ''.'' @ CRDGroup crd"

definition crd_libs :: libs where
  "crd_libs = ref_libs\<lparr>libYamlUnmarshal := (\<lambda>k s. Inr \<lparr>ObjKind = k, ObjMeta = zero_ObjectMeta,
     ObjCRD = find (\<lambda>crd. nth_line 5 s = name_line crd) crd_specs, ObjBody = s\<rparr>)\<rparr>"

definition one_line :: "string \<Rightarrow> bool" where
  "one_line s \<longleftrightarrow> list_all (\<lambda>c. c \<noteq> CHR 0x0A) s"

definition named :: "yaml_line list \<Rightarrow> CRDSpec \<Rightarrow> bool" where
  "named ls crd \<longleftrightarrow> (case ls of a # b # c # d # e # f # g # r \<Rightarrow>
     list_all (\<lambda>l. one_line (snd l)) [a, b, c, d, e, f] \<and> hd (text_lines [f]) = name_line crd | _ \<Rightarrow> False)"

lemma nth_line_Join:
  "one_line x \<Longrightarrow> nth_line 0 (strings_Join (x # y # ls) newline) = x"
  "one_line x \<Longrightarrow> nth_line (Suc n) (strings_Join (x # y # ls) newline) = nth_line n (strings_Join (y # ls) newline)"
  by (simp_all add: one_line_def list_all_iff newline_def takeWhile_append2 dropWhile_append2 takeWhile_eq_all_conv [THEN iffD2])

lemma one_line_indented: "one_line (replicate n (CHR '' '') @ s) = one_line s"
  by (induction n) (simp_all add: one_line_def)

lemma named_nth_line:
  assumes "named ls crd"
  shows "nth_line 5 (crd_text ls) = name_line crd"
proof -
  from assms obtain a b c d e f g r where ls: "ls = a # b # c # d # e # f # g # r"
      "one_line (snd a)" "one_line (snd b)" "one_line (snd c)" "one_line (snd d)" "one_line (snd e)" "one_line (snd f)"
      and name: "hd (text_lines [f]) = name_line crd"
    by (auto simp: named_def split: list.splits)
  have "nth_line 5 (crd_text ls) = replicate (fst f) (CHR '' '') @ snd f"
    using ls by (simp add: crd_text_def text_lines_def split_def one_line_indented nth_line_Join numeral_eq_Suc
      del: nth_line.simps strings_Join.simps)
  with name show ?thesis by (simp add: text_lines_def split_def)
qed

lemma named_short: "named (a # b # c # d # e # f # g # r) crd \<longleftrightarrow>
     list_all (\<lambda>l. one_line (snd l)) [a, b, c, d, e, f] \<and> hd (text_lines [f]) = name_line crd"
  "named ((a # b # c # d # e # f # g # r) @ s) crd \<longleftrightarrow>
     list_all (\<lambda>l. one_line (snd l)) [a, b, c, d, e, f] \<and> hd (text_lines [f]) = name_line crd"
  by (simp_all add: named_def)

lemma named_weak: "c = d \<Longrightarrow> named ls c = named ls d"
  by simp

lemmas crd_first_lines =
  vpc_dnses_crd_def switch_lb_rules_crd_def vpc_nat_gateways_crd_def vpc_nat_gateways_crd_part1_def
  vpc_egress_gateways_crd_def vpc_egress_gateways_crd_part1_def iptables_eips_crd_def iptables_fip_rules_crd_def
  iptables_dnat_rules_crd_def iptables_dnat_rules_crd_part1_def iptables_snat_rules_crd_def ovn_eips_crd_def
  ovn_fips_crd_def ovn_fips_crd_part1_def ovn_snat_rules_crd_def ovn_dnat_rules_crd_def
  ovn_dnat_rules_crd_part1_def vpcs_crd_def vpcs_crd_part1_def ips_crd_def vips_crd_def vips_crd_part1_def
  subnets_crd_def subnets_crd_part1_def ippools_crd_def ippools_crd_part1_def vlans_crd_def
  provider_networks_crd_def provider_networks_crd_part1_def security_groups_crd_def
  security_groups_crd_part1_def qos_policies_crd_def qos_policies_crd_part1_def bgp_confs_crd_def
  dns_name_resolvers_crd_def dns_name_resolvers_crd_part1_def evpn_confs_crd_def

lemma crd_texts_named: "list_all2 named crd_texts crd_specs"
  unfolding crd_texts_def crd_specs_def list.map append_Cons append_Nil list_all2_Cons list_all2_Nil
  apply (unfold crd_first_lines)
  apply (simp only: named_short cong: named_weak)
  apply code_simp
  done

lemma crd_libs_decode: "decodes_crds crd_libs"
  unfolding decodes_crds_def
proof
  fix ls assume "ls \<in> set crd_texts"
  then obtain i where i: "i < length crd_texts" "ls = crd_texts ! i" by (metis in_set_conv_nth)
  with crd_texts_named crd_texts_read have "named ls (crd_specs ! i)" "crd_identity ls = Some (crd_specs ! i)"
      "i < length crd_specs"
    by (auto simp: list_all2_conv_all_nth)
  moreover have "distinct (map name_line crd_specs)" by code_simp
  ultimately have "find (\<lambda>crd. nth_line 5 (crd_text ls) = name_line crd) crd_specs = Some (crd_specs ! i)"
    by (auto simp: find_Some_iff named_nth_line distinct_conv_nth intro!: exI [of _ i])
  with \<open>crd_identity ls = _\<close> show "\<exists>ob. libYamlUnmarshal crd_libs CustomResourceDefinition (crd_text ls) = Inr ob \<and>
      ObjCRD ob = crd_identity ls"
    by (simp add: crd_libs_def)
qed

section \<open>Properties\<close>

lemma templates_scoped:
  assumes "list_all (\<lambda>f. F f \<noteq> None) template_functions" and "(k, ts) \<in> set (OrderedObjectList CRDList)" and "t \<in> set ts"
  shows "scoped (func_defined (object_funcs L F)) [''$''] [] t"
proof (cases "k = CustomResourceDefinition")
  case True
  with assms(2) have "ts = CRDList" by (auto simp: OrderedObjectList_def)
  with assms(3) show ?thesis by (auto simp: CRDList_def)
next
  case False
  with object_templates_scoped [OF assms(1), of L CRDList] assms(2,3) show ?thesis
    by (fastforce simp: list_all_iff)
qed

text \<open>
  C15: every template the operator ships parses, for each object type, once sprig's and Helm's functions
  are there: no call of \<^verbatim>\<open>template.Must\<close> panics. Parsing makes all the checks of Go's parser that apply to the
  constructs used: blocks are nested and closed, functions and variables that are read are known, no
  pipeline is empty or passes a value on to a constant.
\<close>

theorem all_templates_parse:
  assumes "list_all (\<lambda>f. F f \<noteq> None) template_functions"
  shows "list_all (\<lambda>(k, ts). list_all (\<lambda>t. template_Parse (object_funcs L F) t \<noteq> None) ts) (OrderedObjectList CRDList)"
  using parses_if_scoped [OF templates_scoped [OF assms]] by (auto simp: list_all_iff)

theorem all_templates_parse_witness:
  "list_all (\<lambda>(k, ts). list_all (\<lambda>t. template_Parse (object_funcs ref_libs demo_funcs) t \<noteq> None) ts) (OrderedObjectList CRDList)"
  by (rule all_templates_parse) (simp add: demo_funcs_def list_all_iff)

text \<open>
  C16: the templates use their variables as declared: whatever the data is, no execution of a template of
  the operator stops because a variable that is read or assigned does not exist, which Go's parser does
  not exclude for assignments and for \<^verbatim>\<open>else\<close> branches. The functions given to the templates are any that do
  not report that error themselves.
\<close>

theorem templates_declare_their_variables:
  assumes "list_all (\<lambda>f. F f \<noteq> None) template_functions" and "no_variable_errors F"
    and "(k, ts) \<in> set (OrderedObjectList CRDList)" and "t \<in> set ts" and "template_Parse (object_funcs L F) t = Some ns"
  shows "template_Execute (object_funcs L F) ns vals \<noteq> Inl (EMsg ''undefined variable'')"
  by (rule scoped_execution [OF templates_scoped [OF assms(1,3,4)] no_variable_errors_object_funcs [OF assms(2)] assms(5)])

theorem templates_declare_their_variables_witness:
  "template_Execute (object_funcs ref_libs demo_funcs) (the (template_Parse (object_funcs ref_libs demo_funcs) kube_ovn_tls_secret))
     (VMap []) \<noteq> Inl (EMsg ''undefined variable'')"
proof -
  let ?F = "object_funcs ref_libs demo_funcs"
  have 1: "list_all (\<lambda>f. demo_funcs f \<noteq> None) template_functions" by (simp add: demo_funcs_def list_all_iff)
  have 2: "no_variable_errors demo_funcs" by (simp add: no_variable_errors_def demo_funcs_def)
  have 3: "(Secret, SecretList) \<in> set (OrderedObjectList CRDList)" "kube_ovn_tls_secret \<in> set SecretList"
    by (simp_all add: OrderedObjectList_def SecretList_def)
  obtain ns where "template_Parse ?F kube_ovn_tls_secret = Some ns"
    using guarded_parse(1) [OF 1] by blast
  with templates_declare_their_variables [OF 1 2 3 this] show ?thesis by simp
qed

text \<open>
  C17: rendering the CRDs yields the 24 decoded texts in the order of the list, whatever the
  configuration, the version, the CA certificate and the template functions are; only values that cannot
  be computed, as for a configuration without \<^verbatim>\<open>enableOVNIPSec\<close>, prevent it.
\<close>

theorem crds_do_not_depend_on_the_configuration:
  assumes "decodes_crds L"
  shows "snd (GenerateObjects L F CRDList c CustomResourceDefinition version ca) =
    (case template_values L F (patch_version c version) ca of
       Inl e \<Rightarrow> Inl e
     | Inr vals \<Rightarrow> Inr (map (decode_crd L) crd_texts)) \<and>
    map ObjCRD (map (decode_crd L) crd_texts) = map Some crd_specs"
proof (cases "template_values L F (patch_version c version) ca")
  case (Inr vals)
  with GenerateObjects_CRDList [OF assms] decode_crds [OF assms] show ?thesis by (simp add: decoded_crds_def)
qed (use decode_crds [OF assms] in \<open>simp add: GenerateObjects_def Let_def decoded_crds_def\<close>)

lemma demo_crd_values: "\<not> isl (template_values crd_libs (\<lambda>_. None) (patch_version demo_config ''v1'') '''')"
  by code_simp

theorem crds_do_not_depend_on_the_configuration_witness:
  "map ObjCRD (projr (snd (GenerateObjects crd_libs (\<lambda>_. None) CRDList demo_config CustomResourceDefinition ''v1'' ''''))) =
     map Some crd_specs"
proof -
  obtain vals where "template_values crd_libs (\<lambda>_. None) (patch_version demo_config ''v1'') '''' = Inr vals"
    using demo_crd_values by (cases "template_values crd_libs (\<lambda>_. None) (patch_version demo_config ''v1'') ''''") auto
  with crds_do_not_depend_on_the_configuration [OF crd_libs_decode, of "\<lambda>_. None" demo_config "''v1''" "''''"]
  show ?thesis by simp
qed

text \<open>
  C2: the clean-up covers every custom resource the operator installs: in the deletion of a configuration,
  before the first call that deletes the owner namespace, releases the configuration or patches a node,
  and for each of the 24 resources of the texts, a listing of that run was empty or told that the
  resource does not exist.
\<close>

theorem cleanup_covers_every_crd:
  assumes "decodes_crds L"
    and "apiGetConfiguration E tr req = Inr c" and "DeletionTimestamp (Meta c) \<noteq> None"
    and "cs = calls (ConfigurationReconcile E L namespace version CRDList order req) tr"
    and "i < length cs" and "release_call (cs ! i)"
    and "crd_identity ls = Some crd" and "ls \<in> set crd_texts" and "v \<in> set (CRDVersions crd)"
  shows "list_ex (empty_listing (CRDGroup crd, v, CRDPlural crd)) (take i cs)"
proof -
  from release_waits_for_cleanup [OF assms(2-6)] obtain objs where
      "snd (GenerateObjects L (templateFuncs E (tr @ [EvGetConfiguration req (Inr c)])) CRDList c
         CustomResourceDefinition version '''') = Inr objs"
      and gone: "crds_gone objs (take i cs)" by blast
  with rendered_crds_decoded [OF assms(1)] have "decoded_crds objs" by blast
  moreover have "crd \<in> set crd_specs"
    using assms(7,8) crd_identities by (metis (no_types, lifting) image_iff list.set_map option.inject)
  then have "(CRDGroup crd, v, CRDPlural crd) \<in> set crd_resources"
    using assms(9) by (auto simp: crd_resources_def)
  ultimately show ?thesis using decoded_crds_gone gone by blast
qed

text \<open>A configuration in deletion, with the operator's finalizer, and a cluster without custom resources.\<close>

abbreviation crd_demo_calls :: trace where
  "crd_demo_calls \<equiv> calls (ConfigurationReconcile (demo_env (deleting demo_config)) crd_libs ''kube-system'' ''v1''
     CRDList [] demo_req) []"

lemma crd_demo_releases:
  "crd_demo_calls \<noteq> [] \<and> release_call (last crd_demo_calls)"
proof -
  let ?c = "deleting demo_config" and ?E = "demo_env (deleting demo_config)"
  let ?tr = "[EvGetConfiguration demo_req (Inr ?c)]" and ?cv = "patch_version (deleting demo_config) ''v1''"
  have "\<not> isl (template_values crd_libs (templateFuncs ?E ?tr) ?cv '''')" by code_simp
  then obtain vals where "template_values crd_libs (templateFuncs ?E ?tr) ?cv '''' = Inr vals"
    by (cases "template_values crd_libs (templateFuncs ?E ?tr) ?cv ''''") auto
  from GenerateObjects_CRDList [OF crd_libs_decode this]
  have gen: "GenerateObjects crd_libs (templateFuncs ?E ?tr) CRDList ?c CustomResourceDefinition ''v1'' '''' =
      (?cv, Inr (map (decode_crd crd_libs) crd_texts))"
    by (simp add: prod_eq_iff)
  have fin: "libContainsFinalizer crd_libs (Finalizers (Meta ?cv)) KubeOVNConfigurationFinalizer" by code_simp
  have "apiGetConfiguration ?E [] demo_req = Inr ?c" "DeletionTimestamp (Meta ?c) \<noteq> None"
    by (simp_all add: demo_env_def deleting_def)
  then have "crd_demo_calls = EvGetConfiguration demo_req (Inr ?c) #
      calls (delete_rendered ?E crd_libs ?cv (map (decode_crd crd_libs) crd_texts)) ?tr"
    unfolding ConfigurationReconcile_fetch_then cfg.calls_fetch_then
    using gen by (simp add: calls_deleting deleteClusterScopedReference_def)
  with delete_rendered_nothing_left(2) [OF demo_nothing_left fin, of ?c "map (decode_crd crd_libs) crd_texts" ?tr]
  show ?thesis by auto
qed

theorem cleanup_covers_every_crd_witness:
  "list_ex (empty_listing (''kubeovn.io'', ''v1'', ''subnets'')) (take (length crd_demo_calls - 1) crd_demo_calls)"
proof -
  let ?c = "deleting demo_config"
  have 1: "apiGetConfiguration (demo_env ?c) [] demo_req = Inr ?c" by (simp add: demo_env_def)
  have 2: "DeletionTimestamp (Meta ?c) \<noteq> None" by (simp add: deleting_def)
  have 3: "length crd_demo_calls - 1 < length crd_demo_calls" "release_call (crd_demo_calls ! (length crd_demo_calls - 1))"
    using crd_demo_releases by (auto simp: last_conv_nth)
  have 4: "crd_identity subnets_crd = Some (kubeovn_crd ''subnets'')" using describes_subnets_crd by (simp add: describes_iff)
  have 5: "subnets_crd \<in> set crd_texts" by (simp add: crd_texts_def)
  have 6: "''v1'' \<in> set (CRDVersions (kubeovn_crd ''subnets''))" by (simp add: kubeovn_crd_def)
  from cleanup_covers_every_crd [OF crd_libs_decode 1 2 refl 3 4 5 6] show ?thesis by (simp add: kubeovn_crd_def)
qed

text \<open>Data for the witness: the decoded CRDs, and a cluster with an egress gateway in the namespace \<^verbatim>\<open>tenant\<close>.\<close>

definition decoded_demo :: "kobject list" where
  "decoded_demo = map (\<lambda>crd. \<lparr>ObjKind = CustomResourceDefinition, ObjMeta = zero_ObjectMeta, ObjCRD = Some crd, ObjBody = ''''\<rparr>) crd_specs"

definition demo_gateway_env :: env where
  "demo_gateway_env = ref_env\<lparr>apiListDynamic := (\<lambda>_ g. if snd (snd g) = ''vpc-egress-gateways''
     then Inr [\<lparr>DynNamespace = ''tenant'', DynName = ''gw'', DynDeletionTimestamp = None\<rparr>] else Inr [])\<rparr>"

text \<open>
  C38: every delete request of the clean-up names one of the operator's resources; the requests for
  \<^verbatim>\<open>vpc-egress-gateways\<close>, the one namespaced resource, all go to the empty namespace, whatever the
  namespace of the object, and all others are cluster-scoped requests.
\<close>

theorem namespaced_deletes_lose_the_namespace:
  assumes "decoded_crds objs" and "EvDeleteDynamic g ns n r \<in> set (calls (ensureCRDObjectCleanup E objs) tr)"
  shows "g \<in> set crd_resources \<and> ns = (if snd (snd g) = ''vpc-egress-gateways'' then Some '''' else None)"
proof -
  have widen: "delete_justified objs xs e \<Longrightarrow> delete_justified objs (x # xs) e" for x xs e
    by (erule delete_justified_mono) auto
  have "obeys (ensureCRDObjectCleanup E objs) [] (\<lambda>r new. list_all (delete_justified objs new) new)"
    unfolding ensureCRDObjectCleanup_def NewDynamicClient_def
    apply (intro obeys_rules)
     apply (rule obeys_frame [OF cleanup_crds_justified])
     apply (rule obeys_return)
     apply (use widen in \<open>auto simp: list_all_iff\<close>)
    done
  from obeysD [OF this, of tr] assms(2) have "delete_justified objs (calls (ensureCRDObjectCleanup E objs) tr) (EvDeleteDynamic g ns n r)"
    by (auto simp: list_all_iff)
  then obtain ob crd v where ob: "ob \<in> set objs" "ObjCRD ob = Some crd" "ns = resource_namespace crd"
      "v \<in> set (CRDVersions crd)" "g = (CRDGroup crd, v, CRDPlural crd)"
    by auto
  with decoded_crds_in [OF assms(1) ob(1)] have "crd \<in> set crd_specs" by auto
  with ob resource_namespace_specs show ?thesis by (auto simp: crd_resources_def)
qed

theorem namespaced_deletes_lose_the_namespace_witness:
  "(''kubeovn.io'', ''v1'', ''vpc-egress-gateways'') \<in> set crd_resources"
proof -
  let ?e = "EvDeleteDynamic (''kubeovn.io'', ''v1'', ''vpc-egress-gateways'') (Some '''') ''gw'' None"
  have 1: "decoded_crds decoded_demo" by (simp add: decoded_crds_def decoded_demo_def)
  have "List.member (calls (ensureCRDObjectCleanup demo_gateway_env decoded_demo) []) ?e" by code_simp
  then have "?e \<in> set (calls (ensureCRDObjectCleanup demo_gateway_env decoded_demo) [])" by simp
  from namespaced_deletes_lose_the_namespace [OF 1 this] show ?thesis by blast
qed

end
