(* ===== verification/Memory.thy ===== *)
theory Memory
  imports Api_Types
begin

text \<open>
  A memory for the in-place view of the API types: addresses, a heap for booleans, heaps for the arrays
  behind slices, and one for the structs whose pointers are passed around. A \<^verbatim>\<open>*bool\<close> is an address or
  nil, a slice is nil or an array's address with an offset and a length. Allocation hands out the next
  unused address.

  The locale \<open>deep_copy\<close> is the contract of a copy function: it allocates, leaves every old cell as it
  was, and returns something that reads like the original (up to what the libraries' own copy functions
  do to their types) and lives in new cells only. \<open>grows_to\<close> and its rules carry such facts through
  a sequence of copies; \<open>slice_copy\<close> lifts a copy of elements to the loop over a slice.
\<close>

section \<open>The memory\<close>

type_synonym addr = nat

type_synonym slice = "(addr \<times> nat \<times> nat) option"

type_synonym Configuration_mem = "(addr option, slice, slice, slice) Configuration_repr"

record 'st mem =
  Lim :: addr
  Bools :: "addr \<Rightarrow> bool"
  StringArrays :: "addr \<Rightarrow> string list"
  ConditionArrays :: "addr \<Rightarrow> Condition list"
  ReferenceArrays :: "addr \<Rightarrow> ObjectReference list"
  ConfigurationArrays :: "addr \<Rightarrow> Configuration_mem list"
  Structs :: "addr \<Rightarrow> 'st"

text \<open>All that is stored at an address.\<close>

definition cell where
  "cell m a = (Bools m a, StringArrays m a, ConditionArrays m a, ReferenceArrays m a, ConfigurationArrays m a, Structs m a)"

definition agree :: "addr set \<Rightarrow> 'st mem \<Rightarrow> 'st mem \<Rightarrow> bool" where
  "agree A m m' \<longleftrightarrow> (\<forall>a \<in> A. cell m a = cell m' a)"

definition extends :: "'st mem \<Rightarrow> 'st mem \<Rightarrow> bool" where
  "extends m m' \<longleftrightarrow> Lim m \<le> Lim m' \<and> agree {..<Lim m} m m'"

text \<open>Addresses in the order of their allocation between two moments.\<close>

definition within :: "addr \<Rightarrow> addr \<Rightarrow> addr list \<Rightarrow> bool" where
  "within l l' as \<longleftrightarrow> l \<le> l' \<and> sorted_wrt (<) as \<and> set as \<subseteq> {l..<l'}"

section \<open>Operations\<close>

definition read_mem :: "('m \<Rightarrow> 'a) \<Rightarrow> ('m, 'a) state" where
  "read_mem f = State (\<lambda>m. (f m, m))"

definition write_mem :: "('m \<Rightarrow> 'm) \<Rightarrow> ('m, unit) state" where
  "write_mem f = State (\<lambda>m. ((), f m))"

definition alloc :: "(addr \<Rightarrow> 'st mem \<Rightarrow> 'st mem) \<Rightarrow> ('st mem, addr) state" where
  "alloc init = do {
     a \<leftarrow> read_mem Lim;
     _ \<leftarrow> write_mem (\<lambda>m. init a (m\<lparr>Lim := Suc a\<rparr>));
     State_Monad.return a
   }"

definition store_bool :: "addr \<Rightarrow> bool \<Rightarrow> 'st mem \<Rightarrow> 'st mem" where
  "store_bool a b m = m\<lparr>Bools := (Bools m)(a := b)\<rparr>"

definition store_strings :: "addr \<Rightarrow> string list \<Rightarrow> 'st mem \<Rightarrow> 'st mem" where
  "store_strings a xs m = m\<lparr>StringArrays := (StringArrays m)(a := xs)\<rparr>"

definition store_conditions :: "addr \<Rightarrow> Condition list \<Rightarrow> 'st mem \<Rightarrow> 'st mem" where
  "store_conditions a xs m = m\<lparr>ConditionArrays := (ConditionArrays m)(a := xs)\<rparr>"

definition store_references :: "addr \<Rightarrow> ObjectReference list \<Rightarrow> 'st mem \<Rightarrow> 'st mem" where
  "store_references a xs m = m\<lparr>ReferenceArrays := (ReferenceArrays m)(a := xs)\<rparr>"

definition store_configurations :: "addr \<Rightarrow> Configuration_mem list \<Rightarrow> 'st mem \<Rightarrow> 'st mem" where
  "store_configurations a xs m = m\<lparr>ConfigurationArrays := (ConfigurationArrays m)(a := xs)\<rparr>"

definition store_struct :: "addr \<Rightarrow> 'st \<Rightarrow> 'st mem \<Rightarrow> 'st mem" where
  "store_struct a x m = m\<lparr>Structs := (Structs m)(a := x)\<rparr>"

section \<open>The shapes of the generated code\<close>

text \<open>
  \<^verbatim>\<open>if in.F != nil { in, out := &in.F, &out.F; *out = new(bool); **out = **in }\<close>. If the field is
  nil, the copy of the whole struct has made it nil in the target as well.
\<close>

definition copy_bool :: "addr option \<Rightarrow> ('st mem, addr option) state" where
  "copy_bool p = (case p of
     None \<Rightarrow> State_Monad.return None
   | Some a \<Rightarrow> do {
       out \<leftarrow> alloc (\<lambda>a. store_bool a False);
       b \<leftarrow> read_mem (\<lambda>m. Bools m a);
       _ \<leftarrow> write_mem (store_bool out b);
       State_Monad.return (Some out)
     })"

text \<open>\<^verbatim>\<open>*out = make([]T, len(*in)); copy(*out, *in)\<close>.\<close>

definition copy_slice ::
    "('st mem \<Rightarrow> addr \<Rightarrow> 'a list) \<Rightarrow> (addr \<Rightarrow> 'a list \<Rightarrow> 'st mem \<Rightarrow> 'st mem) \<Rightarrow> 'a \<Rightarrow> slice \<Rightarrow> ('st mem, slice) state" where
  "copy_slice lookup store zero s = (case s of
     None \<Rightarrow> State_Monad.return None
   | Some (src, off, n) \<Rightarrow> do {
       out \<leftarrow> alloc (\<lambda>a. store a (replicate n zero));
       xs \<leftarrow> read_mem (\<lambda>m. take n (drop off (lookup m src)));
       zs \<leftarrow> read_mem (\<lambda>m. lookup m out);
       _ \<leftarrow> write_mem (store out (xs @ drop (length xs) zs));
       State_Monad.return (Some (out, 0, n))
     })"

text \<open>
  \<^verbatim>\<open>*out = make([]T, len(*in)); for i := range *in { (*in)[i].DeepCopyInto(&(*out)[i]) }\<close>. The
  loop has \<open>k\<close> elements from \<open>i\<close> on to go.
\<close>

fun copy_loop ::
    "('st mem \<Rightarrow> addr \<Rightarrow> 'a list) \<Rightarrow> (addr \<Rightarrow> 'a list \<Rightarrow> 'st mem \<Rightarrow> 'st mem) \<Rightarrow> ('a \<Rightarrow> ('st mem, 'a) state) \<Rightarrow>
     addr \<Rightarrow> nat \<Rightarrow> addr \<Rightarrow> nat \<Rightarrow> nat \<Rightarrow> ('st mem, unit) state" where
  "copy_loop lookup store into src off out i 0 = State_Monad.return ()"
| "copy_loop lookup store into src off out i (Suc k) = do {
     x \<leftarrow> read_mem (\<lambda>m. lookup m src ! (off + i));
     y \<leftarrow> into x;
     ys \<leftarrow> read_mem (\<lambda>m. lookup m out);
     _ \<leftarrow> write_mem (store out (ys[i := y]));
     copy_loop lookup store into src off out (Suc i) k
   }"

definition copy_each ::
    "('st mem \<Rightarrow> addr \<Rightarrow> 'a list) \<Rightarrow> (addr \<Rightarrow> 'a list \<Rightarrow> 'st mem \<Rightarrow> 'st mem) \<Rightarrow> ('a \<Rightarrow> ('st mem, 'a) state) \<Rightarrow>
     'a \<Rightarrow> slice \<Rightarrow> ('st mem, slice) state" where
  "copy_each lookup store into zero s = (case s of
     None \<Rightarrow> State_Monad.return None
   | Some (src, off, n) \<Rightarrow> do {
       out \<leftarrow> alloc (\<lambda>a. store a (replicate n zero));
       _ \<leftarrow> copy_loop lookup store into src off out 0 n;
       State_Monad.return (Some (out, 0, n))
     })"

text \<open>\<^verbatim>\<open>DeepCopy\<close>: nil for nil, otherwise a new struct that \<^verbatim>\<open>DeepCopyInto\<close> fills.\<close>

definition DeepCopy :: "('st \<Rightarrow> ('st mem, 'st) state) \<Rightarrow> 'st \<Rightarrow> addr option \<Rightarrow> ('st mem, addr option) state" where
  "DeepCopy into zero p = (case p of
     None \<Rightarrow> State_Monad.return None
   | Some a \<Rightarrow> do {
       out \<leftarrow> alloc (\<lambda>a. store_struct a zero);
       x \<leftarrow> read_mem (\<lambda>m. Structs m a);
       y \<leftarrow> into x;
       _ \<leftarrow> write_mem (store_struct out y);
       State_Monad.return (Some out)
     })"

section \<open>Memory lemmas\<close>

lemma run_mem [simp]:
  "run_state (read_mem f) m = (f m, m)"
  "run_state (write_mem g) m = ((), g m)"
  "run_state (alloc init) m = (Lim m, init (Lim m) (m\<lparr>Lim := Suc (Lim m)\<rparr>))"
  by (simp_all add: read_mem_def write_mem_def alloc_def)

lemma cell_Lim [simp]: "cell (m\<lparr>Lim := l\<rparr>) = cell m"
  by (simp add: cell_def fun_eq_iff)

lemmas store_defs = store_bool_def store_strings_def store_conditions_def store_references_def
  store_configurations_def store_struct_def

lemma store_simps [simp]:
  "Lim (store_bool a b m) = Lim m" "Lim (store_struct a x m) = Lim m"
  "Bools (store_bool a b m) a = b" "Structs (store_struct a x m) a = x"
  "c \<noteq> a \<Longrightarrow> cell (store_bool a b m) c = cell m c" "c \<noteq> a \<Longrightarrow> cell (store_struct a x m) c = cell m c"
  by (simp_all add: store_defs cell_def)

lemma agree_refl [simp]: "agree A m m"
  by (simp add: agree_def)

lemma agree_sym: "agree A m m' \<Longrightarrow> agree A m' m"
  by (simp add: agree_def)

lemma agree_trans: "agree A m m' \<Longrightarrow> agree A m' m'' \<Longrightarrow> agree A m m''"
  by (simp add: agree_def)

lemma agree_subset: "agree A m m' \<Longrightarrow> B \<subseteq> A \<Longrightarrow> agree B m m'"
  by (auto simp: agree_def)

lemma agreeD: "agree A m m' \<Longrightarrow> a \<in> A \<Longrightarrow> cell m' a = cell m a"
  by (simp add: agree_def)

lemma extends_refl [simp]: "extends m m"
  by (simp add: extends_def)

lemma extends_trans: "extends m m' \<Longrightarrow> extends m' m'' \<Longrightarrow> extends m m''"
  by (auto simp: extends_def agree_def)

lemma extendsD: "extends m m' \<Longrightarrow> A \<subseteq> {..<Lim m} \<Longrightarrow> agree A m m'"
  by (auto simp: extends_def intro: agree_subset)

lemma extends_Lim: "extends m m' \<Longrightarrow> Lim m \<le> Lim m'"
  by (simp add: extends_def)

lemma within_Nil [intro]: "l \<le> l' \<Longrightarrow> within l l' []"
  by (simp add: within_def)

lemma within_append: "within l l' as \<Longrightarrow> within l' l'' bs \<Longrightarrow> within l l'' (as @ bs)"
  by (fastforce simp: within_def sorted_wrt_append)

lemma within_Cons: "within (Suc a) l as \<Longrightarrow> within a l (a # as)"
  by (fastforce simp: within_def)

lemma within_bounds: "within l l' as \<Longrightarrow> set as \<subseteq> {l..<l'}" "within l l' as \<Longrightarrow> distinct as"
  by (auto simp: within_def strict_sorted_iff)

section \<open>Sequences of copies\<close>

text \<open>
  \<open>grows_to m f \<Phi>\<close>: started in any memory \<open>m1\<close> that extends \<open>m\<close>, the program \<open>f\<close> only
  adds to it, and in every later memory its result satisfies \<open>\<Phi>\<close>, which is also told the limits
  before and after \<open>f\<close>.
\<close>

definition grows_to :: "'st mem \<Rightarrow> ('st mem, 'a) state \<Rightarrow> ('a \<Rightarrow> addr \<Rightarrow> addr \<Rightarrow> 'st mem \<Rightarrow> bool) \<Rightarrow> bool" where
  "grows_to m f \<Phi> \<longleftrightarrow> (\<forall>m1. extends m m1 \<longrightarrow> (case run_state f m1 of (y, m2) \<Rightarrow>
     extends m1 m2 \<and> (\<forall>m3. extends m2 m3 \<longrightarrow> \<Phi> y (Lim m1) (Lim m2) m3)))"

lemma grows_to_return:
  "(\<And>l m3. extends m m3 \<Longrightarrow> \<Phi> x l l m3) \<Longrightarrow> grows_to m (State_Monad.return x) \<Phi>"
  by (auto simp: grows_to_def intro: extends_trans)

lemma grows_to_bind:
  assumes "grows_to m f \<Psi>"
    and "\<And>y. grows_to m (g y) (\<lambda>z l1 l2 m3. \<forall>l0. \<Psi> y l0 l1 m3 \<longrightarrow> \<Phi> z l0 l2 m3)"
  shows "grows_to m (State_Monad.bind f g) \<Phi>"
  unfolding grows_to_def
proof (intro allI impI)
  fix m1 assume m1: "extends m m1"
  obtain y m2 where f: "run_state f m1 = (y, m2)" by fastforce
  obtain z m3 where g: "run_state (g y) m2 = (z, m3)" by fastforce
  from assms(1) m1 f have 1: "extends m1 m2" "\<And>m'. extends m2 m' \<Longrightarrow> \<Psi> y (Lim m1) (Lim m2) m'"
    by (auto simp: grows_to_def split: prod.splits)
  from assms(2) [of y] extends_trans [OF m1 1(1)] g have 2: "extends m2 m3"
      "\<And>m' l0. extends m3 m' \<Longrightarrow> \<Psi> y l0 (Lim m2) m' \<Longrightarrow> \<Phi> z l0 (Lim m3) m'"
    by (auto simp: grows_to_def split: prod.splits)
  have "\<Phi> z (Lim m1) (Lim m3) m'" if "extends m3 m'" for m'
    using that 1(2) 2 extends_trans by blast
  with f g 1(1) 2(1) show "case run_state (State_Monad.bind f g) m1 of (z, m2) \<Rightarrow>
      extends m1 m2 \<and> (\<forall>m3. extends m2 m3 \<longrightarrow> \<Phi> z (Lim m1) (Lim m2) m3)"
    by (auto intro: extends_trans)
qed

lemma grows_toD:
  "grows_to m f \<Phi> \<Longrightarrow> run_state f m = (y, m') \<Longrightarrow> extends m m' \<and> \<Phi> y (Lim m) (Lim m') m'"
  unfolding grows_to_def by (drule spec [of _ m]) (auto dest: spec [of _ m'])

section \<open>Copy functions\<close>

text \<open>\<open>y\<close>, made between the limits \<open>l\<close> and \<open>l'\<close>, is in \<open>m'\<close> a copy of what \<open>x\<close> was in \<open>m\<close>.\<close>

definition copy_of where
  "copy_of foot load shape val m x y l l' m' \<longleftrightarrow>
     load m' y = val (load m x) \<and> shape m' y \<and> within l l' (foot m' y)"

text \<open>
  \<open>foot\<close> lists the cells a value consists of, \<open>load\<close> reads it, \<open>shape\<close> says that its slices lie in
  their arrays, and \<open>val\<close> is what the copy does to the value read.
\<close>

locale deep_copy =
  fixes into :: "'a \<Rightarrow> ('st mem, 'a) state"
    and foot :: "'st mem \<Rightarrow> 'a \<Rightarrow> addr list"
    and load :: "'st mem \<Rightarrow> 'a \<Rightarrow> 'v"
    and shape :: "'st mem \<Rightarrow> 'a \<Rightarrow> bool"
    and val :: "'v \<Rightarrow> 'v"
  assumes frame: "agree (set (foot m x)) m m' \<Longrightarrow> foot m' x = foot m x \<and> load m' x = load m x \<and> shape m' x = shape m x"
    and copies: "set (foot m x) \<subseteq> {..<Lim m} \<Longrightarrow> shape m x \<Longrightarrow> run_state (into x) m = (y, m') \<Longrightarrow>
      extends m m' \<and> copy_of foot load shape val m x y (Lim m) (Lim m') m'"
begin

lemma grows:
  assumes "set (foot m x) \<subseteq> {..<Lim m}" and "shape m x"
  shows "grows_to m (into x) (copy_of foot load shape val m x)"
  unfolding grows_to_def
proof (intro allI impI)
  fix m1 assume m1: "extends m m1"
  from frame [OF extendsD [OF m1 assms(1)]]
  have x: "foot m1 x = foot m x" "load m1 x = load m x" "shape m1 x" using assms(2) by auto
  obtain y m2 where run: "run_state (into x) m1 = (y, m2)" by fastforce
  have "set (foot m1 x) \<subseteq> {..<Lim m1}" using x(1) assms(1) extends_Lim [OF m1] by auto
  from copies [OF this x(3) run] have y: "extends m1 m2" "copy_of foot load shape val m1 x y (Lim m1) (Lim m2) m2" by auto
  have "copy_of foot load shape val m x y (Lim m1) (Lim m2) m3" if m3: "extends m2 m3" for m3
  proof -
    have "set (foot m2 y) \<subseteq> {..<Lim m2}" using y(2) within_bounds(1) by (fastforce simp: copy_of_def)
    from frame [OF extendsD [OF m3 this]] y(2) x show ?thesis by (simp add: copy_of_def)
  qed
  with run y show "case run_state (into x) m1 of (y, m2) \<Rightarrow> extends m1 m2 \<and>
      (\<forall>m3. extends m2 m3 \<longrightarrow> copy_of foot load shape val m x y (Lim m1) (Lim m2) m3)" by simp
qed

lemma bind:
  assumes "set (foot m x) \<subseteq> {..<Lim m}" and "shape m x"
    and "\<And>y. grows_to m (g y) (\<lambda>z l1 l2 m3. \<forall>l0. copy_of foot load shape val m x y l0 l1 m3 \<longrightarrow> \<Phi> z l0 l2 m3)"
  shows "grows_to m (State_Monad.bind (into x) g) \<Phi>"
  by (rule grows_to_bind [OF grows [OF assms(1,2)] assms(3)])

text \<open>Whatever happens to the cells of the one does not reach the other.\<close>

lemma independent:
  assumes "set (foot m x) \<subseteq> {..<Lim m}" and "shape m x" and "run_state (into x) m = (y, m')"
  shows "agree (- set (foot m' y)) m' m'' \<Longrightarrow> load m'' x = load m x"
    and "agree (- set (foot m x)) m' m'' \<Longrightarrow> load m'' y = val (load m x)"
proof -
  from copies [OF assms] have y: "extends m m'" "load m' y = val (load m x)" "set (foot m' y) \<subseteq> {Lim m..<Lim m'}"
    by (auto simp: copy_of_def dest: within_bounds)
  have disjoint: "set (foot m x) \<inter> set (foot m' y) = {}" using assms(1) y(3) by fastforce
  note old = extendsD [OF y(1) assms(1)]
  show "load m'' x = load m x" if "agree (- set (foot m' y)) m' m''"
    using frame [OF agree_trans [OF old agree_subset [OF that]]] disjoint by auto
  show "load m'' y = val (load m x)" if "agree (- set (foot m x)) m' m''"
    using frame [OF agree_subset [OF that], of y] disjoint y(2) by auto
qed

end

lemma deep_copyI:
  assumes "\<And>m m' x. agree (set (foot m x)) m m' \<Longrightarrow> foot m' x = foot m x \<and> load m' x = load m x \<and> shape m' x = shape m x"
    and "\<And>m x. set (foot m x) \<subseteq> {..<Lim m} \<Longrightarrow> shape m x \<Longrightarrow> grows_to m (into x) (copy_of foot load shape val m x)"
  shows "deep_copy into foot load shape val"
  using assms(1) grows_toD [OF assms(2)] by unfold_locales blast+

section \<open>Pointers to booleans\<close>

definition bool_foot :: "'st mem \<Rightarrow> addr option \<Rightarrow> addr list" where
  "bool_foot m p = (case p of None \<Rightarrow> [] | Some a \<Rightarrow> [a])"

definition bool_load :: "'st mem \<Rightarrow> addr option \<Rightarrow> bool option" where
  "bool_load m p = map_option (Bools m) p"

interpretation bool_ptr: deep_copy copy_bool bool_foot bool_load "\<lambda>m p. True" "\<lambda>v. v"
proof
  show "agree (set (bool_foot m x)) m m' \<Longrightarrow>
      bool_foot m' x = bool_foot m x \<and> bool_load m' x = bool_load m x \<and> True = True" for m m' :: "'st mem" and x
    by (cases x) (auto simp: bool_foot_def bool_load_def agree_def cell_def)
next
  fix m m' :: "'st mem" and x y
  assume foot: "set (bool_foot m x) \<subseteq> {..<Lim m}" and run: "run_state (copy_bool x) m = (y, m')"
  show "extends m m' \<and> copy_of bool_foot bool_load (\<lambda>m p. True) (\<lambda>v. v) m x y (Lim m) (Lim m') m'"
  proof (cases x)
    case None
    with run show ?thesis by (auto simp: copy_bool_def copy_of_def bool_foot_def bool_load_def within_def)
  next
    case (Some a)
    with foot have "a < Lim m" by (simp add: bool_foot_def)
    with Some run show ?thesis
      by (auto simp: copy_bool_def copy_of_def bool_foot_def bool_load_def within_def extends_def agree_def store_defs cell_def)
  qed
qed

section \<open>Slices\<close>

definition slice_elems :: "('st mem \<Rightarrow> addr \<Rightarrow> 'a list) \<Rightarrow> 'st mem \<Rightarrow> slice \<Rightarrow> 'a list" where
  "slice_elems lookup m s = (case s of None \<Rightarrow> [] | Some (a, off, n) \<Rightarrow> take n (drop off (lookup m a)))"

definition slice_foot ::
    "('st mem \<Rightarrow> addr \<Rightarrow> 'a list) \<Rightarrow> ('st mem \<Rightarrow> 'a \<Rightarrow> addr list) \<Rightarrow> 'st mem \<Rightarrow> slice \<Rightarrow> addr list" where
  "slice_foot lookup foot m s = (case s of None \<Rightarrow> []
     | Some (a, off, n) \<Rightarrow> a # concat (map (foot m) (slice_elems lookup m s)))"

definition slice_load ::
    "('st mem \<Rightarrow> addr \<Rightarrow> 'a list) \<Rightarrow> ('st mem \<Rightarrow> 'a \<Rightarrow> 'v) \<Rightarrow> 'st mem \<Rightarrow> slice \<Rightarrow> 'v list" where
  "slice_load lookup load m s = map (load m) (slice_elems lookup m s)"

definition slice_shape ::
    "('st mem \<Rightarrow> addr \<Rightarrow> 'a list) \<Rightarrow> ('st mem \<Rightarrow> 'a \<Rightarrow> bool) \<Rightarrow> 'st mem \<Rightarrow> slice \<Rightarrow> bool" where
  "slice_shape lookup shape m s \<longleftrightarrow> (case s of None \<Rightarrow> True | Some (a, off, n) \<Rightarrow> off + n \<le> length (lookup m a)) \<and>
     list_all (shape m) (slice_elems lookup m s)"

lemma concat_map_Nil [simp]: "concat (map (\<lambda>x. []) xs) = []"
  by (induction xs) simp_all

lemmas slice_defs = slice_foot_def slice_load_def slice_shape_def slice_elems_def

text \<open>A heap of arrays.\<close>

locale array_heap =
  fixes lookup :: "'st mem \<Rightarrow> addr \<Rightarrow> 'a list" and store :: "addr \<Rightarrow> 'a list \<Rightarrow> 'st mem \<Rightarrow> 'st mem"
  assumes lookup_cell: "cell m a = cell m' a \<Longrightarrow> lookup m a = lookup m' a"
    and lookup_store: "lookup (store a xs m) a = xs"
    and cell_store: "b \<noteq> a \<Longrightarrow> cell (store a xs m) b = cell m b"
    and Lim_store: "Lim (store a xs m) = Lim m"
begin

lemma lookup_other: "b \<noteq> a \<Longrightarrow> lookup (store a xs m) b = lookup m b"
  using lookup_cell [OF cell_store] .

lemma lookup_Lim: "lookup (m\<lparr>Lim := l\<rparr>) a = lookup m a"
  by (rule lookup_cell) simp

lemma elems_frame: "agree (set (slice_foot lookup foot m s)) m m' \<Longrightarrow> slice_elems lookup m' s = slice_elems lookup m s"
  using lookup_cell [of m' _ m] by (cases s) (auto simp: slice_elems_def slice_foot_def agree_def)

lemmas heap_simps = lookup_store lookup_other lookup_Lim cell_store Lim_store

end

text \<open>The copy of a slice of plain values.\<close>

sublocale array_heap \<subseteq> plain: deep_copy "copy_slice lookup store zero" "slice_foot lookup (\<lambda>m x. [])"
    "slice_load lookup (\<lambda>m x. x)" "slice_shape lookup (\<lambda>m x. True)" "\<lambda>v. v"
  for zero
proof
  show "agree (set (slice_foot lookup (\<lambda>m x. []) m s)) m m' \<Longrightarrow>
      slice_foot lookup (\<lambda>m x. []) m' s = slice_foot lookup (\<lambda>m x. []) m s \<and>
      slice_load lookup (\<lambda>m x. x) m' s = slice_load lookup (\<lambda>m x. x) m s \<and>
      slice_shape lookup (\<lambda>m x. True) m' s = slice_shape lookup (\<lambda>m x. True) m s" for m m' s
    using lookup_cell [of m' _ m] by (cases s) (auto simp: slice_defs agree_def)
next
  fix m m' :: "'st mem" and s y
  assume foot: "set (slice_foot lookup (\<lambda>m x. []) m s) \<subseteq> {..<Lim m}"
    and shape: "slice_shape lookup (\<lambda>m x. True) m s" and run: "run_state (copy_slice lookup store zero s) m = (y, m')"
  show "extends m m' \<and> copy_of (slice_foot lookup (\<lambda>m x. [])) (slice_load lookup (\<lambda>m x. x))
      (slice_shape lookup (\<lambda>m x. True)) (\<lambda>v. v) m s y (Lim m) (Lim m') m'"
  proof (cases s)
    case None
    with run show ?thesis by (auto simp: copy_slice_def copy_of_def slice_defs within_def)
  next
    case (Some t)
    obtain a off n where t: "t = (a, off, n)" by (cases t) auto
    with Some foot shape have a: "a < Lim m" "off + n \<le> length (lookup m a)" by (auto simp: slice_defs)
    let ?xs = "take n (drop off (lookup m a))"
    have xs: "length ?xs = n" using a(2) by simp
    have new: "a \<noteq> Lim m" using a(1) by simp
    have "y = Some (Lim m, 0, n)" "m' = store (Lim m) (?xs @ drop (length ?xs) (replicate n zero))
        (store (Lim m) (replicate n zero) (m\<lparr>Lim := Suc (Lim m)\<rparr>))"
      using run Some t by (simp_all add: copy_slice_def heap_simps new)
    with xs new a Some t show ?thesis
      by (auto simp: copy_of_def slice_defs within_def extends_def agree_def heap_simps list_all_iff)
  qed
qed

section \<open>The loop over a slice\<close>

locale slice_copy = deep_copy into foot load shape val + array_heap lookup store
  for into :: "'a \<Rightarrow> ('st mem, 'a) state" and foot load and shape and val :: "'v \<Rightarrow> 'v"
    and lookup :: "'st mem \<Rightarrow> addr \<Rightarrow> 'a list" and store :: "addr \<Rightarrow> 'a list \<Rightarrow> 'st mem \<Rightarrow> 'st mem"
begin

text \<open>
  What the rest of the loop does: it fills the target from \<open>i\<close> on, leaves all other old cells alone, and
  the new elements are copies made in new cells.
\<close>

lemma copy_loop_fills:
  assumes "run_state (copy_loop lookup store into src off out i k) m = (u, m')"
    and "agree {..<l} m0 m" and "l \<le> out" and "out < Lim m" and "src < l"
    and "off + i + k \<le> length (lookup m0 src)" and "length (lookup m out) = i + k"
    and "xs = take k (drop (off + i) (lookup m0 src))"
    and "\<And>x. x \<in> set xs \<Longrightarrow> set (foot m0 x) \<subseteq> {..<l} \<and> shape m0 x"
  shows "\<exists>ys. lookup m' out = take i (lookup m out) @ ys \<and> Lim m \<le> Lim m' \<and> agree ({..<Lim m} - {out}) m m' \<and>
     map (load m') ys = map (val \<circ> load m0) xs \<and> list_all (shape m') ys \<and>
     within (Lim m) (Lim m') (concat (map (foot m') ys))"
  using assms
proof (induction k arbitrary: i m xs)
  case 0
  then show ?case by (auto simp: within_def)
next
  case (Suc k)
  let ?x = "lookup m0 src ! (off + i)" and ?xs = "take k (drop (off + Suc i) (lookup m0 src))"
  have xs: "xs = ?x # ?xs"
    using Suc.prems(6,8) by (simp add: Cons_nth_drop_Suc [symmetric])
  have src: "lookup m src = lookup m0 src"
    using Suc.prems(2,5) by (intro lookup_cell) (auto simp: agree_def)
  have "set (foot m0 ?x) \<subseteq> {..<l}" "shape m0 ?x" using Suc.prems(9) [of ?x] by (auto simp: xs)
  with frame [OF agree_subset [OF Suc.prems(2)]] Suc.prems(3,4)
  have x: "set (foot m ?x) \<subseteq> {..<Lim m}" "shape m ?x" "load m ?x = load m0 ?x" by auto
  obtain y m1 where run: "run_state (into ?x) m = (y, m1)" by fastforce
  from copies [OF x(1,2) run] have y: "extends m m1" "load m1 y = val (load m0 ?x)" "shape m1 y"
      "within (Lim m) (Lim m1) (foot m1 y)" by (auto simp: copy_of_def x(3))
  let ?arr = "lookup m out" and ?m2 = "store out ((lookup m1 out)[i := y]) m1"
  have arr: "lookup m1 out = ?arr"
    using extendsD [OF y(1), of "{out}"] Suc.prems(4) by (intro lookup_cell) (auto simp: agree_def)
  have rest: "run_state (copy_loop lookup store into src off out (Suc i) k) ?m2 = (u, m')"
    using Suc.prems(1) by (simp add: src run)
  have old: "agree {..<l} m0 ?m2"
    using Suc.prems(2,3,4) y(1) by (auto simp: agree_def extends_def cell_store)
  have len: "length (lookup ?m2 out) = Suc i + k" using Suc.prems(7) by (simp add: lookup_store arr)
  have out: "out < Lim ?m2" using Suc.prems(4) extends_Lim [OF y(1)] by (simp add: Lim_store)
  have fits: "off + Suc i + k \<le> length (lookup m0 src)" using Suc.prems(6) by simp
  have elems: "\<And>x. x \<in> set ?xs \<Longrightarrow> set (foot m0 x) \<subseteq> {..<l} \<and> shape m0 x"
    using Suc.prems(9) by (simp add: xs)
  from Suc.IH [OF rest old Suc.prems(3) out Suc.prems(5) fits len refl elems]
  obtain ys where ys: "lookup m' out = take (Suc i) (lookup ?m2 out) @ ys" "Lim ?m2 \<le> Lim m'"
      "agree ({..<Lim ?m2} - {out}) ?m2 m'" "map (load m') ys = map (val \<circ> load m0) ?xs" "list_all (shape m') ys"
      "within (Lim ?m2) (Lim m') (concat (map (foot m') ys))" by blast
  have "agree (set (foot m1 y)) m1 m'"
    using ys(3) within_bounds(1) [OF y(4)] Suc.prems(4)
    by (fastforce simp: agree_def cell_store Lim_store)
  from frame [OF this] y have y': "load m' y = val (load m0 ?x)" "shape m' y" "foot m' y = foot m1 y" by auto
  have "agree ({..<Lim m} - {out}) m m'"
    using ys(3) y(1) extends_Lim [OF y(1)] by (auto simp: agree_def extends_def cell_store Lim_store)
  moreover have "take (Suc i) (lookup ?m2 out) = take i ?arr @ [y]"
    using Suc.prems(7) by (simp add: lookup_store arr take_Suc_conv_app_nth)
  moreover have "within (Lim m) (Lim m') (foot m' y @ concat (map (foot m') ys))"
    using within_append [OF y(4), of "Lim m'"] ys(6) y'(3) by (simp add: Lim_store)
  ultimately show ?case
    using ys y' extends_Lim [OF y(1)] by (intro exI [of _ "y # ys"]) (simp add: xs Lim_store)
qed

lemma slice_frame:
  assumes "agree (set (slice_foot lookup foot m s)) m m'"
  shows "slice_foot lookup foot m' s = slice_foot lookup foot m s \<and> slice_load lookup load m' s = slice_load lookup load m s \<and>
    slice_shape lookup shape m' s = slice_shape lookup shape m s"
proof -
  note elems = elems_frame [OF assms]
  have "foot m' x = foot m x \<and> load m' x = load m x \<and> shape m' x = shape m x" if "x \<in> set (slice_elems lookup m s)" for x
    using that by (intro frame agree_subset [OF assms]) (auto simp: slice_foot_def slice_elems_def split: option.splits)
  moreover have "s = Some (a, off, n) \<Longrightarrow> lookup m' a = lookup m a" for a off n
    using assms by (intro lookup_cell) (auto simp: slice_foot_def agree_def)
  ultimately show ?thesis
    unfolding slice_foot_def slice_load_def slice_shape_def elems
    by (auto simp: list_all_iff split: option.splits cong: map_cong)
qed

lemma copy_each_copies:
  assumes "set (slice_foot lookup foot m s) \<subseteq> {..<Lim m}" and "slice_shape lookup shape m s"
    and "run_state (copy_each lookup store into zero s) m = (y, m')"
  shows "extends m m' \<and> copy_of (slice_foot lookup foot) (slice_load lookup load) (slice_shape lookup shape) (map val)
    m s y (Lim m) (Lim m') m'"
proof (cases s)
  case None
  with assms(3) show ?thesis by (auto simp: copy_each_def copy_of_def slice_defs within_def)
next
  case (Some t)
  obtain a off n where t: "t = (a, off, n)" by (cases t) auto
  let ?xs = "take n (drop off (lookup m a))" and ?m1 = "store (Lim m) (replicate n zero) (m\<lparr>Lim := Suc (Lim m)\<rparr>)"
  obtain m2 where loop: "run_state (copy_loop lookup store into a off (Lim m) 0 n) ?m1 = ((), m2)"
    by (cases "run_state (copy_loop lookup store into a off (Lim m) 0 n) ?m1") auto
  then have res: "y = Some (Lim m, 0, n)" "m' = m2" using assms(3) Some t by (simp_all add: copy_each_def)
  have "off + n \<le> length (lookup m a)" "a < Lim m" and elems: "\<And>x. x \<in> set ?xs \<Longrightarrow> set (foot m x) \<subseteq> {..<Lim m} \<and> shape m x"
    using assms(1,2) Some t by (auto simp: slice_defs list_all_iff)
  moreover have "agree {..<Lim m} m ?m1" by (auto simp: agree_def cell_store)
  ultimately obtain ys where ys: "lookup m2 (Lim m) = ys" "Lim ?m1 \<le> Lim m2" "agree ({..<Lim ?m1} - {Lim m}) ?m1 m2"
      "map (load m2) ys = map (val \<circ> load m) ?xs" "list_all (shape m2) ys"
      "within (Lim ?m1) (Lim m2) (concat (map (foot m2) ys))"
    using copy_loop_fills [OF loop, of "Lim m" m ?xs] by (auto simp: lookup_store Lim_store)
  have len: "length ys = n"
    using arg_cong [OF ys(4), of length] \<open>off + n \<le> _\<close> by simp
  have "extends m m2"
    using ys(2,3) by (auto simp: extends_def agree_def Lim_store cell_store)
  moreover have "within (Lim m) (Lim m2) (Lim m # concat (map (foot m2) ys))"
    using ys(6) by (intro within_Cons) (simp add: Lim_store)
  ultimately show ?thesis
    using ys(1,4,5) len by (simp add: copy_of_def slice_defs res Some t)
qed

end

sublocale slice_copy \<subseteq> loop: deep_copy "copy_each lookup store into zero" "slice_foot lookup foot" "slice_load lookup load"
    "slice_shape lookup shape" "map val"
  for zero
  using slice_frame copy_each_copies by unfold_locales blast+

interpretation string_heap: array_heap StringArrays store_strings
  by unfold_locales (auto simp: store_strings_def cell_def)

interpretation condition_heap: array_heap ConditionArrays store_conditions
  by unfold_locales (auto simp: store_conditions_def cell_def)

interpretation reference_heap: array_heap ReferenceArrays store_references
  by unfold_locales (auto simp: store_references_def cell_def)

interpretation configuration_heap: array_heap ConfigurationArrays store_configurations
  by unfold_locales (auto simp: store_configurations_def cell_def)

section \<open>Pointers to structs\<close>

definition ptr_foot :: "('st mem \<Rightarrow> 'st \<Rightarrow> addr list) \<Rightarrow> 'st mem \<Rightarrow> addr option \<Rightarrow> addr list" where
  "ptr_foot foot m p = (case p of None \<Rightarrow> [] | Some a \<Rightarrow> a # foot m (Structs m a))"

definition ptr_load :: "('st mem \<Rightarrow> 'st \<Rightarrow> 'v) \<Rightarrow> 'st mem \<Rightarrow> addr option \<Rightarrow> 'v option" where
  "ptr_load load m p = map_option (\<lambda>a. load m (Structs m a)) p"

definition ptr_shape :: "('st mem \<Rightarrow> 'st \<Rightarrow> bool) \<Rightarrow> 'st mem \<Rightarrow> addr option \<Rightarrow> bool" where
  "ptr_shape shape m p = (case p of None \<Rightarrow> True | Some a \<Rightarrow> shape m (Structs m a))"

lemmas ptr_defs = ptr_foot_def ptr_load_def ptr_shape_def

locale struct_copy = deep_copy into foot load shape val
  for into :: "'st \<Rightarrow> ('st mem, 'st) state" and foot load shape val +
  fixes zero :: 'st
begin

lemma DeepCopy_copies:
  assumes "set (ptr_foot foot m p) \<subseteq> {..<Lim m}" and "ptr_shape shape m p"
    and "run_state (DeepCopy into zero p) m = (q, m')"
  shows "extends m m' \<and> copy_of (ptr_foot foot) (ptr_load load) (ptr_shape shape) (map_option val) m p q (Lim m) (Lim m') m'"
proof (cases p)
  case None
  with assms(3) show ?thesis by (auto simp: DeepCopy_def copy_of_def ptr_defs within_def)
next
  case (Some a)
  let ?x = "Structs m a" and ?m1 = "store_struct (Lim m) zero (m\<lparr>Lim := Suc (Lim m)\<rparr>)"
  have a: "a < Lim m" "set (foot m ?x) \<subseteq> {..<Lim m}" "shape m ?x" using assms(1,2) Some by (auto simp: ptr_defs)
  have m1: "extends m ?m1" by (auto simp: extends_def agree_def)
  from frame [OF extendsD [OF m1 a(2)]] a have x: "set (foot ?m1 ?x) \<subseteq> {..<Lim ?m1}" "shape ?m1 ?x" "load ?m1 ?x = load m ?x"
    by auto
  have same: "Structs ?m1 a = ?x" using a(1) by (simp add: store_struct_def)
  obtain y m2 where run: "run_state (into ?x) ?m1 = (y, m2)" by fastforce
  from copies [OF x(1,2) run] have y: "extends ?m1 m2" "load m2 y = val (load m ?x)" "shape m2 y"
      "within (Suc (Lim m)) (Lim m2) (foot m2 y)" by (auto simp: copy_of_def x(3))
  let ?m3 = "store_struct (Lim m) y m2"
  have res: "q = Some (Lim m)" "m' = ?m3" using assms(3) run same by (simp_all add: DeepCopy_def Some)
  have "agree (set (foot m2 y)) m2 ?m3"
    using within_bounds(1) [OF y(4)] by (fastforce simp: agree_def)
  from frame [OF this] have y': "foot ?m3 y = foot m2 y" "load ?m3 y = load m2 y" "shape ?m3 y" using y(3) by auto
  have "extends m ?m3"
    using extends_trans [OF m1 y(1)] by (auto simp: extends_def agree_def)
  moreover have "within (Lim m) (Lim m2) (Lim m # foot m2 y)" using y(4) by (rule within_Cons)
  ultimately show ?thesis using y y' by (simp add: copy_of_def ptr_defs res Some)
qed

lemma ptr_frame:
  "agree (set (ptr_foot foot m p)) m m' \<Longrightarrow> ptr_foot foot m' p = ptr_foot foot m p \<and>
    ptr_load load m' p = ptr_load load m p \<and> ptr_shape shape m' p = ptr_shape shape m p"
proof (cases p)
  case (Some a)
  assume agree: "agree (set (ptr_foot foot m p)) m m'"
  then have "Structs m' a = Structs m a" by (auto simp: Some ptr_foot_def agree_def cell_def)
  moreover have "agree (set (foot m (Structs m a))) m m'"
    by (rule agree_subset [OF agree]) (auto simp: Some ptr_foot_def)
  ultimately show ?thesis using frame by (auto simp: Some ptr_defs)
qed (simp add: ptr_defs)

end

sublocale struct_copy \<subseteq> pointer: deep_copy "DeepCopy into zero" "ptr_foot foot" "ptr_load load" "ptr_shape shape" "map_option val"
  using ptr_frame DeepCopy_copies by unfold_locales blast+

end
