(* ===== verification/Deep_Copy.thy ===== *)
theory Deep_Copy
  imports Memory
begin

text \<open>
  \<^verbatim>\<open>api/v1/zz_generated.deepcopy.go\<close>: for every API type its \<^verbatim>\<open>DeepCopyInto\<close> and its
  \<^verbatim>\<open>DeepCopy\<close>, statement by statement in the order of the source, on the memory of \<open>Memory\<close>. A
  \<^verbatim>\<open>DeepCopyInto\<close> is given what \<^verbatim>\<open>in\<close> points to and returns what it leaves behind \<^verbatim>\<open>out\<close>. The
  copy functions of apimachinery's own types (quantities, conditions, object and list metadata) are the
  parameter \<open>K\<close>; these types are values here. \<^verbatim>\<open>TypeMeta\<close>, which is copied as a value, is not part
  of the records.

  For each type, \<open>_foot\<close> lists the cells of a value in memory, \<open>_load\<close> reads it as the value the
  rest of the development works on, \<open>_shape\<close> says that its slices are in range, and \<open>_val\<close> is what the
  libraries' copy functions make of it. Every copy function is an instance of the locale \<open>deep_copy\<close>.
  The properties say that a copy of a configuration, or of a list of them, reads like the original and
  shares no cell with it, which is what allows the reconcilers' models to treat the working copy and the
  original as two values.
\<close>

section \<open>Types\<close>

text \<open>Of \<^verbatim>\<open>metav1.ListMeta\<close>, the fields of a list read from the API server.\<close>

record ListMeta =
  ResourceVersion :: string
  Continue :: string

record 'i ConfigurationList_repr =
  ListMetaField :: ListMeta
  Items :: 'i

type_synonym ConfigurationList = "(Configuration list) ConfigurationList_repr"

text \<open>The copy functions of apimachinery's types, and what is relied on: a copy is equal to the original.\<close>

record copiers =
  copyQuantity :: "quantity \<Rightarrow> quantity"
  copyCondition :: "Condition \<Rightarrow> Condition"
  copyObjectMeta :: "ObjectMeta \<Rightarrow> ObjectMeta"
  copyListMeta :: "ListMeta \<Rightarrow> ListMeta"

definition copier_laws :: "copiers \<Rightarrow> bool" where
  "copier_laws K \<longleftrightarrow> (\<forall>q. copyQuantity K q = q) \<and> (\<forall>c. copyCondition K c = c) \<and> (\<forall>o'. copyObjectMeta K o' = o') \<and>
     (\<forall>l. copyListMeta K l = l)"

section \<open>The other representation of a struct\<close>

definition map_CNIConfSpec :: "('b \<Rightarrow> 'b') \<Rightarrow> ('b) CNIConfSpec_repr \<Rightarrow> ('b') CNIConfSpec_repr" where
  "map_CNIConfSpec f x = \<lparr>
    CNIConfigPriority = CNIConfigPriority x, CNIConfigDir = CNIConfigDir x, MountCNIConfDir = MountCNIConfDir x,
    CNIBinDir = CNIBinDir x, CNIConfFile = CNIConfFile x, LocalBinDir = LocalBinDir x,
    MountLocalBinDir = f (MountLocalBinDir x), NonPrimaryCNI = f (NonPrimaryCNI x)\<rparr>"

definition map_ComponentSpec :: "('b \<Rightarrow> 'b') \<Rightarrow> ('b) ComponentSpec_repr \<Rightarrow> ('b') ComponentSpec_repr" where
  "map_ComponentSpec f x = \<lparr>
    EnableLB = f (EnableLB x), EnableNP = f (EnableNP x), EnableExternalVPC = f (EnableExternalVPC x),
    HardwareOffload = f (HardwareOffload x), EnableLBSVC = f (EnableLBSVC x),
    EnableKeepVMIP = f (EnableKeepVMIP x), LsDnatModDlDst = f (LsDnatModDlDst x),
    LsCtSkipOstLportIPS = f (LsCtSkipOstLportIPS x), CheckGateway = f (CheckGateway x),
    LogicalGateway = f (LogicalGateway x), EnableBindLocalIP = f (EnableBindLocalIP x),
    SecureServing = f (SecureServing x), U2OFeaturesField = U2OFeaturesField x,
    U2OInterconnection = f (U2OInterconnection x), EnableTProxy = f (EnableTProxy x), EnableIC = f (EnableIC x),
    EnableNATGateway = f (EnableNATGateway x), EnableOVNIPSec = f (EnableOVNIPSec x), EnableANP = f (EnableANP x),
    SetVLANTxOff = f (SetVLANTxOff x), OVSDBConTimeout = OVSDBConTimeout x,
    OVSDBInactivityTimeout = OVSDBInactivityTimeout x,
    EnableLiveMigrationOptimize = f (EnableLiveMigrationOptimize x), NPEnforcement = NPEnforcement x,
    EnableDNSNameResolver = f (EnableDNSNameResolver x), EnableOVNLBPreferLocal = f (EnableOVNLBPreferLocal x)\<rparr>"

definition map_RegistrySpec :: "('s \<Rightarrow> 's') \<Rightarrow> ('s) RegistrySpec_repr \<Rightarrow> ('s') RegistrySpec_repr" where
  "map_RegistrySpec g x = \<lparr>
    Address = Address x, ImagePullSecrets = g (ImagePullSecrets x)\<rparr>"

definition map_GlobalSpec :: "('s \<Rightarrow> 's') \<Rightarrow> ('s) GlobalSpec_repr \<Rightarrow> ('s') GlobalSpec_repr" where
  "map_GlobalSpec g x = \<lparr>
    Registry = map_RegistrySpec g (Registry x), Images = Images x\<rparr>"

definition map_NetworkingSpec :: "('b \<Rightarrow> 'b') \<Rightarrow> ('b) NetworkingSpec_repr \<Rightarrow> ('b') NetworkingSpec_repr" where
  "map_NetworkingSpec f x = \<lparr>
    NetStack = NetStack x, EnableSSL = f (EnableSSL x), NetworkType = NetworkType x, TunnelType = TunnelType x,
    Interface = Interface x, DpdkTunnelInterface = DpdkTunnelInterface x, ExcludeIPS = ExcludeIPS x,
    PodNicType = PodNicType x, Vlan = Vlan x, ExchangeLinkName = f (ExchangeLinkName x),
    EnableEIPSNAT = f (EnableEIPSNAT x), DefaultSubnet = DefaultSubnet x, DefaultVPC = DefaultVPC x,
    NodeSubnet = NodeSubnet x, EnableECMP = f (EnableECMP x), EnableMetrics = f (EnableMetrics x),
    NodeLocalDNSIPS = NodeLocalDNSIPS x, ProbeInterval = ProbeInterval x,
    OvnNorthdProbeInterval = OvnNorthdProbeInterval x, OvnLeaderProbeInterval = OvnLeaderProbeInterval x,
    OvnRemoteProbeInterval = OvnRemoteProbeInterval x, OvnRemoteOpenflowInterval = OvnRemoteOpenflowInterval x,
    OvnNorthdNThreads = OvnNorthdNThreads x, EnableCompact = f (EnableCompact x),
    SkipConnTrackDstCIDRs = SkipConnTrackDstCIDRs x, ExternalGatewayConfigNS = ExternalGatewayConfigNS x\<rparr>"

definition map_DebugSpec :: "('b \<Rightarrow> 'b') \<Rightarrow> ('b) DebugSpec_repr \<Rightarrow> ('b') DebugSpec_repr" where
  "map_DebugSpec f x = \<lparr>
    EnableMirror = f (EnableMirror x), MirrorInterface = MirrorInterface x\<rparr>"

definition map_ConfigurationSpec :: "('b \<Rightarrow> 'b') \<Rightarrow> ('s \<Rightarrow> 's') \<Rightarrow> ('b, 's) ConfigurationSpec_repr \<Rightarrow> ('b', 's') ConfigurationSpec_repr" where
  "map_ConfigurationSpec f g x = \<lparr>
    Global = map_GlobalSpec g (Global x), ImagePullPolicy = ImagePullPolicy x,
    MasterNodesLabel = MasterNodesLabel x, Networking = map_NetworkingSpec f (Networking x),
    Component = map_ComponentSpec f (Component x), IPv4 = IPv4 x, IPv6 = IPv6 x, DualStack = DualStack x,
    Performance = Performance x, Debug = map_DebugSpec f (Debug x), CNIConf = map_CNIConfSpec f (CNIConf x),
    KubeletConfig = KubeletConfig x, LogConfig = LogConfig x, OpenVSwitchDir = OpenVSwitchDir x,
    OVNIPSecKeysDir = OVNIPSecKeysDir x, OVNDir = OVNDir x,
    DisableModulesManagement = f (DisableModulesManagement x), HybridDPDK = f (HybridDPDK x),
    HugepageSizeType = HugepageSizeType x, HugePages = HugePages x, DPDKImageTag = DPDKImageTag x,
    DPDKCPU = DPDKCPU x, DPDKMemory = DPDKMemory x, OVNCentral = OVNCentral x, OVSOVN = OVSOVN x,
    KubeOVNController = KubeOVNController x, KubeOVNCNI = KubeOVNCNI x, KubeOVNPinger = KubeOVNPinger x,
    KubeOVNMonitor = KubeOVNMonitor x\<rparr>"

definition map_ConfigurationStatus :: "('s \<Rightarrow> 's') \<Rightarrow> ('c \<Rightarrow> 'c') \<Rightarrow> ('r \<Rightarrow> 'r') \<Rightarrow> ('s, 'c, 'r) ConfigurationStatus_repr \<Rightarrow> ('s', 'c', 'r') ConfigurationStatus_repr" where
  "map_ConfigurationStatus g h k x = \<lparr>
    MatchingNodeAddresses = g (MatchingNodeAddresses x), Conditions = h (Conditions x), StatusText = StatusText x,
    ManagedObjects = k (ManagedObjects x)\<rparr>"

definition map_Configuration :: "('b \<Rightarrow> 'b') \<Rightarrow> ('s \<Rightarrow> 's') \<Rightarrow> ('c \<Rightarrow> 'c') \<Rightarrow> ('r \<Rightarrow> 'r') \<Rightarrow> ('b, 's, 'c, 'r) Configuration_repr \<Rightarrow> ('b', 's', 'c', 'r') Configuration_repr" where
  "map_Configuration f g h k x = \<lparr>
    Meta = Meta x, Spec = map_ConfigurationSpec f g (Spec x), Status = map_ConfigurationStatus g h k (Status x)\<rparr>"

definition map_ConfigurationList :: "('i \<Rightarrow> 'i') \<Rightarrow> ('i) ConfigurationList_repr \<Rightarrow> ('i') ConfigurationList_repr" where
  "map_ConfigurationList f x = \<lparr>
    ListMetaField = ListMetaField x, Items = f (Items x)\<rparr>"

section \<open>Zero values\<close>

definition zero_ListMeta :: ListMeta where
  "zero_ListMeta = \<lparr>ResourceVersion = '''', Continue = ''''\<rparr>"

definition zero_GroupVersionKind :: GroupVersionKind where
  "zero_GroupVersionKind = \<lparr>Group = '''', Version = '''', GVKKind = ''''\<rparr>"

definition zero_ObjectReference :: ObjectReference where
  "zero_ObjectReference = \<lparr>GVK = zero_GroupVersionKind, RefName = ''''\<rparr>"

definition zero_CNIConfSpec_mem :: "(addr option) CNIConfSpec_repr" where
  "zero_CNIConfSpec_mem = map_CNIConfSpec (\<lambda>_. None) zero_CNIConfSpec"

definition zero_ComponentSpec_mem :: "(addr option) ComponentSpec_repr" where
  "zero_ComponentSpec_mem = map_ComponentSpec (\<lambda>_. None) zero_ComponentSpec"

definition zero_RegistrySpec_mem :: "(slice) RegistrySpec_repr" where
  "zero_RegistrySpec_mem = map_RegistrySpec (\<lambda>_. None) zero_RegistrySpec"

definition zero_GlobalSpec_mem :: "(slice) GlobalSpec_repr" where
  "zero_GlobalSpec_mem = map_GlobalSpec (\<lambda>_. None) zero_GlobalSpec"

definition zero_NetworkingSpec_mem :: "(addr option) NetworkingSpec_repr" where
  "zero_NetworkingSpec_mem = map_NetworkingSpec (\<lambda>_. None) zero_NetworkingSpec"

definition zero_DebugSpec_mem :: "(addr option) DebugSpec_repr" where
  "zero_DebugSpec_mem = map_DebugSpec (\<lambda>_. None) zero_DebugSpec"

definition zero_ConfigurationSpec_mem :: "(addr option, slice) ConfigurationSpec_repr" where
  "zero_ConfigurationSpec_mem = map_ConfigurationSpec (\<lambda>_. None) (\<lambda>_. None) zero_ConfigurationSpec"

definition zero_ConfigurationStatus_mem :: "(slice, slice, slice) ConfigurationStatus_repr" where
  "zero_ConfigurationStatus_mem = map_ConfigurationStatus (\<lambda>_. None) (\<lambda>_. None) (\<lambda>_. None) zero_ConfigurationStatus"

definition zero_Configuration_mem :: "(addr option, slice, slice, slice) Configuration_repr" where
  "zero_Configuration_mem = map_Configuration (\<lambda>_. None) (\<lambda>_. None) (\<lambda>_. None) (\<lambda>_. None) zero_Configuration"

definition zero_ConfigurationList_mem :: "slice ConfigurationList_repr" where
  "zero_ConfigurationList_mem = \<lparr>ListMetaField = zero_ListMeta, Items = None\<rparr>"

section \<open>DeepCopyInto\<close>

definition CNIConfSpec_DeepCopyInto :: "(addr option) CNIConfSpec_repr \<Rightarrow> ('st mem, (addr option) CNIConfSpec_repr) state" where
  "CNIConfSpec_DeepCopyInto inp = do {
     let out = inp;
     v \<leftarrow> copy_bool (MountLocalBinDir inp);
     let out = out\<lparr>MountLocalBinDir := v\<rparr>;
     v \<leftarrow> copy_bool (NonPrimaryCNI inp);
     let out = out\<lparr>NonPrimaryCNI := v\<rparr>;
     State_Monad.return out
   }"

definition CPUMemSpec_DeepCopyInto :: "copiers \<Rightarrow> CPUMemSpec \<Rightarrow> ('st mem, CPUMemSpec) state" where
  "CPUMemSpec_DeepCopyInto K inp = do {
     let out = inp;
     let out = out\<lparr>CPU := copyQuantity K (CPU inp)\<rparr>;
     let out = out\<lparr>Memory := copyQuantity K (Memory inp)\<rparr>;
     let out = out\<lparr>EphemeralStorage := copyQuantity K (EphemeralStorage inp)\<rparr>;
     State_Monad.return out
   }"

definition ComponentSpec_DeepCopyInto :: "(addr option) ComponentSpec_repr \<Rightarrow> ('st mem, (addr option) ComponentSpec_repr) state" where
  "ComponentSpec_DeepCopyInto inp = do {
     let out = inp;
     v \<leftarrow> copy_bool (EnableLB inp);
     let out = out\<lparr>EnableLB := v\<rparr>;
     v \<leftarrow> copy_bool (EnableNP inp);
     let out = out\<lparr>EnableNP := v\<rparr>;
     v \<leftarrow> copy_bool (EnableExternalVPC inp);
     let out = out\<lparr>EnableExternalVPC := v\<rparr>;
     v \<leftarrow> copy_bool (HardwareOffload inp);
     let out = out\<lparr>HardwareOffload := v\<rparr>;
     v \<leftarrow> copy_bool (EnableLBSVC inp);
     let out = out\<lparr>EnableLBSVC := v\<rparr>;
     v \<leftarrow> copy_bool (EnableKeepVMIP inp);
     let out = out\<lparr>EnableKeepVMIP := v\<rparr>;
     v \<leftarrow> copy_bool (LsDnatModDlDst inp);
     let out = out\<lparr>LsDnatModDlDst := v\<rparr>;
     v \<leftarrow> copy_bool (LsCtSkipOstLportIPS inp);
     let out = out\<lparr>LsCtSkipOstLportIPS := v\<rparr>;
     v \<leftarrow> copy_bool (CheckGateway inp);
     let out = out\<lparr>CheckGateway := v\<rparr>;
     v \<leftarrow> copy_bool (LogicalGateway inp);
     let out = out\<lparr>LogicalGateway := v\<rparr>;
     v \<leftarrow> copy_bool (EnableBindLocalIP inp);
     let out = out\<lparr>EnableBindLocalIP := v\<rparr>;
     v \<leftarrow> copy_bool (SecureServing inp);
     let out = out\<lparr>SecureServing := v\<rparr>;
     let out = out\<lparr>U2OFeaturesField := U2OFeaturesField inp\<rparr>;
     v \<leftarrow> copy_bool (U2OInterconnection inp);
     let out = out\<lparr>U2OInterconnection := v\<rparr>;
     v \<leftarrow> copy_bool (EnableTProxy inp);
     let out = out\<lparr>EnableTProxy := v\<rparr>;
     v \<leftarrow> copy_bool (EnableIC inp);
     let out = out\<lparr>EnableIC := v\<rparr>;
     v \<leftarrow> copy_bool (EnableNATGateway inp);
     let out = out\<lparr>EnableNATGateway := v\<rparr>;
     v \<leftarrow> copy_bool (EnableOVNIPSec inp);
     let out = out\<lparr>EnableOVNIPSec := v\<rparr>;
     v \<leftarrow> copy_bool (EnableANP inp);
     let out = out\<lparr>EnableANP := v\<rparr>;
     v \<leftarrow> copy_bool (SetVLANTxOff inp);
     let out = out\<lparr>SetVLANTxOff := v\<rparr>;
     v \<leftarrow> copy_bool (EnableLiveMigrationOptimize inp);
     let out = out\<lparr>EnableLiveMigrationOptimize := v\<rparr>;
     v \<leftarrow> copy_bool (EnableDNSNameResolver inp);
     let out = out\<lparr>EnableDNSNameResolver := v\<rparr>;
     v \<leftarrow> copy_bool (EnableOVNLBPreferLocal inp);
     let out = out\<lparr>EnableOVNLBPreferLocal := v\<rparr>;
     State_Monad.return out
   }"

definition RegistrySpec_DeepCopyInto :: "(slice) RegistrySpec_repr \<Rightarrow> ('st mem, (slice) RegistrySpec_repr) state" where
  "RegistrySpec_DeepCopyInto inp = do {
     let out = inp;
     v \<leftarrow> copy_slice StringArrays store_strings '''' (ImagePullSecrets inp);
     let out = out\<lparr>ImagePullSecrets := v\<rparr>;
     State_Monad.return out
   }"

definition GlobalSpec_DeepCopyInto :: "(slice) GlobalSpec_repr \<Rightarrow> ('st mem, (slice) GlobalSpec_repr) state" where
  "GlobalSpec_DeepCopyInto inp = do {
     let out = inp;
     v \<leftarrow> RegistrySpec_DeepCopyInto (Registry inp);
     let out = out\<lparr>Registry := v\<rparr>;
     let out = out\<lparr>Images := Images inp\<rparr>;
     State_Monad.return out
   }"

definition NetworkingSpec_DeepCopyInto :: "(addr option) NetworkingSpec_repr \<Rightarrow> ('st mem, (addr option) NetworkingSpec_repr) state" where
  "NetworkingSpec_DeepCopyInto inp = do {
     let out = inp;
     v \<leftarrow> copy_bool (EnableSSL inp);
     let out = out\<lparr>EnableSSL := v\<rparr>;
     let out = out\<lparr>Vlan := Vlan inp\<rparr>;
     v \<leftarrow> copy_bool (ExchangeLinkName inp);
     let out = out\<lparr>ExchangeLinkName := v\<rparr>;
     v \<leftarrow> copy_bool (EnableEIPSNAT inp);
     let out = out\<lparr>EnableEIPSNAT := v\<rparr>;
     v \<leftarrow> copy_bool (EnableECMP inp);
     let out = out\<lparr>EnableECMP := v\<rparr>;
     v \<leftarrow> copy_bool (EnableMetrics inp);
     let out = out\<lparr>EnableMetrics := v\<rparr>;
     v \<leftarrow> copy_bool (EnableCompact inp);
     let out = out\<lparr>EnableCompact := v\<rparr>;
     State_Monad.return out
   }"

definition DebugSpec_DeepCopyInto :: "(addr option) DebugSpec_repr \<Rightarrow> ('st mem, (addr option) DebugSpec_repr) state" where
  "DebugSpec_DeepCopyInto inp = do {
     let out = inp;
     v \<leftarrow> copy_bool (EnableMirror inp);
     let out = out\<lparr>EnableMirror := v\<rparr>;
     State_Monad.return out
   }"

definition ResourceSpec_DeepCopyInto :: "copiers \<Rightarrow> ResourceSpec \<Rightarrow> ('st mem, ResourceSpec) state" where
  "ResourceSpec_DeepCopyInto K inp = do {
     let out = inp;
     v \<leftarrow> CPUMemSpec_DeepCopyInto K (Requests inp);
     let out = out\<lparr>Requests := v\<rparr>;
     v \<leftarrow> CPUMemSpec_DeepCopyInto K (Limits inp);
     let out = out\<lparr>Limits := v\<rparr>;
     State_Monad.return out
   }"

definition ConfigurationSpec_DeepCopyInto :: "copiers \<Rightarrow> (addr option, slice) ConfigurationSpec_repr \<Rightarrow> ('st mem, (addr option, slice) ConfigurationSpec_repr) state" where
  "ConfigurationSpec_DeepCopyInto K inp = do {
     let out = inp;
     v \<leftarrow> GlobalSpec_DeepCopyInto (Global inp);
     let out = out\<lparr>Global := v\<rparr>;
     v \<leftarrow> NetworkingSpec_DeepCopyInto (Networking inp);
     let out = out\<lparr>Networking := v\<rparr>;
     v \<leftarrow> ComponentSpec_DeepCopyInto (Component inp);
     let out = out\<lparr>Component := v\<rparr>;
     let out = out\<lparr>IPv4 := IPv4 inp\<rparr>;
     let out = out\<lparr>IPv6 := IPv6 inp\<rparr>;
     let out = out\<lparr>DualStack := DualStack inp\<rparr>;
     let out = out\<lparr>Performance := Performance inp\<rparr>;
     v \<leftarrow> DebugSpec_DeepCopyInto (Debug inp);
     let out = out\<lparr>Debug := v\<rparr>;
     v \<leftarrow> CNIConfSpec_DeepCopyInto (CNIConf inp);
     let out = out\<lparr>CNIConf := v\<rparr>;
     let out = out\<lparr>KubeletConfig := KubeletConfig inp\<rparr>;
     let out = out\<lparr>LogConfig := LogConfig inp\<rparr>;
     v \<leftarrow> copy_bool (DisableModulesManagement inp);
     let out = out\<lparr>DisableModulesManagement := v\<rparr>;
     v \<leftarrow> copy_bool (HybridDPDK inp);
     let out = out\<lparr>HybridDPDK := v\<rparr>;
     let out = out\<lparr>HugePages := copyQuantity K (HugePages inp)\<rparr>;
     let out = out\<lparr>DPDKCPU := copyQuantity K (DPDKCPU inp)\<rparr>;
     let out = out\<lparr>DPDKMemory := copyQuantity K (DPDKMemory inp)\<rparr>;
     v \<leftarrow> ResourceSpec_DeepCopyInto K (OVNCentral inp);
     let out = out\<lparr>OVNCentral := v\<rparr>;
     v \<leftarrow> ResourceSpec_DeepCopyInto K (OVSOVN inp);
     let out = out\<lparr>OVSOVN := v\<rparr>;
     v \<leftarrow> ResourceSpec_DeepCopyInto K (KubeOVNController inp);
     let out = out\<lparr>KubeOVNController := v\<rparr>;
     v \<leftarrow> ResourceSpec_DeepCopyInto K (KubeOVNCNI inp);
     let out = out\<lparr>KubeOVNCNI := v\<rparr>;
     v \<leftarrow> ResourceSpec_DeepCopyInto K (KubeOVNPinger inp);
     let out = out\<lparr>KubeOVNPinger := v\<rparr>;
     v \<leftarrow> ResourceSpec_DeepCopyInto K (KubeOVNMonitor inp);
     let out = out\<lparr>KubeOVNMonitor := v\<rparr>;
     State_Monad.return out
   }"

definition ConfigurationStatus_DeepCopyInto :: "copiers \<Rightarrow> (slice, slice, slice) ConfigurationStatus_repr \<Rightarrow> ('st mem, (slice, slice, slice) ConfigurationStatus_repr) state" where
  "ConfigurationStatus_DeepCopyInto K inp = do {
     let out = inp;
     v \<leftarrow> copy_slice StringArrays store_strings '''' (MatchingNodeAddresses inp);
     let out = out\<lparr>MatchingNodeAddresses := v\<rparr>;
     v \<leftarrow> copy_each ConditionArrays store_conditions (\<lambda>c. State_Monad.return (copyCondition K c)) zero_Condition (Conditions inp);
     let out = out\<lparr>Conditions := v\<rparr>;
     v \<leftarrow> copy_slice ReferenceArrays store_references zero_ObjectReference (ManagedObjects inp);
     let out = out\<lparr>ManagedObjects := v\<rparr>;
     State_Monad.return out
   }"

definition Configuration_DeepCopyInto :: "copiers \<Rightarrow> (addr option, slice, slice, slice) Configuration_repr \<Rightarrow> ('st mem, (addr option, slice, slice, slice) Configuration_repr) state" where
  "Configuration_DeepCopyInto K inp = do {
     let out = inp;
     let out = out\<lparr>Meta := copyObjectMeta K (Meta inp)\<rparr>;
     v \<leftarrow> ConfigurationSpec_DeepCopyInto K (Spec inp);
     let out = out\<lparr>Spec := v\<rparr>;
     v \<leftarrow> ConfigurationStatus_DeepCopyInto K (Status inp);
     let out = out\<lparr>Status := v\<rparr>;
     State_Monad.return out
   }"

definition ConfigurationList_DeepCopyInto :: "copiers \<Rightarrow> (slice) ConfigurationList_repr \<Rightarrow> ('st mem, (slice) ConfigurationList_repr) state" where
  "ConfigurationList_DeepCopyInto K inp = do {
     let out = inp;
     let out = out\<lparr>ListMetaField := copyListMeta K (ListMetaField inp)\<rparr>;
     v \<leftarrow> copy_each ConfigurationArrays store_configurations (Configuration_DeepCopyInto K) zero_Configuration_mem (Items inp);
     let out = out\<lparr>Items := v\<rparr>;
     State_Monad.return out
   }"

definition GroupVersionKind_DeepCopyInto :: "GroupVersionKind \<Rightarrow> ('st mem, GroupVersionKind) state" where
  "GroupVersionKind_DeepCopyInto inp = State_Monad.return inp"

definition ImageDetails_DeepCopyInto :: "ImageDetails \<Rightarrow> ('st mem, ImageDetails) state" where
  "ImageDetails_DeepCopyInto inp = do {
     let out = inp;
     let out = out\<lparr>KubeOVNImage := KubeOVNImage inp\<rparr>;
     let out = out\<lparr>NATGatewayImage := NATGatewayImage inp\<rparr>;
     State_Monad.return out
   }"

definition KubeOVNImageSpec_DeepCopyInto :: "KubeOVNImageSpec \<Rightarrow> ('st mem, KubeOVNImageSpec) state" where
  "KubeOVNImageSpec_DeepCopyInto inp = State_Monad.return inp"

definition KubeletConfigSpec_DeepCopyInto :: "KubeletConfigSpec \<Rightarrow> ('st mem, KubeletConfigSpec) state" where
  "KubeletConfigSpec_DeepCopyInto inp = State_Monad.return inp"

definition LogConfigSpec_DeepCopyInto :: "LogConfigSpec \<Rightarrow> ('st mem, LogConfigSpec) state" where
  "LogConfigSpec_DeepCopyInto inp = State_Monad.return inp"

definition NATGatewayImageSpec_DeepCopyInto :: "NATGatewayImageSpec \<Rightarrow> ('st mem, NATGatewayImageSpec) state" where
  "NATGatewayImageSpec_DeepCopyInto inp = State_Monad.return inp"

definition NetworkStackSpec_DeepCopyInto :: "NetworkStackSpec \<Rightarrow> ('st mem, NetworkStackSpec) state" where
  "NetworkStackSpec_DeepCopyInto inp = State_Monad.return inp"

definition ObjectReference_DeepCopyInto :: "ObjectReference \<Rightarrow> ('st mem, ObjectReference) state" where
  "ObjectReference_DeepCopyInto inp = do {
     let out = inp;
     let out = out\<lparr>GVK := GVK inp\<rparr>;
     State_Monad.return out
   }"

definition PerformanceSpec_DeepCopyInto :: "PerformanceSpec \<Rightarrow> ('st mem, PerformanceSpec) state" where
  "PerformanceSpec_DeepCopyInto inp = State_Monad.return inp"

definition U2OFeatures_DeepCopyInto :: "U2OFeatures \<Rightarrow> ('st mem, U2OFeatures) state" where
  "U2OFeatures_DeepCopyInto inp = State_Monad.return inp"

definition VlanSpec_DeepCopyInto :: "VlanSpec \<Rightarrow> ('st mem, VlanSpec) state" where
  "VlanSpec_DeepCopyInto inp = State_Monad.return inp"

section \<open>DeepCopy\<close>

definition CNIConfSpec_DeepCopy :: "addr option \<Rightarrow> (((addr option) CNIConfSpec_repr) mem, addr option) state" where
  "CNIConfSpec_DeepCopy = DeepCopy CNIConfSpec_DeepCopyInto zero_CNIConfSpec_mem"

definition CPUMemSpec_DeepCopy :: "copiers \<Rightarrow> addr option \<Rightarrow> ((CPUMemSpec) mem, addr option) state" where
  "CPUMemSpec_DeepCopy K = DeepCopy (CPUMemSpec_DeepCopyInto K) zero_CPUMemSpec"

definition ComponentSpec_DeepCopy :: "addr option \<Rightarrow> (((addr option) ComponentSpec_repr) mem, addr option) state" where
  "ComponentSpec_DeepCopy = DeepCopy ComponentSpec_DeepCopyInto zero_ComponentSpec_mem"

definition Configuration_DeepCopy :: "copiers \<Rightarrow> addr option \<Rightarrow> (((addr option, slice, slice, slice) Configuration_repr) mem, addr option) state" where
  "Configuration_DeepCopy K = DeepCopy (Configuration_DeepCopyInto K) zero_Configuration_mem"

definition Configuration_DeepCopyObject :: "copiers \<Rightarrow> addr option \<Rightarrow> (((addr option, slice, slice, slice) Configuration_repr) mem, addr option) state" where
  "Configuration_DeepCopyObject K p = do {
     c \<leftarrow> Configuration_DeepCopy K p;
     State_Monad.return (case c of Some a \<Rightarrow> Some a | None \<Rightarrow> None)
   }"

definition ConfigurationList_DeepCopy :: "copiers \<Rightarrow> addr option \<Rightarrow> (((slice) ConfigurationList_repr) mem, addr option) state" where
  "ConfigurationList_DeepCopy K = DeepCopy (ConfigurationList_DeepCopyInto K) zero_ConfigurationList_mem"

definition ConfigurationList_DeepCopyObject :: "copiers \<Rightarrow> addr option \<Rightarrow> (((slice) ConfigurationList_repr) mem, addr option) state" where
  "ConfigurationList_DeepCopyObject K p = do {
     c \<leftarrow> ConfigurationList_DeepCopy K p;
     State_Monad.return (case c of Some a \<Rightarrow> Some a | None \<Rightarrow> None)
   }"

definition ConfigurationSpec_DeepCopy :: "copiers \<Rightarrow> addr option \<Rightarrow> (((addr option, slice) ConfigurationSpec_repr) mem, addr option) state" where
  "ConfigurationSpec_DeepCopy K = DeepCopy (ConfigurationSpec_DeepCopyInto K) zero_ConfigurationSpec_mem"

definition ConfigurationStatus_DeepCopy :: "copiers \<Rightarrow> addr option \<Rightarrow> (((slice, slice, slice) ConfigurationStatus_repr) mem, addr option) state" where
  "ConfigurationStatus_DeepCopy K = DeepCopy (ConfigurationStatus_DeepCopyInto K) zero_ConfigurationStatus_mem"

definition DebugSpec_DeepCopy :: "addr option \<Rightarrow> (((addr option) DebugSpec_repr) mem, addr option) state" where
  "DebugSpec_DeepCopy = DeepCopy DebugSpec_DeepCopyInto zero_DebugSpec_mem"

definition GlobalSpec_DeepCopy :: "addr option \<Rightarrow> (((slice) GlobalSpec_repr) mem, addr option) state" where
  "GlobalSpec_DeepCopy = DeepCopy GlobalSpec_DeepCopyInto zero_GlobalSpec_mem"

definition GroupVersionKind_DeepCopy :: "addr option \<Rightarrow> ((GroupVersionKind) mem, addr option) state" where
  "GroupVersionKind_DeepCopy = DeepCopy GroupVersionKind_DeepCopyInto zero_GroupVersionKind"

definition ImageDetails_DeepCopy :: "addr option \<Rightarrow> ((ImageDetails) mem, addr option) state" where
  "ImageDetails_DeepCopy = DeepCopy ImageDetails_DeepCopyInto zero_ImageDetails"

definition KubeOVNImageSpec_DeepCopy :: "addr option \<Rightarrow> ((KubeOVNImageSpec) mem, addr option) state" where
  "KubeOVNImageSpec_DeepCopy = DeepCopy KubeOVNImageSpec_DeepCopyInto zero_KubeOVNImageSpec"

definition KubeletConfigSpec_DeepCopy :: "addr option \<Rightarrow> ((KubeletConfigSpec) mem, addr option) state" where
  "KubeletConfigSpec_DeepCopy = DeepCopy KubeletConfigSpec_DeepCopyInto zero_KubeletConfigSpec"

definition LogConfigSpec_DeepCopy :: "addr option \<Rightarrow> ((LogConfigSpec) mem, addr option) state" where
  "LogConfigSpec_DeepCopy = DeepCopy LogConfigSpec_DeepCopyInto zero_LogConfigSpec"

definition NATGatewayImageSpec_DeepCopy :: "addr option \<Rightarrow> ((NATGatewayImageSpec) mem, addr option) state" where
  "NATGatewayImageSpec_DeepCopy = DeepCopy NATGatewayImageSpec_DeepCopyInto zero_NATGatewayImageSpec"

definition NetworkStackSpec_DeepCopy :: "addr option \<Rightarrow> ((NetworkStackSpec) mem, addr option) state" where
  "NetworkStackSpec_DeepCopy = DeepCopy NetworkStackSpec_DeepCopyInto zero_NetworkStackSpec"

definition NetworkingSpec_DeepCopy :: "addr option \<Rightarrow> (((addr option) NetworkingSpec_repr) mem, addr option) state" where
  "NetworkingSpec_DeepCopy = DeepCopy NetworkingSpec_DeepCopyInto zero_NetworkingSpec_mem"

definition ObjectReference_DeepCopy :: "addr option \<Rightarrow> ((ObjectReference) mem, addr option) state" where
  "ObjectReference_DeepCopy = DeepCopy ObjectReference_DeepCopyInto zero_ObjectReference"

definition PerformanceSpec_DeepCopy :: "addr option \<Rightarrow> ((PerformanceSpec) mem, addr option) state" where
  "PerformanceSpec_DeepCopy = DeepCopy PerformanceSpec_DeepCopyInto zero_PerformanceSpec"

definition RegistrySpec_DeepCopy :: "addr option \<Rightarrow> (((slice) RegistrySpec_repr) mem, addr option) state" where
  "RegistrySpec_DeepCopy = DeepCopy RegistrySpec_DeepCopyInto zero_RegistrySpec_mem"

definition ResourceSpec_DeepCopy :: "copiers \<Rightarrow> addr option \<Rightarrow> ((ResourceSpec) mem, addr option) state" where
  "ResourceSpec_DeepCopy K = DeepCopy (ResourceSpec_DeepCopyInto K) zero_ResourceSpec"

definition U2OFeatures_DeepCopy :: "addr option \<Rightarrow> ((U2OFeatures) mem, addr option) state" where
  "U2OFeatures_DeepCopy = DeepCopy U2OFeatures_DeepCopyInto zero_U2OFeatures"

definition VlanSpec_DeepCopy :: "addr option \<Rightarrow> ((VlanSpec) mem, addr option) state" where
  "VlanSpec_DeepCopy = DeepCopy VlanSpec_DeepCopyInto zero_VlanSpec"

section \<open>Cells, values and shapes\<close>

definition CNIConfSpec_foot :: "'st mem \<Rightarrow> (addr option) CNIConfSpec_repr \<Rightarrow> addr list" where
  "CNIConfSpec_foot m x =
     bool_foot m (MountLocalBinDir x) @ bool_foot m (NonPrimaryCNI x)"

definition CNIConfSpec_load :: "'st mem \<Rightarrow> (addr option) CNIConfSpec_repr \<Rightarrow> CNIConfSpec" where
  "CNIConfSpec_load m = map_CNIConfSpec (bool_load m)"

definition CPUMemSpec_val :: "copiers \<Rightarrow> CPUMemSpec \<Rightarrow> CPUMemSpec" where
  "CPUMemSpec_val K v = v\<lparr>
     CPU := copyQuantity K (CPU v), Memory := copyQuantity K (Memory v),
     EphemeralStorage := copyQuantity K (EphemeralStorage v)\<rparr>"

definition ComponentSpec_foot :: "'st mem \<Rightarrow> (addr option) ComponentSpec_repr \<Rightarrow> addr list" where
  "ComponentSpec_foot m x =
     bool_foot m (EnableLB x) @ bool_foot m (EnableNP x) @ bool_foot m (EnableExternalVPC x) @
     bool_foot m (HardwareOffload x) @ bool_foot m (EnableLBSVC x) @ bool_foot m (EnableKeepVMIP x) @
     bool_foot m (LsDnatModDlDst x) @ bool_foot m (LsCtSkipOstLportIPS x) @ bool_foot m (CheckGateway x) @
     bool_foot m (LogicalGateway x) @ bool_foot m (EnableBindLocalIP x) @ bool_foot m (SecureServing x) @
     bool_foot m (U2OInterconnection x) @ bool_foot m (EnableTProxy x) @ bool_foot m (EnableIC x) @
     bool_foot m (EnableNATGateway x) @ bool_foot m (EnableOVNIPSec x) @ bool_foot m (EnableANP x) @
     bool_foot m (SetVLANTxOff x) @ bool_foot m (EnableLiveMigrationOptimize x) @
     bool_foot m (EnableDNSNameResolver x) @ bool_foot m (EnableOVNLBPreferLocal x)"

definition ComponentSpec_load :: "'st mem \<Rightarrow> (addr option) ComponentSpec_repr \<Rightarrow> ComponentSpec" where
  "ComponentSpec_load m = map_ComponentSpec (bool_load m)"

definition RegistrySpec_foot :: "'st mem \<Rightarrow> (slice) RegistrySpec_repr \<Rightarrow> addr list" where
  "RegistrySpec_foot m x =
     slice_foot StringArrays (\<lambda>m x. []) m (ImagePullSecrets x)"

definition RegistrySpec_load :: "'st mem \<Rightarrow> (slice) RegistrySpec_repr \<Rightarrow> RegistrySpec" where
  "RegistrySpec_load m = map_RegistrySpec (slice_load StringArrays (\<lambda>m x. x) m)"

definition RegistrySpec_shape :: "'st mem \<Rightarrow> (slice) RegistrySpec_repr \<Rightarrow> bool" where
  "RegistrySpec_shape m x \<longleftrightarrow>
     slice_shape StringArrays (\<lambda>m x. True) m (ImagePullSecrets x)"

definition GlobalSpec_foot :: "'st mem \<Rightarrow> (slice) GlobalSpec_repr \<Rightarrow> addr list" where
  "GlobalSpec_foot m x =
     RegistrySpec_foot m (Registry x)"

definition GlobalSpec_load :: "'st mem \<Rightarrow> (slice) GlobalSpec_repr \<Rightarrow> GlobalSpec" where
  "GlobalSpec_load m = map_GlobalSpec (slice_load StringArrays (\<lambda>m x. x) m)"

definition GlobalSpec_shape :: "'st mem \<Rightarrow> (slice) GlobalSpec_repr \<Rightarrow> bool" where
  "GlobalSpec_shape m x \<longleftrightarrow>
     RegistrySpec_shape m (Registry x)"

definition NetworkingSpec_foot :: "'st mem \<Rightarrow> (addr option) NetworkingSpec_repr \<Rightarrow> addr list" where
  "NetworkingSpec_foot m x =
     bool_foot m (EnableSSL x) @ bool_foot m (ExchangeLinkName x) @ bool_foot m (EnableEIPSNAT x) @
     bool_foot m (EnableECMP x) @ bool_foot m (EnableMetrics x) @ bool_foot m (EnableCompact x)"

definition NetworkingSpec_load :: "'st mem \<Rightarrow> (addr option) NetworkingSpec_repr \<Rightarrow> NetworkingSpec" where
  "NetworkingSpec_load m = map_NetworkingSpec (bool_load m)"

definition DebugSpec_foot :: "'st mem \<Rightarrow> (addr option) DebugSpec_repr \<Rightarrow> addr list" where
  "DebugSpec_foot m x =
     bool_foot m (EnableMirror x)"

definition DebugSpec_load :: "'st mem \<Rightarrow> (addr option) DebugSpec_repr \<Rightarrow> DebugSpec" where
  "DebugSpec_load m = map_DebugSpec (bool_load m)"

definition ResourceSpec_val :: "copiers \<Rightarrow> ResourceSpec \<Rightarrow> ResourceSpec" where
  "ResourceSpec_val K v = v\<lparr>
     Requests := CPUMemSpec_val K (Requests v), Limits := CPUMemSpec_val K (Limits v)\<rparr>"

definition ConfigurationSpec_val :: "copiers \<Rightarrow> ConfigurationSpec \<Rightarrow> ConfigurationSpec" where
  "ConfigurationSpec_val K v = v\<lparr>
     HugePages := copyQuantity K (HugePages v), DPDKCPU := copyQuantity K (DPDKCPU v),
     DPDKMemory := copyQuantity K (DPDKMemory v), OVNCentral := ResourceSpec_val K (OVNCentral v),
     OVSOVN := ResourceSpec_val K (OVSOVN v), KubeOVNController := ResourceSpec_val K (KubeOVNController v),
     KubeOVNCNI := ResourceSpec_val K (KubeOVNCNI v), KubeOVNPinger := ResourceSpec_val K (KubeOVNPinger v),
     KubeOVNMonitor := ResourceSpec_val K (KubeOVNMonitor v)\<rparr>"

definition ConfigurationSpec_foot :: "'st mem \<Rightarrow> (addr option, slice) ConfigurationSpec_repr \<Rightarrow> addr list" where
  "ConfigurationSpec_foot m x =
     GlobalSpec_foot m (Global x) @ NetworkingSpec_foot m (Networking x) @ ComponentSpec_foot m (Component x) @
     DebugSpec_foot m (Debug x) @ CNIConfSpec_foot m (CNIConf x) @ bool_foot m (DisableModulesManagement x) @
     bool_foot m (HybridDPDK x)"

definition ConfigurationSpec_load :: "'st mem \<Rightarrow> (addr option, slice) ConfigurationSpec_repr \<Rightarrow> ConfigurationSpec" where
  "ConfigurationSpec_load m = map_ConfigurationSpec (bool_load m) (slice_load StringArrays (\<lambda>m x. x) m)"

definition ConfigurationSpec_shape :: "'st mem \<Rightarrow> (addr option, slice) ConfigurationSpec_repr \<Rightarrow> bool" where
  "ConfigurationSpec_shape m x \<longleftrightarrow>
     GlobalSpec_shape m (Global x)"

definition ConfigurationStatus_val :: "copiers \<Rightarrow> ConfigurationStatus \<Rightarrow> ConfigurationStatus" where
  "ConfigurationStatus_val K v = v\<lparr>
     Conditions := map (copyCondition K) (Conditions v)\<rparr>"

definition ConfigurationStatus_foot :: "'st mem \<Rightarrow> (slice, slice, slice) ConfigurationStatus_repr \<Rightarrow> addr list" where
  "ConfigurationStatus_foot m x =
     slice_foot StringArrays (\<lambda>m x. []) m (MatchingNodeAddresses x) @
     slice_foot ConditionArrays (\<lambda>m x. []) m (Conditions x) @
     slice_foot ReferenceArrays (\<lambda>m x. []) m (ManagedObjects x)"

definition ConfigurationStatus_load :: "'st mem \<Rightarrow> (slice, slice, slice) ConfigurationStatus_repr \<Rightarrow> ConfigurationStatus" where
  "ConfigurationStatus_load m = map_ConfigurationStatus (slice_load StringArrays (\<lambda>m x. x) m) (slice_load ConditionArrays (\<lambda>m x. x) m) (slice_load ReferenceArrays (\<lambda>m x. x) m)"

definition ConfigurationStatus_shape :: "'st mem \<Rightarrow> (slice, slice, slice) ConfigurationStatus_repr \<Rightarrow> bool" where
  "ConfigurationStatus_shape m x \<longleftrightarrow>
     slice_shape StringArrays (\<lambda>m x. True) m (MatchingNodeAddresses x) \<and>
     slice_shape ConditionArrays (\<lambda>m x. True) m (Conditions x) \<and>
     slice_shape ReferenceArrays (\<lambda>m x. True) m (ManagedObjects x)"

definition Configuration_val :: "copiers \<Rightarrow> Configuration \<Rightarrow> Configuration" where
  "Configuration_val K v = v\<lparr>
     Meta := copyObjectMeta K (Meta v), Spec := ConfigurationSpec_val K (Spec v),
     Status := ConfigurationStatus_val K (Status v)\<rparr>"

definition Configuration_foot :: "'st mem \<Rightarrow> (addr option, slice, slice, slice) Configuration_repr \<Rightarrow> addr list" where
  "Configuration_foot m x =
     ConfigurationSpec_foot m (Spec x) @ ConfigurationStatus_foot m (Status x)"

definition Configuration_load :: "'st mem \<Rightarrow> (addr option, slice, slice, slice) Configuration_repr \<Rightarrow> Configuration" where
  "Configuration_load m = map_Configuration (bool_load m) (slice_load StringArrays (\<lambda>m x. x) m) (slice_load ConditionArrays (\<lambda>m x. x) m) (slice_load ReferenceArrays (\<lambda>m x. x) m)"

definition Configuration_shape :: "'st mem \<Rightarrow> (addr option, slice, slice, slice) Configuration_repr \<Rightarrow> bool" where
  "Configuration_shape m x \<longleftrightarrow>
     ConfigurationSpec_shape m (Spec x) \<and> ConfigurationStatus_shape m (Status x)"

definition ConfigurationList_val :: "copiers \<Rightarrow> ConfigurationList \<Rightarrow> ConfigurationList" where
  "ConfigurationList_val K v = v\<lparr>
     ListMetaField := copyListMeta K (ListMetaField v), Items := map (Configuration_val K) (Items v)\<rparr>"

definition ConfigurationList_foot :: "'st mem \<Rightarrow> (slice) ConfigurationList_repr \<Rightarrow> addr list" where
  "ConfigurationList_foot m x =
     slice_foot ConfigurationArrays Configuration_foot m (Items x)"

definition ConfigurationList_load :: "'st mem \<Rightarrow> (slice) ConfigurationList_repr \<Rightarrow> ConfigurationList" where
  "ConfigurationList_load m = map_ConfigurationList (slice_load ConfigurationArrays Configuration_load m)"

definition ConfigurationList_shape :: "'st mem \<Rightarrow> (slice) ConfigurationList_repr \<Rightarrow> bool" where
  "ConfigurationList_shape m x \<longleftrightarrow>
     slice_shape ConfigurationArrays Configuration_shape m (Items x)"

section \<open>The copy functions are deep copies\<close>

text \<open>Structs without pointers.\<close>

lemma deep_copy_plain:
  "(\<And>x m. run_state (into x) m = (val x, m)) \<Longrightarrow> deep_copy into (\<lambda>m x. []) (\<lambda>m x. x) (\<lambda>m x. True) val"
  by unfold_locales (auto simp: copy_of_def within_def)

lemma plain_copies:
  "GroupVersionKind_DeepCopyInto = State_Monad.return"
  "ImageDetails_DeepCopyInto = State_Monad.return"
  "KubeOVNImageSpec_DeepCopyInto = State_Monad.return"
  "KubeletConfigSpec_DeepCopyInto = State_Monad.return"
  "LogConfigSpec_DeepCopyInto = State_Monad.return"
  "NATGatewayImageSpec_DeepCopyInto = State_Monad.return"
  "NetworkStackSpec_DeepCopyInto = State_Monad.return"
  "ObjectReference_DeepCopyInto = State_Monad.return"
  "PerformanceSpec_DeepCopyInto = State_Monad.return"
  "U2OFeatures_DeepCopyInto = State_Monad.return"
  "VlanSpec_DeepCopyInto = State_Monad.return"
  by (simp_all add: fun_eq_iff GroupVersionKind_DeepCopyInto_def ImageDetails_DeepCopyInto_def KubeOVNImageSpec_DeepCopyInto_def
    KubeletConfigSpec_DeepCopyInto_def LogConfigSpec_DeepCopyInto_def
    NATGatewayImageSpec_DeepCopyInto_def NetworkStackSpec_DeepCopyInto_def
    ObjectReference_DeepCopyInto_def PerformanceSpec_DeepCopyInto_def U2OFeatures_DeepCopyInto_def
    VlanSpec_DeepCopyInto_def)

interpretation plain_copy: deep_copy State_Monad.return "\<lambda>m x. []" "\<lambda>m x. x" "\<lambda>m x. True" "\<lambda>v. v"
  by (rule deep_copy_plain) simp

interpretation CPUMemSpec_copy: deep_copy "CPUMemSpec_DeepCopyInto K" "\<lambda>m x. []" "\<lambda>m x. x" "\<lambda>m x. True" "CPUMemSpec_val K"
  for K
  by (rule deep_copy_plain) (simp add: CPUMemSpec_DeepCopyInto_def CPUMemSpec_val_def)

interpretation ResourceSpec_copy: deep_copy "ResourceSpec_DeepCopyInto K" "\<lambda>m x. []" "\<lambda>m x. x" "\<lambda>m x. True" "ResourceSpec_val K"
  for K
  by (rule deep_copy_plain) (simp add: ResourceSpec_DeepCopyInto_def ResourceSpec_val_def CPUMemSpec_DeepCopyInto_def CPUMemSpec_val_def)

text \<open>
  Structs with pointers or slices. The frame law follows from the fields' frame laws, and the copy from
  the copies of the fields one after the other, whose cells come in the order of allocation.
\<close>

lemma agree_Un [simp]: "agree (A \<union> B) m m' \<longleftrightarrow> agree A m m' \<and> agree B m m'"
  by (auto simp: agree_def)

lemmas cells_simps = set_append Un_subset_iff

lemma plain_cells: "set [] \<subseteq> A"
  by simp

interpretation CNIConfSpec_copy: deep_copy CNIConfSpec_DeepCopyInto CNIConfSpec_foot CNIConfSpec_load
    "\<lambda>m x. True" "\<lambda>v. v"
proof (rule deep_copyI)
  show "agree (set (CNIConfSpec_foot m x)) m m' \<Longrightarrow>
      CNIConfSpec_foot m' x = CNIConfSpec_foot m x \<and> CNIConfSpec_load m' x = CNIConfSpec_load m x \<and> True = True" for m m' :: "'st mem" and x
    by (auto simp: CNIConfSpec_foot_def CNIConfSpec_load_def map_CNIConfSpec_def dest!: bool_ptr.frame)
next
  fix m :: "'st mem" and x
  assume cells: "set (CNIConfSpec_foot m x) \<subseteq> {..<Lim m}" and shape: "True"
  show "grows_to m (CNIConfSpec_DeepCopyInto x) (copy_of CNIConfSpec_foot CNIConfSpec_load (\<lambda>m x. True) (\<lambda>v. v) m x)"
    using cells shape
    apply (simp only: CNIConfSpec_foot_def cells_simps CNIConfSpec_DeepCopyInto_def Let_def)
    apply ((elim conjE)?, intro grows_to_return bool_ptr.bind; (assumption | rule TrueI | rule plain_cells)?)
    apply (simp add: copy_of_def CNIConfSpec_foot_def CNIConfSpec_load_def map_CNIConfSpec_def)
    apply (intro allI impI, elim conjE)
    apply (rule within_append | assumption)+
    done
qed

interpretation ComponentSpec_copy: deep_copy ComponentSpec_DeepCopyInto ComponentSpec_foot ComponentSpec_load
    "\<lambda>m x. True" "\<lambda>v. v"
proof (rule deep_copyI)
  show "agree (set (ComponentSpec_foot m x)) m m' \<Longrightarrow>
      ComponentSpec_foot m' x = ComponentSpec_foot m x \<and> ComponentSpec_load m' x = ComponentSpec_load m x \<and> True = True" for m m' :: "'st mem" and x
    by (auto simp: ComponentSpec_foot_def ComponentSpec_load_def map_ComponentSpec_def dest!: bool_ptr.frame)
next
  fix m :: "'st mem" and x
  assume cells: "set (ComponentSpec_foot m x) \<subseteq> {..<Lim m}" and shape: "True"
  show "grows_to m (ComponentSpec_DeepCopyInto x) (copy_of ComponentSpec_foot ComponentSpec_load (\<lambda>m x. True) (\<lambda>v. v) m x)"
    using cells shape
    apply (simp only: ComponentSpec_foot_def cells_simps ComponentSpec_DeepCopyInto_def Let_def)
    apply ((elim conjE)?, intro grows_to_return bool_ptr.bind; (assumption | rule TrueI | rule plain_cells)?)
    apply (simp add: copy_of_def ComponentSpec_foot_def ComponentSpec_load_def map_ComponentSpec_def)
    apply (intro allI impI, elim conjE)
    apply (rule within_append | assumption)+
    done
qed

interpretation RegistrySpec_copy: deep_copy RegistrySpec_DeepCopyInto RegistrySpec_foot RegistrySpec_load
    RegistrySpec_shape "\<lambda>v. v"
proof (rule deep_copyI)
  show "agree (set (RegistrySpec_foot m x)) m m' \<Longrightarrow>
      RegistrySpec_foot m' x = RegistrySpec_foot m x \<and> RegistrySpec_load m' x = RegistrySpec_load m x \<and> RegistrySpec_shape m' x = RegistrySpec_shape m x" for m m' :: "'st mem" and x
    by (auto simp: RegistrySpec_foot_def RegistrySpec_load_def map_RegistrySpec_def RegistrySpec_shape_def dest!: string_heap.plain.frame)
next
  fix m :: "'st mem" and x
  assume cells: "set (RegistrySpec_foot m x) \<subseteq> {..<Lim m}" and shape: "RegistrySpec_shape m x"
  show "grows_to m (RegistrySpec_DeepCopyInto x) (copy_of RegistrySpec_foot RegistrySpec_load RegistrySpec_shape (\<lambda>v. v) m x)"
    using cells shape
    apply (simp only: RegistrySpec_foot_def RegistrySpec_shape_def cells_simps RegistrySpec_DeepCopyInto_def Let_def)
    apply ((elim conjE)?, intro grows_to_return string_heap.plain.bind; (assumption | rule TrueI | rule plain_cells)?)
    apply (simp add: copy_of_def RegistrySpec_foot_def RegistrySpec_load_def map_RegistrySpec_def RegistrySpec_shape_def)
    done
qed

interpretation GlobalSpec_copy: deep_copy GlobalSpec_DeepCopyInto GlobalSpec_foot GlobalSpec_load
    GlobalSpec_shape "\<lambda>v. v"
proof (rule deep_copyI)
  show "agree (set (GlobalSpec_foot m x)) m m' \<Longrightarrow>
      GlobalSpec_foot m' x = GlobalSpec_foot m x \<and> GlobalSpec_load m' x = GlobalSpec_load m x \<and> GlobalSpec_shape m' x = GlobalSpec_shape m x" for m m' :: "'st mem" and x
    by (auto simp: GlobalSpec_foot_def GlobalSpec_load_def map_GlobalSpec_def GlobalSpec_shape_def RegistrySpec_load_def [symmetric] dest!: RegistrySpec_copy.frame)
next
  fix m :: "'st mem" and x
  assume cells: "set (GlobalSpec_foot m x) \<subseteq> {..<Lim m}" and shape: "GlobalSpec_shape m x"
  show "grows_to m (GlobalSpec_DeepCopyInto x) (copy_of GlobalSpec_foot GlobalSpec_load GlobalSpec_shape (\<lambda>v. v) m x)"
    using cells shape
    apply (simp only: GlobalSpec_foot_def GlobalSpec_shape_def cells_simps GlobalSpec_DeepCopyInto_def Let_def)
    apply ((elim conjE)?, intro grows_to_return RegistrySpec_copy.bind; (assumption | rule TrueI | rule plain_cells)?)
    apply (simp add: copy_of_def GlobalSpec_foot_def GlobalSpec_load_def map_GlobalSpec_def GlobalSpec_shape_def RegistrySpec_load_def [symmetric])
    done
qed

interpretation NetworkingSpec_copy: deep_copy NetworkingSpec_DeepCopyInto NetworkingSpec_foot
    NetworkingSpec_load "\<lambda>m x. True" "\<lambda>v. v"
proof (rule deep_copyI)
  show "agree (set (NetworkingSpec_foot m x)) m m' \<Longrightarrow>
      NetworkingSpec_foot m' x = NetworkingSpec_foot m x \<and> NetworkingSpec_load m' x = NetworkingSpec_load m x \<and> True = True" for m m' :: "'st mem" and x
    by (auto simp: NetworkingSpec_foot_def NetworkingSpec_load_def map_NetworkingSpec_def dest!: bool_ptr.frame)
next
  fix m :: "'st mem" and x
  assume cells: "set (NetworkingSpec_foot m x) \<subseteq> {..<Lim m}" and shape: "True"
  show "grows_to m (NetworkingSpec_DeepCopyInto x) (copy_of NetworkingSpec_foot NetworkingSpec_load (\<lambda>m x. True) (\<lambda>v. v) m x)"
    using cells shape
    apply (simp only: NetworkingSpec_foot_def cells_simps NetworkingSpec_DeepCopyInto_def Let_def)
    apply ((elim conjE)?, intro grows_to_return bool_ptr.bind; (assumption | rule TrueI | rule plain_cells)?)
    apply (simp add: copy_of_def NetworkingSpec_foot_def NetworkingSpec_load_def map_NetworkingSpec_def)
    apply (intro allI impI, elim conjE)
    apply (rule within_append | assumption)+
    done
qed

interpretation DebugSpec_copy: deep_copy DebugSpec_DeepCopyInto DebugSpec_foot DebugSpec_load "\<lambda>m x.
    True" "\<lambda>v. v"
proof (rule deep_copyI)
  show "agree (set (DebugSpec_foot m x)) m m' \<Longrightarrow>
      DebugSpec_foot m' x = DebugSpec_foot m x \<and> DebugSpec_load m' x = DebugSpec_load m x \<and> True = True" for m m' :: "'st mem" and x
    by (auto simp: DebugSpec_foot_def DebugSpec_load_def map_DebugSpec_def dest!: bool_ptr.frame)
next
  fix m :: "'st mem" and x
  assume cells: "set (DebugSpec_foot m x) \<subseteq> {..<Lim m}" and shape: "True"
  show "grows_to m (DebugSpec_DeepCopyInto x) (copy_of DebugSpec_foot DebugSpec_load (\<lambda>m x. True) (\<lambda>v. v) m x)"
    using cells shape
    apply (simp only: DebugSpec_foot_def cells_simps DebugSpec_DeepCopyInto_def Let_def)
    apply ((elim conjE)?, intro grows_to_return bool_ptr.bind; (assumption | rule TrueI | rule plain_cells)?)
    apply (simp add: copy_of_def DebugSpec_foot_def DebugSpec_load_def map_DebugSpec_def)
    done
qed

interpretation ConfigurationSpec_copy: deep_copy "ConfigurationSpec_DeepCopyInto K" ConfigurationSpec_foot
    ConfigurationSpec_load ConfigurationSpec_shape "ConfigurationSpec_val K"
  for K
proof (rule deep_copyI)
  show "agree (set (ConfigurationSpec_foot m x)) m m' \<Longrightarrow>
      ConfigurationSpec_foot m' x = ConfigurationSpec_foot m x \<and> ConfigurationSpec_load m' x = ConfigurationSpec_load m x \<and> ConfigurationSpec_shape m' x = ConfigurationSpec_shape m x" for m m' :: "'st mem" and x
    by (auto simp: ConfigurationSpec_foot_def ConfigurationSpec_load_def map_ConfigurationSpec_def ConfigurationSpec_shape_def CNIConfSpec_load_def [symmetric] ComponentSpec_load_def [symmetric] DebugSpec_load_def [symmetric] GlobalSpec_load_def [symmetric] NetworkingSpec_load_def [symmetric] dest!: CNIConfSpec_copy.frame ComponentSpec_copy.frame DebugSpec_copy.frame GlobalSpec_copy.frame NetworkingSpec_copy.frame bool_ptr.frame)
next
  fix m :: "'st mem" and x
  assume cells: "set (ConfigurationSpec_foot m x) \<subseteq> {..<Lim m}" and shape: "ConfigurationSpec_shape m x"
  show "grows_to m (ConfigurationSpec_DeepCopyInto K x) (copy_of ConfigurationSpec_foot ConfigurationSpec_load ConfigurationSpec_shape (ConfigurationSpec_val K) m x)"
    using cells shape
    apply (simp only: ConfigurationSpec_foot_def ConfigurationSpec_shape_def cells_simps ConfigurationSpec_DeepCopyInto_def Let_def)
    apply ((elim conjE)?, intro grows_to_return CNIConfSpec_copy.bind ComponentSpec_copy.bind DebugSpec_copy.bind GlobalSpec_copy.bind NetworkingSpec_copy.bind ResourceSpec_copy.bind bool_ptr.bind; (assumption | rule TrueI | rule plain_cells)?)
    apply (simp add: copy_of_def ConfigurationSpec_foot_def ConfigurationSpec_load_def map_ConfigurationSpec_def ConfigurationSpec_shape_def CNIConfSpec_load_def [symmetric] ComponentSpec_load_def [symmetric] DebugSpec_load_def [symmetric] GlobalSpec_load_def [symmetric] NetworkingSpec_load_def [symmetric] ConfigurationSpec_val_def)
    apply (intro allI impI, elim conjE)
    apply (rule within_append | assumption)+
    apply (force simp: within_def)
    done
qed

interpretation condition_loop: slice_copy "\<lambda>c. State_Monad.return (copyCondition K c)" "\<lambda>m x. []" "\<lambda>m x. x" "\<lambda>m x. True"
    "copyCondition K" ConditionArrays store_conditions
  for K
  by (intro slice_copy.intro deep_copy_plain condition_heap.array_heap_axioms) simp

interpretation ConfigurationStatus_copy: deep_copy "ConfigurationStatus_DeepCopyInto K" ConfigurationStatus_foot
    ConfigurationStatus_load ConfigurationStatus_shape "ConfigurationStatus_val K"
  for K
proof (rule deep_copyI)
  show "agree (set (ConfigurationStatus_foot m x)) m m' \<Longrightarrow>
      ConfigurationStatus_foot m' x = ConfigurationStatus_foot m x \<and> ConfigurationStatus_load m' x = ConfigurationStatus_load m x \<and> ConfigurationStatus_shape m' x = ConfigurationStatus_shape m x" for m m' :: "'st mem" and x
    by (auto simp: ConfigurationStatus_foot_def ConfigurationStatus_load_def map_ConfigurationStatus_def ConfigurationStatus_shape_def dest!: condition_loop.loop.frame reference_heap.plain.frame string_heap.plain.frame)
next
  fix m :: "'st mem" and x
  assume cells: "set (ConfigurationStatus_foot m x) \<subseteq> {..<Lim m}" and shape: "ConfigurationStatus_shape m x"
  show "grows_to m (ConfigurationStatus_DeepCopyInto K x) (copy_of ConfigurationStatus_foot ConfigurationStatus_load ConfigurationStatus_shape (ConfigurationStatus_val K) m x)"
    using cells shape
    apply (simp only: ConfigurationStatus_foot_def ConfigurationStatus_shape_def cells_simps ConfigurationStatus_DeepCopyInto_def Let_def)
    apply ((elim conjE)?, intro grows_to_return condition_loop.loop.bind reference_heap.plain.bind string_heap.plain.bind; (assumption | rule TrueI | rule plain_cells)?)
    apply (simp add: copy_of_def ConfigurationStatus_foot_def ConfigurationStatus_load_def map_ConfigurationStatus_def ConfigurationStatus_shape_def ConfigurationStatus_val_def)
    apply (intro allI impI, elim conjE)
    apply (rule within_append | assumption)+
    done
qed

interpretation Configuration_copy: deep_copy "Configuration_DeepCopyInto K" Configuration_foot
    Configuration_load Configuration_shape "Configuration_val K"
  for K
proof (rule deep_copyI)
  show "agree (set (Configuration_foot m x)) m m' \<Longrightarrow>
      Configuration_foot m' x = Configuration_foot m x \<and> Configuration_load m' x = Configuration_load m x \<and> Configuration_shape m' x = Configuration_shape m x" for m m' :: "'st mem" and x
    by (auto simp: Configuration_foot_def Configuration_load_def map_Configuration_def Configuration_shape_def ConfigurationSpec_load_def [symmetric] ConfigurationStatus_load_def [symmetric] dest!: ConfigurationSpec_copy.frame ConfigurationStatus_copy.frame)
next
  fix m :: "'st mem" and x
  assume cells: "set (Configuration_foot m x) \<subseteq> {..<Lim m}" and shape: "Configuration_shape m x"
  show "grows_to m (Configuration_DeepCopyInto K x) (copy_of Configuration_foot Configuration_load Configuration_shape (Configuration_val K) m x)"
    using cells shape
    apply (simp only: Configuration_foot_def Configuration_shape_def cells_simps Configuration_DeepCopyInto_def Let_def)
    apply ((elim conjE)?, intro grows_to_return ConfigurationSpec_copy.bind ConfigurationStatus_copy.bind; (assumption | rule TrueI | rule plain_cells)?)
    apply (simp add: copy_of_def Configuration_foot_def Configuration_load_def map_Configuration_def Configuration_shape_def ConfigurationSpec_load_def [symmetric] ConfigurationStatus_load_def [symmetric] Configuration_val_def)
    apply (intro allI impI, elim conjE)
    apply (rule within_append | assumption)+
    done
qed

interpretation configuration_loop: slice_copy "Configuration_DeepCopyInto K" Configuration_foot Configuration_load
    Configuration_shape "Configuration_val K" ConfigurationArrays store_configurations
  for K
  by (intro slice_copy.intro Configuration_copy.deep_copy_axioms configuration_heap.array_heap_axioms)

interpretation ConfigurationList_copy: deep_copy "ConfigurationList_DeepCopyInto K" ConfigurationList_foot
    ConfigurationList_load ConfigurationList_shape "ConfigurationList_val K"
  for K
proof (rule deep_copyI)
  show "agree (set (ConfigurationList_foot m x)) m m' \<Longrightarrow>
      ConfigurationList_foot m' x = ConfigurationList_foot m x \<and> ConfigurationList_load m' x = ConfigurationList_load m x \<and> ConfigurationList_shape m' x = ConfigurationList_shape m x" for m m' :: "'st mem" and x
    by (auto simp: ConfigurationList_foot_def ConfigurationList_load_def map_ConfigurationList_def ConfigurationList_shape_def dest!: configuration_loop.loop.frame)
next
  fix m :: "'st mem" and x
  assume cells: "set (ConfigurationList_foot m x) \<subseteq> {..<Lim m}" and shape: "ConfigurationList_shape m x"
  show "grows_to m (ConfigurationList_DeepCopyInto K x) (copy_of ConfigurationList_foot ConfigurationList_load ConfigurationList_shape (ConfigurationList_val K) m x)"
    using cells shape
    apply (simp only: ConfigurationList_foot_def ConfigurationList_shape_def cells_simps ConfigurationList_DeepCopyInto_def Let_def)
    apply ((elim conjE)?, intro grows_to_return configuration_loop.loop.bind; (assumption | rule TrueI | rule plain_cells)?)
    apply (simp add: copy_of_def ConfigurationList_foot_def ConfigurationList_load_def map_ConfigurationList_def ConfigurationList_shape_def ConfigurationList_val_def)
    done
qed

section \<open>Pointers\<close>

text \<open>\<^verbatim>\<open>DeepCopy\<close> of every type; \<open>plain_struct\<close> serves the types of \<open>plain_copies\<close>.\<close>

interpretation plain_struct: struct_copy State_Monad.return "\<lambda>m x. []" "\<lambda>m x. x" "\<lambda>m x. True" "\<lambda>v. v" zero
  for zero
  by (rule struct_copy.intro [OF plain_copy.deep_copy_axioms])

interpretation CPUMemSpec_struct: struct_copy "CPUMemSpec_DeepCopyInto K" "\<lambda>m x. []" "\<lambda>m x. x" "\<lambda>m x. True" "CPUMemSpec_val K" zero_CPUMemSpec
  for K
  by (rule struct_copy.intro [OF CPUMemSpec_copy.deep_copy_axioms])

interpretation ResourceSpec_struct: struct_copy "ResourceSpec_DeepCopyInto K" "\<lambda>m x. []" "\<lambda>m x. x" "\<lambda>m x. True" "ResourceSpec_val K" zero_ResourceSpec
  for K
  by (rule struct_copy.intro [OF ResourceSpec_copy.deep_copy_axioms])

interpretation CNIConfSpec_struct: struct_copy CNIConfSpec_DeepCopyInto CNIConfSpec_foot CNIConfSpec_load
    "\<lambda>m x. True" "\<lambda>v. v" zero_CNIConfSpec_mem
  by (rule struct_copy.intro [OF CNIConfSpec_copy.deep_copy_axioms])

interpretation ComponentSpec_struct: struct_copy ComponentSpec_DeepCopyInto ComponentSpec_foot
    ComponentSpec_load "\<lambda>m x. True" "\<lambda>v. v" zero_ComponentSpec_mem
  by (rule struct_copy.intro [OF ComponentSpec_copy.deep_copy_axioms])

interpretation RegistrySpec_struct: struct_copy RegistrySpec_DeepCopyInto RegistrySpec_foot RegistrySpec_load
    RegistrySpec_shape "\<lambda>v. v" zero_RegistrySpec_mem
  by (rule struct_copy.intro [OF RegistrySpec_copy.deep_copy_axioms])

interpretation GlobalSpec_struct: struct_copy GlobalSpec_DeepCopyInto GlobalSpec_foot GlobalSpec_load
    GlobalSpec_shape "\<lambda>v. v" zero_GlobalSpec_mem
  by (rule struct_copy.intro [OF GlobalSpec_copy.deep_copy_axioms])

interpretation NetworkingSpec_struct: struct_copy NetworkingSpec_DeepCopyInto NetworkingSpec_foot
    NetworkingSpec_load "\<lambda>m x. True" "\<lambda>v. v" zero_NetworkingSpec_mem
  by (rule struct_copy.intro [OF NetworkingSpec_copy.deep_copy_axioms])

interpretation DebugSpec_struct: struct_copy DebugSpec_DeepCopyInto DebugSpec_foot DebugSpec_load "\<lambda>m x.
    True" "\<lambda>v. v" zero_DebugSpec_mem
  by (rule struct_copy.intro [OF DebugSpec_copy.deep_copy_axioms])

interpretation ConfigurationSpec_struct: struct_copy "ConfigurationSpec_DeepCopyInto K" ConfigurationSpec_foot
    ConfigurationSpec_load ConfigurationSpec_shape "ConfigurationSpec_val K" zero_ConfigurationSpec_mem
  for K
  by (rule struct_copy.intro [OF ConfigurationSpec_copy.deep_copy_axioms])

interpretation ConfigurationStatus_struct: struct_copy "ConfigurationStatus_DeepCopyInto K"
    ConfigurationStatus_foot ConfigurationStatus_load ConfigurationStatus_shape "ConfigurationStatus_val K"
    zero_ConfigurationStatus_mem
  for K
  by (rule struct_copy.intro [OF ConfigurationStatus_copy.deep_copy_axioms])

interpretation Configuration_struct: struct_copy "Configuration_DeepCopyInto K" Configuration_foot
    Configuration_load Configuration_shape "Configuration_val K" zero_Configuration_mem
  for K
  by (rule struct_copy.intro [OF Configuration_copy.deep_copy_axioms])

interpretation ConfigurationList_struct: struct_copy "ConfigurationList_DeepCopyInto K" ConfigurationList_foot
    ConfigurationList_load ConfigurationList_shape "ConfigurationList_val K" zero_ConfigurationList_mem
  for K
  by (rule struct_copy.intro [OF ConfigurationList_copy.deep_copy_axioms])

section \<open>Properties\<close>

lemma copier_laws_val:
  assumes "copier_laws K"
  shows "Configuration_val K v = v" and "ConfigurationList_val K l = l"
proof -
  have simps: "copyQuantity K q = q" "copyCondition K c = c" "copyObjectMeta K ob = ob" "copyListMeta K lm = lm" for q c ob lm
    using assms by (simp_all add: copier_laws_def)
  have "CPUMemSpec_val K r = r" for r by (simp add: CPUMemSpec_val_def simps)
  then have "ResourceSpec_val K r = r" for r by (simp add: ResourceSpec_val_def)
  then have "ConfigurationSpec_val K s = s" for s by (simp add: ConfigurationSpec_val_def simps)
  then show "Configuration_val K v = v" for v
    by (simp add: Configuration_val_def ConfigurationStatus_val_def simps map_idI)
  then show "ConfigurationList_val K l = l" by (simp add: ConfigurationList_val_def simps map_idI)
qed

definition demo_copiers :: copiers where
  "demo_copiers = \<lparr>copyQuantity = (\<lambda>q. q), copyCondition = (\<lambda>c. c), copyObjectMeta = (\<lambda>o'. o'), copyListMeta = (\<lambda>l. l)\<rparr>"

lemma demo_copiers_laws: "copier_laws demo_copiers"
  by (simp add: copier_laws_def demo_copiers_def)

text \<open>A configuration with a pointer and two address slices that are views of one array.\<close>

definition demo_struct :: Configuration_mem where
  "demo_struct = zero_Configuration_mem\<lparr>
     Spec := zero_ConfigurationSpec_mem\<lparr>
       Global := zero_GlobalSpec_mem\<lparr>Registry := zero_RegistrySpec_mem\<lparr>ImagePullSecrets := Some (1, 1, 1)\<rparr>\<rparr>,
       Component := zero_ComponentSpec_mem\<lparr>EnableOVNIPSec := Some 0\<rparr>\<rparr>,
     Status := zero_ConfigurationStatus_mem\<lparr>MatchingNodeAddresses := Some (1, 0, 2)\<rparr>\<rparr>"

definition demo_mem :: "Configuration_mem mem" where
  "demo_mem = \<lparr>Lim = 3, Bools = (\<lambda>a. a = 0), StringArrays = (\<lambda>a. if a = 1 then [''10.0.0.2'', ''10.0.0.1''] else []),
     ConditionArrays = (\<lambda>a. []), ReferenceArrays = (\<lambda>a. []), ConfigurationArrays = (\<lambda>a. []), Structs = (\<lambda>a. demo_struct)\<rparr>"

lemma demo_mem_valid:
  "list_all (\<lambda>a. a < Lim demo_mem) (ptr_foot Configuration_foot demo_mem (Some 2))"
  "ptr_shape Configuration_shape demo_mem (Some 2)"
  by code_simp+

text \<open>
  C8: \<^verbatim>\<open>DeepCopy\<close> of a configuration: nil for nil, otherwise a pointer to something that reads like the
  original, in cells that were all allocated by the call, no two of them the same even where the original
  shares cells; no old cell is changed. So whatever is then written through the copy, the original reads
  as before, and whatever is written to the original, the copy reads as the original did.
\<close>

theorem DeepCopy_is_equal_and_separate:
  assumes "copier_laws K" and "set (ptr_foot Configuration_foot m p) \<subseteq> {..<Lim m}"
    and "ptr_shape Configuration_shape m p" and "run_state (Configuration_DeepCopy K p) m = (q, m')"
  shows "ptr_load Configuration_load m' q = ptr_load Configuration_load m p \<and> (q = None \<longleftrightarrow> p = None) \<and>
    agree {..<Lim m} m m' \<and> set (ptr_foot Configuration_foot m' q) \<subseteq> {Lim m..<Lim m'} \<and>
    distinct (ptr_foot Configuration_foot m' q) \<and>
    (\<forall>m''. agree (- set (ptr_foot Configuration_foot m' q)) m' m'' \<longrightarrow>
       ptr_load Configuration_load m'' p = ptr_load Configuration_load m p) \<and>
    (\<forall>m''. agree (- set (ptr_foot Configuration_foot m p)) m' m'' \<longrightarrow>
       ptr_load Configuration_load m'' q = ptr_load Configuration_load m p)"
proof -
  have val: "map_option (Configuration_val K) = (\<lambda>v. v)"
    by (rule ext) (simp add: copier_laws_val [OF assms(1)] map_option_case split: option.split)
  note run = assms(4) [unfolded Configuration_DeepCopy_def]
  from Configuration_struct.pointer.copies [OF assms(2,3) run]
  have copy: "extends m m'" "ptr_load Configuration_load m' q = ptr_load Configuration_load m p"
      "within (Lim m) (Lim m') (ptr_foot Configuration_foot m' q)"
    by (simp_all add: copy_of_def val)
  from copy(2) have "q = None \<longleftrightarrow> p = None" by (auto simp: ptr_load_def)
  with copy within_bounds [OF copy(3)] Configuration_struct.pointer.independent [OF assms(2,3) run] show ?thesis
    by (simp add: extends_def val)
qed

theorem DeepCopy_is_equal_and_separate_witness:
  "ptr_load Configuration_load (snd (run_state (Configuration_DeepCopy demo_copiers (Some 2)) demo_mem))
     (fst (run_state (Configuration_DeepCopy demo_copiers (Some 2)) demo_mem)) =
   ptr_load Configuration_load demo_mem (Some 2)"
proof -
  have 1: "set (ptr_foot Configuration_foot demo_mem (Some 2)) \<subseteq> {..<Lim demo_mem}"
    using demo_mem_valid(1) by (auto simp: list_all_iff)
  show ?thesis
    using DeepCopy_is_equal_and_separate [OF demo_copiers_laws 1 demo_mem_valid(2) surjective_pairing] by blast
qed

text \<open>
  C31: the same for lists: the items are copied one by one into a new array, each with cells of its own;
  the copy reads like the list, no old cell is changed, and the list and its copy are independent of what
  is written to the other one.
\<close>

theorem list_DeepCopy_is_equal_and_separate:
  assumes "copier_laws K" and "set (ptr_foot ConfigurationList_foot m p) \<subseteq> {..<Lim m}"
    and "ptr_shape ConfigurationList_shape m p" and "run_state (ConfigurationList_DeepCopy K p) m = (q, m')"
  shows "ptr_load ConfigurationList_load m' q = ptr_load ConfigurationList_load m p \<and>
    agree {..<Lim m} m m' \<and> set (ptr_foot ConfigurationList_foot m' q) \<subseteq> {Lim m..<Lim m'} \<and>
    distinct (ptr_foot ConfigurationList_foot m' q) \<and>
    (\<forall>m''. agree (- set (ptr_foot ConfigurationList_foot m' q)) m' m'' \<longrightarrow>
       ptr_load ConfigurationList_load m'' p = ptr_load ConfigurationList_load m p) \<and>
    (\<forall>m''. agree (- set (ptr_foot ConfigurationList_foot m p)) m' m'' \<longrightarrow>
       ptr_load ConfigurationList_load m'' q = ptr_load ConfigurationList_load m p)"
proof -
  have val: "map_option (ConfigurationList_val K) = (\<lambda>v. v)"
    by (rule ext) (simp add: copier_laws_val [OF assms(1)] map_option_case split: option.split)
  note run = assms(4) [unfolded ConfigurationList_DeepCopy_def]
  from ConfigurationList_struct.pointer.copies [OF assms(2,3) run]
  have copy: "extends m m'" "ptr_load ConfigurationList_load m' q = ptr_load ConfigurationList_load m p"
      "within (Lim m) (Lim m') (ptr_foot ConfigurationList_foot m' q)"
    by (simp_all add: copy_of_def val)
  with within_bounds [OF copy(3)] ConfigurationList_struct.pointer.independent [OF assms(2,3) run] show ?thesis
    by (simp add: extends_def val)
qed

text \<open>A list of two configurations that share everything.\<close>

definition demo_list_mem :: "slice ConfigurationList_repr mem" where
  "demo_list_mem = \<lparr>Lim = 4, Bools = (\<lambda>a. a = 0), StringArrays = (\<lambda>a. if a = 1 then [''10.0.0.2'', ''10.0.0.1''] else []),
     ConditionArrays = (\<lambda>a. []), ReferenceArrays = (\<lambda>a. []), ConfigurationArrays = (\<lambda>a. [demo_struct, demo_struct]),
     Structs = (\<lambda>a. \<lparr>ListMetaField = zero_ListMeta, Items = Some (3, 0, 2)\<rparr>)\<rparr>"

lemma demo_list_mem_valid:
  "list_all (\<lambda>a. a < Lim demo_list_mem) (ptr_foot ConfigurationList_foot demo_list_mem (Some 2))"
  "ptr_shape ConfigurationList_shape demo_list_mem (Some 2)"
  by code_simp+

theorem list_DeepCopy_is_equal_and_separate_witness:
  "distinct (ptr_foot ConfigurationList_foot (snd (run_state (ConfigurationList_DeepCopy demo_copiers (Some 2)) demo_list_mem))
     (fst (run_state (ConfigurationList_DeepCopy demo_copiers (Some 2)) demo_list_mem))) \<and>
   \<not> distinct (ptr_foot ConfigurationList_foot demo_list_mem (Some 2))"
proof -
  have 1: "set (ptr_foot ConfigurationList_foot demo_list_mem (Some 2)) \<subseteq> {..<Lim demo_list_mem}"
    using demo_list_mem_valid(1) by (auto simp: list_all_iff)
  have 2: "\<not> distinct (ptr_foot ConfigurationList_foot demo_list_mem (Some 2))" by code_simp
  show ?thesis
    using 2 list_DeepCopy_is_equal_and_separate [OF demo_copiers_laws 1 demo_list_mem_valid(2) surjective_pairing] by blast
qed

end
