(* ===== verification/In_Place.thy ===== *)
theory In_Place
  imports Deep_Copy Config_Properties Node_Controller
begin

text \<open>
  The reconcilers change the working copy of the configuration in place: \<^verbatim>\<open>SetCondition\<close>
  (\<^verbatim>\<open>api/v1/configuration_types.go\<close>) writes into the array behind the conditions or appends to the
  slice, \<^verbatim>\<open>addressArrayEqual\<close> (\<^verbatim>\<open>internal/controller/configuration_controller.go\<close>) sorts the slices it
  is given. Here these operations run on the memory of \<open>Memory\<close>. The properties show that they implement
  the operations on values the rest of the development uses, and that on a copy made by
  \<^verbatim>\<open>DeepCopyInto\<close> no sequence of them reaches the object that was read.
\<close>

section \<open>Operations\<close>

text \<open>
  \<^verbatim>\<open>append(s, x)\<close>: into the array if there is room behind the slice, otherwise into a new array, which
  gets some more room. How much is up to the run-time system, the parameter \<open>spare\<close>.
\<close>

definition append_slice ::
    "('st mem \<Rightarrow> addr \<Rightarrow> 'a list) \<Rightarrow> (addr \<Rightarrow> 'a list \<Rightarrow> 'st mem \<Rightarrow> 'st mem) \<Rightarrow> (nat \<Rightarrow> nat) \<Rightarrow> 'a \<Rightarrow> slice \<Rightarrow> 'a \<Rightarrow>
     ('st mem, slice) state" where
  "append_slice lookup store spare zero s x = (case s of
     None \<Rightarrow> do {
       b \<leftarrow> alloc (\<lambda>b. store b ([x] @ replicate (spare 1) zero));
       State_Monad.return (Some (b, 0, 1))
     }
   | Some (a, off, n) \<Rightarrow> do {
       xs \<leftarrow> read_mem (\<lambda>m. lookup m a);
       if off + n < length xs then do {
         _ \<leftarrow> write_mem (store a (xs[off + n := x]));
         State_Monad.return (Some (a, off, Suc n))
       }
       else do {
         b \<leftarrow> alloc (\<lambda>b. store b (take n (drop off xs) @ [x] @ replicate (spare (Suc n)) zero));
         State_Monad.return (Some (b, 0, Suc n))
       }
     })"

text \<open>The loop of \<^verbatim>\<open>SetCondition\<close>; \<open>True\<close> if it returned from inside.\<close>

fun set_condition_loop :: "addr \<Rightarrow> nat \<Rightarrow> nat \<Rightarrow> nat \<Rightarrow> Condition \<Rightarrow> ('st mem, bool) state" where
  "set_condition_loop a off i 0 new = State_Monad.return False"
| "set_condition_loop a off i (Suc k) new = do {
     xs \<leftarrow> read_mem (\<lambda>m. ConditionArrays m a);
     let c = xs ! (off + i);
     if CondType c = CondType new then do {
       _ \<leftarrow> write_mem (store_conditions a (xs[off + i := c\<lparr>CondStatus := CondStatus new, Message := Message new,
              Reason := Reason new, LastTransitionTime := LastTransitionTime new,
              ObservedGeneration := ObservedGeneration new\<rparr>]));
       State_Monad.return True
     }
     else set_condition_loop a off (Suc i) k new
   }"

definition SetCondition_mem ::
    "(nat \<Rightarrow> nat) \<Rightarrow> Configuration_mem \<Rightarrow> string \<Rightarrow> string \<Rightarrow> string \<Rightarrow> string \<Rightarrow> int \<Rightarrow> ('st mem, Configuration_mem) state" where
  "SetCondition_mem spare c conditionType conditionStatus message reason now = do {
     let new = \<lparr>CondType = conditionType, CondStatus = conditionStatus, ObservedGeneration = Generation (Meta c),
                LastTransitionTime = now, Reason = reason, Message = message\<rparr>;
     found \<leftarrow> (case Conditions (Status c) of
       None \<Rightarrow> State_Monad.return False
     | Some (a, off, n) \<Rightarrow> set_condition_loop a off 0 n new);
     if found then State_Monad.return c
     else do {
       s \<leftarrow> append_slice ConditionArrays store_conditions spare zero_Condition (Conditions (Status c)) new;
       State_Monad.return (c\<lparr>Status := (Status c)\<lparr>Conditions := s\<rparr>\<rparr>)
     }
   }"

text \<open>\<^verbatim>\<open>slices.Sort\<close> sorts the part of the array the slice covers.\<close>

definition sort_slice :: "slice \<Rightarrow> ('st mem, unit) state" where
  "sort_slice s = (case s of
     None \<Rightarrow> State_Monad.return ()
   | Some (a, off, n) \<Rightarrow> write_mem (\<lambda>m. let xs = StringArrays m a in
       store_strings a (take off xs @ slices_Sort (take n (drop off xs)) @ drop (off + n) xs) m))"

definition addressArrayEqual_mem :: "slice \<Rightarrow> slice \<Rightarrow> ('st mem, bool) state" where
  "addressArrayEqual_mem existing discovered = do {
     _ \<leftarrow> sort_slice existing;
     _ \<leftarrow> sort_slice discovered;
     xs \<leftarrow> read_mem (\<lambda>m. slice_elems StringArrays m existing);
     ys \<leftarrow> read_mem (\<lambda>m. slice_elems StringArrays m discovered);
     State_Monad.return (slices_Equal xs ys)
   }"

text \<open>
  \<^verbatim>\<open>removeElement\<close> (\<^verbatim>\<open>internal/controller/node_controller.go\<close>):
  \<^verbatim>\<open>append(elements[:i], elements[i+1:]...)\<close> moves the \<open>k\<close> elements behind the found one forward
  in the array itself; its last place keeps what it had.
\<close>

fun remove_loop :: "addr \<Rightarrow> nat \<Rightarrow> nat \<Rightarrow> nat \<Rightarrow> string \<Rightarrow> ('st mem, slice) state" where
  "remove_loop a off i 0 x = State_Monad.return (Some (a, off, i))"
| "remove_loop a off i (Suc k) x = do {
     xs \<leftarrow> read_mem (\<lambda>m. StringArrays m a);
     if xs ! (off + i) = x then do {
       _ \<leftarrow> write_mem (store_strings a (take (off + i) xs @ take k (drop (off + Suc i) xs) @ drop (off + i + k) xs));
       State_Monad.return (Some (a, off, i + k))
     }
     else remove_loop a off (Suc i) k x
   }"

definition removeElement_mem :: "slice \<Rightarrow> string \<Rightarrow> ('st mem, slice) state" where
  "removeElement_mem s x = (case s of
     None \<Rightarrow> State_Monad.return None
   | Some (a, off, n) \<Rightarrow> remove_loop a off 0 n x)"

section \<open>Slices\<close>

abbreviation strings_of :: "'st mem \<Rightarrow> slice \<Rightarrow> string list" where
  "strings_of \<equiv> slice_load StringArrays (\<lambda>m x. x)"

abbreviation conditions_of :: "'st mem \<Rightarrow> slice \<Rightarrow> Condition list" where
  "conditions_of \<equiv> slice_load ConditionArrays (\<lambda>m x. x)"

abbreviation in_range :: "('st mem \<Rightarrow> addr \<Rightarrow> 'a list) \<Rightarrow> 'st mem \<Rightarrow> slice \<Rightarrow> bool" where
  "in_range lookup \<equiv> slice_shape lookup (\<lambda>m x. True)"

abbreviation array_of :: "('st mem \<Rightarrow> addr \<Rightarrow> 'a list) \<Rightarrow> 'st mem \<Rightarrow> slice \<Rightarrow> addr list" where
  "array_of lookup \<equiv> slice_foot lookup (\<lambda>m x. [])"

text \<open>
  What an operation on one slice does: its result has the elements \<open>xs\<close>, it changed only the cell of
  the slice's array, and the result is in that array or in a new one.
\<close>

definition slice_step ::
    "('st mem \<Rightarrow> addr \<Rightarrow> 'a list) \<Rightarrow> 'a list \<Rightarrow> slice \<Rightarrow> 'st mem \<Rightarrow> slice \<Rightarrow> 'st mem \<Rightarrow> bool" where
  "slice_step lookup xs s m s' m' \<longleftrightarrow>
     slice_load lookup (\<lambda>m x. x) m' s' = xs \<and> in_range lookup m' s' \<and> Lim m \<le> Lim m' \<and>
     agree ({..<Lim m} - set (array_of lookup m s)) m m' \<and>
     distinct (array_of lookup m' s') \<and> set (array_of lookup m' s') \<subseteq> set (array_of lookup m s) \<union> {Lim m..<Lim m'}"

lemma list_all_True [simp]: "list_all (\<lambda>x. True) xs"
  by (simp add: list_all_iff)

context array_heap
begin

lemma append_slice_step:
  assumes "in_range lookup m s" and "set (array_of lookup m s) \<subseteq> {..<Lim m}"
    and "run_state (append_slice lookup store spare zero s x) m = (s', m')"
  shows "slice_step lookup (slice_load lookup (\<lambda>m x. x) m s @ [x]) s m s' m'"
proof (cases s)
  case None
  with assms(3) show ?thesis
    by (auto simp: append_slice_def slice_step_def slice_defs agree_def heap_simps)
next
  case (Some t)
  obtain a off n where t: "t = (a, off, n)" by (cases t) auto
  with Some assms(1,2) have a: "off + n \<le> length (lookup m a)" "a < Lim m" by (auto simp: slice_defs)
  show ?thesis
  proof (cases "off + n < length (lookup m a)")
    case True
    then have "take (Suc n) (drop off ((lookup m a)[off + n := x])) = take n (drop off (lookup m a)) @ [x]"
      by (simp add: drop_update_swap take_Suc_conv_app_nth)
    with True assms(3) a Some t show ?thesis
      by (auto simp: append_slice_def slice_step_def slice_defs agree_def heap_simps) (metis cell_store)
  next
    case False
    with a have "Suc (n + off) - length (lookup m a) = 1" by simp
    with False assms(3) a Some t show ?thesis
      by (auto simp: append_slice_def slice_step_def slice_defs agree_def heap_simps)
  qed
qed

end

lemma set_condition_loop_spec:
  assumes "off + i + k \<le> length (ConditionArrays m a)"
    and "run_state (set_condition_loop a off i k new) m = (found, m')"
    and "cs = take k (drop (off + i) (ConditionArrays m a))"
  shows "found = condition_exists_in cs (CondType new) \<and>
    m' = (if found then store_conditions a (take (off + i) (ConditionArrays m a) @ set_condition_in cs new @
            drop (off + i + k) (ConditionArrays m a)) m else m)"
  using assms
proof (induction k arbitrary: i cs)
  case (Suc k)
  let ?xs = "ConditionArrays m a" and ?cs = "take k (drop (off + Suc i) (ConditionArrays m a))"
  have cs: "cs = ?xs ! (off + i) # ?cs"
    using Suc.prems(1,3) by (simp add: Cons_nth_drop_Suc [symmetric])
  have upd: "?xs[off + i := y] = take (off + i) ?xs @ y # ?cs @ drop (off + i + Suc k) ?xs" for y
    using append_take_drop_id [of k "drop (off + Suc i) ?xs"] Suc.prems(1)
    by (simp add: upd_conv_take_nth_drop add.commute add.left_commute)
  show ?case
  proof (cases "CondType (?xs ! (off + i)) = CondType new")
    case True
    with Suc.prems(1,2) show ?thesis
      by (auto simp: cs Let_def upd)
  next
    case False
    with Suc.prems(2) have "run_state (set_condition_loop a off (Suc i) k new) m = (found, m')"
      by (simp add: Let_def)
    from Suc.IH [OF _ this refl] Suc.prems(1) False show ?thesis
      by (auto simp: cs take_Suc_conv_app_nth)
  qed
qed auto

lemma sort_slice_step:
  assumes "in_range StringArrays m s" and "set (array_of StringArrays m s) \<subseteq> {..<Lim m}"
    and "run_state (sort_slice s) m = (u, m')"
  shows "slice_step StringArrays (slices_Sort (strings_of m s)) s m s m'" and "Lim m' = Lim m"
    and "agree (- set (array_of StringArrays m s)) m m'"
proof -
  have "slice_step StringArrays (slices_Sort (strings_of m s)) s m s m' \<and> Lim m' = Lim m \<and>
      agree (- set (array_of StringArrays m s)) m m'"
  proof (cases s)
    case None
    with assms(3) show ?thesis by (auto simp: sort_slice_def slice_step_def slice_defs)
  next
    case (Some t)
    obtain a off n where t: "t = (a, off, n)" by (cases t) auto
    let ?xs = "StringArrays m a"
    have "off + n \<le> length ?xs" using assms(1) Some t by (auto simp: slice_defs)
    then have len: "length (take off ?xs) = off" "length (slices_Sort (take n (drop off ?xs))) = n" by simp_all
    have m': "m' = store_strings a (take off ?xs @ slices_Sort (take n (drop off ?xs)) @ drop (off + n) ?xs) m"
      using assms(3) by (simp add: Some t sort_slice_def Let_def)
    have "agree (- {a}) m m'" by (simp add: m' agree_def string_heap.cell_store)
    then show ?thesis
      using assms(2) len \<open>off + n \<le> length ?xs\<close>
      by (auto simp: Some t m' slice_step_def slice_defs string_heap.heap_simps min_def intro: agree_subset)
  qed
  then show "slice_step StringArrays (slices_Sort (strings_of m s)) s m s m'" "Lim m' = Lim m"
    "agree (- set (array_of StringArrays m s)) m m'" by auto
qed

lemma remove_loop_step:
  assumes "off + i + k \<le> length (StringArrays m a)" and "a < Lim m"
    and "run_state (remove_loop a off i k x) m = (s', m')"
  shows "slice_step StringArrays (take i (drop off (StringArrays m a)) @ removeElement (take k (drop (off + i) (StringArrays m a))) x)
    (Some (a, off, i + k)) m s' m'"
  using assms
proof (induction k arbitrary: i)
  case 0
  then show ?case by (auto simp: slice_step_def slice_defs)
next
  case (Suc k)
  let ?xs = "StringArrays m a"
  have i: "take (Suc i) (drop off ?xs) = take i (drop off ?xs) @ [?xs ! (off + i)]"
    using Suc.prems(1) by (simp add: take_Suc_conv_app_nth)
  have rest: "take (Suc k) (drop (off + i) ?xs) = ?xs ! (off + i) # take k (drop (off + Suc i) ?xs)"
    using Suc.prems(1) by (simp add: Cons_nth_drop_Suc [symmetric])
  show ?case
  proof (cases "?xs ! (off + i) = x")
    case True
    let ?ys = "take (off + i) ?xs @ take k (drop (off + Suc i) ?xs) @ drop (off + i + k) ?xs"
    have res: "s' = Some (a, off, i + k)" "m' = store_strings a ?ys m"
      using True Suc.prems(3) by auto
    have "take (i + k) (drop off ?ys) = take i (drop off ?xs) @ take k (drop (off + Suc i) ?xs)"
      using Suc.prems(1) by (auto simp: drop_take min_def)
    moreover have "agree ({..<Lim m} - {a}) m m'" by (auto simp: res agree_def string_heap.cell_store)
    ultimately show ?thesis
      using Suc.prems(1,2) True by (simp add: res rest slice_step_def slice_defs string_heap.heap_simps)
  next
    case False
    with Suc.prems(3) have "run_state (remove_loop a off (Suc i) k x) m = (s', m')" by simp
    from Suc.IH [OF _ Suc.prems(2) this] Suc.prems(1) False show ?thesis
      by (simp add: rest i slice_step_def slice_foot_def)
  qed
qed

lemma removeElement_mem_step:
  assumes "in_range StringArrays m s" and "set (array_of StringArrays m s) \<subseteq> {..<Lim m}"
    and "run_state (removeElement_mem s x) m = (s', m')"
  shows "slice_step StringArrays (removeElement (strings_of m s) x) s m s' m'"
proof (cases s)
  case None
  with assms(3) show ?thesis by (auto simp: removeElement_mem_def slice_step_def slice_defs)
next
  case (Some t)
  obtain a off n where t: "t = (a, off, n)" by (cases t) auto
  with remove_loop_step [of off 0 n m a x s' m'] Some assms show ?thesis
    by (auto simp: removeElement_mem_def slice_defs)
qed

section \<open>A configuration of one's own\<close>

text \<open>
  All cells of the configuration were allocated from \<open>l\<close> on, no two parts of it share one, and its
  slices are in range.
\<close>

definition owned :: "addr \<Rightarrow> 'st mem \<Rightarrow> Configuration_mem \<Rightarrow> bool" where
  "owned l m c \<longleftrightarrow> l \<le> Lim m \<and> Configuration_shape m c \<and> distinct (Configuration_foot m c) \<and>
     set (Configuration_foot m c) \<subseteq> {l..<Lim m}"

lemma Configuration_load_eq:
  "Configuration_load m c = \<lparr>Meta = Meta c, Spec = ConfigurationSpec_load m (Spec c), Status =
     \<lparr>MatchingNodeAddresses = strings_of m (MatchingNodeAddresses (Status c)), Conditions = conditions_of m (Conditions (Status c)),
      StatusText = StatusText (Status c), ManagedObjects = slice_load ReferenceArrays (\<lambda>m x. x) m (ManagedObjects (Status c))\<rparr>\<rparr>"
  by (simp add: Configuration_load_def map_Configuration_def ConfigurationSpec_load_def map_ConfigurationStatus_def)

lemmas owned_defs = owned_def Configuration_shape_def Configuration_foot_def ConfigurationStatus_shape_def ConfigurationStatus_foot_def

lemma replace_part:
  fixes l n n' :: addr
  assumes "distinct (as @ xs @ bs)" and "set (as @ xs @ bs) \<subseteq> {l..<n}" and "l \<le> n" and "distinct ys"
    and "set ys \<subseteq> set xs \<union> {n..<n'}" and "n \<le> n'"
  shows "distinct (as @ ys @ bs) \<and> set (as @ ys @ bs) \<subseteq> {l..<n'}"
proof -
  have bounds: "set as \<subseteq> {l..<n}" "set xs \<subseteq> {l..<n}" "set bs \<subseteq> {l..<n}" using assms(2) by simp_all
  have "{l..<n} \<inter> {n..<n'} = {}" by auto
  with bounds have "set as \<inter> {n..<n'} = {}" "set bs \<inter> {n..<n'} = {}" by blast+
  moreover have "set as \<inter> (set xs \<union> set bs) = {}" "set xs \<inter> set bs = {}" using assms(1) by auto
  ultimately have "set as \<inter> (set ys \<union> set bs) = {}" "set ys \<inter> set bs = {}" using assms(5) by blast+
  with assms(1,4) have "distinct (as @ ys @ bs)" by simp
  moreover have "{l..<n} \<subseteq> {l..<n'}" "{n..<n'} \<subseteq> {l..<n'}" using assms(3,6) by auto
  then have "set as \<subseteq> {l..<n'}" "set bs \<subseteq> {l..<n'}" "set ys \<subseteq> {l..<n'}" using bounds assms(5) by blast+
  ultimately show ?thesis by simp
qed

lemma untouched:
  assumes "distinct (as @ xs @ bs)" and "set (as @ xs @ bs) \<subseteq> {l..<n}" and "l \<le> n" and "agree ({..<n} - set xs) m m'"
  shows "agree (set as) m m'" and "agree (set bs) m m'" and "agree {..<l} m m'"
proof -
  have bounds: "set as \<subseteq> {l..<n}" "set xs \<subseteq> {l..<n}" "set bs \<subseteq> {l..<n}" using assms(2) by simp_all
  have "set as \<subseteq> {..<n} - set xs" "set bs \<subseteq> {..<n} - set xs" using bounds assms(1) by fastforce+
  moreover have "{..<l} \<subseteq> {..<n} - set xs" using bounds assms(3) by fastforce
  ultimately show "agree (set as) m m'" "agree (set bs) m m'" "agree {..<l} m m'"
    using agree_subset [OF assms(4)] by blast+
qed

text \<open>An operation on one slice of an owned configuration leaves all its other parts alone.\<close>

lemma owned_conditions_step:
  assumes "owned l m c" and "slice_step ConditionArrays cs (Conditions (Status c)) m s' m'"
  defines "c' \<equiv> c\<lparr>Status := (Status c)\<lparr>Conditions := s'\<rparr>\<rparr>" and "v \<equiv> Configuration_load m c"
  shows "owned l m' c' \<and> Configuration_load m' c' = v\<lparr>Status := (Status v)\<lparr>Conditions := cs\<rparr>\<rparr> \<and> agree {..<l} m m'"
proof -
  let ?as = "ConfigurationSpec_foot m (Spec c) @ array_of StringArrays m (MatchingNodeAddresses (Status c))"
  let ?xs = "array_of ConditionArrays m (Conditions (Status c))" and ?bs = "array_of ReferenceArrays m (ManagedObjects (Status c))"
  from assms(2) have step: "agree ({..<Lim m} - set ?xs) m m'" "distinct (array_of ConditionArrays m' s')"
      "set (array_of ConditionArrays m' s') \<subseteq> set ?xs \<union> {Lim m..<Lim m'}" "Lim m \<le> Lim m'" by (simp_all add: slice_step_def)
  have parts: "distinct (?as @ ?xs @ ?bs)" "set (?as @ ?xs @ ?bs) \<subseteq> {l..<Lim m}" "l \<le> Lim m"
    using assms(1) by (simp_all add: owned_defs)
  note agree = untouched [OF parts step(1)]
  note same = ConfigurationSpec_copy.frame [OF agree_subset [OF agree(1)]]
    string_heap.plain.frame [OF agree_subset [OF agree(1)]] reference_heap.plain.frame [OF agree(2)]
  have "owned l m' c'"
    using assms(1,2) same replace_part [OF parts step(2-4)] step(4) by (simp add: owned_defs c'_def slice_step_def)
  with agree(3) same assms(2) show ?thesis by (simp add: Configuration_load_eq c'_def v_def slice_step_def)
qed

lemma owned_addresses_step:
  assumes "owned l m c" and "slice_step StringArrays xs (MatchingNodeAddresses (Status c)) m s' m'"
  defines "c' \<equiv> c\<lparr>Status := (Status c)\<lparr>MatchingNodeAddresses := s'\<rparr>\<rparr>"
  shows "owned l m' c' \<and> Configuration_load m' c' = set_addresses (Configuration_load m c) xs \<and> agree {..<l} m m'"
proof -
  let ?as = "ConfigurationSpec_foot m (Spec c)" and ?xs = "array_of StringArrays m (MatchingNodeAddresses (Status c))"
  let ?bs = "array_of ConditionArrays m (Conditions (Status c)) @ array_of ReferenceArrays m (ManagedObjects (Status c))"
  from assms(2) have step: "agree ({..<Lim m} - set ?xs) m m'" "distinct (array_of StringArrays m' s')"
      "set (array_of StringArrays m' s') \<subseteq> set ?xs \<union> {Lim m..<Lim m'}" "Lim m \<le> Lim m'" by (simp_all add: slice_step_def)
  have parts: "distinct (?as @ ?xs @ ?bs)" "set (?as @ ?xs @ ?bs) \<subseteq> {l..<Lim m}" "l \<le> Lim m"
    using assms(1) by (simp_all add: owned_defs)
  note agree = untouched [OF parts step(1)]
  note same = ConfigurationSpec_copy.frame [OF agree(1)]
    condition_heap.plain.frame [OF agree_subset [OF agree(2)]] reference_heap.plain.frame [OF agree_subset [OF agree(2)]]
  have "owned l m' c'"
    using assms(1,2) same replace_part [OF parts step(2-4)] step(4) by (simp add: owned_defs c'_def slice_step_def)
  with agree(3) same assms(2) show ?thesis by (simp add: Configuration_load_eq c'_def set_addresses_def slice_step_def)
qed

section \<open>Operations on the working copy\<close>

lemma slice_step_refl:
  assumes "in_range lookup m s"
  shows "slice_step lookup (slice_load lookup (\<lambda>m x. x) m s) s m s m"
  using assms by (auto simp: slice_step_def slice_foot_def split: option.splits)

lemma set_condition_absent: "\<not> condition_exists_in cs (CondType new) \<Longrightarrow> set_condition_in cs new = cs @ [new]"
  by (induction cs) (auto split: if_splits)

text \<open>The loop over the conditions, as a step of the slice.\<close>

lemma set_condition_found:
  assumes "in_range ConditionArrays m (Some (a, off, n))" and "a < Lim m"
    and "run_state (set_condition_loop a off 0 n new) m = (True, m')"
  shows "slice_step ConditionArrays (set_condition_in (conditions_of m (Some (a, off, n))) new) (Some (a, off, n)) m (Some (a, off, n)) m'"
proof -
  let ?xs = "ConditionArrays m a" and ?cs = "take n (drop off (ConditionArrays m a))"
  have fits: "off + n \<le> length ?xs" using assms(1) by (simp add: slice_shape_def)
  from set_condition_loop_spec [OF _ assms(3) refl] fits have found: "condition_exists_in ?cs (CondType new)"
      and m': "m' = store_conditions a (take off ?xs @ set_condition_in ?cs new @ drop (off + n) ?xs) m" by auto
  have "length (set_condition_in ?cs new) = length (map CondType ?cs)"
    using types_set_condition [of ?cs new] found by (metis append_Nil2 condition_exists_in_iff length_map)
  then have len: "length (set_condition_in ?cs new) = n" using fits by simp
  have "agree ({..<Lim m} - {a}) m m'" by (auto simp: m' agree_def condition_heap.cell_store)
  with len fits assms(2) show ?thesis
    by (auto simp: slice_step_def slice_defs m' condition_heap.heap_simps min_def)
qed

lemma SetCondition_mem_step:
  assumes "owned l m c" and "run_state (SetCondition_mem spare c t st msg reason now) m = (c', m')"
  shows "owned l m' c' \<and> Configuration_load m' c' = SetCondition (Configuration_load m c) t st msg reason now \<and> agree {..<l} m m'"
proof -
  let ?s = "Conditions (Status c)"
  define new where "new = \<lparr>CondType = t, CondStatus = st, ObservedGeneration = Generation (Meta c), LastTransitionTime = now,
    Reason = reason, Message = msg\<rparr>"
  have range: "in_range ConditionArrays m ?s" "set (array_of ConditionArrays m ?s) \<subseteq> {..<Lim m}"
    using assms(1) by (auto simp: owned_defs)
  have "\<exists>s'. c' = c\<lparr>Status := (Status c)\<lparr>Conditions := s'\<rparr>\<rparr> \<and>
      slice_step ConditionArrays (set_condition_in (conditions_of m ?s) new) ?s m s' m'"
  proof (cases "\<exists>a off n m1. ?s = Some (a, off, n) \<and> run_state (set_condition_loop a off 0 n new) m = (True, m1)")
    case True
    then obtain a off n m1 where s: "?s = Some (a, off, n)" and loop: "run_state (set_condition_loop a off 0 n new) m = (True, m1)"
      by blast
    with assms(2) have res: "c' = c" "m' = m1" by (simp_all add: SetCondition_mem_def Let_def new_def)
    have "a < Lim m" using range(2) s by (simp add: slice_foot_def)
    from set_condition_found [OF range(1) [unfolded s] this loop] s res show ?thesis
      by (intro exI [of _ ?s]) simp
  next
    case False
    have absent: "\<not> condition_exists_in (conditions_of m ?s) (CondType new) \<and>
        run_state (append_slice ConditionArrays store_conditions spare zero_Condition ?s new \<bind>
          (\<lambda>s. State_Monad.return (c\<lparr>Status := (Status c)\<lparr>Conditions := s\<rparr>\<rparr>))) m = (c', m')"
    proof (cases ?s)
      case None
      then show ?thesis using assms(2) by (simp add: SetCondition_mem_def Let_def new_def slice_defs)
    next
      case (Some u)
      obtain a off n where u: "u = (a, off, n)" by (cases u) auto
      obtain found m1 where loop: "run_state (set_condition_loop a off 0 n new) m = (found, m1)" by fastforce
      with False Some u have "\<not> found" by auto
      with set_condition_loop_spec [OF _ loop refl] range(1) Some u
      have "\<not> condition_exists_in (take n (drop off (ConditionArrays m a))) (CondType new)" "m1 = m"
        by (auto simp: slice_shape_def)
      with assms(2) loop \<open>\<not> found\<close> Some u show ?thesis
        by (simp add: SetCondition_mem_def Let_def new_def slice_defs)
    qed
    then obtain s' where "run_state (append_slice ConditionArrays store_conditions spare zero_Condition ?s new) m = (s', m')"
        and c': "c' = c\<lparr>Status := (Status c)\<lparr>Conditions := s'\<rparr>\<rparr>"
      by (auto split: prod.splits)
    from condition_heap.append_slice_step [OF range this(1)] set_condition_absent absent c' show ?thesis by auto
  qed
  then obtain s' where c': "c' = c\<lparr>Status := (Status c)\<lparr>Conditions := s'\<rparr>\<rparr>"
      and step: "slice_step ConditionArrays (set_condition_in (conditions_of m ?s) new) ?s m s' m'" by blast
  from owned_conditions_step [OF assms(1) step] show ?thesis
    by (simp add: c' SetCondition_def Configuration_load_eq new_def)
qed

text \<open>The addresses \<^verbatim>\<open>findMasterNodes\<close> collects: a nil slice the found addresses are appended to.\<close>

fun append_all :: "(nat \<Rightarrow> nat) \<Rightarrow> string list \<Rightarrow> slice \<Rightarrow> ('st mem, slice) state" where
  "append_all spare [] s = State_Monad.return s"
| "append_all spare (x # xs) s = do {
     s' \<leftarrow> append_slice StringArrays store_strings spare '''' s x;
     append_all spare xs s'
   }"

text \<open>What the steps of a reconcile do to the working copy, in memory and on values.\<close>

datatype status_op =
    OpSetCondition string string string string int
  | OpSortAddresses
  | OpSetAddresses "string list"
  | OpSetStatus string
  | OpSetTag string
  | OpRemoveAddress string

fun run_op_mem :: "(nat \<Rightarrow> nat) \<Rightarrow> status_op \<Rightarrow> Configuration_mem \<Rightarrow> ('st mem, Configuration_mem) state" where
  "run_op_mem spare (OpSetCondition t st msg reason now) c = SetCondition_mem spare c t st msg reason now"
| "run_op_mem spare OpSortAddresses c = do {
     _ \<leftarrow> sort_slice (MatchingNodeAddresses (Status c));
     State_Monad.return c
   }"
| "run_op_mem spare (OpSetAddresses as) c = do {
     s \<leftarrow> append_all spare as None;
     State_Monad.return (c\<lparr>Status := (Status c)\<lparr>MatchingNodeAddresses := s\<rparr>\<rparr>)
   }"
| "run_op_mem spare (OpSetStatus s) c = State_Monad.return (c\<lparr>Status := (Status c)\<lparr>StatusText := s\<rparr>\<rparr>)"
| "run_op_mem spare (OpSetTag version) c = State_Monad.return (c\<lparr>Spec := (Spec c)\<lparr>Global := (Global (Spec c))\<lparr>Images :=
     (Images (Global (Spec c)))\<lparr>KubeOVNImage := (KubeOVNImage (Images (Global (Spec c))))\<lparr>Tag := version\<rparr>\<rparr>\<rparr>\<rparr>\<rparr>)"
| "run_op_mem spare (OpRemoveAddress a) c = do {
     s \<leftarrow> removeElement_mem (MatchingNodeAddresses (Status c)) a;
     State_Monad.return (c\<lparr>Status := (Status c)\<lparr>MatchingNodeAddresses := s\<rparr>\<rparr>)
   }"

fun run_op :: "status_op \<Rightarrow> Configuration \<Rightarrow> Configuration" where
  "run_op (OpSetCondition t st msg reason now) v = SetCondition v t st msg reason now"
| "run_op OpSortAddresses v = set_addresses v (slices_Sort (MatchingNodeAddresses (Status v)))"
| "run_op (OpSetAddresses as) v = set_addresses v as"
| "run_op (OpSetStatus s) v = set_status v s"
| "run_op (OpSetTag version) v = patch_version v version"
| "run_op (OpRemoveAddress a) v = set_addresses v (removeElement (MatchingNodeAddresses (Status v)) a)"

fun run_ops_mem :: "(nat \<Rightarrow> nat) \<Rightarrow> status_op list \<Rightarrow> Configuration_mem \<Rightarrow> ('st mem, Configuration_mem) state" where
  "run_ops_mem spare [] c = State_Monad.return c"
| "run_ops_mem spare (op # ops) c = do {
     c' \<leftarrow> run_op_mem spare op c;
     run_ops_mem spare ops c'
   }"

lemma append_all_fresh:
  assumes "run_state (append_all spare xs s) m = (s', m')" and "in_range StringArrays m s"
    and "set (array_of StringArrays m s) \<subseteq> {l..<Lim m}" and "l \<le> Lim m"
  shows "strings_of m' s' = strings_of m s @ xs \<and> in_range StringArrays m' s' \<and> Lim m \<le> Lim m' \<and> agree {..<l} m m' \<and>
    set (array_of StringArrays m' s') \<subseteq> {l..<Lim m'}"
  using assms
proof (induction xs arbitrary: s m)
  case (Cons x xs)
  obtain s1 m1 where run: "run_state (append_slice StringArrays store_strings spare '''' s x) m = (s1, m1)" by fastforce
  have old: "set (array_of StringArrays m s) \<subseteq> {..<Lim m}" using Cons.prems(3) by auto
  from string_heap.append_slice_step [OF Cons.prems(2) old run]
  have step: "strings_of m1 s1 = strings_of m s @ [x]" "in_range StringArrays m1 s1" "Lim m \<le> Lim m1"
      "agree ({..<Lim m} - set (array_of StringArrays m s)) m m1"
      "set (array_of StringArrays m1 s1) \<subseteq> set (array_of StringArrays m s) \<union> {Lim m..<Lim m1}"
    by (simp_all add: slice_step_def)
  have "{..<l} \<subseteq> {..<Lim m} - set (array_of StringArrays m s)" using Cons.prems(3,4) by fastforce
  then have low: "agree {..<l} m m1" by (rule agree_subset [OF step(4)])
  have new: "set (array_of StringArrays m1 s1) \<subseteq> {l..<Lim m1}" using step(3,5) Cons.prems(3,4) by fastforce
  from Cons.prems(1) run have rest: "run_state (append_all spare xs s1) m1 = (s', m')" by simp
  from Cons.IH [OF rest step(2) new] step(1,3) low Cons.prems(4) show ?case
    by (auto intro: agree_trans)
qed auto

lemma array_distinct [simp]: "distinct (array_of lookup m s)"
  by (simp add: slice_foot_def split: option.split)

lemma GlobalSpec_tag:
  "GlobalSpec_foot m (g\<lparr>Images := i\<rparr>) = GlobalSpec_foot m g" "GlobalSpec_shape m (g\<lparr>Images := i\<rparr>) = GlobalSpec_shape m g"
  "GlobalSpec_load m (g\<lparr>Images := i\<rparr>) = (GlobalSpec_load m g)\<lparr>Images := i\<rparr>" "Images (GlobalSpec_load m g) = Images g"
  by (simp_all add: GlobalSpec_foot_def GlobalSpec_shape_def GlobalSpec_load_def map_GlobalSpec_def)

lemma ConfigurationSpec_tag:
  "GlobalSpec_foot m g = GlobalSpec_foot m (Global s) \<Longrightarrow> ConfigurationSpec_foot m (s\<lparr>Global := g\<rparr>) = ConfigurationSpec_foot m s"
  "GlobalSpec_shape m g = GlobalSpec_shape m (Global s) \<Longrightarrow> ConfigurationSpec_shape m (s\<lparr>Global := g\<rparr>) = ConfigurationSpec_shape m s"
  "ConfigurationSpec_load m (s\<lparr>Global := g\<rparr>) = (ConfigurationSpec_load m s)\<lparr>Global := GlobalSpec_load m g\<rparr>"
  "Global (ConfigurationSpec_load m s) = GlobalSpec_load m (Global s)"
  by (simp_all add: ConfigurationSpec_foot_def ConfigurationSpec_shape_def ConfigurationSpec_load_def map_ConfigurationSpec_def
    GlobalSpec_load_def)

lemma run_op_mem_step:
  assumes "owned l m c" and "run_state (run_op_mem spare op c) m = (c', m')"
  shows "owned l m' c' \<and> Configuration_load m' c' = run_op op (Configuration_load m c) \<and> agree {..<l} m m'"
proof (cases op)
  case (OpSetCondition t st msg reason now)
  with assms SetCondition_mem_step show ?thesis by simp
next
  case OpSortAddresses
  have range: "in_range StringArrays m (MatchingNodeAddresses (Status c))"
      "set (array_of StringArrays m (MatchingNodeAddresses (Status c))) \<subseteq> {..<Lim m}"
    using assms(1) by (auto simp: owned_defs)
  from OpSortAddresses assms(2) obtain u where run: "run_state (sort_slice (MatchingNodeAddresses (Status c))) m = (u, m')"
      and c': "c' = c" by (auto split: prod.splits)
  from owned_addresses_step [OF assms(1) sort_slice_step(1) [OF range run]] show ?thesis
    by (simp add: OpSortAddresses c' Configuration_load_eq)
next
  case (OpSetAddresses as)
  with assms(2) obtain s where run: "run_state (append_all spare as None) m = (s, m')"
      and c': "c' = c\<lparr>Status := (Status c)\<lparr>MatchingNodeAddresses := s\<rparr>\<rparr>" by (auto split: prod.splits)
  have nil: "strings_of m None = []" "in_range StringArrays m None" "array_of StringArrays m None = []"
    by (simp_all add: slice_defs)
  from append_all_fresh [OF run nil(2), of "Lim m"]
  have "slice_step StringArrays as (MatchingNodeAddresses (Status c)) m s m'"
    by (auto simp: slice_step_def nil intro: agree_subset)
  from owned_addresses_step [OF assms(1) this] show ?thesis by (simp add: OpSetAddresses c')
next
  case (OpSetStatus s)
  with assms show ?thesis by (auto simp: owned_defs Configuration_load_eq set_status_def)
next
  case (OpSetTag version)
  with assms show ?thesis
    by (auto simp: owned_defs Configuration_load_eq patch_version_def ConfigurationSpec_tag GlobalSpec_tag)
next
  case (OpRemoveAddress a)
  have range: "in_range StringArrays m (MatchingNodeAddresses (Status c))"
      "set (array_of StringArrays m (MatchingNodeAddresses (Status c))) \<subseteq> {..<Lim m}"
    using assms(1) by (auto simp: owned_defs)
  from OpRemoveAddress assms(2) obtain s where run: "run_state (removeElement_mem (MatchingNodeAddresses (Status c)) a) m = (s, m')"
      and c': "c' = c\<lparr>Status := (Status c)\<lparr>MatchingNodeAddresses := s\<rparr>\<rparr>" by (auto split: prod.splits)
  from owned_addresses_step [OF assms(1) removeElement_mem_step [OF range run]] show ?thesis
    by (simp add: OpRemoveAddress c' Configuration_load_eq)
qed

lemma run_ops_mem_step:
  assumes "owned l m c" and "run_state (run_ops_mem spare ops c) m = (c', m')"
  shows "owned l m' c' \<and> Configuration_load m' c' = fold run_op ops (Configuration_load m c) \<and> agree {..<l} m m'"
  using assms
proof (induction ops arbitrary: m c)
  case (Cons op ops)
  obtain c1 m1 where run: "run_state (run_op_mem spare op c) m = (c1, m1)" by fastforce
  with Cons.prems(2) have rest: "run_state (run_ops_mem spare ops c1) m1 = (c', m')" by simp
  from run_op_mem_step [OF Cons.prems(1) run] Cons.IH [OF _ rest] show ?case by (auto intro: agree_trans)
qed auto

section \<open>The steps of a reconcile\<close>

definition by_ops :: "Configuration \<Rightarrow> Configuration \<Rightarrow> bool" where
  "by_ops c c' \<longleftrightarrow> (\<exists>ops. c' = fold run_op ops c)"

lemma by_ops_refl [simp]: "by_ops c c"
  unfolding by_ops_def by (rule exI [of _ "[]"]) simp

lemma by_ops_trans: "by_ops a b \<Longrightarrow> by_ops b c \<Longrightarrow> by_ops a c"
  unfolding by_ops_def by (metis fold_append comp_apply)

lemma by_ops_op: "by_ops c c' \<Longrightarrow> by_ops c (run_op op c')"
  by (rule by_ops_trans) (auto simp: by_ops_def intro: exI [of _ "[op]"])

lemmas by_ops_steps =
  by_ops_op [where op = "OpSetCondition t st msg reason now" for t st msg reason now, simplified run_op.simps]
  by_ops_op [where op = "OpSetAddresses as" for as, simplified run_op.simps]
  by_ops_op [where op = "OpSetStatus s" for s, simplified run_op.simps]
  by_ops_op [where op = "OpSetTag v" for v, simplified run_op.simps]

definition step_by_ops :: "Configuration \<Rightarrow> goerror option \<times> Configuration \<Rightarrow> trace \<Rightarrow> bool" where
  "step_by_ops c r new \<longleftrightarrow> by_ops c (snd r)"

lemma early_steps_by_ops:
  "obeys (initializeConditions E c) [] (step_by_ops c)"
  "obeys (reconcileClusterScopedReference E c) [] (step_by_ops c)"
  "obeys (findMasterNodes E L c) [] (step_by_ops c)"
  unfolding initializeConditions_def init_condition_def reconcileClusterScopedReference_def findMasterNodes_def call_defs
  by (intro obeys_rules; simp add: step_by_ops_def by_ops_steps)+

lemma apply_types_by_ops: "obeys (apply_types E L version fakeNS caCert order c) [] (step_by_ops c)"
proof (induction order arbitrary: c)
  case Nil
  show ?case by (simp add: obeys_return step_by_ops_def)
next
  case (Cons entry order)
  obtain k ts where entry: "entry = (k, ts)" by (cases entry)
  show ?case
    unfolding entry apply_types.simps call_defs
    apply (intro obeys_rules)
      apply (simp add: step_by_ops_def)
     apply (auto simp: step_by_ops_def GenerateObjects_def Let_def by_ops_steps intro!: obeys_return) [1]
    apply (rule obeys_frame [OF apply_objects_calls [unfolded emits_obeys]])
    apply (intro obeys_rules)
     apply (rule obeys_frame [OF Cons.IH])
     apply (auto simp: step_by_ops_def GenerateObjects_def Let_def by_ops_steps
       intro: by_ops_trans [OF by_ops_steps(4) [OF by_ops_refl]])
    done
qed

lemma applyObject_by_ops: "obeys (applyObject E L namespace version order c) [] (step_by_ops c)"
  unfolding applyObject_def call_defs
  apply (intro obeys_rules)
       apply (simp_all add: step_by_ops_def)
  apply (rule obeys_frame [OF apply_types_by_ops])
  apply (intro obeys_rules)
   apply (auto simp: step_by_ops_def by_ops_steps)
  done

lemma run_steps_by_ops:
  assumes "\<And>v c. v \<in> set vs \<Longrightarrow> obeys (v c) [] (step_by_ops c)"
  shows "obeys (run_steps vs c) [] (step_by_ops c)"
  using assms
proof (induction vs arbitrary: c)
  case Nil
  show ?case by (simp add: obeys_return step_by_ops_def)
next
  case (Cons v vs)
  have "obeys (v c) [] (step_by_ops c)" by (simp add: Cons.prems)
  then show ?case
    unfolding run_steps.simps
    apply (intro obeys_bind)
    apply (rule obeys_mono)
     apply assumption
    apply (intro obeys_rules)
     apply (rule obeys_frame [OF Cons.IH])
      apply (simp add: Cons.prems)
     apply (auto simp: step_by_ops_def intro: by_ops_trans)
    done
qed

lemma reconcile_steps_by_ops: "obeys (run_steps (reconcile_steps E L namespace version order) c) [] (step_by_ops c)"
  by (rule run_steps_by_ops) (auto simp: reconcile_steps_def early_steps_by_ops applyObject_by_ops)

section \<open>Properties\<close>

text \<open>
  C7: the reconciler may be read as working on values. It changes a deep copy of the object it read, in
  place: whatever sequence of its operations is run on the copy, and however the run-time system lays out
  slices that grow, the copy afterwards reads as the value the operations compute, and the object that was
  read, against which the patch is computed, reads as before; and what the steps of a reconcile compute is
  the outcome of such a sequence.
\<close>

theorem working_copy_refines_values:
  assumes "copier_laws K" and "set (Configuration_foot m x) \<subseteq> {..<Lim m}" and "Configuration_shape m x"
    and "run_state (do { c \<leftarrow> Configuration_DeepCopyInto K x; run_ops_mem spare ops c }) m = (c', m')"
  shows "Configuration_load m' c' = fold run_op ops (Configuration_load m x) \<and>
    Configuration_load m' x = Configuration_load m x \<and>
    (\<exists>steps. snd (result (run_steps (reconcile_steps E L namespace version order) (Configuration_load m x)) tr) =
       fold run_op steps (Configuration_load m x))"
proof -
  obtain c m1 where run: "run_state (Configuration_DeepCopyInto K x) m = (c, m1)" by fastforce
  from Configuration_copy.copies [OF assms(2,3) run]
  have copy: "extends m m1" "Configuration_load m1 c = Configuration_load m x" "Configuration_shape m1 c"
      "within (Lim m) (Lim m1) (Configuration_foot m1 c)"
    by (simp_all add: copy_of_def copier_laws_val [OF assms(1)])
  then have "owned (Lim m) m1 c" using within_bounds [OF copy(4)] extends_Lim by (simp add: owned_def)
  moreover have "run_state (run_ops_mem spare ops c) m1 = (c', m')" using assms(4) run by simp
  ultimately have ops: "Configuration_load m' c' = fold run_op ops (Configuration_load m1 c)" "agree {..<Lim m} m1 m'"
    using run_ops_mem_step by blast+
  have "agree (set (Configuration_foot m x)) m m'"
    using assms(2) copy(1) ops(2) by (auto simp: extends_def intro: agree_subset agree_trans)
  with Configuration_copy.frame ops(1) copy(2) obeysD [OF reconcile_steps_by_ops] show ?thesis
    by (auto simp: step_by_ops_def by_ops_def)
qed

lemma demo_struct_valid:
  "set (Configuration_foot demo_mem demo_struct) \<subseteq> {..<Lim demo_mem}" "Configuration_shape demo_mem demo_struct"
  using demo_mem_valid by (auto simp: ptr_defs list_all_iff demo_mem_def)

definition demo_ops :: "status_op list" where
  "demo_ops = [OpSetCondition ''ready'' ''True'' ''msg'' ''reason'' 7, OpSortAddresses, OpSetStatus ''Deployed'']"

theorem working_copy_refines_values_witness:
  "MatchingNodeAddresses (Status (fold run_op demo_ops (Configuration_load demo_mem demo_struct))) = [''10.0.0.1'', ''10.0.0.2''] \<and>
   Configuration_load (snd (run_state (do { c \<leftarrow> Configuration_DeepCopyInto demo_copiers demo_struct;
     run_ops_mem (\<lambda>n. n) demo_ops c }) demo_mem)) demo_struct = Configuration_load demo_mem demo_struct"
proof -
  have "MatchingNodeAddresses (Status (fold run_op demo_ops (Configuration_load demo_mem demo_struct))) = [''10.0.0.1'', ''10.0.0.2'']"
    by code_simp
  with working_copy_refines_values [OF demo_copiers_laws demo_struct_valid surjective_pairing] show ?thesis by blast
qed

text \<open>
  on slices with different arrays, \<^verbatim>\<open>addressArrayEqual\<close> in memory returns what the function on
  values returns, leaves both slices sorted as that function says, and changes no other array.
\<close>

theorem addressArrayEqual_in_place:
  assumes "in_range StringArrays m s" and "in_range StringArrays m t"
    and "set (array_of StringArrays m s) \<union> set (array_of StringArrays m t) \<subseteq> {..<Lim m}"
    and "set (array_of StringArrays m s) \<inter> set (array_of StringArrays m t) = {}"
    and "run_state (addressArrayEqual_mem s t) m = (b, m')"
  shows "addressArrayEqual (strings_of m s) (strings_of m t) = (strings_of m' s, strings_of m' t, b) \<and>
    agree (- (set (array_of StringArrays m s) \<union> set (array_of StringArrays m t))) m m'"
proof -
  let ?S = "set (array_of StringArrays m s)" and ?T = "set (array_of StringArrays m t)"
  obtain m1 where one: "run_state (sort_slice s) m = ((), m1)" by (cases "run_state (sort_slice s) m") auto
  obtain m2 where two: "run_state (sort_slice t) m1 = ((), m2)" by (cases "run_state (sort_slice t) m1") auto
  have low: "?S \<subseteq> {..<Lim m}" using assms(3) by simp
  note first = sort_slice_step [OF assms(1) low one]
  have "agree ?T m m1" using assms(4) by (intro agree_subset [OF first(3)]) auto
  note t = string_heap.plain.frame [OF this]
  have "in_range StringArrays m1 t" "set (array_of StringArrays m1 t) \<subseteq> {..<Lim m1}"
    using t assms(2,3) first(2) by simp_all
  note second = sort_slice_step [OF this two]
  have "array_of StringArrays m1 s = array_of StringArrays m s" by (cases s) (auto simp: slice_foot_def)
  then have "agree (set (array_of StringArrays m1 s)) m1 m2"
    using assms(4) t by (intro agree_subset [OF second(3)]) auto
  note s = string_heap.plain.frame [OF this]
  have elems: "slice_elems StringArrays m2 = strings_of m2" by (simp add: slice_load_def fun_eq_iff)
  have "m' = m2" "b = slices_Equal (strings_of m2 s) (strings_of m2 t)"
    using assms(5) one two by (auto simp: addressArrayEqual_mem_def elems)
  moreover have "agree (- (?S \<union> ?T)) m m2"
    by (rule agree_trans [of _ _ m1]; rule agree_subset [OF first(3)] agree_subset [OF second(3)]) (use t in auto)
  ultimately show ?thesis
    using first(1) second(1) s t by (simp add: addressArrayEqual_def slice_step_def)
qed

definition demo_sort_mem :: "unit mem" where
  "demo_sort_mem = \<lparr>Lim = 2, Bools = (\<lambda>a. False),
     StringArrays = (\<lambda>a. if a = 0 then [''10.0.0.3'', ''10.0.0.2'', ''10.0.0.1''] else [''10.0.0.1'', ''10.0.0.2'']),
     ConditionArrays = (\<lambda>a. []), ReferenceArrays = (\<lambda>a. []), ConfigurationArrays = (\<lambda>a. []), Structs = (\<lambda>a. ())\<rparr>"

theorem addressArrayEqual_in_place_witness:
  "addressArrayEqual [''10.0.0.2'', ''10.0.0.1''] [''10.0.0.1'', ''10.0.0.2''] =
     ([''10.0.0.1'', ''10.0.0.2''], [''10.0.0.1'', ''10.0.0.2''], True)"
proof -
  let ?s = "Some (0, 1, 2) :: slice" and ?t = "Some (1, 0, 2) :: slice"
  have 1: "in_range StringArrays demo_sort_mem ?s" "in_range StringArrays demo_sort_mem ?t"
    by (simp_all add: slice_defs demo_sort_mem_def)
  have 2: "set (array_of StringArrays demo_sort_mem ?s) \<union> set (array_of StringArrays demo_sort_mem ?t) \<subseteq> {..<Lim demo_sort_mem}"
    "set (array_of StringArrays demo_sort_mem ?s) \<inter> set (array_of StringArrays demo_sort_mem ?t) = {}"
    by (simp_all add: slice_defs demo_sort_mem_def)
  have "strings_of demo_sort_mem ?s = [''10.0.0.2'', ''10.0.0.1'']" "strings_of demo_sort_mem ?t = [''10.0.0.1'', ''10.0.0.2'']"
    by (simp_all add: slice_defs demo_sort_mem_def numeral_eq_Suc)
  moreover have "strings_of (snd (run_state (addressArrayEqual_mem ?s ?t) demo_sort_mem)) ?s = [''10.0.0.1'', ''10.0.0.2'']"
    "strings_of (snd (run_state (addressArrayEqual_mem ?s ?t) demo_sort_mem)) ?t = [''10.0.0.1'', ''10.0.0.2'']"
    "fst (run_state (addressArrayEqual_mem ?s ?t) demo_sort_mem)"
    by code_simp+
  ultimately show ?thesis
    using addressArrayEqual_in_place [OF 1 2 surjective_pairing] by simp
qed

end
