(* ===== verification/Test_Infra.thy ===== *)
theory Test_Infra
  imports Go_Template
begin

text \<open>
  \<^verbatim>\<open>internal/testinfra\<close>: the cluster the controller tests run against, either an existing one or a k3d
  cluster that is created and deleted. The functions of k3d and of client-go they call are parameters,
  answered by the environment from the history of calls; runtimes, cluster configurations, clusters and
  kubeconfigs are opaque.

  The property says that the operations on k3d concern no cluster but the test cluster, in the order the
  library asks for, and that an existing cluster is left alone.
\<close>

section \<open>Calls\<close>

record SimpleConfig =
  ClusterName :: string
  Servers :: int
  Image :: string
  Network :: string
  ClusterToken :: string
  Wait :: bool
  DisableLoadbalancer :: bool
  Timeout :: int
  HostPort :: string

datatype 'x k3d_event =
    EvGetFreePort "goerror + int"
  | EvGetRuntime string "goerror + 'x"
  | EvTransform 'x SimpleConfig "goerror + 'x"
  | EvProcess 'x "goerror + 'x"
  | EvClusterRun 'x 'x "goerror option"
  | EvClusterGet 'x string "'x option \<times> goerror option"
  | EvClusterDelete 'x "'x option" "goerror option"
  | EvClusterList 'x "goerror + (string \<times> 'x) list"
  | EvKubeconfigGet 'x 'x "goerror + 'x"
  | EvKubeconfigWrite 'x "goerror + string"
  | EvRESTConfig string "goerror + 'x"
  | EvClientConfig "goerror + 'x"

record 'x k3d_env =
  k3dGetFreePort :: "'x k3d_event list \<Rightarrow> goerror + int"
  k3dGetRuntime :: "'x k3d_event list \<Rightarrow> string \<Rightarrow> goerror + 'x"
  k3dTransform :: "'x k3d_event list \<Rightarrow> 'x \<Rightarrow> SimpleConfig \<Rightarrow> goerror + 'x"
  k3dProcess :: "'x k3d_event list \<Rightarrow> 'x \<Rightarrow> goerror + 'x"
  k3dClusterRun :: "'x k3d_event list \<Rightarrow> 'x \<Rightarrow> 'x \<Rightarrow> goerror option"
  k3dClusterGet :: "'x k3d_event list \<Rightarrow> 'x \<Rightarrow> string \<Rightarrow> 'x option \<times> goerror option"
  k3dClusterDelete :: "'x k3d_event list \<Rightarrow> 'x \<Rightarrow> 'x option \<Rightarrow> goerror option"
  k3dClusterList :: "'x k3d_event list \<Rightarrow> 'x \<Rightarrow> goerror + (string \<times> 'x) list"
  k3dKubeconfigGet :: "'x k3d_event list \<Rightarrow> 'x \<Rightarrow> 'x \<Rightarrow> goerror + 'x"
  k3dKubeconfigWrite :: "'x k3d_event list \<Rightarrow> 'x \<Rightarrow> goerror + string"
  k3dRESTConfig :: "'x k3d_event list \<Rightarrow> string \<Rightarrow> goerror + 'x"
  k3dClientConfig :: "'x k3d_event list \<Rightarrow> goerror + 'x"
  k3dIsNoNodesFound :: "goerror \<Rightarrow> bool"

type_synonym ('x, 'a) k3d_io = "('x k3d_event, 'a) io"

section \<open>The k3d cluster\<close>

definition defaultImage :: string where "defaultImage = ''rancher/k3s:v1.32.3-k3s1''"
definition defaultClusterName :: string where "defaultClusterName = ''kubeovn-test''"
definition serverCount :: int where "serverCount = 3"
definition defaultNetworkName :: string where "defaultNetworkName = ''k3d-kubeovn''"
definition defaultClusterToken :: string where "defaultClusterToken = ''k3d-kubeovn''"

definition test_cluster_config :: "string \<Rightarrow> SimpleConfig" where
  "test_cluster_config freePort = \<lparr>ClusterName = defaultClusterName, Servers = serverCount, Image = defaultImage,
     Network = defaultNetworkName, ClusterToken = defaultClusterToken, Wait = True, DisableLoadbalancer = False,
     Timeout = 600 * 1000000000, HostPort = freePort\<rparr>"

definition K3dCluster_CreateCluster :: "'x k3d_env \<Rightarrow> ('x, goerror option) k3d_io" where
  "K3dCluster_CreateCluster E = do {
     p \<leftarrow> call (k3dGetFreePort E) EvGetFreePort;
     case p of
       Inl e \<Rightarrow> State_Monad.return (Some (errorf ''error getting free port during create cluster'' e))
     | Inr port \<Rightarrow> do {
         let cluster = test_cluster_config (show_int port);
         r \<leftarrow> call (\<lambda>tr. k3dGetRuntime E tr ''docker'') (EvGetRuntime ''docker'');
         case r of
           Inl e \<Rightarrow> State_Monad.return (Some (errorf ''error fetching docker runtime while creating a cluster'' e))
         | Inr runtime \<Rightarrow> do {
             g \<leftarrow> call (\<lambda>tr. k3dTransform E tr runtime cluster) (EvTransform runtime cluster);
             case g of
               Inl e \<Rightarrow> State_Monad.return (Some (errorf ''error transforming simple cluster config'' e))
             | Inr generated \<Rightarrow> do {
                 q \<leftarrow> call (\<lambda>tr. k3dProcess E tr generated) (EvProcess generated);
                 case q of
                   Inl e \<Rightarrow> State_Monad.return (Some (errorf ''error processing cluster config'' e))
                 | Inr processed \<Rightarrow> call (\<lambda>tr. k3dClusterRun E tr runtime processed) (EvClusterRun runtime processed)
               }
           }
       }
   }"

text \<open>Of the errors of \<^verbatim>\<open>ClusterGet\<close> only one ends the function; after any other it goes on.\<close>

definition K3dCluster_DeleteCluster :: "'x k3d_env \<Rightarrow> ('x, goerror option) k3d_io" where
  "K3dCluster_DeleteCluster E = do {
     r \<leftarrow> call (\<lambda>tr. k3dGetRuntime E tr ''docker'') (EvGetRuntime ''docker'');
     case r of
       Inl e \<Rightarrow> State_Monad.return (Some (errorf ''error fetching docker runtime while deleting a cluster'' e))
     | Inr runtime \<Rightarrow> do {
         (clusterObj, err) \<leftarrow> call (\<lambda>tr. k3dClusterGet E tr runtime defaultClusterName) (EvClusterGet runtime defaultClusterName);
         if (case err of None \<Rightarrow> False | Some e \<Rightarrow> k3dIsNoNodesFound E e) then State_Monad.return None
         else call (\<lambda>tr. k3dClusterDelete E tr runtime clusterObj) (EvClusterDelete runtime clusterObj)
       }
   }"

fun find_cluster :: "(string \<times> 'x) list \<Rightarrow> 'x option" where
  "find_cluster [] = None"
| "find_cluster ((name, v) # vs) = (if name = defaultClusterName then Some v else find_cluster vs)"

definition K3dCluster_GetKubeConfig :: "'x k3d_env \<Rightarrow> ('x, goerror + 'x) k3d_io" where
  "K3dCluster_GetKubeConfig E = do {
     r \<leftarrow> call (\<lambda>tr. k3dGetRuntime E tr ''docker'') (EvGetRuntime ''docker'');
     case r of
       Inl e \<Rightarrow> State_Monad.return (Inl (errorf ''error fetching docker runtime while fetching kubeconfig'' e))
     | Inr runtime \<Rightarrow> do {
         l \<leftarrow> call (\<lambda>tr. k3dClusterList E tr runtime) (EvClusterList runtime);
         case l of
           Inl e \<Rightarrow> State_Monad.return (Inl (errorf ''error listing clusters'' e))
         | Inr clusterList \<Rightarrow> (case find_cluster clusterList of
             None \<Rightarrow> State_Monad.return (Inl (EMsg (''no cluster name '' @ defaultClusterName @ '' found'')))
           | Some v \<Rightarrow> do {
               k \<leftarrow> call (\<lambda>tr. k3dKubeconfigGet E tr runtime v) (EvKubeconfigGet runtime v);
               case k of
                 Inl e \<Rightarrow> State_Monad.return (Inl (errorf ''error getting kubeconfig'' e))
               | Inr clientCfg \<Rightarrow> do {
                   w \<leftarrow> call (\<lambda>tr. k3dKubeconfigWrite E tr clientCfg) (EvKubeconfigWrite clientCfg);
                   case w of
                     Inl e \<Rightarrow> State_Monad.return (Inl (errorf ''error writing kubeconfig'' e))
                   | Inr buf \<Rightarrow> call (\<lambda>tr. k3dRESTConfig E tr buf) (EvRESTConfig buf)
                 }
             })
       }
   }"

section \<open>An existing cluster\<close>

definition ExistingCluster_CreateCluster :: "('x, goerror option) k3d_io" where
  "ExistingCluster_CreateCluster = State_Monad.return None"

definition ExistingCluster_DeleteCluster :: "('x, goerror option) k3d_io" where
  "ExistingCluster_DeleteCluster = State_Monad.return None"

definition ExistingCluster_GetKubeConfig :: "'x k3d_env \<Rightarrow> ('x, goerror + 'x) k3d_io" where
  "ExistingCluster_GetKubeConfig E = call (k3dClientConfig E) EvClientConfig"

section \<open>The choice\<close>

datatype TestCluster = ExistingCluster | K3dCluster

definition NewTestCluster :: "(string \<Rightarrow> string) \<Rightarrow> TestCluster" where
  "NewTestCluster getenv = (if getenv ''USE_EXISTING_CLUSTER'' = ''true'' then ExistingCluster else K3dCluster)"

fun CreateCluster :: "'x k3d_env \<Rightarrow> TestCluster \<Rightarrow> ('x, goerror option) k3d_io" where
  "CreateCluster E ExistingCluster = ExistingCluster_CreateCluster"
| "CreateCluster E K3dCluster = K3dCluster_CreateCluster E"

fun DeleteCluster :: "'x k3d_env \<Rightarrow> TestCluster \<Rightarrow> ('x, goerror option) k3d_io" where
  "DeleteCluster E ExistingCluster = ExistingCluster_DeleteCluster"
| "DeleteCluster E K3dCluster = K3dCluster_DeleteCluster E"

fun GetKubeConfig :: "'x k3d_env \<Rightarrow> TestCluster \<Rightarrow> ('x, goerror + 'x) k3d_io" where
  "GetKubeConfig E ExistingCluster = ExistingCluster_GetKubeConfig E"
| "GetKubeConfig E K3dCluster = K3dCluster_GetKubeConfig E"

text \<open>The operations of the interface, for statements about all of them.\<close>

datatype cluster_op = OpCreate | OpDelete | OpKubeConfig

fun run_cluster_op :: "'x k3d_env \<Rightarrow> TestCluster \<Rightarrow> cluster_op \<Rightarrow> ('x, unit) k3d_io" where
  "run_cluster_op E c OpCreate = do { _ \<leftarrow> CreateCluster E c; State_Monad.return () }"
| "run_cluster_op E c OpDelete = do { _ \<leftarrow> DeleteCluster E c; State_Monad.return () }"
| "run_cluster_op E c OpKubeConfig = do { _ \<leftarrow> GetKubeConfig E c; State_Monad.return () }"

section \<open>Properties\<close>

fun changes_clusters :: "'x k3d_event \<Rightarrow> bool" where
  "changes_clusters (EvClusterRun rt cfg r) \<longleftrightarrow> True"
| "changes_clusters (EvClusterDelete rt obj r) \<longleftrightarrow> True"
| "changes_clusters _ \<longleftrightarrow> False"

text \<open>What must have been called before a call that starts, deletes or opens a cluster.\<close>

fun concerns_test_cluster :: "'x k3d_event list \<Rightarrow> 'x k3d_event \<Rightarrow> bool" where
  "concerns_test_cluster before (EvClusterRun rt cfg r) \<longleftrightarrow> (\<exists>port generated.
     before = [EvGetFreePort (Inr port), EvGetRuntime ''docker'' (Inr rt),
       EvTransform rt (test_cluster_config (show_int port)) (Inr generated), EvProcess generated (Inr cfg)])"
| "concerns_test_cluster before (EvClusterDelete rt obj r) \<longleftrightarrow> (\<exists>err.
     before = [EvGetRuntime ''docker'' (Inr rt), EvClusterGet rt defaultClusterName (obj, err)])"
| "concerns_test_cluster before (EvKubeconfigGet rt v r) \<longleftrightarrow> (\<exists>cs.
     before = [EvGetRuntime ''docker'' (Inr rt), EvClusterList rt (Inr cs)] \<and> (defaultClusterName, v) \<in> set cs)"
| "concerns_test_cluster before _ \<longleftrightarrow> True"

definition orderly :: "'x k3d_event list \<Rightarrow> bool" where
  "orderly evs \<longleftrightarrow> (\<forall>i < length evs. concerns_test_cluster (take i evs) (evs ! i))"

lemma find_cluster_in: "find_cluster cs = Some v \<Longrightarrow> (defaultClusterName, v) \<in> set cs"
  by (induction cs rule: find_cluster.induct) (auto split: if_splits)

lemma orderly_snoc [simp]: "orderly (evs @ [e]) \<longleftrightarrow> orderly evs \<and> concerns_test_cluster evs e"
  by (auto simp: orderly_def nth_append less_Suc_eq)

lemma orderly_Nil [simp]: "orderly []"
  by (simp add: orderly_def)

lemma orderly_Cons: "orderly (e # evs) \<longleftrightarrow>
    concerns_test_cluster [] e \<and> (\<forall>i < length evs. concerns_test_cluster (e # take i evs) (evs ! i))"
  by (auto simp: orderly_def nth_Cons less_Suc_eq_0_disj)

lemma run_cluster_op_orderly: "obeys (run_cluster_op E c op) [] (\<lambda>r evs. orderly evs)"
proof (cases c)
  case ExistingCluster
  then show ?thesis
    by (cases op) (auto intro!: obeys_rules simp: ExistingCluster_CreateCluster_def ExistingCluster_DeleteCluster_def
      ExistingCluster_GetKubeConfig_def orderly_Cons)
next
  case K3dCluster
  then show ?thesis
    by (cases op) (auto intro!: obeys_rules simp: K3dCluster_CreateCluster_def K3dCluster_DeleteCluster_def
      K3dCluster_GetKubeConfig_def orderly_Cons less_Suc_eq nth_Cons' find_cluster_in)
qed

lemma existing_cluster_untouched: "emits (\<lambda>e. \<not> changes_clusters e) (run_cluster_op E ExistingCluster op)"
  by (cases op) (auto intro!: emits_rules simp: ExistingCluster_CreateCluster_def ExistingCluster_DeleteCluster_def
    ExistingCluster_GetKubeConfig_def)

text \<open>
  C39: the test infrastructure keeps its hands off other clusters: a cluster is started only from the fixed
  description of the test cluster with a free port, after the runtime was found and the description
  transformed and processed; what is deleted is what the look-up of the test cluster's name returned; a
  kubeconfig is taken only of a listed cluster of that name. If the environment asks for an existing
  cluster, none is started or deleted.
\<close>

theorem only_the_test_cluster_is_touched:
  "orderly (calls (run_cluster_op E (NewTestCluster getenv) op) tr) \<and>
   (getenv ''USE_EXISTING_CLUSTER'' = ''true'' \<longrightarrow>
      list_all (\<lambda>e. \<not> changes_clusters e) (calls (run_cluster_op E (NewTestCluster getenv) op) tr))"
  using obeysD [OF run_cluster_op_orderly] emits_calls [OF existing_cluster_untouched [of E op]]
  by (fastforce simp: NewTestCluster_def list_all_iff)

definition demo_k3d :: "string k3d_env" where
  "demo_k3d = \<lparr>k3dGetFreePort = (\<lambda>tr. Inr 6443), k3dGetRuntime = (\<lambda>tr n. Inr n), k3dTransform = (\<lambda>tr rt c. Inr (ClusterName c)),
     k3dProcess = (\<lambda>tr c. Inr c), k3dClusterRun = (\<lambda>tr rt c. None), k3dClusterGet = (\<lambda>tr rt n. (Some n, None)),
     k3dClusterDelete = (\<lambda>tr rt c. None), k3dClusterList = (\<lambda>tr rt. Inr []), k3dKubeconfigGet = (\<lambda>tr rt c. Inr c),
     k3dKubeconfigWrite = (\<lambda>tr k. Inr k), k3dRESTConfig = (\<lambda>tr b. Inr b), k3dClientConfig = (\<lambda>tr. Inr ''config''),
     k3dIsNoNodesFound = (\<lambda>e. False)\<rparr>"

theorem only_the_test_cluster_is_touched_witness:
  "list_ex changes_clusters (calls (run_cluster_op demo_k3d (NewTestCluster (\<lambda>v. ''false'')) OpDelete) []) \<and>
   list_all (\<lambda>e. \<not> changes_clusters e) (calls (run_cluster_op demo_k3d (NewTestCluster (\<lambda>v. ''true'')) OpDelete) [])"
proof -
  have "list_ex changes_clusters (calls (run_cluster_op demo_k3d (NewTestCluster (\<lambda>v. ''false'')) OpDelete) [])" by code_simp
  with only_the_test_cluster_is_touched [of demo_k3d "\<lambda>v. ''true''" OpDelete "[]"] show ?thesis by simp
qed

end
