(* ===== verification/Manager.thy ===== *)
theory Manager
  imports Prelude
begin

text \<open>
  \<^verbatim>\<open>cmd/main.go\<close>: the command line, the options of the two servers and of the two managers, the
  registration of the three reconcilers, of the defaulting webhook and of the bootstrapper, and the
  start of the managers. Everything fallible that \<^verbatim>\<open>main\<close> calls after the flags are parsed belongs to
  controller-runtime and is a call of a \<open>setup_env\<close>; a \<^verbatim>\<open>os.Exit(1)\<close> ends the program with status 1.
  Logging is left out.
\<close>

section \<open>The command line\<close>

record flags =
  metricsAddr :: string
  probeAddr :: string
  enableLeaderElection :: bool
  secureMetrics :: bool
  webhookCertPath :: string
  webhookCertName :: string
  webhookCertKey :: string
  metricsCertPath :: string
  metricsCertName :: string
  metricsCertKey :: string
  enableHTTP2 :: bool
  namespaceFlag :: string
  versionFlag :: string
  debugFlag :: bool
  healthCheckInterval :: int

definition DefaultVersion :: string where "DefaultVersion = ''v1.16.2''"

text \<open>The defaults of the flags.\<close>

definition default_flags :: flags where
  "default_flags = \<lparr>metricsAddr = ''0'', probeAddr = '':8081'', enableLeaderElection = False,
     secureMetrics = True, webhookCertPath = '''', webhookCertName = ''tls.crt'', webhookCertKey = ''tls.key'',
     metricsCertPath = '''', metricsCertName = ''tls.crt'', metricsCertKey = ''tls.key'', enableHTTP2 = False,
     namespaceFlag = '''', versionFlag = DefaultVersion, debugFlag = False, healthCheckInterval = 300\<rparr>"

text \<open>
  Go's \<^verbatim>\<open>flag\<close> package, as far as the flags of \<^verbatim>\<open>main\<close> need it: \<^verbatim>\<open>strconv.ParseBool\<close>, and \<^verbatim>\<open>strconv.ParseInt\<close> with
  base 0, which takes the base from a prefix, allows underscores between digits, and rejects what does not
  fit into 64 bits.
\<close>

definition ParseBool :: "string \<Rightarrow> bool option" where
  "ParseBool s =
     (if s \<in> set [''1'', ''t'', ''T'', ''TRUE'', ''true'', ''True''] then Some True
      else if s \<in> set [''0'', ''f'', ''F'', ''FALSE'', ''false'', ''False''] then Some False
      else None)"

definition digit_value :: "char \<Rightarrow> int option" where
  "digit_value c = (let n = of_char c :: int in
     if 48 \<le> n \<and> n \<le> 57 then Some (n - 48)
     else if 97 \<le> n \<and> n \<le> 122 then Some (n - 87)
     else if 65 \<le> n \<and> n \<le> 90 then Some (n - 55)
     else None)"

fun digits_value :: "int \<Rightarrow> int \<Rightarrow> string \<Rightarrow> int option" where
  "digits_value base n [] = Some n"
| "digits_value base n (c # cs) =
     (if c = CHR ''_'' then digits_value base n cs
      else case digit_value c of
        None \<Rightarrow> None
      | Some d \<Rightarrow> (if d < base then digits_value base (n * base + d) cs else None))"

text \<open>Underscores only between digits; \<open>l\<close> is the last character seen, an underscore at the start.\<close>

fun separators_ok :: "char \<Rightarrow> string \<Rightarrow> bool" where
  "separators_ok l [] \<longleftrightarrow> l \<noteq> CHR ''_''"
| "separators_ok l (c # cs) \<longleftrightarrow> \<not> (c = CHR ''_'' \<and> l = CHR ''_'') \<and> separators_ok c cs"

definition number_in :: "int \<Rightarrow> bool \<Rightarrow> string \<Rightarrow> int option" where
  "number_in base after_prefix s =
     (if CHR ''_'' \<in> set s \<longrightarrow> separators_ok (if after_prefix then CHR ''0'' else CHR ''_'') s
      then digits_value base 0 s else None)"

definition ParseUint :: "string \<Rightarrow> int option" where
  "ParseUint s =
     (case s of
        [] \<Rightarrow> None
      | c # cs \<Rightarrow>
         (if c \<noteq> CHR ''0'' then number_in 10 False s
          else if length s \<ge> 3 \<and> hd cs \<in> set ''bB'' then number_in 2 True (tl cs)
          else if length s \<ge> 3 \<and> hd cs \<in> set ''oO'' then number_in 8 True (tl cs)
          else if length s \<ge> 3 \<and> hd cs \<in> set ''xX'' then number_in 16 True (tl cs)
          else number_in 8 False s))"

definition ParseInt :: "string \<Rightarrow> int option" where
  "ParseInt s =
     (case s of
        [] \<Rightarrow> None
      | c # cs \<Rightarrow>
         (if c = CHR ''-''
          then (case ParseUint cs of None \<Rightarrow> None | Some n \<Rightarrow> if n \<le> 2 ^ 63 then Some (- n) else None)
          else (case ParseUint (if c = CHR ''+'' then cs else s) of
                  None \<Rightarrow> None | Some n \<Rightarrow> if n < 2 ^ 63 then Some n else None)))"

text \<open>
  A flag and what it sets. Libraries register flags of their own (\<^verbatim>\<open>opts.BindFlags\<close> of zap, \<^verbatim>\<open>--kubeconfig\<close> of
  controller-runtime); of these the model only knows, as an argument, their names, whether they are boolean
  and which values they accept.
\<close>

datatype flag_var =
    StringVar "string \<Rightarrow> flags \<Rightarrow> flags"
  | BoolVar "bool \<Rightarrow> flags \<Rightarrow> flags"
  | IntVar "int \<Rightarrow> flags \<Rightarrow> flags"
  | LibraryVar bool "string \<Rightarrow> bool"

definition main_flags :: "(string \<times> flag_var) list" where
  "main_flags = [
     (''metrics-bind-address'', StringVar (\<lambda>v f. f\<lparr>metricsAddr := v\<rparr>)),
     (''health-probe-bind-address'', StringVar (\<lambda>v f. f\<lparr>probeAddr := v\<rparr>)),
     (''leader-elect'', BoolVar (\<lambda>v f. f\<lparr>enableLeaderElection := v\<rparr>)),
     (''metrics-secure'', BoolVar (\<lambda>v f. f\<lparr>secureMetrics := v\<rparr>)),
     (''webhook-cert-path'', StringVar (\<lambda>v f. f\<lparr>webhookCertPath := v\<rparr>)),
     (''webhook-cert-name'', StringVar (\<lambda>v f. f\<lparr>webhookCertName := v\<rparr>)),
     (''webhook-cert-key'', StringVar (\<lambda>v f. f\<lparr>webhookCertKey := v\<rparr>)),
     (''metrics-cert-path'', StringVar (\<lambda>v f. f\<lparr>metricsCertPath := v\<rparr>)),
     (''metrics-cert-name'', StringVar (\<lambda>v f. f\<lparr>metricsCertName := v\<rparr>)),
     (''metrics-cert-key'', StringVar (\<lambda>v f. f\<lparr>metricsCertKey := v\<rparr>)),
     (''enable-http2'', BoolVar (\<lambda>v f. f\<lparr>enableHTTP2 := v\<rparr>)),
     (''namespace'', StringVar (\<lambda>v f. f\<lparr>namespaceFlag := v\<rparr>)),
     (''version'', StringVar (\<lambda>v f. f\<lparr>versionFlag := v\<rparr>)),
     (''debug'', BoolVar (\<lambda>v f. f\<lparr>debugFlag := v\<rparr>)),
     (''healthCheckInterval'', IntVar (\<lambda>v f. f\<lparr>healthCheckInterval := v\<rparr>))]"

type_synonym library_flags = "string \<Rightarrow> (bool \<times> (string \<Rightarrow> bool)) option"

definition formal :: "library_flags \<Rightarrow> string \<Rightarrow> flag_var option" where
  "formal libs name = (case map_of main_flags name of
     Some v \<Rightarrow> Some v
   | None \<Rightarrow> map_option (\<lambda>(isBool, accepts). LibraryVar isBool accepts) (libs name))"

fun IsBoolFlag :: "flag_var \<Rightarrow> bool" where
  "IsBoolFlag (BoolVar g) = True"
| "IsBoolFlag (LibraryVar isBool accepts) = isBool"
| "IsBoolFlag _ = False"

fun flag_Set :: "flag_var \<Rightarrow> string \<Rightarrow> flags \<Rightarrow> flags option" where
  "flag_Set (StringVar g) value f = Some (g value f)"
| "flag_Set (BoolVar g) value f = map_option (\<lambda>b. g b f) (ParseBool value)"
| "flag_Set (IntVar g) value f = map_option (\<lambda>n. g n f) (ParseInt value)"
| "flag_Set (LibraryVar isBool accepts) value f = (if accepts value then Some f else None)"

text \<open>One argument: not a flag (which ends the flags), a syntax error, or a flag with its name and value.\<close>

datatype flag_arg = NoFlag | BadSyntax | FlagArg string "string option"

definition flag_arg :: "string \<Rightarrow> flag_arg" where
  "flag_arg s =
     (if length s < 2 \<or> hd s \<noteq> CHR ''-'' \<or> s = ''--'' then NoFlag
      else let name = (if s ! 1 = CHR ''-'' then drop 2 s else drop 1 s) in
        if name = [] \<or> hd name = CHR ''-'' \<or> hd name = CHR ''='' then BadSyntax
        else FlagArg (takeWhile (\<lambda>c. c \<noteq> CHR ''='') name)
          (if CHR ''='' \<in> set name then Some (tl (dropWhile (\<lambda>c. c \<noteq> CHR ''='') name)) else None))"

text \<open>
  \<^verbatim>\<open>flag.Parse\<close>: the flags, or the status the program exits with, 0 when help was asked for and 2 after an
  error.
\<close>

fun flag_Parse :: "library_flags \<Rightarrow> string list \<Rightarrow> flags \<Rightarrow> int + flags" where
  "flag_Parse libs [] f = Inr f"
| "flag_Parse libs (s # args) f =
     (case flag_arg s of
        NoFlag \<Rightarrow> Inr f
      | BadSyntax \<Rightarrow> Inl 2
      | FlagArg name value \<Rightarrow>
         (case formal libs name of
            None \<Rightarrow> Inl (if name = ''help'' \<or> name = ''h'' then 0 else 2)
          | Some v \<Rightarrow>
             (if IsBoolFlag v then
                (case flag_Set v (case value of None \<Rightarrow> ''true'' | Some x \<Rightarrow> x) f of
                   None \<Rightarrow> Inl 2 | Some f' \<Rightarrow> flag_Parse libs args f')
              else case value of
                Some x \<Rightarrow> (case flag_Set v x f of None \<Rightarrow> Inl 2 | Some f' \<Rightarrow> flag_Parse libs args f')
              | None \<Rightarrow>
                 (case args of
                    [] \<Rightarrow> Inl 2
                  | x # args' \<Rightarrow> (case flag_Set v x f of None \<Rightarrow> Inl 2 | Some f' \<Rightarrow> flag_Parse libs args' f')))))"

section \<open>Options\<close>

text \<open>
  A certificate watcher is identified by its two files, each a directory and a name. The functions that
  change a \<^verbatim>\<open>tls.Config\<close> are values: the one that allows only \<^verbatim>\<open>http/1.1\<close>, and the one that takes
  certificates from a watcher.
\<close>

type_synonym cert_file = "string \<times> string"

datatype certWatcher = CertWatcher cert_file cert_file

datatype tlsOpt = DisableHTTP2 | GetCertificate certWatcher

record metricsOptions =
  BindAddress :: string
  SecureServing :: bool
  MetricsTLSOpts :: "tlsOpt list"
  AuthenticatedFilter :: bool  \<comment> \<open>\<^verbatim>\<open>filters.WithAuthenticationAndAuthorization\<close>\<close>

record managerOptions =
  Metrics :: metricsOptions
  HealthProbeBindAddress :: string
  LeaderElection :: bool
  LeaderElectionID :: string
  DefaultNamespaces :: "string list"
  WebhookTLSOpts :: "tlsOpt list option"  \<comment> \<open>of the webhook server, if one is given\<close>

definition tlsOpts :: "flags \<Rightarrow> tlsOpt list" where
  "tlsOpts f = (if \<not> enableHTTP2 f then [DisableHTTP2] else [])"

definition webhookWatcher :: "flags \<Rightarrow> certWatcher option" where
  "webhookWatcher f = (if webhookCertPath f \<noteq> ''''
     then Some (CertWatcher (webhookCertPath f, webhookCertName f) (webhookCertPath f, webhookCertKey f)) else None)"

definition metricsWatcher :: "flags \<Rightarrow> certWatcher option" where
  "metricsWatcher f = (if metricsCertPath f \<noteq> ''''
     then Some (CertWatcher (metricsCertPath f, metricsCertName f) (metricsCertPath f, metricsCertKey f)) else None)"

definition with_watcher :: "tlsOpt list \<Rightarrow> certWatcher option \<Rightarrow> tlsOpt list" where
  "with_watcher opts w = (case w of None \<Rightarrow> opts | Some c \<Rightarrow> opts @ [GetCertificate c])"

definition metricsServerOptions :: "flags \<Rightarrow> metricsOptions" where
  "metricsServerOptions f = \<lparr>BindAddress = metricsAddr f, SecureServing = secureMetrics f,
     MetricsTLSOpts = with_watcher (tlsOpts f) (metricsWatcher f), AuthenticatedFilter = secureMetrics f\<rparr>"

definition mgrOptions :: "flags \<Rightarrow> managerOptions" where
  "mgrOptions f = \<lparr>Metrics = metricsServerOptions f, HealthProbeBindAddress = probeAddr f,
     LeaderElection = enableLeaderElection f, LeaderElectionID = ''1d231218.my.domain'',
     DefaultNamespaces = [namespaceFlag f], WebhookTLSOpts = None\<rparr>"

definition webhookMgrOptions :: "flags \<Rightarrow> managerOptions" where
  "webhookMgrOptions f = \<lparr>Metrics = \<lparr>BindAddress = '''', SecureServing = False, MetricsTLSOpts = [], AuthenticatedFilter = False\<rparr>,
     HealthProbeBindAddress = '''', LeaderElection = False, LeaderElectionID = '''', DefaultNamespaces = [],
     WebhookTLSOpts = Some (with_watcher (tlsOpts f) (webhookWatcher f))\<rparr>"

section \<open>The calls of main\<close>

datatype manager = ControllerManager | WebhookManager

datatype runnable = Bootstrapper string | Watcher certWatcher

datatype setup_call =
    NewCertWatcher certWatcher
  | GetConfigOrDie
  | NewManager manager managerOptions
  | SetupConfigurationReconciler string string  \<comment> \<open>namespace and version\<close>
  | SetupNodeReconciler string
  | SetupHealthCheckReconciler string int
  | SetupConfigurationWebhook
  | AddRunnable manager runnable
  | AddHealthzCheck
  | AddReadyzCheck
  | Start manager

datatype setup_event = Did setup_call "goerror option"

text \<open>The environment answers each call; \<open>webhookEndsFirst\<close> says which of the two managers returns first.\<close>

record setup_env =
  outcome :: "setup_event list \<Rightarrow> setup_call \<Rightarrow> goerror option"
  webhookEndsFirst :: "setup_event list \<Rightarrow> bool"

type_synonym 'a sio = "(setup_event, 'a) io"

definition do_setup :: "setup_env \<Rightarrow> setup_call \<Rightarrow> (goerror option) sio" where
  "do_setup E s = call (\<lambda>tr. outcome E tr s) (Did s)"

text \<open>A step whose error ends the program, and one whose error is only logged.\<close>

datatype step = Fatal setup_call | Logged setup_call

definition watcher_steps :: "(certWatcher \<Rightarrow> setup_call) \<Rightarrow> certWatcher option \<Rightarrow> step list" where
  "watcher_steps f w = (case w of None \<Rightarrow> [] | Some c \<Rightarrow> [Fatal (f c)])"

text \<open>
  The steps of \<^verbatim>\<open>main\<close> in their order. The errors of the set-up of the node and of the health check
  controller do not end the program.
\<close>

definition main_steps :: "flags \<Rightarrow> step list" where
  "main_steps f =
     watcher_steps NewCertWatcher (webhookWatcher f) @
     watcher_steps NewCertWatcher (metricsWatcher f) @
     [Fatal GetConfigOrDie,
      Fatal (NewManager ControllerManager (mgrOptions f)),
      Fatal (SetupConfigurationReconciler (namespaceFlag f) (versionFlag f)),
      Logged (SetupNodeReconciler (namespaceFlag f)),
      Logged (SetupHealthCheckReconciler (namespaceFlag f) (healthCheckInterval f)),
      Fatal GetConfigOrDie,
      Fatal (NewManager WebhookManager (webhookMgrOptions f)),
      Fatal SetupConfigurationWebhook,
      Fatal (AddRunnable ControllerManager (Bootstrapper (namespaceFlag f)))] @
     watcher_steps (\<lambda>w. AddRunnable ControllerManager (Watcher w)) (metricsWatcher f) @
     watcher_steps (\<lambda>w. AddRunnable WebhookManager (Watcher w)) (webhookWatcher f) @
     [Fatal AddHealthzCheck, Fatal AddReadyzCheck]"

text \<open>Runs the steps and tells whether the program is still alive.\<close>

fun run_setup :: "setup_env \<Rightarrow> step list \<Rightarrow> bool sio" where
  "run_setup E [] = State_Monad.return True"
| "run_setup E (Logged s # ss) = do { _ \<leftarrow> do_setup E s; run_setup E ss }"
| "run_setup E (Fatal s # ss) = do {
     err \<leftarrow> do_setup E s;
     case err of Some e \<Rightarrow> State_Monad.return False | None \<Rightarrow> run_setup E ss
   }"

text \<open>
  The end of \<^verbatim>\<open>main\<close>: the webhook manager runs in a goroutine beside the controller manager. Whichever
  returns an error first ends the program with status 1; when the controller manager returns without
  one, the program ends with status 0.
\<close>

definition run_managers :: "setup_env \<Rightarrow> int sio" where
  "run_managers E = do {
     first \<leftarrow> State (\<lambda>tr. (webhookEndsFirst E tr, tr));
     if first then do {
       err \<leftarrow> do_setup E (Start WebhookManager);
       case err of
         Some e \<Rightarrow> State_Monad.return 1
       | None \<Rightarrow> do {
           err \<leftarrow> do_setup E (Start ControllerManager);
           State_Monad.return (case err of Some e \<Rightarrow> 1 | None \<Rightarrow> 0)
         }
     }
     else do {
       err \<leftarrow> do_setup E (Start ControllerManager);
       State_Monad.return (case err of Some e \<Rightarrow> 1 | None \<Rightarrow> 0)
     }
   }"

text \<open>\<^verbatim>\<open>main\<close> once the flags are parsed; the result is the exit status.\<close>

definition run_main :: "setup_env \<Rightarrow> flags \<Rightarrow> int sio" where
  "run_main E f = do {
     alive \<leftarrow> run_setup E (main_steps f);
     if alive then run_managers E else State_Monad.return 1
   }"

text \<open>\<^verbatim>\<open>main\<close> from the start, with the arguments of the command line.\<close>

definition main :: "setup_env \<Rightarrow> library_flags \<Rightarrow> string list \<Rightarrow> int sio" where
  "main E libs args =
     (case flag_Parse libs args default_flags of
        Inl status \<Rightarrow> State_Monad.return status
      | Inr f \<Rightarrow> run_main E f)"

section \<open>Lemmas\<close>

fun step_setup :: "step \<Rightarrow> setup_call" where
  "step_setup (Fatal s) = s"
| "step_setup (Logged s) = s"

text \<open>A record of set-up steps: all of the given ones, in their order, no fatal one failed.\<close>

definition completed :: "step list \<Rightarrow> setup_event list \<Rightarrow> bool" where
  "completed ss evs \<longleftrightarrow> list_all2 (\<lambda>s e. \<exists>r. e = Did (step_setup s) r \<and> (s = Fatal (step_setup s) \<longrightarrow> r = None)) ss evs"

lemma completed_Cons:
  "completed (s # ss) (Did (step_setup s) r # evs) \<longleftrightarrow> (s = Fatal (step_setup s) \<longrightarrow> r = None) \<and> completed ss evs"
  by (simp add: completed_def)

text \<open>The set-up ends alive with every step done, or at the first fatal error.\<close>

lemma run_setup_record:
  "obeys (run_setup E ss) [] (\<lambda>alive new.
     (if alive then completed ss new
      else \<exists>pre s rest err evs. ss = pre @ Fatal s # rest \<and> new = evs @ [Did s (Some err)] \<and> completed pre evs))"
proof (induction E ss rule: run_setup.induct)
  case (1 E)
  show ?case by (simp add: completed_def obeys_return)
next
  case (2 E s ss)
  have "obeys (run_setup E ss) [Did s r] (\<lambda>alive new. (if alive then completed (Logged s # ss) new
      else \<exists>pre t rest err evs. Logged s # ss = pre @ Fatal t # rest \<and> new = evs @ [Did t (Some err)] \<and> completed pre evs))" for r
    apply (rule obeys_frame [OF 2])
    apply (auto simp: completed_Cons [of "Logged s", simplified] split: if_splits)
    apply (metis append_Cons completed_Cons step.distinct(1) step_setup.simps(2))
    done
  then show ?case unfolding run_setup.simps do_setup_def by (intro obeys_bind obeys_call) simp
next
  case (3 E s ss)
  have "obeys (run_setup E ss) [Did s None] (\<lambda>alive new. (if alive then completed (Fatal s # ss) new
      else \<exists>pre t rest err evs. Fatal s # ss = pre @ Fatal t # rest \<and> new = evs @ [Did t (Some err)] \<and> completed pre evs))"
    apply (rule obeys_frame [OF 3])
    apply (auto simp: completed_Cons [of "Fatal s", simplified] split: if_splits)
    apply (metis append_Cons completed_Cons step_setup.simps(1))
    done
  then show ?case
    unfolding run_setup.simps do_setup_def
    apply (intro obeys_rules)
     apply simp
    apply (simp add: completed_def)
    done
qed

text \<open>How the two managers end, and the exit status.\<close>

inductive ended :: "int \<Rightarrow> setup_event list \<Rightarrow> bool" where
  webhook_fails: "ended 1 [Did (Start WebhookManager) (Some err)]"
| after_webhook: "ended r [Did (Start ControllerManager) x] \<Longrightarrow> ended r [Did (Start WebhookManager) None, Did (Start ControllerManager) x]"
| controllers_fail: "ended 1 [Did (Start ControllerManager) (Some err)]"
| controllers_end: "ended 0 [Did (Start ControllerManager) None]"

lemma run_managers_ended: "obeys (run_managers E) [] ended"
proof -
  have "obeys (State (\<lambda>tr. (webhookEndsFirst E tr, tr))) [] (\<lambda>b new. new = [])"
    by (simp add: obeys_def)
  then show ?thesis
    unfolding run_managers_def do_setup_def
    apply (rule obeys_bind [OF obeys_mono])
    apply (intro obeys_rules)
      apply (auto intro: ended.intros split: option.split)
    done
qed

definition stopped_at :: "step list \<Rightarrow> setup_event list \<Rightarrow> bool" where
  "stopped_at ss evs \<longleftrightarrow> (\<exists>pre s rest err done_evs. ss = pre @ Fatal s # rest \<and>
     evs = done_evs @ [Did s (Some err)] \<and> completed pre done_evs)"

lemma run_main_record:
  "obeys (run_main E f) [] (\<lambda>r new. (r = 1 \<and> stopped_at (main_steps f) new) \<or>
     (\<exists>evs ends. new = evs @ ends \<and> completed (main_steps f) evs \<and> ended r ends))"
  unfolding run_main_def
  apply (rule obeys_bind, rule obeys_mono [OF run_setup_record])
  apply (intro obeys_rules)
   apply (rule obeys_frame [OF run_managers_ended])
   apply auto [1]
  apply (simp add: stopped_at_def)
  done

text \<open>The steps whose errors are only logged.\<close>

fun logged :: "setup_call \<Rightarrow> bool" where
  "logged (SetupNodeReconciler ns) = True"
| "logged (SetupHealthCheckReconciler ns n) = True"
| "logged _ = False"

fun is_start :: "setup_call \<Rightarrow> bool" where
  "is_start (Start m) = True"
| "is_start _ = False"

lemma main_steps_kinds:
  "s \<in> set (main_steps f) \<Longrightarrow> (s = Logged (step_setup s) \<longleftrightarrow> logged (step_setup s)) \<and> \<not> is_start (step_setup s)"
  by (auto simp: main_steps_def watcher_steps_def split: option.splits)

lemma completed_in:
  "completed ss evs \<Longrightarrow> Did s r \<in> set evs \<Longrightarrow> \<exists>st \<in> set ss. step_setup st = s \<and> (st = Fatal s \<longrightarrow> r = None)"
  unfolding completed_def by (induction ss evs rule: list_all2_induct) auto

lemma not_logged_fatal: "st \<noteq> Logged (step_setup st) \<Longrightarrow> st = Fatal (step_setup st)"
  by (cases st) simp_all

lemma completed_no_error:
  assumes "completed ss evs" and "set ss \<subseteq> set (main_steps f)" and "Did s (Some err) \<in> set evs"
  shows "logged s"
proof -
  from completed_in [OF assms(1,3)] obtain st where st: "st \<in> set ss" "step_setup st = s" "st \<noteq> Fatal s" by auto
  with assms(2) main_steps_kinds [of st f] not_logged_fatal [of st] show ?thesis by auto
qed

lemma ended_last: "ended r ends \<Longrightarrow> ends \<noteq> [] \<and> list_all (\<lambda>e. \<exists>m x. e = Did (Start m) x) ends \<and>
    (\<forall>s err. Did s (Some err) \<in> set ends \<longrightarrow> r = 1 \<and> last ends = Did s (Some err)) \<and>
    (r = 0 \<longleftrightarrow> last ends = Did (Start ControllerManager) None)"
  by (induction rule: ended.induct) auto

text \<open>The statuses of the command line and those of the rest of \<^verbatim>\<open>main\<close>.\<close>

lemma flag_Parse_status: "flag_Parse libs args f = Inl status \<Longrightarrow> status = 0 \<or> status = 2"
proof (induction libs args f rule: flag_Parse.induct)
  case (2 libs s args f)
  show ?case
  proof (cases "flag_arg s")
    case (FlagArg name x)
    show ?thesis
    proof (cases "formal libs name")
      case None
      with 2(4) FlagArg show ?thesis by (simp split: if_splits)
    next
      case (Some v)
      note formal = Some
      note here = 2(4) [simplified FlagArg formal flag_Parse.simps flag_arg.case option.case]
      show ?thesis
      proof (cases "IsBoolFlag v")
        case True
        with here 2(1) [OF FlagArg formal True] show ?thesis by (auto split: option.splits)
      next
        case False
        show ?thesis
        proof (cases x)
          case None
          with here False 2(2) [OF FlagArg formal False None] show ?thesis by (auto split: list.splits option.splits)
        next
          case (Some y)
          with here False 2(3) [OF FlagArg formal False Some] show ?thesis by (auto split: option.splits)
        qed
      qed
    qed
  qed (use 2(4) in simp_all)
qed simp

lemma run_main_status: "result (run_main E f) tr = 0 \<or> result (run_main E f) tr = 1"
proof -
  have "ended r ends \<Longrightarrow> r = 0 \<or> r = 1" for r ends by (induction rule: ended.induct) auto
  with obeysD [OF run_main_record, of E f tr] show ?thesis by auto
qed

section \<open>Properties\<close>

text \<open>Data for the witnesses: an environment in which everything succeeds except one call.\<close>

definition failing_env :: "setup_call \<Rightarrow> setup_env" where
  "failing_env bad = \<lparr>outcome = (\<lambda>_ s. if s = bad then Some (EMsg ''failed'') else None), webhookEndsFirst = (\<lambda>_. False)\<rparr>"

text \<open>
  C35: once the flags are parsed, a manager is started only after the whole set-up: before any start there is a complete record of
  the steps of \<^verbatim>\<open>main\<close>, in their order, in which no step failed but possibly the registration of the
  node and of the health check controller, and after it there are only starts.
\<close>

theorem managers_start_only_after_setup:
  assumes "Did (Start m) r \<in> set (calls (run_main E f) tr)"
  shows "\<exists>evs ends. calls (run_main E f) tr = evs @ ends \<and> completed (main_steps f) evs \<and>
    (\<forall>s err. Did s (Some err) \<in> set evs \<longrightarrow> logged s) \<and> Did (Start m) r \<in> set ends"
proof -
  have not_start: "Did (Start m) r \<notin> set evs" if "completed ss evs" "set ss \<subseteq> set (main_steps f)" for ss evs
    using completed_in [OF that(1)] that(2) main_steps_kinds [of _ f] by (metis is_start.simps(1) subsetD)
  from obeysD [OF run_main_record] consider
      "stopped_at (main_steps f) (calls (run_main E f) tr)"
    | evs ends where "calls (run_main E f) tr = evs @ ends" "completed (main_steps f) evs"
    by blast
  then show ?thesis
  proof cases
    case 1
    then obtain pre s rest err evs where st: "main_steps f = pre @ Fatal s # rest"
        "calls (run_main E f) tr = evs @ [Did s (Some err)]" "completed pre evs"
      unfolding stopped_at_def by blast
    have "\<not> is_start s" using main_steps_kinds [of "Fatal s" f] st(1) by simp
    with assms st not_start [OF st(3)] show ?thesis by auto
  next
    case 2
    with assms not_start [OF 2(2) subset_refl] show ?thesis
      using completed_no_error [OF 2(2) subset_refl] by (intro exI [of _ evs] exI [of _ ends]) auto
  qed
qed

theorem managers_start_only_after_setup_witness:
  "\<exists>evs ends. calls (run_main (failing_env (SetupNodeReconciler ''kube-system'')) (default_flags\<lparr>namespaceFlag := ''kube-system''\<rparr>)) [] = evs @ ends \<and>
     completed (main_steps (default_flags\<lparr>namespaceFlag := ''kube-system''\<rparr>)) evs \<and>
     Did (Start ControllerManager) None \<in> set ends"
proof -
  let ?cs = "calls (run_main (failing_env (SetupNodeReconciler ''kube-system'')) (default_flags\<lparr>namespaceFlag := ''kube-system''\<rparr>)) []"
  have "List.member ?cs (Did (Start ControllerManager) None)" by code_simp
  then have "Did (Start ControllerManager) None \<in> set ?cs" by simp
  from managers_start_only_after_setup [OF this] show ?thesis by blast
qed

text \<open>
  C36: once the flags are parsed, every error of a call of \<^verbatim>\<open>main\<close> ends the program with status 1, right after
  that call, except an error of the registration of the node or of the health check controller; and status
  0 means that the controller manager was started and returned without an error. If the flags do not
  parse, the program makes no call at all and ends with status 2, or 0 when help was asked for.
\<close>

theorem errors_end_the_program:
  "(\<forall>s err. Did s (Some err) \<in> set (calls (run_main E f) tr) \<longrightarrow> logged s \<or>
      result (run_main E f) tr = 1 \<and> last (calls (run_main E f) tr) = Did s (Some err)) \<and>
   (result (run_main E f) tr = 0 \<longleftrightarrow> last (calls (run_main E f) tr) = Did (Start ControllerManager) None) \<and>
   (case flag_Parse libs args default_flags of
      Inl status \<Rightarrow> calls (main E libs args) tr = [] \<and> result (main E libs args) tr = status \<and> status \<in> {0, 2}
    | Inr f' \<Rightarrow> calls (main E libs args) tr = calls (run_main E f') tr \<and>
        result (main E libs args) tr = result (run_main E f') tr \<and> result (run_main E f') tr \<in> {0, 1})"
proof -
  have parsed: "case flag_Parse libs args default_flags of
      Inl status \<Rightarrow> calls (main E libs args) tr = [] \<and> result (main E libs args) tr = status \<and> status \<in> {0, 2}
    | Inr f' \<Rightarrow> calls (main E libs args) tr = calls (run_main E f') tr \<and>
        result (main E libs args) tr = result (run_main E f') tr \<and> result (run_main E f') tr \<in> {0, 1}"
    using flag_Parse_status [of libs args default_flags] run_main_status by (auto simp: main_def split: sum.split)
  from obeysD [OF run_main_record] consider
      "result (run_main E f) tr = 1" "stopped_at (main_steps f) (calls (run_main E f) tr)"
    | evs ends where "calls (run_main E f) tr = evs @ ends" "completed (main_steps f) evs" "ended (result (run_main E f) tr) ends"
    by blast
  then show ?thesis
  proof cases
    case 1
    then obtain pre s rest err evs where st: "main_steps f = pre @ Fatal s # rest"
        "calls (run_main E f) tr = evs @ [Did s (Some err)]" "completed pre evs"
      unfolding stopped_at_def by blast
    have "\<not> is_start s" using main_steps_kinds [of "Fatal s" f] st(1) by simp
    moreover have "logged t" if "Did t (Some e) \<in> set evs" for t e
      by (rule completed_no_error [OF st(3) _ that, of f]) (use st(1) in auto)
    ultimately show ?thesis using 1(1) st(2) by (intro conjI parsed) auto
  next
    case 2
    have "\<forall>s err. Did s (Some err) \<in> set (calls (run_main E f) tr) \<longrightarrow> logged s \<or>
        result (run_main E f) tr = 1 \<and> last (calls (run_main E f) tr) = Did s (Some err)"
      using 2 ended_last [OF 2(3)] completed_no_error [OF 2(2) subset_refl] by fastforce
    moreover have "result (run_main E f) tr = 0 \<longleftrightarrow> last (calls (run_main E f) tr) = Did (Start ControllerManager) None"
      using 2(1) ended_last [OF 2(3)] by simp
    ultimately show ?thesis using parsed by (intro conjI)
  qed
qed

text \<open>Command lines for the witness: no library flags, one line that parses and two that do not.\<close>

abbreviation demo_main :: "setup_call \<Rightarrow> string list \<Rightarrow> int sio" where
  "demo_main bad args \<equiv> main (failing_env bad) (\<lambda>_. None) args"

lemma demo_flags:
  "flag_Parse (\<lambda>_. None) [''--metrics-secure=false'', ''-namespace'', ''kube-system'', ''--healthCheckInterval=0x1_0''] default_flags =
     Inr (default_flags\<lparr>secureMetrics := False, namespaceFlag := ''kube-system'', healthCheckInterval := 16\<rparr>)"
  "flag_Parse (\<lambda>_. None) [''--healthCheckInterval'', ''5m''] default_flags = Inl 2"
  "flag_Parse (\<lambda>_. None) [''-h''] default_flags = Inl 0"
  by code_simp+

theorem errors_end_the_program_witness:
  "logged (SetupNodeReconciler '''') \<and>
   result (run_main (failing_env (SetupNodeReconciler '''')) default_flags) [] = 0 \<and>
   result (run_main (failing_env SetupConfigurationWebhook) default_flags) [] = 1 \<and>
   result (demo_main SetupConfigurationWebhook [''--healthCheckInterval'', ''5m'']) [] = 2 \<and>
   calls (demo_main SetupConfigurationWebhook [''-h'']) [] = []"
proof -
  let ?m = "\<lambda>bad. run_main (failing_env bad) default_flags"
  let ?e = "Did SetupConfigurationWebhook (Some (EMsg ''failed''))"
  have "List.member (calls (?m SetupConfigurationWebhook) []) ?e" by code_simp
  then have "?e \<in> set (calls (?m SetupConfigurationWebhook) [])" by simp
  moreover have "\<not> logged SetupConfigurationWebhook" by simp
  ultimately have "result (?m SetupConfigurationWebhook) [] = 1"
    using errors_end_the_program [of "failing_env SetupConfigurationWebhook" default_flags "[]"] by blast
  moreover have "last (calls (?m (SetupNodeReconciler '''')) []) = Did (Start ControllerManager) None" by code_simp
  then have "result (?m (SetupNodeReconciler '''')) [] = 0"
    using errors_end_the_program [of "failing_env (SetupNodeReconciler '''')" default_flags "[]"] by blast
  moreover have "result (demo_main SetupConfigurationWebhook [''--healthCheckInterval'', ''5m'']) [] = 2"
    using errors_end_the_program [of "failing_env SetupConfigurationWebhook" default_flags "[]"
        "\<lambda>_. None" "[''--healthCheckInterval'', ''5m'']"] by (simp add: demo_flags del: flag_Parse.simps)
  moreover have "calls (demo_main SetupConfigurationWebhook [''-h'']) [] = []"
    using errors_end_the_program [of "failing_env SetupConfigurationWebhook" default_flags "[]" "\<lambda>_. None" "[''-h'']"]
    by (simp add: demo_flags del: flag_Parse.simps)
  ultimately show ?thesis by simp
qed

text \<open>
  unless HTTP/2 is enabled on the command line, the metrics server and the webhook server speak only
  HTTP/1.1; each takes its certificates from its own watcher, if it was given one, and never from the
  other's; and the controllers' metrics are served over TLS exactly if they are also protected by
  authentication.
\<close>

theorem servers_are_configured:
  assumes "Did (NewManager m opts) r \<in> set (calls (run_main E f) tr)"
  shows "(case m of
     ControllerManager \<Rightarrow> (DisableHTTP2 \<in> set (MetricsTLSOpts (Metrics opts)) \<longleftrightarrow> \<not> enableHTTP2 f) \<and>
       (\<forall>w. GetCertificate w \<in> set (MetricsTLSOpts (Metrics opts)) \<longleftrightarrow> metricsWatcher f = Some w) \<and>
       (SecureServing (Metrics opts) \<longleftrightarrow> AuthenticatedFilter (Metrics opts)) \<and> WebhookTLSOpts opts = None
   | WebhookManager \<Rightarrow> (\<exists>os. WebhookTLSOpts opts = Some os \<and> (DisableHTTP2 \<in> set os \<longleftrightarrow> \<not> enableHTTP2 f) \<and>
       (\<forall>w. GetCertificate w \<in> set os \<longleftrightarrow> webhookWatcher f = Some w)))"
proof -
  have made: "opts = (case m of ControllerManager \<Rightarrow> mgrOptions f | WebhookManager \<Rightarrow> webhookMgrOptions f)"
    if "st \<in> set (main_steps f)" "step_setup st = NewManager m opts" for st
    using that by (auto simp: main_steps_def watcher_steps_def split: option.splits)
  have in_steps: "\<exists>st \<in> set (main_steps f). step_setup st = NewManager m opts"
  proof -
    from obeysD [OF run_main_record] consider
        "stopped_at (main_steps f) (calls (run_main E f) tr)"
      | evs ends where "calls (run_main E f) tr = evs @ ends" "completed (main_steps f) evs" "ended (result (run_main E f) tr) ends"
      by blast
    then show ?thesis
    proof cases
      case 1
      with assms completed_in show ?thesis unfolding stopped_at_def by fastforce
    next
      case 2
      with assms ended_last [OF 2(3)] have "Did (NewManager m opts) r \<in> set evs" by (auto simp: list_all_iff)
      from completed_in [OF 2(2) this] show ?thesis by blast
    qed
  qed
  then obtain st where "st \<in> set (main_steps f)" "step_setup st = NewManager m opts" by blast
  from made [OF this] show ?thesis
    by (auto simp: mgrOptions_def webhookMgrOptions_def metricsServerOptions_def tlsOpts_def with_watcher_def
        split: manager.split option.split)
qed

theorem servers_are_configured_witness:
  "DisableHTTP2 \<in> set (MetricsTLSOpts (Metrics (mgrOptions default_flags)))"
proof -
  let ?cs = "calls (run_main (failing_env SetupConfigurationWebhook) default_flags) []"
  have "List.member ?cs (Did (NewManager ControllerManager (mgrOptions default_flags)) None)" by code_simp
  then have "Did (NewManager ControllerManager (mgrOptions default_flags)) None \<in> set ?cs" by simp
  from servers_are_configured [OF this] show ?thesis by (simp add: default_flags_def)
qed

end
