(* ===== verification/Webhook.thy ===== *)
theory Webhook
  imports Api_Types
begin

text \<open>
  \<^verbatim>\<open>internal/webhook/v1/configuration_webhook.go\<close>: the mutating webhook that fills in the resource
  requests and limits a \<^verbatim>\<open>Configuration\<close> leaves out. Quantities belong to a library
  (\<^verbatim>\<open>k8s.io/apimachinery/pkg/api/resource\<close>): parsing one and testing one for zero are the parameters
  \<open>MustParse\<close> and \<open>IsZero\<close>, and what the defaulter relies on is \<open>quantity_laws\<close>.
\<close>

section \<open>Quantities\<close>

record quantity_ops =
  MustParse :: "string \<Rightarrow> quantity"
  IsZero :: "quantity \<Rightarrow> bool"
  zero_quantity :: quantity  \<comment> \<open>the zero value of the Go struct\<close>

text \<open>
  A text of the documented quantity syntax: a number and a suffix. Its value is zero exactly when all
  its digits are.
\<close>

definition is_digit :: "char \<Rightarrow> bool" where
  "is_digit c \<longleftrightarrow> CHR ''0'' \<le> c \<and> c \<le> CHR ''9''"

definition quantity_text :: "string \<Rightarrow> bool" where
  "quantity_text s \<longleftrightarrow> takeWhile is_digit s \<noteq> [] \<and>
     dropWhile is_digit s \<in> {'''', ''m'', ''k'', ''M'', ''G'', ''T'', ''Ki'', ''Mi'', ''Gi'', ''Ti''}"

definition quantity_laws :: "quantity_ops \<Rightarrow> bool" where
  "quantity_laws Q \<longleftrightarrow> IsZero Q (zero_quantity Q) \<and>
     (\<forall>s. quantity_text s \<longrightarrow>
        (IsZero Q (MustParse Q s) \<longleftrightarrow> list_all (\<lambda>c. c = CHR ''0'') (takeWhile is_digit s)))"

text \<open>A reference instance: quantities are their texts.\<close>

definition ref_quantity_ops :: quantity_ops where
  "ref_quantity_ops = \<lparr>MustParse = (\<lambda>s. s),
     IsZero = (\<lambda>q. list_all (\<lambda>c. c = CHR ''0'') (takeWhile is_digit q)), zero_quantity = ''0''\<rparr>"

section \<open>The defaults\<close>

text \<open>A default sets no ephemeral storage request: the field keeps Go's zero value.\<close>

definition default_spec :: "quantity_ops \<Rightarrow> string \<Rightarrow> string \<Rightarrow> string \<Rightarrow> string \<Rightarrow> string \<Rightarrow> ResourceSpec" where
  "default_spec Q reqCPU reqMemory limCPU limMemory limStorage =
     \<lparr>Requests = \<lparr>CPU = MustParse Q reqCPU, Memory = MustParse Q reqMemory, EphemeralStorage = zero_quantity Q\<rparr>,
      Limits = \<lparr>CPU = MustParse Q limCPU, Memory = MustParse Q limMemory, EphemeralStorage = MustParse Q limStorage\<rparr>\<rparr>"

definition ovnCentralDefaultResourceSpec :: "quantity_ops \<Rightarrow> ResourceSpec" where
  "ovnCentralDefaultResourceSpec Q = default_spec Q ''300m'' ''200Mi'' ''3'' ''4Gi'' ''1Gi''"

definition ovsOVNDefaultResourceSpec :: "quantity_ops \<Rightarrow> ResourceSpec" where
  "ovsOVNDefaultResourceSpec Q = default_spec Q ''200m'' ''200Mi'' ''2'' ''1000Mi'' ''1Gi''"

definition kubeOVNControllerDefaultResourceSpec :: "quantity_ops \<Rightarrow> ResourceSpec" where
  "kubeOVNControllerDefaultResourceSpec Q = default_spec Q ''200m'' ''200Mi'' ''1000m'' ''1Gi'' ''1Gi''"

definition kubeOVNCNIDefaultResourceSpec :: "quantity_ops \<Rightarrow> ResourceSpec" where
  "kubeOVNCNIDefaultResourceSpec Q = default_spec Q ''100m'' ''100Mi'' ''1000m'' ''1Gi'' ''1Gi''"

definition kubeOVNPingerDefaultResourceSpec :: "quantity_ops \<Rightarrow> ResourceSpec" where
  "kubeOVNPingerDefaultResourceSpec Q = default_spec Q ''100m'' ''100Mi'' ''200m'' ''400Mi'' ''1Gi''"

definition kubeOVNMonitorDefaultResourceSpec :: "quantity_ops \<Rightarrow> ResourceSpec" where
  "kubeOVNMonitorDefaultResourceSpec Q = default_spec Q ''200m'' ''200Mi'' ''200m'' ''200Mi'' ''1Gi''"

section \<open>Defaulting\<close>

definition applyDefaults :: "quantity_ops \<Rightarrow> ResourceSpec \<Rightarrow> ResourceSpec \<Rightarrow> ResourceSpec" where
  "applyDefaults Q resource defaultValues =
     (let resource = (if IsZero Q (CPU (Requests resource))
            then resource\<lparr>Requests := (Requests resource)\<lparr>CPU := CPU (Requests defaultValues)\<rparr>\<rparr> else resource);
          resource = (if IsZero Q (Memory (Requests resource))
            then resource\<lparr>Requests := (Requests resource)\<lparr>Memory := Memory (Requests defaultValues)\<rparr>\<rparr> else resource);
          resource = (if IsZero Q (CPU (Limits resource))
            then resource\<lparr>Limits := (Limits resource)\<lparr>CPU := CPU (Limits defaultValues)\<rparr>\<rparr> else resource);
          resource = (if IsZero Q (Memory (Limits resource))
            then resource\<lparr>Limits := (Limits resource)\<lparr>Memory := Memory (Limits defaultValues)\<rparr>\<rparr> else resource);
          resource = (if IsZero Q (EphemeralStorage (Requests resource))
            then resource\<lparr>Requests := (Requests resource)\<lparr>EphemeralStorage := EphemeralStorage (Requests defaultValues)\<rparr>\<rparr>
            else resource);
          resource = (if IsZero Q (EphemeralStorage (Limits resource))
            then resource\<lparr>Limits := (Limits resource)\<lparr>EphemeralStorage := EphemeralStorage (Limits defaultValues)\<rparr>\<rparr>
            else resource)
      in resource)"

definition ApplyConfigurationDefaults :: "quantity_ops \<Rightarrow> Configuration \<Rightarrow> Configuration" where
  "ApplyConfigurationDefaults Q config =
     config\<lparr>Spec := (Spec config)\<lparr>
       OVNCentral := applyDefaults Q (OVNCentral (Spec config)) (ovnCentralDefaultResourceSpec Q),
       OVSOVN := applyDefaults Q (OVSOVN (Spec config)) (ovsOVNDefaultResourceSpec Q),
       KubeOVNController := applyDefaults Q (KubeOVNController (Spec config)) (kubeOVNControllerDefaultResourceSpec Q),
       KubeOVNCNI := applyDefaults Q (KubeOVNCNI (Spec config)) (kubeOVNCNIDefaultResourceSpec Q),
       KubeOVNPinger := applyDefaults Q (KubeOVNPinger (Spec config)) (kubeOVNPingerDefaultResourceSpec Q),
       KubeOVNMonitor := applyDefaults Q (KubeOVNMonitor (Spec config)) (kubeOVNMonitorDefaultResourceSpec Q)\<rparr>\<rparr>"

text \<open>A \<^verbatim>\<open>runtime.Object\<close> is a \<^verbatim>\<open>Configuration\<close> or an object of another type.\<close>

datatype runtime_Object = ConfigurationObject Configuration | OtherObject string

fun Default :: "quantity_ops \<Rightarrow> runtime_Object \<Rightarrow> goerror + runtime_Object" where
  "Default Q (ConfigurationObject configuration) = Inr (ConfigurationObject (ApplyConfigurationDefaults Q configuration))"
| "Default Q (OtherObject t) = Inl (EMsg (''expected an Configuration object but got '' @ t))"

section \<open>Specification\<close>

text \<open>The six resource specifications, and the six quantities of one, each with its getter.\<close>

definition resource_specs :: "ConfigurationSpec \<Rightarrow> ResourceSpec list" where
  "resource_specs s = [OVNCentral s, OVSOVN s, KubeOVNController s, KubeOVNCNI s, KubeOVNPinger s, KubeOVNMonitor s]"

definition default_specs :: "quantity_ops \<Rightarrow> ResourceSpec list" where
  "default_specs Q = [ovnCentralDefaultResourceSpec Q, ovsOVNDefaultResourceSpec Q, kubeOVNControllerDefaultResourceSpec Q,
     kubeOVNCNIDefaultResourceSpec Q, kubeOVNPingerDefaultResourceSpec Q, kubeOVNMonitorDefaultResourceSpec Q]"

definition quantities :: "ResourceSpec \<Rightarrow> quantity list" where
  "quantities r = [CPU (Requests r), Memory (Requests r), EphemeralStorage (Requests r),
     CPU (Limits r), Memory (Limits r), EphemeralStorage (Limits r)]"

text \<open>The reference definition of defaulting: each quantity is replaced if it is zero.\<close>

definition or_default :: "quantity_ops \<Rightarrow> quantity \<Rightarrow> quantity \<Rightarrow> quantity" where
  "or_default Q q d = (if IsZero Q q then d else q)"

text \<open>Everything of a configuration except the six resource specifications.\<close>

definition without_resources :: "Configuration \<Rightarrow> ResourceSpec \<Rightarrow> Configuration" where
  "without_resources c r = c\<lparr>Spec := (Spec c)\<lparr>OVNCentral := r, OVSOVN := r, KubeOVNController := r, KubeOVNCNI := r,
     KubeOVNPinger := r, KubeOVNMonitor := r\<rparr>\<rparr>"

section \<open>Lemmas\<close>

lemma applyDefaults_fields:
  "applyDefaults Q r d =
     \<lparr>Requests = \<lparr>CPU = or_default Q (CPU (Requests r)) (CPU (Requests d)),
        Memory = or_default Q (Memory (Requests r)) (Memory (Requests d)),
        EphemeralStorage = or_default Q (EphemeralStorage (Requests r)) (EphemeralStorage (Requests d))\<rparr>,
      Limits = \<lparr>CPU = or_default Q (CPU (Limits r)) (CPU (Limits d)),
        Memory = or_default Q (Memory (Limits r)) (Memory (Limits d)),
        EphemeralStorage = or_default Q (EphemeralStorage (Limits r)) (EphemeralStorage (Limits d))\<rparr>\<rparr>"
  by (cases r; cases "Requests r"; cases "Limits r") (simp add: applyDefaults_def or_default_def Let_def)

lemma or_default_idem [simp]: "or_default Q (or_default Q q d) d = or_default Q q d"
  by (simp add: or_default_def)

lemma applyDefaults_idem: "applyDefaults Q (applyDefaults Q r d) d = applyDefaults Q r d"
  by (simp add: applyDefaults_fields)

lemma quantities_applyDefaults:
  "quantities (applyDefaults Q r d) = map2 (or_default Q) (quantities r) (quantities d)"
  by (simp add: applyDefaults_fields quantities_def)

lemma resource_specs_defaults:
  "resource_specs (Spec (ApplyConfigurationDefaults Q c)) =
     map2 (applyDefaults Q) (resource_specs (Spec c)) (default_specs Q)"
  by (simp add: resource_specs_def default_specs_def ApplyConfigurationDefaults_def)

text \<open>Every default but the ephemeral storage request is a quantity other than zero.\<close>

lemma takeWhile_digit_texts:
  "quantity_text s \<Longrightarrow> list_ex (\<lambda>c. c \<noteq> CHR ''0'') (takeWhile is_digit s) \<Longrightarrow> quantity_laws Q \<Longrightarrow> \<not> IsZero Q (MustParse Q s)"
  by (auto simp: quantity_laws_def list_all_iff list_ex_iff)

lemma default_texts:
  assumes "quantity_laws Q"
  shows "\<not> IsZero Q (MustParse Q ''300m'')"
    and "\<not> IsZero Q (MustParse Q ''200m'')"
    and "\<not> IsZero Q (MustParse Q ''100m'')"
    and "\<not> IsZero Q (MustParse Q ''1000m'')"
    and "\<not> IsZero Q (MustParse Q ''2'')"
    and "\<not> IsZero Q (MustParse Q ''3'')"
    and "\<not> IsZero Q (MustParse Q ''100Mi'')"
    and "\<not> IsZero Q (MustParse Q ''200Mi'')"
    and "\<not> IsZero Q (MustParse Q ''400Mi'')"
    and "\<not> IsZero Q (MustParse Q ''1000Mi'')"
    and "\<not> IsZero Q (MustParse Q ''1Gi'')"
    and "\<not> IsZero Q (MustParse Q ''4Gi'')"
  by (rule takeWhile_digit_texts [OF _ _ assms]; code_simp)+

lemma default_spec_nonzero:
  assumes "\<not> IsZero Q (MustParse Q a)" and "\<not> IsZero Q (MustParse Q b)" and "\<not> IsZero Q (MustParse Q c)"
    and "\<not> IsZero Q (MustParse Q d)" and "\<not> IsZero Q (MustParse Q e)" and "x = default_spec Q a b c d e"
  shows "\<not> IsZero Q (CPU (Requests x)) \<and> \<not> IsZero Q (Memory (Requests x)) \<and>
     \<not> IsZero Q (CPU (Limits x)) \<and> \<not> IsZero Q (Memory (Limits x)) \<and> \<not> IsZero Q (EphemeralStorage (Limits x))"
  using assms by (simp add: default_spec_def)

lemmas default_spec_defs = ovnCentralDefaultResourceSpec_def ovsOVNDefaultResourceSpec_def
  kubeOVNControllerDefaultResourceSpec_def kubeOVNCNIDefaultResourceSpec_def kubeOVNPingerDefaultResourceSpec_def
  kubeOVNMonitorDefaultResourceSpec_def

lemma default_nonzero:
  assumes "quantity_laws Q" and "x \<in> set (default_specs Q)"
  shows "\<not> IsZero Q (CPU (Requests x)) \<and> \<not> IsZero Q (Memory (Requests x)) \<and>
     \<not> IsZero Q (CPU (Limits x)) \<and> \<not> IsZero Q (Memory (Limits x)) \<and> \<not> IsZero Q (EphemeralStorage (Limits x))"
  using assms(2) unfolding default_specs_def default_spec_defs list.set insert_iff empty_iff
  apply (elim disjE FalseE)
  apply (erule default_spec_nonzero [rotated 5], (rule default_texts [OF assms(1)])+)+
  done

lemma ref_quantity_laws: "quantity_laws ref_quantity_ops"
  by (simp add: quantity_laws_def ref_quantity_ops_def)

section \<open>Properties\<close>

text \<open>
  C32: defaulting is field-wise: in each of the six resource specifications every quantity that is zero
  is replaced by that specification's own default and every other quantity is kept, and nothing else of
  the configuration changes.
\<close>

theorem defaulting_is_fieldwise:
  "map quantities (resource_specs (Spec (ApplyConfigurationDefaults Q c))) =
     map2 (map2 (or_default Q)) (map quantities (resource_specs (Spec c))) (map quantities (default_specs Q)) \<and>
   without_resources (ApplyConfigurationDefaults Q c) r = without_resources c r"
proof
  show "map quantities (resource_specs (Spec (ApplyConfigurationDefaults Q c))) =
     map2 (map2 (or_default Q)) (map quantities (resource_specs (Spec c))) (map quantities (default_specs Q))"
    unfolding resource_specs_defaults
    by (simp add: quantities_applyDefaults resource_specs_def default_specs_def)
  show "without_resources (ApplyConfigurationDefaults Q c) r = without_resources c r"
    by (simp add: without_resources_def ApplyConfigurationDefaults_def)
qed

text \<open>
  the webhook is idempotent: what it has defaulted once, on creation, it leaves as it is when the
  resource is updated; an object of another type is rejected.
\<close>

theorem defaulting_is_idempotent:
  "ebind (Default Q ob) (Default Q) = Default Q ob \<and>
   (isl (Default Q ob) \<longleftrightarrow> (\<forall>c. ob \<noteq> ConfigurationObject c))"
  by (cases ob) (simp_all add: ApplyConfigurationDefaults_def applyDefaults_idem)

text \<open>
  after defaulting every request and limit of the six components is a quantity other than zero,
  except that the ephemeral storage request has no default and stays as the user left it.
\<close>

theorem defaulted_resources_are_complete:
  assumes "quantity_laws Q" and "r \<in> set (resource_specs (Spec (ApplyConfigurationDefaults Q c)))"
  shows "\<not> IsZero Q (CPU (Requests r)) \<and> \<not> IsZero Q (Memory (Requests r)) \<and>
    \<not> IsZero Q (CPU (Limits r)) \<and> \<not> IsZero Q (Memory (Limits r)) \<and> \<not> IsZero Q (EphemeralStorage (Limits r))"
proof -
  from assms(2) obtain r0 d where r: "r = applyDefaults Q r0 d" "d \<in> set (default_specs Q)"
    unfolding resource_specs_defaults by (auto dest: set_zip_rightD)
  with default_nonzero [OF assms(1) r(2)] show ?thesis
    by (simp add: applyDefaults_fields or_default_def)
qed

theorem defaulted_resources_are_complete_witness:
  "\<not> IsZero ref_quantity_ops (Memory (Limits (OVNCentral (Spec (ApplyConfigurationDefaults ref_quantity_ops zero_Configuration)))))"
proof -
  have "OVNCentral (Spec (ApplyConfigurationDefaults ref_quantity_ops zero_Configuration)) \<in>
      set (resource_specs (Spec (ApplyConfigurationDefaults ref_quantity_ops zero_Configuration)))"
    by (simp add: resource_specs_def)
  from defaulted_resources_are_complete [OF ref_quantity_laws this] show ?thesis by simp
qed

end
