(* ===== verification/Spec2Isabelle.thy ===== *)
theory Spec2Isabelle
  imports Operator Convergence Values_Roundtrip Install CRDs In_Place Test_Infra Manager Webhook Bootstrap Node_Properties Health_Properties
    Render_Properties Config_Properties Template_Variables
begin

text \<open>
  A verification of the Kube-OVN operator (\<^verbatim>\<open>harvester/kubeovn-operator\<close>, Go).

  \<^bold>\<open>The program.\<close> The operator installs Kube-OVN in a Kubernetes cluster from one custom resource, the
  \<^verbatim>\<open>Configuration\<close>. \<^verbatim>\<open>cmd/main.go\<close> reads the flags, builds two controller-runtime managers and
  registers three reconcilers, a defaulting webhook and a bootstrapper. The configuration reconciler
  renders Helm-like templates from the resource and applies the objects, records the master nodes and the
  conditions in the status, and cleans up when the resource is deleted. The node reconciler puts a
  finalizer on every node and takes a deleted node out of the OVN databases by running scripts in the
  leader pods. The health reconciler runs status commands in the leader pods and records the result in
  conditions. The webhook fills in resource requests and limits. The bootstrapper creates the resource
  from a ConfigMap if there is none. The reconcilers share the status and the finalizers of the resource
  and of the nodes through the API server, and the helpers that run commands.

  \<^bold>\<open>The model.\<close> Code that talks to the cluster is a program of the state monad over a trace of calls
  (\<open>Prelude\<close>, \<open>Cluster\<close>): each call asks an environment for its answer, which may depend on everything
  that was called before, and appends an event with call and answer. So a theorem that holds for every
  environment holds for every behaviour of the API server, with other clients writing at the same time.
  The code keeps no state of its own between reconciles. Errors are values (\<^verbatim>\<open>goerror\<close>, sums and options);
  times are nanoseconds, and durations are kept at 64 bits.

  \<^item> \<open>Prelude\<close>: the monad with its rules \<open>emits\<close> (every call satisfies a predicate) and \<open>obeys\<close> (calls
    and result satisfy a relation), errors, \<^verbatim>\<open>slices\<close> and \<^verbatim>\<open>strings\<close> functions, and the locale
    \<open>reader\<close> of programs that read an object and then act on it, interpreted for every reconciler.
  \<^item> \<open>Api_Types\<close>: \<^verbatim>\<open>api/v1/configuration_types.go\<close>, the types, constants and condition methods. The
    condition list is shown to implement a map, and the locale \<open>condition_store\<close> is its interface.
  \<^item> \<open>Go_Template\<close>: the part of \<^verbatim>\<open>text/template\<close> that the templates use: parsing with whitespace
    control and the parser's checks of functions, variables and pipelines, evaluation of fields, variables, pipelines, \<^verbatim>\<open>if\<close>, \<^verbatim>\<open>range\<close>, \<^verbatim>\<open>with\<close>, and the built-in functions.
  \<^item> \<open>Templates_Small\<close>, \<open>Templates_ClusterRoles\<close>, \<open>Templates_Daemonsets\<close>, \<open>Templates_Deployments\<close>,
    \<open>Templates\<close>: \<^verbatim>\<open>internal/templates\<close>, each template as its tokens, the lists and \<^verbatim>\<open>OrderedObjectList\<close>.
    \<open>Template_Parsing\<close>: when tokens parse, and the discipline of declared variables, which every template
    keeps; \<open>Template_Variables\<close>: an execution under that discipline never meets an undefined variable.
  \<^item> \<open>CRD_Lines\<close>, \<open>CRD_Texts_1\<close> to \<open>CRD_Texts_5\<close>: \<^verbatim>\<open>internal/templates/customresourcedefinitions.go\<close>, every
    line of the 24 CRD texts with its indentation. \<open>CRDs\<close>: the list of them; what they define, read from their
    lines; that they render to the same objects whatever the configuration is; and that the clean-up covers
    every resource they define.
  \<^item> \<open>Memory\<close>, \<open>Deep_Copy\<close>: \<^verbatim>\<open>api/v1/zz_generated.deepcopy.go\<close> on a memory with addresses. The locale
    \<open>deep_copy\<close> is the contract of a copy function, interpreted for every type; \<open>array_heap\<close>, \<open>slice_copy\<close> and
    \<open>struct_copy\<close> lift it to slices, loops and pointers. A copy is equal to the original and shares no cell with it.
    \<open>In_Place\<close>: the operations that change the working copy in place implement those on values and do not reach
    the object that was read.
  \<^item> \<open>Render\<close>, \<open>Render_Properties\<close>: \<^verbatim>\<open>internal/render/render.go\<close>. The values the templates see, that
    every template parses, that switched-off objects are skipped, that a list of templates yields all its
    objects or an error, and the fields no value exists for. \<open>Values_Roundtrip\<close>: the values hold the whole
    specification.
  \<^item> \<open>Executor\<close>: \<^verbatim>\<open>internal/executor/executor.go\<close>.
  \<^item> \<open>Config_Controller\<close>, \<open>Config_Properties\<close>, \<open>Install\<close>, \<open>Convergence\<close>:
    \<^verbatim>\<open>internal/controller/configuration_controller.go\<close>. The calls each phase permits; that deletion waits
    for the custom resources and then completes; that the status says Deployed only after everything was
    applied, that a failed apply is reported, and that an installation completes in a cooperative cluster;
    the steps' results on each branch (locale \<open>config_step\<close>, interpreted for each step); the watches. The
    loop of reconciles and API server reaches a state it no longer changes.
  \<^item> \<open>Node_Controller\<close>, \<open>Node_Properties\<close>: \<^verbatim>\<open>internal/controller/node_controller.go\<close>. The permitted calls;
    that a node is released only after its clean-up, and is released when the leaders answer; what happens
    on errors.
  \<^item> \<open>Health_Controller\<close>, \<open>Health_Properties\<close>: \<^verbatim>\<open>internal/controller/healthcheck_controller.go\<close>. The
    permitted calls, the rate limit, what the conditions say, where the commands run, and the range in which
    the interval is not cut off by 64-bit nanoseconds.
  \<^item> \<open>Webhook\<close>: \<^verbatim>\<open>internal/webhook/v1/configuration_webhook.go\<close>. Defaulting equals a field-wise reference,
    is idempotent, and leaves only the request for ephemeral storage unset.
  \<^item> \<open>Bootstrap\<close>: \<^verbatim>\<open>internal/bootstrap/configuration.go\<close>. What is created, when, and in how many attempts.
  \<^item> \<open>Manager\<close>: \<^verbatim>\<open>cmd/main.go\<close>. The command line with Go's \<^verbatim>\<open>flag\<close> package, the options, the order of the set-up, which errors end the program.
  \<^item> \<open>Test_Infra\<close>: \<^verbatim>\<open>internal/testinfra\<close>, the k3d or existing cluster of the controller tests.
  \<^item> \<open>Operator\<close>: the reconcilers and the bootstrapper together, as a transition system of all interleavings
    of their calls, with the invariant that every write is justified by an earlier read (locale
    \<open>discipline\<close>, interpreted on the operator's runs).

  \<^bold>\<open>Parameters.\<close> What is not in the repository is an argument. \<open>env\<close>: the API server, the clock, the
  remote execution, and the functions of Sprig and Helm available to templates. \<open>libs\<close>: the pure library
  functions, with their documented behaviour as hypotheses where it is needed: \<open>finalizer_laws\<close>
  (\<^verbatim>\<open>controllerutil\<close>), \<open>nested_field_laws\<close> (\<^verbatim>\<open>unstructured\<close>), \<open>owner_reference_laws\<close>. \<open>quantity_ops\<close> with
  \<open>quantity_laws\<close>: resource quantities. The back-off loop of \<^verbatim>\<open>wait\<close> with \<open>backoff_laws\<close> and, for progress,
  \<open>never_cancelled\<close>. \<open>setup_env\<close>: the calls of \<^verbatim>\<open>main\<close>; \<open>library_flags\<close>: the flags that libraries register besides those of \<^verbatim>\<open>main\<close>. \<open>k3d_env\<close>: those of k3d.
  \<open>decodes_crds\<close>: the YAML decoder finds in a CRD text the group, names, scope and versions its lines give.
  \<open>copiers\<close> with \<open>copier_laws\<close>: the copy functions of apimachinery's own types. How much room a growing slice gets
  is the argument \<open>spare\<close>. Progress theorems state what they need of the
  cluster: \<open>cooperative\<close>, \<open>renders\<close> and \<open>masters_found\<close> (or \<open>masters_are\<close>, for nodes that stay the same) for an installation, \<open>nothing_left\<close> for a deletion,
  \<open>leaders_up\<close> for commands. Each hypothesis has a reference instance that satisfies it, used by the witnesses.
  The order in which Go iterates over \<^verbatim>\<open>OrderedObjectList\<close> is an argument, any permutation of its entries.

  \<^bold>\<open>Bounds.\<close> Every loop of the operator is a structural recursion over a finite list, so all
  definitions are total and no fuel is needed (the flags are read argument by argument). The retry makes at most six attempts, the number in the
  code. Intervals are exact up to 9223372036 seconds.

  \<^bold>\<open>Not modelled.\<close> What the OpenAPI schemas in the CRD texts mean: the operator never looks at them and passes
  them to the API server, so their lines are there but are not interpreted. Pointers inside apimachinery's types
  (object metadata, conditions, quantities), which are values here, and \<^verbatim>\<open>TypeMeta\<close>. Kubebuilder markers, which the
  API server enforces. Logging and the configuration of the logger. Registration with controller-runtime beyond its
  order and errors, its work queues and leader election. Scopes of error texts: error messages are kept without the
  values formatted into them. Test cases, manifests and build files. Differences between nil and empty slices,
  outside \<open>Memory\<close>. The rounding of integers beyond 53 bits when they pass through JSON numbers, and that of stored
  times to whole seconds.

  \<^bold>\<open>Plan.\<close> Later work can add the work queue with its retries, and with it deletions and several controllers to
  the loop of \<open>Convergence\<close>, and read the schemas as far as the specification's own CRD is concerned.
\<close>

end
